(* ===== verification/Prelude.thy ===== *)
theory Prelude
  imports Complex_Main "HOL-Library.Char_ord" "HOL-Library.List_Lexorder" "HOL-Library.Log_Nat"
begin

text \<open>
  The shared vocabulary of the development: results with errors and panics as values, the
  fixed-width unsigned integers of the code as naturals with saturation and wrap-around written
  out, the iterator idioms of the source (first minimum, last maximum, last position) and the
  generic lemmas about them.  Strings are byte lists; \<open>List_Lexorder\<close> gives them the
  bytewise order of Rust's \<open>str\<close>.
\<close>

named_theorems option_defs \<open>definitions of the option combinators\<close>
named_theorems int_defs \<open>definitions of the fixed-width integer operations\<close>

section \<open>Results\<close>

text \<open>\<open>Bail\<close> is an \<open>anyhow\<close> error the code returns, \<open>Panic\<close> a Rust panic.\<close>

datatype err = Bail string | Panic string

type_synonym 'a res = "err + 'a"

fun is_panic :: "'a res \<Rightarrow> bool" where
  "is_panic (Inl (Panic _)) = True"
| "is_panic _ = False"

fun is_ok :: "'a res \<Rightarrow> bool" where
  "is_ok (Inr _) = True"
| "is_ok (Inl _) = False"

definition bind_res :: "'a res \<Rightarrow> ('a \<Rightarrow> 'b res) \<Rightarrow> 'b res" where
  "bind_res r f = (case r of Inl e \<Rightarrow> Inl e | Inr x \<Rightarrow> f x)"

lemma bind_res_Inr_iff: "bind_res r f = Inr y \<longleftrightarrow> (\<exists>x. r = Inr x \<and> f x = Inr y)"
  by (simp add: bind_res_def split: sum.splits)

lemma bind_res_simps [simp]: "bind_res (Inl e) f = Inl e" "bind_res (Inr x) f = f x"
  by (simp_all add: bind_res_def)

text \<open>A check that bails: the first failing check of a list of checks wins.\<close>

definition ensure :: "bool \<Rightarrow> string \<Rightarrow> unit res" where
  "ensure ok msg = (if ok then Inr () else Inl (Bail msg))"

fun all_ok :: "unit res list \<Rightarrow> unit res" where
  "all_ok [] = Inr ()"
| "all_ok (r # rs) = bind_res r (\<lambda>_. all_ok rs)"

lemma ensure_ok [simp]: "ensure ok msg = Inr () \<longleftrightarrow> ok" "ensure ok msg = Inr u \<longleftrightarrow> ok"
  by (simp_all add: ensure_def)

lemma all_ok_iff: "all_ok rs = Inr () \<longleftrightarrow> (\<forall>r \<in> set rs. r = Inr ())"
  by (induction rs) (auto simp: bind_res_Inr_iff)

section \<open>Fixed-width integers\<close>

definition u32_max :: nat where [int_defs]: "u32_max = 4294967295"
definition u64_max :: nat where [int_defs]: "u64_max = 18446744073709551615"
definition i64_max :: nat where [int_defs]: "i64_max = 9223372036854775807"

definition sat_add :: "nat \<Rightarrow> nat \<Rightarrow> nat" where
  [int_defs]: "sat_add a b = min (a + b) u32_max"

definition sat_sub :: "nat \<Rightarrow> nat \<Rightarrow> nat" where
  [int_defs]: "sat_sub a b = a - b"

text \<open>Plain \<open>+\<close> and \<open>sum\<close> on \<open>u32\<close> wrap in a release build.\<close>

definition wrap32 :: "nat \<Rightarrow> nat" where
  [int_defs]: "wrap32 n = n mod 4294967296"

text \<open>\<open>x as i64\<close> on a \<open>u64\<close>, and \<open>x.max(0) as u64\<close> on an \<open>i64\<close>.\<close>

definition as_i64 :: "nat \<Rightarrow> int" where
  [int_defs]: "as_i64 n = (if n \<le> i64_max then int n else int n - 18446744073709551616)"

definition max0_as_u64 :: "int \<Rightarrow> nat" where
  [int_defs]: "max0_as_u64 i = nat (max i 0)"

text \<open>\<open>Ord::clamp\<close> asserts \<open>min <= max\<close>.\<close>

definition clamp_u32 :: "nat \<Rightarrow> nat \<Rightarrow> nat \<Rightarrow> nat res" where
  "clamp_u32 x lo hi = (if lo \<le> hi then Inr (max lo (min x hi)) else Inl (Panic ''clamp: min > max''))"

lemma clamp_u32_ok: "lo \<le> hi \<Longrightarrow> clamp_u32 x lo hi = Inr (max lo (min x hi))"
  by (simp add: clamp_u32_def)

lemma sat_add_le [simp]: "sat_add a b \<le> u32_max" "sat_add a b \<le> a + b"
  by (simp_all add: sat_add_def)

lemma sat_add_ge: "a \<le> u32_max \<Longrightarrow> a \<le> sat_add a b"
  by (simp add: sat_add_def)

lemma sat_add_mono: "a \<le> a' \<Longrightarrow> b \<le> b' \<Longrightarrow> sat_add a b \<le> sat_add a' b'"
  by (simp add: sat_add_def)

lemma sat_add_exact: "a + b \<le> u32_max \<Longrightarrow> sat_add a b = a + b"
  by (simp add: sat_add_def)

lemma sat_add_zero [simp]: "sat_add 0 b = min b u32_max" "a \<le> u32_max \<Longrightarrow> sat_add a 0 = a"
  by (simp_all add: sat_add_def)

lemma sat_sub_le [simp]: "sat_sub a b \<le> a"
  by (simp add: sat_sub_def)

lemma wrap32_id [simp]: "n \<le> u32_max \<Longrightarrow> wrap32 n = n"
  by (simp add: wrap32_def u32_max_def)

lemma wrap32_le [simp]: "wrap32 n \<le> u32_max"
  unfolding wrap32_def u32_max_def using mod_less_divisor [of 4294967296 n] by linarith

text \<open>The saturating fold the code sums worker counts with.\<close>

definition sat_sum :: "nat list \<Rightarrow> nat" where
  "sat_sum xs = foldl sat_add 0 xs"

lemma foldl_sat_add: "a \<le> u32_max \<Longrightarrow> foldl sat_add a xs = min (a + sum_list xs) u32_max"
  by (induction xs arbitrary: a) (auto simp: sat_add_def)

lemma sat_sum_eq: "sat_sum xs = min (sum_list xs) u32_max"
  by (simp add: sat_sum_def foldl_sat_add)

section \<open>Options\<close>

definition is_some_and :: "('a \<Rightarrow> bool) \<Rightarrow> 'a option \<Rightarrow> bool" where
  [option_defs]: "is_some_and p x = (case x of None \<Rightarrow> False | Some v \<Rightarrow> p v)"

definition is_none_or :: "('a \<Rightarrow> bool) \<Rightarrow> 'a option \<Rightarrow> bool" where
  [option_defs]: "is_none_or p x = (case x of None \<Rightarrow> True | Some v \<Rightarrow> p v)"

definition opt_filter :: "('a \<Rightarrow> bool) \<Rightarrow> 'a option \<Rightarrow> 'a option" where
  [option_defs]: "opt_filter p x = (case x of None \<Rightarrow> None | Some v \<Rightarrow> if p v then Some v else None)"

definition unwrap_or :: "'a \<Rightarrow> 'a option \<Rightarrow> 'a" where
  [option_defs]: "unwrap_or d x = (case x of None \<Rightarrow> d | Some v \<Rightarrow> v)"

definition or_opt :: "'a option \<Rightarrow> 'a option \<Rightarrow> 'a option" where
  [option_defs]: "or_opt x y = (case x of None \<Rightarrow> y | Some v \<Rightarrow> Some v)"

lemma is_some_and_simps [simp]:
  "is_some_and p None = False" "is_some_and p (Some v) = p v"
  "is_none_or p None = True" "is_none_or p (Some v) = p v"
  "opt_filter p None = None" "opt_filter p (Some v) = (if p v then Some v else None)"
  "unwrap_or d None = d" "unwrap_or d (Some v) = v"
  "or_opt None y = y" "or_opt (Some v) y = Some v"
  by (simp_all add: option_defs)

lemma opt_filter_Some: "opt_filter p x = Some v \<longleftrightarrow> x = Some v \<and> p v"
  by (cases x) auto

section \<open>Iterators\<close>

text \<open>\<open>Iterator::min_by_key\<close> returns the first minimum, \<open>max_by\<close> the last maximum.\<close>

fun min_by_key :: "('a \<Rightarrow> 'b::linorder) \<Rightarrow> 'a list \<Rightarrow> 'a option" where
  "min_by_key f [] = None"
| "min_by_key f (x # xs) =
     (case min_by_key f xs of None \<Rightarrow> Some x | Some y \<Rightarrow> if f x \<le> f y then Some x else Some y)"

text \<open>\<open>max_by\<close> folds with \<open>if cmp(acc, x) == Greater then acc else x\<close>.\<close>

fun max_by_acc :: "('a \<Rightarrow> 'a \<Rightarrow> bool) \<Rightarrow> 'a \<Rightarrow> 'a list \<Rightarrow> 'a" where
  "max_by_acc gt acc [] = acc"
| "max_by_acc gt acc (x # xs) = max_by_acc gt (if gt acc x then acc else x) xs"

fun max_by :: "('a \<Rightarrow> 'a \<Rightarrow> bool) \<Rightarrow> 'a list \<Rightarrow> 'a option" where
  "max_by gt [] = None"
| "max_by gt (x # xs) = Some (max_by_acc gt x xs)"

text \<open>\<open>rposition\<close>: the index of the last element satisfying the predicate.\<close>

fun rposition :: "('a \<Rightarrow> bool) \<Rightarrow> 'a list \<Rightarrow> nat option" where
  "rposition p [] = None"
| "rposition p (x # xs) =
     (case rposition p xs of Some i \<Rightarrow> Some (Suc i) | None \<Rightarrow> if p x then Some 0 else None)"

lemma min_by_key_None [simp]: "min_by_key f xs = None \<longleftrightarrow> xs = []"
  by (cases xs) (auto split: option.splits)

lemma min_by_key_Some: "min_by_key f xs = Some x \<Longrightarrow> x \<in> set xs \<and> (\<forall>y \<in> set xs. f x \<le> f y)"
  by (induction xs arbitrary: x) (fastforce split: option.splits if_splits)+

lemma max_by_acc_in: "max_by_acc gt a xs \<in> set (a # xs)"
proof (induction xs arbitrary: a)
  case (Cons x xs)
  then show ?case using Cons [of a] Cons [of x] by auto
qed simp

lemma max_by_in: "max_by gt xs = Some x \<Longrightarrow> x \<in> set xs"
  using max_by_acc_in by (cases xs) (force simp: max_by_acc_in)+

lemma max_by_None [simp]: "max_by gt xs = None \<longleftrightarrow> xs = []"
  by (cases xs) auto

lemma rposition_bound: "rposition p xs = Some i \<Longrightarrow> i < length xs \<and> p (xs ! i)"
  by (induction xs arbitrary: i) (auto split: option.splits if_splits)

lemma rposition_None: "rposition p xs = None \<longleftrightarrow> (\<forall>x \<in> set xs. \<not> p x)"
  by (induction xs) (auto split: option.splits)

lemma rposition_last: "rposition p xs = Some i \<Longrightarrow> i < j \<Longrightarrow> j < length xs \<Longrightarrow> \<not> p (xs ! j)"
proof (induction xs arbitrary: i j)
  case (Cons x xs)
  then show ?case
    by (cases j) (auto split: option.splits if_splits simp: rposition_None)
qed simp

text \<open>Consecutive pairs: \<open>slice.windows(2)\<close>.\<close>

fun pairs :: "'a list \<Rightarrow> ('a \<times> 'a) list" where
  "pairs (x # y # zs) = (x, y) # pairs (y # zs)"
| "pairs _ = []"

text \<open>A bounded queue: push at the back, then drop from the front down to the bound.\<close>

definition keep_last :: "nat \<Rightarrow> 'a list \<Rightarrow> 'a list" where
  "keep_last n xs = drop (length xs - n) xs"

definition push_bounded :: "nat \<Rightarrow> 'a \<Rightarrow> 'a list \<Rightarrow> 'a list" where
  "push_bounded n x xs = keep_last n (xs @ [x])"

lemma length_keep_last [simp]: "length (keep_last n xs) = min n (length xs)"
  by (simp add: keep_last_def)

lemma keep_last_id [simp]: "length xs \<le> n \<Longrightarrow> keep_last n xs = xs"
  by (simp add: keep_last_def)

lemma set_keep_last: "set (keep_last n xs) \<subseteq> set xs"
  by (simp add: keep_last_def set_drop_subset)

lemma length_push_bounded [simp]: "length (push_bounded n x xs) = min n (Suc (length xs))"
  by (simp add: push_bounded_def)

lemma last_push_bounded: "0 < n \<Longrightarrow> last (push_bounded n x xs) = x"
  by (simp add: push_bounded_def keep_last_def)

lemma set_push_bounded: "set (push_bounded n x xs) \<subseteq> insert x (set xs)"
  using set_keep_last [of n "xs @ [x]"] by (auto simp: push_bounded_def)

end
