(* ===== verification/Chrono.thy ===== *)
theory Chrono
  imports Prelude
begin

text \<open>
  The time interface.  Instants (\<open>DateTime<Utc>\<close>) are integer nanoseconds on the UTC time line
  and differences (\<open>TimeDelta\<close>) integer nanoseconds, so comparison and
  \<open>signed_duration_since\<close> are those of the integers.  What the third-party crate computes on top
  of that (whole seconds and milliseconds, checked construction and addition, the last instant) is
  a parameter of every definition that uses it: a value of the record \<open>chrono\<close>.  The locale
  \<open>chrono_laws\<close> states the documented behaviour, and \<open>chrono_ref\<close> is an instance of it.
\<close>

type_synonym datetime = int
type_synonym delta = int

record chrono =
  num_seconds :: "delta \<Rightarrow> int"
  num_millis :: "delta \<Rightarrow> int"
  try_seconds :: "int \<Rightarrow> delta option"
  checked_add :: "datetime \<Rightarrow> delta \<Rightarrow> datetime option"
  max_utc :: datetime

definition trunc_div :: "int \<Rightarrow> int \<Rightarrow> int" where
  "trunc_div a b = (if 0 \<le> a then a div b else - ((- a) div b))"

text \<open>\<open>now.signed_duration_since(then).num_seconds().max(0) as u64\<close>\<close>

definition age_seconds :: "chrono \<Rightarrow> datetime \<Rightarrow> datetime \<Rightarrow> nat" where
  "age_seconds ch now since = max0_as_u64 (num_seconds ch (now - since))"

locale chrono_laws =
  fixes ch :: chrono
  assumes seconds_whole: "num_seconds ch d = trunc_div d 1000000000"
    and millis_whole: "num_millis ch d = trunc_div d 1000000"
    and try_seconds_Some: "try_seconds ch s = Some d \<Longrightarrow> d = s * 1000000000"
    and try_seconds_small: "\<bar>s\<bar> \<le> 9223372036854775 \<Longrightarrow> try_seconds ch s \<noteq> None"
    and checked_add_Some: "checked_add ch t d = Some r \<Longrightarrow> r = t + d \<and> r \<le> max_utc ch"
begin

lemma seconds_mono: "a \<le> b \<Longrightarrow> num_seconds ch a \<le> num_seconds ch b"
proof -
  assume ab: "a \<le> b"
  consider "0 \<le> a" | "a < 0" "0 \<le> b" | "b < 0" by linarith
  then show ?thesis
  proof cases
    case 1
    with ab show ?thesis by (simp add: seconds_whole trunc_div_def zdiv_mono1)
  next
    case 2
    then have "0 \<le> (- a) div 1000000000" "0 \<le> b div 1000000000"
      by (simp_all add: pos_imp_zdiv_nonneg_iff)
    with 2 show ?thesis by (simp add: seconds_whole trunc_div_def)
  next
    case 3
    with ab show ?thesis by (simp add: seconds_whole trunc_div_def zdiv_mono1)
  qed
qed

lemma seconds_neg: "num_seconds ch (- d) = - num_seconds ch d"
  by (simp add: seconds_whole trunc_div_def)

lemma seconds_0 [simp]: "num_seconds ch 0 = 0"
  by (simp add: seconds_whole trunc_div_def)

lemma millis_nonneg: "0 \<le> d \<Longrightarrow> 0 \<le> num_millis ch d"
  by (simp add: millis_whole trunc_div_def pos_imp_zdiv_nonneg_iff)

lemma age_antimono: "s \<le> t \<Longrightarrow> age_seconds ch now t \<le> age_seconds ch now s"
  using seconds_mono [of "now - t" "now - s"]
  by (simp add: age_seconds_def max0_as_u64_def nat_mono)

lemma age_future: "now \<le> t \<Longrightarrow> age_seconds ch now t = 0"
  using seconds_mono [of "now - t" 0] by (simp add: age_seconds_def max0_as_u64_def)

lemma seconds_bounds: "0 \<le> d \<Longrightarrow>
    num_seconds ch d * 1000000000 \<le> d \<and> d < num_seconds ch d * 1000000000 + 1000000000"
proof -
  assume "0 \<le> d"
  moreover have "d div 1000000000 * 1000000000 + d mod 1000000000 = d" by simp
  moreover have "0 \<le> d mod 1000000000" "d mod 1000000000 < 1000000000" by simp_all
  ultimately show ?thesis by (simp only: seconds_whole trunc_div_def if_True) linarith
qed

end

text \<open>A concrete time library: differences in range, instants up to \<open>+262142-12-31\<close>.\<close>

definition chrono_ref :: chrono where
  "chrono_ref = \<lparr> num_seconds = (\<lambda>d. trunc_div d 1000000000),
     num_millis = (\<lambda>d. trunc_div d 1000000),
     try_seconds = (\<lambda>s. if \<bar>s\<bar> \<le> 9223372036854775 then Some (s * 1000000000) else None),
     checked_add = (\<lambda>t d. if -8334601228800000000000 \<le> t + d \<and> t + d \<le> 8210266876799999999999
                          then Some (t + d) else None),
     max_utc = 8210266876799999999999 \<rparr>"

interpretation chrono_ref: chrono_laws chrono_ref
  by unfold_locales (auto simp: chrono_ref_def split: if_splits)

lemma chrono_ref_laws: "chrono_laws chrono_ref"
  by (rule chrono_ref.chrono_laws_axioms)

end
