(* ===== verification/F64_Laws.thy ===== *)
theory F64_Laws
  imports F64
begin

text \<open>
  What the rounding of binary64 guarantees: it is monotone, exact on its own values, on small
  integers and on powers of two, off by at most half a unit in the last place, and by a relative
  \<open>2^-53\<close> on sums of binary64 values.  The locale \<open>rounding\<close> collects the laws; the proof that a
  proportional split of a total in floating point never adds up to more than the total is done once
  inside it.
\<close>

section \<open>Rounding a rational to an integer\<close>

lemma round_even_error: "\<bar>of_int (round_even x) - x\<bar> \<le> 1/2"
proof -
  have "of_int \<lfloor>x\<rfloor> \<le> x" "x < of_int \<lfloor>x\<rfloor> + 1" by linarith+
  then show ?thesis unfolding round_even_def Let_def by (auto simp: abs_le_iff)
qed

lemma round_even_of_int [simp]: "round_even (of_int n) = n"
  by (simp add: round_even_def)

lemma round_even_mono:
  assumes "x \<le> y"
  shows "round_even x \<le> round_even y"
proof (cases "\<lfloor>x\<rfloor> = \<lfloor>y\<rfloor>")
  case True
  with assms show ?thesis unfolding round_even_def Let_def by auto
next
  case False
  with assms have "\<lfloor>x\<rfloor> + 1 \<le> \<lfloor>y\<rfloor>" using floor_mono [OF assms] by linarith
  moreover have "round_even x \<le> \<lfloor>x\<rfloor> + 1" unfolding round_even_def Let_def by auto
  moreover have "\<lfloor>y\<rfloor> \<le> round_even y" unfolding round_even_def Let_def by auto
  ultimately show ?thesis by linarith
qed

section \<open>The exponent\<close>

lemma powi_split: "(2::rat) powi (a - b) = 2 powi a / 2 powi b"
  by (simp add: power_int_diff)

lemma powi_nat: "0 \<le> k \<Longrightarrow> (2::rat) powi k = 2 ^ nat k"
  by (simp add: power_int_def)

lemma powi_add: "(2::rat) powi (a + b) = 2 powi a * 2 powi b"
  by (simp add: power_int_add)

lemma powi_mono: "a \<le> b \<Longrightarrow> (2::rat) powi a \<le> 2 powi b"
  by (rule power_int_increasing) auto

lemma powi_less: "a < b \<Longrightarrow> (2::rat) powi a < 2 powi b"
  by (rule power_int_strict_increasing) auto

lemma powi_less_iff: "(2::rat) powi a < 2 powi b \<longleftrightarrow> a < b"
  by (meson linorder_not_less powi_less powi_mono)

lemma powi_pos [simp]: "0 < (2::rat) powi k"
  by simp

lemma bitlen_frac_bounds:
  assumes "0 < n" "0 < d"
  shows "(2::rat) powi (bitlen n - bitlen d - 1) < of_int n / of_int d"
    and "of_int n / of_int d < (2::rat) powi (bitlen n - bitlen d + 1)"
proof -
  have pos: "0 < bitlen m" if "0 < m" for m :: int
    using that bitlen_eq_zero_iff [of m] bitlen_nonneg [of m] by linarith
  have lo: "(2::rat) powi (bitlen m - 1) \<le> of_int m" if "0 < m" for m :: int
  proof -
    have "2 ^ nat (bitlen m - 1) \<le> m" using bitlen_bounds [OF that] by simp
    then have "of_int (2 ^ nat (bitlen m - 1)) \<le> (of_int m :: rat)" by (simp only: of_int_le_iff)
    then show ?thesis using pos [OF that] by (simp add: powi_nat)
  qed
  have hi: "of_int m < (2::rat) powi (bitlen m)" if "0 < m" for m :: int
  proof -
    have "m < 2 ^ nat (bitlen m)" using bitlen_bounds [OF that] by simp
    then have "(of_int m :: rat) < of_int (2 ^ nat (bitlen m))" by (simp only: of_int_less_iff)
    then show ?thesis using pos [OF that] by (simp add: powi_nat)
  qed
  have d: "0 < (of_int d :: rat)" using assms by simp
  have "(2::rat) powi (bitlen n - bitlen d - 1) = 2 powi (bitlen n - 1) / 2 powi bitlen d"
    by (simp add: powi_split [symmetric] algebra_simps)
  also have "\<dots> < 2 powi (bitlen n - 1) / of_int d"
    using hi [OF assms(2)] d by (intro divide_strict_left_mono) auto
  also have "\<dots> \<le> of_int n / of_int d"
    using lo [OF assms(1)] d by (intro divide_right_mono) auto
  finally show "(2::rat) powi (bitlen n - bitlen d - 1) < of_int n / of_int d" .
  have "of_int n / of_int d < (2::rat) powi bitlen n / of_int d"
    using hi [OF assms(1)] d by (intro divide_strict_right_mono) auto
  also have "\<dots> \<le> 2 powi bitlen n / 2 powi (bitlen d - 1)"
    using lo [OF assms(2)] d by (intro divide_left_mono) auto
  also have "\<dots> = 2 powi (bitlen n - bitlen d + 1)"
    by (simp add: powi_split [symmetric] algebra_simps)
  finally show "of_int n / of_int d < (2::rat) powi (bitlen n - bitlen d + 1)" .
qed

lemma ilog2_bounds:
  assumes "0 < q"
  shows "2 powi (ilog2 q) \<le> q" and "q < 2 powi (ilog2 q + 1)"
proof -
  obtain n d where nd: "quotient_of q = (n, d)" by (cases "quotient_of q")
  have d: "0 < d" using quotient_of_denom_pos [OF nd] .
  have q: "q = of_int n / of_int d" using quotient_of_div [OF nd] .
  have n: "0 < n" using assms q d by (simp add: zero_less_divide_iff)
  note b = bitlen_frac_bounds [OF n d, folded q]
  from nd b show "2 powi (ilog2 q) \<le> q" "q < 2 powi (ilog2 q + 1)"
    by (auto simp: ilog2_def Let_def)
qed

lemma ilog2_unique: "2 powi k \<le> q \<Longrightarrow> q < 2 powi (k + 1) \<Longrightarrow> ilog2 q = k"
proof -
  assume a: "2 powi k \<le> q" "q < 2 powi (k + 1)"
  have "0 < q" using a(1) powi_pos [of k] by linarith
  note b = ilog2_bounds [OF this]
  have "(2::rat) powi k < 2 powi (ilog2 q + 1)" using a(1) b(2) by linarith
  moreover have "(2::rat) powi (ilog2 q) < 2 powi (k + 1)" using a(2) b(1) by linarith
  ultimately show ?thesis by (simp add: powi_less_iff)
qed

lemma ilog2_mono: "0 < p \<Longrightarrow> p \<le> q \<Longrightarrow> ilog2 p \<le> ilog2 q"
proof -
  assume a: "0 < p" "p \<le> q"
  have "2 powi (ilog2 p) < (2::rat) powi (ilog2 q + 1)"
    using ilog2_bounds(1) [OF a(1)] ilog2_bounds(2) [of q] a by linarith
  then show ?thesis by (simp add: powi_less_iff)
qed

text \<open>The unit roundoff and half the smallest positive value.\<close>

definition eps :: rat where "eps = 2 powi (- 53)"
definition tiny :: rat where "tiny = 2 powi (emin - 1)"

lemma eps_pos [simp]: "0 < eps" and tiny_pos [simp]: "0 < tiny"
  by (simp_all add: eps_def tiny_def)

lemma eps_nonneg [simp]: "0 \<le> eps" and tiny_nonneg [simp]: "0 \<le> tiny"
  by (simp_all add: less_imp_le)

lemma eps_eq: "eps = 1 / 9007199254740992"
  by (simp add: eps_def)

lemma emin_le [simp]: "emin \<le> - 1000"
  by (simp add: emin_def)

lemma ulp_pos [simp]: "0 < ulp q"
  by (simp add: ulp_def)

lemma ulp_nonzero [simp]: "ulp q \<noteq> 0"
  using ulp_pos [of q] by linarith

section \<open>Rounding positive rationals\<close>

lemma rpos_error: "0 \<le> q \<Longrightarrow> \<bar>rpos q - q\<bar> \<le> ulp q / 2"
proof (cases "q = 0")
  case False
  assume "0 \<le> q"
  have "\<bar>of_int (round_even (q / ulp q)) - q / ulp q\<bar> * ulp q \<le> 1/2 * ulp q"
    by (rule mult_right_mono [OF round_even_error]) (simp add: less_imp_le)
  moreover have "\<bar>of_int (round_even (q / ulp q)) - q / ulp q\<bar> * ulp q = \<bar>rpos q - q\<bar>"
  proof -
    have "\<bar>of_int (round_even (q / ulp q)) - q / ulp q\<bar> * ulp q =
        \<bar>(of_int (round_even (q / ulp q)) - q / ulp q) * ulp q\<bar>"
      by (simp add: abs_mult abs_of_pos)
    also have "\<dots> = \<bar>rpos q - q\<bar>" using False by (simp add: rpos_def left_diff_distrib)
    finally show ?thesis .
  qed
  ultimately show ?thesis by simp
qed (simp add: rpos_def less_imp_le)

lemma rpos_on_grid: "q = of_int k * ulp q \<Longrightarrow> rpos q = q"
proof (cases "q = 0")
  case False
  assume a: "q = of_int k * ulp q"
  then have "q / ulp q = of_int k" by (simp add: field_simps)
  with a False show ?thesis by (simp add: rpos_def)
qed (simp add: rpos_def)

lemma powi_over_ulp:
  assumes "ilog2 q - 52 \<le> m" "emin \<le> m"
  shows "\<exists>k::int. 2 powi m = of_int k * ulp q"
proof -
  let ?e = "max (ilog2 q - 52) emin"
  have "2 powi m = 2 powi (m - ?e) * ulp q"
    by (simp add: ulp_def power_int_add [symmetric])
  moreover have "(2::rat) powi (m - ?e) = of_int (2 ^ nat (m - ?e))"
    using assms by (simp add: powi_nat)
  ultimately show ?thesis by metis
qed

lemma rpos_le_powi:
  assumes "0 < q" "q \<le> 2 powi m" "ilog2 q - 52 \<le> m" "emin \<le> m"
  shows "rpos q \<le> 2 powi m"
proof -
  obtain k :: int where k: "2 powi m = of_int k * ulp q" using powi_over_ulp assms by blast
  have "q / ulp q \<le> of_int k" using assms(2) k by (simp add: field_simps)
  then have "round_even (q / ulp q) \<le> k" using round_even_mono by fastforce
  then have "of_int (round_even (q / ulp q)) * ulp q \<le> of_int k * ulp q"
    by (intro mult_right_mono) (simp_all add: less_imp_le)
  with k assms(1) show ?thesis by (simp add: rpos_def)
qed

lemma powi_le_rpos:
  assumes "0 < q" "2 powi m \<le> q" "ilog2 q - 52 \<le> m" "emin \<le> m"
  shows "2 powi m \<le> rpos q"
proof -
  obtain k :: int where k: "2 powi m = of_int k * ulp q" using powi_over_ulp assms by blast
  have "of_int k \<le> q / ulp q" using assms(2) k by (simp add: field_simps)
  then have "k \<le> round_even (q / ulp q)" using round_even_mono by fastforce
  then have "of_int k * ulp q \<le> of_int (round_even (q / ulp q)) * ulp q"
    by (intro mult_right_mono) (simp_all add: less_imp_le)
  with k assms(1) show ?thesis by (simp add: rpos_def)
qed

lemma rpos_nonneg: "0 \<le> q \<Longrightarrow> 0 \<le> rpos q"
proof (cases "q = 0")
  case False
  assume "0 \<le> q"
  then have "round_even 0 \<le> round_even (q / ulp q)"
    by (intro round_even_mono divide_nonneg_pos) auto
  then have "0 \<le> round_even (q / ulp q)" using round_even_of_int [of 0] by simp
  then show ?thesis by (simp add: rpos_def less_imp_le)
qed (simp add: rpos_def)

lemma rpos_mono:
  assumes "0 \<le> p" "p \<le> q"
  shows "rpos p \<le> rpos q"
proof (cases "p = 0")
  case True
  with assms show ?thesis using rpos_nonneg [of q] by (simp add: rpos_def)
next
  case False
  with assms have p: "0 < p" and q: "0 < q" by linarith+
  show ?thesis
  proof (cases "ulp p = ulp q")
    case True
    have "round_even (p / ulp q) \<le> round_even (q / ulp q)"
      by (intro round_even_mono divide_right_mono assms) (simp add: less_imp_le)
    with True p q show ?thesis by (simp add: rpos_def)
  next
    case False
    let ?m = "max (ilog2 p + 1) emin"
    have ne: "ilog2 p \<noteq> ilog2 q" using False by (auto simp: ulp_def)
    have lt: "ilog2 p < ilog2 q" using ne ilog2_mono [OF p assms(2)] by simp
    have e: "emin < ilog2 q - 52"
    proof (rule ccontr)
      assume "\<not> emin < ilog2 q - 52"
      with lt have "ulp p = ulp q" by (simp add: ulp_def max_def)
      with False show False by simp
    qed
    have "p \<le> 2 powi ?m"
      using ilog2_bounds(2) [OF p] powi_mono [of "ilog2 p + 1" ?m] by simp
    then have "rpos p \<le> 2 powi ?m" by (intro rpos_le_powi p) auto
    also have "\<dots> \<le> 2 powi (ilog2 q)" using lt e by (intro powi_mono) auto
    also have "\<dots> \<le> rpos q"
      using ilog2_bounds(1) [OF q] e by (intro powi_le_rpos q) auto
    finally show ?thesis .
  qed
qed

section \<open>Rounding any rational\<close>

definition on_grid :: "rat \<Rightarrow> bool" where
  "on_grid q = (\<exists>k::int. q = of_int k * 2 powi emin)"

lemma rpos_0 [simp]: "rpos 0 = 0"
  by (simp add: rpos_def)

lemma rq_0 [simp]: "rq 0 = 0"
  by (simp add: rq_def)

lemma rq_minus: "rq (- q) = - rq q"
  by (auto simp: rq_def rpos_def)

lemma rq_nonneg: "0 \<le> q \<Longrightarrow> 0 \<le> rq q"
  by (simp add: rq_def rpos_nonneg)

lemma rq_mono:
  assumes "p \<le> q"
  shows "rq p \<le> rq q"
proof -
  consider "0 \<le> p" | "p < 0" "0 \<le> q" | "q < 0" by linarith
  then show ?thesis
  proof cases
    case 1
    with assms show ?thesis by (simp add: rq_def rpos_mono)
  next
    case 2
    then have "0 \<le> rq (- p)" "0 \<le> rq q" by (auto intro: rq_nonneg)
    then show ?thesis by (simp add: rq_minus)
  next
    case 3
    with assms show ?thesis by (simp add: rq_def rpos_mono)
  qed
qed

lemma rpos_ulp_on_grid: "on_grid (of_int k * ulp q)"
proof -
  let ?e = "max (ilog2 q - 52) emin"
  have "ulp q = 2 powi (?e - emin) * 2 powi emin"
    by (simp add: ulp_def powi_add [symmetric])
  also have "(2::rat) powi (?e - emin) = of_int (2 ^ nat (?e - emin))"
    by (simp add: powi_nat)
  finally have "of_int k * ulp q = of_int (k * 2 ^ nat (?e - emin)) * 2 powi emin"
    by simp
  then show ?thesis unfolding on_grid_def by blast
qed

lemma on_grid_0 [simp]: "on_grid 0"
  unfolding on_grid_def by (rule exI [of _ 0]) simp

lemma on_grid_minus: "on_grid q \<Longrightarrow> on_grid (- q)"
proof -
  assume "on_grid q"
  then obtain k :: int where "q = of_int k * 2 powi emin" unfolding on_grid_def by blast
  then have "- q = of_int (- k) * 2 powi emin" by simp
  then show ?thesis unfolding on_grid_def by blast
qed

lemma on_grid_add: "on_grid p \<Longrightarrow> on_grid q \<Longrightarrow> on_grid (p + q)"
proof -
  assume "on_grid p" "on_grid q"
  then obtain k l :: int where "p = of_int k * 2 powi emin" "q = of_int l * 2 powi emin"
    unfolding on_grid_def by blast
  then have "p + q = of_int (k + l) * 2 powi emin" by (simp add: distrib_right)
  then show ?thesis unfolding on_grid_def by blast
qed

lemma rq_on_grid: "on_grid (rq q)"
  unfolding rq_def rpos_def by (auto intro: on_grid_minus rpos_ulp_on_grid)

lemma repr_on_grid: "f64_repr (Fin q) \<Longrightarrow> on_grid q"
  using rq_on_grid [of q] by (simp add: f64_repr_def)

lemma ulp_half_bound:
  assumes "0 < q"
  shows "ulp q / 2 \<le> q * eps \<or> ulp q = 2 powi emin"
proof (cases "ilog2 q - 52 \<le> emin")
  case False
  have "ulp q / 2 = 2 powi (ilog2 q) * eps"
  proof -
    have "ulp q = 2 powi (ilog2 q) / 2 powi 52"
      using False by (simp only: ulp_def max_def powi_split [symmetric]) simp
    then show ?thesis by (simp add: eps_eq)
  qed
  also have "\<dots> \<le> q * eps"
    by (intro mult_right_mono ilog2_bounds assms) simp
  finally show ?thesis by simp
qed (simp add: ulp_def max_def)

lemma rpos_abs_error: "0 \<le> q \<Longrightarrow> \<bar>rpos q - q\<bar> \<le> q * eps + tiny"
proof (cases "q = 0")
  case False
  assume "0 \<le> q"
  with False have q: "0 < q" by simp
  have half: "(2::rat) powi emin / 2 = tiny"
    using powi_split [of emin 1] by (simp add: tiny_def)
  have "ulp q / 2 \<le> q * eps + tiny"
    using ulp_half_bound [OF q] half tiny_pos mult_pos_pos [OF q eps_pos]
    by (elim disjE) linarith+
  with rpos_error [of q] q show ?thesis by linarith
qed (simp add: rpos_def)

lemma rpos_rel_error: "0 \<le> q \<Longrightarrow> on_grid q \<Longrightarrow> \<bar>rpos q - q\<bar> \<le> q * eps"
proof (cases "q = 0")
  case False
  assume "0 \<le> q" "on_grid q"
  with False have q: "0 < q" by simp
  from ulp_half_bound [OF q] show ?thesis
  proof
    assume "ulp q / 2 \<le> q * eps"
    with rpos_error [of q] q show ?thesis by linarith
  next
    assume u: "ulp q = 2 powi emin"
    from \<open>on_grid q\<close> obtain k :: int where "q = of_int k * ulp q"
      unfolding on_grid_def u by blast
    then have "rpos q = q" by (rule rpos_on_grid)
    with q show ?thesis by simp
  qed
qed (simp add: rpos_def)

lemma rq_abs_error: "\<bar>rq q - q\<bar> \<le> \<bar>q\<bar> * eps + tiny"
proof (cases "q < 0")
  case True
  then show ?thesis using rpos_abs_error [of "- q"] by (simp add: rq_def abs_minus_commute)
next
  case False
  then show ?thesis using rpos_abs_error [of q] by (simp add: rq_def)
qed

lemma rq_rel_error: "on_grid q \<Longrightarrow> \<bar>rq q - q\<bar> \<le> \<bar>q\<bar> * eps"
proof (cases "q < 0")
  case True
  assume "on_grid q"
  with True show ?thesis
    using rpos_rel_error [of "- q"] on_grid_minus [of q] by (simp add: rq_def abs_minus_commute)
next
  case False
  assume "on_grid q"
  with False show ?thesis using rpos_rel_error [of q] by (simp add: rq_def)
qed

lemma rq_powi: "emin \<le> m \<Longrightarrow> rq (2 powi m) = 2 powi m"
proof -
  assume m: "emin \<le> m"
  have "ilog2 (2 powi m) = m" by (rule ilog2_unique) (auto intro: powi_less)
  then obtain k :: int where "2 powi m = of_int k * ulp (2 powi m)"
    using powi_over_ulp [of "2 powi m" m] m by auto
  then have "rpos (2 powi m) = 2 powi m" by (rule rpos_on_grid)
  moreover have "\<not> (2::rat) powi m < 0" using powi_pos [of m] by linarith
  ultimately show ?thesis by (simp add: rq_def)
qed

lemma rq_int:
  assumes "\<bar>n\<bar> \<le> 2 ^ 53"
  shows "rq (of_int n) = of_int n"
proof -
  have pos: "rpos (of_int n) = of_int n" if n: "0 < n" "n < 2 ^ 53" for n :: int
  proof -
    have "(of_int n :: rat) < of_int (2 ^ 53)" using n(2) by (simp only: of_int_less_iff)
    then have "2 powi (ilog2 (of_int n)) < (2::rat) powi 53"
      using ilog2_bounds(1) [of "of_int n"] n by (simp add: powi_nat)
    then have "ilog2 (of_int n) < 53" by (simp only: powi_less_iff)
    then have e: "ilog2 (of_int n) - 52 \<le> 0" by simp
    obtain k :: int where "2 powi 0 = of_int k * ulp (of_int n)"
      using powi_over_ulp [OF e] by (auto simp: emin_def)
    then have "(of_int n :: rat) = of_int (n * k) * ulp (of_int n)" by (simp add: mult.assoc [symmetric])
    then show "rpos (of_int n) = of_int n" by (rule rpos_on_grid)
  qed
  have top: "rq (of_int (2 ^ 53)) = of_int (2 ^ 53)"
    using rq_powi [of 53] by (simp add: powi_nat emin_def)
  have ge: "rq (of_int n) = of_int n" if "0 \<le> n" "n \<le> 2 ^ 53" for n :: int
  proof -
    consider "n = 0" | "0 < n" "n < 2 ^ 53" | "n = 2 ^ 53" using \<open>0 \<le> n\<close> \<open>n \<le> 2 ^ 53\<close> by linarith
    then show ?thesis using pos [of n] top by cases (auto simp: rq_def)
  qed
  show ?thesis
  proof (cases "0 \<le> n")
    case False
    then have "rq (of_int (- n)) = of_int (- n)" using assms by (intro ge) auto
    then show ?thesis using rq_minus [of "of_int n"] by simp
  qed (use ge assms in auto)
qed

lemma rq_idem: "rq (rq q) = rq q"
proof -
  have pos: "rpos (rpos q) = rpos q" if q: "0 < q" for q
  proof (cases "rpos q = 0")
    case False
    have nn: "0 \<le> rpos q" using q by (simp add: rpos_nonneg)
    with False have r: "0 < rpos q" by simp
    let ?e = "max (ilog2 q - 52) emin" and ?m = "max (ilog2 q + 1) emin"
    obtain k where k: "rpos q = of_int k * ulp q" using q by (simp add: rpos_def)
    have "q \<le> 2 powi ?m" using ilog2_bounds(2) [OF q] powi_mono [of "ilog2 q + 1" ?m] by simp
    then have hi: "rpos q \<le> 2 powi ?m" by (intro rpos_le_powi q) auto
    show ?thesis
    proof (cases "rpos q = 2 powi ?m")
      case True
      then show ?thesis using rq_powi [of ?m] r by (simp add: rq_def)
    next
      case False
      with hi have "rpos q < 2 powi ?m" by simp
      then have "ilog2 (rpos q) < ?m"
        using ilog2_bounds(1) [OF r] powi_less_iff by (meson le_less_trans)
      then have "max (ilog2 (rpos q) - 52) emin \<le> ?e" by auto
      then obtain j :: int where "ulp q = of_int j * ulp (rpos q)"
        using powi_over_ulp [of "rpos q" ?e] by (auto simp: ulp_def)
      then have "rpos q = of_int (k * j) * ulp (rpos q)" using k by simp
      then show ?thesis by (rule rpos_on_grid)
    qed
  qed (simp add: rpos_def)
  have nn: "rq (rpos q) = rpos q" if "0 \<le> q" for q
    using pos [of q] rpos_nonneg [OF that] that by (cases "q = 0") (simp_all add: rq_def rpos_def)
  show ?thesis
  proof (cases "q < 0")
    case True
    then show ?thesis using nn [of "- q"] rq_minus [of "rpos (- q)"] by (simp add: rq_def)
  next
    case False
    then show ?thesis using nn [of q] by (simp add: rq_def)
  qed
qed

section \<open>Order and selection\<close>

lemma fle_refl: "x \<noteq> NaN \<Longrightarrow> fle x x"
  by (cases x) auto

lemma fle_nan [simp]: "\<not> fle NaN x" "\<not> fle x NaN" "\<not> flt NaN x" "\<not> flt x NaN"
  by (cases x; simp)+

lemma fle_fin: "is_fin x \<Longrightarrow> is_fin y \<Longrightarrow> fle x y \<longleftrightarrow> fval x \<le> fval y"
  by (cases x; cases y) auto

lemma flt_fin: "is_fin x \<Longrightarrow> is_fin y \<Longrightarrow> flt x y \<longleftrightarrow> fval x < fval y"
  by (cases x; cases y) auto

lemma fle_trans: "fle x y \<Longrightarrow> fle y z \<Longrightarrow> fle x z"
  by (cases x; cases y; cases z) auto

lemma not_flt_iff: "x \<noteq> NaN \<Longrightarrow> y \<noteq> NaN \<Longrightarrow> \<not> flt x y \<longleftrightarrow> fle y x"
  by (cases x; cases y) auto

lemma flt_imp_fle: "flt x y \<Longrightarrow> fle x y"
  by (cases x; cases y) auto

lemma fmax_not_nan: "x \<noteq> NaN \<Longrightarrow> fmax x y \<noteq> NaN"
  by (auto simp: fmax_def)

lemma fmax_ge_left: "x \<noteq> NaN \<Longrightarrow> fle x (fmax x y)"
  by (auto simp: fmax_def fle_refl flt_imp_fle)

lemma fmax_ge_right: "y \<noteq> NaN \<Longrightarrow> fle y (fmax x y)"
  by (auto simp: fmax_def fle_refl not_flt_iff)

lemma in_unit_fin: "in_unit x \<Longrightarrow> is_fin x \<and> 0 \<le> fval x \<and> fval x \<le> 1"
  by (cases x) (auto simp: in_unit_def)

section \<open>The rounding contract\<close>

lemma sum_floor_le: "of_int (\<Sum>h\<leftarrow>hs. \<lfloor>f h\<rfloor>) \<le> (\<Sum>h\<leftarrow>hs. f h :: rat)"
proof (induction hs)
  case (Cons h hs)
  have "of_int \<lfloor>f h\<rfloor> \<le> f h" by simp
  with Cons show ?case by (simp add: add_mono)
qed simp

lemma sum_nat_floor: "\<forall>h \<in> set hs. (0::rat) \<le> f h \<Longrightarrow> int (\<Sum>h\<leftarrow>hs. nat \<lfloor>f h\<rfloor>) = (\<Sum>h\<leftarrow>hs. \<lfloor>f h\<rfloor>)"
  by (induction hs) auto

lemma sum_shares: "(\<Sum>h\<leftarrow>hs. A * (h / t) * c + e) = A * (sum_list hs / t) * c + of_nat (length hs) * (e :: rat)"
  by (induction hs) (simp_all add: algebra_simps add_divide_distrib)

text \<open>
  \<open>rd\<close> rounds, \<open>grid\<close> holds for the values the format can represent, \<open>u\<close> is the unit
  roundoff and \<open>d\<close> the absolute error of the underflow range.
\<close>

locale rounding =
  fixes rd :: "rat \<Rightarrow> rat" and grid :: "rat \<Rightarrow> bool" and u :: rat and d :: rat
  assumes rd_mono: "p \<le> q \<Longrightarrow> rd p \<le> rd q"
    and rd_0: "rd 0 = 0"
    and rd_grid: "grid (rd q)"
    and grid_0: "grid 0"
    and grid_add: "grid p \<Longrightarrow> grid q \<Longrightarrow> grid (p + q)"
    and rd_rel: "grid q \<Longrightarrow> \<bar>rd q - q\<bar> \<le> \<bar>q\<bar> * u"
    and rd_abs: "\<bar>rd q - q\<bar> \<le> \<bar>q\<bar> * u + d"
    and u_bounds: "0 < u" "u \<le> 1 / 2 ^ 53"
    and d_bounds: "0 < d" "d \<le> 1 / 2 ^ 100"
begin

lemma rd_nonneg: "0 \<le> q \<Longrightarrow> 0 \<le> rd q"
  using rd_mono [of 0 q] rd_0 by simp

text \<open>A floating-point sum of nonnegative values loses at most \<open>n * u\<close> of the true sum.\<close>

definition fsum :: "rat list \<Rightarrow> rat" where
  "fsum hs = foldl (\<lambda>a h. rd (a + h)) 0 hs"

lemma fsum_snoc: "fsum (hs @ [h]) = rd (fsum hs + h)"
  by (simp add: fsum_def)

lemma fsum_grid: "grid (fsum hs)"
  by (induction hs rule: rev_induct) (simp_all add: fsum_snoc rd_grid, simp add: fsum_def grid_0)

lemma fsum_nonneg: "\<forall>h \<in> set hs. 0 \<le> h \<Longrightarrow> 0 \<le> fsum hs"
  by (induction hs rule: rev_induct) (auto simp: fsum_snoc intro!: rd_nonneg, simp add: fsum_def)

lemma fsum_lower:
  assumes "\<forall>h \<in> set hs. 0 \<le> h \<and> grid h" "of_nat (length hs) * u \<le> 1"
  shows "sum_list hs * (1 - of_nat (length hs) * u) \<le> fsum hs"
  using assms
proof (induction hs rule: rev_induct)
  case (snoc h hs)
  let ?n = "of_nat (length hs) :: rat" and ?S = "sum_list hs"
  have h: "0 \<le> h" "grid h" and len: "(?n + 1) * u \<le> 1"
    using snoc.prems by (auto simp: algebra_simps)
  have S: "0 \<le> ?S" using snoc.prems by (intro sum_list_nonneg) auto
  have nu: "0 \<le> ?n * u" using u_bounds by simp
  have "?n * u \<le> 1" using len u_bounds by (simp add: distrib_right)
  with snoc have IH: "?S * (1 - ?n * u) \<le> fsum hs" by auto
  have f: "0 \<le> fsum hs" using snoc.prems by (intro fsum_nonneg) auto
  have "(?S + h) * (1 - ?n * u) \<le> ?S * (1 - ?n * u) + h"
    using mult_nonneg_nonneg [OF h(1) nu] by (simp add: algebra_simps)
  also have "\<dots> \<le> fsum hs + h" using IH by simp
  finally have lb: "(?S + h) * (1 - ?n * u) \<le> fsum hs + h" .
  have u1: "0 \<le> 1 - u" using u_bounds by simp
  have "(?S + h) * (1 - (?n + 1) * u) \<le> (?S + h) * ((1 - ?n * u) * (1 - u))"
  proof (rule mult_left_mono)
    show "1 - (?n + 1) * u \<le> (1 - ?n * u) * (1 - u)"
      using mult_nonneg_nonneg [OF nu, of u] u_bounds by (simp add: algebra_simps)
  qed (use S h in simp)
  also have "\<dots> \<le> (fsum hs + h) * (1 - u)"
    using mult_right_mono [OF lb u1] by (simp add: mult.assoc)
  also have "\<dots> \<le> rd (fsum hs + h)"
    using rd_rel [OF grid_add [OF fsum_grid h(2)], of hs] f h by (simp add: algebra_simps abs_le_iff)
  finally show ?case by (simp add: fsum_snoc algebra_simps)
qed (simp add: fsum_def)

text \<open>The share of a host: its weight, rounded, times the target, rounded.\<close>

lemma share_le:
  assumes "0 \<le> A" "A \<le> 2 ^ 32" "0 \<le> x"
  shows "rd (A * rd x) \<le> A * x * (1 + 3 * u) + 1 / 2 ^ 60"
proof -
  have u: "0 < u" "u \<le> 1 / 2 ^ 53" by (fact u_bounds)+
  have w: "rd x \<le> x * (1 + u) + d" using rd_abs [of x] assms by (simp add: algebra_simps abs_le_iff)
  have w0: "0 \<le> rd x" using assms rd_nonneg by simp
  have "rd (A * rd x) \<le> A * rd x * (1 + u) + d"
    using rd_abs [of "A * rd x"] assms w0 by (simp add: algebra_simps abs_le_iff)
  also have "A * rd x * (1 + u) \<le> A * (x * (1 + u) + d) * (1 + u)"
    using w assms u by (intro mult_right_mono mult_left_mono) auto
  also have "A * (x * (1 + u) + d) * (1 + u) = A * x * ((1 + u) * (1 + u)) + A * d * (1 + u)"
    by (simp add: algebra_simps)
  also have "A * x * ((1 + u) * (1 + u)) \<le> A * x * (1 + 3 * u)"
  proof (rule mult_left_mono)
    have "u * u \<le> 1 * u" using u by (intro mult_right_mono) auto
    then show "(1 + u) * (1 + u) \<le> 1 + 3 * u" by (simp add: algebra_simps)
  qed (use assms in simp)
  finally have le: "rd (A * rd x) \<le> A * x * (1 + 3 * u) + (A * d * (1 + u) + d)" by simp
  have "A * d * (1 + u) + d \<le> 1 / 2 ^ 60"
  proof -
    have "A * d \<le> 2 ^ 32 * (1 / 2 ^ 100)"
      using assms d_bounds by (intro mult_mono) auto
    then have "A * d * (1 + u) \<le> 2 ^ 32 * (1 / 2 ^ 100) * 2"
      using assms d_bounds u by (intro mult_mono) auto
    with d_bounds show ?thesis by simp
  qed
  with le show ?thesis by simp
qed

text \<open>The true sum exceeds the rounded one by a factor close to one.\<close>

lemma sum_over_fsum:
  assumes hs: "\<forall>h \<in> set hs. 0 \<le> h \<and> grid h" and nu: "of_nat (length hs) * u \<le> 1 / 2 ^ 37"
    and t: "0 < fsum hs"
  shows "sum_list hs / fsum hs \<le> 1 + 2 * (of_nat (length hs) * u)"
proof -
  let ?e = "of_nat (length hs) * u"
  have e0: "0 \<le> ?e" using u_bounds by simp
  have "sum_list hs * (1 - ?e) \<le> fsum hs" using fsum_lower hs nu by auto
  then have "sum_list hs * (1 - ?e) * (1 + 2 * ?e) \<le> fsum hs * (1 + 2 * ?e)"
    using e0 by (intro mult_right_mono) auto
  moreover have "sum_list hs * 1 \<le> sum_list hs * ((1 - ?e) * (1 + 2 * ?e))"
  proof (rule mult_left_mono)
    have "?e * ?e \<le> ?e * (1 / 2 ^ 37)" using nu e0 by (intro mult_left_mono) auto
    then show "1 \<le> (1 - ?e) * (1 + 2 * ?e)" using e0 by (simp add: algebra_simps)
  qed (use hs in \<open>auto intro: sum_list_nonneg\<close>)
  ultimately have "sum_list hs \<le> fsum hs * (1 + 2 * ?e)" by (simp add: mult.assoc)
  then show ?thesis using t by (simp add: field_simps)
qed

text \<open>
  Flooring the floating-point shares never overshoots the target: with at most \<open>2^16\<close> hosts
  the accumulated rounding stays below one worker.
\<close>

lemma shares_never_overshoot:
  assumes hs: "\<forall>h \<in> set hs. 0 \<le> h \<and> grid h"
    and n: "length hs \<le> 2 ^ 16" and A: "A \<le> 2 ^ 32"
    and t: "0 < fsum hs"
  shows "(\<Sum>h\<leftarrow>hs. nat \<lfloor>rd (of_nat A * rd (h / fsum hs))\<rfloor>) \<le> A"
proof -
  let ?t = "fsum hs" and ?n = "of_nat (length hs) :: rat" and ?A = "of_nat A :: rat"
  have u: "0 < u" "u \<le> 1 / 2 ^ 53" by (fact u_bounds)+
  have nn: "?n \<le> 2 ^ 16" using n by (metis of_nat_le_iff of_nat_numeral of_nat_power)
  have AA: "?A \<le> 2 ^ 32" using A by (metis of_nat_le_iff of_nat_numeral of_nat_power)
  have "?n * u \<le> 2 ^ 16 * (1 / 2 ^ 53)" using nn u by (intro mult_mono) auto
  then have nu: "?n * u \<le> 1 / 2 ^ 37" and nu0: "0 \<le> ?n * u" using u by simp_all
  have frac: "sum_list hs / ?t \<le> 1 + 2 * (?n * u)" using sum_over_fsum hs nu t by blast
  have "of_int (\<Sum>h\<leftarrow>hs. \<lfloor>rd (?A * rd (h / ?t))\<rfloor>) \<le> (\<Sum>h\<leftarrow>hs. rd (?A * rd (h / ?t)))"
    by (rule sum_floor_le)
  also have "\<dots> \<le> (\<Sum>h\<leftarrow>hs. ?A * (h / ?t) * (1 + 3 * u) + 1 / 2 ^ 60)"
    using hs t AA by (intro sum_list_mono share_le) auto
  also have "\<dots> = ?A * (sum_list hs / ?t) * (1 + 3 * u) + ?n * (1 / 2 ^ 60)"
    by (rule sum_shares)
  also have "\<dots> \<le> ?A * ((1 + 2 * (?n * u)) * (1 + 3 * u)) + 2 ^ 16 * (1 / 2 ^ 60)"
  proof (intro add_mono mult_right_mono)
    show "?A * (sum_list hs / ?t) * (1 + 3 * u) \<le> ?A * ((1 + 2 * (?n * u)) * (1 + 3 * u))"
      using frac u by (simp only: mult.assoc) (intro mult_left_mono mult_right_mono, auto)
  qed (use nn in auto)
  also have "?A * ((1 + 2 * (?n * u)) * (1 + 3 * u)) \<le> ?A + 1 / 2"
  proof -
    have uu: "(?n * u) * u \<le> (?n * u) * 1" using u nu0 by (intro mult_left_mono) auto
    have "(1 + 2 * (?n * u)) * (1 + 3 * u) \<le> 1 + 8 * (?n * u) + 3 * u"
      using uu by (simp add: algebra_simps)
    also have "\<dots> \<le> 1 + 1 / 2 ^ 33" using nu u by simp
    finally have "?A * ((1 + 2 * (?n * u)) * (1 + 3 * u)) \<le> ?A * (1 + 1 / 2 ^ 33)"
      by (intro mult_left_mono) auto
    also have "\<dots> \<le> ?A + 1 / 2" using AA by (simp add: algebra_simps)
    finally show ?thesis .
  qed
  also have "?A + 1 / 2 + 2 ^ 16 * (1 / 2 ^ 60) < of_int (int A + 1)" by simp
  finally have "(\<Sum>h\<leftarrow>hs. \<lfloor>rd (?A * rd (h / ?t))\<rfloor>) \<le> int A"
    by (simp only: of_int_less_iff add_0) simp
  moreover have "int (\<Sum>h\<leftarrow>hs. nat \<lfloor>rd (?A * rd (h / ?t))\<rfloor>) = (\<Sum>h\<leftarrow>hs. \<lfloor>rd (?A * rd (h / ?t))\<rfloor>)"
  proof -
    have "0 \<le> rd (?A * rd (h / ?t))" if "h \<in> set hs" for h
      using hs t that by (intro rd_nonneg mult_nonneg_nonneg rd_nonneg divide_nonneg_pos) auto
    then show ?thesis by (intro sum_nat_floor) auto
  qed
  ultimately show ?thesis by linarith
qed

end

interpretation binary64: rounding rq on_grid eps tiny
proof unfold_locales
  show "tiny \<le> 1 / 2 ^ 100"
  proof -
    have "tiny \<le> 2 powi (- 100)" unfolding tiny_def using emin_le by (intro powi_mono) linarith
    then show ?thesis by (simp add: power_int_minus inverse_eq_divide)
  qed
  show "eps \<le> 1 / 2 ^ 53" by (simp add: eps_eq)
qed (auto simp: rq_mono rq_on_grid on_grid_add rq_rel_error rq_abs_error)

end
