(* ===== verification/BMap.thy ===== *)
theory BMap
  imports Prelude
begin

text \<open>
  \<open>BTreeMap\<close> as an association list kept in ascending key order: iteration, \<open>keys\<close> and
  \<open>values\<close> follow the list, and every operation keeps the order.  The interface the other
  components rely on is the locale \<open>ordered_map\<close>; it is interpreted on these operations.
\<close>

type_synonym ('k, 'v) bmap = "('k \<times> 'v) list"

definition bm_ok :: "('k::linorder, 'v) bmap \<Rightarrow> bool" where
  "bm_ok m = sorted_wrt (<) (map fst m)"

definition bm_get :: "('k::linorder, 'v) bmap \<Rightarrow> 'k \<Rightarrow> 'v option" where
  "bm_get m k = map_of m k"

fun bm_put :: "'k::linorder \<Rightarrow> 'v \<Rightarrow> ('k, 'v) bmap \<Rightarrow> ('k, 'v) bmap" where
  "bm_put k v [] = [(k, v)]"
| "bm_put k v ((k', v') # m) =
     (if k < k' then (k, v) # (k', v') # m
      else if k = k' then (k, v) # m
      else (k', v') # bm_put k v m)"

definition bm_del :: "'k::linorder \<Rightarrow> ('k, 'v) bmap \<Rightarrow> ('k, 'v) bmap" where
  "bm_del k m = filter (\<lambda>e. fst e \<noteq> k) m"

definition bm_keys :: "('k::linorder, 'v) bmap \<Rightarrow> 'k list" where
  "bm_keys m = map fst m"

definition bm_vals :: "('k::linorder, 'v) bmap \<Rightarrow> 'v list" where
  "bm_vals m = map snd m"

text \<open>\<open>iter().collect()\<close>: a later entry replaces an earlier one with the same key.\<close>

definition bm_collect :: "('k::linorder \<times> 'v) list \<Rightarrow> ('k, 'v) bmap" where
  "bm_collect es = foldl (\<lambda>m e. bm_put (fst e) (snd e) m) [] es"

text \<open>\<open>entry(k).or_default()\<close> followed by an update in place.\<close>

definition bm_entry :: "'v \<Rightarrow> 'k::linorder \<Rightarrow> ('v \<Rightarrow> 'v) \<Rightarrow> ('k, 'v) bmap \<Rightarrow> ('k, 'v) bmap" where
  "bm_entry d k f m = bm_put k (f (unwrap_or d (bm_get m k))) m"

definition bm_map :: "('v \<Rightarrow> 'w) \<Rightarrow> ('k::linorder, 'v) bmap \<Rightarrow> ('k, 'w) bmap" where
  "bm_map f m = map (\<lambda>e. (fst e, f (snd e))) m"

section \<open>The interface\<close>

locale ordered_map =
  fixes emp :: "'m"
    and look :: "'m \<Rightarrow> 'k::linorder \<Rightarrow> 'v option"
    and put :: "'k \<Rightarrow> 'v \<Rightarrow> 'm \<Rightarrow> 'm"
    and del :: "'k \<Rightarrow> 'm \<Rightarrow> 'm"
    and keys :: "'m \<Rightarrow> 'k list"
    and inv :: "'m \<Rightarrow> bool"
  assumes look_emp: "look emp k = None"
    and look_put: "look (put k v m) j = (if j = k then Some v else look m j)"
    and look_del: "look (del k m) j = (if j = k then None else look m j)"
    and keys_look: "set (keys m) = {k. look m k \<noteq> None}"
    and keys_sorted: "inv m \<Longrightarrow> sorted_wrt (<) (keys m)"
    and inv_emp: "inv emp"
    and inv_put: "inv m \<Longrightarrow> inv (put k v m)"
    and inv_del: "inv m \<Longrightarrow> inv (del k m)"
begin

lemma keys_put: "set (keys (put k v m)) = insert k (set (keys m))"
  by (auto simp: keys_look look_put)

lemma keys_del: "set (keys (del k m)) = set (keys m) - {k}"
  by (auto simp: keys_look look_del)

lemma keys_distinct: "inv m \<Longrightarrow> distinct (keys m)"
  using keys_sorted strict_sorted_iff by blast

lemma put_then_del: "look (del k (put k v m)) j = look (del k m) j"
  by (simp add: look_put look_del)

lemma inv_foldl_put: "inv m \<Longrightarrow> inv (foldl (\<lambda>m e. put (fst e) (snd e) m) m es)"
  by (induction es arbitrary: m) (auto simp: inv_put)

lemma look_foldl_put:
  "look (foldl (\<lambda>m e. put (fst e) (snd e) m) m es) k =
     (case map_of (rev es) k of Some v \<Rightarrow> Some v | None \<Rightarrow> look m k)"
  by (induction es rule: rev_induct) (auto simp: look_put split: option.splits)

end

section \<open>The sorted association list provides it\<close>

lemma bm_get_put: "bm_get (bm_put k v m) j = (if j = k then Some v else bm_get m j)"
  by (induction m) (auto simp: bm_get_def)

lemma bm_get_del: "bm_get (bm_del k m) j = (if j = k then None else bm_get m j)"
  by (induction m) (auto simp: bm_get_def bm_del_def)

lemma set_bm_put_keys: "set (map fst (bm_put k v m)) = insert k (set (map fst m))"
proof (induction m)
  case (Cons e m)
  then show ?case by (cases e) (auto simp del: set_map)
qed simp

lemma bm_ok_put: "bm_ok m \<Longrightarrow> bm_ok (bm_put k v m)"
proof (induction m)
  case (Cons e m)
  obtain k' v' where e: "e = (k', v')" by (cases e)
  have tl: "bm_ok m" and lt: "\<forall>x \<in> set (map fst m). k' < x"
    using Cons.prems by (auto simp: bm_ok_def e)
  show ?case
  proof (cases "k' < k")
    case True
    have "\<forall>x \<in> set (map fst (bm_put k v m)). k' < x"
      using lt True by (simp only: set_bm_put_keys) auto
    with Cons.IH [OF tl] True show ?thesis by (auto simp: bm_ok_def e)
  next
    case False
    with Cons.prems lt show ?thesis by (fastforce simp: bm_ok_def e)
  qed
qed (simp add: bm_ok_def)

lemma bm_ok_del: "bm_ok m \<Longrightarrow> bm_ok (bm_del k m)"
  by (induction m) (auto simp: bm_ok_def bm_del_def)

interpretation bm: ordered_map "[]" bm_get bm_put bm_del bm_keys bm_ok
proof unfold_locales
  show "bm_get [] k = None" for k :: 'a
    by (simp add: bm_get_def)
  show "set (bm_keys m) = {k. bm_get m k \<noteq> None}" for m :: "('a \<times> 'b) list"
    by (auto simp: bm_keys_def bm_get_def map_of_eq_None_iff intro: image_eqI [of _ fst])
  show "bm_ok m \<Longrightarrow> sorted_wrt (<) (bm_keys m)" for m :: "('a \<times> 'b) list"
    by (simp add: bm_ok_def bm_keys_def)
  show "bm_ok []" by (simp add: bm_ok_def)
qed (auto simp: bm_get_put bm_get_del bm_ok_put bm_ok_del)

lemma bm_ok_collect [simp]: "bm_ok (bm_collect es)"
  unfolding bm_collect_def by (rule bm.inv_foldl_put) (simp add: bm_ok_def)

lemma bm_get_collect: "bm_get (bm_collect es) k = map_of (rev es) k"
  by (simp add: bm_collect_def bm.look_foldl_put bm.look_emp split: option.splits)

lemma bm_get_map [simp]: "bm_get (bm_map f m) k = map_option f (bm_get m k)"
  by (induction m) (auto simp: bm_get_def bm_map_def)

lemma bm_ok_map [simp]: "bm_ok (bm_map f m) = bm_ok m"
  by (simp add: bm_ok_def bm_map_def comp_def)

lemma bm_keys_map [simp]: "bm_keys (bm_map f m) = bm_keys m"
  by (simp add: bm_keys_def bm_map_def)

lemma bm_get_entry: "bm_get (bm_entry d k f m) j =
    (if j = k then Some (f (unwrap_or d (bm_get m k))) else bm_get m j)"
  by (simp add: bm_entry_def bm_get_put)

lemma bm_ok_entry: "bm_ok m \<Longrightarrow> bm_ok (bm_entry d k f m)"
  by (simp add: bm_entry_def bm_ok_put)

lemma bm_get_in: "bm_get m k = Some v \<Longrightarrow> (k, v) \<in> set m"
  by (simp add: bm_get_def map_of_SomeD)

lemma bm_get_Some_iff: "bm_ok m \<Longrightarrow> bm_get m k = Some v \<longleftrightarrow> (k, v) \<in> set m"
proof -
  assume "bm_ok m"
  then have "distinct (map fst m)"
    using bm.keys_distinct [of m] by (simp add: bm_keys_def)
  then show ?thesis by (simp add: bm_get_def map_of_eq_Some_iff)
qed

end
