(* ===== verification/Model.thy ===== *)
theory Model
  imports Chrono F64_Laws BMap
begin

text \<open>
  \<open>src/model.rs\<close>: the normalized snapshots a quota source or a host resource source produces,
  their range checks, and the jitter-tolerant comparison of reset generations.
\<close>

section \<open>Snapshots\<close>

record saturation_snapshot =
  ss_completed_requests :: nat
  ss_window_seconds :: nat
  ss_attempts :: nat
  ss_concurrency_fraction :: "f64 option"

record backpressure_snapshot =
  bp_429_fraction :: "f64 option"
  bp_attempts :: nat
  bp_window_seconds :: nat

record quota_window =
  qw_id :: string
  qw_used_fraction :: f64
  qw_resets_at :: datetime
  qw_duration_minutes :: "nat option"
  qw_reached :: bool

record reset_credit =
  rc_id :: string
  rc_reset_type :: "string option"
  rc_status :: string
  rc_granted_at :: "datetime option"
  rc_expires_at :: "datetime option"
  rc_title :: "string option"
  rc_description :: "string option"

record reset_credits_snapshot =
  rcs_available_count :: nat
  rcs_credits :: "reset_credit list option"

record quota_snapshot =
  qs_observed_at :: datetime
  qs_fresh :: bool
  qs_windows :: "quota_window list"
  qs_backlog :: "nat option"
  qs_reset_credits :: "reset_credits_snapshot option"
  qs_backpressure :: "backpressure_snapshot option"
  qs_saturation :: "saturation_snapshot option"

record resource_snapshot =
  rs_observed_at :: datetime
  rs_fresh :: bool
  rs_host_id :: string
  rs_cpu_available :: f64
  rs_mem_available_mb :: nat
  rs_mem_total_mb :: nat

section \<open>Validation\<close>

definition saturation_validate :: "saturation_snapshot \<Rightarrow> unit res" where
  "saturation_validate s =
     (if ss_completed_requests s > ss_attempts s
      then Inl (Bail ''quota snapshot saturation completed_requests must be <= attempts'')
      else if is_some_and (\<lambda>f. \<not> is_fin f \<or> \<not> (fle (Fin 0) f \<and> fle f (Fin 1))) (ss_concurrency_fraction s)
      then Inl (Bail ''quota snapshot saturation upstream_concurrency_fraction must be in [0, 1]'')
      else Inr ())"

definition backpressure_validate :: "backpressure_snapshot \<Rightarrow> unit res" where
  "backpressure_validate b =
     (case bp_429_fraction b of
        Some f \<Rightarrow>
          if \<not> is_fin f \<or> \<not> (fle (Fin 0) f \<and> fle f (Fin 1))
          then Inl (Bail ''quota snapshot backpressure upstream_429_fraction must be in [0, 1]'') else Inr ()
      | None \<Rightarrow> Inr ())"

definition resource_validate :: "resource_snapshot \<Rightarrow> unit res" where
  "resource_validate r =
     (if rs_host_id r = [] then Inl (Bail ''resource snapshot has an empty host_id'')
      else if \<not> is_fin (rs_cpu_available r)
            \<or> \<not> (fle (Fin 0) (rs_cpu_available r) \<and> fle (rs_cpu_available r) (Fin 1))
      then Inl (Bail (''resource snapshot '' @ rs_host_id r @ '' cpu_available_fraction must be in [0, 1]''))
      else if rs_mem_available_mb r > rs_mem_total_mb r
      then Inl (Bail (''resource snapshot '' @ rs_host_id r @ '' mem_available_mb must be <= mem_total_mb''))
      else Inr ())"

section \<open>Reset generations\<close>

definition generation_jitter_seconds :: int where
  "generation_jitter_seconds = 60"

definition same_reset_generation :: "chrono \<Rightarrow> datetime \<Rightarrow> datetime \<Rightarrow> bool" where
  "same_reset_generation ch a b = (\<bar>num_seconds ch (a - b)\<bar> \<le> generation_jitter_seconds)"

context chrono_laws
begin

lemma same_generation_refl: "same_reset_generation ch a a"
  by (simp add: same_reset_generation_def generation_jitter_seconds_def)

lemma same_generation_sym: "same_reset_generation ch a b = same_reset_generation ch b a"
  using seconds_neg [of "a - b"] by (simp add: same_reset_generation_def)

lemma same_generation_iff:
  "same_reset_generation ch a b \<longleftrightarrow> \<bar>a - b\<bar> < 61000000000"
proof -
  have abs: "\<bar>num_seconds ch d\<bar> = num_seconds ch \<bar>d\<bar>" for d
  proof -
    have nn: "0 \<le> num_seconds ch x" if "0 \<le> x" for x using seconds_mono [OF that] by simp
    show ?thesis using nn [of d] nn [of "- d"] seconds_neg [of d] by (cases "0 \<le> d") auto
  qed
  have "num_seconds ch \<bar>a - b\<bar> \<le> 60 \<longleftrightarrow> \<bar>a - b\<bar> < 61000000000"
    using seconds_bounds [of "\<bar>a - b\<bar>"] by auto
  then show ?thesis by (simp add: same_reset_generation_def generation_jitter_seconds_def abs)
qed

end

end
