(* ===== verification/State.thy ===== *)
theory State
  imports Model
begin

text \<open>
  \<open>src/state.rs\<close>: the persisted state of every account and host, the operations that record an
  observation or a decision in it, and the normalization of a loaded file.  The bounded histories
  share one contract, the locale \<open>bounded_log\<close>.
\<close>

definition state_schema_version :: nat where "state_schema_version = 8"
definition max_history :: nat where "max_history = 16"
definition max_aggregate :: nat where "max_aggregate = 3072"
definition min_aggregate_interval :: int where "min_aggregate_interval = 60"
definition max_placement :: nat where "max_placement = 16"

section \<open>Data\<close>

record window_sample =
  wsm_observed_at :: datetime
  wsm_used_fraction :: f64
  wsm_resets_at :: datetime
  wsm_workers :: nat

record history_sample =
  hs_observed_at :: datetime
  hs_used_fraction :: f64
  hs_workers :: nat

record window_history =
  wh_resets_at :: datetime
  wh_samples :: "history_sample list"
  wh_max_used :: f64

record aggregate_sample =
  ag_observed_at :: datetime
  ag_used_fraction :: f64
  ag_resets_at :: datetime
  ag_workers :: nat

record credit_alert =
  ca_resets_at :: datetime
  ca_severity :: nat

datatype bp_mode = Normal | Hold | StepDown

record bp_state =
  bps_mode :: bp_mode
  bps_quiet_cycles :: nat
  bps_last_usable :: "datetime option"

record saturation_probe =
  sp_from :: nat
  sp_to :: nat
  sp_baseline :: f64
  sp_recovery :: bool

record saturation_state =
  st_last_sample_at :: "datetime option"
  st_observed_workers :: "nat option"
  st_settled_at :: "datetime option"
  st_baseline :: "f64 option"
  st_plateau :: "f64 option"
  st_pending :: "saturation_probe option"
  st_shrinking :: bool
  st_next_probe_at :: "datetime option"

record account_state =
  as_windows :: "(string, window_sample) bmap"
  as_last_target :: "nat option"
  as_history :: "(string, window_history) bmap"
  as_aggregate :: "(string, aggregate_sample list) bmap"
  as_credit_alerts :: "(string, credit_alert) bmap"
  as_backpressure :: bp_state
  as_saturation :: "saturation_state option"

record placement_sample =
  ps_observed_at :: datetime
  ps_target :: nat

record host_state =
  ho_windows :: "(string, window_sample) bmap"
  ho_history :: "(string, window_history) bmap"
  ho_placement :: "placement_sample list"

record gov_state =
  gs_schema_version :: nat
  gs_accounts :: "(string, account_state) bmap"
  gs_hosts :: "(string, (string, host_state) bmap) bmap"

definition bp_state_default :: bp_state where
  "bp_state_default = \<lparr> bps_mode = Normal, bps_quiet_cycles = 0, bps_last_usable = None \<rparr>"

definition bp_is_default :: "bp_state \<Rightarrow> bool" where
  "bp_is_default s = (bps_mode s = Normal \<and> bps_quiet_cycles s = 0 \<and> bps_last_usable s = None)"

definition saturation_state_default :: saturation_state where
  "saturation_state_default = \<lparr> st_last_sample_at = None, st_observed_workers = None,
     st_settled_at = None, st_baseline = None, st_plateau = None, st_pending = None,
     st_shrinking = False, st_next_probe_at = None \<rparr>"

definition account_state_default :: account_state where
  "account_state_default = \<lparr> as_windows = [], as_last_target = None, as_history = [],
     as_aggregate = [], as_credit_alerts = [], as_backpressure = bp_state_default,
     as_saturation = None \<rparr>"

definition host_state_default :: host_state where
  "host_state_default = \<lparr> ho_windows = [], ho_history = [], ho_placement = [] \<rparr>"

definition gov_state_default :: gov_state where
  "gov_state_default = \<lparr> gs_schema_version = state_schema_version, gs_accounts = [], gs_hosts = [] \<rparr>"

section \<open>Recording an observation\<close>

definition window_sample_of :: "quota_snapshot \<Rightarrow> nat \<Rightarrow> quota_window \<Rightarrow> window_sample" where
  "window_sample_of sn workers w = \<lparr> wsm_observed_at = qs_observed_at sn,
     wsm_used_fraction = qw_used_fraction w, wsm_resets_at = qw_resets_at w, wsm_workers = workers \<rparr>"

definition new_history :: "quota_window \<Rightarrow> window_history" where
  "new_history w = \<lparr> wh_resets_at = qw_resets_at w, wh_samples = [], wh_max_used = Fin 0 \<rparr>"

definition history_push :: "history_sample \<Rightarrow> window_history \<Rightarrow> window_history" where
  "history_push s h = h\<lparr> wh_samples := push_bounded max_history s (wh_samples h) \<rparr>"

text \<open>The entry a window's history becomes, from what the old map held for it.\<close>

definition next_history ::
  "chrono \<Rightarrow> quota_snapshot \<Rightarrow> nat \<Rightarrow> window_history option \<Rightarrow> quota_window \<Rightarrow> window_history" where
  "next_history ch sn workers old w =
     (let entry = unwrap_or (new_history w)
            (opt_filter (\<lambda>h. same_reset_generation ch (wh_resets_at h) (qw_resets_at w)) old)
      in history_push \<lparr> hs_observed_at = qs_observed_at sn, hs_used_fraction = qw_used_fraction w,
             hs_workers = workers \<rparr>
           (entry\<lparr> wh_max_used := fmax (wh_max_used entry) (qw_used_fraction w) \<rparr>))"

text \<open>The loop over the windows: an entry is removed from the old map when it is used.\<close>

fun record_history ::
  "chrono \<Rightarrow> quota_snapshot \<Rightarrow> nat \<Rightarrow> quota_window list
     \<Rightarrow> (string, window_history) bmap \<Rightarrow> (string, window_history) bmap
     \<Rightarrow> (string, window_history) bmap" where
  "record_history ch sn workers [] old new = new"
| "record_history ch sn workers (w # ws) old new =
     record_history ch sn workers ws (bm_del (qw_id w) old)
       (bm_put (qw_id w) (next_history ch sn workers (bm_get old (qw_id w)) w) new)"

definition record_windows :: "quota_snapshot \<Rightarrow> nat \<Rightarrow> (string, window_sample) bmap" where
  "record_windows sn workers =
     bm_collect (map (\<lambda>w. (qw_id w, window_sample_of sn workers w)) (qs_windows sn))"

definition aggregate_sample_of :: "quota_snapshot \<Rightarrow> nat \<Rightarrow> quota_window \<Rightarrow> aggregate_sample" where
  "aggregate_sample_of sn workers w = \<lparr> ag_observed_at = qs_observed_at sn,
     ag_used_fraction = qw_used_fraction w, ag_resets_at = qw_resets_at w, ag_workers = workers \<rparr>"

definition should_record_aggregate :: "chrono \<Rightarrow> aggregate_sample list \<Rightarrow> aggregate_sample \<Rightarrow> bool" where
  "should_record_aggregate ch samples s =
     (samples = [] \<or> ag_resets_at (last samples) \<noteq> ag_resets_at s
      \<or> min_aggregate_interval \<le> num_seconds ch (ag_observed_at s - ag_observed_at (last samples)))"

definition next_aggregate ::
  "chrono \<Rightarrow> quota_snapshot \<Rightarrow> nat \<Rightarrow> aggregate_sample list \<Rightarrow> quota_window \<Rightarrow> aggregate_sample list" where
  "next_aggregate ch sn workers samples w =
     (let s = aggregate_sample_of sn workers w
      in if should_record_aggregate ch samples s then push_bounded max_aggregate s samples
         else keep_last max_aggregate samples)"

fun record_aggregate ::
  "chrono \<Rightarrow> quota_snapshot \<Rightarrow> nat \<Rightarrow> quota_window list
     \<Rightarrow> (string, aggregate_sample list) bmap \<Rightarrow> (string, aggregate_sample list) bmap
     \<Rightarrow> (string, aggregate_sample list) bmap" where
  "record_aggregate ch sn workers [] old new = new"
| "record_aggregate ch sn workers (w # ws) old new =
     record_aggregate ch sn workers ws (bm_del (qw_id w) old)
       (bm_put (qw_id w) (next_aggregate ch sn workers (unwrap_or [] (bm_get old (qw_id w))) w) new)"

definition account_record :: "chrono \<Rightarrow> account_state \<Rightarrow> quota_snapshot \<Rightarrow> nat \<Rightarrow> nat \<Rightarrow> account_state" where
  "account_record ch a sn workers target =
     a\<lparr> as_windows := record_windows sn workers,
        as_history := record_history ch sn workers (qs_windows sn) (as_history a) [],
        as_aggregate := record_aggregate ch sn workers (qs_windows sn) (as_aggregate a) [],
        as_last_target := Some target \<rparr>"

definition record_credit_alerts :: "account_state \<Rightarrow> datetime \<Rightarrow> (string \<times> nat) list \<Rightarrow> account_state" where
  "record_credit_alerts a resets_at levels =
     a\<lparr> as_credit_alerts := bm_collect
          (map (\<lambda>(cid, sev). (cid, \<lparr> ca_resets_at = resets_at, ca_severity = sev \<rparr>)) levels) \<rparr>"

definition host_record :: "chrono \<Rightarrow> host_state \<Rightarrow> quota_snapshot \<Rightarrow> nat \<Rightarrow> host_state" where
  "host_record ch h sn workers =
     h\<lparr> ho_windows := record_windows sn workers,
        ho_history := record_history ch sn workers (qs_windows sn) (ho_history h) [] \<rparr>"

definition record_placement :: "host_state \<Rightarrow> datetime \<Rightarrow> nat \<Rightarrow> host_state" where
  "record_placement h now target =
     h\<lparr> ho_placement := push_bounded max_placement
          \<lparr> ps_observed_at = now, ps_target = target \<rparr> (ho_placement h) \<rparr>"

definition record_host :: "chrono \<Rightarrow> gov_state \<Rightarrow> string \<Rightarrow> string \<Rightarrow> quota_snapshot \<Rightarrow> nat \<Rightarrow> gov_state" where
  "record_host ch s account host sn workers =
     s\<lparr> gs_hosts := bm_entry [] account
          (bm_entry host_state_default host (\<lambda>h. host_record ch h sn workers)) (gs_hosts s) \<rparr>"

definition record_host_placement :: "gov_state \<Rightarrow> string \<Rightarrow> string \<Rightarrow> datetime \<Rightarrow> nat \<Rightarrow> gov_state" where
  "record_host_placement s account host now target =
     s\<lparr> gs_hosts := bm_entry [] account
          (bm_entry host_state_default host (\<lambda>h. record_placement h now target)) (gs_hosts s) \<rparr>"

section \<open>Oscillation detection\<close>

text \<open>The newest-first walk that collects the last distinct consecutive targets.\<close>

fun collect_changes :: "nat \<Rightarrow> nat list \<Rightarrow> nat list \<Rightarrow> nat list" where
  "collect_changes needed acc [] = acc"
| "collect_changes needed acc (t # ts) =
     (if acc \<noteq> [] \<and> last acc = t then collect_changes needed acc ts
      else let acc' = acc @ [t]
        in if length acc' = needed then acc' else collect_changes needed acc' ts)"

definition placement_alternates_for :: "host_state \<Rightarrow> nat \<Rightarrow> bool" where
  "placement_alternates_for h minimum_changes =
     (if \<not> (2 \<le> minimum_changes \<and> minimum_changes < max_placement)
         \<or> length (ho_placement h) \<le> minimum_changes then False
      else let needed = minimum_changes + 1;
               recent = collect_changes needed [] (map ps_target (rev (ho_placement h)))
        in if length recent \<noteq> needed then False
           else let changes = rev recent; a = changes ! 0; b = changes ! 1
             in a \<noteq> b \<and> list_all (\<lambda>i. changes ! i = (if even i then a else b)) [0..<length changes])"

section \<open>Loading\<close>

definition normalize_history :: "window_history \<Rightarrow> window_history" where
  "normalize_history h = h\<lparr> wh_max_used :=
     foldl (\<lambda>m s. fmax m (hs_used_fraction s)) (wh_max_used h) (wh_samples h) \<rparr>"

definition normalize_account :: "account_state \<Rightarrow> account_state" where
  "normalize_account a = a\<lparr> as_history := bm_map normalize_history (as_history a),
     as_aggregate := bm_map (keep_last max_aggregate) (as_aggregate a) \<rparr>"

definition normalize_host :: "host_state \<Rightarrow> host_state" where
  "normalize_host h = h\<lparr> ho_placement := keep_last max_placement (ho_placement h) \<rparr>"

text \<open>
  What \<open>State::load\<close> does with a parsed file: a newer schema is refused, an older one advanced.
  The parser's result is the argument: \<open>None\<close> is a missing file, \<open>Some (Inl e)\<close> a file that does
  not parse (moved aside, its error reported), \<open>Some (Inr s)\<close> a parsed state.
\<close>

definition load_state :: "(string + gov_state) option \<Rightarrow> (gov_state \<times> string option) res" where
  "load_state parsed =
     (case parsed of
        None \<Rightarrow> Inr (gov_state_default, None)
      | Some (Inl e) \<Rightarrow> Inr (gov_state_default, Some e)
      | Some (Inr s) \<Rightarrow>
          if state_schema_version < gs_schema_version s
          then Inl (Bail ''state schema is newer than this binary supports'')
          else Inr (s\<lparr> gs_schema_version := state_schema_version,
                       gs_accounts := bm_map normalize_account (gs_accounts s),
                       gs_hosts := bm_map (bm_map normalize_host) (gs_hosts s) \<rparr>, None))"

section \<open>Bounded logs\<close>

text \<open>
  A log that keeps the newest \<open>bound\<close> entries.  After any number of pushes it holds exactly the
  newest \<open>bound\<close> of everything it ever held.
\<close>

locale bounded_log =
  fixes push :: "'e \<Rightarrow> 'l \<Rightarrow> 'l" and entries :: "'l \<Rightarrow> 'e list" and bound :: nat
  assumes push_entries: "entries (push x l) = push_bounded bound x (entries l)"
    and bound_pos: "0 < bound"
begin

lemma push_length: "length (entries (push x l)) \<le> bound"
  by (simp add: push_entries)

lemma newest_is_last: "last (entries (push x l)) = x"
  by (simp add: push_entries last_push_bounded bound_pos)

lemma keep_last_push: "keep_last bound (push_bounded bound x es @ xs) = keep_last bound (es @ x # xs)"
proof (cases "length es < bound")
  case True
  then show ?thesis by (simp add: push_bounded_def)
next
  case False
  let ?k = "Suc (length es) - bound"
  have "push_bounded bound x es @ xs = drop ?k (es @ x # xs)"
    using bound_pos by (simp add: push_bounded_def keep_last_def)
  then show ?thesis using False by (simp add: keep_last_def add.commute del: drop_append)
qed

lemma run_entries:
  "length (entries l) \<le> bound \<Longrightarrow>
     entries (foldl (\<lambda>l x. push x l) l xs) = keep_last bound (entries l @ xs)"
proof (induction xs arbitrary: l)
  case (Cons x xs)
  have "entries (foldl (\<lambda>l x. push x l) (push x l) xs) = keep_last bound (entries (push x l) @ xs)"
    by (rule Cons.IH [OF push_length])
  then show ?case by (simp add: push_entries keep_last_push)
qed simp

end

lemma placement_sample_eta: "\<lparr> ps_observed_at = ps_observed_at s, ps_target = ps_target s \<rparr> = s"
  by (cases s) simp

interpretation placement_log: bounded_log
  "\<lambda>s h. record_placement h (ps_observed_at s) (ps_target s)" ho_placement max_placement
  by unfold_locales (simp_all add: record_placement_def placement_sample_eta max_placement_def)

interpretation history_log: bounded_log history_push wh_samples max_history
  by unfold_locales (auto simp: history_push_def max_history_def)

interpretation aggregate_log: bounded_log "push_bounded max_aggregate" "\<lambda>l. l" max_aggregate
  by unfold_locales (auto simp: max_aggregate_def)

section \<open>Well-formed states\<close>

definition history_ok :: "window_history \<Rightarrow> bool" where
  "history_ok h = (length (wh_samples h) \<le> max_history \<and> wh_max_used h \<noteq> NaN
     \<and> (\<forall>s \<in> set (wh_samples h). hs_used_fraction s \<noteq> NaN \<longrightarrow> fle (hs_used_fraction s) (wh_max_used h)))"

definition account_ok :: "account_state \<Rightarrow> bool" where
  "account_ok a = (bm_ok (as_windows a) \<and> bm_ok (as_history a) \<and> bm_ok (as_aggregate a)
     \<and> bm_ok (as_credit_alerts a)
     \<and> (\<forall>k h. bm_get (as_history a) k = Some h \<longrightarrow> history_ok h)
     \<and> (\<forall>k l. bm_get (as_aggregate a) k = Some l \<longrightarrow> length l \<le> max_aggregate))"

definition host_ok :: "host_state \<Rightarrow> bool" where
  "host_ok h = (bm_ok (ho_windows h) \<and> bm_ok (ho_history h)
     \<and> (\<forall>k w. bm_get (ho_history h) k = Some w \<longrightarrow> history_ok w)
     \<and> length (ho_placement h) \<le> max_placement)"

definition state_ok :: "gov_state \<Rightarrow> bool" where
  "state_ok s = (gs_schema_version s = state_schema_version \<and> bm_ok (gs_accounts s) \<and> bm_ok (gs_hosts s)
     \<and> (\<forall>k a. bm_get (gs_accounts s) k = Some a \<longrightarrow> account_ok a)
     \<and> (\<forall>k m. bm_get (gs_hosts s) k = Some m \<longrightarrow> bm_ok m \<and> (\<forall>j h. bm_get m j = Some h \<longrightarrow> host_ok h)))"

lemma history_ok_new: "history_ok (new_history w)"
  by (simp add: history_ok_def new_history_def)

lemma next_history_ok:
  assumes "\<forall>h. old = Some h \<longrightarrow> history_ok h"
  shows "history_ok (next_history ch sn workers old w)"
proof -
  define entry where "entry = unwrap_or (new_history w)
      (opt_filter (\<lambda>h. same_reset_generation ch (wh_resets_at h) (qw_resets_at w)) old)"
  have e: "history_ok entry"
    using assms history_ok_new [of w] unfolding entry_def by (cases old) auto
  let ?m = "fmax (wh_max_used entry) (qw_used_fraction w)"
  let ?s = "\<lparr> hs_observed_at = qs_observed_at sn, hs_used_fraction = qw_used_fraction w, hs_workers = workers \<rparr>"
  let ?S = "push_bounded max_history ?s (wh_samples entry)"
  have old: "fle (hs_used_fraction s) ?m"
    if "s \<in> set (wh_samples entry)" "hs_used_fraction s \<noteq> NaN" for s
    using that e fmax_ge_left [of "wh_max_used entry" "qw_used_fraction w"] fle_trans
    unfolding history_ok_def by blast
  have "fle (hs_used_fraction s) ?m" if s: "s \<in> set ?S" "hs_used_fraction s \<noteq> NaN" for s
  proof (cases "s = ?s")
    case True
    with s fmax_ge_right show ?thesis by simp
  next
    case False
    from subsetD [OF set_push_bounded s(1)] False have "s \<in> set (wh_samples entry)" by simp
    then show ?thesis using s(2) by (rule old)
  qed
  moreover have "?m \<noteq> NaN" using e fmax_not_nan by (simp add: history_ok_def)
  ultimately have "history_ok (history_push ?s (entry\<lparr>wh_max_used := ?m\<rparr>))"
    by (simp add: history_ok_def history_push_def)
  then show ?thesis by (simp add: next_history_def entry_def Let_def)
qed

lemma record_history_ok:
  assumes "bm_ok new" "\<forall>k h. bm_get new k = Some h \<longrightarrow> history_ok h"
    and "\<forall>k h. bm_get old k = Some h \<longrightarrow> history_ok h"
  shows "bm_ok (record_history ch sn workers ws old new)
    \<and> (\<forall>k h. bm_get (record_history ch sn workers ws old new) k = Some h \<longrightarrow> history_ok h)"
  using assms
proof (induction ws arbitrary: old new)
  case (Cons w ws)
  have "\<forall>k h. bm_get (bm_put (qw_id w) (next_history ch sn workers (bm_get old (qw_id w)) w) new) k
      = Some h \<longrightarrow> history_ok h"
    using Cons.prems next_history_ok by (auto simp: bm_get_put)
  moreover have "\<forall>k h. bm_get (bm_del (qw_id w) old) k = Some h \<longrightarrow> history_ok h"
    using Cons.prems by (auto simp: bm_get_del)
  ultimately show ?case
    unfolding record_history.simps by (rule Cons.IH [OF bm_ok_put [OF Cons.prems(1)]])
qed simp

lemma length_next_aggregate: "length (next_aggregate ch sn workers l w) \<le> max_aggregate"
  by (simp add: next_aggregate_def Let_def)

lemma record_aggregate_ok:
  assumes "bm_ok new" "\<forall>k l. bm_get new k = Some l \<longrightarrow> length l \<le> max_aggregate"
  shows "bm_ok (record_aggregate ch sn workers ws old new)
    \<and> (\<forall>k l. bm_get (record_aggregate ch sn workers ws old new) k = Some l \<longrightarrow> length l \<le> max_aggregate)"
  using assms
proof (induction ws arbitrary: old new)
  case (Cons w ws)
  let ?n = "bm_put (qw_id w) (next_aggregate ch sn workers (unwrap_or [] (bm_get old (qw_id w))) w) new"
  have "\<forall>k l. bm_get ?n k = Some l \<longrightarrow> length l \<le> max_aggregate"
    using Cons.prems length_next_aggregate by (auto simp: bm_get_put)
  from Cons.IH [OF bm_ok_put [OF Cons.prems(1)] this] show ?case
    unfolding record_aggregate.simps .
qed simp

lemma record_history_fresh:
  assumes "\<forall>k h. bm_get old k = Some h \<longrightarrow> history_ok h"
  shows "bm_ok (record_history ch sn workers ws old [])"
    and "bm_get (record_history ch sn workers ws old []) k = Some h \<Longrightarrow> history_ok h"
  using record_history_ok [of "[]" old] assms by (simp_all add: bm.inv_emp bm.look_emp)

lemma record_aggregate_fresh:
  shows "bm_ok (record_aggregate ch sn workers ws old [])"
    and "bm_get (record_aggregate ch sn workers ws old []) k = Some l \<Longrightarrow> length l \<le> max_aggregate"
  using record_aggregate_ok [of "[]"] by (simp_all add: bm.inv_emp bm.look_emp)

lemma account_record_ok: "account_ok a \<Longrightarrow> account_ok (account_record ch a sn workers target)"
  using record_history_fresh [of "as_history a"] record_aggregate_fresh
  unfolding account_ok_def account_record_def record_windows_def by simp

lemma host_record_ok: "host_ok h \<Longrightarrow> host_ok (host_record ch h sn workers)"
  using record_history_fresh [of "ho_history h"]
  unfolding host_ok_def host_record_def record_windows_def by simp

lemma record_placement_ok: "host_ok h \<Longrightarrow> host_ok (record_placement h now target)"
  by (auto simp: host_ok_def record_placement_def)

lemma host_state_default_ok: "host_ok host_state_default"
  by (simp add: host_ok_def host_state_default_def bm.inv_emp bm.look_emp)

lemma bm_entry_host_ok:
  assumes "state_ok s" "\<And>h. host_ok h \<Longrightarrow> host_ok (f h)"
  shows "state_ok (s\<lparr> gs_hosts := bm_entry [] account (bm_entry host_state_default host f) (gs_hosts s) \<rparr>)"
proof -
  have inner: "bm_ok m \<and> (\<forall>j h. bm_get m j = Some h \<longrightarrow> host_ok h)"
    if "m = unwrap_or [] (bm_get (gs_hosts s) account)" for m
    using assms(1) that by (cases "bm_get (gs_hosts s) account")
      (auto simp: state_ok_def bm.inv_emp bm.look_emp)
  have "\<forall>j h. bm_get (bm_entry host_state_default host f m) j = Some h \<longrightarrow> host_ok h"
    if "bm_ok m \<and> (\<forall>j h. bm_get m j = Some h \<longrightarrow> host_ok h)" for m
    using that assms(2) host_state_default_ok
    by (cases "bm_get m host") (auto simp: bm_get_entry)
  with inner assms(1) show ?thesis
    by (auto simp: state_ok_def bm_get_entry bm_ok_entry)
qed

lemma record_host_ok: "state_ok s \<Longrightarrow> state_ok (record_host ch s account host sn workers)"
  unfolding record_host_def by (rule bm_entry_host_ok) (auto intro: host_record_ok)

lemma record_host_placement_ok: "state_ok s \<Longrightarrow> state_ok (record_host_placement s account host now target)"
  unfolding record_host_placement_def by (rule bm_entry_host_ok) (auto intro: record_placement_ok)

end
