(* ===== verification/Strs.thy ===== *)
theory Strs
  imports Prelude
begin

text \<open>
  The string operations of the standard library the code uses, on UTF-8 byte strings: prefixes,
  suffixes, search, ASCII classes, Unicode white space (as its UTF-8 encodings), splitting at the
  first occurrence of a separator.
\<close>

definition starts_with :: "string \<Rightarrow> string \<Rightarrow> bool" where
  "starts_with p s = (take (length p) s = p)"

definition ends_with :: "string \<Rightarrow> string \<Rightarrow> bool" where
  "ends_with p s = (length p \<le> length s \<and> drop (length s - length p) s = p)"

definition strip_prefix :: "string \<Rightarrow> string \<Rightarrow> string option" where
  "strip_prefix p s = (if starts_with p s then Some (drop (length p) s) else None)"

definition strip_suffix :: "string \<Rightarrow> string \<Rightarrow> string option" where
  "strip_suffix p s = (if ends_with p s then Some (take (length s - length p) s) else None)"

fun contains_str :: "string \<Rightarrow> string \<Rightarrow> bool" where
  "contains_str p [] = (p = [])"
| "contains_str p (c # s) = (starts_with p (c # s) \<or> contains_str p s)"

text \<open>\<open>split_once(sep)\<close>: the parts before and after the first occurrence.\<close>

fun split_once :: "string \<Rightarrow> string \<Rightarrow> (string \<times> string) option" where
  "split_once p [] = (if p = [] then Some ([], []) else None)"
| "split_once p (c # s) =
     (if starts_with p (c # s) then Some ([], drop (length p) (c # s))
      else map_option (\<lambda>(a, b). (c # a, b)) (split_once p s))"

text \<open>\<open>split(sep)\<close> at a character or byte.\<close>

fun split_on :: "char \<Rightarrow> string \<Rightarrow> string list" where
  "split_on sep [] = [[]]"
| "split_on sep (c # cs) = (case split_on sep cs of
     [] \<Rightarrow> [[c]] | p # ps \<Rightarrow> if c = sep then [] # p # ps else (c # p) # ps)"

text \<open>\<open>rsplit_once(sep)\<close>: the parts around the last occurrence, of a nonempty separator.\<close>

fun rsplit_once :: "string \<Rightarrow> string \<Rightarrow> (string \<times> string) option" where
  "rsplit_once p [] = (if p = [] then Some ([], []) else None)"
| "rsplit_once p (c # s) =
     (case rsplit_once p s of
        Some (a, b) \<Rightarrow> Some (c # a, b)
      | None \<Rightarrow> if starts_with p (c # s) then Some ([], drop (length p) (c # s)) else None)"

text \<open>\<open>find(c)\<close> on one byte.\<close>

fun find_char :: "char \<Rightarrow> string \<Rightarrow> nat option" where
  "find_char c [] = None"
| "find_char c (d # s) = (if c = d then Some 0 else map_option Suc (find_char c s))"

definition byte :: "char \<Rightarrow> nat" where
  "byte c = of_char c"

definition is_lower :: "char \<Rightarrow> bool" where "is_lower c = (97 \<le> byte c \<and> byte c \<le> 122)"
definition is_upper :: "char \<Rightarrow> bool" where "is_upper c = (65 \<le> byte c \<and> byte c \<le> 90)"
definition is_digit :: "char \<Rightarrow> bool" where "is_digit c = (48 \<le> byte c \<and> byte c \<le> 57)"
definition is_alnum :: "char \<Rightarrow> bool" where "is_alnum c = (is_lower c \<or> is_upper c \<or> is_digit c)"

definition to_ascii_lower :: "string \<Rightarrow> string" where
  "to_ascii_lower s = map (\<lambda>c. if is_upper c then char_of (byte c + 32) else c) s"

text \<open>
  \<open>char::is_whitespace\<close>: the length in bytes of the white-space character at the front of a UTF-8
  string, 0 if there is none.
\<close>

definition ws_len :: "string \<Rightarrow> nat" where
  "ws_len s = (case map byte (take 3 s) of
       a # r \<Rightarrow>
         if (9 \<le> a \<and> a \<le> 13) \<or> a = 32 then 1
         else (case r of
             b # r' \<Rightarrow>
               if a = 194 \<and> (b = 133 \<or> b = 160) then 2
               else (case r' of
                   c # _ \<Rightarrow>
                     if a = 225 \<and> b = 154 \<and> c = 128 then 3
                     else if a = 226 \<and> b = 128 \<and> ((128 \<le> c \<and> c \<le> 138) \<or> c = 168 \<or> c = 169 \<or> c = 175) then 3
                     else if a = 226 \<and> b = 129 \<and> c = 159 then 3
                     else if a = 227 \<and> b = 128 \<and> c = 128 then 3
                     else 0
                 | [] \<Rightarrow> 0)
           | [] \<Rightarrow> 0)
     | [] \<Rightarrow> 0)"

fun has_ws :: "string \<Rightarrow> bool" where
  "has_ws [] = False"
| "has_ws (c # s) = (ws_len (c # s) > 0 \<or> has_ws s)"

text \<open>\<open>s.trim().is_empty()\<close>\<close>

function all_ws :: "string \<Rightarrow> bool" where
  "all_ws s = (if s = [] then True else if ws_len s = 0 then False else all_ws (drop (ws_len s) s))"
  by pat_completeness auto
termination
  by (relation "measure length") auto

declare all_ws.simps [simp del]

lemma starts_with_iff: "starts_with p s \<longleftrightarrow> (\<exists>r. s = p @ r)"
  by (metis append_take_drop_id starts_with_def append_eq_conv_conj)

lemma ends_with_iff: "ends_with p s \<longleftrightarrow> (\<exists>r. s = r @ p)"
proof
  assume "ends_with p s"
  then show "\<exists>r. s = r @ p" by (metis append_take_drop_id ends_with_def)
qed (auto simp: ends_with_def)

lemma ends_with_append [simp]: "ends_with p (r @ p)"
  by (auto simp: ends_with_iff)

lemma strip_prefix_Some: "strip_prefix p s = Some r \<longleftrightarrow> s = p @ r"
  by (auto simp: strip_prefix_def starts_with_iff)

lemma strip_suffix_Some: "strip_suffix p s = Some r \<longleftrightarrow> s = r @ p"
  by (auto simp: strip_suffix_def ends_with_iff)

lemma strip_prefix_append [simp]: "strip_prefix p (p @ r) = Some r"
  by (simp add: strip_prefix_Some)

lemma split_once_Some: "split_once p s = Some (a, b) \<Longrightarrow> s = a @ p @ b"
  by (induction s arbitrary: a b) (auto simp: starts_with_iff split: if_splits)

lemma rsplit_once_Some: "rsplit_once p s = Some (a, b) \<Longrightarrow> s = a @ p @ b"
  by (induction s arbitrary: a b)
    (auto simp: starts_with_iff split: if_splits option.splits prod.splits)

end
