(* ===== verification/Identity.thy ===== *)
theory Identity
  imports Strs
begin

text \<open>
  Worker identity, \<open>src/ownership.rs\<close> section 28.9: the prefix an instance launches, retires and
  counts its workers under, and the test that a worker id carries a prefix.
\<close>

definition pool_of_prefix :: "string \<Rightarrow> string" where
  "pool_of_prefix prefix =
     (let stem = unwrap_or prefix (strip_prefix ''sg-'' prefix)
      in unwrap_or stem (strip_suffix ''-'' stem))"

definition effective_prefix :: "string \<Rightarrow> string \<Rightarrow> bool \<Rightarrow> string" where
  "effective_prefix configured host_id primary =
     (if primary \<or> ends_with (''-'' @ host_id @ ''-'') configured then configured
      else ''sg-'' @ pool_of_prefix configured @ ''-'' @ host_id @ ''-'')"

definition matches_worker_prefix :: "string \<Rightarrow> string \<Rightarrow> bool" where
  "matches_worker_prefix prefix worker_id =
     is_some_and (\<lambda>suffix. suffix \<noteq> [] \<and> list_all is_digit suffix) (strip_prefix prefix worker_id)"

lemma matches_worker_prefix_iff:
  "matches_worker_prefix p w \<longleftrightarrow> (\<exists>n. w = p @ n \<and> n \<noteq> [] \<and> list_all is_digit n)"
proof (cases "strip_prefix p w")
  case None
  then show ?thesis by (auto simp: matches_worker_prefix_def)
next
  case (Some r)
  then show ?thesis by (auto simp: matches_worker_prefix_def strip_prefix_Some)
qed

lemma dash_not_digit [simp]: "\<not> is_digit (CHR ''-'')"
  by (simp add: is_digit_def byte_def)

text \<open>Digits after a separator: the prefix is determined by the worker.\<close>

lemma digits_suffix_unique:
  assumes "p @ m = q @ n" "list_all is_digit m" "list_all is_digit n"
    and "ends_with ''-'' p" "ends_with ''-'' q"
  shows "p = q"
proof -
  obtain p' q' where p: "p = p' @ ''-''" and q: "q = q' @ ''-''"
    using assms(4,5) unfolding ends_with_iff by blast
  from assms(1) consider us where "p = q @ us" "us @ m = n" | us where "q = p @ us" "us @ n = m"
    unfolding append_eq_append_conv2 by metis
  then show ?thesis
  proof cases
    case 1
    show ?thesis
    proof (cases us rule: rev_exhaust)
      case (snoc vs c)
      with 1 p have "c = CHR ''-''" by simp
      with 1 snoc assms(3) show ?thesis by auto
    qed (use 1 in simp)
  next
    case 2
    show ?thesis
    proof (cases us rule: rev_exhaust)
      case (snoc vs c)
      with 2 q have "c = CHR ''-''" by simp
      with 2 snoc assms(2) show ?thesis by auto
    qed (use 2 in simp)
  qed
qed

lemma effective_prefix_host: "effective_prefix c h False = e \<Longrightarrow> ends_with (''-'' @ h @ ''-'') e"
  by (auto simp: effective_prefix_def ends_with_iff)

lemma effective_prefix_idem:
  "effective_prefix (effective_prefix c h p) h p = effective_prefix c h p"
proof (cases p)
  case False
  then show ?thesis using effective_prefix_host [OF refl, of h c]
    by (subst effective_prefix_def) simp
qed (simp add: effective_prefix_def)

end
