(* ===== verification/Config.thy ===== *)
theory Config
  imports Identity F64_Laws BMap
begin

text \<open>
  \<open>src/config.rs\<close>, the data model: every structure and enumeration of the configuration with its
  defaults, the resolution of a window's policy, and the path and prefix rewriting that follows
  parsing.  Paths are strings.  The home directory is a parameter.
\<close>

section \<open>Sources, observers and actuators\<close>

datatype source_config =
    NormalizedFile string
  | NormalizedHttp string nat
  | SourceCommand "string list"
  | AnthropicOauth string string string nat
  | CodexAppServer string nat

datatype resource_source_config =
    ResourceFile string
  | ResourceHttp string nat
  | ResourceCommand "string list"

datatype worker_observer_config =
    ObsStatic nat
  | ObsFile string
  | ObsCommand "string list"
  | NeedleStatus string string nat "string option"
    \<comment> \<open>agent, heartbeat_dir, stale_after_seconds, identifier_prefix\<close>

datatype actuator_config =
    ActNone
  | TargetFile string
  | ActCommand "string list" bool
  | NeedleRun string string "string option" "string option" "string option"
    \<comment> \<open>repo, adapter, identifier_prefix, seed_demand_state, seed_heartbeats\<close>

datatype observer_reconciliation = Strict | Clamp

datatype strategy = LinearToReset | CeilingOnly

datatype stale_behavior = StaleHold | StaleMinWorkers

record resource_reserve_config =
  rr_cpu_reserve :: f64
  rr_mem_reserve_mb :: nat

record host_config =
  hc_max_workers :: "nat option"
  hc_max_up :: "nat option"
  hc_max_down :: "nat option"
  hc_resource_reserve :: "resource_reserve_config option"
  hc_resource_source :: "resource_source_config option"
  hc_observer :: worker_observer_config
  hc_actuator :: actuator_config

record takeover_target =
  tk_worker_id :: string
  tk_agent :: string
  tk_unit :: "string option"

record fleet_config =
  fl_min_workers :: nat
  fl_max_workers :: nat
  fl_bootstrap :: nat
  fl_max_up :: nat
  fl_max_down :: nat
  fl_observer :: "worker_observer_config option"
  fl_actuator :: actuator_config
  fl_reconciliation :: observer_reconciliation
  fl_hosts :: "(string, host_config) bmap option"
  fl_takeover :: "takeover_target list"
  fl_takeover_helper :: "string list option"

section \<open>Utilization policy\<close>

record zai_saturation_config =
  zs_step_workers :: nat
  zs_dwell_seconds :: nat
  zs_min_window_seconds :: nat
  zs_min_attempts :: nat
  zs_plateau_fraction :: f64
  zs_concurrency_fraction :: f64
  zs_reprobe_seconds :: nat

definition zai_saturation_default :: zai_saturation_config where
  "zai_saturation_default = \<lparr> zs_step_workers = 1, zs_dwell_seconds = 600,
     zs_min_window_seconds = 300, zs_min_attempts = 30, zs_plateau_fraction = f_lit (5/100),
     zs_concurrency_fraction = f_lit (10/100), zs_reprobe_seconds = 3600 \<rparr>"

record backpressure_config =
  bc_hold_above :: f64
  bc_step_down_above :: f64
  bc_recover_below :: f64
  bc_quiet_cycles :: nat
  bc_signal_loss_release_seconds :: nat

definition backpressure_config_default :: backpressure_config where
  "backpressure_config_default = \<lparr> bc_hold_above = f_lit (20/100),
     bc_step_down_above = f_lit (50/100), bc_recover_below = f_lit (10/100),
     bc_quiet_cycles = 3, bc_signal_loss_release_seconds = 1800 \<rparr>"

record window_policy =
  wp_burn_window_seconds :: "nat option"
  wp_enabled :: "bool option"
  wp_target :: "f64 option"
  wp_reserve :: "f64 option"
  wp_strategy :: "strategy option"

record utilization_config =
  ut_target :: "f64 option"
  ut_reserve :: "f64 option"
  ut_strategy :: strategy
  ut_stale_after :: nat
  ut_stale_behavior :: stale_behavior
  ut_min_sample_seconds :: nat
  ut_backpressure :: "backpressure_config option"
  ut_zai_saturation :: "zai_saturation_config option"
  ut_windows :: "(string, window_policy) bmap"

record banked_reset_config =
  br_enabled :: bool
  br_full_speed :: bool
  br_min_pace :: f64
  br_redeem_at :: f64
  br_deadline_safety_seconds :: nat

definition banked_reset_default :: banked_reset_config where
  "banked_reset_default = \<lparr> br_enabled = False, br_full_speed = False, br_min_pace = f_lit 2,
     br_redeem_at = f_lit 1, br_deadline_safety_seconds = 6 * 60 * 60 \<rparr>"

section \<open>Accounts, federation, the whole configuration\<close>

record account_config =
  ac_source :: source_config
  ac_fleet :: fleet_config
  ac_util :: utilization_config
  ac_banked :: banked_reset_config

record peer_config =
  pc_host_id :: string
  pc_argv :: "string list option"

record federation_config =
  fc_host_id :: string
  fc_instance_id_file :: "string option"
  fc_record_seq_file :: "string option"
  fc_host_capacity_state :: "string option"
  fc_account_identities :: "(string, string) bmap"
  fc_peers :: "peer_config list"
  fc_stale_after :: nat
  fc_expiry :: nat
  fc_primary :: bool
  fc_repo_owners :: "(string, string) bmap"
  fc_pending_file :: "string option"

record config =
  cf_version :: nat
  cf_poll_interval :: nat
  cf_state_path :: "string option"
  cf_accounts :: "(string, account_config) bmap"
  cf_federation :: "federation_config option"

section \<open>Window policies\<close>

record resolved_policy =
  rp_burn_window_seconds :: "nat option"
  rp_target :: f64
  rp_strategy :: strategy

text \<open>\<open>None\<close> is a disabled window; a missing account target is the code's \<open>expect\<close>.\<close>

definition policy_for :: "utilization_config \<Rightarrow> string \<Rightarrow> resolved_policy option res" where
  "policy_for u wid =
     (let p = bm_get (ut_windows u) wid
      in if Option.bind p wp_enabled = Some False then Inr None
         else let target =
                or_opt (or_opt (or_opt (Option.bind p wp_target)
                    (Option.bind p (\<lambda>p. map_option (\<lambda>r. fsub (f_lit 1) r) (wp_reserve p))))
                  (ut_target u))
                (map_option (\<lambda>r. fsub (f_lit 1) r) (ut_reserve u))
         in case target of
              None \<Rightarrow> Inl (Panic ''validated utilization target'')
            | Some t \<Rightarrow> Inr (Some \<lparr> rp_burn_window_seconds = Option.bind p wp_burn_window_seconds,
                 rp_target = t,
                 rp_strategy = unwrap_or (ut_strategy u) (Option.bind p wp_strategy) \<rparr>))"

section \<open>Paths\<close>

definition path_join :: "string \<Rightarrow> string \<Rightarrow> string" where
  "path_join base rest =
     (if starts_with ''/'' rest then rest
      else if base = [] then rest
      else if ends_with ''/'' base then base @ rest
      else base @ ''/'' @ rest)"

definition expand_tilde :: "string option \<Rightarrow> string \<Rightarrow> string" where
  "expand_tilde home path =
     (if path = ''~'' then unwrap_or path home
      else case strip_prefix ''~/'' path of
        Some rest \<Rightarrow> (case home of Some h \<Rightarrow> path_join h rest | None \<Rightarrow> path)
      | None \<Rightarrow> path)"

fun source_expand_paths :: "string option \<Rightarrow> source_config \<Rightarrow> source_config" where
  "source_expand_paths h (NormalizedFile p) = NormalizedFile (expand_tilde h p)"
| "source_expand_paths h (AnthropicOauth c u t s) = AnthropicOauth (expand_tilde h c) u t s"
| "source_expand_paths h (CodexAppServer e s) = CodexAppServer (expand_tilde h e) s"
| "source_expand_paths h (SourceCommand a) = SourceCommand a"
| "source_expand_paths h (NormalizedHttp u t) = NormalizedHttp u t"

fun expand_observer_path :: "string option \<Rightarrow> worker_observer_config \<Rightarrow> worker_observer_config" where
  "expand_observer_path h (ObsFile p) = ObsFile (expand_tilde h p)"
| "expand_observer_path h (NeedleStatus a d s p) = NeedleStatus a (expand_tilde h d) s p"
| "expand_observer_path h (ObsStatic n) = ObsStatic n"
| "expand_observer_path h (ObsCommand a) = ObsCommand a"

fun expand_actuator_path :: "string option \<Rightarrow> actuator_config \<Rightarrow> actuator_config" where
  "expand_actuator_path h (TargetFile p) = TargetFile (expand_tilde h p)"
| "expand_actuator_path h (NeedleRun r a p d s) =
     NeedleRun (expand_tilde h r) a p (map_option (expand_tilde h) d) (map_option (expand_tilde h) s)"
| "expand_actuator_path h ActNone = ActNone"
| "expand_actuator_path h (ActCommand a r) = ActCommand a r"

fun expand_resource_path :: "string option \<Rightarrow> resource_source_config \<Rightarrow> resource_source_config" where
  "expand_resource_path h (ResourceFile p) = ResourceFile (expand_tilde h p)"
| "expand_resource_path h (ResourceHttp u t) = ResourceHttp u t"
| "expand_resource_path h (ResourceCommand a) = ResourceCommand a"

definition host_expand_paths :: "string option \<Rightarrow> host_config \<Rightarrow> host_config" where
  "host_expand_paths h c = c\<lparr> hc_observer := expand_observer_path h (hc_observer c),
     hc_actuator := expand_actuator_path h (hc_actuator c),
     hc_resource_source := map_option (expand_resource_path h) (hc_resource_source c) \<rparr>"

definition fleet_expand_paths :: "string option \<Rightarrow> fleet_config \<Rightarrow> fleet_config" where
  "fleet_expand_paths h f = f\<lparr> fl_observer := map_option (expand_observer_path h) (fl_observer f),
     fl_actuator := expand_actuator_path h (fl_actuator f),
     fl_hosts := map_option (bm_map (host_expand_paths h)) (fl_hosts f) \<rparr>"

section \<open>Worker prefixes of a secondary host\<close>

fun rewrite_observer_prefix :: "string \<Rightarrow> worker_observer_config \<Rightarrow> worker_observer_config" where
  "rewrite_observer_prefix h (NeedleStatus a d s (Some p)) =
     NeedleStatus a d s (Some (effective_prefix p h False))"
| "rewrite_observer_prefix h ob = ob"

fun rewrite_actuator_prefix :: "string \<Rightarrow> actuator_config \<Rightarrow> actuator_config" where
  "rewrite_actuator_prefix h (NeedleRun r a (Some p) d s) =
     NeedleRun r a (Some (effective_prefix p h False)) d s"
| "rewrite_actuator_prefix h ac = ac"

definition rewrite_host_prefixes :: "string \<Rightarrow> host_config \<Rightarrow> host_config" where
  "rewrite_host_prefixes h c = c\<lparr> hc_observer := rewrite_observer_prefix h (hc_observer c),
     hc_actuator := rewrite_actuator_prefix h (hc_actuator c) \<rparr>"

definition rewrite_fleet_prefixes :: "string \<Rightarrow> fleet_config \<Rightarrow> fleet_config" where
  "rewrite_fleet_prefixes h f =
     (case fl_hosts f of
        Some hosts \<Rightarrow>
          (case bm_get hosts h of
             Some host \<Rightarrow> f\<lparr> fl_hosts := Some (bm_put h (rewrite_host_prefixes h host) hosts) \<rparr>
           | None \<Rightarrow> f)
      | None \<Rightarrow> f\<lparr> fl_observer := map_option (rewrite_observer_prefix h) (fl_observer f),
           fl_actuator := rewrite_actuator_prefix h (fl_actuator f) \<rparr>)"

definition apply_federation_prefixes :: "config \<Rightarrow> config" where
  "apply_federation_prefixes c =
     (case cf_federation c of
        None \<Rightarrow> c
      | Some fed \<Rightarrow>
          if fc_primary fed \<or> fc_peers fed = [] then c
          else c\<lparr> cf_accounts := bm_map
                 (\<lambda>a. a\<lparr> ac_fleet := rewrite_fleet_prefixes (fc_host_id fed) (ac_fleet a) \<rparr>)
                 (cf_accounts c) \<rparr>)"

section \<open>Lemmas\<close>

lemma rewrite_observer_prefix_idem [simp]:
  "rewrite_observer_prefix h (rewrite_observer_prefix h ob) = rewrite_observer_prefix h ob"
  by (cases "(h, ob)" rule: rewrite_observer_prefix.cases) (simp_all add: effective_prefix_idem)

lemma rewrite_actuator_prefix_idem [simp]:
  "rewrite_actuator_prefix h (rewrite_actuator_prefix h ac) = rewrite_actuator_prefix h ac"
  by (cases "(h, ac)" rule: rewrite_actuator_prefix.cases) (simp_all add: effective_prefix_idem)

lemma rewrite_host_prefixes_idem [simp]:
  "rewrite_host_prefixes h (rewrite_host_prefixes h c) = rewrite_host_prefixes h c"
  by (simp add: rewrite_host_prefixes_def)

lemma bm_put_twice: "bm_put k v (bm_put k w m) = bm_put k v m"
  by (induction m) auto

lemma rewrite_fleet_prefixes_idem [simp]:
  "rewrite_fleet_prefixes h (rewrite_fleet_prefixes h f) = rewrite_fleet_prefixes h f"
  by (auto simp: rewrite_fleet_prefixes_def bm_get_put bm_put_twice option.map_comp comp_def
      split: option.splits)

text \<open>A resolved policy never has a missing target once the account has one.\<close>

definition has_target :: "utilization_config \<Rightarrow> bool" where
  "has_target u = (ut_target u \<noteq> None \<or> ut_reserve u \<noteq> None)"

lemma policy_for_no_panic: "has_target u \<Longrightarrow> \<exists>p. policy_for u wid = Inr p"
  unfolding has_target_def policy_for_def Let_def
  by (auto simp: option_defs split: option.splits)

end
