(* ===== verification/Burn.thy ===== *)
theory Burn
  imports State Config "HOL-Library.Product_Lexorder"
begin

text \<open>
  The burn-rate estimators of \<open>src/controller.rs\<close>: the two-point estimator, the rolling-window
  estimator, the long-baseline aggregate estimator with its split into exogenous and governed
  usage, and the conversion of a required rate into workers.
\<close>

definition hours_of :: "chrono \<Rightarrow> delta \<Rightarrow> f64" where
  "hours_of ch d = fdiv (f_of_int (num_millis ch d)) (f_lit 3600000)"

definition f_positive :: "f64 \<Rightarrow> bool" where
  "f_positive x = (is_fin x \<and> flt (Fin 0) x)"

text \<open>\<open>iter().sum::<f64>()\<close> starts from the negative zero.\<close>

definition f_sum :: "f64 list \<Rightarrow> f64" where
  "f_sum xs = foldl fadd NZero xs"

text \<open>\<open>sort_by(f64::total_cmp)\<close>\<close>

fun f_insert :: "f64 \<Rightarrow> f64 list \<Rightarrow> f64 list" where
  "f_insert x [] = [x]"
| "f_insert x (y # ys) = (if ftotal_lt y x then y # f_insert x ys else x # y # ys)"

definition f_sort :: "f64 list \<Rightarrow> f64 list" where
  "f_sort xs = foldr f_insert xs []"

section \<open>Two-point estimator\<close>

definition estimate_burn_per_worker ::
  "chrono \<Rightarrow> window_sample \<Rightarrow> quota_window \<Rightarrow> datetime \<Rightarrow> f64 option" where
  "estimate_burn_per_worker ch sample w observed_at =
     (let elapsed_hours = hours_of ch (observed_at - wsm_observed_at sample);
          per_worker = fdiv (fdiv (fsub (qw_used_fraction w) (wsm_used_fraction sample)) elapsed_hours)
                            (f_of_nat (wsm_workers sample))
      in if f_positive per_worker then Some per_worker else None)"

section \<open>Rolling window\<close>

text \<open>\<open>Duration::try_seconds(seconds.try_into().ok()?)?\<close>\<close>

definition try_seconds_u64 :: "chrono \<Rightarrow> nat \<Rightarrow> delta option" where
  "try_seconds_u64 ch s = (if s \<le> i64_max then try_seconds ch (int s) else None)"

fun window_burn_loop ::
  "chrono \<Rightarrow> datetime \<Rightarrow> nat \<Rightarrow> aggregate_sample option \<Rightarrow> f64 \<times> f64
     \<Rightarrow> aggregate_sample list \<Rightarrow> (f64 \<times> f64) option" where
  "window_burn_loop ch resets_at stale prev acc [] = Some acc"
| "window_burn_loop ch resets_at stale prev (burned, hours) (nxt # rest) =
     (if \<not> same_reset_generation ch (ag_resets_at nxt) resets_at then None
      else case prev of
        None \<Rightarrow> window_burn_loop ch resets_at stale (Some nxt) (burned, hours) rest
      | Some prior \<Rightarrow>
          let elapsed = ag_observed_at nxt - ag_observed_at prior
          in if elapsed < 0
               \<or> is_none_or (\<lambda>lim. lim < elapsed) (try_seconds_u64 ch stale)
               \<or> flt (ag_used_fraction nxt) (ag_used_fraction prior)
               \<or> ag_workers prior = 0
             then None
             else window_burn_loop ch resets_at stale (Some nxt)
               (fadd burned (fsub (ag_used_fraction nxt) (ag_used_fraction prior)),
                fadd hours (fmul (hours_of ch elapsed) (f_of_nat (ag_workers prior)))) rest)"

definition estimate_window_burn ::
  "chrono \<Rightarrow> aggregate_sample list option \<Rightarrow> quota_window \<Rightarrow> datetime \<Rightarrow> nat \<Rightarrow> nat \<Rightarrow> nat \<Rightarrow> f64 option" where
  "estimate_window_burn ch history w observed_at workers seconds stale_after =
     Option.bind (try_seconds_u64 ch seconds) (\<lambda>d.
     Option.bind (checked_add ch observed_at (- d)) (\<lambda>cutoff.
     Option.bind history (\<lambda>hist.
     Option.bind (rposition (\<lambda>s. ag_observed_at s \<le> cutoff) hist) (\<lambda>first.
     let current = \<lparr> ag_observed_at = observed_at, ag_used_fraction = qw_used_fraction w,
                     ag_resets_at = qw_resets_at w, ag_workers = workers \<rparr>
     in Option.bind
          (window_burn_loop ch (qw_resets_at w) stale_after None (Fin 0, Fin 0) (drop first hist @ [current]))
          (\<lambda>(burned, worker_hours).
             let rate = fdiv burned worker_hours in if f_positive rate then Some rate else None)))))"

section \<open>Aggregate burn\<close>

record burn_interval =
  bi_elapsed_hours :: f64
  bi_burned :: f64
  bi_workers_x2 :: nat
  bi_split :: bool

record aggregate_burn =
  ab_aggregate :: f64
  ab_exogenous :: "f64 option"
  ab_governed :: "f64 option"
  ab_per_worker :: "f64 option"

definition burn_bands :: "burn_interval list \<Rightarrow> (nat, f64 \<times> f64) bmap" where
  "burn_bands intervals =
     foldl (\<lambda>m i. bm_entry (Fin 0, Fin 0) (bi_workers_x2 i)
         (\<lambda>(h, u). (fadd h (bi_elapsed_hours i), fadd u (bi_burned i))) m)
       [] (filter bi_split intervals)"

fun ordered_pairs :: "'a list \<Rightarrow> ('a \<times> 'a) list" where
  "ordered_pairs [] = []"
| "ordered_pairs (x # xs) = map (\<lambda>y. (x, y)) xs @ ordered_pairs xs"

definition burn_slopes :: "(f64 \<times> f64) list \<Rightarrow> f64 list" where
  "burn_slopes means = List.map_filter (\<lambda>(l, r).
     let dx = fsub (fst r) (fst l)
     in if feq dx (Fin 0) then None
        else let slope = fdiv (fsub (snd r) (snd l)) dx
          in if f_positive slope then Some slope else None) (ordered_pairs means)"

definition estimate_exogenous_burn :: "burn_interval list \<Rightarrow> f64 \<Rightarrow> f64 option res" where
  "estimate_exogenous_burn intervals aggregate =
     (let bands = burn_bands intervals
      in case bm_get bands 0 of
        Some (hours, usage) \<Rightarrow> bind_res (fclamp (fdiv usage hours) (Fin 0) aggregate) (\<lambda>x. Inr (Some x))
      | None \<Rightarrow>
          let means = List.map_filter (\<lambda>(x2, (hours, usage)).
                if flt (Fin 0) hours
                then Some (fdiv (f_of_nat x2) (f_lit 2), fdiv usage hours) else None) bands;
              slopes = burn_slopes means
          in if slopes = [] then Inr None
             else let slope = f_sort slopes ! (length slopes div 2);
                      intercepts = filter is_fin
                        (map (\<lambda>(workers, rate). fsub rate (fmul slope workers)) means)
               in if intercepts = [] then Inl (Panic ''index out of bounds'')
                  else bind_res
                    (fclamp (f_sort intercepts ! (length intercepts div 2)) (Fin 0) aggregate)
                    (\<lambda>x. Inr (Some x)))"

fun dedup_key :: "('a \<Rightarrow> 'k) \<Rightarrow> 'a list \<Rightarrow> 'a list" where
  "dedup_key f (x # y # zs) =
     (if f x = f y then dedup_key f (x # zs) else x # dedup_key f (y # zs))"
| "dedup_key f xs = xs"

definition burn_intervals :: "chrono \<Rightarrow> aggregate_sample list \<Rightarrow> burn_interval list" where
  "burn_intervals ch samples = List.map_filter (\<lambda>(previous, nxt).
     let elapsed = hours_of ch (ag_observed_at nxt - ag_observed_at previous)
     in if fle elapsed (Fin 0) then None
        else let same = same_reset_generation ch (ag_resets_at previous) (ag_resets_at nxt)
          in Some \<lparr> bi_elapsed_hours = elapsed,
               bi_burned = (if same then fmax (fsub (ag_used_fraction nxt) (ag_used_fraction previous)) (Fin 0)
                            else fmax (ag_used_fraction nxt) (Fin 0)),
               bi_workers_x2 = wrap32 (ag_workers previous + ag_workers nxt),
               bi_split = same \<rparr>) (pairs samples)"

text \<open>The history with the current observation, in time order, one sample per instant.\<close>

definition aggregate_samples ::
  "aggregate_sample list option \<Rightarrow> quota_window \<Rightarrow> datetime \<Rightarrow> nat \<Rightarrow> aggregate_sample list" where
  "aggregate_samples history current observed_at workers =
     (let samples = unwrap_or [] history;
          samples' = (if samples = [] \<or> ag_observed_at (last samples) < observed_at
             then samples @ [\<lparr> ag_observed_at = observed_at, ag_used_fraction = qw_used_fraction current,
                               ag_resets_at = qw_resets_at current, ag_workers = workers \<rparr>]
             else samples)
      in dedup_key ag_observed_at (sort_key ag_observed_at samples'))"

definition aggregate_of_intervals :: "burn_interval list \<Rightarrow> f64 \<Rightarrow> f64 \<Rightarrow> aggregate_burn option res" where
  "aggregate_of_intervals intervals measured elapsed_hours =
     (let aggregate = fdiv measured elapsed_hours
      in bind_res (estimate_exogenous_burn intervals aggregate) (\<lambda>exogenous.
        let governed = map_option (\<lambda>x. fmax (fsub aggregate x) (Fin 0)) exogenous;
            worker_hours = f_sum (map (\<lambda>i. fdiv (fmul (bi_elapsed_hours i) (f_of_nat (bi_workers_x2 i))) (f_lit 2)) intervals);
            per_worker = map_option (\<lambda>g. fdiv (fmul g elapsed_hours) worker_hours)
              (opt_filter (\<lambda>_. flt (Fin 0) worker_hours) governed)
        in Inr (Some \<lparr> ab_aggregate = aggregate, ab_exogenous = exogenous, ab_governed = governed,
             ab_per_worker = per_worker \<rparr>)))"

definition hours24 :: delta where "hours24 = 24 * 3600 * 1000000000"

definition estimate_aggregate_burn ::
  "chrono \<Rightarrow> aggregate_sample list option \<Rightarrow> quota_window \<Rightarrow> datetime \<Rightarrow> nat \<Rightarrow> aggregate_burn option res" where
  "estimate_aggregate_burn ch history current observed_at workers =
     (let all_samples = aggregate_samples history current observed_at workers
      in case checked_add ch observed_at (- hours24) of
        None \<Rightarrow> Inl (Panic ''DateTime - TimeDelta overflowed'')
      | Some cutoff \<Rightarrow>
          (case rposition (\<lambda>s. ag_observed_at s \<le> cutoff) all_samples of
             None \<Rightarrow> Inr None
           | Some first \<Rightarrow>
               let samples = drop first all_samples
               in if length samples < 3 then Inr None
                  else let elapsed_hours =
                      hours_of ch (ag_observed_at (last samples) - ag_observed_at (samples ! 0))
                    in if flt elapsed_hours (f_lit 24) then Inr None
                       else let intervals = burn_intervals ch samples;
                                measured = f_sum (map bi_burned intervals)
                         in if \<not> is_fin measured \<or> fle measured (Fin 0) then Inr None
                            else aggregate_of_intervals intervals measured elapsed_hours))"

section \<open>Workers for a rate\<close>

definition workers_for_rate :: "f64 \<Rightarrow> f64 \<Rightarrow> nat" where
  "workers_for_rate required per_worker =
     (let ratio = fdiv required per_worker
      in if \<not> is_fin ratio then u32_max
         else let rounded = fround ratio;
                  workers = (if flt (fabs (fsub ratio rounded)) (f_lit (1/1000000000)) then rounded
                             else fceil ratio)
           in f_to_u32 (fmin (fmax workers (Fin 0)) (f_of_nat u32_max)))"

end
