(* ===== verification/Controller.thy ===== *)
theory Controller
  imports Burn
begin

text \<open>
  \<open>src/controller.rs\<close>: the quota decision of one account.  Every window is decided on its own,
  the smallest count binds, banked reset credits may raise it, and backlog and step limits bound
  the result.  A decision over a pool with unowned workers is re-expressed for the elastic tier.
\<close>

section \<open>Decisions\<close>

record window_decision =
  wd_id :: string
  wd_used_fraction :: f64
  wd_target :: f64
  wd_resets_at :: datetime
  wd_desired :: nat
  wd_reason :: string
  wd_burn :: "f64 option"

datatype severity_level = SevWarn | SevPage | SevInfeasible

fun severity_rank :: "severity_level \<Rightarrow> nat" where
  "severity_rank SevWarn = 1"
| "severity_rank SevPage = 2"
| "severity_rank SevInfeasible = 3"

record credit_assessment =
  cd_credit_id :: string
  cd_expires_at :: datetime
  cd_need :: f64
  cd_required :: "f64 option"
  cd_slack_hours :: "f64 option"
  cd_severity :: "severity_level option"

record credit_advisory =
  cv_credit_id :: string
  cv_expires_at :: datetime
  cv_severity :: severity_level
  cv_slack_hours :: f64
  cv_required :: "f64 option"
  cv_max_feasible :: "f64 option"
  cv_feasible :: bool

record banked_decision =
  bd_available :: nat
  bd_governing_window :: string
  bd_min_pace :: f64
  bd_required :: f64
  bd_aggregate :: "f64 option"
  bd_governed :: "f64 option"
  bd_exogenous :: "f64 option"
  bd_max_feasible :: "f64 option"
  bd_feasible :: bool
  bd_backlog_capacity :: nat
  bd_desired :: nat
  bd_manual :: bool
  bd_deadline_missed :: bool
  bd_reason :: string
  bd_known_expirations :: "datetime list"
  bd_credit_deadlines :: "credit_assessment list"
  bd_advisories :: "credit_advisory list"

record bp_decision =
  bpd_state :: bp_mode
  bpd_fraction :: "f64 option"
  bpd_brake_changed :: bool
  bpd_released :: bool

record sat_decision =
  sd_reason :: string
  sd_rate :: "f64 option"
  sd_concurrency :: "f64 option"
  sd_target :: nat
  sd_pending :: bool

record decision =
  dc_account :: string
  dc_observed_at :: datetime
  dc_current :: nat
  dc_desired :: nat
  dc_stale :: bool
  dc_windows :: "window_decision list"
  dc_binding :: "string option"
  dc_banked :: "banked_decision option"
  dc_backpressure :: "bp_decision option"
  dc_saturation :: "sat_decision option"
  dc_unowned :: nat
  dc_desired_total :: "nat option"

section \<open>Step limits\<close>

definition apply_step_limits :: "nat \<Rightarrow> nat \<Rightarrow> fleet_config \<Rightarrow> nat res" where
  "apply_step_limits desired current fleet =
     bind_res (clamp_u32 desired (fl_min_workers fleet) (fl_max_workers fleet)) (\<lambda>bounded.
     let stepped = (if current < bounded then min bounded (sat_add current (fl_max_up fleet))
                    else max bounded (sat_sub current (fl_max_down fleet)))
     in clamp_u32 stepped (fl_min_workers fleet) (fl_max_workers fleet))"

definition is_weekly_window :: "nat option \<Rightarrow> bool" where
  "is_weekly_window d = is_some_and (\<lambda>m. 6 * 24 * 60 \<le> m) d"

definition advisory_severity :: "f64 \<Rightarrow> severity_level option" where
  "advisory_severity slack =
     (if flt slack (Fin 0) then Some SevInfeasible
      else if flt slack (f_lit 12) then Some SevPage
      else if flt slack (f_lit 48) then Some SevWarn
      else None)"

section \<open>One window\<close>

text \<open>\<open>prior.windows.get(id).filter(...)\<close>: the earlier sample the estimators may use.\<close>

definition usable_sample ::
  "chrono \<Rightarrow> utilization_config \<Rightarrow> resolved_policy \<Rightarrow> quota_snapshot \<Rightarrow> quota_window
     \<Rightarrow> window_sample option \<Rightarrow> window_sample option" where
  "usable_sample ch u policy sn w prior = opt_filter (\<lambda>s.
     same_reset_generation ch (wsm_resets_at s) (qw_resets_at w)
     \<and> (rp_burn_window_seconds policy \<noteq> None
        \<or> as_i64 (ut_min_sample_seconds u) \<le> num_seconds ch (qs_observed_at sn - wsm_observed_at s))
     \<and> fle (wsm_used_fraction s) (qw_used_fraction w)
     \<and> 0 < wsm_workers s) prior"

definition learned_burn ::
  "chrono \<Rightarrow> utilization_config \<Rightarrow> resolved_policy \<Rightarrow> quota_snapshot \<Rightarrow> account_state \<Rightarrow> nat
     \<Rightarrow> quota_window \<Rightarrow> window_sample \<Rightarrow> f64 option" where
  "learned_burn ch u policy sn prior current w s =
     (case rp_burn_window_seconds policy of
        None \<Rightarrow> estimate_burn_per_worker ch s w (qs_observed_at sn)
      | Some seconds \<Rightarrow> estimate_window_burn ch (bm_get (as_aggregate prior) (qw_id w)) w
          (qs_observed_at sn) current seconds (ut_stale_after u))"

definition linear_to_reset ::
  "chrono \<Rightarrow> account_config \<Rightarrow> resolved_policy \<Rightarrow> quota_snapshot \<Rightarrow> account_state \<Rightarrow> nat \<Rightarrow> datetime
     \<Rightarrow> f64 \<Rightarrow> quota_window \<Rightarrow> nat \<times> string \<times> f64 option" where
  "linear_to_reset ch cfg policy sn prior current now target w =
     (case usable_sample ch (ac_util cfg) policy sn w (bm_get (as_windows prior) (qw_id w)) of
        Some s \<Rightarrow>
          (case learned_burn ch (ac_util cfg) policy sn prior current w s of
             Some per_worker \<Rightarrow>
               let remaining_hours = hours_of ch (qw_resets_at w - now);
                   required_rate = fdiv (fsub target (qw_used_fraction w)) remaining_hours
               in (workers_for_rate required_rate per_worker, ''paced_to_reset'', Some per_worker)
           | None \<Rightarrow> (current, ''no_observed_burn'', None))
      | None \<Rightarrow>
          if current = 0 then (fl_bootstrap (ac_fleet cfg), ''bootstrap_burn_rate'', None)
          else (current, ''learning_burn_rate'', None))"

definition decide_window ::
  "chrono \<Rightarrow> account_config \<Rightarrow> resolved_policy \<Rightarrow> quota_snapshot \<Rightarrow> account_state \<Rightarrow> nat \<Rightarrow> datetime
     \<Rightarrow> f64 \<Rightarrow> quota_window \<Rightarrow> nat \<times> string \<times> f64 option" where
  "decide_window ch cfg policy sn prior current now target w =
     (if qw_reached w \<or> fle target (qw_used_fraction w)
      then (fl_min_workers (ac_fleet cfg), ''target_reached'', None)
      else if qw_resets_at w \<le> now then (current, ''reset_due'', None)
      else case rp_strategy policy of
        CeilingOnly \<Rightarrow> (fl_max_workers (ac_fleet cfg), ''below_ceiling'', None)
      | LinearToReset \<Rightarrow> linear_to_reset ch cfg policy sn prior current now target w)"

definition window_target :: "account_config \<Rightarrow> bool \<Rightarrow> resolved_policy \<Rightarrow> quota_window \<Rightarrow> f64" where
  "window_target cfg banked_available policy w =
     (if banked_available \<and> is_weekly_window (qw_duration_minutes w)
      then fmax (rp_target policy) (br_redeem_at (ac_banked cfg)) else rp_target policy)"

fun evaluate_windows ::
  "chrono \<Rightarrow> account_config \<Rightarrow> quota_snapshot \<Rightarrow> account_state \<Rightarrow> nat \<Rightarrow> datetime \<Rightarrow> bool
     \<Rightarrow> quota_window list \<Rightarrow> window_decision list res" where
  "evaluate_windows ch cfg sn prior current now banked [] = Inr []"
| "evaluate_windows ch cfg sn prior current now banked (w # ws) =
     bind_res (policy_for (ac_util cfg) (qw_id w)) (\<lambda>p. case p of
        None \<Rightarrow> evaluate_windows ch cfg sn prior current now banked ws
      | Some policy \<Rightarrow>
          let target = window_target cfg banked policy w
          in case decide_window ch cfg policy sn prior current now target w of (desired, reason, burn) \<Rightarrow>
             bind_res (clamp_u32 desired (fl_min_workers (ac_fleet cfg)) (fl_max_workers (ac_fleet cfg)))
               (\<lambda>d. bind_res (evaluate_windows ch cfg sn prior current now banked ws)
                 (\<lambda>ds. Inr (\<lparr> wd_id = qw_id w, wd_used_fraction = qw_used_fraction w, wd_target = target,
                   wd_resets_at = qw_resets_at w, wd_desired = d, wd_reason = reason, wd_burn = burn \<rparr> # ds))))"

section \<open>Banked reset credits\<close>

text \<open>The weekly window with the largest reading; on a tie the later one.\<close>

definition weekly_window :: "quota_snapshot \<Rightarrow> quota_window option" where
  "weekly_window sn =
     max_by (\<lambda>l r. ftotal_lt (qw_used_fraction r) (qw_used_fraction l))
       (filter (\<lambda>w. is_weekly_window (qw_duration_minutes w)) (qs_windows sn))"

definition known_credits :: "reset_credits_snapshot \<Rightarrow> (datetime \<times> reset_credit) list" where
  "known_credits cs =
     sort_key (\<lambda>(expires_at, c). (expires_at, rc_id c))
       (List.map_filter (\<lambda>c. map_option (\<lambda>e. (e, c)) (rc_expires_at c))
          (filter (\<lambda>c. rc_status c = ''available'') (unwrap_or [] (rcs_credits cs))))"

definition credit_rank_before :: "chrono \<Rightarrow> account_state \<Rightarrow> quota_window \<Rightarrow> string \<Rightarrow> nat" where
  "credit_rank_before ch prior w cid =
     unwrap_or 0 (map_option ca_severity
       (opt_filter (\<lambda>s. same_reset_generation ch (ca_resets_at s) (qw_resets_at w))
          (bm_get (as_credit_alerts prior) cid)))"

text \<open>\<open>need\<close>, \<open>deadline_rate\<close> and \<open>slack_hours\<close> of the credit at an index.\<close>

definition credit_need :: "f64 \<Rightarrow> quota_window \<Rightarrow> nat \<Rightarrow> f64" where
  "credit_need target w index =
     fadd (fmax (fsub target (qw_used_fraction w)) (Fin 0)) (fmul (f_of_nat index) target)"

definition credit_rate :: "f64 \<Rightarrow> f64 \<Rightarrow> f64 \<Rightarrow> f64 option" where
  "credit_rate need hours_to_expiry safety_hours =
     (let available_hours = fsub hours_to_expiry safety_hours
      in if flt (Fin 0) available_hours then Some (fdiv need available_hours) else None)"

definition credit_slack :: "aggregate_burn option \<Rightarrow> f64 \<Rightarrow> f64 \<Rightarrow> f64 \<Rightarrow> f64 option" where
  "credit_slack burn need hours_to_expiry safety_hours =
     map_option (\<lambda>b. fsub (fsub hours_to_expiry safety_hours) (fdiv need (ab_aggregate b)))
       (opt_filter (\<lambda>b. flt (Fin 0) (ab_aggregate b)) burn)"

definition credit_advisories_for ::
  "nat \<Rightarrow> credit_assessment \<Rightarrow> f64 option \<Rightarrow> credit_advisory list" where
  "credit_advisories_for rank_before a max_feasible =
     (case (cd_severity a, cd_slack_hours a) of
        (Some sev, Some slack) \<Rightarrow>
          if rank_before < severity_rank sev
          then [\<lparr> cv_credit_id = cd_credit_id a, cv_expires_at = cd_expires_at a, cv_severity = sev,
                  cv_slack_hours = slack, cv_required = cd_required a, cv_max_feasible = max_feasible,
                  cv_feasible = (case (cd_required a, max_feasible) of
                      (Some required, Some maximum) \<Rightarrow> fle required maximum | _ \<Rightarrow> False) \<rparr>]
          else []
      | _ \<Rightarrow> [])"

definition assess_credit ::
  "chrono \<Rightarrow> datetime \<Rightarrow> f64 \<Rightarrow> f64 \<Rightarrow> quota_window \<Rightarrow> aggregate_burn option \<Rightarrow> nat
     \<Rightarrow> datetime \<times> reset_credit \<Rightarrow> credit_assessment" where
  "assess_credit ch now target safety_hours w burn index entry =
     (case entry of (expiration, credit) \<Rightarrow>
        let hours_to_expiry = hours_of ch (expiration - now);
            need = credit_need target w index;
            slack = credit_slack burn need hours_to_expiry safety_hours
        in \<lparr> cd_credit_id = rc_id credit, cd_expires_at = expiration, cd_need = need,
             cd_required = credit_rate need hours_to_expiry safety_hours,
             cd_slack_hours = slack, cd_severity = Option.bind slack advisory_severity \<rparr>)"

definition assess_credits ::
  "chrono \<Rightarrow> datetime \<Rightarrow> f64 \<Rightarrow> f64 \<Rightarrow> quota_window \<Rightarrow> aggregate_burn option
     \<Rightarrow> (datetime \<times> reset_credit) list \<Rightarrow> credit_assessment list" where
  "assess_credits ch now target safety_hours w burn known =
     map (\<lambda>(index, entry). assess_credit ch now target safety_hours w burn index entry)
       (enumerate 0 known)"

text \<open>The two accumulators of the loop: the required burn and the missed deadline.\<close>

definition fold_required :: "f64 \<Rightarrow> credit_assessment list \<Rightarrow> f64" where
  "fold_required base as =
     foldl (\<lambda>r a. case cd_required a of Some rate \<Rightarrow> fmax r rate | None \<Rightarrow> r) base as"

definition any_deadline_missed :: "credit_assessment list \<Rightarrow> bool" where
  "any_deadline_missed as = list_ex (\<lambda>a. cd_required a = None \<and> flt (Fin 0) (cd_need a)) as"

definition max_feasible_burn :: "aggregate_burn option \<Rightarrow> nat \<Rightarrow> f64 option" where
  "max_feasible_burn burn capacity =
     Option.bind burn (\<lambda>b. case (ab_exogenous b, ab_per_worker b) of
        (Some exogenous, Some per_worker) \<Rightarrow> Some (fadd exogenous (fmul per_worker (f_of_nat capacity)))
      | _ \<Rightarrow> None)"

definition redemption_due ::
  "chrono \<Rightarrow> account_config \<Rightarrow> account_state \<Rightarrow> quota_window \<Rightarrow> bool" where
  "redemption_due ch cfg prior w =
     (let threshold = br_redeem_at (ac_banked cfg)
      in qw_reached w \<or> fle threshold (qw_used_fraction w)
         \<or> is_some_and (\<lambda>h. fle threshold (wh_max_used h))
             (opt_filter (\<lambda>h. same_reset_generation ch (wh_resets_at h) (qw_resets_at w))
                (bm_get (as_history prior) (qw_id w))))"

text \<open>The workers the plan asks for: redemption, full speed, a missed deadline, or a pace.\<close>

definition banked_pace ::
  "account_config \<Rightarrow> nat \<Rightarrow> nat \<Rightarrow> f64 \<Rightarrow> bool \<Rightarrow> aggregate_burn option \<Rightarrow> (nat \<times> string) res" where
  "banked_pace cfg current capacity required no_expirations burn =
     (case burn of
        Some b \<Rightarrow>
          (case (opt_filter (\<lambda>r. flt (Fin 0) r) (ab_per_worker b), ab_exogenous b) of
             (Some per_worker, Some exogenous) \<Rightarrow>
               let worker_rate = fmax (fsub required exogenous) (Fin 0)
               in bind_res (clamp_u32 (workers_for_rate worker_rate per_worker)
                     (min (fl_min_workers (ac_fleet cfg)) capacity) capacity)
                   (\<lambda>d. Inr (d, if no_expirations then ''minimum_banked_reset_pace''
                                else ''banked_reset_expiry_pace''))
           | _ \<Rightarrow> Inr (current, ''learning_banked_reset_worker_split''))
      | None \<Rightarrow>
          if current = 0
          then Inr (min (fl_bootstrap (ac_fleet cfg)) capacity, ''bootstrap_banked_reset_burn_rate'')
          else Inr (min current capacity, ''learning_banked_reset_24h_burn_rate''))"

definition banked_workers ::
  "account_config \<Rightarrow> quota_snapshot \<Rightarrow> quota_window \<Rightarrow> nat \<Rightarrow> datetime \<Rightarrow> nat \<Rightarrow> bool \<Rightarrow> bool
     \<Rightarrow> f64 \<Rightarrow> bool \<Rightarrow> aggregate_burn option \<Rightarrow> (nat \<times> string) res" where
  "banked_workers cfg sn w current now capacity manual missed required no_expirations burn =
     (if manual then Inr (fl_min_workers (ac_fleet cfg), ''weekly_window_awaiting_manual_redemption'')
      else if br_full_speed (ac_banked cfg) then
        (if qw_resets_at w \<le> now then Inr (current, ''banked_reset_window_awaiting_refresh'')
         else Inr (capacity, if qs_backlog sn \<noteq> None then ''full_speed_banked_reset_work''
                             else ''full_speed_banked_reset_capacity_unknown''))
      else if missed then Inr (capacity, ''banked_reset_expiry_deadline_missed'')
      else banked_pace cfg current capacity required no_expirations burn)"

definition banked_plan ::
  "chrono \<Rightarrow> account_config \<Rightarrow> quota_snapshot \<Rightarrow> account_state \<Rightarrow> nat \<Rightarrow> datetime
     \<Rightarrow> reset_credits_snapshot \<Rightarrow> quota_window \<Rightarrow> window_decision \<Rightarrow> nat
     \<Rightarrow> aggregate_burn option \<Rightarrow> banked_decision res" where
  "banked_plan ch cfg sn prior current now credits w d minutes burn =
     (let bc = ac_banked cfg;
          duration_hours = fdiv (f_of_nat minutes) (f_lit 60);
          target = fmax (wd_target d) (br_redeem_at bc);
          base = fdiv (fmul (br_min_pace bc) target) duration_hours;
          known = known_credits credits;
          safety_hours = fdiv (f_of_nat (br_deadline_safety_seconds bc)) (f_lit 3600);
          capacity = min (unwrap_or current (qs_backlog sn)) (fl_max_workers (ac_fleet cfg));
          max_feasible = max_feasible_burn burn capacity;
          assessments = assess_credits ch now target safety_hours w burn known;
          required = fold_required base assessments;
          missed = any_deadline_missed assessments;
          manual = redemption_due ch cfg prior w
      in bind_res (banked_workers cfg sn w current now capacity manual missed required (known = []) burn)
        (\<lambda>(workers, reason). Inr \<lparr> bd_available = rcs_available_count credits,
          bd_governing_window = qw_id w, bd_min_pace = br_min_pace bc, bd_required = required,
          bd_aggregate = map_option ab_aggregate burn,
          bd_governed = Option.bind burn ab_governed,
          bd_exogenous = Option.bind burn ab_exogenous,
          bd_max_feasible = max_feasible,
          bd_feasible = is_some_and (\<lambda>m. fle required m) max_feasible,
          bd_backlog_capacity = capacity, bd_desired = workers, bd_manual = manual,
          bd_deadline_missed = missed, bd_reason = reason,
          bd_known_expirations = map fst known, bd_credit_deadlines = assessments,
          bd_advisories = concat (map (\<lambda>a. credit_advisories_for
             (credit_rank_before ch prior w (cd_credit_id a)) a max_feasible) assessments) \<rparr>))"

definition banked_reset_decision ::
  "chrono \<Rightarrow> account_config \<Rightarrow> quota_snapshot \<Rightarrow> window_decision list \<Rightarrow> account_state \<Rightarrow> nat
     \<Rightarrow> datetime \<Rightarrow> banked_decision option res" where
  "banked_reset_decision ch cfg sn decisions prior current now =
     (if \<not> br_enabled (ac_banked cfg) then Inr None
      else case qs_reset_credits sn of
        None \<Rightarrow> Inr None
      | Some credits \<Rightarrow>
          if rcs_available_count credits = 0 then Inr None
          else case weekly_window sn of
            None \<Rightarrow> Inr None
          | Some w \<Rightarrow>
              (case (find (\<lambda>d. wd_id d = qw_id w) decisions, qw_duration_minutes w) of
                 (Some d, Some minutes) \<Rightarrow>
                   bind_res (estimate_aggregate_burn ch (bm_get (as_aggregate prior) (qw_id w)) w
                        (qs_observed_at sn) current) (\<lambda>burn.
                   bind_res (banked_plan ch cfg sn prior current now credits w d minutes burn)
                     (\<lambda>plan. Inr (Some plan)))
               | _ \<Rightarrow> Inr None))"

section \<open>The decision of an account\<close>

definition stale_decision ::
  "string \<Rightarrow> account_config \<Rightarrow> quota_snapshot \<Rightarrow> nat \<Rightarrow> decision res" where
  "stale_decision name cfg sn current =
     (let raw = (case ut_stale_behavior (ac_util cfg) of
            StaleHold \<Rightarrow> current | StaleMinWorkers \<Rightarrow> fl_min_workers (ac_fleet cfg))
      in bind_res (apply_step_limits raw current (ac_fleet cfg)) (\<lambda>stepped.
        Inr \<lparr> dc_account = name, dc_observed_at = qs_observed_at sn, dc_current = current,
          dc_desired = min stepped current, dc_stale = True, dc_windows = [], dc_binding = None,
          dc_banked = None, dc_backpressure = None, dc_saturation = None, dc_unowned = 0,
          dc_desired_total = None \<rparr>))"

definition snapshot_stale :: "chrono \<Rightarrow> account_config \<Rightarrow> quota_snapshot \<Rightarrow> datetime \<Rightarrow> bool" where
  "snapshot_stale ch cfg sn now =
     (\<not> qs_fresh sn \<or> ut_stale_after (ac_util cfg) < age_seconds ch now (qs_observed_at sn))"

definition banked_available :: "account_config \<Rightarrow> quota_snapshot \<Rightarrow> bool" where
  "banked_available cfg sn = (br_enabled (ac_banked cfg)
     \<and> is_some_and (\<lambda>c. 0 < rcs_available_count c) (qs_reset_credits sn))"

definition short_window_reached :: "quota_snapshot \<Rightarrow> window_decision list \<Rightarrow> bool" where
  "short_window_reached sn decisions = list_ex (\<lambda>d. wd_reason d = ''target_reached''
     \<and> is_some_and (\<lambda>w. \<not> is_weekly_window (qw_duration_minutes w))
         (find (\<lambda>w. qw_id w = wd_id d) (qs_windows sn))) decisions"

text \<open>The windows that still constrain a full-speed plan.\<close>

definition full_speed_guards :: "quota_snapshot \<Rightarrow> window_decision list \<Rightarrow> window_decision list" where
  "full_speed_guards sn decisions = filter (\<lambda>d. wd_reason d = ''reset_due''
     \<or> (wd_reason d \<in> set [''target_reached'', ''paced_to_reset'']
        \<and> list_ex (\<lambda>w. qw_id w = wd_id d \<and> \<not> is_weekly_window (qw_duration_minutes w))
            (qs_windows sn))) decisions"

definition arbitrate ::
  "account_config \<Rightarrow> quota_snapshot \<Rightarrow> window_decision list \<Rightarrow> nat \<Rightarrow> banked_decision option \<Rightarrow> nat" where
  "arbitrate cfg sn decisions ordinary banked =
     (case banked of
        None \<Rightarrow> ordinary
      | Some plan \<Rightarrow>
          if bd_manual plan then bd_desired plan
          else if br_full_speed (ac_banked cfg)
          then foldl (\<lambda>n g. min n (wd_desired g)) (bd_desired plan) (full_speed_guards sn decisions)
          else if \<not> short_window_reached sn decisions then max ordinary (bd_desired plan)
          else ordinary)"

text \<open>Backlog and step limits around the arbitrated count.\<close>

definition bound_desired ::
  "account_config \<Rightarrow> quota_snapshot \<Rightarrow> nat \<Rightarrow> nat \<Rightarrow> banked_decision option \<Rightarrow> nat res" where
  "bound_desired cfg sn current raw banked =
     (let backlog_cap = unwrap_or u32_max (qs_backlog sn)
      in bind_res (apply_step_limits (min raw backlog_cap) current (ac_fleet cfg)) (\<lambda>stepped.
        let capped = (case banked of
              None \<Rightarrow> stepped
            | Some plan \<Rightarrow>
                if br_full_speed (ac_banked cfg)
                then min stepped (max current (bd_backlog_capacity plan))
                else min stepped (bd_backlog_capacity plan))
        in Inr (min capped (max current backlog_cap))))"

definition evaluate ::
  "chrono \<Rightarrow> string \<Rightarrow> account_config \<Rightarrow> quota_snapshot \<Rightarrow> account_state \<Rightarrow> nat \<Rightarrow> datetime
     \<Rightarrow> decision res" where
  "evaluate ch name cfg sn prior current now =
     (if snapshot_stale ch cfg sn now then stale_decision name cfg sn current
      else bind_res (evaluate_windows ch cfg sn prior current now (banked_available cfg sn) (qs_windows sn))
        (\<lambda>decisions.
          if decisions = []
          then Inl (Bail (''account '' @ name @ '': no enabled quota windows were observed''))
          else let binding = min_by_key wd_desired decisions;
                   ordinary = unwrap_or current (map_option wd_desired binding)
            in bind_res (banked_reset_decision ch cfg sn decisions prior current now) (\<lambda>banked.
               bind_res (bound_desired cfg sn current (arbitrate cfg sn decisions ordinary banked) banked)
                 (\<lambda>desired. Inr \<lparr> dc_account = name, dc_observed_at = qs_observed_at sn,
                    dc_current = current, dc_desired = desired, dc_stale = False,
                    dc_windows = decisions, dc_binding = map_option wd_id binding,
                    dc_banked = banked, dc_backpressure = None, dc_saturation = None,
                    dc_unowned = 0, dc_desired_total = None \<rparr>))))"

section \<open>Unowned workers\<close>

definition into_elastic :: "decision \<Rightarrow> nat \<Rightarrow> decision" where
  "into_elastic d unowned =
     (if unowned = 0 then d
      else d\<lparr> dc_desired_total := Some (dc_desired d), dc_unowned := unowned,
              dc_current := sat_sub (dc_current d) unowned,
              dc_desired := sat_sub (dc_desired d) unowned \<rparr>)"

definition pooled_config :: "account_config \<Rightarrow> nat \<Rightarrow> account_config" where
  "pooled_config cfg unowned = cfg\<lparr> ac_fleet := (ac_fleet cfg)\<lparr>
     fl_min_workers := sat_add (fl_min_workers (ac_fleet cfg)) unowned,
     fl_max_workers := sat_add (fl_max_workers (ac_fleet cfg)) unowned \<rparr> \<rparr>"

definition evaluate_pool ::
  "chrono \<Rightarrow> string \<Rightarrow> account_config \<Rightarrow> quota_snapshot \<Rightarrow> account_state \<Rightarrow> nat \<Rightarrow> nat \<Rightarrow> datetime
     \<Rightarrow> decision res" where
  "evaluate_pool ch name cfg sn prior owned unowned now =
     (if unowned = 0 then evaluate ch name cfg sn prior owned now
      else bind_res (evaluate ch name (pooled_config cfg unowned) sn prior (sat_add owned unowned) now)
        (\<lambda>d. Inr (into_elastic d unowned)))"

end
