(* ===== verification/Backpressure.thy ===== *)
theory Backpressure
  imports Controller
begin

text \<open>
  The provider-pressure brake of \<open>src/controller.rs\<close> (\<open>apply_backpressure\<close>): a three-state
  machine over the upstream 429 fraction, the release after a loss of signal, and the cap the state
  puts on a decision.  Its runs over a sequence of cycles are the step relation \<open>bp_moves\<close>.
\<close>

section \<open>The state machine\<close>

text \<open>One usable sample; the code has set \<open>last_usable_sample_at\<close> before.\<close>

definition bp_quiet :: "backpressure_config \<Rightarrow> bp_mode \<Rightarrow> bp_state \<Rightarrow> bp_state" where
  "bp_quiet policy next st =
     (let quiet = sat_add (bps_quiet_cycles st) 1
      in if bc_quiet_cycles policy \<le> quiet then st\<lparr> bps_mode := next, bps_quiet_cycles := 0 \<rparr>
         else st\<lparr> bps_quiet_cycles := quiet \<rparr>)"

definition bp_sample :: "backpressure_config \<Rightarrow> f64 \<Rightarrow> bp_state \<Rightarrow> bp_state" where
  "bp_sample policy fraction st =
     (case bps_mode st of
        Normal \<Rightarrow>
          (if flt (bc_hold_above policy) fraction then st\<lparr> bps_mode := Hold \<rparr> else st)
            \<lparr> bps_quiet_cycles := 0 \<rparr>
      | Hold \<Rightarrow>
          if flt (bc_step_down_above policy) fraction
          then st\<lparr> bps_mode := StepDown, bps_quiet_cycles := 0 \<rparr>
          else if flt fraction (bc_recover_below policy) then bp_quiet policy Normal st
          else st\<lparr> bps_quiet_cycles := 0 \<rparr>
      | StepDown \<Rightarrow>
          if flt fraction (bc_recover_below policy) then bp_quiet policy Hold st
          else st\<lparr> bps_quiet_cycles := 0 \<rparr>)"

definition bp_signal_lost :: "chrono \<Rightarrow> backpressure_config \<Rightarrow> datetime \<Rightarrow> bp_state \<Rightarrow> bool" where
  "bp_signal_lost ch policy now st =
     (bps_mode st \<noteq> Normal
      \<and> is_none_or (\<lambda>last. bc_signal_loss_release_seconds policy \<le> age_seconds ch now last)
          (bps_last_usable st))"

definition bp_next ::
  "chrono \<Rightarrow> backpressure_config \<Rightarrow> datetime \<Rightarrow> datetime \<Rightarrow> f64 option \<Rightarrow> bp_state \<Rightarrow> bp_state \<times> bool" where
  "bp_next ch policy now observed_at usable st =
     (case usable of
        Some fraction \<Rightarrow> (bp_sample policy fraction (st\<lparr> bps_last_usable := Some observed_at \<rparr>), False)
      | None \<Rightarrow> if bp_signal_lost ch policy now st then (bp_state_default, True) else (st, False))"

section \<open>The cap\<close>

definition bp_cap :: "bp_mode \<Rightarrow> decision \<Rightarrow> nat \<Rightarrow> nat" where
  "bp_cap m d min_workers =
     (case m of
        Normal \<Rightarrow> dc_desired d
      | Hold \<Rightarrow> max (dc_current d) min_workers
      | StepDown \<Rightarrow> max (sat_sub (dc_current d) 1) min_workers)"

text \<open>The update of \<open>desired_workers\<close> and \<open>desired_total\<close> that the brake and the throughput
  experiment share.\<close>

definition set_desired :: "decision \<Rightarrow> nat \<Rightarrow> decision" where
  "set_desired d n = d\<lparr> dc_desired := n,
     dc_desired_total := (if 0 < dc_unowned d then Some (sat_add n (dc_unowned d))
                          else dc_desired_total d) \<rparr>"

definition apply_backpressure ::
  "chrono \<Rightarrow> decision \<Rightarrow> backpressure_config \<Rightarrow> bp_state \<Rightarrow> quota_snapshot \<Rightarrow> nat \<Rightarrow> datetime
     \<Rightarrow> decision \<times> bp_state" where
  "apply_backpressure ch d policy prior sn min_workers now =
     (let fraction = Option.bind (qs_backpressure sn) bp_429_fraction;
          usable = (if dc_stale d then None else fraction)
      in case bp_next ch policy now (qs_observed_at sn) usable prior of (st, released) \<Rightarrow>
        let before = dc_desired d;
            desired = min before (bp_cap (bps_mode st) d min_workers)
        in ((set_desired d desired)\<lparr> dc_backpressure := Some \<lparr> bpd_state = bps_mode st,
               bpd_fraction = fraction, bpd_brake_changed = (desired < before),
               bpd_released = released \<rparr> \<rparr>, st))"

section \<open>Runs\<close>

text \<open>What one cycle may do to the mode.\<close>

inductive bp_moves :: "bp_mode \<Rightarrow> bp_mode \<Rightarrow> bool" where
  stay: "bp_moves m m"
| engage: "bp_moves Normal Hold"
| worsen: "bp_moves Hold StepDown"
| relax: "bp_moves StepDown Hold"
| clear: "bp_moves Hold Normal"
| release: "bp_moves m Normal"

inductive_simps bp_moves_Normal: "bp_moves Normal m"
inductive_cases bp_moves_to_StepDown: "bp_moves m StepDown"

text \<open>A sequence of usable samples.\<close>

definition bp_run :: "backpressure_config \<Rightarrow> f64 list \<Rightarrow> bp_state \<Rightarrow> bp_state" where
  "bp_run policy fs st = foldl (\<lambda>s f. bp_sample policy f s) st fs"

definition bp_ok :: "backpressure_config \<Rightarrow> bp_state \<Rightarrow> bool" where
  "bp_ok policy st = (bps_quiet_cycles st < max 1 (bc_quiet_cycles policy)
     \<and> (bps_mode st = Normal \<longrightarrow> bps_quiet_cycles st = 0))"

section \<open>Lemmas\<close>

lemma bp_sample_ok: "bp_ok policy st \<Longrightarrow> bp_ok policy (bp_sample policy f st)"
  by (auto simp: bp_ok_def bp_sample_def bp_quiet_def Let_def split: bp_mode.splits)

lemma bp_next_ok: "bp_ok policy st \<Longrightarrow> bp_ok policy (fst (bp_next ch policy now obs usable st))"
  by (auto simp: bp_next_def bp_sample_ok bp_ok_def bp_state_default_def split: option.splits)
     (use bp_sample_ok [of policy "st\<lparr> bps_last_usable := Some obs \<rparr>"] in \<open>auto simp: bp_ok_def\<close>)

lemma bp_sample_moves: "bp_moves (bps_mode st) (bps_mode (bp_sample policy f st))"
  by (cases "bps_mode st")
     (auto simp: bp_sample_def bp_quiet_def Let_def intro: bp_moves.intros)

lemma bp_next_moves:
  "bp_moves (bps_mode st) (bps_mode (fst (bp_next ch policy now obs usable st)))"
  using bp_sample_moves [of "st\<lparr> bps_last_usable := Some obs \<rparr>" policy]
  by (auto simp: bp_next_def bp_state_default_def intro: bp_moves.intros split: option.splits)

lemma bp_cap_min: "min_workers \<le> dc_desired d \<Longrightarrow> min_workers \<le> bp_cap m d min_workers"
  by (cases m) (auto simp: bp_cap_def)

lemma set_desired_simps [simp]:
  "dc_desired (set_desired d n) = n" "dc_current (set_desired d n) = dc_current d"
  "dc_stale (set_desired d n) = dc_stale d" "dc_windows (set_desired d n) = dc_windows d"
  "dc_unowned (set_desired d n) = dc_unowned d"
  by (simp_all add: set_desired_def)

lemma apply_backpressure_desired:
  "dc_desired (fst (apply_backpressure ch d policy prior sn mn now)) =
     min (dc_desired d) (bp_cap (bps_mode (snd (apply_backpressure ch d policy prior sn mn now))) d mn)"
  by (simp add: apply_backpressure_def Let_def split: prod.splits)

lemma apply_backpressure_state:
  "snd (apply_backpressure ch d policy prior sn mn now) =
     fst (bp_next ch policy now (qs_observed_at sn)
        (if dc_stale d then None else Option.bind (qs_backpressure sn) bp_429_fraction) prior)"
  by (simp add: apply_backpressure_def Let_def split: prod.splits)

lemma bp_run_Nil [simp]: "bp_run policy [] st = st"
  by (simp add: bp_run_def)

lemma bp_run_append: "bp_run policy (fs @ gs) st = bp_run policy gs (bp_run policy fs st)"
  by (simp add: bp_run_def)

text \<open>A run of quiet samples counts up; the last one that is needed changes the mode.\<close>

lemma bp_run_quiet:
  assumes "\<forall>f \<in> set fs. flt f (bc_recover_below policy) \<and> \<not> flt (bc_step_down_above policy) f"
    and "bps_mode st \<noteq> Normal" "bps_quiet_cycles st + length fs < bc_quiet_cycles policy"
    and "bc_quiet_cycles policy \<le> u32_max"
  shows "bp_run policy fs st = st\<lparr> bps_quiet_cycles := bps_quiet_cycles st + length fs \<rparr>"
  using assms
proof (induction fs arbitrary: st)
  case (Cons f fs)
  let ?st = "st\<lparr> bps_quiet_cycles := bps_quiet_cycles st + 1 \<rparr>"
  have "bp_sample policy f st = ?st"
    using Cons.prems by (auto simp: bp_sample_def bp_quiet_def Let_def sat_add_exact split: bp_mode.splits)
  moreover have "bp_run policy fs ?st = ?st\<lparr> bps_quiet_cycles := bps_quiet_cycles ?st + length fs \<rparr>"
    by (rule Cons.IH) (use Cons.prems in auto)
  ultimately show ?case by (simp add: bp_run_def)
qed simp

definition bp_relaxed :: "bp_mode \<Rightarrow> bp_mode" where
  "bp_relaxed m = (if m = StepDown then Hold else Normal)"

lemma bp_run_recover:
  assumes "\<forall>f \<in> set fs. flt f (bc_recover_below policy) \<and> \<not> flt (bc_step_down_above policy) f"
    and "bps_mode st \<noteq> Normal" "bps_quiet_cycles st = 0"
    and "length fs = bc_quiet_cycles policy" "0 < bc_quiet_cycles policy"
    and "bc_quiet_cycles policy \<le> u32_max"
  shows "bp_run policy fs st = st\<lparr> bps_mode := bp_relaxed (bps_mode st), bps_quiet_cycles := 0 \<rparr>"
proof -
  have fs: "fs = butlast fs @ [last fs]" using assms(4,5) by (metis append_butlast_last_id length_0_conv less_numeral_extra(3))
  have l: "length (butlast fs) = bc_quiet_cycles policy - 1" using assms(4) by simp
  let ?st = "st\<lparr> bps_quiet_cycles := bc_quiet_cycles policy - 1 \<rparr>"
  have "bp_run policy (butlast fs) st = ?st"
    using bp_run_quiet [of "butlast fs" policy st] assms l by (auto dest: in_set_butlastD)
  then have "bp_run policy fs st = bp_sample policy (last fs) ?st"
    by (subst fs) (simp add: bp_run_append bp_run_def)
  moreover have "last fs \<in> set fs" using fs by (metis in_set_conv_decomp)
  ultimately show ?thesis using assms
    by (auto simp: bp_sample_def bp_quiet_def Let_def bp_relaxed_def sat_add_def split: bp_mode.splits)
qed

end
