(* ===== verification/Saturation.thy ===== *)
theory Saturation
  imports Backpressure
begin

text \<open>
  \<open>src/saturation.rs\<close>: the bounded throughput experiments.  One cycle reads a decision, the
  snapshot and the stored experiment, decides a target and the next experiment, and clips the
  target to backlog, steps and quota.  Each arm of the code's conditional is a definition here.
\<close>

definition interval_ready ::
  "chrono \<Rightarrow> saturation_state \<Rightarrow> datetime option \<Rightarrow> datetime \<Rightarrow> nat \<Rightarrow> bool" where
  "interval_ready ch st window_start t dwell =
     is_some_and (\<lambda>settled. is_some_and (\<lambda>start. settled \<le> start) window_start
        \<and> as_i64 dwell \<le> num_seconds ch (t - settled)) (st_settled_at st)"

definition reprobe_at :: "chrono \<Rightarrow> datetime \<Rightarrow> nat \<Rightarrow> datetime" where
  "reprobe_at ch t seconds =
     unwrap_or (max_utc ch) (Option.bind (try_seconds ch (as_i64 seconds)) (checked_add ch t))"

text \<open>What the arms of the conditional return: target, reason, measured rate and next state.\<close>

type_synonym sat_arm = "nat \<times> string \<times> f64 option \<times> saturation_state"

definition quota_hold_only :: "decision \<Rightarrow> bool" where
  "quota_hold_only d = list_all (\<lambda>w. wd_reason w \<in> set [''learning_burn_rate'', ''no_observed_burn'',
     ''bootstrap_burn_rate'', ''below_ceiling'']) (dc_windows d)"

definition quota_cap :: "decision \<Rightarrow> account_config \<Rightarrow> nat" where
  "quota_cap d cfg = (if \<not> dc_stale d \<and> quota_hold_only d then fl_max_workers (ac_fleet cfg) else dc_desired d)"

definition quota_was_reset :: "chrono \<Rightarrow> quota_snapshot \<Rightarrow> account_state \<Rightarrow> bool" where
  "quota_was_reset ch sn prior = list_ex (\<lambda>w.
     is_some_and (\<lambda>last. \<not> same_reset_generation ch (wsm_resets_at last) (qw_resets_at w)
          \<or> flt (qw_used_fraction w) (wsm_used_fraction last))
       (bm_get (as_windows prior) (qw_id w))) (qs_windows sn)"

definition low_attempt_probe :: "saturation_state \<Rightarrow> quota_snapshot \<Rightarrow> nat \<Rightarrow> bool" where
  "low_attempt_probe st sn current = is_some_and (\<lambda>p. current = sp_to p
     \<and> is_some_and (\<lambda>cap. max current (sp_from p) \<le> cap) (qs_backlog sn)) (st_pending st)"

definition valid_sample ::
  "zai_saturation_config \<Rightarrow> saturation_state \<Rightarrow> quota_snapshot \<Rightarrow> nat \<Rightarrow> saturation_snapshot option" where
  "valid_sample policy st sn current = opt_filter (\<lambda>s. is_ok (saturation_validate s)
     \<and> zs_min_window_seconds policy \<le> ss_window_seconds s \<and> ss_window_seconds s \<le> i64_max
     \<and> (zs_min_attempts policy \<le> ss_attempts s \<or> low_attempt_probe st sn current)) (qs_saturation sn)"

section \<open>A pending experiment\<close>

definition probe_moving :: "saturation_probe \<Rightarrow> nat \<Rightarrow> bool" where
  "probe_moving p current = (current = sp_from p
     \<or> (min (sp_from p) (sp_to p) < current \<and> current < max (sp_from p) (sp_to p)))"

text \<open>The dwell has passed at the probed count: keep the new count or restore the old one.\<close>

definition judge_probe ::
  "chrono \<Rightarrow> zai_saturation_config \<Rightarrow> quota_snapshot \<Rightarrow> f64 option \<Rightarrow> nat \<Rightarrow> f64 \<Rightarrow> nat
     \<Rightarrow> saturation_probe \<Rightarrow> saturation_state \<Rightarrow> nat \<times> string \<times> saturation_state" where
  "judge_probe ch policy sn fraction current rate target p st =
     (let retained = fle (fmul (unwrap_or (sp_baseline p) (st_plateau st))
                               (fsub (f_lit 1) (zs_plateau_fraction policy))) rate;
          useful_gain = flt (fmul (sp_baseline p) (fadd (f_lit 1) (zs_plateau_fraction policy))) rate;
          st1 = st\<lparr> st_pending := None, st_baseline := Some rate,
                    st_settled_at := Some (qs_observed_at sn) \<rparr>
      in if sp_recovery p then
           (target, ''recovery_settled'',
              if st_shrinking st1 then st1 else st1\<lparr> st_plateau := Some rate \<rparr>)
         else if sp_to p < sp_from p \<and> retained then
           (target, ''shrink_retained_throughput'', st1\<lparr> st_shrinking := True \<rparr>)
         else if sp_from p < sp_to p \<and> useful_gain then
           (target, ''growth_improved_throughput'', st1\<lparr> st_plateau := Some rate,
              st_shrinking := is_some_and (\<lambda>f. fle (zs_concurrency_fraction policy) f) fraction \<rparr>)
         else
           (sp_from p, ''restore_previous_count'', st1\<lparr>
              st_pending := Some \<lparr> sp_from = current, sp_to = sp_from p, sp_baseline = rate,
                                   sp_recovery = True \<rparr>,
              st_shrinking := (sp_from p < sp_to p),
              st_next_probe_at := Some (reprobe_at ch (qs_observed_at sn) (zs_reprobe_seconds policy)) \<rparr>))"

definition pending_arm ::
  "chrono \<Rightarrow> zai_saturation_config \<Rightarrow> quota_snapshot \<Rightarrow> f64 option \<Rightarrow> nat \<Rightarrow> f64
     \<Rightarrow> datetime option \<Rightarrow> nat \<Rightarrow> saturation_probe \<Rightarrow> saturation_state
     \<Rightarrow> nat \<times> string \<times> saturation_state" where
  "pending_arm ch policy sn fraction current rate window_start target p st =
     (if current \<noteq> sp_to p then
        (if probe_moving p current
         then (sp_to p, ''waiting_for_workers'', st\<lparr> st_settled_at := None \<rparr>)
         else (target, ''worker_count_changed'', saturation_state_default))
      else if st_settled_at st = None \<or> st_observed_workers st \<noteq> Some current then
        (target, ''probe_settling'', st\<lparr> st_settled_at := Some (qs_observed_at sn),
           st_observed_workers := Some current \<rparr>)
      else if interval_ready ch st window_start (qs_observed_at sn) (zs_dwell_seconds policy)
      then judge_probe ch policy sn fraction current rate target p st
      else (target, ''probe_dwell'', st))"

section \<open>A new experiment\<close>

definition probe_candidate ::
  "zai_saturation_config \<Rightarrow> fleet_config \<Rightarrow> nat \<Rightarrow> nat \<Rightarrow> bool \<Rightarrow> nat" where
  "probe_candidate policy fleet unowned current shrinking =
     (if shrinking
      then max (sat_sub current (zs_step_workers policy))
             (if unowned = 0 then max (fl_min_workers fleet) 1 else fl_min_workers fleet)
      else min (sat_add current (zs_step_workers policy)) (fl_max_workers fleet))"

definition start_probe ::
  "chrono \<Rightarrow> zai_saturation_config \<Rightarrow> fleet_config \<Rightarrow> quota_snapshot \<Rightarrow> f64 option \<Rightarrow> nat \<Rightarrow> nat
     \<Rightarrow> nat \<Rightarrow> f64 \<Rightarrow> nat \<Rightarrow> saturation_state \<Rightarrow> nat \<times> string \<times> saturation_state" where
  "start_probe ch policy fleet sn fraction unowned cap current rate target st =
     (let st1 = st\<lparr> st_baseline := Some rate \<rparr>;
          pressured = is_some_and (\<lambda>f. fle (zs_concurrency_fraction policy) f) fraction;
          shrinking = (st_shrinking st1 \<or> pressured);
          candidate = probe_candidate policy fleet unowned current shrinking;
          backlog_ok = is_some_and (\<lambda>b. max candidate current \<le> b) (qs_backlog sn)
      in if candidate \<noteq> current \<and> backlog_ok \<and> candidate \<le> cap \<and> (shrinking \<or> flt (Fin 0) rate)
         then (candidate, if shrinking then ''probe_shrink'' else ''probe_growth'',
           (if st_shrinking st1 then st1 else st1\<lparr> st_plateau := Some rate \<rparr>)
             \<lparr> st_pending := Some \<lparr> sp_from = current, sp_to = candidate, sp_baseline = rate,
                                    sp_recovery = False \<rparr>,
               st_settled_at := None \<rparr>)
         else (target, if \<not> backlog_ok then ''insufficient_backlog'' else ''worker_or_quota_bound'',
           if shrinking \<and> candidate = current
           then st1\<lparr> st_shrinking := False, st_next_probe_at :=
                  Some (reprobe_at ch (qs_observed_at sn) (zs_reprobe_seconds policy)) \<rparr>
           else st1))"

definition idle_arm ::
  "chrono \<Rightarrow> zai_saturation_config \<Rightarrow> fleet_config \<Rightarrow> quota_snapshot \<Rightarrow> f64 option \<Rightarrow> nat \<Rightarrow> nat
     \<Rightarrow> nat \<Rightarrow> f64 \<Rightarrow> datetime option \<Rightarrow> nat \<Rightarrow> saturation_state \<Rightarrow> nat \<times> string \<times> saturation_state" where
  "idle_arm ch policy fleet sn fraction unowned cap current rate window_start target st =
     (if st_observed_workers st \<noteq> Some current \<or> st_baseline st = None then
        (target, ''baseline'', st\<lparr> st_observed_workers := Some current,
           st_settled_at := Some (qs_observed_at sn), st_baseline := Some rate, st_plateau := Some rate \<rparr>)
      else if interval_ready ch st window_start (qs_observed_at sn) (zs_dwell_seconds policy)
            \<and> is_none_or (\<lambda>t. t \<le> qs_observed_at sn) (st_next_probe_at st)
      then start_probe ch policy fleet sn fraction unowned cap current rate target st
      else (target, ''baseline_dwell'', st))"

definition sample_arm ::
  "chrono \<Rightarrow> zai_saturation_config \<Rightarrow> fleet_config \<Rightarrow> quota_snapshot \<Rightarrow> f64 option \<Rightarrow> nat \<Rightarrow> nat
     \<Rightarrow> nat \<Rightarrow> nat \<Rightarrow> saturation_state \<Rightarrow> saturation_snapshot \<Rightarrow> sat_arm" where
  "sample_arm ch policy fleet sn fraction unowned cap current target st sample =
     (let window_start = Option.bind (try_seconds ch (as_i64 (ss_window_seconds sample)))
            (\<lambda>d. checked_add ch (qs_observed_at sn) (- d));
          rate = fdiv (f_of_nat (ss_completed_requests sample)) (f_of_nat (ss_window_seconds sample));
          st1 = st\<lparr> st_last_sample_at := Some (qs_observed_at sn) \<rparr>;
          res = (case st_pending st1 of
             Some p \<Rightarrow> pending_arm ch policy sn fraction current rate window_start target p st1
           | None \<Rightarrow> idle_arm ch policy fleet sn fraction unowned cap current rate window_start target st1)
      in (fst res, fst (snd res), Some rate, snd (snd res)))"

section \<open>One cycle\<close>

definition sat_experiment ::
  "chrono \<Rightarrow> zai_saturation_config \<Rightarrow> decision \<Rightarrow> account_config \<Rightarrow> quota_snapshot \<Rightarrow> account_state
     \<Rightarrow> datetime \<Rightarrow> sat_arm" where
  "sat_experiment ch policy d cfg sn prior now =
     (let current = dc_current d;
          st = unwrap_or saturation_state_default (as_saturation prior);
          fraction = Option.bind (qs_saturation sn) ss_concurrency_fraction;
          cap = quota_cap d cfg;
          fleet = ac_fleet cfg;
          target = (case st_pending st of None \<Rightarrow> current | Some p \<Rightarrow> min (sp_to p) current)
      in if dc_stale d \<or> now < qs_observed_at sn \<or> quota_was_reset ch sn prior
            \<or> list_ex (\<lambda>w. wd_reason w = ''reset_due'' \<or> wd_reason w = ''target_reached'') (dc_windows d)
         then (target, ''quota_or_freshness_bound'', None, saturation_state_default)
         else if current = 0 \<and> dc_unowned d = 0 \<and> is_some_and (\<lambda>b. 0 < b) (qs_backlog sn)
            \<and> 0 < fl_max_workers fleet \<and> 0 < cap
         then (max (fl_bootstrap fleet) 1, ''bootstrap_for_evidence'', None, saturation_state_default)
         else if is_some_and (\<lambda>t. as_i64 (ut_stale_after (ac_util cfg))
                    < num_seconds ch (qs_observed_at sn - t)) (st_last_sample_at st)
         then (target, ''signal_gap'', None, saturation_state_default)
         else if is_some_and (\<lambda>t. qs_observed_at sn \<le> t) (st_last_sample_at st)
         then (target, ''repeated_sample'', None, st)
         else case valid_sample policy st sn current of
           Some sample \<Rightarrow> sample_arm ch policy fleet sn fraction (dc_unowned d) cap current target st sample
         | None \<Rightarrow> (target, ''insufficient_signal'', None, st))"

definition clip_target :: "quota_snapshot \<Rightarrow> fleet_config \<Rightarrow> nat \<Rightarrow> nat \<Rightarrow> nat" where
  "clip_target sn fleet current target =
     max (min (min (min target (unwrap_or current (qs_backlog sn))) (fl_max_workers fleet))
              (sat_add current (fl_max_up fleet)))
         (sat_sub current (fl_max_down fleet))"

definition drop_experiment :: "saturation_state \<Rightarrow> saturation_state" where
  "drop_experiment st = st\<lparr> st_pending := None, st_baseline := None, st_settled_at := None \<rparr>"

definition apply_zai_saturation ::
  "chrono \<Rightarrow> decision \<Rightarrow> account_config \<Rightarrow> quota_snapshot \<Rightarrow> account_state \<Rightarrow> datetime
     \<Rightarrow> (decision \<times> saturation_state) res" where
  "apply_zai_saturation ch d cfg sn prior now =
     (case ut_zai_saturation (ac_util cfg) of
        None \<Rightarrow> Inl (Panic ''opt-in policy'')
      | Some policy \<Rightarrow>
        (case sat_experiment ch policy d cfg sn prior now of (target0, reason0, rate, st0) \<Rightarrow>
          let cap = quota_cap d cfg;
              backlog_cap = unwrap_or (dc_current d) (qs_backlog sn);
              target = clip_target sn (ac_fleet cfg) (dc_current d) target0;
              desired = min target cap;
              bounded = (desired \<noteq> target
                 \<or> is_some_and (\<lambda>p. cap < sp_to p \<or> backlog_cap < sp_to p) (st_pending st0));
              st = (if bounded then drop_experiment st0 else st0);
              reason = (if bounded then ''quota_or_backlog_bound'' else reason0)
          in Inr ((set_desired d desired)\<lparr> dc_saturation := Some \<lparr> sd_reason = reason, sd_rate = rate,
                sd_concurrency = Option.bind (qs_saturation sn) ss_concurrency_fraction,
                sd_target = desired, sd_pending = (st_pending st \<noteq> None) \<rparr> \<rparr>, st)))"

end
