(* ===== verification/Saturation_Laws.thy ===== *)
theory Saturation_Laws
  imports Saturation
begin

text \<open>
  The laws of the throughput experiments: the quota result caps every outcome, evidence is needed to
  grow, a pending experiment stays inside quota and backlog, and one experiment ends before the next.
\<close>

lemma apply_sat_Inr:
  assumes "apply_zai_saturation ch d cfg sn prior now = Inr (d', st')"
  obtains policy target reason rate st where "ut_zai_saturation (ac_util cfg) = Some policy"
    "sat_experiment ch policy d cfg sn prior now = (target, reason, rate, st)"
    "dc_desired d' = min (clip_target sn (ac_fleet cfg) (dc_current d) target) (quota_cap d cfg)"
    "dc_current d' = dc_current d" "dc_stale d' = dc_stale d"
    "st' = st \<or> st' = drop_experiment st"
    "\<And>p. st_pending st' = Some p \<Longrightarrow> sp_to p \<le> quota_cap d cfg \<and> sp_to p \<le> unwrap_or (dc_current d) (qs_backlog sn)"
  using assms
  by (auto simp: apply_zai_saturation_def Let_def drop_experiment_def is_some_and_def not_less
      split: option.splits prod.splits if_splits)

lemma clip_rise: "clip_target sn f c t \<le> c + fl_max_up f"
  using sat_add_le(2) [of c "fl_max_up f"] by (simp add: clip_target_def sat_sub_def min.coboundedI2)

lemma clip_down: "t \<le> c \<Longrightarrow> clip_target sn f c t \<le> c"
  by (auto simp: clip_target_def sat_sub_def)

lemma quota_cap_pacing:
  "dc_stale d \<or> \<not> quota_hold_only d \<Longrightarrow> quota_cap d cfg = dc_desired d"
  by (auto simp: quota_cap_def)

lemma quota_cap_max: "dc_desired d \<le> fl_max_workers (ac_fleet cfg) \<Longrightarrow> quota_cap d cfg \<le> fl_max_workers (ac_fleet cfg)"
  by (simp add: quota_cap_def)

text \<open>Without a usable sample the target does not pass the current count.\<close>

lemma no_evidence_no_growth:
  assumes "sat_experiment ch policy d cfg sn prior now = (target, reason, rate, st)"
    and "qs_saturation sn = None" "dc_current d \<noteq> 0"
  shows "target \<le> dc_current d"
  using assms
  by (auto simp: sat_experiment_def Let_def valid_sample_def opt_filter_def split: if_splits option.splits)

text \<open>What a cycle may do to the experiment in flight.\<close>

inductive probe_moves :: "nat \<Rightarrow> saturation_probe option \<Rightarrow> saturation_probe option \<Rightarrow> bool" for current where
  keep: "probe_moves current p p"
| finish: "probe_moves current (Some p) None"
| restore: "current = sp_to p \<Longrightarrow> \<not> sp_recovery p \<Longrightarrow> sp_from q = current \<Longrightarrow> sp_to q = sp_from p \<Longrightarrow>
     sp_recovery q \<Longrightarrow> probe_moves current (Some p) (Some q)"
| begin_probe: "sp_from q = current \<Longrightarrow> sp_to q \<noteq> current \<Longrightarrow> \<not> sp_recovery q \<Longrightarrow>
     probe_moves current None (Some q)"

inductive_cases probe_moves_SomeE: "probe_moves current (Some p) (Some q)"

lemma restore_move: "\<not> sp_recovery p \<Longrightarrow> c = sp_to p \<Longrightarrow> probe_moves c (Some p)
    (Some \<lparr> sp_from = c, sp_to = sp_from p, sp_baseline = r, sp_recovery = True \<rparr>)"
  by (rule probe_moves.restore) simp_all

lemma begin_move: "c \<noteq> current \<Longrightarrow> probe_moves current None
    (Some \<lparr> sp_from = current, sp_to = c, sp_baseline = r, sp_recovery = False \<rparr>)"
  by (rule probe_moves.begin_probe) simp_all

lemmas moves = probe_moves.keep probe_moves.finish restore_move begin_move

lemma judge_probe_moves:
  "current = sp_to p \<Longrightarrow> st_pending st = Some p \<Longrightarrow>
     judge_probe ch policy sn fraction current rate target p st = (t, r, st') \<Longrightarrow>
     probe_moves current (st_pending st) (st_pending st')"
  by (auto simp: judge_probe_def Let_def intro: moves split: if_splits) (simp add: restore_move)

lemma pending_arm_moves:
  "st_pending st = Some p \<Longrightarrow>
     pending_arm ch policy sn fraction current rate ws target p st = (t, r, st') \<Longrightarrow>
     probe_moves current (st_pending st) (st_pending st')"
  using judge_probe_moves [of current p st ch policy sn fraction rate target t r st']
  by (auto simp: pending_arm_def saturation_state_default_def intro: moves split: if_splits)

lemma idle_arm_moves:
  "st_pending st = None \<Longrightarrow>
     idle_arm ch policy fleet sn fraction unowned cap current rate ws target st = (t, r, st') \<Longrightarrow>
     probe_moves current (st_pending st) (st_pending st')"
  by (auto simp: idle_arm_def start_probe_def Let_def intro: moves split: if_splits)

lemma sample_arm_moves:
  assumes "sample_arm ch policy fleet sn fraction unowned cap current target st sample = (t, r, m, st')"
  shows "probe_moves current (st_pending st) (st_pending st')"
proof (cases "st_pending st")
  case None
  then show ?thesis using assms
      idle_arm_moves [of "st\<lparr> st_last_sample_at := Some (qs_observed_at sn) \<rparr>"]
    by (auto simp: sample_arm_def Let_def) (metis prod.collapse)
next
  case (Some p)
  then show ?thesis using assms
      pending_arm_moves [of "st\<lparr> st_last_sample_at := Some (qs_observed_at sn) \<rparr>" p]
    by (auto simp: sample_arm_def Let_def) (metis prod.collapse)
qed

lemma clears: "probe_moves c p None"
  by (cases p) (auto intro: probe_moves.intros)

lemma sat_experiment_moves:
  assumes "sat_experiment ch policy d cfg sn prior now = (t, r, m, st')"
  shows "probe_moves (dc_current d) (st_pending (unwrap_or saturation_state_default (as_saturation prior))) (st_pending st')"
proof -
  have d: "st_pending saturation_state_default = None" by (simp add: saturation_state_default_def)
  show ?thesis using assms
    by (auto simp: sat_experiment_def Let_def d clears intro: probe_moves.keep
        split: if_splits option.splits dest!: sample_arm_moves)
qed

lemma apply_sat_moves:
  assumes "apply_zai_saturation ch d cfg sn prior now = Inr (d', st')"
  shows "probe_moves (dc_current d) (st_pending (unwrap_or saturation_state_default (as_saturation prior))) (st_pending st')"
proof -
  obtain policy target reason rate st where e: "sat_experiment ch policy d cfg sn prior now = (target, reason, rate, st)"
    and st: "st' = st \<or> st' = drop_experiment st"
    using apply_sat_Inr [OF assms] by metis
  show ?thesis using sat_experiment_moves [OF e] st clears by (auto simp: drop_experiment_def)
qed

end
