(* ===== verification/Peer_Record.thy ===== *)
theory Peer_Record
  imports Config State Strs
begin

text \<open>
  \<open>src/federation.rs\<close>, the published record: its data, the schema gate and field checks a received
  record passes, and the comparison of account identities.  The JSON decoder is a parameter.
\<close>

section \<open>Data\<close>

record peer_quota_sample =
  pq_window :: string
  pq_used_fraction :: f64
  pq_resets_at :: datetime
  pq_observed_at :: datetime

record peer_ready_demand =
  rd_ready_beads :: nat
  rd_backlog_capacity :: "nat option"

record peer_pool =
  pp_governed :: nat
  pp_pending :: nat
  pp_desired :: nat
  pp_quota_sample :: "peer_quota_sample option"
  pp_ready_demand :: peer_ready_demand

record peer_account =
  pa_account_id :: string
  pa_fingerprint :: string
  pa_pools :: "(string, peer_pool) bmap"

record peer_host_ceiling =
  ph_workers :: nat
  ph_observed_at :: datetime

record host_reservation =
  hr_count :: nat
  hr_reserved_at :: datetime

record resource_reserve_digest =
  rv_cpu_reserve :: f64
  rv_mem_reserve_mb :: nat

record peer_record =
  pr_schema_version :: nat
  pr_instance_id :: string
  pr_host_id :: string
  pr_record_seq :: nat
  pr_observed_at :: datetime
  pr_accounts :: "(string, peer_account) bmap"
  pr_host_ceiling :: "peer_host_ceiling option"
  pr_reservations :: "(string, host_reservation) bmap"
  pr_resource_reserve :: "resource_reserve_digest option"
  pr_workspace_origins :: "(string, string) bmap"

definition peer_record_schema_version :: nat where "peer_record_schema_version = 1"
definition fingerprint_hex_chars :: nat where "fingerprint_hex_chars = 16"

definition worker_bound :: "peer_ready_demand \<Rightarrow> nat" where
  "worker_bound d = unwrap_or (rd_ready_beads d) (rd_backlog_capacity d)"

definition reserve_digest :: "resource_reserve_config \<Rightarrow> resource_reserve_digest" where
  "reserve_digest r = \<lparr> rv_cpu_reserve = rr_cpu_reserve r, rv_mem_reserve_mb = rr_mem_reserve_mb r \<rparr>"

section \<open>Validation\<close>

datatype peer_record_error = UnknownSchemaMajor nat nat | Malformed | InvalidRecord string

type_synonym 'a peer_res = "peer_record_error + 'a"

fun first_error :: "peer_record_error option list \<Rightarrow> unit peer_res" where
  "first_error [] = Inr ()"
| "first_error (None # es) = first_error es"
| "first_error (Some e # es) = Inl e"

definition identifier_ok :: "string \<Rightarrow> bool" where
  "identifier_ok v = (\<not> all_ws v \<and> \<not> has_ws v)"

definition validate_identifier :: "string \<Rightarrow> string \<Rightarrow> peer_record_error option" where
  "validate_identifier field v = (if identifier_ok v then None
     else Some (InvalidRecord (field @ '' must be non-empty and free of whitespace'')))"

definition is_fingerprint :: "string \<Rightarrow> bool" where
  "is_fingerprint v = (length v = fingerprint_hex_chars
     \<and> list_all (\<lambda>c. is_digit c \<or> (CHR ''a'' \<le> c \<and> c \<le> CHR ''f'')) v)"

definition sample_error :: "string \<Rightarrow> string \<Rightarrow> peer_quota_sample \<Rightarrow> peer_record_error option" where
  "sample_error account_id pool s =
     (if all_ws (pq_window s)
      then Some (InvalidRecord (''account '' @ account_id @ '' pool '' @ pool @
             '': quota sample window must not be empty''))
      else if \<not> in_unit (pq_used_fraction s)
      then Some (InvalidRecord (''account '' @ account_id @ '' pool '' @ pool @
             '': used_fraction must be in [0, 1]''))
      else None)"

definition pool_errors :: "string \<Rightarrow> string \<times> peer_pool \<Rightarrow> peer_record_error option list" where
  "pool_errors account_id e =
     [validate_identifier ''pool'' (fst e),
      Option.bind (pp_quota_sample (snd e)) (sample_error account_id (fst e))]"

definition account_errors :: "string \<times> peer_account \<Rightarrow> peer_record_error option list" where
  "account_errors e = (case e of (account_id, account) \<Rightarrow>
     [validate_identifier ''account_id'' account_id,
      (if pa_account_id account \<noteq> account_id
       then Some (InvalidRecord (''account '' @ account_id @ '': body carries account_id '' @ pa_account_id account))
       else None),
      (if \<not> is_fingerprint (pa_fingerprint account)
       then Some (InvalidRecord (''account '' @ account_id @
              '': account_fingerprint must be 16 lowercase hex characters''))
       else None)]
     @ concat (map (pool_errors account_id) (pa_pools account)))"

definition origin_errors :: "string \<times> string \<Rightarrow> peer_record_error option" where
  "origin_errors e = (if all_ws (fst e) \<or> all_ws (snd e)
     then Some (InvalidRecord ''workspace_origins must not carry empty paths or origins'') else None)"

definition record_validate :: "peer_record \<Rightarrow> unit peer_res" where
  "record_validate r = first_error
     ([validate_identifier ''instance_id'' (pr_instance_id r),
       validate_identifier ''host_id'' (pr_host_id r)]
      @ concat (map account_errors (pr_accounts r))
      @ map origin_errors (pr_workspace_origins r))"

text \<open>The version is probed first, so an unknown major is rejected on its own terms.\<close>

definition record_parse ::
  "('b \<Rightarrow> nat option) \<Rightarrow> ('b \<Rightarrow> peer_record option) \<Rightarrow> 'b \<Rightarrow> peer_record peer_res" where
  "record_parse probe decode bytes =
     (case probe bytes of
        None \<Rightarrow> Inl Malformed
      | Some v \<Rightarrow>
          if v \<noteq> peer_record_schema_version
          then Inl (UnknownSchemaMajor v peer_record_schema_version)
          else (case decode bytes of
             None \<Rightarrow> Inl Malformed
           | Some r \<Rightarrow> (case record_validate r of Inl e \<Rightarrow> Inl e | Inr _ \<Rightarrow> Inr r)))"

section \<open>Account identity\<close>

datatype identity_verdict = SameAccount | DistinctAccount | FingerprintMismatch

fun shares_account_total :: "identity_verdict \<Rightarrow> bool" where
  "shares_account_total SameAccount = True"
| "shares_account_total _ = False"

fun verdict_is_error :: "identity_verdict \<Rightarrow> bool" where
  "verdict_is_error FingerprintMismatch = True"
| "verdict_is_error _ = False"

definition classify_account :: "peer_account \<Rightarrow> peer_account \<Rightarrow> identity_verdict" where
  "classify_account l p =
     (if pa_account_id l \<noteq> pa_account_id p then DistinctAccount
      else if pa_fingerprint l \<noteq> pa_fingerprint p then FingerprintMismatch
      else SameAccount)"

section \<open>What a valid record satisfies\<close>

definition sample_ok :: "peer_quota_sample \<Rightarrow> bool" where
  "sample_ok s = (\<not> all_ws (pq_window s) \<and> in_unit (pq_used_fraction s))"

definition pool_entry_ok :: "string \<times> peer_pool \<Rightarrow> bool" where
  "pool_entry_ok e = (identifier_ok (fst e) \<and> is_none_or sample_ok (pp_quota_sample (snd e)))"

definition account_entry_ok :: "string \<times> peer_account \<Rightarrow> bool" where
  "account_entry_ok e = (identifier_ok (fst e) \<and> pa_account_id (snd e) = fst e
     \<and> is_fingerprint (pa_fingerprint (snd e)) \<and> (\<forall>p \<in> set (pa_pools (snd e)). pool_entry_ok p))"

definition record_ok :: "peer_record \<Rightarrow> bool" where
  "record_ok r = (identifier_ok (pr_instance_id r) \<and> identifier_ok (pr_host_id r)
     \<and> (\<forall>a \<in> set (pr_accounts r). account_entry_ok a)
     \<and> (\<forall>(p, orig) \<in> set (pr_workspace_origins r). \<not> all_ws p \<and> \<not> all_ws orig))"

lemma first_error_iff: "first_error es = Inr u \<longleftrightarrow> (\<forall>e \<in> set es. e = None)"
  by (induction es rule: first_error.induct) auto

lemma pool_errors_iff: "(\<forall>x \<in> set (pool_errors aid e). x = None) \<longleftrightarrow> pool_entry_ok e"
  by (cases "pp_quota_sample (snd e)")
     (auto simp: pool_errors_def validate_identifier_def pool_entry_ok_def sample_error_def sample_ok_def)

lemma all_None_concat:
  "(\<forall>x \<in> set (concat (map f xs)). x = None) \<longleftrightarrow> (\<forall>p \<in> set xs. \<forall>x \<in> set (f p). x = None)"
  by auto

lemma validate_identifier_None: "validate_identifier field v = None \<longleftrightarrow> identifier_ok v"
  by (simp add: validate_identifier_def)

lemma origin_errors_None: "origin_errors e = None \<longleftrightarrow> \<not> all_ws (fst e) \<and> \<not> all_ws (snd e)"
  by (simp add: origin_errors_def)

lemma account_errors_iff: "(\<forall>x \<in> set (account_errors e). x = None) \<longleftrightarrow> account_entry_ok e"
proof (cases e)
  case (Pair aid acc)
  have "(\<forall>x \<in> set (account_errors e). x = None) \<longleftrightarrow> identifier_ok aid \<and> pa_account_id acc = aid
      \<and> is_fingerprint (pa_fingerprint acc)
      \<and> (\<forall>x \<in> set (concat (map (pool_errors aid) (pa_pools acc))). x = None)"
    unfolding account_errors_def Pair prod.case set_append ball_Un
    by (simp add: validate_identifier_None del: set_concat)
  then show ?thesis
    unfolding all_None_concat by (simp add: Pair account_entry_ok_def pool_errors_iff)
qed

lemma record_validate_iff: "record_validate r = Inr () \<longleftrightarrow> record_ok r"
proof -
  have "record_validate r = Inr () \<longleftrightarrow> identifier_ok (pr_instance_id r) \<and> identifier_ok (pr_host_id r)
      \<and> (\<forall>x \<in> set (concat (map account_errors (pr_accounts r))). x = None)
      \<and> (\<forall>e \<in> set (pr_workspace_origins r). origin_errors e = None)"
    unfolding record_validate_def first_error_iff set_append ball_Un
    by (simp add: validate_identifier_None del: set_concat)
  then show ?thesis
    unfolding all_None_concat
    by (simp add: record_ok_def account_errors_iff origin_errors_None case_prod_unfold)
qed

lemma record_parse_Inr: "record_parse probe decode bytes = Inr r \<longleftrightarrow>
    probe bytes = Some peer_record_schema_version \<and> decode bytes = Some r \<and> record_ok r"
  by (auto simp: record_parse_def record_validate_iff [symmetric] split: option.splits sum.splits)

end
