(* ===== verification/Peer_Table.thy ===== *)
theory Peer_Table
  imports Peer_Record
begin

text \<open>
  \<open>src/federation.rs\<close>, the receiver's side: the table of configured peers, the acceptance of a pulled
  record, the ageing on the monotonic clock, the freeze of scale-up and the view of one account that a
  peer contributes.  Monotonic instants and durations are integer nanoseconds; a query may queue an
  event, so it returns the table it leaves.
\<close>

section \<open>Data\<close>

type_synonym instant = int

record peer_moment =
  pm_monotonic :: instant
  pm_wall :: datetime

datatype peer_freshness = Fresh | Stale | Expired

fun freezes_scale_up :: "peer_freshness \<Rightarrow> bool" where
  "freezes_scale_up Stale = True"
| "freezes_scale_up _ = False"

datatype peer_rejection =
    FetchFailed
  | ClockSkew string int
  | HostMismatch string string
  | Unconfigured string

record peer_entry =
  pe_record :: "peer_record option"
  pe_received_at :: "instant option"
  pe_expired_announced :: bool

text \<open>The \<open>peer_expired\<close> event: time, host and the last record sequence.\<close>

record peer_event =
  ev_time :: datetime
  ev_host :: string
  ev_last_seq :: "nat option"

record peer_table =
  pt_entries :: "(string, peer_entry) bmap"
  pt_started_at :: instant
  pt_stale_after :: int
  pt_expiry :: int
  pt_events :: "peer_event list"

definition clock_skew_tolerance :: int where "clock_skew_tolerance = 300"

definition entry_default :: peer_entry where
  "entry_default = \<lparr> pe_record = None, pe_received_at = None, pe_expired_announced = False \<rparr>"

definition seconds_ns :: "nat \<Rightarrow> int" where
  "seconds_ns s = int s * 1000000000"

definition peer_stale_after :: "federation_config \<Rightarrow> int" where
  "peer_stale_after f = seconds_ns (fc_stale_after f)"

definition peer_expiry :: "federation_config \<Rightarrow> int" where
  "peer_expiry f = seconds_ns (fc_expiry f)"

definition new_table :: "federation_config \<Rightarrow> instant \<Rightarrow> peer_table" where
  "new_table f started = \<lparr> pt_entries = bm_collect (map (\<lambda>p. (pc_host_id p, entry_default)) (fc_peers f)),
     pt_started_at = started, pt_stale_after = peer_stale_after f, pt_expiry = peer_expiry f,
     pt_events = [] \<rparr>"

definition configured_peers :: "peer_table \<Rightarrow> string list" where
  "configured_peers t = bm_keys (pt_entries t)"

section \<open>Receiving a record\<close>

definition accept_record :: "peer_record \<Rightarrow> peer_moment \<Rightarrow> peer_entry" where
  "accept_record r now = \<lparr> pe_record = Some r, pe_received_at = Some (pm_monotonic now),
     pe_expired_announced = False \<rparr>"

definition ingest ::
  "chrono \<Rightarrow> peer_table \<Rightarrow> peer_config \<Rightarrow> peer_record option \<Rightarrow> peer_moment
     \<Rightarrow> peer_table \<times> (peer_rejection + unit)" where
  "ingest ch t peer fetch now =
     (case fetch of
        None \<Rightarrow> (t, Inl FetchFailed)
      | Some r \<Rightarrow>
          (case bm_get (pt_entries t) (pc_host_id peer) of
             None \<Rightarrow> (t, Inl (Unconfigured (pc_host_id peer)))
           | Some _ \<Rightarrow>
               if pr_host_id r \<noteq> pc_host_id peer
               then (t, Inl (HostMismatch (pc_host_id peer) (pr_host_id r)))
               else let ahead = num_seconds ch (pr_observed_at r - pm_wall now)
                 in if clock_skew_tolerance < ahead then (t, Inl (ClockSkew (pc_host_id peer) ahead))
                    else (t\<lparr> pt_entries := bm_put (pc_host_id peer) (accept_record r now) (pt_entries t) \<rparr>,
                          Inr ())))"

section \<open>Freshness\<close>

definition expired_event :: "string \<Rightarrow> peer_entry \<Rightarrow> datetime \<Rightarrow> peer_event" where
  "expired_event h e time = \<lparr> ev_time = time, ev_host = h,
     ev_last_seq = map_option pr_record_seq (pe_record e) \<rparr>"

definition entry_age :: "peer_table \<Rightarrow> peer_entry \<Rightarrow> peer_moment \<Rightarrow> int" where
  "entry_age t e now = max 0 (pm_monotonic now - unwrap_or (pt_started_at t) (pe_received_at e))"

definition freshness :: "peer_table \<Rightarrow> string \<Rightarrow> peer_moment \<Rightarrow> peer_table \<times> peer_freshness option" where
  "freshness t h now =
     (case bm_get (pt_entries t) h of
        None \<Rightarrow> (t, None)
      | Some e \<Rightarrow>
          let age = entry_age t e now
          in if pt_expiry t \<le> age then
               ((if pe_expired_announced e then t
                 else t\<lparr> pt_entries := bm_put h (e\<lparr> pe_expired_announced := True \<rparr>) (pt_entries t),
                         pt_events := pt_events t @ [expired_event h (e\<lparr> pe_expired_announced := True \<rparr>) (pm_wall now)] \<rparr>),
                Some Expired)
             else if pe_received_at e = None \<or> pt_stale_after t < age then (t, Some Stale)
             else (t, Some Fresh))"

text \<open>\<open>any\<close> stops at the first stale peer; the ones behind it are not asked.\<close>

fun any_stale :: "peer_table \<Rightarrow> string list \<Rightarrow> peer_moment \<Rightarrow> peer_table \<times> bool" where
  "any_stale t [] now = (t, False)"
| "any_stale t (h # hs) now =
     (case freshness t h now of (t', f) \<Rightarrow>
        if f = Some Stale then (t', True) else any_stale t' hs now)"

definition any_peer_stale :: "peer_table \<Rightarrow> peer_moment \<Rightarrow> peer_table \<times> bool" where
  "any_peer_stale t now = any_stale t (configured_peers t) now"

definition clamp_scale_up :: "peer_table \<Rightarrow> nat \<Rightarrow> nat \<Rightarrow> peer_moment \<Rightarrow> peer_table \<times> nat" where
  "clamp_scale_up t desired current now =
     (case any_peer_stale t now of (t', stale) \<Rightarrow> (t', if stale then min desired current else desired))"

definition drain_events :: "peer_table \<Rightarrow> peer_table \<times> peer_event list" where
  "drain_events t = (t\<lparr> pt_events := [] \<rparr>, pt_events t)"

section \<open>One account of a peer\<close>

text \<open>\<open>iter().sum()\<close> on \<open>u32\<close> wraps in a release build.\<close>

definition pool_workers :: "peer_account \<Rightarrow> nat" where
  "pool_workers a = wrap32 (sum_list (map pp_governed (bm_vals (pa_pools a))))"

definition pool_demand :: "peer_account \<Rightarrow> nat" where
  "pool_demand a = wrap32 (sum_list (map (\<lambda>p. worker_bound (pp_ready_demand p)) (bm_vals (pa_pools a))))"

definition entry_account :: "peer_entry \<Rightarrow> string \<Rightarrow> peer_account option" where
  "entry_account e account = Option.bind (pe_record e) (\<lambda>r. bm_get (pr_accounts r) account)"

definition peer_account_workers ::
  "peer_table \<Rightarrow> string \<Rightarrow> string \<Rightarrow> peer_moment \<Rightarrow> peer_table \<times> nat option" where
  "peer_account_workers t h account now =
     (case freshness t h now of
        (t', None) \<Rightarrow> (t', None)
      | (t', Some f) \<Rightarrow>
          if f = Expired then (t', Some 0)
          else (t', map_option (\<lambda>e. unwrap_or 0 (map_option pool_workers (entry_account e account)))
                  (bm_get (pt_entries t') h)))"

text \<open>The order of samples: newest, then the larger fraction, then the smaller window id.\<close>

definition sample_gt :: "peer_quota_sample \<Rightarrow> peer_quota_sample \<Rightarrow> bool" where
  "sample_gt l r =
     (if pq_observed_at l \<noteq> pq_observed_at r then pq_observed_at r < pq_observed_at l
      else if flt (pq_used_fraction r) (pq_used_fraction l) then True
      else if flt (pq_used_fraction l) (pq_used_fraction r) then False
      else pq_window l < pq_window r)"

definition freshest_sample :: "peer_quota_sample list \<Rightarrow> peer_quota_sample option" where
  "freshest_sample ss = max_by sample_gt ss"

record account_view =
  pas_workers :: nat
  pas_ready_demand :: nat
  pas_quota_sample :: "peer_quota_sample option"

definition snapshot_default :: account_view where
  "snapshot_default = \<lparr> pas_workers = 0, pas_ready_demand = 0, pas_quota_sample = None \<rparr>"

definition account_snapshot :: "peer_account option \<Rightarrow> account_view" where
  "account_snapshot account =
     \<lparr> pas_workers = unwrap_or 0 (map_option pool_workers account),
       pas_ready_demand = unwrap_or 0 (map_option pool_demand account),
       pas_quota_sample = Option.bind account (\<lambda>a.
          freshest_sample (List.map_filter pp_quota_sample (bm_vals (pa_pools a)))) \<rparr>"

definition peer_account_snapshot ::
  "peer_table \<Rightarrow> string \<Rightarrow> string \<Rightarrow> peer_moment \<Rightarrow> peer_table \<times> account_view option" where
  "peer_account_snapshot t h account now =
     (case freshness t h now of
        (t', None) \<Rightarrow> (t', None)
      | (t', Some f) \<Rightarrow>
          if f = Expired then (t', Some snapshot_default)
          else (t', map_option (\<lambda>e. account_snapshot (entry_account e account)) (bm_get (pt_entries t') h)))"

section \<open>Lemmas\<close>

text \<open>The classification does not depend on what has been announced.\<close>

definition classify :: "peer_table \<Rightarrow> peer_entry \<Rightarrow> peer_moment \<Rightarrow> peer_freshness" where
  "classify t e now =
     (if pt_expiry t \<le> entry_age t e now then Expired
      else if pe_received_at e = None \<or> pt_stale_after t < entry_age t e now then Stale else Fresh)"

lemma freshness_classify:
  "snd (freshness t h now) = map_option (\<lambda>e. classify t e now) (bm_get (pt_entries t) h)"
  by (simp add: freshness_def classify_def Let_def split: option.splits)

text \<open>What a query changes: announcements and events, nothing else.\<close>

definition same_view :: "peer_table \<Rightarrow> peer_table \<Rightarrow> bool" where
  "same_view t t' = (pt_started_at t' = pt_started_at t \<and> pt_stale_after t' = pt_stale_after t
     \<and> pt_expiry t' = pt_expiry t
     \<and> (\<forall>h. map_option (\<lambda>e. (pe_record e, pe_received_at e)) (bm_get (pt_entries t') h)
          = map_option (\<lambda>e. (pe_record e, pe_received_at e)) (bm_get (pt_entries t) h)))"

lemma same_view_refl: "same_view t t"
  by (simp add: same_view_def)

lemma same_view_trans: "same_view a b \<Longrightarrow> same_view b c \<Longrightarrow> same_view a c"
  by (simp add: same_view_def)

lemma freshness_same_view: "same_view t (fst (freshness t h now))"
  by (auto simp: freshness_def same_view_def Let_def bm_get_put split: option.splits)

lemma same_view_classify:
  assumes "same_view t t'"
  shows "snd (freshness t' h now) = snd (freshness t h now)"
proof -
  have "map_option (\<lambda>e. (pe_record e, pe_received_at e)) (bm_get (pt_entries t') h)
          = map_option (\<lambda>e. (pe_record e, pe_received_at e)) (bm_get (pt_entries t) h)"
    using assms by (simp add: same_view_def)
  then show ?thesis using assms
    by (cases "bm_get (pt_entries t) h"; cases "bm_get (pt_entries t') h")
       (auto simp: freshness_classify classify_def entry_age_def same_view_def)
qed

lemma any_stale_iff:
  "snd (any_stale t hs now) \<longleftrightarrow> (\<exists>h \<in> set hs. snd (freshness t h now) = Some Stale)"
proof (induction hs arbitrary: t)
  case (Cons h hs)
  obtain t' f where f: "freshness t h now = (t', f)" by (cases "freshness t h now")
  then have "same_view t t'" using freshness_same_view [of t h now] by simp
  then have "snd (freshness t' x now) = snd (freshness t x now)" for x by (rule same_view_classify)
  then show ?case using Cons f by auto
qed simp

lemma any_peer_stale_iff: "snd (any_peer_stale t now) \<longleftrightarrow>
    (\<exists>h e. bm_get (pt_entries t) h = Some e \<and> classify t e now = Stale)"
proof -
  have "set (configured_peers t) = {h. bm_get (pt_entries t) h \<noteq> None}"
    unfolding configured_peers_def by (rule bm.keys_look)
  then show ?thesis
    by (auto simp: any_peer_stale_def any_stale_iff freshness_classify)
qed

lemma ingest_rejected: "snd (ingest ch t peer fetch now) = Inl e \<Longrightarrow> fst (ingest ch t peer fetch now) = t"
  by (auto simp: ingest_def Let_def split: option.splits if_splits)

lemma ingest_keys:
  "bm_get (pt_entries (fst (ingest ch t peer fetch now))) h = None \<longleftrightarrow> bm_get (pt_entries t) h = None"
  by (auto simp: ingest_def Let_def bm_get_put split: option.splits if_splits)

end
