(* ===== verification/Steps.thy ===== *)
theory Steps
  imports Prelude
begin

text \<open>
  The contract the step limiters of the code share: the account limiter of
  \<open>src/controller.rs\<close> and the host limiter of \<open>src/placement.rs\<close>.  A limiter keeps the count
  within its bounds, moves at most one step per cycle and, repeated on an unchanged request,
  arrives.
\<close>

definition clamped :: "nat \<Rightarrow> nat \<Rightarrow> nat \<Rightarrow> nat" where
  "clamped lo hi x = max lo (min x hi)"

lemma clamped_bounds: "lo \<le> hi \<Longrightarrow> lo \<le> clamped lo hi x \<and> clamped lo hi x \<le> hi"
  by (simp add: clamped_def)

locale step_limiter =
  fixes limit :: "nat \<Rightarrow> nat \<Rightarrow> nat" and lo hi up down :: nat
  assumes lo_hi: "lo \<le> hi"
    and limit_inside: "lo \<le> limit d c \<and> limit d c \<le> hi"
    and limit_rise: "limit d c \<le> max lo (c + up)"
    and limit_fall: "c \<le> u32_max \<Longrightarrow> min hi (c - down) \<le> limit d c"
    and limit_step: "c \<le> u32_max \<Longrightarrow> lo \<le> c \<Longrightarrow> c \<le> hi \<Longrightarrow> limit d c =
       (if c < clamped lo hi d then min (clamped lo hi d) (sat_add c up)
        else max (clamped lo hi d) (c - down))"
begin

lemma clamped_sat_add: "hi \<le> u32_max \<Longrightarrow> min (clamped lo hi d) (sat_add c up) = min (clamped lo hi d) (c + up)"
  using clamped_bounds [OF lo_hi, of d] by (auto simp: sat_add_def min_def)

lemma limit_fixed: "hi \<le> u32_max \<Longrightarrow> lo \<le> d \<Longrightarrow> d \<le> hi \<Longrightarrow> limit d d = d"
  using limit_step [of d d] by (simp add: clamped_def)

lemma limit_up: "hi \<le> u32_max \<Longrightarrow> lo \<le> c \<Longrightarrow> c \<le> clamped lo hi d \<Longrightarrow> limit d c = min (clamped lo hi d) (c + up)"
  using limit_step [of c d] clamped_bounds [OF lo_hi, of d] clamped_sat_add [of d c] by auto

lemma limit_down: "hi \<le> u32_max \<Longrightarrow> clamped lo hi d \<le> c \<Longrightarrow> c \<le> hi \<Longrightarrow> limit d c = max (clamped lo hi d) (c - down)"
  using limit_step [of c d] clamped_bounds [OF lo_hi, of d] by auto

lemma iterate_up:
  "hi \<le> u32_max \<Longrightarrow> lo \<le> c \<Longrightarrow> c \<le> clamped lo hi d \<Longrightarrow> (limit d ^^ n) c = min (clamped lo hi d) (c + n * up)"
proof (induction n)
  case (Suc n)
  let ?x = "min (clamped lo hi d) (c + n * up)"
  have "(limit d ^^ Suc n) c = limit d ?x" using Suc by simp
  also have "\<dots> = min (clamped lo hi d) (?x + up)"
    using Suc.prems by (intro limit_up) auto
  finally show ?case by auto
qed simp

lemma iterate_down:
  "hi \<le> u32_max \<Longrightarrow> clamped lo hi d \<le> c \<Longrightarrow> c \<le> hi \<Longrightarrow> (limit d ^^ n) c = max (clamped lo hi d) (c - n * down)"
proof (induction n)
  case (Suc n)
  let ?x = "max (clamped lo hi d) (c - n * down)"
  have "(limit d ^^ Suc n) c = limit d ?x" using Suc by simp
  also have "\<dots> = max (clamped lo hi d) (?x - down)"
    using Suc.prems clamped_bounds [OF lo_hi, of d] by (intro limit_down) auto
  also have "\<dots> = max (clamped lo hi d) (c - Suc n * down)"
    by (simp add: add.commute [of down])
  finally show ?case .
qed simp

text \<open>Repeated on an unchanged request the limiter arrives at the clamped request.\<close>

lemma arrives:
  assumes "hi \<le> u32_max" "lo \<le> c" "c \<le> hi" "0 < up" "0 < down" "hi \<le> n"
  shows "(limit d ^^ n) c = clamped lo hi d"
proof (cases "c \<le> clamped lo hi d")
  case True
  have "n * 1 \<le> n * up" using assms by (intro mult_le_mono2) simp
  then have "clamped lo hi d \<le> c + n * up" using clamped_bounds [OF lo_hi, of d] assms by linarith
  then show ?thesis using iterate_up [OF assms(1,2) True, of n] by simp
next
  case False
  have "n * 1 \<le> n * down" using assms by (intro mult_le_mono2) simp
  then have "c - n * down \<le> clamped lo hi d" using assms by linarith
  then show ?thesis using iterate_down [of d c n] False assms by simp
qed

end

end
