(* ===== verification/Placement.thy ===== *)
theory Placement
  imports Burn Steps
begin

text \<open>
  \<open>src/placement.rs\<close>: the distribution of an account's target over its hosts by resource headroom.
  The lookup tables of the code (\<open>current_of\<close>, \<open>ceiling_of\<close>, \<open>headroom_of\<close>) are filled from the
  list of hosts before they are indexed, so they are total on the ids they are asked for; here they
  are functions of the id.
\<close>

record host_placement =
  hp_host_id :: string
  hp_current :: nat
  hp_target :: nat
  hp_ceiling :: nat
  hp_headroom :: f64
  hp_fresh :: bool
  hp_eligible :: bool

section \<open>Headroom\<close>

definition mem_fraction :: "resource_snapshot \<Rightarrow> nat \<Rightarrow> f64" where
  "mem_fraction r reserve_mb =
     (if rs_mem_total_mb r = 0 then Fin 0
      else fdiv (fsub (f_of_nat (rs_mem_available_mb r)) (f_of_nat reserve_mb))
                (f_of_nat (rs_mem_total_mb r)))"

text \<open>\<open>clamp(0.0, 1.0)\<close>, whose bounds are literals.\<close>

definition clamp01 :: "f64 \<Rightarrow> f64" where
  "clamp01 x = (if flt x (Fin 0) then Fin 0 else if flt (Fin 1) x then Fin 1 else x)"

definition resource_headroom ::
  "chrono \<Rightarrow> resource_snapshot option \<Rightarrow> nat \<Rightarrow> nat \<Rightarrow> datetime \<Rightarrow> bool \<times> f64" where
  "resource_headroom ch sn reserve_mb stale_after now =
     (case sn of
        None \<Rightarrow> (False, Fin 0)
      | Some r \<Rightarrow>
          if rs_fresh r \<and> age_seconds ch now (rs_observed_at r) \<le> stale_after
          then (True, clamp01 (fmin (rs_cpu_available r) (mem_fraction r reserve_mb)))
          else (False, Fin 0))"

definition place_step_limit :: "nat \<Rightarrow> nat \<Rightarrow> nat \<Rightarrow> nat \<Rightarrow> nat \<Rightarrow> nat" where
  "place_step_limit desired current cap max_up max_down =
     (let bounded = min desired cap;
          stepped = (if current < bounded then min bounded (sat_add current max_up)
                     else max bounded (sat_sub current max_down))
      in min stepped cap)"

section \<open>Distribution\<close>

definition total_headroom :: "string list \<Rightarrow> (string \<Rightarrow> f64) \<Rightarrow> f64" where
  "total_headroom eligible headroom = f_sum (map headroom eligible)"

definition headroom_weight :: "string list \<Rightarrow> (string \<Rightarrow> f64) \<Rightarrow> string \<Rightarrow> f64" where
  "headroom_weight eligible headroom h = fdiv (headroom h) (total_headroom eligible headroom)"

definition floor_share :: "nat \<Rightarrow> f64 \<Rightarrow> nat" where
  "floor_share target weight =
     (let share = fmul (f_of_nat target) weight
      in if \<not> is_fin share \<or> fle share (Fin 0) then 0
         else f_to_u32 (fmin (ffloor share) (f_of_nat u32_max)))"

definition first_shares ::
  "nat \<Rightarrow> string list \<Rightarrow> (string \<Rightarrow> f64) \<Rightarrow> (string \<Rightarrow> nat) \<Rightarrow> string list \<Rightarrow> (string, nat) bmap" where
  "first_shares target eligible headroom cap all_hosts =
     bm_collect (map (\<lambda>h. (h,
       if h \<in> set eligible
       then min (floor_share target (headroom_weight eligible headroom h)) (cap h) else 0)) all_hosts)"

definition host_score :: "(string \<Rightarrow> f64) \<Rightarrow> (string \<Rightarrow> nat) \<Rightarrow> string \<Rightarrow> nat \<Rightarrow> f64" where
  "host_score headroom cap h n = fsub (headroom h) (fdiv (f_of_nat n) (f_of_nat (cap h)))"

text \<open>The scan for the eligible host with the largest score below its cap.\<close>

fun best_host ::
  "(string \<Rightarrow> f64) \<Rightarrow> (string \<Rightarrow> nat) \<Rightarrow> (string, nat) bmap \<Rightarrow> string option \<times> f64 \<Rightarrow> string list
     \<Rightarrow> string option" where
  "best_host headroom cap m (best, score) [] = best"
| "best_host headroom cap m (best, score) (h # hs) =
     (let n = unwrap_or 0 (bm_get m h)
      in if cap h \<le> n then best_host headroom cap m (best, score) hs
         else let s = host_score headroom cap h n
           in if flt score s then best_host headroom cap m (Some h, s) hs
              else best_host headroom cap m (best, score) hs)"

definition pick_host ::
  "(string \<Rightarrow> f64) \<Rightarrow> (string \<Rightarrow> nat) \<Rightarrow> string list \<Rightarrow> (string, nat) bmap \<Rightarrow> string option" where
  "pick_host headroom cap eligible m = best_host headroom cap m (None, Inf True) eligible"

text \<open>
  The loop \<open>while sum < account_target\<close>: every round adds one worker and one to the sum or leaves
  the loop, so the workers still missing count its rounds.
\<close>

fun fill ::
  "(string \<Rightarrow> f64) \<Rightarrow> (string \<Rightarrow> nat) \<Rightarrow> string list \<Rightarrow> nat \<Rightarrow> (string, nat) bmap \<Rightarrow> (string, nat) bmap" where
  "fill headroom cap eligible 0 m = m"
| "fill headroom cap eligible (Suc missing) m =
     (case pick_host headroom cap eligible m of
        None \<Rightarrow> m
      | Some w \<Rightarrow> fill headroom cap eligible missing (bm_put w (unwrap_or 0 (bm_get m w) + 1) m))"

definition distribute ::
  "nat \<Rightarrow> string list \<Rightarrow> (string \<Rightarrow> f64) \<Rightarrow> (string \<Rightarrow> nat) \<Rightarrow> string list \<Rightarrow> (string, nat) bmap" where
  "distribute target eligible headroom cap all_hosts =
     (let m = first_shares target eligible headroom cap all_hosts
      in fill headroom cap eligible (target - wrap32 (sum_list (bm_vals m))) m)"

section \<open>Placement of an account\<close>

definition host_ceiling :: "fleet_config \<Rightarrow> host_config \<Rightarrow> nat" where
  "host_ceiling f h = unwrap_or (fl_max_workers f) (hc_max_workers h)"

definition host_step_limits :: "fleet_config \<Rightarrow> host_config \<Rightarrow> nat \<times> nat" where
  "host_step_limits f h = (unwrap_or (fl_max_up f) (hc_max_up h), unwrap_or (fl_max_down f) (hc_max_down h))"

definition host_headroom ::
  "chrono \<Rightarrow> account_config \<Rightarrow> (string, resource_snapshot) bmap \<Rightarrow> datetime \<Rightarrow> string \<Rightarrow> host_config
     \<Rightarrow> bool \<times> f64" where
  "host_headroom ch cfg resources now hid h =
     (case hc_resource_source h of
        None \<Rightarrow> (True, Fin 1)
      | Some _ \<Rightarrow> resource_headroom ch (bm_get resources hid)
          (unwrap_or 0 (map_option rr_mem_reserve_mb (hc_resource_reserve h)))
          (ut_stale_after (ac_util cfg)) now)"

text \<open>What the first loop of \<open>place\<close> collects about a host.\<close>

record host_view =
  hv_current :: nat
  hv_ceiling :: nat
  hv_up :: nat
  hv_down :: nat
  hv_fresh :: bool
  hv_headroom :: f64

definition view_host ::
  "chrono \<Rightarrow> account_config \<Rightarrow> (string, nat) bmap \<Rightarrow> (string, resource_snapshot) bmap \<Rightarrow> datetime
     \<Rightarrow> string \<Rightarrow> host_config \<Rightarrow> host_view" where
  "view_host ch cfg current resources now hid h =
     \<lparr> hv_current = unwrap_or 0 (bm_get current hid), hv_ceiling = host_ceiling (ac_fleet cfg) h,
       hv_up = fst (host_step_limits (ac_fleet cfg) h), hv_down = snd (host_step_limits (ac_fleet cfg) h),
       hv_fresh = fst (host_headroom ch cfg resources now hid h),
       hv_headroom = snd (host_headroom ch cfg resources now hid h) \<rparr>"

definition hv_eligible :: "host_view \<Rightarrow> bool" where
  "hv_eligible v = (hv_fresh v \<and> flt (Fin 0) (hv_headroom v))"

definition limited :: "host_view \<Rightarrow> nat \<Rightarrow> nat" where
  "limited v n = place_step_limit n (hv_current v) (hv_ceiling v) (hv_up v) (hv_down v)"

text \<open>Hosts that may not grow keep their workers unless the account shrinks.\<close>

definition ineligible_targets :: "nat \<Rightarrow> (string, host_view) bmap \<Rightarrow> (string, nat) bmap" where
  "ineligible_targets account_target views =
     (let current_total = sat_sum (map hv_current (bm_vals views))
      in map (\<lambda>(hid, v). (hid, limited v (if current_total \<le> account_target then hv_current v else 0)))
           (filter (\<lambda>(hid, v). \<not> hv_eligible v) views))"

definition view_of :: "(string, host_view) bmap \<Rightarrow> string \<Rightarrow> host_view" where
  "view_of views hid = the (bm_get views hid)"

definition raw_targets :: "nat \<Rightarrow> (string, host_view) bmap \<Rightarrow> (string, nat) bmap" where
  "raw_targets account_target views =
     (let eligible = map fst (filter (\<lambda>(hid, v). hv_eligible v) views);
          ineligible = ineligible_targets account_target views
      in if eligible = [] then bm_map hv_current views
         else foldl (\<lambda>m e. bm_put (fst e) (snd e) m)
           (distribute (sat_sub account_target (sat_sum (bm_vals ineligible))) eligible
              (\<lambda>hid. hv_headroom (view_of views hid)) (\<lambda>hid. hv_ceiling (view_of views hid))
              (bm_keys views))
           ineligible)"

definition place_host :: "(string, nat) bmap \<Rightarrow> string \<Rightarrow> host_view \<Rightarrow> host_placement" where
  "place_host raw hid v = \<lparr> hp_host_id = hid, hp_current = hv_current v,
     hp_target = limited v (unwrap_or 0 (bm_get raw hid)), hp_ceiling = hv_ceiling v,
     hp_headroom = hv_headroom v, hp_fresh = hv_fresh v, hp_eligible = hv_eligible v \<rparr>"

definition place ::
  "chrono \<Rightarrow> string \<Rightarrow> nat \<Rightarrow> account_config \<Rightarrow> (string, nat) bmap \<Rightarrow> (string, resource_snapshot) bmap
     \<Rightarrow> datetime \<Rightarrow> host_placement list res" where
  "place ch name account_target cfg current resources now =
     (case opt_filter (\<lambda>hosts. hosts \<noteq> []) (fl_hosts (ac_fleet cfg)) of
        None \<Rightarrow> Inl (Bail (''account '' @ name @ '': place requires a non-empty fleet.hosts configuration''))
      | Some hosts \<Rightarrow>
          let views = map (\<lambda>(hid, h). (hid, view_host ch cfg current resources now hid h)) hosts;
              raw = raw_targets account_target views
          in Inr (map (\<lambda>(hid, v). place_host raw hid v) views))"

end
