(* ===== verification/Placement_Laws.thy ===== *)
theory Placement_Laws
  imports Placement
begin

text \<open>
  The laws of placement: the host limiter meets the step contract, the floating-point shares never
  exceed the target, and the fill loop hands out every worker that fits below a cap.
\<close>

section \<open>The host limiter\<close>

interpretation host_steps: step_limiter "\<lambda>d c. place_step_limit d c cap up down" 0 cap up down
  for cap up down
  by unfold_locales (auto simp: place_step_limit_def Let_def clamped_def sat_sub_def sat_add_def)

lemma limited_le_ceiling: "limited v n \<le> hv_ceiling v"
  using host_steps.limit_inside by (simp add: limited_def)

section \<open>Finite floating-point values\<close>

lemma huge_big: "(2::rat) ^ 60 < f64_huge"
  unfolding f64_huge_def by (rule power_strict_increasing) simp_all

lemma rq_le_60: "\<bar>q\<bar> \<le> 2 ^ 60 \<Longrightarrow> \<bar>rq q\<bar> \<le> 2 ^ 60"
proof -
  assume q: "\<bar>q\<bar> \<le> 2 ^ 60"
  have g: "rq (2 ^ 60) = 2 ^ 60" using rq_powi [of 60] emin_le by simp
  have "rq q \<le> 2 ^ 60" "- (2 ^ 60) \<le> rq q"
    using rq_mono [of q "2 ^ 60"] rq_mono [of "- (2 ^ 60)" q] q g by (auto simp: rq_minus)
  then show ?thesis by (simp add: abs_le_iff)
qed

lemma rnd_fin: "\<bar>q\<bar> \<le> 2 ^ 60 \<Longrightarrow> is_fin (rnd q) \<and> fval (rnd q) = rq q"
  using rq_le_60 [of q] huge_big by (auto simp: rnd_def Let_def)

lemma rnd_nonneg: "0 \<le> q \<Longrightarrow> q \<le> 2 ^ 60 \<Longrightarrow> rnd q = Fin (rq q)"
  using rq_le_60 [of q] huge_big by (auto simp: rnd_def Let_def)

lemma f_of_nat_eq: "n \<le> 2 ^ 53 \<Longrightarrow> f_of_nat n = Fin (of_nat n)"
proof -
  assume n: "n \<le> 2 ^ 53"
  have "rq (of_nat n) = of_nat n" using rq_int [of "int n"] n by (simp add: zless_nat_eq_int_zless nat_le_iff)
  moreover have "(of_nat n :: rat) \<le> 2 ^ 60"
  proof -
    have "(of_nat n :: rat) \<le> of_nat (2 ^ 60)" using n by (intro of_nat_mono) simp
    then show ?thesis by simp
  qed
  ultimately show ?thesis using rnd_nonneg [of "of_nat n"] by (simp add: f_of_nat_def f_of_int_def)
qed

lemma u32_le_53: "n \<le> u32_max \<Longrightarrow> n \<le> 2 ^ 53"
  by (simp add: u32_max_def)

section \<open>Shares\<close>

text \<open>What the split relies on: nonnegative headrooms that binary64 represents, none enormous.\<close>

definition headroom_ok :: "f64 \<Rightarrow> bool" where
  "headroom_ok x = (case x of Fin q \<Rightarrow> 0 \<le> q \<and> q \<le> 2 ^ 33 \<and> rq q = q | _ \<Rightarrow> False)"

lemma headroom_okD: "headroom_ok x \<Longrightarrow>
    x = Fin (fval x) \<and> 0 \<le> fval x \<and> fval x \<le> 2 ^ 33 \<and> rq (fval x) = fval x"
  by (cases x) (auto simp: headroom_ok_def)

lemma headroom_ok_grid: "headroom_ok x \<Longrightarrow> on_grid (fval x)"
  using rq_on_grid by (metis headroom_okD)

lemma fsum_upper:
  assumes "\<forall>h \<in> set hs. 0 \<le> h \<and> h \<le> 2 ^ 33" "length hs \<le> 2 ^ 16"
  shows "binary64.fsum hs \<le> of_nat (length hs) * 2 ^ 33"
  using assms
proof (induction hs rule: rev_induct)
  case Nil
  then show ?case by (simp add: binary64.fsum_def)
next
  case (snoc h hs)
  let ?n = "of_nat (Suc (length hs)) :: rat"
  have "binary64.fsum hs + h \<le> ?n * 2 ^ 33"
    using snoc by (simp add: algebra_simps add_mono)
  then have "rq (binary64.fsum hs + h) \<le> rq (?n * 2 ^ 33)" by (rule rq_mono)
  moreover have "rq (?n * 2 ^ 33) = ?n * 2 ^ 33"
  proof -
    have "int (Suc (length hs)) * 2 ^ 33 \<le> 2 ^ 16 * 2 ^ 33"
      using snoc.prems(2) by (intro mult_right_mono) auto
    then have "\<bar>int (Suc (length hs)) * 2 ^ 33\<bar> \<le> 2 ^ 53" by simp
    from rq_int [OF this] show ?thesis by simp
  qed
  ultimately show ?case by (simp add: binary64.fsum_snoc)
qed

lemma f_sum_fsum:
  assumes "\<forall>h \<in> set hs. headroom_ok h" "length hs \<le> 2 ^ 16" "hs \<noteq> []"
  shows "f_sum hs = Fin (binary64.fsum (map fval hs))"
  using assms
proof (induction hs rule: rev_induct)
  case (snoc h hs)
  let ?s = "binary64.fsum (map fval hs)"
  have h: "h = Fin (fval h)" "0 \<le> fval h" "fval h \<le> 2 ^ 33"
    using snoc.prems headroom_okD by auto
  have s0: "0 \<le> ?s"
    using snoc.prems headroom_okD by (intro binary64.fsum_nonneg) (force dest: headroom_okD intro: less_imp_le)
  have su: "?s \<le> of_nat (length hs) * 2 ^ 33"
    using fsum_upper [of "map fval hs"] snoc.prems by (force dest: headroom_okD intro: less_imp_le)
  have "(of_nat (length hs) :: rat) * 2 ^ 33 \<le> 2 ^ 16 * 2 ^ 33"
  proof (rule mult_right_mono)
    have "(of_nat (length hs) :: rat) \<le> of_nat (2 ^ 16)" using snoc.prems by (intro of_nat_mono) simp
    then show "(of_nat (length hs) :: rat) \<le> 2 ^ 16" by simp
  qed simp
  with su h have b: "0 \<le> ?s + fval h" "?s + fval h \<le> 2 ^ 60" using s0 by simp_all
  have "f_sum (hs @ [h]) = fadd (f_sum hs) (Fin (fval h))" using h(1) by (simp add: f_sum_def)
  also have "\<dots> = rnd (?s + fval h)"
  proof (cases "hs = []")
    case True
    then show ?thesis by (simp add: f_sum_def fadd_def binary64.fsum_def)
  next
    case False
    then show ?thesis using snoc by (simp add: fadd_def)
  qed
  also have "\<dots> = Fin (rq (?s + fval h))" using b by (rule rnd_nonneg)
  finally show ?case by (simp add: binary64.fsum_snoc)
qed simp

lemma fsum_ge_member:
  assumes "\<forall>h \<in> set hs. 0 \<le> h \<and> rq h = h" "h \<in> set hs"
  shows "h \<le> binary64.fsum hs"
  using assms
proof (induction hs rule: rev_induct)
  case (snoc x xs)
  have s0: "0 \<le> binary64.fsum xs" using snoc.prems by (intro binary64.fsum_nonneg) auto
  show ?case
  proof (cases "h = x")
    case True
    then have "h \<le> rq (binary64.fsum xs + x)" using rq_mono [of x "binary64.fsum xs + x"] s0 snoc.prems by auto
    then show ?thesis by (simp add: binary64.fsum_snoc)
  next
    case False
    then have "h \<le> binary64.fsum xs + x" using snoc by (simp add: add_increasing2)
    then have "rq h \<le> rq (binary64.fsum xs + x)" by (rule rq_mono)
    moreover have "rq h = h" using snoc.prems by blast
    ultimately show ?thesis by (simp add: binary64.fsum_snoc)
  qed
qed simp

lemma weight_le:
  assumes "\<forall>x \<in> set elig. headroom_ok (headroom x)" "h \<in> set elig"
  shows "fval (headroom h) \<le> binary64.fsum (map (\<lambda>x. fval (headroom x)) elig)"
  using assms by (intro fsum_ge_member) (auto dest: headroom_okD)

lemma total_headroom_eq:
  assumes "\<forall>x \<in> set elig. headroom_ok (headroom x)" "length elig \<le> 2 ^ 16" "elig \<noteq> []"
  shows "total_headroom elig headroom = Fin (binary64.fsum (map (\<lambda>x. fval (headroom x)) elig))"
  using f_sum_fsum [of "map headroom elig"] assms by (simp add: total_headroom_def comp_def)

lemma weight_eq:
  assumes "\<forall>x \<in> set elig. headroom_ok (headroom x)" "length elig \<le> 2 ^ 16" "h \<in> set elig"
  defines "t \<equiv> binary64.fsum (map (\<lambda>x. fval (headroom x)) elig)"
  assumes t: "0 < t"
  shows "headroom_weight elig headroom h = Fin (rq (fval (headroom h) / t))"
    "0 \<le> fval (headroom h) / t" "fval (headroom h) / t \<le> 1"
proof -
  have h: "headroom h = Fin (fval (headroom h))" "0 \<le> fval (headroom h)"
    using assms headroom_okD by auto
  have "fval (headroom h) \<le> t" unfolding t_def by (rule weight_le [OF assms(1,3)])
  with h t show nn: "0 \<le> fval (headroom h) / t" and le: "fval (headroom h) / t \<le> 1" by auto
  have "elig \<noteq> []" using assms(3) by auto
  then have tot: "total_headroom elig headroom = Fin t"
    using total_headroom_eq assms(1,2) by (simp add: t_def)
  obtain q where q: "headroom h = Fin q" using h(1) by blast
  have "fval (headroom h) / t \<le> 2 ^ 60" using le by (rule order_trans) simp
  then have "rnd (fval (headroom h) / t) = Fin (rq (fval (headroom h) / t))" using nn by (rule rnd_nonneg [rotated])
  then show "headroom_weight elig headroom h = Fin (rq (fval (headroom h) / t))"
    using h(2) t by (auto simp: headroom_weight_def tot q fdiv_def Let_def signed_zero_def)
qed

text \<open>When no host has headroom the weights are NaN and the shares zero.\<close>

lemma weight_no_headroom:
  assumes "\<forall>x \<in> set elig. headroom_ok (headroom x)" "length elig \<le> 2 ^ 16" "h \<in> set elig"
    and "binary64.fsum (map (\<lambda>x. fval (headroom x)) elig) = 0"
  shows "floor_share A (headroom_weight elig headroom h) = 0"
proof -
  have "headroom_ok (headroom h)" using assms(1,3) by blast
  from headroom_okD [OF this] have h: "headroom h = Fin (fval (headroom h))" "0 \<le> fval (headroom h)" by auto
  then have "fval (headroom h) = 0" using weight_le [OF assms(1,3)] assms(4) by simp
  then have "headroom h = Fin 0" using h(1) by metis
  moreover have "elig \<noteq> []" using assms(3) by auto
  then have "total_headroom elig headroom = Fin 0" using total_headroom_eq assms by simp
  ultimately have "headroom_weight elig headroom h = NaN"
    by (simp add: headroom_weight_def fdiv_def)
  then show ?thesis by (simp add: floor_share_def fmul_def)
qed

lemma floor_share_le:
  assumes "A \<le> u32_max" "0 \<le> w" "w \<le> 1"
  shows "floor_share A (Fin w) \<le> nat \<lfloor>rq (of_nat A * w)\<rfloor>"
proof -
  have A: "f_of_nat A = Fin (of_nat A)" using f_of_nat_eq u32_le_53 assms(1) by blast
  have Ar: "(of_nat A :: rat) \<le> 2 ^ 32"
  proof -
    have "(of_nat A :: rat) \<le> of_nat (2 ^ 32)" using assms(1) by (intro of_nat_mono) (simp add: u32_max_def)
    then show ?thesis by simp
  qed
  have p: "0 \<le> of_nat A * w" "of_nat A * w \<le> 2 ^ 60"
    using assms Ar mult_mono [OF Ar assms(3)] by (auto intro: order_trans)
  have share: "fmul (Fin (of_nat A)) (Fin w) = Fin (rq (of_nat A * w))"
    using rnd_nonneg [OF p] assms by (auto simp: fmul_def Let_def signed_zero_def)
  have "rq (of_nat A * w) \<le> 0 \<or> 0 < rq (of_nat A * w)" by linarith
  moreover have "f_of_nat u32_max = Fin (of_nat u32_max)" using f_of_nat_eq u32_le_53 by blast
  ultimately show ?thesis
    by (auto simp: floor_share_def A share Let_def fmin_def)
qed

lemma shares_sum_le:
  assumes "\<forall>x \<in> set elig. headroom_ok (headroom x)" "length elig \<le> 2 ^ 16" "A \<le> u32_max"
  shows "(\<Sum>h\<leftarrow>elig. floor_share A (headroom_weight elig headroom h)) \<le> A"
proof -
  let ?v = "\<lambda>x. fval (headroom x)"
  let ?t = "binary64.fsum (map ?v elig)"
  have nn: "\<forall>h\<in>set (map ?v elig). 0 \<le> h \<and> on_grid h"
    using assms(1) headroom_okD headroom_ok_grid by fastforce
  then have "0 \<le> ?t" by (intro binary64.fsum_nonneg) blast
  then consider "?t = 0" | "0 < ?t" by linarith
  then show ?thesis
  proof cases
    case 1
    then have "floor_share A (headroom_weight elig headroom h) = 0" if "h \<in> set elig" for h
      using weight_no_headroom assms that by blast
    then have "(\<Sum>h\<leftarrow>elig. floor_share A (headroom_weight elig headroom h)) = 0"
      by simp
    then show ?thesis by linarith
  next
    case 2
    have "floor_share A (headroom_weight elig headroom h) \<le> nat \<lfloor>rq (of_nat A * rq (?v h / ?t))\<rfloor>"
      if "h \<in> set elig" for h
    proof -
      note w = weight_eq [OF assms(1,2) that 2]
      have "0 \<le> rq (?v h / ?t)" using w(2) by (rule rq_nonneg)
      moreover have "rq (?v h / ?t) \<le> 1" using rq_mono [OF w(3)] rq_int [of 1] by simp
      ultimately show ?thesis using floor_share_le assms(3) w(1) by simp
    qed
    then have "(\<Sum>h\<leftarrow>elig. floor_share A (headroom_weight elig headroom h))
        \<le> (\<Sum>h\<leftarrow>elig. nat \<lfloor>rq (of_nat A * rq (?v h / ?t))\<rfloor>)"
      by (rule sum_list_mono)
    also have "\<dots> = (\<Sum>x\<leftarrow>map ?v elig. nat \<lfloor>rq (of_nat A * rq (x / ?t))\<rfloor>)"
      by (simp add: comp_def)
    also have "\<dots> \<le> A"
      using binary64.shares_never_overshoot [OF nn _ _ 2, of A] assms by (simp add: u32_max_def)
    finally show ?thesis .
  qed
qed

section \<open>Handing out the rest\<close>

definition count_of :: "(string, nat) bmap \<Rightarrow> string \<Rightarrow> nat" where
  "count_of m h = unwrap_or 0 (bm_get m h)"

lemma vals_counts: "bm_ok m \<Longrightarrow> bm_vals m = map (count_of m) (bm_keys m)"
proof -
  assume ok: "bm_ok m"
  have "count_of m (fst e) = snd e" if "e \<in> set m" for e
    using that bm_get_Some_iff [OF ok, of "fst e" "snd e"] by (simp add: count_of_def)
  then show ?thesis by (simp add: bm_vals_def bm_keys_def)
qed

lemma map_keys_distinct: "bm_ok m \<Longrightarrow> distinct (bm_keys m)"
  unfolding bm_ok_def bm_keys_def by (simp add: strict_sorted_iff)

lemma sum_counts: "bm_ok m \<Longrightarrow> sum_list (bm_vals m) = (\<Sum>h\<in>set (bm_keys m). count_of m h)"
  by (simp add: vals_counts sum_list_distinct_conv_sum_set map_keys_distinct)

lemma count_put: "count_of (bm_put k n m) h = (if h = k then n else count_of m h)"
  by (simp add: count_of_def bm_get_put)

lemma keys_put_old: "bm_ok m \<Longrightarrow> k \<in> set (bm_keys m) \<Longrightarrow> bm_keys (bm_put k n m) = bm_keys m"
  by (induction m) (force simp: bm_ok_def bm_keys_def)+

lemma sum_bump:
  assumes ok: "bm_ok m" and k: "k \<in> set (bm_keys m)"
  shows "sum_list (bm_vals (bm_put k (Suc (count_of m k)) m)) = Suc (sum_list (bm_vals m))"
proof -
  let ?K = "set (bm_keys m)"
  have "sum_list (bm_vals (bm_put k (Suc (count_of m k)) m))
      = (\<Sum>h\<in>?K. if h = k then Suc (count_of m k) else count_of m h)"
    using bm_ok_put [OF ok] by (simp add: sum_counts keys_put_old [OF ok k] count_put)
  also have "\<dots> = (\<Sum>h\<in>?K. count_of m h + (if h = k then 1 else 0))"
    by (intro sum.cong) auto
  also have "\<dots> = Suc (\<Sum>h\<in>?K. count_of m h)"
    using k by (simp add: sum.distrib)
  finally show ?thesis by (simp add: sum_counts ok)
qed

lemma f_of_nat_u32: "n \<le> u32_max \<Longrightarrow> f_of_nat n = Fin (of_nat n)"
  using f_of_nat_eq u32_le_53 by blast

lemma host_score_fin:
  assumes "headroom_ok (headroom h)" "n < cap h" "cap h \<le> u32_max"
  shows "is_fin (host_score headroom cap h n)"
proof -
  obtain q where q: "headroom h = Fin q" "0 \<le> q" "q \<le> 2 ^ 33"
    using headroom_okD [OF assms(1)] by blast
  have nn: "f_of_nat n = Fin (of_nat n)" "f_of_nat (cap h) = Fin (of_nat (cap h))"
    using assms f_of_nat_u32 by auto
  let ?r = "of_nat n / of_nat (cap h) :: rat"
  have r: "0 \<le> ?r" "?r \<le> 1" using assms(2) by (simp_all add: divide_simps)
  have "rnd ?r = Fin (rq ?r)" using r by (intro rnd_nonneg) (auto intro: order_trans)
  then have d: "fdiv (f_of_nat n) (f_of_nat (cap h)) = Fin (rq ?r)"
    using assms(2) by (auto simp: nn fdiv_def Let_def signed_zero_def)
  have rr: "0 \<le> rq ?r" "rq ?r \<le> 1" using rq_nonneg r rq_mono [OF r(2)] rq_int [of 1] by auto
  have "\<bar>q + - rq ?r\<bar> \<le> 2 ^ 60" using q rr by (simp add: abs_le_iff)
  then have "is_fin (rnd (q + - rq ?r))" using rnd_fin by blast
  then show ?thesis using q rr by (auto simp: host_score_def d q(1) fsub_def fadd_def)
qed

lemma best_host_Some:
  "best_host headroom cap m (b, s) hs = Some w \<Longrightarrow> b = Some w \<or> w \<in> set hs \<and> count_of m w < cap w"
  by (induction headroom cap m "(b, s)" hs arbitrary: b s rule: best_host.induct)
     (fastforce simp: Let_def count_of_def split: if_splits)+

lemma best_host_best: "best_host headroom cap m (Some w, s) hs \<noteq> None"
  by (induction hs arbitrary: w s) (auto simp: Let_def)

lemma pick_host_None:
  assumes "\<forall>h \<in> set elig. headroom_ok (headroom h) \<and> cap h \<le> u32_max"
  shows "pick_host headroom cap elig m = None \<longleftrightarrow> (\<forall>h \<in> set elig. cap h \<le> count_of m h)"
proof -
  have inf: "is_fin x \<Longrightarrow> flt (Inf True) x" for x by (cases x) auto
  have "best_host headroom cap m (None, Inf True) elig = None \<longleftrightarrow> (\<forall>h \<in> set elig. cap h \<le> count_of m h)"
    using assms by (induction elig)
      (auto simp: Let_def count_of_def best_host_best inf host_score_fin)
  then show ?thesis by (simp add: pick_host_def)
qed

lemma pick_host_Some:
  "pick_host headroom cap elig m = Some w \<Longrightarrow> w \<in> set elig \<and> count_of m w < cap w"
  using best_host_Some by (fastforce simp: pick_host_def)

lemma fill_frame:
  assumes "bm_ok m" "set elig \<subseteq> set (bm_keys m)"
  shows "bm_ok (fill headroom cap elig k m) \<and> bm_keys (fill headroom cap elig k m) = bm_keys m
    \<and> (\<forall>h. h \<notin> set elig \<longrightarrow> count_of (fill headroom cap elig k m) h = count_of m h)
    \<and> (\<forall>h. count_of m h \<le> cap h \<longrightarrow> count_of (fill headroom cap elig k m) h \<le> cap h)"
  using assms
proof (induction k arbitrary: m)
  case (Suc k)
  show ?case
  proof (cases "pick_host headroom cap elig m")
    case (Some w)
    let ?m = "bm_put w (Suc (count_of m w)) m"
    have w: "w \<in> set elig" "count_of m w < cap w" using pick_host_Some [OF Some] by auto
    have ok: "bm_ok ?m" "bm_keys ?m = bm_keys m"
      using Suc.prems w by (auto intro: bm_ok_put keys_put_old)
    show ?thesis using Suc.IH [OF ok(1)] Suc.prems w Some ok
      by (auto simp: count_put count_of_def [symmetric])
  qed (use Suc.prems in auto)
qed auto

lemma fill_sum:
  assumes "bm_ok m" "set elig \<subseteq> set (bm_keys m)"
    and "\<forall>h \<in> set elig. headroom_ok (headroom h) \<and> cap h \<le> u32_max"
  shows "sum_list (bm_vals (fill headroom cap elig k m)) = sum_list (bm_vals m) + k
    \<or> (\<forall>h \<in> set elig. cap h \<le> count_of (fill headroom cap elig k m) h)
       \<and> sum_list (bm_vals (fill headroom cap elig k m)) \<le> sum_list (bm_vals m) + k"
  using assms(1,2)
proof (induction k arbitrary: m)
  case (Suc k)
  show ?case
  proof (cases "pick_host headroom cap elig m")
    case None
    then show ?thesis using pick_host_None [OF assms(3), of m] by simp
  next
    case (Some w)
    let ?m = "bm_put w (Suc (count_of m w)) m"
    have w: "w \<in> set elig" using pick_host_Some [OF Some] by auto
    have ok: "bm_ok ?m" "bm_keys ?m = bm_keys m"
      using Suc.prems w by (auto intro: bm_ok_put keys_put_old)
    have "sum_list (bm_vals ?m) = Suc (sum_list (bm_vals m))"
      using sum_bump Suc.prems w by blast
    then show ?thesis using Suc.IH [OF ok(1)] Suc.prems Some ok
      by (simp add: count_of_def [symmetric])
  qed
qed auto

section \<open>The split\<close>

definition split_ok ::
  "nat \<Rightarrow> string list \<Rightarrow> (string \<Rightarrow> f64) \<Rightarrow> (string \<Rightarrow> nat) \<Rightarrow> string list \<Rightarrow> bool" where
  "split_ok target elig headroom cap hosts = (sorted_wrt (<) hosts \<and> set elig \<subseteq> set hosts
     \<and> distinct elig \<and> length elig \<le> 2 ^ 16 \<and> target \<le> u32_max
     \<and> (\<forall>h \<in> set elig. headroom_ok (headroom h) \<and> cap h \<le> u32_max))"

lemma bm_keys_collect: "set (bm_keys (bm_collect es)) = fst ` set es"
  by (auto simp: bm.keys_look bm_get_collect map_of_eq_None_iff)

lemma map_of_graph: "map_of (map (\<lambda>h. (h, f h)) hs) k = (if k \<in> set hs then Some (f k) else None)"
  by (induction hs) auto

lemma first_shares_props:
  fixes target elig headroom cap hosts
  defines "m \<equiv> first_shares target elig headroom cap hosts"
  shows "bm_ok m" "set (bm_keys m) = set hosts"
    "count_of m h = (if h \<in> set hosts \<and> h \<in> set elig
        then min (floor_share target (headroom_weight elig headroom h)) (cap h) else 0)"
proof -
  show "bm_ok m" "set (bm_keys m) = set hosts"
    unfolding m_def first_shares_def by (simp_all add: bm_keys_collect image_comp comp_def)
  show "count_of m h = (if h \<in> set hosts \<and> h \<in> set elig
        then min (floor_share target (headroom_weight elig headroom h)) (cap h) else 0)"
    unfolding m_def first_shares_def count_of_def bm_get_collect
    by (simp only: rev_map map_of_graph) (simp add: rev_map [symmetric] map_of_graph)
qed

lemma first_shares_sum:
  assumes "split_ok target elig headroom cap hosts"
  shows "sum_list (bm_vals (first_shares target elig headroom cap hosts)) \<le> target"
proof -
  let ?m = "first_shares target elig headroom cap hosts"
  note a = assms [unfolded split_ok_def]
  have "sum_list (bm_vals ?m) = (\<Sum>h\<in>set hosts. count_of ?m h)"
    by (simp add: sum_counts first_shares_props)
  also have "\<dots> = (\<Sum>h\<in>set elig. count_of ?m h)"
    using a by (intro sum.mono_neutral_right) (auto simp: first_shares_props)
  also have "\<dots> \<le> (\<Sum>h\<in>set elig. floor_share target (headroom_weight elig headroom h))"
    by (intro sum_mono) (simp add: first_shares_props)
  also have "\<dots> = (\<Sum>h\<leftarrow>elig. floor_share target (headroom_weight elig headroom h))"
    using a by (simp add: sum_list_distinct_conv_sum_set)
  also have "\<dots> \<le> target" using a by (intro shares_sum_le) auto
  finally show ?thesis .
qed

lemma distribute_frame:
  assumes "split_ok target elig headroom cap hosts"
  defines "m \<equiv> distribute target elig headroom cap hosts"
  shows "bm_ok m" "set (bm_keys m) = set hosts"
    "h \<notin> set elig \<Longrightarrow> count_of m h = 0" "h \<in> set elig \<Longrightarrow> count_of m h \<le> cap h"
proof -
  note a = assms(1) [unfolded split_ok_def]
  let ?s = "first_shares target elig headroom cap hosts"
  note f = fill_frame [of ?s elig headroom cap "target - wrap32 (sum_list (bm_vals ?s))"]
  show "bm_ok m" "set (bm_keys m) = set hosts"
    "h \<notin> set elig \<Longrightarrow> count_of m h = 0" "h \<in> set elig \<Longrightarrow> count_of m h \<le> cap h"
    using f a by (auto simp: m_def distribute_def Let_def first_shares_props)
qed

lemma distribute_total:
  assumes "split_ok target elig headroom cap hosts"
  shows "sum_list (bm_vals (distribute target elig headroom cap hosts))
     = min target (\<Sum>h\<leftarrow>elig. cap h)"
proof -
  note a = assms [unfolded split_ok_def]
  let ?s = "first_shares target elig headroom cap hosts"
  let ?m = "distribute target elig headroom cap hosts"
  have s: "sum_list (bm_vals ?s) \<le> target" by (rule first_shares_sum [OF assms])
  have w: "wrap32 (sum_list (bm_vals ?s)) = sum_list (bm_vals ?s)" using s a by simp
  have alt: "sum_list (bm_vals ?m) = target
     \<or> (\<forall>h \<in> set elig. cap h \<le> count_of ?m h) \<and> sum_list (bm_vals ?m) \<le> target"
    using fill_sum [of ?s elig headroom cap "target - sum_list (bm_vals ?s)"] s a
    by (simp add: distribute_def Let_def w first_shares_props)
  have sum: "sum_list (bm_vals ?m) = (\<Sum>h\<in>set elig. count_of ?m h)"
  proof -
    have "sum_list (bm_vals ?m) = (\<Sum>h\<in>set hosts. count_of ?m h)"
      by (simp add: sum_counts distribute_frame [OF assms])
    also have "\<dots> = (\<Sum>h\<in>set elig. count_of ?m h)"
      using a by (intro sum.mono_neutral_right) (auto simp: distribute_frame [OF assms])
    finally show ?thesis .
  qed
  have caps: "(\<Sum>h\<leftarrow>elig. cap h) = (\<Sum>h\<in>set elig. cap h)"
    using a by (simp add: sum_list_distinct_conv_sum_set)
  have le: "sum_list (bm_vals ?m) \<le> (\<Sum>h\<leftarrow>elig. cap h)"
    unfolding sum caps by (intro sum_mono) (simp add: distribute_frame [OF assms])
  from alt show ?thesis
  proof
    assume "sum_list (bm_vals ?m) = target"
    with le show ?thesis by simp
  next
    assume full: "(\<forall>h \<in> set elig. cap h \<le> count_of ?m h) \<and> sum_list (bm_vals ?m) \<le> target"
    then have "(\<Sum>h\<leftarrow>elig. cap h) \<le> sum_list (bm_vals ?m)"
      unfolding sum caps by (intro sum_mono) simp
    with full le show ?thesis by simp
  qed
qed

section \<open>Headrooms of a host\<close>

lemma clamp01_bounds: "x \<noteq> NaN \<Longrightarrow> f64_repr x \<Longrightarrow> flt (Fin 0) (clamp01 x) \<Longrightarrow> headroom_ok (clamp01 x)"
  using rq_int [of 1] by (cases x) (auto simp: clamp01_def headroom_ok_def f64_repr_def split: if_splits)

lemma rnd_repr: "f64_repr (rnd q)"
  by (auto simp: rnd_def Let_def f64_repr_def rq_idem)

lemma fdiv_repr: "f64_repr (fdiv x y)"
  by (auto simp: fdiv_def Let_def signed_zero_def rnd_repr)
     (auto simp: f64_repr_def f64_huge_def)

lemma fmin_repr: "f64_repr x \<Longrightarrow> f64_repr y \<Longrightarrow> f64_repr (fmin x y)"
  by (simp add: fmin_def)

lemma host_headroom_ok:
  assumes "\<forall>hid r. bm_get resources hid = Some r \<longrightarrow> f64_repr (rs_cpu_available r)"
    and "flt (Fin 0) (snd (host_headroom ch cfg resources now hid h))"
  shows "headroom_ok (snd (host_headroom ch cfg resources now hid h))"
proof (cases "hc_resource_source h")
  case None
  then show ?thesis using rq_int [of 1] by (simp add: host_headroom_def headroom_ok_def)
next
  case (Some src)
  have m: "f64_repr (mem_fraction r n)" for r n
    by (simp add: mem_fraction_def fdiv_repr) (simp add: f64_repr_def f64_huge_def)
  have nan: "flt (Fin 0) (clamp01 x) \<Longrightarrow> x \<noteq> NaN" for x by (auto simp: clamp01_def)
  from Some assms show ?thesis
    by (auto simp: host_headroom_def resource_headroom_def split: option.splits if_splits
        intro!: clamp01_bounds fmin_repr m dest: nan)
qed

text \<open>Memory at or below the reserve leaves no positive fraction.\<close>

lemma rnd_nonpos: "q \<le> 0 \<Longrightarrow> \<not> flt (Fin 0) (rnd q)"
proof -
  assume q: "q \<le> 0"
  then have "rq q \<le> 0" using rq_mono [of q 0] by simp
  then show ?thesis using q by (auto simp: rnd_def Let_def f64_huge_def)
qed

lemma rnd_nonpos_cases: "q \<le> 0 \<Longrightarrow> rnd q = Inf True \<or> rnd q = NZero \<or> (\<exists>p \<le> 0. rnd q = Fin p)"
  using rnd_nonpos [of q] by (cases "rnd q") (auto simp: rnd_def Let_def f64_huge_def split: if_splits)

lemma f_of_nat_u64: "n \<le> u64_max \<Longrightarrow> f_of_nat n = Fin (rq (of_nat n)) \<and> 0 \<le> rq (of_nat n :: rat)"
proof -
  assume "n \<le> u64_max"
  then have "(of_nat n :: rat) \<le> of_nat (2 ^ 64)" by (intro of_nat_mono) (simp add: u64_max_def)
  then have n: "(of_nat n :: rat) \<le> 2 ^ 64" by simp
  have "rq (of_nat n) \<le> rq (2 powi 64)" using n by (intro rq_mono) simp
  also have "\<dots> = 2 powi 64" using emin_le by (intro rq_powi) linarith
  also have "\<dots> < f64_huge" by (simp add: f64_huge_def)
  finally show ?thesis using rq_nonneg [of "of_nat n"]
    by (auto simp: f_of_nat_def f_of_int_def rnd_def Let_def)
qed

lemma fdiv_nonpos: "x = NZero \<or> x = Inf True \<or> (\<exists>p \<le> 0. x = Fin p) \<Longrightarrow> 0 < q \<Longrightarrow>
    \<not> flt (Fin 0) (fdiv x (Fin q)) \<and> fdiv x (Fin q) \<noteq> NaN"
proof -
  assume x: "x = NZero \<or> x = Inf True \<or> (\<exists>p \<le> 0. x = Fin p)" and q: "0 < q"
  have "rnd (p / q) \<noteq> NaN" for p by (simp add: rnd_def Let_def)
  moreover have "p \<le> 0 \<Longrightarrow> \<not> flt (Fin 0) (rnd (p / q))" for p
    using q by (intro rnd_nonpos) (simp add: divide_le_0_iff)
  ultimately show ?thesis using x q by (auto simp: fdiv_def Let_def signed_zero_def)
qed

lemma rq_total_pos: "0 < n \<Longrightarrow> 0 < rq (of_nat n)"
proof -
  assume "0 < n"
  then have "(of_nat 1 :: rat) \<le> of_nat n" by (intro of_nat_mono) simp
  then have "rq 1 \<le> rq (of_nat n)" by (intro rq_mono) simp
  then show ?thesis using rq_int [of 1] by simp
qed

lemma mem_fraction_nonpos:
  assumes "rs_mem_total_mb r = 0 \<or> rs_mem_available_mb r \<le> reserve"
    and "rs_mem_total_mb r \<le> u64_max" "reserve \<le> u64_max"
  shows "\<not> flt (Fin 0) (mem_fraction r reserve) \<and> mem_fraction r reserve \<noteq> NaN"
proof (cases "rs_mem_total_mb r = 0")
  case False
  with assms have le: "rs_mem_available_mb r \<le> reserve" by simp
  let ?a = "rq (of_nat (rs_mem_available_mb r))" and ?m = "rq (of_nat reserve)"
  let ?d = "fadd (Fin ?a) (fopp (Fin ?m))"
  have "?a \<le> ?m" using le by (intro rq_mono) simp
  then have "?a + - ?m \<le> 0" by simp
  then have "?d = NZero \<or> ?d = Inf True \<or> (\<exists>p \<le> 0. ?d = Fin p)"
    using rnd_nonpos_cases [of "?a + - ?m"] rnd_nonpos_cases [of ?a] by (auto simp: fadd_def)
  from fdiv_nonpos [OF this rq_total_pos [of "rs_mem_total_mb r"]] show ?thesis
    using f_of_nat_u64 [OF assms(2)] f_of_nat_u64 [OF assms(3)] f_of_nat_u64 [OF le_trans [OF le assms(3)]] False
    by (simp add: mem_fraction_def fsub_def)
qed (simp add: mem_fraction_def)

lemma clamp01_min_nonpos:
  "\<not> flt (Fin 0) y \<and> y \<noteq> NaN \<or> fle x (Fin 0) \<Longrightarrow> \<not> flt (Fin 0) (clamp01 (fmin x y))"
  by (cases x; cases y) (auto simp: clamp01_def fmin_def split: if_splits)

section \<open>Placement\<close>

lemma limited_le_current: "n \<le> hv_current v \<Longrightarrow> limited v n \<le> hv_current v"
  by (simp add: limited_def place_step_limit_def Let_def sat_sub_def)

lemma limited_grows: "hv_current v < limited v n \<Longrightarrow> limited v n \<le> n"
  by (auto simp: limited_def place_step_limit_def Let_def sat_sub_def split: if_splits)

lemma limited_rise: "limited v n \<le> hv_current v + hv_up v"
  using host_steps.limit_rise by (simp add: limited_def)

lemma map_of_rev_distinct: "distinct (map fst xs) \<Longrightarrow> map_of (rev xs) = map_of xs"
  by (rule map_of_inject_set [THEN iffD2]) (simp_all add: rev_map [symmetric])

definition ineligible_target :: "nat \<Rightarrow> (string, host_view) bmap \<Rightarrow> host_view \<Rightarrow> nat" where
  "ineligible_target t views v =
     limited v (if sat_sum (map hv_current (bm_vals views)) \<le> t then hv_current v else 0)"

lemma ineligible_target_le: "ineligible_target t views v \<le> hv_current v"
  by (simp add: ineligible_target_def limited_le_current)

lemma ineligible_targets_eq: "ineligible_targets t views =
    map (\<lambda>e. (fst e, ineligible_target t views (snd e))) (filter (\<lambda>e. \<not> hv_eligible (snd e)) views)"
  by (simp add: ineligible_targets_def ineligible_target_def Let_def case_prod_unfold)

lemma map_of_filter_map: "distinct (map fst xs) \<Longrightarrow>
    map_of (map (\<lambda>e. (fst e, f (snd e))) (filter (\<lambda>e. p (snd e)) xs)) k =
      (case map_of xs k of None \<Rightarrow> None | Some v \<Rightarrow> if p v then Some (f v) else None)"
proof (induction xs)
  case (Cons e xs)
  have "map_of xs (fst e) = None" using Cons.prems by (simp add: map_of_eq_None_iff)
  then show ?case using Cons by (auto split: option.splits)
qed simp

lemma get_ineligible:
  assumes "bm_ok views" "bm_get views hid = Some v"
  shows "map_of (rev (ineligible_targets t views)) hid =
    (if hv_eligible v then None else Some (ineligible_target t views v))"
proof -
  have d: "distinct (map fst views)" using map_keys_distinct assms(1) by (simp add: bm_keys_def)
  have "distinct (map fst (ineligible_targets t views))"
    using d by (simp add: ineligible_targets_eq comp_def distinct_map_filter)
  then have "map_of (rev (ineligible_targets t views)) hid = map_of (ineligible_targets t views) hid"
    by (simp add: map_of_rev_distinct)
  also have "\<dots> = (if hv_eligible v then None else Some (ineligible_target t views v))"
    using map_of_filter_map [OF d, of "ineligible_target t views" "\<lambda>v. \<not> hv_eligible v" hid]
      assms(2) [unfolded bm_get_def]
    unfolding ineligible_targets_eq by (simp only: option.case if_not_P not_not) simp
  finally show ?thesis .
qed

definition eligible_hosts :: "(string, host_view) bmap \<Rightarrow> string list" where
  "eligible_hosts views = map fst (filter (\<lambda>e. hv_eligible (snd e)) views)"

lemma eligible_hosts_iff: "bm_ok views \<Longrightarrow> bm_get views hid = Some v \<Longrightarrow>
    hid \<in> set (eligible_hosts views) \<longleftrightarrow> hv_eligible v"
proof -
  assume ok: "bm_ok views" and v: "bm_get views hid = Some v"
  have "hid \<in> set (eligible_hosts views) \<longleftrightarrow> (\<exists>w. (hid, w) \<in> set views \<and> hv_eligible w)"
    unfolding eligible_hosts_def by force
  then show ?thesis using bm_get_Some_iff [OF ok, of hid] v by (metis option.inject)
qed

text \<open>The share of a host in the distribution.\<close>

definition shared_out :: "nat \<Rightarrow> (string, host_view) bmap \<Rightarrow> (string, nat) bmap" where
  "shared_out t views = distribute (sat_sub t (sat_sum (bm_vals (ineligible_targets t views))))
     (eligible_hosts views) (\<lambda>hid. hv_headroom (view_of views hid))
     (\<lambda>hid. hv_ceiling (view_of views hid)) (bm_keys views)"

lemma raw_targets_eq: "raw_targets t views =
    (if eligible_hosts views = [] then bm_map hv_current views
     else foldl (\<lambda>m e. bm_put (fst e) (snd e) m) (shared_out t views) (ineligible_targets t views))"
  by (simp add: raw_targets_def eligible_hosts_def shared_out_def Let_def case_prod_unfold)

lemma raw_target_of:
  assumes "bm_ok views" "bm_get views hid = Some v"
  shows "unwrap_or 0 (bm_get (raw_targets t views) hid) =
    (if eligible_hosts views = [] then hv_current v
     else if hv_eligible v then count_of (shared_out t views) hid
     else ineligible_target t views v)"
  using assms get_ineligible [OF assms, of t]
  by (simp add: raw_targets_eq bm.look_foldl_put count_of_def split: option.splits)

lemma ineligible_never_grows:
  assumes "bm_ok views" "bm_get views hid = Some v" "\<not> hv_eligible v"
  shows "limited v (unwrap_or 0 (bm_get (raw_targets t views) hid)) \<le> hv_current v"
  using assms by (simp add: raw_target_of limited_le_current ineligible_target_le)

lemma frozen_host_keeps:
  assumes "bm_ok views" "bm_get views hid = Some v" "\<not> hv_eligible v"
    and "sat_sum (map hv_current (bm_vals views)) \<le> t"
  shows "limited v (unwrap_or 0 (bm_get (raw_targets t views) hid)) = min (hv_current v) (hv_ceiling v)"
proof -
  have "limited v (hv_current v) = min (hv_current v) (hv_ceiling v)"
    by (auto simp: limited_def place_step_limit_def Let_def sat_sub_def)
  moreover have "limited v (min (hv_current v) (hv_ceiling v)) = min (hv_current v) (hv_ceiling v)"
    by (auto simp: limited_def place_step_limit_def Let_def sat_sub_def)
  ultimately show ?thesis using assms by (simp add: raw_target_of ineligible_target_def)
qed

lemma distinct_map_fst_filter: "distinct (map fst xs) \<Longrightarrow> distinct (map fst (filter p xs))"
  by (induction xs) auto

text \<open>What the values of a placement satisfy: 32-bit counts and binary64 fractions.\<close>

definition views_ok :: "nat \<Rightarrow> (string, host_view) bmap \<Rightarrow> bool" where
  "views_ok t views = (bm_ok views \<and> length views \<le> 2 ^ 16 \<and> t \<le> u32_max
     \<and> (\<forall>hid v. bm_get views hid = Some v \<longrightarrow> hv_ceiling v \<le> u32_max
          \<and> (hv_eligible v \<longrightarrow> headroom_ok (hv_headroom v))))"

lemma eligible_has_view:
  assumes "views_ok t views" "hid \<in> set (eligible_hosts views)"
  obtains v where "bm_get views hid = Some v" "hv_eligible v" "view_of views hid = v"
proof -
  have ok: "bm_ok views" using assms(1) by (simp add: views_ok_def)
  obtain v where "(hid, v) \<in> set views" "hv_eligible v"
    using assms(2) by (auto simp: eligible_hosts_def)
  then show thesis using that [of v] bm_get_Some_iff [OF ok, of hid v] by (simp add: view_of_def)
qed

lemma shared_out_split_ok:
  assumes "views_ok t views"
  shows "split_ok (sat_sub t (sat_sum (bm_vals (ineligible_targets t views))))
     (eligible_hosts views) (\<lambda>hid. hv_headroom (view_of views hid))
     (\<lambda>hid. hv_ceiling (view_of views hid)) (bm_keys views)"
proof -
  have ok: "bm_ok views" and len: "length views \<le> 2 ^ 16" and t: "t \<le> u32_max"
    and all: "\<forall>hid v. bm_get views hid = Some v \<longrightarrow> hv_ceiling v \<le> u32_max
          \<and> (hv_eligible v \<longrightarrow> headroom_ok (hv_headroom v))"
    using assms by (auto simp: views_ok_def)
  have "headroom_ok (hv_headroom (view_of views h)) \<and> hv_ceiling (view_of views h) \<le> u32_max"
    if "h \<in> set (eligible_hosts views)" for h
    using eligible_has_view [OF assms that] all by metis
  moreover have "distinct (eligible_hosts views)"
    using map_keys_distinct [OF ok] by (simp add: eligible_hosts_def bm_keys_def distinct_map_fst_filter)
  moreover have "length (eligible_hosts views) \<le> 2 ^ 16"
    using le_trans [OF length_filter_le len] by (simp add: eligible_hosts_def)
  moreover have "sat_sub t n \<le> u32_max" for n using t by (simp add: sat_sub_def)
  moreover have "set (eligible_hosts views) \<subseteq> set (bm_keys views)"
    by (auto simp: eligible_hosts_def bm_keys_def)
  ultimately show ?thesis using ok by (simp add: split_ok_def bm_ok_def bm_keys_def)
qed

lemma shared_out_sum:
  "views_ok t views \<Longrightarrow> (\<Sum>hid\<in>set (bm_keys views). count_of (shared_out t views) hid) \<le> t"
proof -
  assume v: "views_ok t views"
  note so = shared_out_split_ok [OF v]
  have "(\<Sum>hid\<in>set (bm_keys views). count_of (shared_out t views) hid) = sum_list (bm_vals (shared_out t views))"
    unfolding shared_out_def using distribute_frame(1,2) [OF so] by (simp add: sum_counts)
  also have "\<dots> \<le> t" unfolding shared_out_def distribute_total [OF so] by (simp add: sat_sub_def)
  finally show ?thesis .
qed

lemma growth_bounded:
  assumes "views_ok t views"
  defines "final \<equiv> \<lambda>e. limited (snd e) (unwrap_or 0 (bm_get (raw_targets t views) (fst e)))"
  shows "(\<Sum>e\<leftarrow>filter (\<lambda>e. hv_current (snd e) < final e) views. final e) \<le> t"
proof -
  have ok: "bm_ok views" using assms by (simp add: views_ok_def)
  let ?g = "filter (\<lambda>e. hv_current (snd e) < final e) views"
  let ?c = "\<lambda>e. count_of (shared_out t views) (fst e)"
  have le: "final e \<le> ?c e" if "e \<in> set ?g" for e
  proof -
    have e: "bm_get views (fst e) = Some (snd e)" "hv_current (snd e) < final e"
      using that bm_get_Some_iff [OF ok, of "fst e" "snd e"] by auto
    have el: "hv_eligible (snd e)"
      using ineligible_never_grows [OF ok e(1), of t] e(2) unfolding final_def by linarith
    then have "eligible_hosts views \<noteq> []" using eligible_hosts_iff [OF ok e(1)] by force
    then show ?thesis using limited_grows e(2) el raw_target_of [OF ok e(1), of t]
      unfolding final_def by fastforce
  qed
  have "(\<Sum>e\<leftarrow>?g. final e) \<le> (\<Sum>e\<leftarrow>?g. ?c e)" using le by (rule sum_list_mono)
  also have "\<dots> \<le> (\<Sum>e\<leftarrow>views. ?c e)" by (rule sum_list_filter_le_nat)
  also have "\<dots> = (\<Sum>hid\<leftarrow>bm_keys views. count_of (shared_out t views) hid)"
    by (simp add: bm_keys_def comp_def)
  also have "\<dots> = (\<Sum>hid\<in>set (bm_keys views). count_of (shared_out t views) hid)"
    using map_keys_distinct [OF ok] by (simp add: sum_list_distinct_conv_sum_set)
  also have "\<dots> \<le> t" by (rule shared_out_sum [OF assms(1)])
  finally show ?thesis .
qed

section \<open>The result of placement\<close>

definition host_views ::
  "chrono \<Rightarrow> account_config \<Rightarrow> (string, nat) bmap \<Rightarrow> (string, resource_snapshot) bmap \<Rightarrow> datetime
     \<Rightarrow> (string, host_config) bmap \<Rightarrow> (string, host_view) bmap" where
  "host_views ch cfg current resources now hosts =
     map (\<lambda>(hid, h). (hid, view_host ch cfg current resources now hid h)) hosts"

lemma place_Inr:
  assumes "place ch name t cfg current resources now = Inr ps"
  obtains hosts where "fl_hosts (ac_fleet cfg) = Some hosts" "hosts \<noteq> []"
    "ps = map (\<lambda>(hid, v). place_host (raw_targets t (host_views ch cfg current resources now hosts)) hid v)
            (host_views ch cfg current resources now hosts)"
  using assms that unfolding place_def host_views_def
  by (cases "fl_hosts (ac_fleet cfg)") (auto simp: Let_def split: if_splits)

lemma host_views_keys: "map fst (host_views ch cfg current resources now hosts) = map fst hosts"
  by (simp add: host_views_def case_prod_unfold comp_def)

text \<open>A configuration and observations as they come from validation and from 32-bit counters.\<close>

definition placeable :: "account_config \<Rightarrow> (string, resource_snapshot) bmap \<Rightarrow> nat \<Rightarrow> bool" where
  "placeable cfg resources t = (t \<le> u32_max
     \<and> (\<forall>hid r. bm_get resources hid = Some r \<longrightarrow> f64_repr (rs_cpu_available r))
     \<and> (case fl_hosts (ac_fleet cfg) of None \<Rightarrow> True
        | Some hosts \<Rightarrow> bm_ok hosts \<and> length hosts \<le> 2 ^ 16
            \<and> (\<forall>e \<in> set hosts. host_ceiling (ac_fleet cfg) (snd e) \<le> u32_max)))"

text \<open>A host that cannot be seen to have room is not eligible.\<close>

lemma blind_view:
  assumes "hc_resource_source h \<noteq> None"
    and "reserve = (case hc_resource_reserve h of None \<Rightarrow> 0 | Some rr \<Rightarrow> rr_mem_reserve_mb rr)"
    and "reserve \<le> u64_max"
    and "case bm_get resources hid of None \<Rightarrow> True
      | Some r \<Rightarrow> rs_mem_total_mb r \<le> u64_max
          \<and> (\<not> rs_fresh r \<or> int (ut_stale_after (ac_util cfg)) < num_seconds ch (now - rs_observed_at r)
             \<or> fle (rs_cpu_available r) (Fin 0) \<or> rs_mem_total_mb r = 0 \<or> rs_mem_available_mb r \<le> reserve)"
  shows "\<not> hv_eligible (view_host ch cfg current resources now hid h)"
proof (cases "bm_get resources hid")
  case None
  then show ?thesis using assms(1)
    by (auto simp: hv_eligible_def view_host_def host_headroom_def resource_headroom_def split: option.splits)
next
  case (Some r)
  have res: "unwrap_or 0 (map_option rr_mem_reserve_mb (hc_resource_reserve h)) = reserve"
    by (simp add: assms(2) split: option.splits)
  have h: "host_headroom ch cfg resources now hid h
      = resource_headroom ch (Some r) reserve (ut_stale_after (ac_util cfg)) now"
    using assms(1) Some by (auto simp: host_headroom_def res split: option.splits)
  from assms(4) Some consider "\<not> rs_fresh r"
    | "int (ut_stale_after (ac_util cfg)) < num_seconds ch (now - rs_observed_at r)"
    | "fle (rs_cpu_available r) (Fin 0)" | "rs_mem_total_mb r = 0 \<or> rs_mem_available_mb r \<le> reserve" by auto
  then show ?thesis
  proof cases
    case 4
    with assms(3,4) Some have "\<not> flt (Fin 0) (mem_fraction r reserve) \<and> mem_fraction r reserve \<noteq> NaN"
      by (intro mem_fraction_nonpos) auto
    from clamp01_min_nonpos [OF disjI1, OF this] show ?thesis
      by (auto simp: hv_eligible_def view_host_def h resource_headroom_def)
  next
    case 3
    from clamp01_min_nonpos [OF disjI2, OF this] show ?thesis
      by (auto simp: hv_eligible_def view_host_def h resource_headroom_def)
  qed (auto simp: hv_eligible_def view_host_def h resource_headroom_def age_seconds_def max0_as_u64_def)
qed

lemma placeable_views:
  assumes "placeable cfg resources t" "fl_hosts (ac_fleet cfg) = Some hosts"
  shows "views_ok t (host_views ch cfg current resources now hosts)"
proof -
  let ?v = "host_views ch cfg current resources now hosts"
  have ok: "bm_ok ?v" using assms by (simp add: placeable_def bm_ok_def host_views_keys)
  have "hv_ceiling v \<le> u32_max \<and> (hv_eligible v \<longrightarrow> headroom_ok (hv_headroom v))"
    if get: "bm_get ?v hid = Some v" for hid v
  proof -
    obtain h where h: "(hid, h) \<in> set hosts" "v = view_host ch cfg current resources now hid h"
      using bm_get_in [OF get] by (auto simp: host_views_def)
    show ?thesis using assms h host_headroom_ok [of resources ch cfg now hid h]
      by (auto simp: placeable_def view_host_def hv_eligible_def)
  qed
  then show ?thesis using ok assms by (simp add: views_ok_def placeable_def host_views_def)
qed

lemma place_growth:
  assumes "placeable cfg resources t" "place ch name t cfg current resources now = Inr ps"
  shows "(\<Sum>p\<leftarrow>filter (\<lambda>p. hp_current p < hp_target p) ps. hp_target p) \<le> t"
proof -
  obtain hosts where h: "fl_hosts (ac_fleet cfg) = Some hosts"
    and ps: "ps = map (\<lambda>(hid, v). place_host (raw_targets t (host_views ch cfg current resources now hosts)) hid v)
            (host_views ch cfg current resources now hosts)"
    using place_Inr [OF assms(2)] by metis
  show ?thesis using growth_bounded [OF placeable_views [OF assms(1) h, of ch current now]]
    by (simp add: ps filter_map comp_def case_prod_unfold place_host_def)
qed

lemma place_member:
  assumes "placeable cfg resources t" "place ch name t cfg current resources now = Inr ps" "p \<in> set ps"
  obtains hid v views where "views_ok t views" "bm_get views hid = Some v"
    "p = place_host (raw_targets t views) hid v"
    "map hv_current (bm_vals views) = map hp_current ps"
proof -
  obtain hosts where h: "fl_hosts (ac_fleet cfg) = Some hosts"
    and ps: "ps = map (\<lambda>(hid, v). place_host (raw_targets t (host_views ch cfg current resources now hosts)) hid v)
            (host_views ch cfg current resources now hosts)"
    using place_Inr [OF assms(2)] by metis
  let ?v = "host_views ch cfg current resources now hosts"
  have vo: "views_ok t ?v" by (rule placeable_views [OF assms(1) h])
  then have ok: "bm_ok ?v" by (simp add: views_ok_def)
  from assms(3) obtain hid v where hv: "(hid, v) \<in> set ?v" "p = place_host (raw_targets t ?v) hid v"
    by (auto simp: ps)
  moreover have "map hv_current (bm_vals ?v) = map hp_current ps"
    by (simp add: ps bm_vals_def place_host_def case_prod_unfold comp_def)
  ultimately show thesis using that vo bm_get_Some_iff [OF ok] by metis
qed

end
