(* ===== verification/Controller_Laws.thy ===== *)
theory Controller_Laws
  imports Controller Steps
begin

text \<open>
  The laws of the quota decision: the account limiter meets the step contract, a window's count lies
  in the fleet's range, a decision takes the smallest one, and what the bounds around it guarantee.
\<close>

section \<open>The account limiter\<close>

definition fleet_ok :: "fleet_config \<Rightarrow> bool" where
  "fleet_ok f = (fl_min_workers f \<le> fl_max_workers f \<and> fl_max_workers f \<le> u32_max)"

text \<open>The limiter where it does not panic.\<close>

definition account_step :: "fleet_config \<Rightarrow> nat \<Rightarrow> nat \<Rightarrow> nat" where
  "account_step f d c = (case apply_step_limits d c f of Inr n \<Rightarrow> n | Inl _ \<Rightarrow> c)"

lemma apply_step_limits_ok:
  "fl_min_workers f \<le> fl_max_workers f \<Longrightarrow> apply_step_limits d c f = Inr (account_step f d c)"
  by (simp add: account_step_def apply_step_limits_def clamp_u32_ok Let_def)

text \<open>A fleet whose bounds have been ordered, so that the limiter is total.\<close>

definition ordered_fleet :: "fleet_config \<Rightarrow> fleet_config" where
  "ordered_fleet f = f\<lparr> fl_min_workers := min (fl_min_workers f) (fl_max_workers f) \<rparr>"

lemma ordered_fleet_id: "fl_min_workers f \<le> fl_max_workers f \<Longrightarrow> ordered_fleet f = f"
  by (simp add: ordered_fleet_def)

lemma step_arith:
  fixes lo b hi c s u dn :: nat
  assumes "lo \<le> b" "b \<le> hi" "s \<le> c + u"
  shows "max lo (min (if c < b then min b s else max b (c - dn)) hi) \<le> max lo (c + u)"
    "c \<le> s \<Longrightarrow> min hi (c - dn) \<le> max lo (min (if c < b then min b s else max b (c - dn)) hi)"
  using assms by (auto simp: min_def max_def)

interpretation account_steps: step_limiter "account_step (ordered_fleet f)"
    "fl_min_workers (ordered_fleet f)" "fl_max_workers (ordered_fleet f)"
    "fl_max_up (ordered_fleet f)" "fl_max_down (ordered_fleet f)" for f
proof
  let ?g = "ordered_fleet f"
  let ?lo = "fl_min_workers ?g" and ?hi = "fl_max_workers ?g"
  have o: "?lo \<le> ?hi" by (simp add: ordered_fleet_def)
  then show "?lo \<le> ?hi" .
  have eq: "account_step ?g d c = max ?lo (min (if c < clamped ?lo ?hi d
      then min (clamped ?lo ?hi d) (sat_add c (fl_max_up ?g))
      else max (clamped ?lo ?hi d) (c - fl_max_down ?g)) ?hi)" for d c
    by (simp add: account_step_def apply_step_limits_def clamp_u32_ok o clamped_def sat_sub_def Let_def)
  fix d c
  note b = clamped_bounds [OF o, of d] and s = sat_add_le(2) [of c "fl_max_up ?g"]
  show "?lo \<le> account_step ?g d c \<and> account_step ?g d c \<le> ?hi" using o by (simp add: eq)
  show "account_step ?g d c \<le> max ?lo (c + fl_max_up ?g)"
    unfolding eq by (rule step_arith) (use b s in auto)
  show "min ?hi (c - fl_max_down ?g) \<le> account_step ?g d c" if "c \<le> u32_max"
    unfolding eq by (rule step_arith(2) [where u = "fl_max_up ?g"]) (use b s sat_add_ge [OF that] in auto)
  show "account_step ?g d c = (if c < clamped ?lo ?hi d then min (clamped ?lo ?hi d) (sat_add c (fl_max_up ?g))
      else max (clamped ?lo ?hi d) (c - fl_max_down ?g))" if "c \<le> u32_max" "?lo \<le> c" "c \<le> ?hi"
  proof (cases "c < clamped ?lo ?hi d")
    case True
    have "?lo \<le> sat_add c (fl_max_up ?g)" using sat_add_ge [OF that(1)] that(2) by (rule le_trans [rotated])
    then show ?thesis using True b that by (simp add: eq)
  next
    case False
    then show ?thesis using b that by (auto simp: eq)
  qed
qed

lemma step_inside:
  "fl_min_workers f \<le> fl_max_workers f \<Longrightarrow>
     fl_min_workers f \<le> account_step f d c \<and> account_step f d c \<le> fl_max_workers f"
  using account_steps.limit_inside [of f d c] by (simp add: ordered_fleet_id)

lemma step_rise:
  "fl_min_workers f \<le> fl_max_workers f \<Longrightarrow> account_step f d c \<le> max (fl_min_workers f) (c + fl_max_up f)"
  using account_steps.limit_rise [of f d c] by (simp add: ordered_fleet_id)

lemma step_fall:
  "fl_min_workers f \<le> fl_max_workers f \<Longrightarrow> c \<le> u32_max \<Longrightarrow>
     min (fl_max_workers f) (c - fl_max_down f) \<le> account_step f d c"
  using account_steps.limit_fall [of c f d] by (simp add: ordered_fleet_id)

lemma step_down_only: "fl_min_workers f \<le> fl_max_workers f \<Longrightarrow> d \<le> c \<Longrightarrow>
    account_step f d c \<le> max (fl_min_workers f) c"
  by (auto simp: account_step_def apply_step_limits_def clamp_u32_ok Let_def sat_sub_def min_def max_def)

section \<open>Windows\<close>

lemma clamp_u32_Inr: "clamp_u32 x lo hi = Inr n \<Longrightarrow> lo \<le> n \<and> n \<le> hi"
  by (auto simp: clamp_u32_def split: if_splits)

text \<open>Every window decision comes from a window, with a count in the fleet's range.\<close>

definition decides :: "account_config \<Rightarrow> quota_window list \<Rightarrow> window_decision \<Rightarrow> bool" where
  "decides cfg ws d = (\<exists>w \<in> set ws. wd_id d = qw_id w \<and> wd_used_fraction d = qw_used_fraction w
     \<and> wd_resets_at d = qw_resets_at w
     \<and> fl_min_workers (ac_fleet cfg) \<le> wd_desired d \<and> wd_desired d \<le> fl_max_workers (ac_fleet cfg))"

lemma evaluate_windows_decides:
  "evaluate_windows ch cfg sn prior current now banked ws = Inr ds \<Longrightarrow> d \<in> set ds \<Longrightarrow> decides cfg ws d"
proof (induction ws arbitrary: ds)
  case (Cons w ws)
  have mono: "decides cfg ws x \<Longrightarrow> decides cfg (w # ws) x" for x by (auto simp: decides_def)
  obtain p where p: "policy_for (ac_util cfg) (qw_id w) = Inr p"
    using Cons.prems(1) by (auto simp: bind_res_Inr_iff)
  show ?case
  proof (cases p)
    case None
    then show ?thesis using Cons p mono by (simp add: bind_res_Inr_iff)
  next
    case (Some policy)
    obtain n reason burn where dw: "decide_window ch cfg policy sn prior current now
        (window_target cfg banked policy w) w = (n, reason, burn)" by (metis prod_cases3)
    obtain c rest where c: "clamp_u32 n (fl_min_workers (ac_fleet cfg)) (fl_max_workers (ac_fleet cfg)) = Inr c"
      and rest: "evaluate_windows ch cfg sn prior current now banked ws = Inr rest"
      and ds: "tl ds = rest" "ds \<noteq> []" "hd ds = \<lparr> wd_id = qw_id w, wd_used_fraction = qw_used_fraction w,
          wd_target = window_target cfg banked policy w, wd_resets_at = qw_resets_at w, wd_desired = c,
          wd_reason = reason, wd_burn = burn \<rparr>"
      using Cons.prems(1) by (auto simp: p Some dw Let_def bind_res_Inr_iff)
    have "d = hd ds \<or> d \<in> set rest" using Cons.prems(2) ds by (cases ds) auto
    then show ?thesis using Cons.IH [OF rest] mono clamp_u32_Inr [OF c] ds(3)
      by (auto simp: decides_def)
  qed
qed simp

lemma evaluate_windows_total:
  assumes "has_target (ac_util cfg)" "fl_min_workers (ac_fleet cfg) \<le> fl_max_workers (ac_fleet cfg)"
  shows "\<exists>ds. evaluate_windows ch cfg sn prior current now banked ws = Inr ds
    \<and> map wd_id ds = map qw_id (filter (\<lambda>w. policy_for (ac_util cfg) (qw_id w) \<noteq> Inr None) ws)"
proof (induction ws)
  case (Cons w ws)
  then obtain ds where ds: "evaluate_windows ch cfg sn prior current now banked ws = Inr ds"
    "map wd_id ds = map qw_id (filter (\<lambda>w. policy_for (ac_util cfg) (qw_id w) \<noteq> Inr None) ws)" by blast
  obtain p where p: "policy_for (ac_util cfg) (qw_id w) = Inr p"
    using policy_for_no_panic [OF assms(1)] by blast
  show ?case
    using ds p assms(2) by (auto simp: Let_def clamp_u32_ok split: option.splits prod.splits)
qed simp

section \<open>Bounds of a decision\<close>

lemma bound_desired_Inr:
  assumes "bound_desired cfg sn current raw banked = Inr n"
    and "fl_min_workers (ac_fleet cfg) \<le> fl_max_workers (ac_fleet cfg)"
  shows "n \<le> account_step (ac_fleet cfg) (min raw (unwrap_or u32_max (qs_backlog sn))) current"
    "n \<le> max current (unwrap_or u32_max (qs_backlog sn))"
  using assms by (auto simp: bound_desired_def Let_def apply_step_limits_ok split: option.splits if_splits)

lemma bound_desired_total:
  "fl_min_workers (ac_fleet cfg) \<le> fl_max_workers (ac_fleet cfg) \<Longrightarrow>
     \<exists>n. bound_desired cfg sn current raw banked = Inr n"
  by (simp add: bound_desired_def Let_def apply_step_limits_ok)

lemma stale_decision_Inr:
  assumes "fl_min_workers (ac_fleet cfg) \<le> fl_max_workers (ac_fleet cfg)"
  shows "\<exists>d. stale_decision name cfg sn current = Inr d \<and> dc_desired d \<le> current
    \<and> dc_desired d \<le> fl_max_workers (ac_fleet cfg) \<and> dc_stale d \<and> dc_windows d = []
    \<and> dc_current d = current"
  using step_inside [OF assms] assms
  by (auto simp: stale_decision_def Let_def apply_step_limits_ok intro: le_trans [OF min.cobounded1])

text \<open>The parts of a fresh decision.\<close>

lemma evaluate_fresh:
  assumes "evaluate ch name cfg sn prior current now = Inr d" "\<not> snapshot_stale ch cfg sn now"
  obtains ds banked where
    "evaluate_windows ch cfg sn prior current now (banked_available cfg sn) (qs_windows sn) = Inr ds"
    "ds \<noteq> []" "banked_reset_decision ch cfg sn ds prior current now = Inr banked"
    "bound_desired cfg sn current (arbitrate cfg sn ds
        (unwrap_or current (map_option wd_desired (min_by_key wd_desired ds))) banked) banked = Inr (dc_desired d)"
    "dc_windows d = ds" "dc_binding d = map_option wd_id (min_by_key wd_desired ds)" "dc_banked d = banked"
    "dc_current d = current" "\<not> dc_stale d" "dc_unowned d = 0"
  using assms that unfolding evaluate_def
  by (auto simp: bind_res_Inr_iff Let_def split: if_splits)

lemma evaluate_stale:
  "snapshot_stale ch cfg sn now \<Longrightarrow> evaluate ch name cfg sn prior current now = stale_decision name cfg sn current"
  by (simp add: evaluate_def)

lemma evaluate_bounds:
  assumes "evaluate ch name cfg sn prior current now = Inr d"
    and "fl_min_workers (ac_fleet cfg) \<le> fl_max_workers (ac_fleet cfg)"
  shows "dc_current d = current" "dc_desired d \<le> fl_max_workers (ac_fleet cfg)"
    "dc_desired d \<le> max (fl_min_workers (ac_fleet cfg)) (current + fl_max_up (ac_fleet cfg))"
    "dc_desired d \<le> max current (unwrap_or u32_max (qs_backlog sn)) \<or> dc_stale d"
    "dc_stale d = snapshot_stale ch cfg sn now" "dc_stale d \<Longrightarrow> dc_desired d \<le> current"
proof -
  have "dc_current d = current \<and> dc_desired d \<le> fl_max_workers (ac_fleet cfg)
    \<and> dc_desired d \<le> max (fl_min_workers (ac_fleet cfg)) (current + fl_max_up (ac_fleet cfg))
    \<and> (dc_desired d \<le> max current (unwrap_or u32_max (qs_backlog sn)) \<or> dc_stale d)
    \<and> dc_stale d = snapshot_stale ch cfg sn now \<and> (dc_stale d \<longrightarrow> dc_desired d \<le> current)"
  proof (cases "snapshot_stale ch cfg sn now")
    case True
    then show ?thesis using stale_decision_Inr [OF assms(2), of name sn current] assms(1)
      by (auto simp: evaluate_stale)
  next
    case False
    then obtain banked ds where b: "bound_desired cfg sn current (arbitrate cfg sn ds
        (unwrap_or current (map_option wd_desired (min_by_key wd_desired ds))) banked) banked = Inr (dc_desired d)"
      "dc_current d = current" "\<not> dc_stale d"
      using evaluate_fresh [OF assms(1)] by metis
    show ?thesis using bound_desired_Inr [OF b(1) assms(2)] b(2,3) False
        step_inside [OF assms(2)] step_rise [OF assms(2)] by (meson le_trans)
  qed
  then show "dc_current d = current" "dc_desired d \<le> fl_max_workers (ac_fleet cfg)"
    "dc_desired d \<le> max (fl_min_workers (ac_fleet cfg)) (current + fl_max_up (ac_fleet cfg))"
    "dc_desired d \<le> max current (unwrap_or u32_max (qs_backlog sn)) \<or> dc_stale d"
    "dc_stale d = snapshot_stale ch cfg sn now" "dc_stale d \<Longrightarrow> dc_desired d \<le> current"
    by auto
qed

section \<open>When a decision exists\<close>

lemma evaluate_cases:
  assumes "has_target (ac_util cfg)" "fl_min_workers (ac_fleet cfg) \<le> fl_max_workers (ac_fleet cfg)"
    and "\<not> br_enabled (ac_banked cfg)"
  shows "if snapshot_stale ch cfg sn now
       \<or> (\<exists>w \<in> set (qs_windows sn). policy_for (ac_util cfg) (qw_id w) \<noteq> Inr None)
     then \<exists>d. evaluate ch name cfg sn prior current now = Inr d \<and> dc_banked d = None
     else evaluate ch name cfg sn prior current now =
       Inl (Bail (''account '' @ name @ '': no enabled quota windows were observed''))"
proof (cases "snapshot_stale ch cfg sn now")
  case True
  then show ?thesis using assms(2)
    by (simp add: evaluate_stale stale_decision_def Let_def apply_step_limits_ok)
next
  case False
  obtain ds where ds: "evaluate_windows ch cfg sn prior current now (banked_available cfg sn) (qs_windows sn) = Inr ds"
    and ids: "map wd_id ds = map qw_id (filter (\<lambda>w. policy_for (ac_util cfg) (qw_id w) \<noteq> Inr None) (qs_windows sn))"
    using evaluate_windows_total [OF assms(1,2)] by blast
  have "ds = [] \<longleftrightarrow> \<not> (\<exists>w \<in> set (qs_windows sn). policy_for (ac_util cfg) (qw_id w) \<noteq> Inr None)"
    using arg_cong [OF ids, of length] by (auto simp: filter_empty_conv)
  moreover obtain n where "bound_desired cfg sn current (arbitrate cfg sn ds
      (unwrap_or current (map_option wd_desired (min_by_key wd_desired ds))) None) None = Inr n"
    using bound_desired_total [OF assms(2)] by blast
  ultimately show ?thesis using False ds assms(3)
    by (auto simp: evaluate_def banked_reset_decision_def Let_def)
qed

section \<open>Banked reset credits\<close>

lemma banked_plan_facts:
  assumes "banked_plan ch cfg sn prior current now credits w d minutes burn = Inr plan"
  shows "bd_manual plan = redemption_due ch cfg prior w" "bd_governing_window plan = qw_id w"
    "redemption_due ch cfg prior w \<Longrightarrow> bd_desired plan = fl_min_workers (ac_fleet cfg)"
  using assms by (auto simp: banked_plan_def Let_def bind_res_Inr_iff banked_workers_def)

lemma banked_reset_Some:
  assumes "banked_reset_decision ch cfg sn ds prior current now = Inr (Some plan)"
  obtains credits w d minutes burn where "qs_reset_credits sn = Some credits" "weekly_window sn = Some w"
    "banked_plan ch cfg sn prior current now credits w d minutes burn = Inr plan"
  using assms
  by (auto simp: banked_reset_decision_def bind_res_Inr_iff split: if_splits option.splits)

lemma step_to_min:
  "fl_min_workers f \<le> fl_max_workers f \<Longrightarrow>
     account_step f (min (fl_min_workers f) b) c \<le> max (fl_min_workers f) (c - fl_max_down f)"
  by (auto simp: account_step_def apply_step_limits_def clamp_u32_ok Let_def sat_sub_def min_def max_def)

lemma redemption_drains:
  assumes "evaluate ch name cfg sn prior current now = Inr d" "dc_banked d = Some plan"
    and "weekly_window sn = Some w" "redemption_due ch cfg prior w"
    and "fl_min_workers (ac_fleet cfg) \<le> fl_max_workers (ac_fleet cfg)"
  shows "bd_manual plan \<and> bd_governing_window plan = qw_id w
    \<and> dc_desired d \<le> max (fl_min_workers (ac_fleet cfg)) (current - fl_max_down (ac_fleet cfg))"
proof -
  have "\<not> snapshot_stale ch cfg sn now"
    using assms(1,2) stale_decision_Inr [OF assms(5), of name sn current]
    by (auto simp: evaluate_stale stale_decision_def Let_def apply_step_limits_ok [OF assms(5)])
  then obtain ds where b: "banked_reset_decision ch cfg sn ds prior current now = Inr (Some plan)"
    and n: "bound_desired cfg sn current (arbitrate cfg sn ds
        (unwrap_or current (map_option wd_desired (min_by_key wd_desired ds))) (Some plan)) (Some plan) = Inr (dc_desired d)"
    using evaluate_fresh [OF assms(1)] assms(2) by metis
  have p: "bd_manual plan" "bd_governing_window plan = qw_id w" "bd_desired plan = fl_min_workers (ac_fleet cfg)"
    using banked_reset_Some [OF b] banked_plan_facts assms(3,4) by (metis option.inject)+
  then show ?thesis
    using bound_desired_Inr(1) [OF n assms(5)] step_to_min [OF assms(5)]
    by (simp add: arbitrate_def) (meson le_trans)
qed

lemma advisory_escalates:
  assumes "a \<in> set (credit_advisories_for r c m)"
  shows "r < severity_rank (cv_severity a) \<and> cv_credit_id a = cd_credit_id c
    \<and> cd_severity c = Some (cv_severity a) \<and> cd_slack_hours c = Some (cv_slack_hours a)"
  using assms by (auto simp: credit_advisories_for_def split: option.splits if_splits)

lemma severity_monotone:
  assumes "fle a b" "advisory_severity b = Some s"
  shows "\<exists>t. advisory_severity a = Some t \<and> severity_rank s \<le> severity_rank t"
proof -
  have flt_trans: "fle x y \<Longrightarrow> flt y z \<Longrightarrow> flt x z" for x y z
    by (cases x; cases y; cases z) auto
  show ?thesis using assms
    by (auto simp: advisory_severity_def split: if_splits dest: flt_trans)
qed

text \<open>A redemption that is due always yields a plan and a decision.\<close>

lemma redemption_plan_exists:
  "redemption_due ch cfg prior w \<Longrightarrow> \<exists>plan. banked_plan ch cfg sn prior current now credits w d minutes burn = Inr plan"
  by (simp add: banked_plan_def banked_workers_def Let_def)

lemma evaluate_from_parts:
  assumes "\<not> snapshot_stale ch cfg sn now"
    and "evaluate_windows ch cfg sn prior current now (banked_available cfg sn) (qs_windows sn) = Inr ds" "ds \<noteq> []"
    and "banked_reset_decision ch cfg sn ds prior current now = Inr banked"
    and "fl_min_workers (ac_fleet cfg) \<le> fl_max_workers (ac_fleet cfg)"
  shows "\<exists>d. evaluate ch name cfg sn prior current now = Inr d \<and> dc_banked d = banked"
proof -
  obtain n where "bound_desired cfg sn current (arbitrate cfg sn ds
      (unwrap_or current (map_option wd_desired (min_by_key wd_desired ds))) banked) banked = Inr n"
    using bound_desired_total [OF assms(5)] by blast
  then show ?thesis using assms(1-4) by (simp add: evaluate_def Let_def)
qed

section \<open>Unowned workers\<close>

lemma evaluate_unowned:
  "evaluate ch name cfg sn prior current now = Inr d \<Longrightarrow> dc_unowned d = 0 \<and> dc_desired_total d = None"
  by (auto simp: evaluate_def stale_decision_def Let_def bind_res_Inr_iff split: if_splits)

lemma evaluate_pool_elastic:
  assumes "evaluate_pool ch name cfg sn prior owned unowned now = Inr d" "0 < unowned"
    and "fl_min_workers (ac_fleet cfg) \<le> fl_max_workers (ac_fleet cfg)"
    and "fl_max_workers (ac_fleet cfg) + unowned \<le> u32_max" "owned + unowned \<le> u32_max"
  shows "dc_current d = owned" "dc_unowned d = unowned" "dc_desired d \<le> fl_max_workers (ac_fleet cfg)"
    "\<exists>t. dc_desired_total d = Some t \<and> dc_desired d = t - unowned \<and> t \<le> fl_max_workers (ac_fleet cfg) + unowned"
    "dc_desired d \<le> max (fl_min_workers (ac_fleet cfg)) (owned + fl_max_up (ac_fleet cfg))"
proof -
  obtain e where e: "evaluate ch name (pooled_config cfg unowned) sn prior (sat_add owned unowned) now = Inr e"
    and d: "d = into_elastic e unowned"
    using assms(1,2) by (auto simp: evaluate_pool_def bind_res_Inr_iff)
  let ?f = "ac_fleet (pooled_config cfg unowned)"
  have f: "fl_min_workers ?f = fl_min_workers (ac_fleet cfg) + unowned"
    "fl_max_workers ?f = fl_max_workers (ac_fleet cfg) + unowned" "fl_max_up ?f = fl_max_up (ac_fleet cfg)"
    using assms(3,4) by (simp_all add: pooled_config_def sat_add_exact)
  have cur: "sat_add owned unowned = owned + unowned" using assms(5) by (rule sat_add_exact)
  have le: "fl_min_workers ?f \<le> fl_max_workers ?f" using assms(3) by (simp add: f)
  note b = evaluate_bounds [OF e le, unfolded f cur]
  have el: "dc_current d = dc_current e - unowned" "dc_unowned d = unowned"
    "dc_desired d = dc_desired e - unowned" "dc_desired_total d = Some (dc_desired e)"
    using assms(2) by (simp_all add: d into_elastic_def sat_sub_def)
  show "dc_current d = owned" "dc_unowned d = unowned" using b(1) el by simp_all
  show "dc_desired d \<le> fl_max_workers (ac_fleet cfg)" using b(2) el(3) by linarith
  show "\<exists>t. dc_desired_total d = Some t \<and> dc_desired d = t - unowned \<and> t \<le> fl_max_workers (ac_fleet cfg) + unowned"
    using b(2) el by blast
  show "dc_desired d \<le> max (fl_min_workers (ac_fleet cfg)) (owned + fl_max_up (ac_fleet cfg))"
    using b(3) el(3) by linarith
qed

end
