(* ===== verification/Shared_Total.thy ===== *)
theory Shared_Total
  imports Peer_Table Placement_Laws Controller_Laws "HOL-Library.Multiset"
begin

text \<open>
  \<open>src/federation.rs\<close>, the shared total: one conservative reading of the quota from the samples held,
  one account total from the controller, and its split over the hosts with the placement's
  distribution.
\<close>

section \<open>The reading\<close>

definition sample_disagreement_fraction :: f64 where
  "sample_disagreement_fraction = f_lit (5/100)"

definition largest_fraction :: "f64 \<Rightarrow> peer_quota_sample list \<Rightarrow> f64" where
  "largest_fraction base ss =
     foldl (\<lambda>m s. fmax m (pq_used_fraction s)) base (filter (\<lambda>s. is_fin (pq_used_fraction s)) ss)"

definition freshest_used_fraction :: "peer_quota_sample list \<Rightarrow> f64 option" where
  "freshest_used_fraction ss =
     (case freshest_sample ss of
        None \<Rightarrow> None
      | Some s \<Rightarrow>
          let base = pq_used_fraction s; largest = largest_fraction base ss
          in Some (if flt sample_disagreement_fraction (fsub largest base) then largest else base))"

section \<open>The split\<close>

record federation_host =
  fh_host_id :: string
  fh_workers :: nat
  fh_ceiling :: nat
  fh_ready_demand :: nat

record shared_decision =
  sh_total :: nat
  sh_used_fraction :: "f64 option"
  sh_denominator :: nat
  sh_stale :: bool
  sh_shares :: "(string, nat) bmap"

text \<open>The lookup tables \<open>split_account_total\<close> collects; a later host replaces an earlier one.\<close>

definition table_of :: "(federation_host \<Rightarrow> 'a) \<Rightarrow> federation_host list \<Rightarrow> (string, 'a) bmap" where
  "table_of f hosts = bm_collect (map (\<lambda>h. (fh_host_id h, f h)) hosts)"

definition share_cap :: "federation_host \<Rightarrow> nat" where
  "share_cap h = min (fh_ceiling h) (sat_add (fh_workers h) (fh_ready_demand h))"

definition host_free :: "federation_host \<Rightarrow> f64" where
  "host_free h = f_of_nat (sat_sub (fh_ceiling h) (fh_workers h))"

definition lookup :: "'a \<Rightarrow> (string, 'a) bmap \<Rightarrow> string \<Rightarrow> 'a" where
  "lookup d m k = unwrap_or d (bm_get m k)"

text \<open>The base of every host, the budget to distribute, the caps and the eligible hosts.\<close>

definition split_plan ::
  "nat \<Rightarrow> federation_host list \<Rightarrow> string list \<Rightarrow> (string \<Rightarrow> nat) \<times> nat \<times> (string \<Rightarrow> nat) \<times> string list" where
  "split_plan tot hosts ids =
     (let workers_of = table_of fh_workers hosts;
          ready_of = table_of fh_ready_demand hosts;
          cap_of = table_of share_cap hosts;
          current_total = sat_sum (bm_vals workers_of)
      in if current_total \<le> tot
         then let room = (\<lambda>i. sat_sub (lookup 0 cap_of i) (lookup 0 workers_of i))
           in (lookup 0 workers_of, tot - current_total, room, filter (\<lambda>i. 0 < room i) ids)
         else ((\<lambda>i. 0), tot, lookup 0 cap_of, filter (\<lambda>i. 0 < lookup 0 ready_of i) ids))"

definition split_account_total :: "nat \<Rightarrow> federation_host list \<Rightarrow> (string, nat) bmap" where
  "split_account_total tot hosts =
     (let ids = sort (map fh_host_id hosts)
      in case split_plan tot hosts ids of (base, budget, cap, eligible) \<Rightarrow>
        let given = distribute budget eligible (lookup (Fin 0) (table_of host_free hosts)) cap ids
        in bm_collect (map (\<lambda>i. (i, sat_add (base i) (lookup 0 given i))) ids))"

section \<open>The shared total\<close>

definition sample_snapshot :: "f64 \<Rightarrow> peer_quota_sample \<Rightarrow> quota_snapshot" where
  "sample_snapshot fraction s = \<lparr> qs_observed_at = pq_observed_at s, qs_fresh = True,
     qs_windows = [\<lparr> qw_id = pq_window s, qw_used_fraction = fraction, qw_resets_at = pq_resets_at s,
       qw_duration_minutes = None, qw_reached = False \<rparr>],
     qs_backlog = None, qs_reset_credits = None, qs_backpressure = None, qs_saturation = None \<rparr>"

definition no_sample_snapshot :: "datetime \<Rightarrow> quota_snapshot" where
  "no_sample_snapshot now = \<lparr> qs_observed_at = now, qs_fresh = False, qs_windows = [],
     qs_backlog = None, qs_reset_credits = None, qs_backpressure = None, qs_saturation = None \<rparr>"

definition shared_account_total ::
  "chrono \<Rightarrow> string \<Rightarrow> account_config \<Rightarrow> account_state \<Rightarrow> federation_host list
     \<Rightarrow> peer_quota_sample list \<Rightarrow> datetime \<Rightarrow> shared_decision res" where
  "shared_account_total ch name cfg prior hosts samples now =
     (let denominator = sat_sum (map fh_workers hosts);
          decision = (case freshest_sample samples of
             Some s \<Rightarrow>
               (case freshest_used_fraction samples of
                  None \<Rightarrow> Inl (Panic ''freshest_sample implies a fraction'')
                | Some fraction \<Rightarrow> evaluate ch name cfg (sample_snapshot fraction s) prior denominator now)
           | None \<Rightarrow> evaluate ch name cfg (no_sample_snapshot now) prior denominator now)
      in bind_res decision (\<lambda>d. Inr \<lparr> sh_total = dc_desired d,
           sh_used_fraction = freshest_used_fraction samples, sh_denominator = denominator,
           sh_stale = dc_stale d, sh_shares = split_account_total (dc_desired d) hosts \<rparr>))"

section \<open>The order of the samples\<close>

text \<open>
  On samples whose fractions are numbers the comparison is a strict order, so the maximum of a list
  is the same for every order of the list, up to samples that tie.
\<close>

definition fractions_ok :: "peer_quota_sample list \<Rightarrow> bool" where
  "fractions_ok ss = (\<forall>s \<in> set ss. in_unit (pq_used_fraction s))"

definition sample_key :: "peer_quota_sample \<Rightarrow> int \<times> rat" where
  "sample_key s = (pq_observed_at s, fval (pq_used_fraction s))"

lemma sample_gt_iff:
  assumes "in_unit (pq_used_fraction l)" "in_unit (pq_used_fraction r)"
  shows "sample_gt l r \<longleftrightarrow> sample_key r < sample_key l \<or> sample_key l = sample_key r \<and> pq_window l < pq_window r"
  using in_unit_fin [OF assms(1)] in_unit_fin [OF assms(2)]
  by (auto simp: sample_gt_def sample_key_def flt_fin less_prod_def)

text \<open>\<open>max_by\<close> of a strict order is a maximum.\<close>

lemma max_by_acc_maximal:
  assumes "\<And>a. a \<in> S \<Longrightarrow> \<not> gt a a"
    and "\<And>a b. a \<in> S \<Longrightarrow> b \<in> S \<Longrightarrow> gt a b \<Longrightarrow> \<not> gt b a"
    and "\<And>a b c. a \<in> S \<Longrightarrow> b \<in> S \<Longrightarrow> c \<in> S \<Longrightarrow> \<not> gt a b \<Longrightarrow> \<not> gt b c \<Longrightarrow> \<not> gt a c"
  shows "set (x # xs) \<subseteq> S \<Longrightarrow> \<forall>y \<in> set (x # xs). \<not> gt y (max_by_acc gt x xs)"
proof (induction xs arbitrary: x)
  case Nil
  then show ?case using assms(1) by simp
next
  case (Cons y ys)
  let ?z = "if gt x y then x else y"
  let ?m = "max_by_acc gt ?z ys"
  have sub: "set (?z # ys) \<subseteq> S" using Cons.prems by auto
  then have IH: "\<forall>w \<in> set (?z # ys). \<not> gt w ?m" by (rule Cons.IH)
  have m: "?m \<in> S" using max_by_acc_in [of gt ?z ys] sub by blast
  have xy: "\<not> gt x ?z" "\<not> gt y ?z" using Cons.prems assms(1,2) by auto
  have z: "?z \<in> S" "x \<in> S" "y \<in> S" using Cons.prems by auto
  have "\<not> gt ?z ?m" using IH by simp
  then have "\<not> gt x ?m" "\<not> gt y ?m"
    using assms(3) [OF z(2) z(1) m xy(1)] assms(3) [OF z(3) z(1) m xy(2)] by auto
  then show ?case using IH by simp
qed

lemma lex_not_trans:
  fixes ka kb kc :: "'a::linorder" and wa wb wc :: "'b::linorder"
  assumes "\<not> (kb < ka \<or> ka = kb \<and> wa < wb)" "\<not> (kc < kb \<or> kb = kc \<and> wb < wc)"
  shows "\<not> (kc < ka \<or> ka = kc \<and> wa < wc)"
  using assms by (auto simp: not_less)

lemma freshest_is_maximal:
  assumes "fractions_ok ss" "freshest_sample ss = Some m"
  shows "m \<in> set ss" "\<forall>s \<in> set ss. \<not> sample_gt s m"
proof -
  show "m \<in> set ss" using assms(2) max_by_in by (auto simp: freshest_sample_def)
  have iff: "sample_gt l r \<longleftrightarrow> sample_key r < sample_key l \<or> sample_key l = sample_key r \<and> pq_window l < pq_window r"
    if "l \<in> set ss" "r \<in> set ss" for l r
    using sample_gt_iff assms(1) that by (simp add: fractions_ok_def)
  obtain x xs where ss: "ss = x # xs" and m: "m = max_by_acc sample_gt x xs"
    using assms(2) by (cases ss) (auto simp: freshest_sample_def)
  have "\<forall>y \<in> set (x # xs). \<not> sample_gt y (max_by_acc sample_gt x xs)"
  proof (rule max_by_acc_maximal [where S = "set ss"])
    show "\<not> sample_gt a a" if "a \<in> set ss" for a using that iff by simp
    show "\<not> sample_gt b a" if "a \<in> set ss" "b \<in> set ss" "sample_gt a b" for a b
      using that iff [of a b] iff [of b a] by auto
    show "\<not> sample_gt a c" if "a \<in> set ss" "b \<in> set ss" "c \<in> set ss" "\<not> sample_gt a b" "\<not> sample_gt b c" for a b c
      using that iff [of a b] iff [of b c] iff [of a c]
        lex_not_trans [of "sample_key b" "sample_key a" "pq_window a" "pq_window b" "sample_key c" "pq_window c"]
      by simp
  qed (simp add: ss)
  then show "\<forall>s \<in> set ss. \<not> sample_gt s m" by (simp add: ss m)
qed

section \<open>The split places a total\<close>

definition hosts_ok :: "federation_host list \<Rightarrow> bool" where
  "hosts_ok hosts = (distinct (map fh_host_id hosts) \<and> length hosts \<le> 2 ^ 16
     \<and> sum_list (map fh_workers hosts) \<le> u32_max \<and> (\<forall>h \<in> set hosts. fh_ceiling h \<le> u32_max))"

lemma lookup_table:
  assumes "distinct (map fh_host_id hosts)" "h \<in> set hosts"
  shows "lookup d (table_of f hosts) (fh_host_id h) = f h"
proof -
  have "distinct (map fst (map (\<lambda>h. (fh_host_id h, f h)) hosts))" using assms(1) by (simp add: comp_def)
  then have "map_of (rev (map (\<lambda>h. (fh_host_id h, f h)) hosts)) (fh_host_id h) = Some (f h)"
    using assms(2) by (subst map_of_rev_distinct) (auto intro!: map_of_is_SomeI simp: comp_def)
  then show ?thesis by (simp add: lookup_def table_of_def bm_get_collect)
qed

lemma sum_ids:
  assumes "distinct (map fh_host_id hosts)"
  shows "(\<Sum>i\<in>set (map fh_host_id hosts). g i) = (\<Sum>h\<leftarrow>hosts. g (fh_host_id h))"
proof -
  have "(\<Sum>i\<in>set (map fh_host_id hosts). g i) = sum_list (map g (map fh_host_id hosts))"
    using assms by (rule sum_list_distinct_conv_sum_set [symmetric])
  then show ?thesis by (simp add: comp_def)
qed

lemma table_total:
  fixes f :: "federation_host \<Rightarrow> nat"
  assumes "distinct (map fh_host_id hosts)"
  shows "sum_list (bm_vals (table_of f hosts)) = (\<Sum>h\<leftarrow>hosts. f h)"
proof -
  let ?t = "table_of f hosts"
  have ok: "bm_ok ?t" by (simp add: table_of_def)
  have k: "set (bm_keys ?t) = set (map fh_host_id hosts)"
    by (simp add: table_of_def bm_keys_collect image_image)
  have "sum_list (bm_vals ?t) = (\<Sum>i\<in>set (map fh_host_id hosts). count_of ?t i)"
    using sum_counts [OF ok] by (simp only: k)
  also have "\<dots> = (\<Sum>h\<leftarrow>hosts. count_of ?t (fh_host_id h))" by (rule sum_ids [OF assms])
  also have "\<dots> = (\<Sum>h\<leftarrow>hosts. f h)"
    using lookup_table [OF assms, of _ 0 f]
    by (intro arg_cong [of _ _ sum_list] map_cong) (auto simp: count_of_def lookup_def)
  finally show ?thesis .
qed

lemma free_headroom_ok:
  assumes "hosts_ok hosts" "i \<in> set (map fh_host_id hosts)"
  shows "headroom_ok (lookup (Fin 0) (table_of host_free hosts) i)"
proof -
  obtain h where h: "h \<in> set hosts" "i = fh_host_id h" using assms(2) by auto
  let ?n = "sat_sub (fh_ceiling h) (fh_workers h)"
  have d: "distinct (map fh_host_id hosts)" and c: "fh_ceiling h \<le> u32_max"
    using assms(1) h(1) by (auto simp: hosts_ok_def)
  have n: "?n \<le> u32_max" using c by (simp add: sat_sub_def)
  have "lookup (Fin 0) (table_of host_free hosts) i = f_of_nat ?n"
    using lookup_table [OF d h(1), of "Fin 0" host_free] by (simp add: h(2) host_free_def)
  also have "\<dots> = Fin (of_nat ?n)" using n by (rule f_of_nat_u32)
  finally have e: "lookup (Fin 0) (table_of host_free hosts) i = Fin (of_nat ?n)" .
  have "rq (of_nat ?n) = of_nat ?n" using rq_int [of "int ?n"] n by (simp add: u32_max_def)
  moreover have "(of_nat ?n :: rat) \<le> 2 ^ 33"
  proof -
    have "(of_nat ?n :: rat) \<le> of_nat (2 ^ 33)" using n by (intro of_nat_mono) (simp add: u32_max_def)
    then show ?thesis by simp
  qed
  ultimately show ?thesis by (simp add: e headroom_ok_def)
qed

text \<open>What the split gives in all, and to a host.\<close>

lemma split_plan_ok:
  assumes "hosts_ok hosts" "tot \<le> u32_max"
    and plan: "split_plan tot hosts (sort (map fh_host_id hosts)) = (base, budget, cap, eligible)"
  shows "split_ok budget eligible (lookup (Fin 0) (table_of host_free hosts)) cap (sort (map fh_host_id hosts))"
proof -
  let ?ids = "sort (map fh_host_id hosts)"
  have d: "distinct (map fh_host_id hosts)" "length hosts \<le> 2 ^ 16" using assms(1) by (auto simp: hosts_ok_def)
  have "sorted_wrt (<) ?ids" using d(1) by (simp add: strict_sorted_iff)
  moreover have elig: "\<exists>p. eligible = filter p ?ids"
    using plan by (auto simp: split_plan_def Let_def split: if_splits)
  moreover have "budget \<le> u32_max"
    using plan assms(2) by (auto simp: split_plan_def Let_def split: if_splits)
  moreover have "cap i \<le> u32_max" if i: "i \<in> set ?ids" for i
  proof -
    obtain h where h: "h \<in> set hosts" "i = fh_host_id h" using i by auto
    have "lookup 0 (table_of share_cap hosts) i = share_cap h"
      using lookup_table [OF d(1) h(1), of 0 share_cap] h(2) by simp
    moreover have "share_cap h \<le> u32_max" by (simp add: share_cap_def min.coboundedI2)
    ultimately show ?thesis
      using plan by (auto simp: split_plan_def Let_def sat_sub_def split: if_splits intro: le_trans)
  qed
  moreover have "length eligible \<le> 2 ^ 16"
    using elig d(2) length_filter_le [of _ ?ids] by (metis le_trans length_map length_sort)
  ultimately show ?thesis using d free_headroom_ok [OF assms(1)]
    by (auto simp: split_ok_def)
qed

lemma split_lookup:
  assumes "hosts_ok hosts" "h \<in> set hosts"
    and plan: "split_plan tot hosts (sort (map fh_host_id hosts)) = (base, budget, cap, eligible)"
  shows "bm_get (split_account_total tot hosts) (fh_host_id h) = Some (sat_add (base (fh_host_id h))
     (count_of (distribute budget eligible (lookup (Fin 0) (table_of host_free hosts)) cap
        (sort (map fh_host_id hosts))) (fh_host_id h)))"
proof -
  have "fh_host_id h \<in> set (sort (map fh_host_id hosts))" using assms(2) by simp
  then show ?thesis
    by (simp only: split_account_total_def Let_def plan prod.case bm_get_collect)
       (simp only: rev_map map_of_graph, simp add: count_of_def lookup_def)
qed

definition given_of :: "nat \<Rightarrow> federation_host list \<Rightarrow> string \<Rightarrow> nat" where
  "given_of tot hosts i = (case split_plan tot hosts (sort (map fh_host_id hosts)) of
     (base, budget, cap, eligible) \<Rightarrow>
       count_of (distribute budget eligible (lookup (Fin 0) (table_of host_free hosts)) cap
          (sort (map fh_host_id hosts))) i)"

definition current_of :: "federation_host list \<Rightarrow> nat" where
  "current_of hosts = sum_list (map fh_workers hosts)"

lemma split_plan_eq:
  assumes "hosts_ok hosts"
  shows "split_plan tot hosts ids =
    (if current_of hosts \<le> tot
     then (lookup 0 (table_of fh_workers hosts), tot - current_of hosts,
        (\<lambda>i. sat_sub (lookup 0 (table_of share_cap hosts) i) (lookup 0 (table_of fh_workers hosts) i)),
        filter (\<lambda>i. 0 < sat_sub (lookup 0 (table_of share_cap hosts) i) (lookup 0 (table_of fh_workers hosts) i)) ids)
     else ((\<lambda>i. 0), tot, lookup 0 (table_of share_cap hosts),
        filter (\<lambda>i. 0 < lookup 0 (table_of fh_ready_demand hosts) i) ids))"
  using assms by (simp add: split_plan_def Let_def sat_sum_eq table_total hosts_ok_def current_of_def)

lemma given_bounds:
  assumes "hosts_ok hosts" "h \<in> set hosts" "tot \<le> u32_max"
  shows "current_of hosts \<le> tot \<Longrightarrow> given_of tot hosts (fh_host_id h) \<le> share_cap h - fh_workers h"
    "tot < current_of hosts \<Longrightarrow> given_of tot hosts (fh_host_id h) \<le> share_cap h"
    "tot < current_of hosts \<Longrightarrow> fh_ready_demand h = 0 \<Longrightarrow> given_of tot hosts (fh_host_id h) = 0"
proof -
  have d: "distinct (map fh_host_id hosts)" using assms(1) by (simp add: hosts_ok_def)
  note lk = lookup_table [OF d assms(2), of 0 share_cap] lookup_table [OF d assms(2), of 0 fh_workers]
    lookup_table [OF d assms(2), of 0 fh_ready_demand]
  obtain base budget cap eligible where
    plan: "split_plan tot hosts (sort (map fh_host_id hosts)) = (base, budget, cap, eligible)"
    by (metis prod_cases4)
  note f = distribute_frame [OF split_plan_ok [OF assms(1,3) plan]]
  have g: "given_of tot hosts (fh_host_id h) = 0" if "fh_host_id h \<notin> set eligible"
    using f(3) [OF that] by (simp add: given_of_def plan)
  have le: "given_of tot hosts (fh_host_id h) \<le> cap (fh_host_id h)"
    using f(4) [of "fh_host_id h"] g by (cases "fh_host_id h \<in> set eligible") (auto simp: given_of_def plan)
  show "current_of hosts \<le> tot \<Longrightarrow> given_of tot hosts (fh_host_id h) \<le> share_cap h - fh_workers h"
    using le plan lk by (auto simp: split_plan_eq [OF assms(1)] sat_sub_def)
  show "tot < current_of hosts \<Longrightarrow> given_of tot hosts (fh_host_id h) \<le> share_cap h"
    using le plan lk by (auto simp: split_plan_eq [OF assms(1)])
  show "tot < current_of hosts \<Longrightarrow> fh_ready_demand h = 0 \<Longrightarrow> given_of tot hosts (fh_host_id h) = 0"
    using g plan lk by (auto simp: split_plan_eq [OF assms(1)])
qed

lemma share_cap_le: "share_cap h \<le> u32_max"
  by (simp add: share_cap_def min.coboundedI2)

lemma workers_le: "hosts_ok hosts \<Longrightarrow> h \<in> set hosts \<Longrightarrow> fh_workers h \<le> u32_max"
  using member_le_sum_list [of "fh_workers h" "map fh_workers hosts"] by (auto simp: hosts_ok_def)

lemma split_share:
  assumes "hosts_ok hosts" "h \<in> set hosts" "tot \<le> u32_max"
  shows "bm_get (split_account_total tot hosts) (fh_host_id h) = Some
    ((if current_of hosts \<le> tot then fh_workers h else 0) + given_of tot hosts (fh_host_id h))"
proof -
  have d: "distinct (map fh_host_id hosts)" using assms(1) by (simp add: hosts_ok_def)
  obtain base budget cap eligible where
    plan: "split_plan tot hosts (sort (map fh_host_id hosts)) = (base, budget, cap, eligible)"
    by (metis prod_cases4)
  have base: "base (fh_host_id h) = (if current_of hosts \<le> tot then fh_workers h else 0)"
    using plan lookup_table [OF d assms(2), of 0 fh_workers]
    by (auto simp: split_plan_eq [OF assms(1)] split: if_splits)
  have "base (fh_host_id h) + given_of tot hosts (fh_host_id h) \<le> u32_max"
    using given_bounds(1,2) [OF assms] share_cap_le [of h] workers_le [OF assms(1,2)]
    by (cases "current_of hosts \<le> tot") (auto simp: base)
  then show ?thesis
    using split_lookup [OF assms(1,2) plan] by (simp add: given_of_def plan base sat_add_exact)
qed

lemma given_sum:
  assumes "hosts_ok hosts" "tot \<le> u32_max"
  shows "(\<Sum>h\<leftarrow>hosts. given_of tot hosts (fh_host_id h))
    \<le> (if current_of hosts \<le> tot then tot - current_of hosts else tot)"
proof -
  let ?ids = "sort (map fh_host_id hosts)"
  have d: "distinct (map fh_host_id hosts)" using assms(1) by (simp add: hosts_ok_def)
  obtain base budget cap eligible where
    plan: "split_plan tot hosts ?ids = (base, budget, cap, eligible)" by (metis prod_cases4)
  let ?m = "distribute budget eligible (lookup (Fin 0) (table_of host_free hosts)) cap ?ids"
  note so = split_plan_ok [OF assms plan]
  have "(\<Sum>h\<leftarrow>hosts. given_of tot hosts (fh_host_id h)) = (\<Sum>i\<in>set (map fh_host_id hosts). given_of tot hosts i)"
    by (rule sum_ids [OF d, symmetric])
  also have "\<dots> = (\<Sum>i\<in>set (bm_keys ?m). count_of ?m i)"
    using distribute_frame(2) [OF so] by (simp add: given_of_def plan)
  also have "\<dots> = sum_list (bm_vals ?m)" using sum_counts distribute_frame(1) [OF so] by simp
  also have "\<dots> \<le> budget" by (simp add: distribute_total [OF so])
  finally show ?thesis using plan by (auto simp: split_plan_eq [OF assms(1)] split: if_splits)
qed

lemma split_keys: "bm_ok (split_account_total tot hosts) \<and>
    set (bm_keys (split_account_total tot hosts)) = set (map fh_host_id hosts)"
  by (auto simp: split_account_total_def Let_def bm_keys_collect image_image split: prod.splits)

lemma split_sum:
  assumes "hosts_ok hosts" "tot \<le> u32_max"
  shows "sum_list (bm_vals (split_account_total tot hosts)) \<le> tot"
proof -
  let ?s = "split_account_total tot hosts"
  have d: "distinct (map fh_host_id hosts)" using assms(1) by (simp add: hosts_ok_def)
  have ok: "bm_ok ?s" "set (bm_keys ?s) = set (map fh_host_id hosts)" using split_keys by auto
  have "sum_list (bm_vals ?s) = (\<Sum>i\<in>set (map fh_host_id hosts). count_of ?s i)"
    using sum_counts [OF ok(1)] by (simp only: ok(2))
  also have "\<dots> = (\<Sum>h\<leftarrow>hosts. count_of ?s (fh_host_id h))" by (rule sum_ids [OF d])
  also have "\<dots> = (\<Sum>h\<leftarrow>hosts. (if current_of hosts \<le> tot then fh_workers h else 0) + given_of tot hosts (fh_host_id h))"
    using split_share [OF assms(1) _ assms(2)]
    by (intro arg_cong [of _ _ sum_list] map_cong) (auto simp: count_of_def)
  also have "\<dots> = (if current_of hosts \<le> tot then current_of hosts else 0) + (\<Sum>h\<leftarrow>hosts. given_of tot hosts (fh_host_id h))"
    by (simp add: sum_list_addf current_of_def)
  also have "\<dots> \<le> tot" using given_sum [OF assms] by (auto split: if_splits)
  finally show ?thesis .
qed

text \<open>The split does not depend on the order in which the hosts were assembled.\<close>

lemma table_perm:
  assumes "distinct (map fh_host_id hosts)" "mset hosts = mset hosts'"
  shows "lookup d (table_of f hosts) = lookup d (table_of f hosts')"
proof
  fix i
  have s: "set hosts = set hosts'" using assms(2) by (rule mset_eq_setD)
  have d': "distinct (map fh_host_id hosts')"
    using assms by (metis mset_eq_imp_distinct_iff mset_map)
  show "lookup d (table_of f hosts) i = lookup d (table_of f hosts') i"
  proof (cases "i \<in> set (map fh_host_id hosts)")
    case True
    then obtain h where "h \<in> set hosts" "i = fh_host_id h" by auto
    then show ?thesis using lookup_table [OF assms(1), of h d f] lookup_table [OF d', of h d f] s by simp
  next
    case False
    then have "bm_get (table_of f hosts) i = None" "bm_get (table_of f hosts') i = None"
      using s by (auto simp: table_of_def bm_get_collect map_of_eq_None_iff)
    then show ?thesis by (simp add: lookup_def)
  qed
qed

lemma split_perm:
  assumes "hosts_ok hosts" "mset hosts = mset hosts'"
  shows "split_account_total tot hosts = split_account_total tot hosts'"
proof -
  have d: "distinct (map fh_host_id hosts)" using assms(1) by (simp add: hosts_ok_def)
  have ids: "sort (map fh_host_id hosts) = sort (map fh_host_id hosts')"
    using assms(2) by (metis mset_map properties_for_sort mset_sort sorted_sort)
  have sums: "sum_list (map fh_workers hosts) = sum_list (map fh_workers hosts')"
    using assms(2) by (metis mset_map sum_mset_sum_list)
  have len: "length hosts = length hosts'" using assms(2) by (rule mset_eq_length)
  have ok': "hosts_ok hosts'"
    using assms d sums len mset_eq_setD [OF assms(2)] unfolding hosts_ok_def
    by (metis mset_eq_imp_distinct_iff mset_map)
  show ?thesis
    unfolding split_account_total_def Let_def ids split_plan_eq [OF assms(1)] split_plan_eq [OF ok']
    by (simp add: table_perm [OF d assms(2)] current_of_def sums)
qed

section \<open>One reading for all\<close>

lemma in_unit_fmax: "in_unit x \<Longrightarrow> in_unit y \<Longrightarrow> in_unit (fmax x y) \<and> fval (fmax x y) = max (fval x) (fval y)"
  using in_unit_fin [of x] in_unit_fin [of y] by (cases x; cases y) (auto simp: fmax_def)

lemma largest_fraction_val:
  assumes "fractions_ok ss" "in_unit base"
  shows "in_unit (largest_fraction base ss) \<and>
    fval (largest_fraction base ss) = foldl max (fval base) (map (\<lambda>s. fval (pq_used_fraction s)) ss)"
proof -
  have "filter (\<lambda>s. is_fin (pq_used_fraction s)) ss = ss"
    using assms(1) in_unit_fin by (auto simp: fractions_ok_def intro!: filter_True)
  moreover have "in_unit (foldl (\<lambda>m s. fmax m (pq_used_fraction s)) base ss) \<and>
      fval (foldl (\<lambda>m s. fmax m (pq_used_fraction s)) base ss)
        = foldl max (fval base) (map (\<lambda>s. fval (pq_used_fraction s)) ss)"
    using assms by (induction ss arbitrary: base) (simp_all add: fractions_ok_def in_unit_fmax)
  ultimately show ?thesis by (simp add: largest_fraction_def)
qed

lemma foldl_max: "foldl max (b::'a::linorder) xs = Max (insert b (set xs))"
proof (induction xs arbitrary: b)
  case (Cons a xs)
  then show ?case by (cases "xs = []") (simp_all add: max.assoc max.left_commute)
qed simp

lemma fsub_unit: "in_unit x \<Longrightarrow> in_unit y \<Longrightarrow>
    is_fin (fsub x y) \<and> fval (fsub x y) = rq (fval x - fval y)"
proof -
  assume u: "in_unit x" "in_unit y"
  then have v: "0 \<le> fval x" "fval x \<le> 1" "0 \<le> fval y" "fval y \<le> 1" "is_fin x" "is_fin y"
    using in_unit_fin by auto
  have "\<bar>fval x - fval y\<bar> \<le> 2 ^ 60" using v by (simp add: abs_le_iff)
  then have r: "is_fin (rnd (fval x - fval y)) \<and> fval (rnd (fval x - fval y)) = rq (fval x - fval y)"
    by (rule rnd_fin)
  from v(5,6) r show ?thesis
    by (cases x; cases y) (auto simp: fsub_def fadd_def)
qed

text \<open>The reading as a number: it depends on the samples only through their keys.\<close>

definition reading :: "peer_quota_sample list \<Rightarrow> rat" where
  "reading ss = (let base = snd (Max (sample_key ` set ss));
      largest = Max ((\<lambda>s. fval (pq_used_fraction s)) ` set ss)
    in if fval sample_disagreement_fraction < rq (largest - base) then largest else base)"

lemma disagreement_fin: "is_fin sample_disagreement_fraction"
  by (simp add: sample_disagreement_fraction_def f_lit_def rnd_nonneg)

lemma freshest_key:
  assumes "fractions_ok ss" "freshest_sample ss = Some m"
  shows "sample_key m = Max (sample_key ` set ss)"
proof (rule Max_eqI [symmetric])
  fix k assume "k \<in> sample_key ` set ss"
  then obtain s where s: "s \<in> set ss" "k = sample_key s" by auto
  have "\<not> sample_gt s m" "m \<in> set ss" using freshest_is_maximal [OF assms] s by auto
  then show "k \<le> sample_key m" using sample_gt_iff [of s m] s assms(1) by (auto simp: fractions_ok_def not_less)
qed (use freshest_is_maximal(1) [OF assms] in auto)

lemma freshest_used_fraction_reading:
  assumes "fractions_ok ss"
  shows "ss = [] \<Longrightarrow> freshest_used_fraction ss = None"
    "ss \<noteq> [] \<Longrightarrow> \<exists>f. freshest_used_fraction ss = Some f \<and> in_unit f \<and> fval f = reading ss"
proof -
  show "ss = [] \<Longrightarrow> freshest_used_fraction ss = None"
    by (simp add: freshest_used_fraction_def freshest_sample_def)
next
  assume "ss \<noteq> []"
  then obtain m where m: "freshest_sample ss = Some m" by (cases ss) (auto simp: freshest_sample_def)
  let ?b = "pq_used_fraction m" and ?l = "largest_fraction (pq_used_fraction m) ss"
  have mem: "m \<in> set ss" using freshest_is_maximal(1) [OF assms m] .
  then have b: "in_unit ?b" using assms by (simp add: fractions_ok_def)
  have base: "fval ?b = snd (Max (sample_key ` set ss))"
    using freshest_key [OF assms m, symmetric] by (simp only:) (simp add: sample_key_def)
  have l: "in_unit ?l" "fval ?l = Max ((\<lambda>s. fval (pq_used_fraction s)) ` set ss)"
    using largest_fraction_val [OF assms b] mem by (simp_all add: foldl_max insert_absorb)
  have "flt sample_disagreement_fraction (fsub ?l ?b)
      \<longleftrightarrow> fval sample_disagreement_fraction < rq (fval ?l - fval ?b)"
    using fsub_unit [OF l(1) b] disagreement_fin by (simp add: flt_fin)
  then show "\<exists>f. freshest_used_fraction ss = Some f \<and> in_unit f \<and> fval f = reading ss"
    using l b base by (auto simp: freshest_used_fraction_def m Let_def reading_def)
qed

lemma reading_is_held:
  assumes "ss \<noteq> []"
  shows "\<exists>s \<in> set ss. reading ss = fval (pq_used_fraction s)"
proof -
  have "Max (sample_key ` set ss) \<in> sample_key ` set ss"
    "Max ((\<lambda>s. fval (pq_used_fraction s)) ` set ss) \<in> (\<lambda>s. fval (pq_used_fraction s)) ` set ss"
    using assms by (auto intro!: Max_in)
  then show ?thesis by (auto simp: reading_def Let_def sample_key_def)
qed

text \<open>No held sample exceeds the reading by more than the tolerance.\<close>

lemma reading_conservative:
  assumes "s \<in> set ss"
  shows "rq (fval (pq_used_fraction s) - reading ss) \<le> fval sample_disagreement_fraction"
proof -
  let ?l = "Max ((\<lambda>s. fval (pq_used_fraction s)) ` set ss)" and ?f = "fval (pq_used_fraction s)"
  have le: "?f \<le> ?l" using assms by auto
  show ?thesis
  proof (cases "fval sample_disagreement_fraction < rq (?l - snd (Max (sample_key ` set ss)))")
    case True
    then have "rq (?f - reading ss) \<le> 0" using rq_mono [of "?f - ?l" 0] le by (simp add: reading_def)
    moreover have "0 \<le> fval sample_disagreement_fraction"
      by (simp add: sample_disagreement_fraction_def f_lit_def rnd_nonneg rq_nonneg)
    ultimately show ?thesis by simp
  next
    case False
    then show ?thesis using rq_mono [of "?f - reading ss" "?l - reading ss"] le
      by (simp add: reading_def)
  qed
qed

text \<open>Samples of one instant, fraction and window are one sample; then neither the freshest one nor the
  reading depends on the order, or the repetitions, in which an instance holds them.\<close>

definition no_ties :: "peer_quota_sample set \<Rightarrow> bool" where
  "no_ties S = (\<forall>s \<in> S. \<forall>t \<in> S. pq_observed_at s = pq_observed_at t
     \<and> fval (pq_used_fraction s) = fval (pq_used_fraction t) \<and> pq_window s = pq_window t \<longrightarrow> s = t)"

lemma freshest_sample_perm:
  assumes "fractions_ok ss" "set ss = set ss'" "no_ties (set ss)"
  shows "freshest_sample ss = freshest_sample ss'"
proof (cases "freshest_sample ss")
  case None
  then have "ss = []" by (cases ss) (auto simp: freshest_sample_def)
  then show ?thesis using assms(2) by simp
next
  case (Some m)
  then have "ss' \<noteq> []" using assms(2) by (auto simp: freshest_sample_def)
  then obtain m' where m': "freshest_sample ss' = Some m'" by (cases ss') (auto simp: freshest_sample_def)
  have ok': "fractions_ok ss'" using assms(1,2) by (simp add: fractions_ok_def)
  have mem: "m \<in> set ss" "m' \<in> set ss"
    using freshest_is_maximal(1) [OF assms(1) Some] freshest_is_maximal(1) [OF ok' m'] assms(2) by simp_all
  have "\<not> sample_gt m m'" "\<not> sample_gt m' m"
    using freshest_is_maximal(2) [OF assms(1) Some] freshest_is_maximal(2) [OF ok' m'] mem assms(2) by auto
  moreover have "in_unit (pq_used_fraction m)" "in_unit (pq_used_fraction m')"
    using mem assms(1) by (simp_all add: fractions_ok_def)
  ultimately have "sample_key m = sample_key m' \<and> pq_window m = pq_window m'"
    by (auto simp: sample_gt_iff not_less intro: antisym)
  then have "m = m'" using assms(3) mem by (auto simp: no_ties_def sample_key_def)
  then show ?thesis using Some m' by simp
qed

lemma in_unit_pos_eq: "in_unit x \<Longrightarrow> in_unit y \<Longrightarrow> fval x = fval y \<Longrightarrow> 0 < fval x \<Longrightarrow> x = y"
  by (cases x; cases y) (auto simp: in_unit_def)

lemma freshest_used_fraction_perm:
  assumes "fractions_ok ss" "set ss = set ss'" "no_ties (set ss)"
  shows "freshest_used_fraction ss = freshest_used_fraction ss'"
proof (cases "freshest_sample ss")
  case None
  then show ?thesis using freshest_sample_perm [OF assms] by (simp add: freshest_used_fraction_def)
next
  case (Some m)
  have ok': "fractions_ok ss'" using assms(1,2) by (simp add: fractions_ok_def)
  let ?b = "pq_used_fraction m"
  let ?l = "largest_fraction ?b ss" and ?l' = "largest_fraction ?b ss'"
  have b: "in_unit ?b" using freshest_is_maximal(1) [OF assms(1) Some] assms(1) by (simp add: fractions_ok_def)
  have l: "in_unit ?l" "in_unit ?l'" "fval ?l = fval ?l'"
    using largest_fraction_val [OF assms(1) b] largest_fraction_val [OF ok' b] assms(2)
    by (simp_all add: foldl_max)
  have iff: "flt sample_disagreement_fraction (fsub x ?b)
      \<longleftrightarrow> fval sample_disagreement_fraction < rq (fval x - fval ?b)" if "in_unit x" for x
    using fsub_unit [OF that b] disagreement_fin by (simp add: flt_fin)
  have "?l = ?l'" if "fval sample_disagreement_fraction < rq (fval ?l - fval ?b)"
  proof (rule in_unit_pos_eq [OF l])
    have "0 \<le> fval sample_disagreement_fraction"
      by (simp add: sample_disagreement_fraction_def f_lit_def rnd_nonneg rq_nonneg)
    with that have "\<not> fval ?l - fval ?b \<le> 0" using rq_mono [of "fval ?l - fval ?b" 0] by auto
    then show "0 < fval ?l" using in_unit_fin [OF b] by simp
  qed
  then show ?thesis using Some freshest_sample_perm [OF assms] l iff
    by (auto simp: freshest_used_fraction_def Let_def)
qed

end
