(* ===== verification/Ownership.thy ===== *)
theory Ownership
  imports Peer_Record
begin

text \<open>
  \<open>src/ownership.rs\<close>: worker prefixes and their collisions, the owner of a workspace, and the launch
  gate over the file of pending launches.  The file is the map it holds; whether a write succeeds is
  the parameter \<open>disk\<close>, and a failed write leaves the old file.
\<close>

section \<open>Worker identity\<close>

definition claimed_prefixes :: "peer_record \<Rightarrow> string set" where
  "claimed_prefixes r = set (concat (map (\<lambda>a. bm_keys (pa_pools a)) (bm_vals (pr_accounts r))))"

fun refuse_record :: "string \<Rightarrow> peer_record list \<Rightarrow> unit res" where
  "refuse_record prefix [] = Inr ()"
| "refuse_record prefix (r # rs) =
     (if prefix \<in> claimed_prefixes r
      then Inl (Bail (''worker prefix '' @ prefix @ '' is already claimed by peer host '' @ pr_host_id r))
      else refuse_record prefix rs)"

definition refuse_prefix_collisions :: "(string, string) bmap \<Rightarrow> peer_record list \<Rightarrow> unit res" where
  "refuse_prefix_collisions local_prefixes records =
     all_ok (map (\<lambda>p. refuse_record p records) (bm_vals local_prefixes))"

section \<open>Workspace ownership\<close>

text \<open>\<open>claimants\<close> is a sorted set; its minimum is its first element.\<close>

definition workspace_owner :: "string \<Rightarrow> (string, string) bmap \<Rightarrow> string list \<Rightarrow> string" where
  "workspace_owner orig repo_owners claimants =
     (case bm_get repo_owners orig of
        Some owner \<Rightarrow> owner
      | None \<Rightarrow> (case min_by_key (\<lambda>c. c) claimants of Some c \<Rightarrow> c | None \<Rightarrow> []))"

record overlap_event =
  ov_workspace :: string
  ov_origin :: string
  ov_owner :: string
  ov_excluded_host :: string
  ov_peer_hosts :: "string list"

record overlap_verdict =
  vd_excluded :: "(string, string) bmap"
  vd_events :: "overlap_event list"

definition is_seedable :: "overlap_verdict \<Rightarrow> string \<Rightarrow> bool" where
  "is_seedable v path = (bm_get (vd_excluded v) path = None)"

definition seedable :: "overlap_verdict \<Rightarrow> string list \<Rightarrow> string list" where
  "seedable v paths = filter (is_seedable v) paths"

definition peers_with_origin :: "peer_record list \<Rightarrow> string \<Rightarrow> string list" where
  "peers_with_origin records orig =
     map pr_host_id (filter (\<lambda>r. orig \<in> set (bm_vals (pr_workspace_origins r))) records)"

definition overlap_entry ::
  "string \<Rightarrow> peer_record list \<Rightarrow> (string, string) bmap \<Rightarrow> string \<times> string \<Rightarrow> overlap_event option" where
  "overlap_entry local_host records repo_owners e = (case e of (path, orig) \<Rightarrow>
     let peers = peers_with_origin records orig
     in if peers = [] then None
        else let owner = workspace_owner orig repo_owners (local_host # peers)
          in if owner = local_host then None
             else Some \<lparr> ov_workspace = path, ov_origin = orig, ov_owner = owner,
                    ov_excluded_host = local_host, ov_peer_hosts = peers \<rparr>)"

definition resolve_workspace_overlap ::
  "string \<Rightarrow> (string, string) bmap \<Rightarrow> peer_record list \<Rightarrow> (string, string) bmap \<Rightarrow> overlap_verdict" where
  "resolve_workspace_overlap local_host local_origins records repo_owners =
     (let evs = List.map_filter (overlap_entry local_host records repo_owners) local_origins
      in \<lparr> vd_excluded = bm_collect (map (\<lambda>e. (ov_workspace e, ov_origin e)) evs), vd_events = evs \<rparr>)"

section \<open>The ownership view of a cycle\<close>

record ownership_cycle =
  oc_fresh :: bool
  oc_excluded :: "string list"
  oc_events :: "overlap_event list"
  oc_records :: "peer_record list"

definition ownership_default :: ownership_cycle where
  "ownership_default = \<lparr> oc_fresh = True, oc_excluded = [], oc_events = [], oc_records = [] \<rparr>"

text \<open>
  \<open>refresh_ownership\<close>: \<open>pull\<close> answers a peer, \<open>prefixes\<close> and \<open>origins\<close> are the local projections,
  \<open>stored\<close> is the exclusion file, returned as it is left, \<open>writable\<close> whether it can be replaced.
\<close>

definition pulled_records :: "(peer_config \<Rightarrow> peer_record option) \<Rightarrow> peer_config list \<Rightarrow> peer_record list" where
  "pulled_records pull peers =
     List.map_filter (\<lambda>p. opt_filter (\<lambda>r. pr_host_id r = pc_host_id p) (pull p)) peers"

definition pulls_fresh :: "(peer_config \<Rightarrow> peer_record option) \<Rightarrow> peer_config list \<Rightarrow> bool" where
  "pulls_fresh pull peers = list_all (\<lambda>p. is_some_and (\<lambda>r. pr_host_id r = pc_host_id p) (pull p)) peers"

definition refresh_ownership ::
  "bool \<Rightarrow> config \<Rightarrow> (peer_config \<Rightarrow> peer_record option) \<Rightarrow> (string, string) bmap
     \<Rightarrow> (string, string) bmap \<Rightarrow> (string, string) bmap \<Rightarrow> ((string, string) bmap \<times> ownership_cycle) res" where
  "refresh_ownership writable cfg pull prefixes origins stored =
     (case cf_federation cfg of
        None \<Rightarrow> Inr (stored, ownership_default)
      | Some fed \<Rightarrow>
          if fc_peers fed = [] then Inr (stored, ownership_default)
          else let records = pulled_records pull (fc_peers fed); fresh = pulls_fresh pull (fc_peers fed)
            in bind_res (refuse_prefix_collisions prefixes records) (\<lambda>_.
               if fresh
               then if \<not> writable then Inl (Bail ''failed to publish the workspace exclusions'')
                 else let v = resolve_workspace_overlap (fc_host_id fed) origins records (fc_repo_owners fed)
                 in Inr (vd_excluded v, \<lparr> oc_fresh = True, oc_excluded = bm_keys (vd_excluded v),
                      oc_events = vd_events v, oc_records = records \<rparr>)
               else Inr (stored, \<lparr> oc_fresh = False, oc_excluded = bm_keys stored, oc_events = [],
                      oc_records = records \<rparr>)))"

section \<open>Bounded overshoot\<close>

definition overshoot_bound :: "nat list \<Rightarrow> nat" where
  "overshoot_bound steps = sat_sum steps"

text \<open>The last argument of the code is not read.\<close>

definition permitted_launch :: "nat \<Rightarrow> nat \<Rightarrow> nat \<Rightarrow> nat \<Rightarrow> nat \<Rightarrow> nat \<Rightarrow> nat" where
  "permitted_launch want own_workers own_pending peers_committed controller_total bound =
     (let room = sat_sub (sat_sub (sat_sub controller_total own_workers) own_pending) peers_committed
      in min want room)"

datatype pending_entry = Legacy nat | Reserved nat nat

fun pending_count :: "pending_entry \<Rightarrow> nat" where
  "pending_count (Legacy c) = c"
| "pending_count (Reserved c b) = c"

type_synonym pending_map = "(string, pending_entry) bmap"

definition read_pending_launches :: "pending_map \<Rightarrow> string \<Rightarrow> nat" where
  "read_pending_launches m pool = (case bm_get m pool of None \<Rightarrow> 0 | Some e \<Rightarrow> pending_count e)"

definition publish_pending_entry ::
  "(pending_map \<Rightarrow> bool) \<Rightarrow> pending_map \<Rightarrow> string \<Rightarrow> pending_entry option \<Rightarrow> pending_map \<times> unit res" where
  "publish_pending_entry disk m pool entry =
     (let m' = (case entry of Some e \<Rightarrow> bm_put pool e m | None \<Rightarrow> bm_del pool m)
      in if disk m' then (m', Inr ()) else (m, Inl (Bail ''failed to publish pending launches'')))"

definition publish_pending_launches ::
  "(pending_map \<Rightarrow> bool) \<Rightarrow> pending_map \<Rightarrow> string \<Rightarrow> nat \<Rightarrow> pending_map \<times> unit res" where
  "publish_pending_launches disk m pool count =
     publish_pending_entry disk m pool (if 0 < count then Some (Legacy count) else None)"

definition pending_observed :: "pending_map \<Rightarrow> string \<Rightarrow> nat \<Rightarrow> bool" where
  "pending_observed m pool observed =
     (case bm_get m pool of Some (Reserved c b) \<Rightarrow> sat_add b c \<le> observed | _ \<Rightarrow> False)"

definition clear_pending_launches_pool ::
  "(pending_map \<Rightarrow> bool) \<Rightarrow> pending_map \<Rightarrow> string \<Rightarrow> pending_map \<times> unit res" where
  "clear_pending_launches_pool disk m pool = publish_pending_entry disk m pool None"

text \<open>What every peer has committed for the account: workers and pending launches, saturating.\<close>

definition record_committed :: "string \<Rightarrow> peer_record \<Rightarrow> nat" where
  "record_committed fp r =
     sat_sum (map (\<lambda>p. sat_add (pp_governed p) (pp_pending p))
       (concat (map (\<lambda>a. bm_vals (pa_pools a))
          (filter (\<lambda>a. pa_fingerprint a = fp) (bm_vals (pr_accounts r))))))"

definition peers_committed :: "string \<Rightarrow> peer_record list \<Rightarrow> nat" where
  "peers_committed fp records = sat_sum (map (record_committed fp) records)"

record abandoned_event =
  ae_pool :: string
  ae_requested :: nat
  ae_peers_committed :: nat
  ae_controller_total :: nat
  ae_bound :: nat

record launch_decision =
  ld_permitted :: nat
  ld_abandoned :: bool
  ld_events :: "abandoned_event list"

definition pending_baseline :: "pending_map \<Rightarrow> string \<Rightarrow> nat \<Rightarrow> nat" where
  "pending_baseline m pool own_workers =
     (case bm_get m pool of Some (Reserved c b) \<Rightarrow> b | _ \<Rightarrow> own_workers)"

text \<open>
  The gate after the first publication: \<open>m1\<close> is the file then, \<open>previous\<close> the entry before.
\<close>

definition gate_after_pull ::
  "(pending_map \<Rightarrow> bool) \<Rightarrow> pending_map \<Rightarrow> string \<Rightarrow> pending_entry option \<Rightarrow> nat \<Rightarrow> nat \<Rightarrow> nat \<Rightarrow> nat
     \<Rightarrow> nat \<Rightarrow> nat \<Rightarrow> nat \<Rightarrow> pending_map \<times> launch_decision res" where
  "gate_after_pull disk m1 pool previous baseline want own_workers own_pending committed controller_total bound =
     (let permitted = permitted_launch want own_workers own_pending committed controller_total bound
      in if permitted = 0 then
           (case publish_pending_entry disk m1 pool previous of (m2, r) \<Rightarrow>
              (m2, bind_res r (\<lambda>_. Inr \<lparr> ld_permitted = 0, ld_abandoned = True,
                 ld_events = [\<lparr> ae_pool = pool, ae_requested = want, ae_peers_committed = committed,
                   ae_controller_total = controller_total, ae_bound = bound \<rparr>] \<rparr>)))
         else
           (case publish_pending_entry disk m1 pool (Some (Reserved (sat_add own_pending permitted) baseline))
            of (m2, r) \<Rightarrow>
              (m2, bind_res r (\<lambda>_. Inr \<lparr> ld_permitted = permitted, ld_abandoned = False, ld_events = [] \<rparr>))))"

text \<open>\<open>repull\<close> answers what the peers publish; it is asked while the file holds what it is given, so
  that what the peers can have seen of this host is part of its argument.\<close>

definition gate_launch ::
  "(pending_map \<Rightarrow> bool) \<Rightarrow> nat \<Rightarrow> nat \<Rightarrow> nat \<Rightarrow> nat \<Rightarrow> string \<Rightarrow> string \<Rightarrow> pending_map \<Rightarrow> nat \<Rightarrow> nat
     \<Rightarrow> (pending_map \<Rightarrow> peer_record list res) \<Rightarrow> pending_map \<times> launch_decision res" where
  "gate_launch disk want0 local_step_limit own_workers own_pending fp pool m controller_total bound repull =
     (let want = min want0 local_step_limit;
          previous = bm_get m pool;
          baseline = pending_baseline m pool own_workers
      in case publish_pending_entry disk m pool (Some (Reserved (sat_add own_pending want) baseline)) of
           (m1, Inl e) \<Rightarrow> (m1, Inl e)
         | (m1, Inr _) \<Rightarrow>
             (case repull m1 of
                Inl e \<Rightarrow> (case publish_pending_entry disk m1 pool previous of
                    (m2, Inl e2) \<Rightarrow> (m2, Inl e2)
                  | (m2, Inr _) \<Rightarrow> (m2, Inl e))
              | Inr records \<Rightarrow> gate_after_pull disk m1 pool previous baseline want own_workers own_pending
                  (peers_committed fp records) controller_total bound))"

section \<open>Step bounds of a configuration\<close>

text \<open>\<open>config.accounts[name]\<close> panics on a missing account; the callers pass a configured one.\<close>

definition host_step_up :: "account_config \<Rightarrow> (string, host_config) bmap \<Rightarrow> string \<Rightarrow> nat" where
  "host_step_up a hosts h =
     unwrap_or (fl_max_up (ac_fleet a)) (Option.bind (bm_get hosts h) hc_max_up)"

definition federation_hosts :: "federation_config option \<Rightarrow> string list" where
  "federation_hosts f = (case f of None \<Rightarrow> [] | Some f \<Rightarrow> fc_host_id f # map pc_host_id (fc_peers f))"

definition step_up_bound :: "config \<Rightarrow> account_config \<Rightarrow> nat" where
  "step_up_bound cfg a =
     overshoot_bound (case fl_hosts (ac_fleet a) of
        Some hosts \<Rightarrow> map (host_step_up a hosts)
          (sorted_list_of_set (set (bm_keys hosts @ federation_hosts (cf_federation cfg))))
      | None \<Rightarrow> replicate (case cf_federation cfg of None \<Rightarrow> 1 | Some f \<Rightarrow> length (fc_peers f) + 1)
          (fl_max_up (ac_fleet a)))"

definition local_step_limit :: "config \<Rightarrow> account_config \<Rightarrow> nat" where
  "local_step_limit cfg a =
     (case (fl_hosts (ac_fleet a), cf_federation cfg) of
        (Some hosts, Some f) \<Rightarrow> host_step_up a hosts (fc_host_id f)
      | _ \<Rightarrow> fl_max_up (ac_fleet a))"

fun first_violation :: "config \<Rightarrow> (string, account_config) bmap \<Rightarrow> (string \<times> nat \<times> nat) option" where
  "first_violation cfg [] = None"
| "first_violation cfg ((name, a) # rest) =
     (if fl_max_workers (ac_fleet a) < step_up_bound cfg a
      then Some (name, step_up_bound cfg a, fl_max_workers (ac_fleet a))
      else first_violation cfg rest)"

definition overshoot_violation :: "config \<Rightarrow> (string \<times> nat \<times> nat) option" where
  "overshoot_violation cfg =
     (case cf_federation cfg of
        None \<Rightarrow> None
      | Some f \<Rightarrow> if fc_peers f = [] then None else first_violation cfg (cf_accounts cfg))"

end
