(* ===== verification/Ownership_Laws.thy ===== *)
theory Ownership_Laws
  imports Ownership Identity
begin

text \<open>
  The laws of ownership: one host keeps a contested workspace, the gate never admits more than the
  room that is left, and any interleaving of gates keeps the federation at its total.
\<close>

section \<open>Workspaces\<close>

text \<open>Who keeps an origin that the hosts of a set claim.\<close>

definition keeper :: "string \<Rightarrow> (string, string) bmap \<Rightarrow> string set \<Rightarrow> string" where
  "keeper orig repo_owners H = (case bm_get repo_owners orig of Some owner \<Rightarrow> owner | None \<Rightarrow> Min H)"

lemma workspace_owner_keeper:
  "claimants \<noteq> [] \<Longrightarrow> workspace_owner orig repo_owners claimants = keeper orig repo_owners (set claimants)"
proof -
  assume ne: "claimants \<noteq> []"
  then obtain m where m: "min_by_key (\<lambda>c. c) claimants = Some m"
    by (cases "min_by_key (\<lambda>c. c) claimants") auto
  have "m \<in> set claimants" "\<forall>y \<in> set claimants. m \<le> y" using min_by_key_Some [OF m] by auto
  then have "Min (set claimants) = m" by (intro Min_eqI) auto
  then show ?thesis by (simp add: workspace_owner_def keeper_def m split: option.splits)
qed

lemma overlap_entry_iff:
  "overlap_entry h records repo_owners (path, orig) = Some ev \<Longrightarrow> ov_workspace ev = path \<and> ov_origin ev = orig"
  by (auto simp: overlap_entry_def Let_def split: if_splits)

lemma overlap_entry_None:
  "overlap_entry h records repo_owners (path, orig) = None \<longleftrightarrow>
     peers_with_origin records orig = []
     \<or> keeper orig repo_owners (insert h (set (peers_with_origin records orig))) = h"
  using workspace_owner_keeper [of "h # peers_with_origin records orig" orig repo_owners]
  by (auto simp: overlap_entry_def Let_def)

lemma set_map_filter': "set (List.map_filter f xs) = {y. \<exists>x \<in> set xs. f x = Some y}"
  by (force simp: List.map_filter_def)

lemma map_of_None_iff: "map_of es k = None \<longleftrightarrow> k \<notin> fst ` set es"
  by (rule map_of_eq_None_iff)

lemma seedable_iff:
  assumes "bm_ok origins" "bm_get origins path = Some orig"
  shows "is_seedable (resolve_workspace_overlap h origins records repo_owners) path \<longleftrightarrow>
     overlap_entry h records repo_owners (path, orig) = None"
proof -
  let ?f = "overlap_entry h records repo_owners"
  let ?evs = "List.map_filter ?f origins"
  have ws: "path \<in> ov_workspace ` set ?evs \<longleftrightarrow> ?f (path, orig) \<noteq> None"
  proof
    assume "path \<in> ov_workspace ` set ?evs"
    then obtain e ev where e: "e \<in> set origins" "?f e = Some ev" "ov_workspace ev = path"
      by (auto simp: set_map_filter')
    then have "fst e = path" using overlap_entry_iff [of h records repo_owners "fst e" "snd e" ev] by simp
    then have "bm_get origins path = Some (snd e)" using bm_get_Some_iff [OF assms(1), of path "snd e"] e(1) by auto
    then have "e = (path, orig)" using assms(2) \<open>fst e = path\<close> by (cases e) simp
    then show "?f (path, orig) \<noteq> None" using e(2) by simp
  next
    assume "?f (path, orig) \<noteq> None"
    then obtain ev where ev: "?f (path, orig) = Some ev" by blast
    have "ev \<in> set ?evs" using ev bm_get_in [OF assms(2)] by (force simp: set_map_filter')
    then show "path \<in> ov_workspace ` set ?evs" using overlap_entry_iff [OF ev] by force
  qed
  have "is_seedable (resolve_workspace_overlap h origins records repo_owners) path \<longleftrightarrow>
      path \<notin> ov_workspace ` set ?evs"
    by (simp add: is_seedable_def resolve_workspace_overlap_def Let_def bm_get_collect map_of_None_iff
        image_image)
  then show ?thesis using ws by blast
qed

text \<open>
  Hosts that hold the same origin and see each other's records: a host keeps its workspace exactly
  when it is the keeper.
\<close>

lemma kept_iff_keeper:
  assumes "bm_ok origins" "bm_get origins path = Some orig"
    and "set (peers_with_origin records orig) = H - {h}" "h \<in> H" "H \<noteq> {h}"
  shows "is_seedable (resolve_workspace_overlap h origins records repo_owners) path \<longleftrightarrow>
     keeper orig repo_owners H = h"
proof -
  have e: "insert h (set (peers_with_origin records orig)) = H" using assms(3,4) by blast
  have ne: "peers_with_origin records orig \<noteq> []" using assms(3,4,5) by force
  have "is_seedable (resolve_workspace_overlap h origins records repo_owners) path \<longleftrightarrow>
      peers_with_origin records orig = [] \<or> keeper orig repo_owners H = h"
    unfolding seedable_iff [OF assms(1,2)] overlap_entry_None e ..
  then show ?thesis using ne by blast
qed

section \<open>The gate\<close>

lemma permitted_bounds:
  "permitted_launch want own pend committed tot bound \<le> want"
  "permitted_launch want own pend committed tot bound \<le> tot - (own + pend + committed)"
  by (auto simp: permitted_launch_def sat_sub_def Let_def)

lemma sat_sum_ge: "x \<in> set xs \<Longrightarrow> x \<le> u32_max \<Longrightarrow> x \<le> sat_sum xs"
  using member_le_sum_list [of x xs] by (simp add: sat_sum_eq)

text \<open>The result of a gate whose peers answered and whose writes succeed.\<close>

lemma gate_launch_ok:
  fixes want limit own pend tot bound :: nat and fp :: string and records :: "peer_record list"
  assumes "\<forall>m. disk m"
  defines "n \<equiv> permitted_launch (min want limit) own pend (peers_committed fp records) tot bound"
  shows "\<exists>m' ld. gate_launch disk want limit own pend fp pool m tot bound (\<lambda>_. Inr records) = (m', Inr ld)
    \<and> ld_permitted ld = n \<and> ld_abandoned ld = (n = 0)
    \<and> bm_get m' pool = (if n = 0 then bm_get m pool
        else Some (Reserved (sat_add pend n) (pending_baseline m pool own)))
    \<and> (\<forall>q. q \<noteq> pool \<longrightarrow> bm_get m' q = bm_get m q)"
  using assms(1)
  by (auto simp: gate_launch_def gate_after_pull_def publish_pending_entry_def Let_def n_def
      bm_get_put bm_get_del split: option.splits)

text \<open>A failed pull withdraws the intent.\<close>

lemma gate_launch_pull_failed:
  assumes "\<forall>m. disk m"
  shows "\<exists>m'. gate_launch disk want limit own pend fp pool m tot bound (\<lambda>_. Inl e) = (m', Inl e)
    \<and> (\<forall>q. bm_get m' q = bm_get m q)"
  using assms
  by (auto simp: gate_launch_def publish_pending_entry_def Let_def bm_get_put bm_get_del split: option.splits)

section \<open>Interleaved gates\<close>

text \<open>
  The federation as the gate sees it.  A host has granted workers (running or pending), an intent it
  has published on top of them, and possibly a permission it has computed but not yet turned into
  granted workers.
\<close>

record fed_host =
  fd_granted :: nat
  fd_intent :: nat
  fd_permit :: "nat option"

type_synonym 'h federation = "'h \<Rightarrow> fed_host"

definition fd_published :: "fed_host \<Rightarrow> nat" where
  "fd_published h = fd_granted h + fd_intent h"

definition others_published :: "'h::finite federation \<Rightarrow> 'h \<Rightarrow> nat" where
  "others_published f i = (\<Sum>j\<in>UNIV - {i}. fd_published (f j))"

inductive fed_step :: "nat \<Rightarrow> 'h::finite federation \<Rightarrow> 'h federation \<Rightarrow> bool" for ctot where
  publish: "fd_intent (f i) = 0 \<Longrightarrow> fd_permit (f i) = None \<Longrightarrow>
     fed_step ctot f (f(i := (f i)\<lparr> fd_intent := want \<rparr>))"
| pull: "fd_permit (f i) = None \<Longrightarrow> tot \<le> ctot \<Longrightarrow>
     fed_step ctot f (f(i := (f i)\<lparr> fd_permit := Some (permitted_launch (fd_intent (f i)) (fd_granted (f i)) 0
        (others_published f i) tot bound) \<rparr>))"
| commit: "fd_permit (f i) = Some n \<Longrightarrow>
     fed_step ctot f (f(i := \<lparr> fd_granted = fd_granted (f i) + n, fd_intent = 0, fd_permit = None \<rparr>))"
| abandon: "fed_step ctot f (f(i := (f i)\<lparr> fd_intent := 0, fd_permit := None \<rparr>))"
| leave: "n \<le> fd_granted (f i) \<Longrightarrow>
     fed_step ctot f (f(i := (f i)\<lparr> fd_granted := fd_granted (f i) - n \<rparr>))"

inductive_cases fed_stepE: "fed_step ctot f g"

inductive fed_reach :: "nat \<Rightarrow> 'h::finite federation \<Rightarrow> 'h federation \<Rightarrow> bool" for ctot f where
  start: "fed_reach ctot f f"
| step: "fed_reach ctot f g \<Longrightarrow> fed_step ctot g h \<Longrightarrow> fed_reach ctot f h"

lemma fed_reach_trans:
  assumes "fed_reach ctot f g" "fed_reach ctot g h"
  shows "fed_reach ctot f h"
  using assms(2) by (induction rule: fed_reach.induct) (auto intro: fed_reach.step assms(1))

definition fd_due :: "fed_host \<Rightarrow> nat" where
  "fd_due h = fd_granted h + unwrap_or 0 (fd_permit h)"

text \<open>Every permission is covered by the intent it was asked under, and the dues stay in the total.\<close>

definition fed_inv :: "nat \<Rightarrow> 'h::finite federation \<Rightarrow> bool" where
  "fed_inv bound f = ((\<forall>i. unwrap_or 0 (fd_permit (f i)) \<le> fd_intent (f i)) \<and> (\<Sum>i\<in>UNIV. fd_due (f i)) \<le> bound)"

lemma sum_upd: "(\<Sum>j\<in>UNIV. fd_due ((f(i := x)) j)) = (\<Sum>j\<in>UNIV - {i}. fd_due (f j)) + fd_due x"
  for f :: "'h::finite federation"
proof -
  have "(\<Sum>j\<in>UNIV. fd_due ((f(i := x)) j)) = fd_due x + (\<Sum>j\<in>UNIV - {i}. fd_due ((f(i := x)) j))"
    by (subst sum.remove [of UNIV i]) auto
  also have "(\<Sum>j\<in>UNIV - {i}. fd_due ((f(i := x)) j)) = (\<Sum>j\<in>UNIV - {i}. fd_due (f j))"
    by (rule sum.cong) auto
  finally show ?thesis by simp
qed

lemma sum_split: "(\<Sum>j\<in>UNIV. fd_due (f j)) = (\<Sum>j\<in>UNIV - {i}. fd_due (f j)) + fd_due (f i)"
  for f :: "'h::finite federation"
  using sum_upd [of f i "f i"] by simp

lemma fed_inv_shrink:
  assumes "fed_inv b f" "unwrap_or 0 (fd_permit x) \<le> fd_intent x" "fd_due x \<le> fd_due (f i)"
  shows "fed_inv b (f(i := x))"
  using assms sum_upd [of f i x] sum_split [of f i] by (auto simp: fed_inv_def)

lemma fed_step_inv:
  assumes "fed_step ctot f g" "fed_inv b f" "ctot \<le> b"
  shows "fed_inv b g"
  using assms(1)
proof cases
  case (publish i want)
  then show ?thesis using fed_inv_shrink [OF assms(2), of _ i] by (simp add: fd_due_def)
next
  case (pull i tot bound)
  let ?n = "permitted_launch (fd_intent (f i)) (fd_granted (f i)) 0 (others_published f i) tot bound"
  have "fd_due (f j) \<le> fd_published (f j)" for j
    using assms(2) by (simp add: fed_inv_def fd_due_def fd_published_def)
  then have le: "(\<Sum>j\<in>UNIV - {i}. fd_due (f j)) \<le> others_published f i"
    unfolding others_published_def by (intro sum_mono)
  have n: "?n \<le> fd_intent (f i)" "?n \<le> tot - (fd_granted (f i) + others_published f i)"
    using permitted_bounds [of "fd_intent (f i)" "fd_granted (f i)" 0 "others_published f i" tot bound] by auto
  have "(\<Sum>j\<in>UNIV - {i}. fd_due (f j)) + (fd_granted (f i) + ?n) \<le> b"
  proof (cases "?n = 0")
    case True
    then show ?thesis using assms(2) pull(2) sum_split [of f i] by (simp add: fed_inv_def fd_due_def)
  next
    case False
    then show ?thesis using n(2) le pull(3) assms(3) by linarith
  qed
  then show ?thesis using assms(2) n(1) sum_upd [of f i] unfolding pull(1)
    by (auto simp: fed_inv_def fd_due_def)
next
  case (commit i n)
  then show ?thesis using fed_inv_shrink [OF assms(2), of _ i] by (simp add: fd_due_def)
next
  case (abandon i)
  then show ?thesis using fed_inv_shrink [OF assms(2), of _ i] by (simp add: fd_due_def)
next
  case (leave n i)
  then show ?thesis using fed_inv_shrink [OF assms(2), of _ i] assms(2) by (auto simp: fd_due_def fed_inv_def)
qed

lemma fed_reach_inv: "fed_reach ctot f g \<Longrightarrow> fed_inv b f \<Longrightarrow> ctot \<le> b \<Longrightarrow> fed_inv b g"
  by (induction rule: fed_reach.induct) (auto intro: fed_step_inv)

section \<open>Every outcome of the gate\<close>

text \<open>How a gate can end: nothing was published; the intent was published and stays, or was withdrawn;
  or the answer of the pull left room and the grant is what the file holds.\<close>

inductive gate_outcome ::
  "pending_map \<Rightarrow> string \<Rightarrow> nat \<Rightarrow> nat \<Rightarrow> nat \<Rightarrow> nat \<Rightarrow> nat \<Rightarrow> string \<Rightarrow> (pending_map \<Rightarrow> peer_record list res)
     \<Rightarrow> pending_map \<Rightarrow> launch_decision res \<Rightarrow> bool" for m pool own pend want tot bound fp repull where
  unpublished: "read_pending_launches m' pool = pend \<Longrightarrow>
     gate_outcome m pool own pend want tot bound fp repull m' (Inl e)"
| kept: "read_pending_launches m' pool = pend + want \<Longrightarrow>
     gate_outcome m pool own pend want tot bound fp repull m' (Inl e)"
| decided: "repull m1 = Inr records \<Longrightarrow> read_pending_launches m1 pool = pend + want \<Longrightarrow>
     ld_permitted ld = permitted_launch want own pend (peers_committed fp records) tot bound \<Longrightarrow>
     read_pending_launches m' pool = pend + ld_permitted ld \<Longrightarrow>
     gate_outcome m pool own pend want tot bound fp repull m' (Inr ld)"

lemma read_put [simp]: "read_pending_launches (bm_put pool e m) pool = pending_count e"
  by (simp add: read_pending_launches_def bm_get_put)

lemma publish_restores:
  "read_pending_launches (case bm_get m pool of Some e \<Rightarrow> bm_put pool e m1 | None \<Rightarrow> bm_del pool m1) pool
     = read_pending_launches m pool"
  "q \<noteq> pool \<Longrightarrow> bm_get (case bm_get m pool of Some e \<Rightarrow> bm_put pool e m1 | None \<Rightarrow> bm_del pool m1) q = bm_get m1 q"
  by (auto simp: read_pending_launches_def bm_get_put bm_get_del split: option.splits)

lemma gate_launch_outcomes:
  fixes disk want limit own pend fp pool m tot bound repull
  defines "intended \<equiv> bm_put pool (Reserved (pend + min want limit) (pending_baseline m pool own)) m"
  assumes res: "gate_launch disk want limit own pend fp pool m tot bound repull = (m', r)"
    and pend: "read_pending_launches m pool = pend" and fits: "pend + min want limit \<le> u32_max"
  shows "gate_outcome m pool own pend (min want limit) tot bound fp repull m' r"
    and "\<forall>q. q \<noteq> pool \<longrightarrow> bm_get m' q = bm_get m q"
    and "\<forall>ld. r = Inr ld \<longrightarrow> (\<exists>records. repull intended = Inr records
         \<and> ld_permitted ld = min (min want limit) (tot - (own + pend + peers_committed fp records)))"
    and "(\<forall>m. disk m) \<longrightarrow> (\<exists>records. repull intended = Inr records) \<longrightarrow> (\<exists>ld. r = Inr ld)"
proof -
  let ?w = "min want limit"
  define ans where "ans = repull intended"
  define undone where "undone = (case bm_get m pool of Some e \<Rightarrow> bm_put pool e intended | None \<Rightarrow> bm_del pool intended)"
  have undone: "read_pending_launches undone pool = pend" "q \<noteq> pool \<Longrightarrow> bm_get undone q = bm_get m q" for q
    using publish_restores [where m = m and pool = pool and ?m1.0 = intended] pend by (simp_all add: undone_def intended_def bm_get_put)
  define n where "n = (case ans of Inl _ \<Rightarrow> 0 | Inr records \<Rightarrow>
      permitted_launch ?w own pend (peers_committed fp records) tot bound)"
  define granted where "granted = bm_put pool (Reserved (pend + n) (pending_baseline m pool own)) intended"
  have n: "n \<le> ?w"
    by (cases ans) (simp_all add: n_def permitted_bounds(1) del: min.bounded_iff)
  have sat: "sat_add pend ?w = pend + ?w" "sat_add pend n = pend + n"
    using fits n by (auto intro!: sat_add_exact simp del: min.bounded_iff)
  have shape: "\<not> disk intended \<and> m' = m \<and> (\<exists>e. r = Inl e)
    \<or> disk intended \<and> (\<exists>e. ans = Inl e) \<and> m' = (if disk undone then undone else intended) \<and> (\<exists>e. r = Inl e)
    \<or> disk intended \<and> (\<exists>rs. ans = Inr rs) \<and> n = 0 \<and> m' = (if disk undone then undone else intended)
        \<and> (if disk undone then \<exists>ld. r = Inr ld \<and> ld_permitted ld = n else \<exists>e. r = Inl e)
    \<or> disk intended \<and> (\<exists>rs. ans = Inr rs) \<and> n \<noteq> 0 \<and> m' = (if disk granted then granted else intended)
        \<and> (if disk granted then \<exists>ld. r = Inr ld \<and> ld_permitted ld = n else \<exists>e. r = Inl e)"
  proof (cases "disk intended")
    case True
    show ?thesis
    proof (cases ans)
      case (Inl e)
      then show ?thesis using res True
        by (auto simp: gate_launch_def publish_pending_entry_def Let_def sat intended_def [symmetric]
            ans_def [symmetric] undone_def [symmetric] split: if_splits)
    next
      case (Inr rs)
      have nn: "permitted_launch ?w own pend (peers_committed fp rs) tot bound = n" by (simp add: n_def Inr)
      show ?thesis using res True Inr
        by (auto simp: gate_launch_def publish_pending_entry_def Let_def sat intended_def [symmetric]
            ans_def [symmetric] undone_def [symmetric] granted_def [symmetric] gate_after_pull_def nn split: if_splits)
    qed
  next
    case False
    then show ?thesis using res
      by (auto simp: gate_launch_def publish_pending_entry_def Let_def sat intended_def [symmetric])
  qed
  have reads: "read_pending_launches intended pool = pend + ?w" "read_pending_launches granted pool = pend + n"
    by (simp_all add: intended_def granted_def)
  have dec: "gate_outcome m pool own pend ?w tot bound fp repull m1 (Inr ld)"
    if "ans = Inr rs" "ld_permitted ld = n" "read_pending_launches m1 pool = pend + n" for rs ld m1
    using that decided [of repull intended rs pool pend ?w ld own fp tot bound m1 m] reads(1)
    by (simp add: n_def ans_def)
  show "gate_outcome m pool own pend ?w tot bound fp repull m' r"
    using shape pend reads undone(1) dec
    by (elim disjE) (auto intro: unpublished kept split: if_splits)
  show "\<forall>q. q \<noteq> pool \<longrightarrow> bm_get m' q = bm_get m q"
    using shape undone(2) by (auto simp: intended_def granted_def bm_get_put split: if_splits)
  show "\<forall>ld. r = Inr ld \<longrightarrow> (\<exists>records. repull intended = Inr records
         \<and> ld_permitted ld = min ?w (tot - (own + pend + peers_committed fp records)))"
    using shape by (auto simp: n_def ans_def permitted_launch_def sat_sub_def split: if_splits)
  show "(\<forall>m. disk m) \<longrightarrow> (\<exists>records. repull intended = Inr records) \<longrightarrow> (\<exists>ld. r = Inr ld)"
    using shape by (auto simp: ans_def)
qed

text \<open>Each of them is a run of the interleaved model.\<close>

lemma gate_outcome_runs:
  fixes f :: "'h::finite federation"
  assumes "gate_outcome m pool own pend want tot bound fp repull m' r"
    and fi: "f i = \<lparr> fd_granted = own + pend, fd_intent = 0, fd_permit = None \<rparr>"
    and pull: "\<And>m1 records. repull m1 = Inr records \<Longrightarrow> \<exists>g.
      fed_reach tot (f(i := (f i)\<lparr> fd_intent := read_pending_launches m1 pool - pend \<rparr>)) g
      \<and> g i = (f i)\<lparr> fd_intent := read_pending_launches m1 pool - pend \<rparr>
      \<and> others_published g i = peers_committed fp records"
  shows "\<exists>F. fed_reach tot f F \<and> fd_permit (F i) = None
      \<and> fd_granted (F i) = own + pend + (case r of Inl _ \<Rightarrow> 0 | Inr ld \<Rightarrow> ld_permitted ld)
      \<and> fd_published (F i) = own + read_pending_launches m' pool"
  using assms(1)
proof cases
  case (unpublished e)
  then show ?thesis using fed_reach.start [of tot f] fi by (auto simp: fd_published_def intro!: exI [of _ f])
next
  case (kept e)
  have "fed_step tot f (f(i := (f i)\<lparr> fd_intent := want \<rparr>))" by (rule fed_step.publish) (simp_all add: fi)
  from fed_reach.step [OF fed_reach.start this] show ?thesis using kept fi
    by (auto simp: fd_published_def intro!: exI [of _ "f(i := (f i)\<lparr> fd_intent := want \<rparr>)"])
next
  case (decided m1 records ld)
  obtain g where g: "fed_reach tot (f(i := (f i)\<lparr> fd_intent := want \<rparr>)) g" "g i = (f i)\<lparr> fd_intent := want \<rparr>"
      "others_published g i = peers_committed fp records"
    using pull [OF decided(2)] decided(3) by auto
  have s1: "fed_step tot f (f(i := (f i)\<lparr> fd_intent := want \<rparr>))" by (rule fed_step.publish) (simp_all add: fi)
  let ?g2 = "g(i := (g i)\<lparr> fd_permit := Some (ld_permitted ld) \<rparr>)"
  have "permitted_launch (fd_intent (g i)) (fd_granted (g i)) 0 (others_published g i) tot bound = ld_permitted ld"
    using decided(4) g(2,3) fi by (simp add: permitted_launch_def sat_sub_def)
  then have s2: "fed_step tot g ?g2" using fed_step.pull [of g i tot tot bound] g(2) fi by simp
  let ?g3 = "?g2(i := \<lparr> fd_granted = fd_granted (?g2 i) + ld_permitted ld, fd_intent = 0, fd_permit = None \<rparr>)"
  have s3: "fed_step tot ?g2 ?g3" by (rule fed_step.commit) simp
  have "fed_reach tot f ?g3"
    using fed_reach_trans [OF fed_reach.step [OF fed_reach.start s1] g(1)] s2 s3 by (blast intro: fed_reach.step)
  then show ?thesis using decided g(2) fi by (auto simp: fd_published_def intro!: exI [of _ ?g3])
qed

end
