(* ===== verification/Burn_Laws.thy ===== *)
theory Burn_Laws
  imports Burn
begin

text \<open>
  The laws of the burn-rate estimators: the conversion of a rate into workers is exact up to one
  worker, estimates come out positive, a rolling window never spans a reset or a gap, and the
  exogenous part of an aggregate rate lies inside it.
\<close>

section \<open>Workers for a rate\<close>

lemma f_lit_nonneg: "0 \<le> q \<Longrightarrow> q \<le> 1 \<Longrightarrow> f_lit q = Fin (rq q) \<and> 0 \<le> rq q \<and> rq q \<le> 1"
proof -
  assume q: "0 \<le> q" "q \<le> 1"
  have r: "0 \<le> rq q" "rq q \<le> 1" using rq_nonneg q rq_mono [OF q(2)] rq_int [of 1] by auto
  moreover have "(1::rat) < f64_huge" unfolding f64_huge_def by (rule one_less_power) simp_all
  ultimately show ?thesis using q by (auto simp: f_lit_def rnd_def Let_def)
qed

definition near :: rat where "near = rq (1 / 1000000000)"

lemma near_lit: "f_lit (1 / 1000000000) = Fin near" "0 \<le> near" "near \<le> 1" "rq near = near"
  using f_lit_nonneg [of "1 / 1000000000"] by (simp_all add: near_def rq_idem)

lemma fround_pos: "0 \<le> q \<Longrightarrow> fround (Fin q) = Fin (of_int \<lfloor>q + 1/2\<rfloor>)"
  by simp

lemma fceil_pos: "0 \<le> q \<Longrightarrow> fceil (Fin q) = Fin (of_int \<lceil>q\<rceil>)"
  by simp

text \<open>A rounded difference below the tolerance is a difference below it.\<close>

lemma near_diff:
  assumes "\<bar>p - q\<bar> \<le> 1" "flt (fabs (fsub (Fin p) (Fin q))) (Fin near)"
  shows "\<bar>p - q\<bar> < near"
proof (rule ccontr)
  assume "\<not> \<bar>p - q\<bar> < near"
  then have "near \<le> rq \<bar>p - q\<bar>" using rq_mono [of near "\<bar>p - q\<bar>"] near_lit(4) by simp
  moreover have "rq \<bar>x\<bar> = \<bar>rq x\<bar>" for x
    using rq_nonneg [of x] rq_nonneg [of "- x"] by (cases "0 \<le> x") (auto simp: rq_minus abs_if)
  ultimately have le: "near \<le> \<bar>rq (p - q)\<bar>" by simp
  have fin: "fval (fabs (rnd (p - q))) = \<bar>rq (p - q)\<bar>" "is_fin (rnd (p - q))"
  proof -
    have "rq \<bar>p - q\<bar> \<le> 1" using rq_mono [OF assms(1)] rq_int [of 1] by simp
    moreover have "(1::rat) < f64_huge" unfolding f64_huge_def by (rule one_less_power) simp_all
    moreover have "\<bar>rq (p - q)\<bar> = rq \<bar>p - q\<bar>"
      using rq_nonneg [of "p - q"] rq_nonneg [of "q - p"] rq_minus [of "p - q"]
      by (cases "0 \<le> p - q") (auto simp: abs_if)
    ultimately have "\<bar>rq (p - q)\<bar> < f64_huge" by linarith
    then show "fval (fabs (rnd (p - q))) = \<bar>rq (p - q)\<bar>" "is_fin (rnd (p - q))"
      by (auto simp: rnd_def Let_def)
  qed
  have "fsub (Fin p) (Fin q) = rnd (p - q) \<or> q = 0 \<and> fsub (Fin p) (Fin q) = rnd p"
    by (auto simp: fsub_def fadd_def)
  then have "fsub (Fin p) (Fin q) = rnd (p - q)" by auto
  then have "flt (fabs (rnd (p - q))) (Fin near)" using assms(2) by simp
  then have "fval (fabs (rnd (p - q))) < near" using fin(2) by (cases "rnd (p - q)") auto
  with fin le show False by simp
qed

lemma workers_for_rate_close:
  assumes ratio: "fdiv required per_worker = Fin q" and q: "0 \<le> q" "q \<le> of_nat u32_max - 1"
  shows "q - near < of_nat (workers_for_rate required per_worker) \<or> q \<le> of_nat (workers_for_rate required per_worker)"
    "of_nat (workers_for_rate required per_worker) < q + 1"
proof -
  let ?n = "workers_for_rate required per_worker"
  define k where "k = (if flt (fabs (fsub (Fin q) (fround (Fin q)))) (f_lit (1/1000000000))
    then \<lfloor>q + 1/2\<rfloor> else \<lceil>q\<rceil>)"
  have "(of_int \<lfloor>q + 1/2\<rfloor> :: rat) \<le> q + 1/2" "q + 1/2 < of_int \<lfloor>q + 1/2\<rfloor> + 1" by linarith+
  then have rd: "\<bar>q - of_int \<lfloor>q + 1/2\<rfloor>\<bar> \<le> 1" by linarith
  have cl: "q \<le> of_int \<lceil>q\<rceil>" "of_int \<lceil>q\<rceil> < q + 1" by linarith+
  have k: "(q - near < of_int k \<or> q \<le> of_int k)" "of_int k < q + 1" "0 \<le> k"
  proof -
    show "q - near < of_int k \<or> q \<le> of_int k"
      using near_diff [OF rd] cl q by (auto simp: k_def near_lit fround_pos)
    show "of_int k < q + 1"
    proof (cases "flt (fabs (fsub (Fin q) (fround (Fin q)))) (f_lit (1/1000000000))")
      case True
      then have "\<bar>q - of_int \<lfloor>q + 1/2\<rfloor>\<bar> < near"
        using near_diff [OF rd] q by (simp add: near_lit fround_pos del: fround.simps)
      then show ?thesis using True near_lit(3) by (simp add: k_def abs_less_iff del: fround.simps)
    next
      case False
      then show ?thesis using cl(2) by (simp add: k_def)
    qed
    show "0 \<le> k" using q by (auto simp: k_def)
  qed
  have "(of_int k :: rat) < of_nat u32_max" using k(2) q(2) by linarith
  then have ku: "k < int u32_max" by (metis of_int_less_iff of_int_of_nat_eq)
  have u: "f_of_nat u32_max = Fin (of_nat u32_max)"
  proof -
    have "rq (of_nat u32_max) = of_nat u32_max" using rq_int [of "int u32_max"] by (simp add: u32_max_def)
    moreover have "(of_nat u32_max :: rat) < f64_huge"
    proof -
      have "(of_nat u32_max :: rat) < 2 ^ 32" by (simp add: u32_max_def)
      also have "\<dots> \<le> f64_huge" unfolding f64_huge_def by (rule power_increasing) simp_all
      finally show ?thesis .
    qed
    ultimately show ?thesis by (auto simp: f_of_nat_def f_of_int_def rnd_def Let_def)
  qed
  have "?n = f_to_u32 (fmin (fmax (Fin (of_int k)) (Fin 0)) (Fin (of_nat u32_max)))"
    using q by (simp add: workers_for_rate_def ratio k_def u fround_pos fceil_pos del: fround.simps fceil.simps)
  also have "fmax (Fin (of_int k)) (Fin 0) = Fin (of_int k)"
    using k(3) by (auto simp: fmax_def)
  also have "fmin (Fin (of_int k)) (Fin (of_nat u32_max)) = Fin (of_int k)"
    using ku by (auto simp: fmin_def)
  also have "f_to_u32 (Fin (of_int k)) = nat k" using ku k(3) by simp
  finally have "?n = nat k" .
  then have "(of_nat ?n :: rat) = of_int k" using k(3) by simp
  then show "q - near < of_nat ?n \<or> q \<le> of_nat ?n" "of_nat ?n < q + 1" using k by simp_all
qed

section \<open>Rolling windows\<close>

text \<open>Two consecutive samples the rolling estimate may join.\<close>

definition joinable :: "chrono \<Rightarrow> nat \<Rightarrow> aggregate_sample \<Rightarrow> aggregate_sample \<Rightarrow> bool" where
  "joinable ch stale a b = (ag_observed_at a \<le> ag_observed_at b
     \<and> (\<exists>lim. try_seconds_u64 ch stale = Some lim \<and> ag_observed_at b - ag_observed_at a \<le> lim)
     \<and> \<not> flt (ag_used_fraction b) (ag_used_fraction a) \<and> 0 < ag_workers a)"

lemma window_burn_loop_unbroken:
  "window_burn_loop ch resets_at stale prev acc xs = Some r \<Longrightarrow>
     (\<forall>x \<in> set xs. same_reset_generation ch (ag_resets_at x) resets_at)
     \<and> (\<forall>(a, b) \<in> set (pairs (case prev of None \<Rightarrow> xs | Some p \<Rightarrow> p # xs)). joinable ch stale a b)"
proof (induction xs arbitrary: prev acc)
  case Nil
  then show ?case by (cases prev) auto
next
  case (Cons x xs)
  obtain burned hours where acc: "acc = (burned, hours)" by (cases acc)
  show ?case
  proof (cases prev)
    case None
    then show ?thesis using Cons.prems Cons.IH [of "Some x" acc] by (auto simp: acc split: if_splits)
  next
    case (Some p)
    let ?acc = "(fadd burned (fsub (ag_used_fraction x) (ag_used_fraction p)),
      fadd hours (fmul (hours_of ch (ag_observed_at x - ag_observed_at p)) (f_of_nat (ag_workers p))))"
    have "joinable ch stale p x" "same_reset_generation ch (ag_resets_at x) resets_at"
      "window_burn_loop ch resets_at stale (Some x) ?acc xs = Some r"
      using Cons.prems by (auto simp: acc Some joinable_def Let_def is_none_or_def split: if_splits option.splits)
    then show ?thesis using Cons.IH [of "Some x" ?acc] by (simp add: Some)
  qed
qed

section \<open>The exogenous part\<close>

lemma fclamp_between: "fclamp x lo hi = Inr y \<Longrightarrow> y = NaN \<or> fle lo y \<and> fle y hi"
  by (cases x; cases lo; cases hi) (auto simp: fclamp_def split: if_splits)

lemma fclamp_fle: "fclamp x lo hi = Inr y \<Longrightarrow> x \<noteq> NaN \<Longrightarrow> fle lo y \<and> fle y hi"
  by (cases x; cases lo; cases hi) (auto simp: fclamp_def split: if_splits)

lemma set_f_insert: "set (f_insert x xs) = insert x (set xs)"
  by (induction xs) auto

lemma set_f_sort: "set (f_sort xs) = set xs"
  by (induction xs) (auto simp: f_sort_def set_f_insert)

lemma length_f_insert: "length (f_insert x xs) = Suc (length xs)"
  by (induction xs) auto

lemma length_f_sort: "length (f_sort xs) = length xs"
  by (induction xs) (auto simp: f_sort_def length_f_insert)

lemma median_in: "xs \<noteq> [] \<Longrightarrow> f_sort xs ! (length xs div 2) \<in> set xs"
  using nth_mem [of "length xs div 2" "f_sort xs"] by (simp add: set_f_sort length_f_sort)

text \<open>The split by regression over the bands never leaves the aggregate rate.\<close>

lemma exogenous_inside:
  assumes "estimate_exogenous_burn intervals aggregate = Inr (Some x)"
  shows "x = NaN \<or> fle (Fin 0) x \<and> fle x aggregate"
  using assms unfolding estimate_exogenous_burn_def Let_def
  by (auto simp: bind_res_Inr_iff split: option.splits if_splits prod.splits dest!: fclamp_between)

end
