(* ===== verification/Samples.thy ===== *)
theory Samples
  imports Saturation_Laws Shared_Total Ownership_Laws Burn_Laws
begin

text \<open>
  Concrete configurations, snapshots and states: a fleet of one to ten workers on an account with a
  target of seven eighths.  The theorems are applied to them to show that their hypotheses can hold.
\<close>

definition secs :: "int \<Rightarrow> int" where "secs s = s * 1000000000"

definition fleet1 :: fleet_config where
  "fleet1 = \<lparr> fl_min_workers = 1, fl_max_workers = 10, fl_bootstrap = 2, fl_max_up = 2, fl_max_down = 1,
     fl_observer = None, fl_actuator = ActNone, fl_reconciliation = Strict, fl_hosts = None,
     fl_takeover = [], fl_takeover_helper = None \<rparr>"

definition util1 :: utilization_config where
  "util1 = \<lparr> ut_target = Some (Fin (7/8)), ut_reserve = None, ut_strategy = LinearToReset,
     ut_stale_after = 600, ut_stale_behavior = StaleHold, ut_min_sample_seconds = 60,
     ut_backpressure = None, ut_zai_saturation = Some zai_saturation_default, ut_windows = [] \<rparr>"

definition acct1 :: account_config where
  "acct1 = \<lparr> ac_source = NormalizedFile ''quota.json'', ac_fleet = fleet1, ac_util = util1,
     ac_banked = banked_reset_default \<rparr>"

definition acct2 :: account_config where
  "acct2 = acct1\<lparr> ac_banked := banked_reset_default\<lparr> br_enabled := True, br_redeem_at := Fin (15/16) \<rparr> \<rparr>"

definition win5h :: quota_window where
  "win5h = \<lparr> qw_id = ''5h'', qw_used_fraction = Fin (1/2), qw_resets_at = secs 7200,
     qw_duration_minutes = Some 300, qw_reached = False \<rparr>"

definition win7d :: quota_window where
  "win7d = \<lparr> qw_id = ''7d'', qw_used_fraction = Fin (1/4), qw_resets_at = secs 360000,
     qw_duration_minutes = Some 10080, qw_reached = False \<rparr>"

definition snap1 :: quota_snapshot where
  "snap1 = \<lparr> qs_observed_at = secs 3600, qs_fresh = True, qs_windows = [win5h, win7d],
     qs_backlog = Some 8, qs_reset_credits = None, qs_backpressure = None, qs_saturation = None \<rparr>"

definition snap_stale :: quota_snapshot where
  "snap_stale = snap1\<lparr> qs_fresh := False \<rparr>"

definition credits1 :: reset_credits_snapshot where
  "credits1 = \<lparr> rcs_available_count = 1, rcs_credits = Some [\<lparr> rc_id = ''c1'', rc_reset_type = None,
     rc_status = ''available'', rc_granted_at = None, rc_expires_at = Some (secs 20000),
     rc_title = None, rc_description = None \<rparr>] \<rparr>"

definition snap_redeem :: quota_snapshot where
  "snap_redeem = snap1\<lparr> qs_windows := [win7d\<lparr> qw_used_fraction := Fin (31/32) \<rparr>],
     qs_reset_credits := Some credits1 \<rparr>"

definition prior1 :: account_state where
  "prior1 = account_state_default\<lparr> as_windows := [(''5h'', \<lparr> wsm_observed_at = 0,
     wsm_used_fraction = Fin (1/4), wsm_resets_at = secs 7200, wsm_workers = 4 \<rparr>)] \<rparr>"

text \<open>The sample account decides on the sample snapshots.\<close>

lemma acct1_fleet: "fl_min_workers (ac_fleet acct1) \<le> fl_max_workers (ac_fleet acct1)"
  and acct2_fleet: "fl_min_workers (ac_fleet acct2) \<le> fl_max_workers (ac_fleet acct2)"
  by (simp_all add: acct1_def acct2_def fleet1_def)

lemma acct1_ready: "has_target (ac_util acct1)" "\<not> br_enabled (ac_banked acct1)"
  by (simp_all add: has_target_def acct1_def util1_def banked_reset_default_def)

lemma acct1_policy: "policy_for (ac_util acct1) wid \<noteq> Inr None"
  by (simp add: policy_for_def acct1_def util1_def bm_get_def Let_def)

lemma acct1_decides:
  assumes "qs_windows sn \<noteq> []"
  shows "\<exists>d. evaluate ch name acct1 sn prior current now = Inr d \<and> dc_banked d = None"
  using evaluate_cases [OF acct1_ready(1) acct1_fleet acct1_ready(2), of ch sn now name prior current]
    assms acct1_policy by (auto simp: neq_Nil_conv split: if_splits)

lemma snap1_fresh: "\<not> snapshot_stale chrono_ref acct1 snap1 (secs 3660)"
  by (simp add: snapshot_stale_def snap1_def acct1_def util1_def age_seconds_def chrono_ref_def
      trunc_div_def max0_as_u64_def secs_def)

lemma snap1_windows: "qs_windows snap1 \<noteq> []" "qs_windows snap_stale \<noteq> []"
  by (simp_all add: snap1_def snap_stale_def)

end
