(* ===== verification/Quota_Properties.thy ===== *)
theory Quota_Properties
  imports Samples
begin

text \<open>
  What the quota decision of an account guarantees: the bounds of its result, its totality, the window
  that binds it, the redemption hold, and the accuracy of the estimates behind it.
\<close>

text \<open>C1: A decision never exceeds the fleet's largest size, never scales up by more than the step
  limit (beyond the configured minimum), and, unless it is a stale hold, never starts workers beyond
  the observed backlog.\<close>

theorem evaluate_bounded:
  assumes "evaluate ch name cfg sn prior current now = Inr d"
    and "fl_min_workers (ac_fleet cfg) \<le> fl_max_workers (ac_fleet cfg)"
  shows "dc_current d = current \<and> dc_desired d \<le> fl_max_workers (ac_fleet cfg)
    \<and> dc_desired d \<le> max (fl_min_workers (ac_fleet cfg)) (current + fl_max_up (ac_fleet cfg))
    \<and> (dc_stale d \<or> dc_desired d \<le> max current (unwrap_or u32_max (qs_backlog sn)))"
  using evaluate_bounds [OF assms] by blast

theorem evaluate_bounded_witness:
  "\<exists>d. evaluate chrono_ref ''a'' acct1 snap1 prior1 4 (secs 3660) = Inr d \<and> dc_desired d \<le> 10"
proof -
  obtain d where d: "evaluate chrono_ref ''a'' acct1 snap1 prior1 4 (secs 3660) = Inr d"
    using acct1_decides snap1_windows by blast
  from evaluate_bounded [OF d acct1_fleet] d show ?thesis by (simp add: acct1_def fleet1_def)
qed

text \<open>C2: A stale observation, by its own flag or by its age, never raises the worker count, whatever
  the configured stale behaviour and fleet minimum are, and yields no window decision.\<close>

theorem stale_never_scales_up:
  assumes "evaluate ch name cfg sn prior current now = Inr d"
    and "fl_min_workers (ac_fleet cfg) \<le> fl_max_workers (ac_fleet cfg)"
    and "\<not> qs_fresh sn \<or> ut_stale_after (ac_util cfg) < age_seconds ch now (qs_observed_at sn)"
  shows "dc_stale d \<and> dc_desired d \<le> current \<and> dc_windows d = []"
proof -
  have "snapshot_stale ch cfg sn now" using assms(3) by (simp add: snapshot_stale_def)
  then show ?thesis
    using stale_decision_Inr [OF assms(2), of name sn current] assms(1) by (auto simp: evaluate_stale)
qed

theorem stale_never_scales_up_witness:
  "\<exists>d. evaluate chrono_ref ''a'' acct1 snap_stale prior1 4 (secs 3660) = Inr d \<and> dc_desired d \<le> 4"
proof -
  obtain d where d: "evaluate chrono_ref ''a'' acct1 snap_stale prior1 4 (secs 3660) = Inr d"
    using acct1_decides snap1_windows by blast
  have "\<not> qs_fresh snap_stale" by (simp add: snap_stale_def)
  then show ?thesis using stale_never_scales_up [OF d acct1_fleet] d by blast
qed

text \<open>Without banked resets, an account with a target and ordered fleet bounds always gets a
  decision, never a panic; the only error is the one for a fresh snapshot none of whose windows is
  enabled.\<close>

theorem evaluate_total:
  assumes "has_target (ac_util cfg)" "fl_min_workers (ac_fleet cfg) \<le> fl_max_workers (ac_fleet cfg)"
    and "\<not> br_enabled (ac_banked cfg)"
  shows "if snapshot_stale ch cfg sn now
       \<or> (\<exists>w \<in> set (qs_windows sn). policy_for (ac_util cfg) (qw_id w) \<noteq> Inr None)
     then \<exists>d. evaluate ch name cfg sn prior current now = Inr d
     else evaluate ch name cfg sn prior current now =
       Inl (Bail (''account '' @ name @ '': no enabled quota windows were observed''))"
  using evaluate_cases [OF assms, of ch sn now name prior current] by (auto split: if_splits)

theorem evaluate_total_witness:
  "\<exists>d. evaluate chrono_ref ''a'' acct1 snap1 prior1 4 (secs 3660) = Inr d"
proof -
  have "\<exists>w \<in> set (qs_windows snap1). policy_for (ac_util acct1) (qw_id w) \<noteq> Inr None"
    by (auto simp: snap1_def acct1_policy)
  then show ?thesis
    using evaluate_total [OF acct1_ready(1) acct1_fleet acct1_ready(2), of chrono_ref snap1 "secs 3660" "''a''" prior1 4]
    by simp
qed

text \<open>C3: The window that binds a fresh decision is one with the smallest count, and without a banked
  plan that count, limited by backlog and by the step, is the decision.\<close>

theorem binding_window_is_least:
  assumes "evaluate ch name cfg sn prior current now = Inr d" "\<not> dc_stale d"
    and "fl_min_workers (ac_fleet cfg) \<le> fl_max_workers (ac_fleet cfg)"
  shows "\<exists>b \<in> set (dc_windows d). dc_binding d = Some (wd_id b)
    \<and> (\<forall>w \<in> set (dc_windows d). wd_desired b \<le> wd_desired w)
    \<and> (dc_banked d = None \<longrightarrow>
        (let cap = unwrap_or u32_max (qs_backlog sn)
         in dc_desired d = min (account_step (ac_fleet cfg) (min (wd_desired b) cap) current) (max current cap)))"
proof -
  have "\<not> snapshot_stale ch cfg sn now" using evaluate_bounds(5) [OF assms(1,3)] assms(2) by simp
  then obtain ds banked where ds: "ds \<noteq> []" "dc_windows d = ds"
      "dc_binding d = map_option wd_id (min_by_key wd_desired ds)" "dc_banked d = banked"
    and b: "bound_desired cfg sn current (arbitrate cfg sn ds
        (unwrap_or current (map_option wd_desired (min_by_key wd_desired ds))) banked) banked = Inr (dc_desired d)"
    using evaluate_fresh [OF assms(1)] by metis
  obtain m where m: "min_by_key wd_desired ds = Some m"
    using ds(1) by (cases "min_by_key wd_desired ds") auto
  have "dc_banked d = None \<Longrightarrow> (let cap = unwrap_or u32_max (qs_backlog sn)
         in dc_desired d = min (account_step (ac_fleet cfg) (min (wd_desired m) cap) current) (max current cap))"
    using ds(4) b m by (simp add: arbitrate_def bound_desired_def Let_def apply_step_limits_ok [OF assms(3)])
  then show ?thesis using min_by_key_Some [OF m] ds m by (intro bexI [of _ m]) auto
qed

theorem binding_window_is_least_witness:
  "\<exists>d. evaluate chrono_ref ''a'' acct1 snap1 prior1 4 (secs 3660) = Inr d
     \<and> (\<exists>b \<in> set (dc_windows d). dc_binding d = Some (wd_id b))"
proof -
  obtain d where d: "evaluate chrono_ref ''a'' acct1 snap1 prior1 4 (secs 3660) = Inr d"
    using acct1_decides snap1_windows by blast
  have "\<not> dc_stale d" using evaluate_bounds(5) [OF d acct1_fleet] snap1_fresh by simp
  then show ?thesis using binding_window_is_least [OF d _ acct1_fleet] d by blast
qed

text \<open>With unowned workers in the pool the decision is re-expressed for the owned ones: the count
  it starts from is the owned count, the target is the pool's target less the unowned workers, and the
  configured range and step bound the owned workers alone.\<close>

theorem evaluate_pool_owned:
  assumes "evaluate_pool ch name cfg sn prior owned unowned now = Inr d" "0 < unowned"
    and "fl_min_workers (ac_fleet cfg) \<le> fl_max_workers (ac_fleet cfg)"
    and "fl_max_workers (ac_fleet cfg) + unowned \<le> u32_max" "owned + unowned \<le> u32_max"
  shows "dc_current d = owned \<and> dc_unowned d = unowned
    \<and> dc_desired d \<le> fl_max_workers (ac_fleet cfg)
    \<and> dc_desired d \<le> max (fl_min_workers (ac_fleet cfg)) (owned + fl_max_up (ac_fleet cfg))
    \<and> (\<exists>t. dc_desired_total d = Some t \<and> dc_desired d = t - unowned)"
  using evaluate_pool_elastic [OF assms] by blast

theorem evaluate_pool_owned_witness:
  "\<exists>d. evaluate_pool chrono_ref ''a'' acct1 snap_stale prior1 4 2 (secs 3660) = Inr d \<and> dc_current d = 4"
proof -
  have "snapshot_stale chrono_ref (pooled_config acct1 2) snap_stale (secs 3660)"
    by (simp add: snapshot_stale_def snap_stale_def)
  moreover have "fl_min_workers (ac_fleet (pooled_config acct1 2)) \<le> fl_max_workers (ac_fleet (pooled_config acct1 2))"
    by (simp add: pooled_config_def acct1_def fleet1_def sat_add_def u32_max_def)
  ultimately obtain d where
    d: "evaluate chrono_ref ''a'' (pooled_config acct1 2) snap_stale prior1 (sat_add 4 2) (secs 3660) = Inr d"
    using stale_decision_Inr evaluate_stale by metis
  then have p: "evaluate_pool chrono_ref ''a'' acct1 snap_stale prior1 4 2 (secs 3660) = Inr (into_elastic d 2)"
    by (simp add: evaluate_pool_def)
  have "dc_current (into_elastic d 2) = 4"
    using evaluate_pool_owned [OF p _ acct1_fleet] by (simp add: acct1_def fleet1_def u32_max_def)
  with p show ?thesis by blast
qed

text \<open>C4: Once the weekly window has reached the redemption threshold, at any time in its generation,
  the decision waits for a manual redemption: it drains toward the minimum by the full downward step.\<close>

theorem redemption_holds:
  assumes "evaluate ch name cfg sn prior current now = Inr d" "dc_banked d = Some plan"
    and "weekly_window sn = Some w"
    and "qw_reached w \<or> fle (br_redeem_at (ac_banked cfg)) (qw_used_fraction w)
       \<or> (\<exists>h. bm_get (as_history prior) (qw_id w) = Some h
            \<and> same_reset_generation ch (wh_resets_at h) (qw_resets_at w)
            \<and> fle (br_redeem_at (ac_banked cfg)) (wh_max_used h))"
    and "fl_min_workers (ac_fleet cfg) \<le> fl_max_workers (ac_fleet cfg)"
  shows "bd_manual plan \<and> bd_governing_window plan = qw_id w
    \<and> dc_desired d \<le> max (fl_min_workers (ac_fleet cfg)) (current - fl_max_down (ac_fleet cfg))"
proof -
  have "redemption_due ch cfg prior w" using assms(4) by (auto simp: redemption_due_def Let_def)
  then show ?thesis by (rule redemption_drains [OF assms(1-3) _ assms(5)])
qed

theorem redemption_holds_witness:
  "\<exists>d. evaluate chrono_ref ''a'' acct2 snap_redeem prior1 4 (secs 3660) = Inr d \<and> dc_desired d \<le> 3"
proof -
  let ?w = "win7d\<lparr> qw_used_fraction := Fin (31/32) \<rparr>"
  have weekly: "weekly_window snap_redeem = Some ?w"
    by (simp add: weekly_window_def snap_redeem_def win7d_def is_weekly_window_def)
  have due: "fle (br_redeem_at (ac_banked acct2)) (qw_used_fraction ?w)"
    by (simp add: acct2_def)
  then have rd: "redemption_due chrono_ref acct2 prior1 ?w" by (simp add: redemption_due_def Let_def)
  have fresh: "\<not> snapshot_stale chrono_ref acct2 snap_redeem (secs 3660)"
    using snap1_fresh by (simp add: snapshot_stale_def snap_redeem_def snap1_def acct2_def)
  obtain ds where ds: "evaluate_windows chrono_ref acct2 snap_redeem prior1 4 (secs 3660)
      (banked_available acct2 snap_redeem) (qs_windows snap_redeem) = Inr ds"
    and ids: "map wd_id ds = map qw_id (filter (\<lambda>w. policy_for (ac_util acct2) (qw_id w) \<noteq> Inr None) (qs_windows snap_redeem))"
    using evaluate_windows_total [OF _ acct2_fleet] acct1_ready(1) by (force simp: acct2_def)
  have "policy_for (ac_util acct2) wid \<noteq> Inr None" for wid using acct1_policy by (simp add: acct2_def)
  then have "map wd_id ds = [qw_id ?w]" using ids by (simp add: snap_redeem_def)
  then obtain x where x: "ds = [x]" "wd_id x = qw_id ?w" by (cases ds) auto
  have burn: "estimate_aggregate_burn chrono_ref (bm_get (as_aggregate prior1) (qw_id ?w)) ?w
      (qs_observed_at snap_redeem) 4 = Inr None"
    by (simp add: estimate_aggregate_burn_def aggregate_samples_def prior1_def account_state_default_def
        bm_get_def chrono_ref_def snap_redeem_def snap1_def secs_def hours24_def Let_def unwrap_or_def)
  obtain plan where plan: "banked_plan chrono_ref acct2 snap_redeem prior1 4 (secs 3660) credits1 ?w x 10080 None = Inr plan"
    using redemption_plan_exists [OF rd] by blast
  have cr: "qs_reset_credits snap_redeem = Some credits1" "br_enabled (ac_banked acct2)"
    "rcs_available_count credits1 \<noteq> 0" "qw_duration_minutes ?w = Some 10080"
    by (simp_all add: snap_redeem_def acct2_def credits1_def win7d_def)
  have "banked_reset_decision chrono_ref acct2 snap_redeem ds prior1 4 (secs 3660) = Inr (Some plan)"
    using burn plan x cr weekly by (simp add: banked_reset_decision_def)
  then obtain d where d: "evaluate chrono_ref ''a'' acct2 snap_redeem prior1 4 (secs 3660) = Inr d" "dc_banked d = Some plan"
    using evaluate_from_parts [OF fresh ds _ _ acct2_fleet] x(1) by blast
  have "dc_desired d \<le> max (fl_min_workers (ac_fleet acct2)) (4 - fl_max_down (ac_fleet acct2))"
    using redemption_holds [OF d weekly _ acct2_fleet] due by blast
  then show ?thesis using d(1) by (simp add: acct2_def acct1_def fleet1_def)
qed

end
