(* ===== verification/Control_Properties.thy ===== *)
theory Control_Properties
  imports Samples
begin

text \<open>
  What the parts of the controller guarantee: the step limiter, the burn estimators, the deadline
  advisories, the backpressure brake and the throughput experiments.
\<close>

section \<open>The step limiter\<close>

text \<open>C5: Repeated on an unchanged request, the account's step limiter brings any count, one outside the
  fleet's range included, into that range with its first step, whatever the step sizes, and keeps it
  there; with both steps positive it arrives, at the latest one cycle more than the fleet's maximum
  later, at the request clamped into the range, and stays.\<close>

theorem limiter_arrives:
  assumes "fl_min_workers f \<le> fl_max_workers f" "fl_max_workers f \<le> u32_max"
  defines "cycle \<equiv> \<lambda>d c. case apply_step_limits d c f of Inr k \<Rightarrow> k | Inl _ \<Rightarrow> c"
  shows "(\<forall>n > 0. fl_min_workers f \<le> (cycle d ^^ n) c \<and> (cycle d ^^ n) c \<le> fl_max_workers f)
    \<and> (0 < fl_max_up f \<longrightarrow> 0 < fl_max_down f \<longrightarrow> (\<forall>n > fl_max_workers f.
         (cycle d ^^ n) c = max (fl_min_workers f) (min d (fl_max_workers f))))"
proof -
  have step: "cycle d = account_step f d"
    by (rule ext) (simp add: cycle_def account_step_def)
  have inside: "fl_min_workers f \<le> (cycle d ^^ n) c \<and> (cycle d ^^ n) c \<le> fl_max_workers f" if "0 < n" for n
    using that step_inside [OF assms(1)] by (cases n) (simp_all add: step)
  have "(cycle d ^^ n) c = clamped (fl_min_workers f) (fl_max_workers f) d"
    if n: "fl_max_workers f < n" and "0 < fl_max_up f" "0 < fl_max_down f" for n
  proof -
    have "(account_step f d ^^ (n - 1)) (account_step f d c) = clamped (fl_min_workers f) (fl_max_workers f) d"
      using account_steps.arrives [of f "account_step f d c" "n - 1" d] that assms(1,2)
        step_inside [OF assms(1), of d c] by (simp add: ordered_fleet_id)
    then show ?thesis using n by (cases n) (simp_all add: step funpow_Suc_right del: funpow.simps(2))
  qed
  with inside show ?thesis by (auto simp: clamped_def)
qed

theorem limiter_arrives_witness:
  "((\<lambda>c. case apply_step_limits 7 c fleet1 of Inr k \<Rightarrow> k | Inl _ \<Rightarrow> c) ^^ 11) 25 = 7
   \<and> ((\<lambda>c. case apply_step_limits 7 c fleet1 of Inr k \<Rightarrow> k | Inl _ \<Rightarrow> c) ^^ 1) 25 \<le> 10"
proof -
  have f: "fl_min_workers fleet1 = 1" "fl_max_workers fleet1 = 10" "0 < fl_max_up fleet1" "0 < fl_max_down fleet1"
    by (simp_all add: fleet1_def)
  show ?thesis
    using limiter_arrives [of fleet1 7 25] f by (auto simp: u32_max_def simp del: funpow.simps)
qed

section \<open>Burn estimators\<close>

text \<open>The worker count for a rate covers it, up to a five hundred millionth of a worker (a ratio next
  to a whole number is taken as that number), and is less than one worker above it.\<close>

theorem workers_cover_rate:
  assumes "fdiv required per_worker = Fin q" "0 \<le> q" "q \<le> of_nat u32_max - 1"
  shows "q \<le> of_nat (workers_for_rate required per_worker) + 1 / 500000000
    \<and> of_nat (workers_for_rate required per_worker) < q + 1"
proof -
  have "near \<le> 2 powi (-29)"
    unfolding near_def using rq_mono [of "1 / 1000000000" "2 powi (-29)"] rq_powi [of "-29"]
    by (simp add: emin_def power_int_minus)
  then have "near \<le> 1 / 500000000" by (simp add: power_int_minus)
  then show ?thesis using workers_for_rate_close [OF assms] by auto
qed

theorem workers_cover_rate_witness:
  "3 / 2 \<le> (of_nat (workers_for_rate (Fin 3) (Fin 2)) + 1 / 500000000 :: rat)"
proof -
  have "fdiv (Fin 3) (Fin 2) = Fin (3 / 2)" by code_simp
  from workers_cover_rate [OF this] show ?thesis by (simp add: u32_max_def)
qed

text \<open>A rolling burn rate is only reported over an unbroken run of samples: it starts at the newest
  sample at or before the cutoff, stays in the window's generation, and no two neighbours are further
  apart than the staleness limit, fall in usage, or have no workers between them.\<close>

theorem window_burn_unbroken:
  assumes "estimate_window_burn ch history w observed_at workers seconds stale = Some rate"
  shows "f_positive rate \<and> (\<exists>hist cutoff first. history = Some hist
    \<and> rposition (\<lambda>s. ag_observed_at s \<le> cutoff) hist = Some first
    \<and> (\<forall>x \<in> set (drop first hist). same_reset_generation ch (ag_resets_at x) (qw_resets_at w))
    \<and> (\<forall>(a, b) \<in> set (pairs (drop first hist)).
         ag_observed_at a \<le> ag_observed_at b \<and> 0 < ag_workers a
         \<and> \<not> flt (ag_used_fraction b) (ag_used_fraction a)
         \<and> (\<exists>lim. try_seconds ch (int stale) = Some lim \<and> ag_observed_at b - ag_observed_at a \<le> lim)))"
proof -
  obtain hist cutoff first r where h: "history = Some hist"
    and f: "rposition (\<lambda>s. ag_observed_at s \<le> cutoff) hist = Some first"
    and l: "window_burn_loop ch (qw_resets_at w) stale None (Fin 0, Fin 0)
      (drop first hist @ [\<lparr> ag_observed_at = observed_at, ag_used_fraction = qw_used_fraction w,
                     ag_resets_at = qw_resets_at w, ag_workers = workers \<rparr>]) = Some r"
    and p: "f_positive rate"
    using assms by (auto simp: estimate_window_burn_def Let_def bind_eq_Some_conv split: if_splits)
  note u = window_burn_loop_unbroken [OF l, simplified]
  have "set (pairs xs) \<subseteq> set (pairs (xs @ [y]))" for xs :: "aggregate_sample list" and y
    by (induction xs rule: pairs.induct) auto
  then have "\<forall>(a, b) \<in> set (pairs (drop first hist)). joinable ch stale a b" using u by blast
  then show ?thesis using h f p u
    by (intro conjI exI [of _ hist] exI [of _ cutoff] exI [of _ first])
      (auto simp: joinable_def try_seconds_u64_def split: if_splits)
qed

definition burn_run :: "aggregate_sample list" where
  "burn_run = [\<lparr> ag_observed_at = 0, ag_used_fraction = Fin (1/4), ag_resets_at = secs 7200, ag_workers = 2 \<rparr>,
     \<lparr> ag_observed_at = secs 1800, ag_used_fraction = Fin (1/4), ag_resets_at = secs 7200, ag_workers = 2 \<rparr>]"

theorem window_burn_unbroken_witness:
  "estimate_window_burn chrono_ref (Some burn_run) win5h (secs 3600) 2 3600 3600 = Some (Fin (1/8))
     \<and> f_positive (Fin (1/8))"
proof -
  have run: "rposition (\<lambda>s. ag_observed_at s \<le> secs 3600 - secs 3600) burn_run = Some 0"
    by (simp add: burn_run_def secs_def)
  have "hours_of chrono_ref (secs 1800) = Fin (1/2)" "fmul (Fin (1/2)) (f_of_nat 2) = Fin 1"
    "fsub (Fin (1/4)) (Fin (1/4)) = Fin 0" "fsub (Fin (1/2)) (Fin (1/4)) = Fin (1/4)"
    "fadd (Fin 0) (Fin 0) = Fin 0" "fadd (Fin 0) (Fin (1/4)) = Fin (1/4)" "fadd (Fin 0) (Fin 1) = Fin 1"
    "fadd (Fin 1) (Fin 1) = Fin 2" "fdiv (Fin (1/4)) (Fin 2) = Fin (1/8)"
    by code_simp+
  then have e: "estimate_window_burn chrono_ref (Some burn_run) win5h (secs 3600) 2 3600 3600 = Some (Fin (1/8))"
    using run
    by (simp add: estimate_window_burn_def try_seconds_u64_def i64_max_def chrono_ref_def
      same_reset_generation_def Let_def burn_run_def win5h_def secs_def f_positive_def trunc_div_def
      generation_jitter_seconds_def)
  from e window_burn_unbroken [OF e] show ?thesis by blast
qed

text \<open>The exogenous part that the regression splits off lies between nothing and the whole
  measured rate, or the regression had no number to give.\<close>

theorem exogenous_is_a_part:
  assumes "estimate_exogenous_burn intervals aggregate = Inr (Some x)"
  shows "x = NaN \<or> fle (Fin 0) x \<and> fle x aggregate"
  using exogenous_inside [OF assms] .

theorem exogenous_is_a_part_witness:
  "\<exists>x. estimate_exogenous_burn [\<lparr> bi_elapsed_hours = Fin 2, bi_burned = Fin (1/4), bi_workers_x2 = 0, bi_split = True \<rparr>]
     (Fin (1/2)) = Inr (Some x) \<and> fle x (Fin (1/2))"
proof -
  have "estimate_exogenous_burn [\<lparr> bi_elapsed_hours = Fin 2, bi_burned = Fin (1/4), bi_workers_x2 = 0, bi_split = True \<rparr>]
     (Fin (1/2)) = Inr (Some (Fin (1/8)))" by code_simp
  with exogenous_is_a_part [OF this] show ?thesis by simp
qed

section \<open>Deadline advisories\<close>

text \<open>An advisory of a decision is the assessment of one of the plan's credits and is strictly more
  severe than what was last announced for that credit in this weekly generation: nothing is announced
  twice.\<close>

theorem advisories_escalate:
  assumes "banked_reset_decision ch cfg sn ds prior current now = Inr (Some plan)"
    and "a \<in> set (bd_advisories plan)"
  shows "\<exists>w c. weekly_window sn = Some w \<and> c \<in> set (bd_credit_deadlines plan)
    \<and> cd_credit_id c = cv_credit_id a \<and> cd_severity c = Some (cv_severity a)
    \<and> (\<forall>s. bm_get (as_credit_alerts prior) (cv_credit_id a) = Some s
         \<longrightarrow> same_reset_generation ch (ca_resets_at s) (qw_resets_at w)
         \<longrightarrow> ca_severity s < severity_rank (cv_severity a))"
proof -
  obtain credits w wd minutes burn where w: "weekly_window sn = Some w"
    and p: "banked_plan ch cfg sn prior current now credits w wd minutes burn = Inr plan"
    using banked_reset_Some [OF assms(1)] by metis
  have "bd_advisories plan = concat (map (\<lambda>c. credit_advisories_for
      (credit_rank_before ch prior w (cd_credit_id c)) c (bd_max_feasible plan)) (bd_credit_deadlines plan))"
    using p by (auto simp: banked_plan_def Let_def bind_res_Inr_iff)
  then obtain c where c: "c \<in> set (bd_credit_deadlines plan)"
    "a \<in> set (credit_advisories_for (credit_rank_before ch prior w (cd_credit_id c)) c (bd_max_feasible plan))"
    using assms(2) by auto
  note e = advisory_escalates [OF c(2)]
  have "ca_severity s < severity_rank (cv_severity a)"
    if "bm_get (as_credit_alerts prior) (cv_credit_id a) = Some s"
      "same_reset_generation ch (ca_resets_at s) (qw_resets_at w)" for s
    using e that by (simp add: credit_rank_before_def opt_filter_def)
  with w c(1) e show ?thesis by auto
qed

definition win_half :: quota_window where
  "win_half = \<lparr> qw_id = ''7d'', qw_used_fraction = Fin (1/2), qw_resets_at = secs 500000,
     qw_duration_minutes = None, qw_reached = False \<rparr>"

definition win_banked :: quota_window where
  "win_banked = win_half\<lparr> qw_duration_minutes := Some 10080 \<rparr>"

definition snap_banked :: quota_snapshot where
  "snap_banked = snap1\<lparr> qs_observed_at := secs 115200, qs_windows := [win_banked],
     qs_reset_credits := Some \<lparr> rcs_available_count = 1, rcs_credits = Some [\<lparr> rc_id = ''c1'',
       rc_reset_type = None, rc_status = ''available'', rc_granted_at = None,
       rc_expires_at = Some (secs 331200), rc_title = None, rc_description = None \<rparr>] \<rparr> \<rparr>"

definition burn_history :: "aggregate_sample list" where
  "burn_history = [\<lparr> ag_observed_at = 0, ag_used_fraction = Fin (1/4), ag_resets_at = secs 500000, ag_workers = 0 \<rparr>,
     \<lparr> ag_observed_at = secs 57600, ag_used_fraction = Fin (3/8), ag_resets_at = secs 500000, ag_workers = 0 \<rparr>]"

lemma wrap32_code [code]: "wrap32 n = nat (int n mod 4294967296)"
  by (simp add: wrap32_def u32_max_def nat_mod_as_int)

lemma burn_of_history: "estimate_aggregate_burn chrono_ref (Some burn_history) win_banked (secs 115200) 0
    = Inr (Some \<lparr> ab_aggregate = Fin (1/128), ab_exogenous = Some (Fin (1/128)), ab_governed = Some (Fin 0),
        ab_per_worker = None \<rparr>)"
proof -
  have s: "aggregate_samples (Some burn_history) win_banked (secs 115200) 0 = burn_history
      @ [\<lparr> ag_observed_at = secs 115200, ag_used_fraction = Fin (1/2), ag_resets_at = secs 500000, ag_workers = 0 \<rparr>]"
    by (simp add: aggregate_samples_def burn_history_def win_banked_def win_half_def secs_def Let_def)
  let ?bi = "\<lparr> bi_elapsed_hours = Fin 16, bi_burned = Fin (1/8), bi_workers_x2 = 0, bi_split = True \<rparr>"
  let ?all = "burn_history
      @ [\<lparr> ag_observed_at = secs 115200, ag_used_fraction = Fin (1/2), ag_resets_at = secs 500000, ag_workers = 0 \<rparr>]"
  have "checked_add chrono_ref (secs 115200) (- hours24) = Some (secs 28800)" by code_simp
  moreover have "rposition (\<lambda>s. ag_observed_at s \<le> secs 28800) ?all = Some 0" by code_simp
  moreover have "hours_of chrono_ref (ag_observed_at (last ?all) - ag_observed_at (?all ! 0)) = Fin 32" by code_simp
  moreover have "burn_intervals chrono_ref ?all = [?bi, ?bi]" by code_simp
  moreover have "f_sum (map bi_burned [?bi, ?bi]) = Fin (1/4)" by code_simp
  moreover have "aggregate_of_intervals [?bi, ?bi] (Fin (1/4)) (Fin 32) = Inr (Some \<lparr> ab_aggregate = Fin (1/128),
       ab_exogenous = Some (Fin (1/128)), ab_governed = Some (Fin 0), ab_per_worker = None \<rparr>)" by code_simp
  moreover have "\<not> length ?all < 3" "f_lit 24 = Fin 24"
    using rnd_nonneg [of 24] rq_int [of 24] by (simp_all add: burn_history_def f_lit_def)
  ultimately show ?thesis by (simp add: estimate_aggregate_burn_def s Let_def del: append.simps length_append)
qed

definition wd_banked :: window_decision where
  "wd_banked = \<lparr> wd_id = ''7d'', wd_used_fraction = Fin (1/2), wd_target = Fin (15/16), wd_resets_at = secs 500000,
     wd_desired = 1, wd_reason = ''bootstrap_burn_rate'', wd_burn = None \<rparr>"

definition prior_banked :: account_state where
  "prior_banked = account_state_default\<lparr> as_aggregate := [(''7d'', burn_history)] \<rparr>"

theorem advisories_escalate_witness:
  "\<exists>plan. banked_reset_decision chrono_ref acct2 snap_banked [wd_banked] prior_banked 0 (secs 115200) = Inr (Some plan)
     \<and> (\<exists>a \<in> set (bd_advisories plan). cv_severity a = SevInfeasible)"
proof -
  let ?b = "\<lparr> ab_aggregate = Fin (1/128), ab_exogenous = Some (Fin (1/128)), ab_governed = Some (Fin 0), ab_per_worker = None \<rparr>"
  let ?cr = "(secs 331200, \<lparr> rc_id = ''c1'',
       rc_reset_type = None, rc_status = ''available'', rc_granted_at = None,
       rc_expires_at = Some (secs 331200), rc_title = None, rc_description = None \<rparr>)"
  have w: "weekly_window snap_banked = Some win_banked"
    by (simp add: weekly_window_def snap_banked_def win_banked_def is_weekly_window_def win_half_def)
  have k: "known_credits (the (qs_reset_credits snap_banked)) = [?cr]"
    by (simp add: known_credits_def snap_banked_def List.map_filter_def)
  have a: "assess_credit chrono_ref (secs 115200) (Fin (15/16)) (Fin 6) win_half (Some ?b) 0 ?cr
     = \<lparr> cd_credit_id = ''c1'', cd_expires_at = secs 331200, cd_need = Fin (7/16), cd_required = Some (fdiv (Fin (7/16)) (Fin 54)),
         cd_slack_hours = Some (Fin (-2)), cd_severity = Some SevInfeasible \<rparr>"
    by code_simp
  have m: "fmax (Fin (15/16)) (Fin (15/16)) = Fin (15/16)" "fdiv (f_of_int 21600) (f_lit 3600) = Fin 6"
    by code_simp+
  have cfg: "br_redeem_at (ac_banked acct2) = Fin (15/16)" "br_deadline_safety_seconds (ac_banked acct2) = 21600"
    "br_enabled (ac_banked acct2)" "\<not> br_full_speed (ac_banked acct2)"
    by (simp_all add: acct2_def banked_reset_default_def)
  have due: "\<not> redemption_due chrono_ref acct2 prior_banked win_banked"
    by (simp add: redemption_due_def cfg win_banked_def win_half_def prior_banked_def account_state_default_def
        bm_get_def is_some_and_def opt_filter_def)
  have half: "assess_credit chrono_ref (secs 115200) (Fin (15/16)) (Fin 6) win_banked (Some ?b) 0 ?cr
     = assess_credit chrono_ref (secs 115200) (Fin (15/16)) (Fin 6) win_half (Some ?b) 0 ?cr"
    by (simp add: assess_credit_def credit_need_def win_banked_def Let_def)
  have "\<exists>plan. banked_plan chrono_ref acct2 snap_banked prior_banked 0 (secs 115200)
      (the (qs_reset_credits snap_banked)) win_banked wd_banked 10080 (Some ?b) = Inr plan
    \<and> bd_advisories plan \<noteq> [] \<and> (\<forall>a \<in> set (bd_advisories plan). cv_severity a = SevInfeasible)"
    using m a half
    by (simp add: banked_plan_def Let_def k cfg wd_banked_def assess_credits_def enumerate_eq_zip
        f_of_nat_def banked_workers_def due any_deadline_missed_def banked_pace_def opt_filter_def
        credit_advisories_for_def credit_rank_before_def prior_banked_def account_state_default_def bm_get_def)
  then obtain plan where p: "banked_plan chrono_ref acct2 snap_banked prior_banked 0 (secs 115200)
      (the (qs_reset_credits snap_banked)) win_banked wd_banked 10080 (Some ?b) = Inr plan"
    "bd_advisories plan \<noteq> []" "\<forall>a \<in> set (bd_advisories plan). cv_severity a = SevInfeasible"
    by blast
  have "banked_reset_decision chrono_ref acct2 snap_banked [wd_banked] prior_banked 0 (secs 115200) = Inr (Some plan)"
    using p(1) w burn_of_history
    by (simp add: banked_reset_decision_def cfg snap_banked_def wd_banked_def win_banked_def win_half_def
      prior_banked_def bm_get_def)
  with p(2,3) advisories_escalate [OF this] show ?thesis
    by (metis list.set_intros(1) neq_Nil_conv)
qed

end
