(* ===== verification/Brake_Properties.thy ===== *)
theory Brake_Properties
  imports Samples
begin

text \<open>
  What the two adjustments behind the quota decision guarantee: the backpressure brake only lowers a
  count, the throughput experiments stay inside the quota result.
\<close>

section \<open>Backpressure\<close>

text \<open>C6: The brake never raises the decision, whatever it was, and never touches the current count; it
  lowers it to exactly the least of what was decided and, while it holds, the current count, while it
  steps down, one less, neither of the two below the fleet's minimum; so a decision that respects that
  minimum keeps respecting it.\<close>

theorem brake_only_lowers:
  fixes ch d policy prior sn mn now
  defines "r \<equiv> apply_backpressure ch d policy prior sn mn now"
  shows "dc_desired (fst r) \<le> dc_desired d \<and> dc_current (fst r) = dc_current d
    \<and> dc_desired (fst r) = (case bps_mode (snd r) of
          Normal \<Rightarrow> dc_desired d
        | Hold \<Rightarrow> min (dc_desired d) (max (dc_current d) mn)
        | StepDown \<Rightarrow> min (dc_desired d) (max (dc_current d - 1) mn))
    \<and> (mn \<le> dc_desired d \<longrightarrow> mn \<le> dc_desired (fst r))"
proof -
  have "dc_current (fst r) = dc_current d"
    by (simp add: r_def apply_backpressure_def Let_def split: prod.splits)
  moreover have "dc_desired (fst r) = min (dc_desired d) (bp_cap (bps_mode (snd r)) d mn)"
    by (simp add: r_def apply_backpressure_desired)
  ultimately show ?thesis using bp_cap_min [of mn d "bps_mode (snd r)"]
    by (auto simp: bp_cap_def sat_sub_def split: bp_mode.splits)
qed

definition decision1 :: decision where
  "decision1 = \<lparr> dc_account = ''a'', dc_observed_at = secs 3600, dc_current = 4, dc_desired = 6, dc_stale = False,
     dc_windows = [], dc_binding = None, dc_banked = None, dc_backpressure = None, dc_saturation = None,
     dc_unowned = 0, dc_desired_total = None \<rparr>"

definition braked :: bp_state where
  "braked = \<lparr> bps_mode = StepDown, bps_quiet_cycles = 0, bps_last_usable = Some (secs 3600) \<rparr>"

theorem brake_only_lowers_witness:
  "dc_desired (fst (apply_backpressure chrono_ref decision1 backpressure_config_default braked snap1 1 (secs 3660))) = 3"
proof -
  have "bps_mode (snd (apply_backpressure chrono_ref decision1 backpressure_config_default braked snap1 1 (secs 3660)))
      = StepDown"
    unfolding apply_backpressure_state
    by (simp add: bp_next_def bp_signal_lost_def is_none_or_def decision1_def snap1_def braked_def
        backpressure_config_default_def age_seconds_def max0_as_u64_def chrono_ref_def secs_def trunc_div_def)
  then show ?thesis
    using brake_only_lowers [of chrono_ref decision1 backpressure_config_default braked snap1 1 "secs 3660"]
    by (simp add: decision1_def)
qed

text \<open>In one cycle the brake moves by at most one mode up, so it steps workers down only after it
  has held them; it never skips back from stepping down to normal on a sample, only on a lost signal.\<close>

theorem brake_moves:
  fixes ch d policy prior sn mn now
  defines "m \<equiv> bps_mode (snd (apply_backpressure ch d policy prior sn mn now))"
  shows "(m = StepDown \<longrightarrow> bps_mode prior \<noteq> Normal)
    \<and> (bps_mode prior = StepDown \<longrightarrow> m = Normal \<longrightarrow>
        dc_stale d \<or> Option.bind (qs_backpressure sn) bp_429_fraction = None)"
proof -
  have a: "bp_moves (bps_mode prior) m"
    unfolding m_def apply_backpressure_state by (rule bp_next_moves)
  have "m = StepDown \<Longrightarrow> bps_mode prior \<noteq> Normal" using a by (auto simp: bp_moves_Normal)
  moreover have "bps_mode prior = StepDown \<Longrightarrow> m = Normal \<Longrightarrow>
        dc_stale d \<or> Option.bind (qs_backpressure sn) bp_429_fraction = None"
    unfolding m_def apply_backpressure_state
    by (auto simp: bp_next_def bp_sample_def bp_quiet_def Let_def split: option.splits if_splits)
  ultimately show ?thesis by blast
qed

theorem brake_moves_witness:
  "bps_mode (snd (apply_backpressure chrono_ref decision1 backpressure_config_default bp_state_default snap1 1
     (secs 3660))) \<noteq> StepDown"
  using brake_moves [of chrono_ref decision1 backpressure_config_default bp_state_default snap1 1 "secs 3660"]
  by (simp add: bp_state_default_def)

text \<open>C7: Enough quiet samples in a row, with no other one between them, relax the brake by exactly one
  mode: from stepping down to holding, from holding to normal.\<close>

theorem brake_recovers:
  assumes "\<forall>f \<in> set fs. flt f (bc_recover_below policy) \<and> \<not> flt (bc_step_down_above policy) f"
    and "bps_mode st \<noteq> Normal" "bps_quiet_cycles st = 0"
    and "length fs = bc_quiet_cycles policy" "0 < bc_quiet_cycles policy" "bc_quiet_cycles policy \<le> u32_max"
  shows "foldl (\<lambda>s f. bp_sample policy f s) st fs =
    st\<lparr> bps_mode := (if bps_mode st = StepDown then Hold else Normal), bps_quiet_cycles := 0 \<rparr>"
  using bp_run_recover [OF assms] by (simp add: bp_run_def bp_relaxed_def)

theorem brake_recovers_witness:
  "bps_mode (foldl (\<lambda>s f. bp_sample (backpressure_config_default\<lparr> bc_quiet_cycles := 2 \<rparr>) f s) braked [Fin 0, Fin 0]) = Hold"
proof -
  have "flt (Fin 0) (bc_recover_below backpressure_config_default)"
    "\<not> flt (bc_step_down_above backpressure_config_default) (Fin 0)"
    unfolding backpressure_config_default_def by (simp; code_simp)+
  then show ?thesis
    using brake_recovers [of "[Fin 0, Fin 0]" "backpressure_config_default\<lparr> bc_quiet_cycles := 2 \<rparr>" braked]
    by (simp add: braked_def u32_max_def)
qed

section \<open>Throughput experiments\<close>

text \<open>C8: An experiment never takes the count above what the quota decision allows, nor asks for more
  in flight.  Only when the decision is fresh and no window of it does more than learn, bootstrap, see
  no burn or stay below its ceiling is the fleet's maximum the limit; as soon as the decision is stale or
  one window gave another reason, as when it paces to its reset or holds at its target, the limit is the
  decision's desired count.  The step up and the fleet's maximum hold in every case.\<close>

theorem experiments_inside_quota:
  assumes "apply_zai_saturation ch d cfg sn prior now = Inr (d', st')"
    and "dc_desired d \<le> fl_max_workers (ac_fleet cfg)"
  shows "dc_desired d' \<le> fl_max_workers (ac_fleet cfg)
    \<and> dc_desired d' \<le> dc_current d + fl_max_up (ac_fleet cfg)
    \<and> (\<forall>p. st_pending st' = Some p \<longrightarrow> sp_to p \<le> fl_max_workers (ac_fleet cfg))
    \<and> (dc_stale d \<or> (\<exists>w \<in> set (dc_windows d). wd_reason w \<notin>
         {''learning_burn_rate'', ''no_observed_burn'', ''bootstrap_burn_rate'', ''below_ceiling''})
       \<longrightarrow> dc_desired d' \<le> dc_desired d
         \<and> (\<forall>p. st_pending st' = Some p \<longrightarrow> sp_to p \<le> dc_desired d))"
proof -
  obtain target where t: "dc_desired d' = min (clip_target sn (ac_fleet cfg) (dc_current d) target) (quota_cap d cfg)"
    and p: "\<And>p. st_pending st' = Some p \<Longrightarrow> sp_to p \<le> quota_cap d cfg"
    using apply_sat_Inr [OF assms(1)] by metis
  have "quota_cap d cfg = dc_desired d"
    if "dc_stale d \<or> (\<exists>w \<in> set (dc_windows d). wd_reason w \<notin>
         {''learning_burn_rate'', ''no_observed_burn'', ''bootstrap_burn_rate'', ''below_ceiling''})"
    using that by (auto simp: quota_cap_def quota_hold_only_def list_all_iff)
  then show ?thesis using t p quota_cap_max [OF assms(2)] clip_rise [of sn "ac_fleet cfg" "dc_current d" target]
    by fastforce
qed

lemma sat_total: "ut_zai_saturation (ac_util cfg) = Some policy \<Longrightarrow>
    \<exists>d' st'. apply_zai_saturation ch d cfg sn prior now = Inr (d', st')"
  by (simp add: apply_zai_saturation_def Let_def split: prod.splits)

lemma acct1_experiments: "\<exists>d' st'. apply_zai_saturation ch d acct1 sn prior now = Inr (d', st')"
  by (rule sat_total) (simp add: acct1_def util1_def)

theorem experiments_inside_quota_witness:
  "\<exists>d' st'. apply_zai_saturation chrono_ref decision1 acct1 snap1 prior1 (secs 3660) = Inr (d', st')
     \<and> dc_desired d' \<le> 6"
proof -
  obtain d' st' where r: "apply_zai_saturation chrono_ref decision1 acct1 snap1 prior1 (secs 3660) = Inr (d', st')"
    using acct1_experiments by blast
  from experiments_inside_quota [OF r] r show ?thesis by (simp add: decision1_def acct1_def fleet1_def)
qed

text \<open>Without a throughput sample nothing grows: with workers running, the adjusted decision is at
  most the current count, whatever the quota would allow and whatever experiment is pending.\<close>

theorem no_growth_without_sample:
  assumes "apply_zai_saturation ch d cfg sn prior now = Inr (d', st')"
    and "qs_saturation sn = None" "dc_current d \<noteq> 0"
  shows "dc_desired d' \<le> dc_current d"
proof -
  obtain policy target reason rate st where e: "sat_experiment ch policy d cfg sn prior now = (target, reason, rate, st)"
    and t: "dc_desired d' = min (clip_target sn (ac_fleet cfg) (dc_current d) target) (quota_cap d cfg)"
    using apply_sat_Inr [OF assms(1)] by metis
  show ?thesis
    using t clip_down [OF no_evidence_no_growth [OF e assms(2,3)], of sn "ac_fleet cfg"] by simp
qed

theorem no_growth_without_sample_witness:
  "\<exists>d' st'. apply_zai_saturation chrono_ref decision1 acct1 snap1 prior1 (secs 3660) = Inr (d', st')
     \<and> dc_desired d' \<le> 4"
proof -
  obtain d' st' where r: "apply_zai_saturation chrono_ref decision1 acct1 snap1 prior1 (secs 3660) = Inr (d', st')"
    using acct1_experiments by blast
  from no_growth_without_sample [OF r] r show ?thesis by (simp add: decision1_def snap1_def)
qed

text \<open>C9: At most one experiment is in flight.  A pending one is never replaced by a new one: it stays as
  it is, ends, or, once its count is reached and it was not a recovery itself, is answered by the recovery
  that returns to where it started.\<close>

theorem one_experiment_at_a_time:
  assumes "apply_zai_saturation ch d cfg sn prior now = Inr (d', st')"
    and "as_saturation prior = Some st" "st_pending st = Some p" "st_pending st' = Some q"
  shows "q = p \<or> (dc_current d = sp_to p \<and> \<not> sp_recovery p \<and> sp_recovery q
    \<and> sp_from q = sp_to p \<and> sp_to q = sp_from p)"
  using apply_sat_moves [OF assms(1)] assms(2-4) by (auto elim: probe_moves_SomeE)

definition prior_probing :: account_state where
  "prior_probing = prior1\<lparr> as_saturation := Some (saturation_state_default\<lparr> st_pending :=
     Some \<lparr> sp_from = 4, sp_to = 5, sp_baseline = Fin 1, sp_recovery = False \<rparr> \<rparr>) \<rparr>"

theorem one_experiment_at_a_time_witness:
  "\<exists>d' st' q. apply_zai_saturation chrono_ref decision1 acct1 snap1 prior_probing (secs 3660) = Inr (d', st')
     \<and> st_pending st' = Some q \<and> sp_to q = 5"
proof -
  have reset: "\<not> quota_was_reset chrono_ref snap1 prior_probing"
    by (simp add: quota_was_reset_def snap1_def prior_probing_def prior1_def win5h_def win7d_def bm_get_def
        account_state_default_def is_some_and_def same_reset_generation_def chrono_ref_def trunc_div_def secs_def
        generation_jitter_seconds_def)
  have "sat_experiment chrono_ref policy decision1 acct1 snap1 prior_probing (secs 3660) =
      (4, ''insufficient_signal'', None, the (as_saturation prior_probing))" for policy
    using reset by (simp add: sat_experiment_def Let_def decision1_def snap1_def prior_probing_def
      saturation_state_default_def is_some_and_def valid_sample_def secs_def opt_filter_def)
  then obtain d' st' where r: "apply_zai_saturation chrono_ref decision1 acct1 snap1 prior_probing (secs 3660) = Inr (d', st')"
    and q: "st_pending st' = Some \<lparr> sp_from = 4, sp_to = 5, sp_baseline = Fin 1, sp_recovery = False \<rparr>"
    by (simp add: apply_zai_saturation_def acct1_def util1_def Let_def clip_target_def quota_cap_def
        quota_hold_only_def decision1_def snap1_def fleet1_def prior_probing_def is_some_and_def u32_max_def
        sat_add_def sat_sub_def)
  from one_experiment_at_a_time [OF r _ _ q] r q show ?thesis
    by (auto simp: prior_probing_def decision1_def)
qed

end
