(* ===== verification/Placement_Properties.thy ===== *)
theory Placement_Properties
  imports Samples
begin

text \<open>
  What the placement of an account on its hosts guarantees: the split is exact, growth stays inside the
  account's target, every host keeps its own limits, and a host without fresh headroom is not grown.
\<close>

definition host1 :: host_config where
  "host1 = \<lparr> hc_max_workers = Some 5, hc_max_up = None, hc_max_down = None, hc_resource_reserve = None,
     hc_resource_source = None, hc_observer = ObsStatic 0, hc_actuator = ActNone \<rparr>"

definition host2 :: host_config where
  "host2 = host1\<lparr> hc_resource_source := Some (ResourceFile ''r.json'') \<rparr>"

definition acct_hosts :: account_config where
  "acct_hosts = acct1\<lparr> ac_fleet := fleet1\<lparr> fl_hosts := Some [(''h1'', host1), (''h2'', host2)] \<rparr> \<rparr>"

text \<open>C10: The split of an account's count over hosts is exact: it places the whole count, or, when the
  hosts' ceilings do not hold that many, fills every ceiling.\<close>

theorem split_is_exact:
  assumes "split_ok tgt elig headroom cap hosts"
  shows "sum_list (bm_vals (distribute tgt elig headroom cap hosts)) = min tgt (\<Sum>h\<leftarrow>elig. cap h)
    \<and> (\<forall>h \<in> set elig. unwrap_or 0 (bm_get (distribute tgt elig headroom cap hosts) h) \<le> cap h)
    \<and> (\<forall>h. h \<notin> set elig \<longrightarrow> unwrap_or 0 (bm_get (distribute tgt elig headroom cap hosts) h) = 0)"
  using distribute_total [OF assms] distribute_frame(3,4) [OF assms]
  by (simp add: count_of_def unwrap_or_def split: option.splits)

theorem split_is_exact_witness:
  "sum_list (bm_vals (distribute 3 [''h1'', ''h2''] (\<lambda>h. Fin 1) (\<lambda>h. 5) [''h1'', ''h2''])) = 3"
proof -
  have "split_ok 3 [''h1'', ''h2''] (\<lambda>h. Fin 1) (\<lambda>h. 5) [''h1'', ''h2'']"
    using rq_int [of 1] by (simp add: split_ok_def u32_max_def headroom_ok_def)
  from split_is_exact [OF this] show ?thesis by simp
qed

text \<open>C11: A host's placement stays at or below the host's ceiling, rises by at most the host's upward
  step and falls by at most its downward step (or to its ceiling).\<close>

theorem host_limits_respected:
  assumes "place ch name t cfg current resources now = Inr ps"
    and "fl_hosts (ac_fleet cfg) = Some hosts" "(hid, h) \<in> set hosts"
    and "unwrap_or 0 (bm_get current hid) \<le> u32_max"
  shows "\<exists>p \<in> set ps. hp_host_id p = hid \<and> hp_current p = unwrap_or 0 (bm_get current hid)
    \<and> hp_target p \<le> host_ceiling (ac_fleet cfg) h
    \<and> hp_target p \<le> hp_current p + fst (host_step_limits (ac_fleet cfg) h)
    \<and> min (host_ceiling (ac_fleet cfg) h) (hp_current p - snd (host_step_limits (ac_fleet cfg) h)) \<le> hp_target p"
proof -
  let ?raw = "raw_targets t (host_views ch cfg current resources now hosts)"
  let ?v = "view_host ch cfg current resources now hid h"
  have ps: "ps = map (\<lambda>(hid, v). place_host ?raw hid v) (host_views ch cfg current resources now hosts)"
    using place_Inr [OF assms(1)] assms(2) by (metis option.inject)
  have "(hid, ?v) \<in> set (host_views ch cfg current resources now hosts)"
    using assms(3) by (force simp: host_views_def)
  then have mem: "place_host ?raw hid ?v \<in> set ps" unfolding ps by force
  have "min (hv_ceiling ?v) (hv_current ?v - hv_down ?v) \<le> limited ?v n" for n
    using host_steps.limit_fall assms(4) by (simp add: limited_def view_host_def)
  then have "min (host_ceiling (ac_fleet cfg) h) (hp_current (place_host ?raw hid ?v) - snd (host_step_limits (ac_fleet cfg) h))
      \<le> hp_target (place_host ?raw hid ?v)"
    by (simp add: place_host_def view_host_def)
  then show ?thesis
    using limited_le_ceiling [of ?v] limited_rise [of ?v]
    by (intro bexI [OF _ mem]) (simp add: place_host_def view_host_def)
qed

lemma acct_hosts_place: "\<exists>ps. place chrono_ref ''a'' n acct_hosts current resources (secs 60) = Inr ps"
  by (simp add: place_def acct_hosts_def acct1_def Let_def)

theorem host_limits_respected_witness:
  "\<exists>ps. place chrono_ref ''a'' 6 acct_hosts [(''h1'', 2)] [] (secs 60) = Inr ps \<and> (\<exists>p \<in> set ps. hp_target p \<le> 4)"
proof -
  obtain ps where ps: "place chrono_ref ''a'' 6 acct_hosts [(''h1'', 2)] [] (secs 60) = Inr ps"
    using acct_hosts_place by blast
  have "\<exists>p \<in> set ps. hp_target p \<le> hp_current p + 2 \<and> hp_current p = 2"
    using host_limits_respected [OF ps, of _ "''h1''" host1]
    by (auto simp: acct_hosts_def acct1_def fleet1_def host_step_limits_def host1_def bm_get_def u32_max_def)
  with ps show ?thesis by fastforce
qed

text \<open>What a placement adds stays inside the account's target: the targets of the hosts it grows do
  not sum above it.\<close>

theorem growth_inside_target:
  assumes "placeable cfg resources t" "place ch name t cfg current resources now = Inr ps"
  shows "(\<Sum>p\<leftarrow>filter (\<lambda>p. hp_current p < hp_target p) ps. hp_target p) \<le> t"
  by (rule place_growth [OF assms])

lemma acct_hosts_placeable: "n \<le> u32_max \<Longrightarrow> placeable acct_hosts [] n"
  by (simp add: placeable_def acct_hosts_def acct1_def bm_get_def bm_ok_def host_ceiling_def host1_def
      host2_def u32_max_def)

theorem growth_inside_target_witness:
  "\<exists>ps. place chrono_ref ''a'' 6 acct_hosts [(''h1'', 2)] [] (secs 60) = Inr ps
     \<and> (\<Sum>p\<leftarrow>filter (\<lambda>p. hp_current p < hp_target p) ps. hp_target p) \<le> 6"
  using acct_hosts_place [of 6 "[(''h1'', 2)]" "[]"]
    growth_inside_target [OF acct_hosts_placeable [of 6], of chrono_ref "''a''" "[(''h1'', 2)]" "secs 60"]
  by (auto simp: u32_max_def)

text \<open>C12: A host that has a resource source and whose resources are unknown, marked not fresh, older
  than the staleness limit, or exhausted (no processor headroom, no memory, or memory at or below the
  host's reserve) never gets more workers, and keeps the ones it has, down to its ceiling, as long as the
  account does not shrink.  Counts and ceilings fit 32 bits, sizes of memory 64, and there are at most 65536 hosts,
  of distinct names.\<close>

theorem blind_host_is_frozen:
  assumes "placeable cfg resources t" "place ch name t cfg current resources now = Inr ps"
    and "fl_hosts (ac_fleet cfg) = Some hosts" "bm_get hosts hid = Some h" "hc_resource_source h \<noteq> None"
    and "reserve = (case hc_resource_reserve h of None \<Rightarrow> 0 | Some rr \<Rightarrow> rr_mem_reserve_mb rr)"
    and "reserve \<le> u64_max"
    and blind: "case bm_get resources hid of None \<Rightarrow> True
      | Some r \<Rightarrow> rs_mem_total_mb r \<le> u64_max
          \<and> (\<not> rs_fresh r \<or> int (ut_stale_after (ac_util cfg)) < num_seconds ch (now - rs_observed_at r)
             \<or> fle (rs_cpu_available r) (Fin 0) \<or> rs_mem_total_mb r = 0 \<or> rs_mem_available_mb r \<le> reserve)"
    and "p \<in> set ps" "hp_host_id p = hid"
  shows "hp_current p = unwrap_or 0 (bm_get current hid) \<and> hp_ceiling p = host_ceiling (ac_fleet cfg) h
    \<and> hp_target p \<le> hp_current p
    \<and> (sum_list (map hp_current ps) \<le> t \<longrightarrow> hp_target p = min (hp_current p) (hp_ceiling p))"
proof -
  let ?views = "host_views ch cfg current resources now hosts"
  let ?v = "view_host ch cfg current resources now hid h"
  have ok: "bm_ok ?views" "t \<le> u32_max"
    using placeable_views [OF assms(1,3), of ch current now] by (simp_all add: views_ok_def)
  have ps: "ps = map (\<lambda>(hid, v). place_host (raw_targets t ?views) hid v) ?views"
    using place_Inr [OF assms(2)] assms(3) by (metis option.inject)
  have "(hid, ?v) \<in> set ?views" using bm_get_in [OF assms(4)] by (force simp: host_views_def)
  then have v: "bm_get ?views hid = Some ?v" using bm_get_Some_iff [OF ok(1)] by blast
  obtain i w where w: "(i, w) \<in> set ?views" "p = place_host (raw_targets t ?views) i w"
    using assms(9) by (auto simp: ps)
  moreover have "i = hid" using w(2) assms(10) by (simp add: place_host_def)
  ultimately have p: "p = place_host (raw_targets t ?views) hid ?v"
    using v bm_get_Some_iff [OF ok(1), of hid w] by simp
  have "\<not> hv_eligible ?v"
    using blind_view [OF assms(5,6,7) blind] .
  note el = ok(1) v this
  have sum: "map hv_current (bm_vals ?views) = map hp_current ps"
    by (simp add: ps bm_vals_def place_host_def case_prod_unfold comp_def)
  have "hp_target p \<le> hp_current p"
    using ineligible_never_grows [OF el, of t] by (simp add: p place_host_def)
  moreover have "hp_target p = min (hp_current p) (hp_ceiling p)" if "sum_list (map hp_current ps) \<le> t"
    using frozen_host_keeps [OF el, of t] that ok(2) by (simp add: p sum place_host_def sat_sum_eq)
  ultimately show ?thesis by (simp add: p place_host_def view_host_def)
qed

definition stale_reading :: resource_snapshot where
  "stale_reading = \<lparr> rs_observed_at = 0, rs_fresh = True, rs_host_id = ''h2'', rs_cpu_available = Fin 1,
     rs_mem_available_mb = 8000, rs_mem_total_mb = 16000 \<rparr>"

theorem blind_host_is_frozen_witness:
  "\<exists>ps. place chrono_ref ''a'' 6 acct_hosts [(''h1'', 2), (''h2'', 3)] [(''h2'', stale_reading)] (secs 7200) = Inr ps
     \<and> (\<exists>p \<in> set ps. hp_host_id p = ''h2'' \<and> hp_target p = 3)"
proof -
  let ?c = "[(''h1'', 2), (''h2'', 3)] :: (string, nat) bmap" and ?r = "[(''h2'', stale_reading)]"
  obtain ps where ps: "place chrono_ref ''a'' 6 acct_hosts ?c ?r (secs 7200) = Inr ps"
    by (simp add: place_def acct_hosts_def acct1_def Let_def)
  have pl: "placeable acct_hosts ?r 6"
    using acct_hosts_placeable [of 6] rq_int [of 1]
    by (auto simp: placeable_def bm_get_def stale_reading_def f64_repr_def f64_huge_def u32_max_def)
  have "\<exists>p \<in> set ps. hp_host_id p = ''h2''" "sum_list (map hp_current ps) = 5"
    using ps by (auto simp: place_def acct_hosts_def acct1_def Let_def place_host_def view_host_def bm_get_def)
  then obtain p where p: "p \<in> set ps" "hp_host_id p = ''h2''" "sum_list (map hp_current ps) = 5" by blast
  have "hp_target p = 3"
    using blind_host_is_frozen [OF pl ps, of "[(''h1'', host1), (''h2'', host2)]" "''h2''" host2 0 p] p
    by (auto simp: acct_hosts_def acct1_def bm_get_def host2_def host1_def stale_reading_def u64_max_def
        util1_def chrono_ref_def secs_def trunc_div_def host_ceiling_def)
  with ps p show ?thesis by auto
qed

end
