(* ===== verification/Federation_Properties.thy ===== *)
theory Federation_Properties
  imports Samples
begin

text \<open>
  What the federation guarantees: one reading and one total for all instances, shares that stay inside it,
  the freeze on silent peers, the rejection of bad records, and the launch gate.
\<close>

section \<open>The shared total\<close>

definition fed_hosts :: "federation_host list" where
  "fed_hosts = [\<lparr> fh_host_id = ''b'', fh_workers = 2, fh_ceiling = 5, fh_ready_demand = 4 \<rparr>,
     \<lparr> fh_host_id = ''a'', fh_workers = 1, fh_ceiling = 3, fh_ready_demand = 0 \<rparr>]"

lemma fed_hosts_ok: "hosts_ok fed_hosts"
  by (simp add: hosts_ok_def fed_hosts_def u32_max_def)

lemma shared_decides: "\<exists>s. shared_account_total chrono_ref ''a'' acct1 prior1 hosts [] (secs 60) = Inr s"
proof -
  have "snapshot_stale chrono_ref acct1 (no_sample_snapshot (secs 60)) (secs 60)"
    by (simp add: snapshot_stale_def no_sample_snapshot_def)
  then have "\<exists>d. evaluate chrono_ref ''a'' acct1 (no_sample_snapshot (secs 60)) prior1 n (secs 60) = Inr d" for n
    using stale_decision_Inr [OF acct1_fleet] by (simp add: evaluate_stale) metis
  then show ?thesis
    by (auto simp: shared_account_total_def freshest_sample_def Let_def bind_res_def split: sum.splits)
      (metis sum.distinct(1))
qed

text \<open>C13: The shares of a shared decision go to exactly the federation's hosts and never sum above its
  total.\<close>

theorem shares_inside_total:
  assumes "shared_account_total ch name cfg prior hosts samples now = Inr s" "hosts_ok hosts"
    and "fl_min_workers (ac_fleet cfg) \<le> fl_max_workers (ac_fleet cfg)" "fl_max_workers (ac_fleet cfg) \<le> u32_max"
  shows "sum_list (bm_vals (sh_shares s)) \<le> sh_total s
    \<and> set (bm_keys (sh_shares s)) = fh_host_id ` set hosts \<and> sh_total s \<le> fl_max_workers (ac_fleet cfg)"
proof -
  obtain sn d where d: "evaluate ch name cfg sn prior (sat_sum (map fh_workers hosts)) now = Inr d"
    and s: "sh_total s = dc_desired d" "sh_shares s = split_account_total (dc_desired d) hosts"
    using assms(1) by (auto simp: shared_account_total_def Let_def bind_res_Inr_iff split: option.splits)
  have "dc_desired d \<le> fl_max_workers (ac_fleet cfg)" using evaluate_bounds [OF d assms(3)] by blast
  then show ?thesis using split_sum [OF assms(2)] split_keys assms(4) by (simp add: s)
qed

theorem shares_inside_total_witness:
  "\<exists>s. shared_account_total chrono_ref ''a'' acct1 prior1 fed_hosts [] (secs 60) = Inr s
     \<and> sum_list (bm_vals (sh_shares s)) \<le> sh_total s"
proof -
  obtain s where s: "shared_account_total chrono_ref ''a'' acct1 prior1 fed_hosts [] (secs 60) = Inr s"
    using shared_decides by blast
  from shares_inside_total [OF s fed_hosts_ok acct1_fleet] s show ?thesis
    by (simp add: acct1_def fleet1_def u32_max_def)
qed

text \<open>While the total does not shrink every host keeps what it runs and gets at most what its
  ceiling and its ready work leave; while it shrinks no host is asked for more than that either, and a
  host without ready work is asked for nothing.\<close>

theorem share_of_a_host:
  assumes "hosts_ok hosts" "h \<in> set hosts" "tot \<le> u32_max"
  shows "\<exists>n. bm_get (split_account_total tot hosts) (fh_host_id h) = Some n
    \<and> (sum_list (map fh_workers hosts) \<le> tot \<longrightarrow> fh_workers h \<le> n \<and> n \<le> max (fh_workers h) (share_cap h))
    \<and> (tot < sum_list (map fh_workers hosts) \<longrightarrow> n \<le> share_cap h \<and> (fh_ready_demand h = 0 \<longrightarrow> n = 0))"
  using split_share [OF assms] given_bounds [OF assms] by (auto simp: current_of_def)

theorem share_of_a_host_witness:
  "\<exists>n. bm_get (split_account_total 5 fed_hosts) ''a'' = Some n \<and> n = 1"
  using share_of_a_host [OF fed_hosts_ok, of "fed_hosts ! 1" 5]
  by (auto simp: fed_hosts_def share_cap_def u32_max_def sat_add_def)

text \<open>C14: The order in which an instance assembles the hosts and the quota samples does not matter, nor
  how often it holds a sample: every instance with the same host views and the same set of samples derives
  the same decision, as long as no two different samples agree in instant, fraction and window.  Two that
  differ in the reset time alone are the exception: there the code takes the one its list has last.  The host
  names are distinct, at most 65536, the counts fit 32 bits and the fractions are between 0 and 1.\<close>

theorem decision_independent_of_order:
  assumes "hosts_ok hosts" "mset hosts = mset hosts'"
    and "set samples = set samples'" "\<forall>s \<in> set samples. in_unit (pq_used_fraction s)"
    and "\<forall>s \<in> set samples. \<forall>t \<in> set samples. pq_observed_at s = pq_observed_at t
      \<and> fval (pq_used_fraction s) = fval (pq_used_fraction t) \<and> pq_window s = pq_window t \<longrightarrow> s = t"
  shows "shared_account_total ch name cfg prior hosts samples now
    = shared_account_total ch name cfg prior hosts' samples' now"
proof -
  have "sum_list (map fh_workers hosts) = sum_list (map fh_workers hosts')"
    using assms(2) by (metis mset_map sum_mset_sum_list)
  then have sums: "sat_sum (map fh_workers hosts) = sat_sum (map fh_workers hosts')" by (simp add: sat_sum_eq)
  have ok: "fractions_ok samples" "no_ties (set samples)"
    using assms(4,5) by (simp_all add: fractions_ok_def no_ties_def)
  show ?thesis
    unfolding shared_account_total_def split_perm [OF assms(1,2)] sums
      freshest_sample_perm [OF ok(1) assms(3) ok(2)] freshest_used_fraction_perm [OF ok(1) assms(3) ok(2)] ..
qed

definition sample_old :: peer_quota_sample where
  "sample_old = \<lparr> pq_window = ''5h'', pq_used_fraction = Fin (3/4), pq_resets_at = secs 7200, pq_observed_at = secs 10 \<rparr>"

definition sample_new :: peer_quota_sample where
  "sample_new = \<lparr> pq_window = ''5h'', pq_used_fraction = Fin (1/2), pq_resets_at = secs 7200, pq_observed_at = secs 20 \<rparr>"

theorem decision_independent_of_order_witness:
  "shared_account_total chrono_ref ''a'' acct1 prior1 fed_hosts [sample_old, sample_new] (secs 60)
     = shared_account_total chrono_ref ''a'' acct1 prior1 (rev fed_hosts) [sample_new, sample_old, sample_new] (secs 60)"
  by (rule decision_independent_of_order [OF fed_hosts_ok])
    (auto simp: sample_old_def sample_new_def in_unit_def secs_def)

text \<open>The exception is real: of two samples that differ in the reset time the later one of the list wins.\<close>

lemma tie_follows_list_order:
  "freshest_sample [sample_new, sample_new\<lparr> pq_resets_at := secs 9000 \<rparr>]
   \<noteq> freshest_sample [sample_new\<lparr> pq_resets_at := secs 9000 \<rparr>, sample_new]"
  by (simp add: sample_new_def freshest_sample_def sample_gt_def secs_def)

text \<open>The fraction all instances work with is one of the held ones, the same for every order of the
  samples, and conservative: no held sample reports more usage than it by more than the tolerance of five
  percent.\<close>

theorem one_conservative_reading:
  assumes "fractions_ok ss" "ss \<noteq> []"
  shows "\<exists>f. freshest_used_fraction ss = Some f
    \<and> (\<exists>s \<in> set ss. fval f = fval (pq_used_fraction s))
    \<and> (\<forall>s \<in> set ss. rq (fval (pq_used_fraction s) - fval f) \<le> rq (5/100))
    \<and> (\<forall>ss'. set ss' = set ss \<longrightarrow> (\<exists>f'. freshest_used_fraction ss' = Some f' \<and> fval f' = fval f))"
proof -
  obtain f where f: "freshest_used_fraction ss = Some f" "fval f = reading ss"
    using freshest_used_fraction_reading(2) [OF assms] by blast
  have "\<exists>f'. freshest_used_fraction ss' = Some f' \<and> fval f' = fval f" if "set ss' = set ss" for ss'
  proof -
    have "fractions_ok ss'" "ss' \<noteq> []" "reading ss' = reading ss"
      using assms that by (auto simp: fractions_ok_def reading_def)
    then show ?thesis using freshest_used_fraction_reading(2) f(2) by metis
  qed
  moreover have "fval sample_disagreement_fraction = rq (5/100)"
    by (simp add: sample_disagreement_fraction_def f_lit_def rnd_nonneg)
  ultimately show ?thesis using f reading_is_held [OF assms(2)] reading_conservative by metis
qed

theorem one_conservative_reading_witness:
  "\<exists>f. freshest_used_fraction [sample_old, sample_new] = Some f \<and> rq (3/4 - fval f) \<le> rq (5/100)"
  using one_conservative_reading [of "[sample_old, sample_new]"]
  by (auto simp: fractions_ok_def sample_old_def sample_new_def in_unit_def)

section \<open>Peers\<close>

text \<open>The freeze on scaling up applies exactly while some configured peer is silent for longer than
  the staleness limit, or was never heard, but has not expired; a frozen decision keeps the smaller of the
  two counts, any other passes through unchanged.\<close>

theorem silent_peer_freezes:
  "snd (clamp_scale_up t desired current now) =
     (if \<exists>h e. bm_get (pt_entries t) h = Some e \<and> entry_age t e now < pt_expiry t
           \<and> (pe_received_at e = None \<or> pt_stale_after t < entry_age t e now)
      then min desired current else desired)"
proof -
  have "classify t e now = Stale \<longleftrightarrow> entry_age t e now < pt_expiry t
      \<and> (pe_received_at e = None \<or> pt_stale_after t < entry_age t e now)" for e
    by (auto simp: classify_def)
  then show ?thesis
    using any_peer_stale_iff [of t now]
    by (cases "any_peer_stale t now") (simp add: clamp_scale_up_def)
qed

text \<open>A pull is accepted exactly when it brought a record of a configured peer that names that peer
  and is not dated further into the future than the tolerance; then that peer's entry alone is replaced.
  Anything else leaves the whole table as it was.\<close>

theorem ingest_accepts_iff:
  "(snd (ingest ch t peer fetch now) = Inr () \<longleftrightarrow>
      (\<exists>r. fetch = Some r \<and> bm_get (pt_entries t) (pc_host_id peer) \<noteq> None \<and> pr_host_id r = pc_host_id peer
         \<and> num_seconds ch (pr_observed_at r - pm_wall now) \<le> 300))
   \<and> (case snd (ingest ch t peer fetch now) of
        Inl _ \<Rightarrow> fst (ingest ch t peer fetch now) = t
      | Inr _ \<Rightarrow> (\<forall>h. bm_get (pt_entries (fst (ingest ch t peer fetch now))) h =
          (if h = pc_host_id peer then map_option (\<lambda>r. accept_record r now) fetch else bm_get (pt_entries t) h)))"
  by (auto simp: ingest_def Let_def bm_get_put clock_skew_tolerance_def split: option.splits if_splits)

lemma freshness_announced:
  assumes "bm_get (pt_entries t) h = Some e" "pe_expired_announced e"
  shows "fst (freshness t h now) = t"
  using assms by (simp add: freshness_def Let_def)

lemma freshness_alive:
  assumes "bm_get (pt_entries t) h = Some e" "\<not> pt_expiry t \<le> entry_age t e now"
  shows "fst (freshness t h now) = t"
  using assms by (simp add: freshness_def Let_def)

text \<open>A peer that goes silent is reported once: over any number of queries, with no record received
  between them, exactly one expiry event is queued if any of them finds the peer expired, none otherwise.\<close>

theorem expiry_reported_once:
  assumes "bm_get (pt_entries t) h = Some e" "\<not> pe_expired_announced e"
  shows "length (pt_events (foldl (\<lambda>t now. fst (freshness t h now)) t nows)) =
    length (pt_events t) + (if \<exists>now \<in> set nows. pt_expiry t \<le> entry_age t e now then 1 else 0)"
proof (induction nows)
  case (Cons now nows)
  show ?case
  proof (cases "pt_expiry t \<le> entry_age t e now")
    case True
    define t1 where "t1 = fst (freshness t h now)"
    have t1: "bm_get (pt_entries t1) h = Some (e\<lparr> pe_expired_announced := True \<rparr>)"
      "length (pt_events t1) = length (pt_events t) + 1"
      using assms True by (simp_all add: t1_def freshness_def Let_def bm_get_put)
    have "foldl (\<lambda>t now. fst (freshness t h now)) t1 nows = t1"
      by (induction nows) (simp_all add: freshness_announced [OF t1(1)])
    then show ?thesis using True t1(2) by (simp add: t1_def)
  next
    case False
    then show ?thesis using Cons.IH freshness_alive [OF assms(1) False] by simp
  qed
qed simp

definition silent_table :: peer_table where
  "silent_table = \<lparr> pt_entries = [(''b'', entry_default)], pt_started_at = 0, pt_stale_after = secs 300,
     pt_expiry = secs 3600, pt_events = [] \<rparr>"

theorem expiry_reported_once_witness:
  "length (pt_events (foldl (\<lambda>t now. fst (freshness t ''b'' now)) silent_table
     [\<lparr> pm_monotonic = secs 4000, pm_wall = 0 \<rparr>, \<lparr> pm_monotonic = secs 5000, pm_wall = 0 \<rparr>])) = 1"
proof -
  have e: "bm_get (pt_entries silent_table) ''b'' = Some entry_default" "\<not> pe_expired_announced entry_default"
    by (simp_all add: silent_table_def bm_get_def entry_default_def)
  have "pt_expiry silent_table \<le> entry_age silent_table entry_default \<lparr> pm_monotonic = secs 4000, pm_wall = 0 \<rparr>"
    by (simp add: silent_table_def entry_default_def entry_age_def secs_def)
  then show ?thesis unfolding expiry_reported_once [OF e] by (simp add: silent_table_def)
qed

text \<open>A record is read exactly when its schema version is the supported one, it decodes, and its
  identifiers, fingerprints, samples and origins are well formed; every accepted record is.\<close>

theorem record_read_iff:
  "record_parse probe decode bytes = Inr r \<longleftrightarrow> probe bytes = Some 1 \<and> decode bytes = Some r \<and> record_ok r"
  using record_parse_Inr [of probe decode bytes r] by (simp add: peer_record_schema_version_def)

section \<open>Ownership\<close>

text \<open>Of the hosts that hold the same repository and see each other's records, each keeps its
  workspace exactly when it is the owner: the configured one, else the least host id; so no two of them
  seed it.\<close>

theorem one_host_keeps_a_workspace:
  assumes "\<And>h. h \<in> H \<Longrightarrow> bm_ok (origins h) \<and> bm_get (origins h) (path h) = Some orig
      \<and> set (peers_with_origin (records h) orig) = H - {h}"
    and "h1 \<in> H" "h2 \<in> H" "h1 \<noteq> h2"
  shows "(is_seedable (resolve_workspace_overlap h1 (origins h1) (records h1) repo_owners) (path h1)
      \<longleftrightarrow> h1 = (case bm_get repo_owners orig of Some owner \<Rightarrow> owner | None \<Rightarrow> Min H))
    \<and> \<not> (is_seedable (resolve_workspace_overlap h1 (origins h1) (records h1) repo_owners) (path h1)
      \<and> is_seedable (resolve_workspace_overlap h2 (origins h2) (records h2) repo_owners) (path h2))"
proof -
  have ne: "H \<noteq> {h1}" "H \<noteq> {h2}" using assms(2-4) by auto
  have k: "is_seedable (resolve_workspace_overlap h (origins h) (records h) repo_owners) (path h)
      \<longleftrightarrow> keeper orig repo_owners H = h" if "h \<in> H" "H \<noteq> {h}" for h
    by (rule kept_iff_keeper) (use assms(1) [OF that(1)] that in auto)
  have "is_seedable (resolve_workspace_overlap h1 (origins h1) (records h1) repo_owners) (path h1)
      \<longleftrightarrow> h1 = (case bm_get repo_owners orig of Some owner \<Rightarrow> owner | None \<Rightarrow> Min H)"
    using k [OF assms(2) ne(1)] by (auto simp: keeper_def)
  then show ?thesis using k [OF assms(2) ne(1)] k [OF assms(3) ne(2)] assms(4) by auto
qed

definition claim_record :: "string \<Rightarrow> peer_record" where
  "claim_record h = \<lparr> pr_schema_version = 1, pr_instance_id = ''i'', pr_host_id = h, pr_record_seq = 1,
     pr_observed_at = 0, pr_accounts = [], pr_host_ceiling = None, pr_reservations = [],
     pr_resource_reserve = None, pr_workspace_origins = [(''/w'', ''r'')] \<rparr>"

theorem one_host_keeps_a_workspace_witness:
  "is_seedable (resolve_workspace_overlap ''a'' [(''/w'', ''r'')] [claim_record ''b''] []) ''/w''
   \<and> \<not> is_seedable (resolve_workspace_overlap ''b'' [(''/w'', ''r'')] [claim_record ''a''] []) ''/w''"
proof -
  let ?H = "{''a'', ''b''}" and ?o = "\<lambda>h::string. [(''/w'', ''r'')]" and ?p = "\<lambda>h::string. ''/w''"
    and ?r = "\<lambda>h::string. [claim_record (if h = ''a'' then ''b'' else ''a'')]"
  have m: "Min ?H = ''a''" by code_simp
  have a: "bm_ok (?o h) \<and> bm_get (?o h) (?p h) = Some ''r'' \<and> set (peers_with_origin (?r h) ''r'') = ?H - {h}"
    if "h \<in> ?H" for h
    using that by (auto simp: bm_ok_def bm_get_def peers_with_origin_def claim_record_def bm_vals_def)
  show ?thesis
    using one_host_keeps_a_workspace [of ?H ?o ?p "''r''" ?r "''a''" "''b''" "[]", OF a] m
    by (simp add: bm_get_def)
qed

text \<open>A worker id carries at most one of the prefixes that two hosts derive for their pools, unless
  the prefixes are the same string.\<close>

theorem worker_belongs_to_one_prefix:
  assumes "matches_worker_prefix p w" "matches_worker_prefix q w"
    and "p = effective_prefix c1 h1 False" "q = effective_prefix c2 h2 False"
  shows "p = q"
proof -
  have dash: "ends_with ''-'' (effective_prefix c h False)" for c h
  proof -
    obtain r where "effective_prefix c h False = r @ ''-'' @ h @ ''-''"
      using effective_prefix_host [OF refl, of h c] unfolding ends_with_iff by blast
    then have "effective_prefix c h False = (r @ ''-'' @ h) @ ''-''" by simp
    then show ?thesis unfolding ends_with_iff by blast
  qed
  obtain m where m: "w = p @ m" "list_all is_digit m"
    using assms(1) unfolding matches_worker_prefix_iff by blast
  obtain n where n: "w = q @ n" "list_all is_digit n"
    using assms(2) unfolding matches_worker_prefix_iff by blast
  show ?thesis by (rule digits_suffix_unique [of p m q n]) (use m n dash assms(3,4) in auto)
qed

theorem worker_belongs_to_one_prefix_witness:
  "matches_worker_prefix (effective_prefix ''sg-zai-'' ''b'' False) ''sg-zai-b-1''"
proof -
  have "effective_prefix ''sg-zai-'' ''b'' False = ''sg-zai-b-''" "is_digit (CHR ''1'')"
    by (simp_all add: effective_prefix_def ends_with_def pool_of_prefix_def strip_prefix_def strip_suffix_def
        starts_with_def is_digit_def byte_def)
  then have "matches_worker_prefix (effective_prefix ''sg-zai-'' ''b'' False) ''sg-zai-b-1''"
    by (simp add: matches_worker_prefix_def strip_prefix_def starts_with_def)
  then show ?thesis
    using worker_belongs_to_one_prefix [of "effective_prefix ''sg-zai-'' ''b'' False" "''sg-zai-b-1''"] by blast
qed

section \<open>The launch gate\<close>

text \<open>When the pending file can be written, a gate grants exactly the smaller of the request, the
  host's step and the room the controller's total leaves after the workers and pending launches of all
  instances; it leaves the grant, and nothing more, published, leaves other pools alone, and restores the
  file when it grants nothing or the peers do not answer.\<close>

theorem gate_grants_the_room:
  assumes "\<And>m. disk m" "own + pend + peers_committed fp records \<le> u32_max"
  shows "\<exists>m' ld. gate_launch disk want limit own pend fp pool m tot bound (\<lambda>_. Inr records) = (m', Inr ld)
    \<and> ld_permitted ld = min (min want limit) (tot - (own + pend + peers_committed fp records))
    \<and> (\<forall>q. bm_get m' q = (if q = pool \<and> ld_permitted ld \<noteq> 0
         then Some (Reserved (sat_add pend (ld_permitted ld)) (pending_baseline m pool own)) else bm_get m q))
    \<and> (\<exists>m''. gate_launch disk want limit own pend fp pool m tot bound (\<lambda>_. Inl e) = (m'', Inl e)
         \<and> (\<forall>q. bm_get m'' q = bm_get m q))"
proof -
  have d: "\<forall>m. disk m" using assms(1) by blast
  have "permitted_launch (min want limit) own pend (peers_committed fp records) tot bound
      = min (min want limit) (tot - (own + pend + peers_committed fp records))"
    by (simp add: permitted_launch_def sat_sub_def)
  then show ?thesis
    using gate_launch_ok [OF d, of want limit own pend fp pool m tot bound records]
      gate_launch_pull_failed [OF d, of want limit own pend fp pool m tot bound e]
    by fastforce
qed

theorem gate_grants_the_room_witness:
  "\<exists>m' ld. gate_launch (\<lambda>_. True) 3 2 4 0 ''f'' ''zai'' [] 5 9 (\<lambda>_. Inr []) = (m', Inr ld) \<and> ld_permitted ld = 1"
  using gate_grants_the_room [of "\<lambda>_. True" 4 0 "''f''" "[]" 3 2 "''zai''" "[]" 5 9 "Bail []"]
  by (auto simp: peers_committed_def sat_sum_def u32_max_def)

text \<open>However the gates of several instances interleave - publishing an intent, reading what the
  others have published, turning a permission into workers, abandoning, losing workers - the workers they
  grant never sum above the largest controller total any of them used.\<close>

theorem gates_never_overshoot:
  fixes f g :: "'h::finite federation"
  assumes "fed_reach ctot f g" "\<And>i. fd_permit (f i) = None" "(\<Sum>i\<in>UNIV. fd_granted (f i)) \<le> ctot"
  shows "(\<Sum>i\<in>UNIV. fd_granted (g i)) \<le> ctot"
proof -
  have "fed_inv ctot f" using assms(2,3) by (simp add: fed_inv_def fd_due_def)
  then have "fed_inv ctot g" using fed_reach_inv assms(1) by blast
  then have "(\<Sum>i\<in>UNIV. fd_due (g i)) \<le> ctot" by (simp add: fed_inv_def)
  moreover have "(\<Sum>i\<in>UNIV. fd_granted (g i)) \<le> (\<Sum>i\<in>UNIV. fd_due (g i))"
    by (intro sum_mono) (simp add: fd_due_def)
  ultimately show ?thesis by linarith
qed

definition idle_host :: fed_host where
  "idle_host = \<lparr> fd_granted = 0, fd_intent = 0, fd_permit = None \<rparr>"

theorem gates_never_overshoot_witness:
  "(\<Sum>i\<in>UNIV. fd_granted (((\<lambda>_::bool. idle_host)(True := idle_host\<lparr> fd_intent := 5 \<rparr>)) i)) \<le> 3"
proof -
  have "fed_reach 3 (\<lambda>_::bool. idle_host) ((\<lambda>_. idle_host)(True := idle_host\<lparr> fd_intent := 5 \<rparr>))"
    using fed_reach.step [OF fed_reach.start fed_step.publish [of "\<lambda>_::bool. idle_host" True 3 5]]
    by (simp add: idle_host_def)
  from gates_never_overshoot [OF this] show ?thesis by (simp add: idle_host_def)
qed

text \<open>C15: Whatever writes fail and whatever the peers answer, a run of the gate is a run of the
  interleaved model: the host's workers and pending launches are what it has granted, the file that holds
  its intent when the pull is made is what the others see, and every answer of the pull reports what the
  others publish in a state the federation has reached from there.  The run ends without an open
  permission, having granted what the result says, with the pending file publishing exactly the model's
  grant and intent; the grant stays within the request and the step and is the room the total leaves, and
  a gate whose writes succeed and whose peers answer does return.  What is pending together with what is
  asked for fits 32 bits.\<close>

theorem gate_refines_protocol:
  fixes f :: "'h::finite federation" and disk :: "pending_map \<Rightarrow> bool" and bound :: nat
  assumes "f i = \<lparr> fd_granted = own + pend, fd_intent = 0, fd_permit = None \<rparr>"
    and "read_pending_launches m pool = pend" "pend + min want limit \<le> u32_max"
    and "\<And>m1 records. repull m1 = Inr records \<Longrightarrow> \<exists>g.
      fed_reach tot (f(i := (f i)\<lparr> fd_intent := read_pending_launches m1 pool - pend \<rparr>)) g
      \<and> g i = (f i)\<lparr> fd_intent := read_pending_launches m1 pool - pend \<rparr>
      \<and> others_published g i = peers_committed fp records"
  defines "intended \<equiv> bm_put pool (Reserved (pend + min want limit) (pending_baseline m pool own)) m"
  defines "res \<equiv> gate_launch disk want limit own pend fp pool m tot bound repull"
  shows "(\<exists>F. fed_reach tot f F \<and> fd_permit (F i) = None
      \<and> fd_granted (F i) = own + pend + (case snd res of Inl _ \<Rightarrow> 0 | Inr ld \<Rightarrow> ld_permitted ld)
      \<and> fd_published (F i) = own + read_pending_launches (fst res) pool)
    \<and> (\<forall>q. q \<noteq> pool \<longrightarrow> bm_get (fst res) q = bm_get m q)
    \<and> (\<forall>ld. snd res = Inr ld \<longrightarrow> (\<exists>records. repull intended = Inr records
         \<and> ld_permitted ld = min (min want limit) (tot - (own + pend + peers_committed fp records))))
    \<and> ((\<forall>m. disk m) \<longrightarrow> (\<exists>records. repull intended = Inr records) \<longrightarrow> (\<exists>ld. snd res = Inr ld))"
proof -
  obtain m' r where res: "gate_launch disk want limit own pend fp pool m tot bound repull = (m', r)"
    by (cases "gate_launch disk want limit own pend fp pool m tot bound repull")
  note out = gate_launch_outcomes [OF res assms(2,3)]
  have run: "\<exists>F. fed_reach tot f F \<and> fd_permit (F i) = None
      \<and> fd_granted (F i) = own + pend + (case r of Inl _ \<Rightarrow> 0 | Inr ld \<Rightarrow> ld_permitted ld)
      \<and> fd_published (F i) = own + read_pending_launches m' pool"
    using gate_outcome_runs [OF out(1), where f = f and i = i] assms(1,2,3,4) by blast
  show ?thesis unfolding res_def intended_def res fst_conv snd_conv
    using run out(2-4) by blast
qed

theorem gate_refines_protocol_witness:
  "ld_permitted (case gate_launch (\<lambda>_. True) 3 2 4 0 ''f'' ''zai'' [] 5 9 (\<lambda>_. Inr []) of (m, Inr ld) \<Rightarrow> ld) = 1"
proof -
  let ?f = "(\<lambda>_::bool. idle_host)(True := \<lparr> fd_granted = 4 + 0, fd_intent = 0, fd_permit = None \<rparr>)"
  let ?r = "\<lambda>_::pending_map. Inr [] :: peer_record list res"
  have "UNIV - {True} = {False}" by auto
  then have o: "others_published (?f(True := (?f True)\<lparr> fd_intent := n \<rparr>)) True = peers_committed ''f'' []" for n
    by (simp add: others_published_def fd_published_def idle_host_def peers_committed_def sat_sum_def)
  have pull: "\<exists>g. fed_reach 5 (?f(True := (?f True)\<lparr> fd_intent := read_pending_launches m1 ''zai'' - 0 \<rparr>)) g
      \<and> g True = (?f True)\<lparr> fd_intent := read_pending_launches m1 ''zai'' - 0 \<rparr>
      \<and> others_published g True = peers_committed ''f'' records" if "?r m1 = Inr records" for m1 records
    using that o by (intro exI [of _ "?f(True := (?f True)\<lparr> fd_intent := read_pending_launches m1 ''zai'' - 0 \<rparr>)"])
      (simp add: fed_reach.start)
  show ?thesis
    using gate_refines_protocol [of ?f True 4 0 "[]" "''zai''" 3 2 ?r 5 "''f''" "\<lambda>_. True" 9, OF _ _ _ pull]
    by (auto simp: u32_max_def peers_committed_def sat_sum_def read_pending_launches_def bm_get_def
        split: prod.splits sum.splits)
qed

end
