(* ===== verification/State_Properties.thy ===== *)
theory State_Properties
  imports Samples
begin

text \<open>
  What the persisted state guarantees: recording keeps it well formed and bounded, loading restores the
  bounds, and the oscillation test is the one on the sequence of distinct targets.
\<close>

text \<open>Every recording operation keeps the state well formed: maps in key order, histories bounded,
  the high-water mark of a generation above each of its samples, one schema version.\<close>

theorem recording_keeps_state_ok:
  assumes "state_ok s"
  shows "state_ok (record_host ch s account host sn workers)
    \<and> state_ok (record_host_placement s account host now n)
    \<and> state_ok (s\<lparr> gs_accounts := bm_entry account_state_default account
           (\<lambda>a. account_record ch a sn workers n) (gs_accounts s) \<rparr>)"
proof -
  have "account_ok account_state_default"
    by (simp add: account_ok_def account_state_default_def bm.inv_emp bm.look_emp)
  then have "state_ok (s\<lparr> gs_accounts := bm_entry account_state_default account
           (\<lambda>a. account_record ch a sn workers n) (gs_accounts s) \<rparr>)"
    using assms account_record_ok
    by (cases "bm_get (gs_accounts s) account") (auto simp: state_ok_def bm_get_entry bm_ok_entry)
  then show ?thesis using record_host_ok [OF assms] record_host_placement_ok [OF assms] by simp
qed

theorem recording_keeps_state_ok_witness:
  "state_ok (record_host_placement (record_host chrono_ref gov_state_default ''a'' ''h1'' snap1 2) ''a'' ''h1'' 0 3)"
proof -
  have "state_ok gov_state_default" by (simp add: state_ok_def gov_state_default_def bm_get_def bm.inv_emp)
  from recording_keeps_state_ok [OF this] have "state_ok (record_host chrono_ref gov_state_default ''a'' ''h1'' snap1 2)"
    by blast
  from recording_keeps_state_ok [OF this] show ?thesis by blast
qed

text \<open>After any number of recorded targets the placement history of a host is the newest sixteen of
  everything it ever held.\<close>

theorem placement_history_is_newest:
  assumes "length (ho_placement h) \<le> 16"
  shows "ho_placement (foldl (\<lambda>h s. record_placement h (ps_observed_at s) (ps_target s)) h ss)
    = drop (length (ho_placement h) + length ss - 16) (ho_placement h @ ss)"
  using placement_log.run_entries [of h ss] assms by (simp add: max_placement_def keep_last_def)

theorem placement_history_is_newest_witness:
  "length (ho_placement (foldl (\<lambda>h s. record_placement h (ps_observed_at s) (ps_target s)) host_state_default
     (replicate 20 \<lparr> ps_observed_at = 0, ps_target = 1 \<rparr>))) = 16"
  using placement_history_is_newest [of host_state_default "replicate 20 \<lparr> ps_observed_at = 0, ps_target = 1 \<rparr>"]
  by (simp add: host_state_default_def)

section \<open>Oscillation\<close>

lemma collect_changes_take:
  "acc \<noteq> [] \<Longrightarrow> length acc < n \<Longrightarrow>
     collect_changes n acc xs = take n (acc @ tl (remdups_adj (last acc # xs)))"
proof (induction xs arbitrary: acc)
  case (Cons x xs)
  show ?case
  proof (cases "last acc = x")
    case False
    obtain r where r: "remdups_adj (x # xs) = x # r" using remdups_adj_Cons_alt [of x xs, symmetric] by blast
    show ?thesis using Cons.IH [of "acc @ [x]"] Cons.prems False r by (auto simp: Let_def)
  qed (use Cons in simp)
qed simp

lemma collect_changes_recent:
  assumes "1 < n"
  shows "collect_changes n [] (rev ts) = rev (drop (length (remdups_adj ts) - n) (remdups_adj ts))"
proof (cases "rev ts")
  case (Cons x xs)
  then have "collect_changes n [] (rev ts) = take n (remdups_adj (rev ts))"
    using assms collect_changes_take [of "[x]" n xs] by simp
  then show ?thesis by (cases "n \<le> length (remdups_adj ts)") (simp_all add: rev_drop)
qed simp

text \<open>The oscillation test is the one on the sequence of distinct consecutive targets: it holds for
  a number of changes in its range exactly when there were that many and the last of them alternate
  between two counts.\<close>

theorem alternation_is_of_distinct_targets:
  "placement_alternates_for h k \<longleftrightarrow> 2 \<le> k \<and> k < 16
     \<and> (let ts = remdups_adj (map ps_target (ho_placement h)); r = drop (length ts - (k + 1)) ts
        in k < length ts \<and> (\<forall>i \<in> {..<k + 1}. r ! i = r ! (i mod 2)))"
proof -
  let ?ts = "remdups_adj (map ps_target (ho_placement h))"
  define r where "r = drop (length ?ts - Suc k) ?ts"
  have c: "collect_changes (Suc k) [] (map ps_target (rev (ho_placement h))) = rev r" if "2 \<le> k"
    using collect_changes_recent [of "Suc k" "map ps_target (ho_placement h)"] that by (simp add: rev_map r_def)
  have short: "length ?ts \<le> length (ho_placement h)" using remdups_adj_length [of "map ps_target (ho_placement h)"] by simp
  have len: "length r = Suc k \<longleftrightarrow> k < length ?ts" by (auto simp: r_def)
  have ne: "r ! 0 \<noteq> r ! 1" if "k < length ?ts" "2 \<le> k"
  proof -
    have "Suc (length ?ts - Suc k) < length ?ts" using that by linarith
    then show ?thesis
      using remdups_adj_adjacent [of "length ?ts - Suc k" "map ps_target (ho_placement h)"] that by (simp add: r_def)
  qed
  have alt: "(if even i then r ! 0 else r ! 1) = r ! (i mod 2)" for i
    by (cases "even i") (simp_all add: even_iff_mod_2_eq_zero odd_iff_mod_2_eq_one)
  have all: "list_all (\<lambda>i. r ! i = (if even i then r ! 0 else r ! 1)) [0..<Suc k]
      \<longleftrightarrow> (\<forall>i \<in> {..<Suc k}. r ! i = r ! (i mod 2))"
    unfolding alt list_all_iff by (simp only: set_upt atLeast0LessThan)
  have "placement_alternates_for h k \<longleftrightarrow> 2 \<le> k \<and> k < 16 \<and> k < length (ho_placement h) \<and> length r = Suc k
      \<and> r ! 0 \<noteq> r ! 1 \<and> list_all (\<lambda>i. r ! i = (if even i then r ! 0 else r ! 1)) [0..<Suc k]"
    by (auto simp: placement_alternates_for_def max_placement_def c Let_def not_le simp del: upt_Suc cong: conj_cong)
  then show ?thesis unfolding all len using short ne by (auto simp: Let_def r_def)
qed

definition swinging_host :: host_state where
  "swinging_host = host_state_default\<lparr> ho_placement := map (\<lambda>n. \<lparr> ps_observed_at = 0, ps_target = n \<rparr>) [3, 1, 2, 2, 1, 2] \<rparr>"

theorem alternation_is_of_distinct_targets_witness: "placement_alternates_for swinging_host 3"
proof -
  have "{..<4} = {0, 1, 2, 3::nat}" by auto
  then show ?thesis
    unfolding alternation_is_of_distinct_targets by (simp add: swinging_host_def Let_def)
qed

section \<open>Loading\<close>

lemma foldl_fmax_stable: "(\<forall>x \<in> set xs. fmax m x = m) \<Longrightarrow> foldl fmax m xs = m"
  by (induction xs) auto

lemma foldl_fmax_upper:
  "m \<noteq> NaN \<Longrightarrow> foldl fmax m xs \<noteq> NaN \<and> fle m (foldl fmax m xs)
     \<and> (\<forall>x \<in> set xs. x \<noteq> NaN \<longrightarrow> fle x (foldl fmax m xs))"
proof (induction xs arbitrary: m)
  case (Cons x xs)
  have n: "fmax m x \<noteq> NaN" using Cons.prems by (rule fmax_not_nan)
  note IH = Cons.IH [OF n]
  have "fle m (fmax m x)" "x \<noteq> NaN \<Longrightarrow> fle x (fmax m x)"
    using fmax_ge_left [of m x] fmax_ge_right [of x m] Cons.prems by auto
  then show ?case using IH fle_trans by auto
qed (simp add: fle_refl)

lemma fmax_absorb: "fle x m \<Longrightarrow> fmax m x = m"
  by (cases x; cases m) (auto simp: fmax_def)

lemma foldl_fmax_absorbs: "x \<in> set xs \<Longrightarrow> fmax (foldl fmax m xs) x = foldl fmax m xs"
proof (induction xs arbitrary: m)
  case (Cons y ys)
  show ?case
  proof (cases "x = y")
    case True
    show ?thesis
    proof (cases "y = NaN")
      case False
      then have n: "fmax m y \<noteq> NaN" "fle y (fmax m y)" using fmax_ge_right by (auto simp: fmax_def)
      note u = foldl_fmax_upper [OF n(1), of ys]
      then have "fle y (foldl fmax (fmax m y) ys)" using n(2) fle_trans by blast
      then show ?thesis using True by (simp add: fmax_absorb)
    qed (use True in \<open>simp add: fmax_def\<close>)
  qed (use Cons in simp)
qed simp

lemma normalize_history_idem: "normalize_history (normalize_history h) = normalize_history h"
  by (simp add: normalize_history_def foldl_map [symmetric] foldl_fmax_stable foldl_fmax_absorbs)

text \<open>Loading a file that parses refuses a schema newer than the supported one and otherwise
  restores every bound: the schema version, the lengths of the placement and burn histories, the
  high-water mark above each retained sample.  Loading what was loaded changes nothing.\<close>

theorem load_restores_bounds:
  assumes "load_state (Some (Inr s)) = Inr (s', w)"
  shows "gs_schema_version s \<le> 8 \<and> gs_schema_version s' = 8
    \<and> (\<forall>a m i h. bm_get (gs_hosts s') a = Some m \<longrightarrow> bm_get m i = Some h \<longrightarrow> length (ho_placement h) \<le> 16)
    \<and> (\<forall>a acc i l. bm_get (gs_accounts s') a = Some acc \<longrightarrow> bm_get (as_aggregate acc) i = Some l \<longrightarrow> length l \<le> 3072)
    \<and> (\<forall>a acc i h smp. bm_get (gs_accounts s') a = Some acc \<longrightarrow> bm_get (as_history acc) i = Some h
         \<longrightarrow> smp \<in> set (wh_samples h) \<longrightarrow> fmax (wh_max_used h) (hs_used_fraction smp) = wh_max_used h)
    \<and> load_state (Some (Inr s')) = Inr (s', None)"
proof -
  have v: "gs_schema_version s \<le> 8" and s': "s' = s\<lparr> gs_schema_version := 8,
      gs_accounts := bm_map normalize_account (gs_accounts s),
      gs_hosts := bm_map (bm_map normalize_host) (gs_hosts s) \<rparr>"
    using assms by (auto simp: load_state_def state_schema_version_def split: if_splits)
  have idem: "normalize_account (normalize_account a) = normalize_account a"
    "normalize_host (normalize_host h) = normalize_host h" for a h
    by (simp_all add: normalize_account_def normalize_host_def bm_map_def comp_def normalize_history_idem
        keep_last_def max_placement_def max_aggregate_def)
  have load: "load_state (Some (Inr s')) = Inr (s', None)"
    by (simp add: load_state_def state_schema_version_def s' bm_map_def comp_def idem)
  have high: "fmax (wh_max_used (normalize_history h)) (hs_used_fraction x) = wh_max_used (normalize_history h)"
    if "x \<in> set (wh_samples (normalize_history h))" for h x
    using that foldl_fmax_absorbs [of "hs_used_fraction x" "map hs_used_fraction (wh_samples h)" "wh_max_used h"]
    by (simp add: normalize_history_def foldl_map)
  show ?thesis
    using v load high by (auto simp: s' normalize_account_def normalize_host_def max_placement_def max_aggregate_def)
qed

theorem load_restores_bounds_witness:
  "\<exists>s'. load_state (Some (Inr (gov_state_default\<lparr> gs_schema_version := 6 \<rparr>))) = Inr (s', None)
     \<and> gs_schema_version s' = 8"
proof -
  obtain s' where "load_state (Some (Inr (gov_state_default\<lparr> gs_schema_version := 6 \<rparr>))) = Inr (s', None)"
    by (simp add: load_state_def state_schema_version_def)
  with load_restores_bounds [OF this] show ?thesis by blast
qed

section \<open>Generations\<close>

text \<open>With the arithmetic of the time library, two reset times are of the same generation exactly when
  they are less than sixty-one seconds apart; the relation is symmetric, but generations are not classes:
  a provider that drifts by less at a time is never seen to reset.\<close>

theorem generation_is_distance:
  assumes "chrono_laws ch"
  shows "same_reset_generation ch a b \<longleftrightarrow> \<bar>a - b\<bar> < 61 * 1000000000"
  using chrono_laws.same_generation_iff [OF assms] by simp

theorem generation_is_distance_witness:
  "same_reset_generation chrono_ref (secs 0) (secs 60) \<and> same_reset_generation chrono_ref (secs 60) (secs 120)
   \<and> \<not> same_reset_generation chrono_ref (secs 0) (secs 120)"
  by (simp add: generation_is_distance [OF chrono_ref_laws] secs_def)

end
