(* ===== verification/Local_Record.thy ===== *)
theory Local_Record
  imports Ownership Shared_Total
begin

text \<open>
  \<open>src/federation.rs\<close>, building the record this instance publishes.  What the files hold (the status
  of the last cycle, the demand of a pool, the host-capacity evidence, the pending launches, the stored
  exclusions, the instance id, the record sequence) is an argument, decoded; so are \<open>git remote get-url\<close>,
  the digest of an account identifier and the conversion of epoch seconds by the time library.  Paths are
  strings in the normal form in which \<open>Path\<close> compares them.
\<close>

section \<open>Text\<close>

text \<open>\<open>str::trim\<close>\<close>

function trim_start :: "string \<Rightarrow> string" where
  "trim_start s = (if s = [] \<or> ws_len s = 0 then s else trim_start (drop (ws_len s) s))"
  by pat_completeness auto
termination
  by (relation "measure length") auto

declare trim_start.simps [simp del]

fun trim_end :: "string \<Rightarrow> string" where
  "trim_end [] = []"
| "trim_end (c # s) = (if all_ws (c # s) then [] else c # trim_end s)"

definition trim :: "string \<Rightarrow> string" where
  "trim s = trim_end (trim_start s)"

text \<open>\<open>format!("{byte:02x}")\<close>\<close>

definition hex_digit :: "nat \<Rightarrow> char" where
  "hex_digit n = char_of (if n < 10 then 48 + n else 87 + n)"

definition hex_byte :: "nat \<Rightarrow> string" where
  "hex_byte b = [hex_digit (b div 16), hex_digit (b mod 16)]"

text \<open>A number in decimal, \<open>format!("{n}")\<close>\<close>

fun dec :: "nat \<Rightarrow> string" where
  "dec n = (if n < 10 then [char_of (48 + n)] else dec (n div 10) @ [char_of (48 + n mod 10)])"

declare dec.simps [simp del]

text \<open>\<open>str::parse::<u64>\<close>: an optional plus sign, at least one digit, the value in range.\<close>

definition digits_value :: "string \<Rightarrow> nat" where
  "digits_value s = foldl (\<lambda>n c. n * 10 + (byte c - 48)) 0 s"

definition parse_u64 :: "string \<Rightarrow> nat option" where
  "parse_u64 s = (let d = unwrap_or s (strip_prefix ''+'' s)
     in if d \<noteq> [] \<and> list_all is_digit d \<and> digits_value d \<le> u64_max then Some (digits_value d) else None)"

section \<open>Identity\<close>

definition account_fingerprint :: "(string \<Rightarrow> nat list) \<Rightarrow> string \<Rightarrow> string" where
  "account_fingerprint digest identifier = concat (map hex_byte (take (fingerprint_hex_chars div 2) (digest identifier)))"

text \<open>The id file's content, or the sixteen random bytes a new id is written from.\<close>

definition load_or_create_instance_id :: "string option \<Rightarrow> nat list \<Rightarrow> bool \<Rightarrow> string res" where
  "load_or_create_instance_id stored fresh_bytes writable =
     (case stored of
        Some content \<Rightarrow>
          (case validate_identifier ''instance_id'' (trim content) of
             None \<Rightarrow> Inr (trim content)
           | Some _ \<Rightarrow> Inl (Bail ''instance_id must be non-empty and free of whitespace''))
      | None \<Rightarrow>
          if writable then Inr (concat (map hex_byte fresh_bytes))
          else Inl (Bail ''failed to persist instance id''))"

text \<open>The counter file: its content (\<open>None\<close> when it does not exist), the new content and the sequence.\<close>

definition next_record_seq :: "string option \<Rightarrow> bool \<Rightarrow> nat res" where
  "next_record_seq stored writable =
     bind_res (case stored of
         None \<Rightarrow> Inr 0
       | Some content \<Rightarrow> (case parse_u64 (trim content) of
             Some n \<Rightarrow> Inr n | None \<Rightarrow> Inl (Bail ''record sequence is not a counter'')))
       (\<lambda>current.
        if u64_max < current + 1 then Inl (Bail ''record sequence counter exhausted'')
        else if writable then Inr (current + 1) else Inl (Bail ''failed to persist record sequence''))"

text \<open>What the counter file is rewritten to.\<close>

definition seq_file :: "nat \<Rightarrow> string" where
  "seq_file n = dec n @ [CHR 10]"

section \<open>Pools\<close>

text \<open>The actuator and the observer of the account on a host.\<close>

definition host_actuator :: "account_config \<Rightarrow> string \<Rightarrow> actuator_config option" where
  "host_actuator a host = (case fl_hosts (ac_fleet a) of
     Some hosts \<Rightarrow> map_option hc_actuator (bm_get hosts host) | None \<Rightarrow> Some (fl_actuator (ac_fleet a)))"

definition host_observer :: "account_config \<Rightarrow> string \<Rightarrow> worker_observer_config option" where
  "host_observer a host = (case fl_hosts (ac_fleet a) of
     Some hosts \<Rightarrow> map_option hc_observer (bm_get hosts host) | None \<Rightarrow> fl_observer (ac_fleet a))"

fun actuator_prefix :: "actuator_config \<Rightarrow> string option" where
  "actuator_prefix (NeedleRun repo adapter prefix demand heartbeats) = prefix"
| "actuator_prefix _ = None"

fun observer_prefix :: "worker_observer_config \<Rightarrow> string option" where
  "observer_prefix (NeedleStatus agent dir stale prefix) = prefix"
| "observer_prefix _ = None"

fun actuator_demand :: "actuator_config \<Rightarrow> string option" where
  "actuator_demand (NeedleRun repo adapter prefix demand heartbeats) = demand"
| "actuator_demand _ = None"

definition identifier_prefix :: "account_config \<Rightarrow> string \<Rightarrow> string option" where
  "identifier_prefix a host =
     or_opt (Option.bind (host_actuator a host) actuator_prefix) (Option.bind (host_observer a host) observer_prefix)"

definition pool_key :: "account_config \<Rightarrow> string \<Rightarrow> string \<Rightarrow> string" where
  "pool_key a name host = unwrap_or name (identifier_prefix a host)"

definition local_worker_prefixes :: "config \<Rightarrow> (string, string) bmap" where
  "local_worker_prefixes cfg = (case cf_federation cfg of
     None \<Rightarrow> []
   | Some f \<Rightarrow> bm_collect (List.map_filter
       (\<lambda>(name, a). map_option (\<lambda>p. (name, p)) (identifier_prefix a (fc_host_id f))) (cf_accounts cfg)))"

definition seed_demand_state :: "account_config \<Rightarrow> string \<Rightarrow> string option" where
  "seed_demand_state a host = Option.bind (host_actuator a host) actuator_demand"

section \<open>Demand\<close>

record demand_workspace =
  dw_workspace :: "string option"
  dw_ready_beads :: "nat option"
  dw_eligible_slots :: "nat option"

record demand_digest =
  dd_ready_bead_count :: "nat option"
  dd_eligible_backlog_capacity :: "nat option"
  dd_workspaces :: "demand_workspace list"
  dd_ready :: "demand_workspace list"

definition demand_default :: demand_digest where
  "demand_default = \<lparr> dd_ready_bead_count = None, dd_eligible_backlog_capacity = None,
     dd_workspaces = [], dd_ready = [] \<rparr>"

definition included :: "string list \<Rightarrow> demand_workspace list \<Rightarrow> demand_workspace list" where
  "included excluded ws = filter (\<lambda>w. is_some_and (\<lambda>p. p \<notin> set excluded) (dw_workspace w)) ws"

definition ready_demand :: "demand_digest \<Rightarrow> string list \<Rightarrow> peer_ready_demand" where
  "ready_demand d excluded =
     (if excluded = [] then
        \<lparr> rd_ready_beads = unwrap_or 0 (dd_ready_bead_count d),
          rd_backlog_capacity = dd_eligible_backlog_capacity d \<rparr>
      else
        \<lparr> rd_ready_beads = sat_sum (map (\<lambda>w. unwrap_or 0 (dw_ready_beads w)) (included excluded (dd_workspaces d))),
          rd_backlog_capacity = Some (sat_sum
            (map (\<lambda>w. unwrap_or 0 (dw_eligible_slots w)) (included excluded (dd_workspaces d)))) \<rparr>)"

section \<open>Origins\<close>

definition sanitize_origin :: "string \<Rightarrow> string" where
  "sanitize_origin url =
     (let (scheme, rest) = (case split_once ''://'' url of
            Some (scheme, rest) \<Rightarrow> (Some scheme, rest) | None \<Rightarrow> (None, url));
          authority_end = unwrap_or (case scheme of
              None \<Rightarrow> length rest
            | Some _ \<Rightarrow> unwrap_or (length rest) (find_char (CHR '':'') rest)) (find_char (CHR ''/'') rest);
          authority = take authority_end rest;
          tail = drop authority_end rest
      in case split_once ''@'' authority of
           Some (userinfo, host) \<Rightarrow>
             (case scheme of Some scheme \<Rightarrow> scheme @ ''://'' @ host @ tail | None \<Rightarrow> host @ tail)
         | None \<Rightarrow> url)"

text \<open>\<open>git\<close> answers a path with the trimmed, nonempty output of the command, or not at all.\<close>

definition seed_paths :: "demand_digest \<Rightarrow> string list" where
  "seed_paths d = sorted_list_of_set (set (filter (\<lambda>p. \<not> all_ws p)
     (List.map_filter dw_workspace (dd_workspaces d @ dd_ready d))))"

definition seed_origins :: "(string \<Rightarrow> string option) \<Rightarrow> demand_digest \<Rightarrow> (string, string) bmap" where
  "seed_origins git d = bm_collect (List.map_filter
     (\<lambda>p. map_option (\<lambda>url. (p, sanitize_origin url)) (git p)) (seed_paths d))"

definition local_seed_origins ::
  "(string \<Rightarrow> string option) \<Rightarrow> account_config \<Rightarrow> string \<Rightarrow> demand_digest \<Rightarrow> (string, string) bmap" where
  "local_seed_origins git a host d =
     (let origins = seed_origins git d
      in if seed_demand_state a host \<noteq> None then origins
         else case host_actuator a host of
           Some (NeedleRun repo adapter prefix demand heartbeats) \<Rightarrow>
             (case git repo of Some url \<Rightarrow> bm_put repo (sanitize_origin url) origins | None \<Rightarrow> origins)
         | _ \<Rightarrow> origins)"

text \<open>\<open>read\<close> decodes a demand file; one that cannot be read is the default.\<close>

definition pool_demand_digest :: "(string \<Rightarrow> demand_digest option) \<Rightarrow> account_config \<Rightarrow> string \<Rightarrow> demand_digest" where
  "pool_demand_digest read a host =
     (case seed_demand_state a host of None \<Rightarrow> demand_default | Some p \<Rightarrow> unwrap_or demand_default (read p))"

definition bm_extend :: "('k::linorder, 'v) bmap \<Rightarrow> ('k, 'v) bmap \<Rightarrow> ('k, 'v) bmap" where
  "bm_extend m es = foldl (\<lambda>m e. bm_put (fst e) (snd e) m) m es"

definition local_workspace_origins ::
  "(string \<Rightarrow> string option) \<Rightarrow> (string \<Rightarrow> demand_digest option) \<Rightarrow> config \<Rightarrow> (string, string) bmap" where
  "local_workspace_origins git read cfg = (case cf_federation cfg of
     None \<Rightarrow> []
   | Some f \<Rightarrow> foldl (\<lambda>m a. bm_extend m (local_seed_origins git a (fc_host_id f) (pool_demand_digest read a (fc_host_id f))))
       [] (bm_vals (cf_accounts cfg)))"

section \<open>The record\<close>

definition freshest_window :: "gov_state \<Rightarrow> string \<Rightarrow> peer_quota_sample option" where
  "freshest_window st account = Option.bind (bm_get (gs_accounts st) account) (\<lambda>a.
     map_option (\<lambda>(wid, s). \<lparr> pq_window = wid, pq_used_fraction = wsm_used_fraction s,
         pq_resets_at = wsm_resets_at s, pq_observed_at = wsm_observed_at s \<rparr>)
       (max_by (\<lambda>(lid, l) (rid, r). wsm_observed_at r < wsm_observed_at l
           \<or> (wsm_observed_at l = wsm_observed_at r \<and> lid < rid)) (as_windows a)))"

definition host_resource_reserve :: "config \<Rightarrow> string \<Rightarrow> resource_reserve_config option" where
  "host_resource_reserve cfg host =
     (case List.map_filter (\<lambda>a. Option.bind (fl_hosts (ac_fleet a)) (\<lambda>hosts.
         Option.bind (bm_get hosts host) hc_resource_reserve)) (bm_vals (cf_accounts cfg)) of
        [] \<Rightarrow> None | r # _ \<Rightarrow> Some r)"

record status_digest =
  sd_current_workers :: "nat option"
  sd_desired_workers :: "nat option"

record host_evidence =
  he_ceiling :: "nat option"
  he_observed_at :: "f64 option"

record capacity_reservation =
  cr_count :: nat
  cr_at :: "f64 option"

record host_capacity_digest =
  hcd_last_evidence :: "host_evidence option"
  hcd_reservations :: "(string, capacity_reservation) bmap"

text \<open>\<open>f64::trunc\<close>, \<open>as i64\<close>, and the conversion of epoch seconds.\<close>

definition f_trunc :: "f64 \<Rightarrow> f64" where
  "f_trunc x = (case x of
     Fin q \<Rightarrow> if q < 0 then (if \<lceil>q\<rceil> = 0 then NZero else Fin (of_int \<lceil>q\<rceil>)) else Fin (of_int \<lfloor>q\<rfloor>)
   | _ \<Rightarrow> x)"

definition f_to_i64 :: "f64 \<Rightarrow> int" where
  "f_to_i64 x = (case x of
     NaN \<Rightarrow> 0
   | Inf s \<Rightarrow> if s then - 9223372036854775808 else 9223372036854775807
   | NZero \<Rightarrow> 0
   | Fin q \<Rightarrow> max (- 9223372036854775808) (min (if q < 0 then \<lceil>q\<rceil> else \<lfloor>q\<rfloor>) 9223372036854775807))"

definition epoch :: "(int \<Rightarrow> nat \<Rightarrow> datetime option) \<Rightarrow> f64 option \<Rightarrow> datetime \<Rightarrow> datetime option" where
  "epoch timestamp seconds fallback = Option.bind seconds (\<lambda>s.
     let secs = f_to_i64 (f_trunc s);
         nanos = f_to_u32 (fmul (fsub s (f_trunc s)) (f_lit 1000000000))
     in or_opt (timestamp secs nanos) (Some fallback))"

text \<open>What the record is assembled from.\<close>

record local_files =
  lf_instance_id :: "string res"
  lf_record_seq :: "nat res"
  lf_status :: "(string, status_digest) bmap"
  lf_state :: "gov_state res"
  lf_capacity :: "host_capacity_digest res"
  lf_excluded :: "string list"
  lf_pending :: pending_map
  lf_demand :: "string \<Rightarrow> demand_digest option"
  lf_git :: "string \<Rightarrow> string option"
  lf_timestamp :: "int \<Rightarrow> nat \<Rightarrow> datetime option"
  lf_digest :: "string \<Rightarrow> nat list"

definition pool_state :: "local_files \<Rightarrow> gov_state \<Rightarrow> account_config \<Rightarrow> string \<Rightarrow> string \<Rightarrow> string \<times> peer_pool" where
  "pool_state lf st a name host =
     (let readiness = bm_get (lf_status lf) name; key = pool_key a name host
      in (key, \<lparr> pp_governed = unwrap_or 0 (Option.bind readiness sd_current_workers),
            pp_pending = read_pending_launches (lf_pending lf) key,
            pp_desired = unwrap_or 0 (Option.bind readiness sd_desired_workers),
            pp_quota_sample = freshest_window st name,
            pp_ready_demand = ready_demand (pool_demand_digest (lf_demand lf) a host) (lf_excluded lf) \<rparr>))"

definition local_account :: "local_files \<Rightarrow> federation_config \<Rightarrow> gov_state \<Rightarrow> string \<times> account_config \<Rightarrow> string \<times> peer_account" where
  "local_account lf f st e = (case e of (name, a) \<Rightarrow>
     (name, \<lparr> pa_account_id = name,
        pa_fingerprint = account_fingerprint (lf_digest lf) (unwrap_or name (bm_get (fc_account_identities f) name)),
        pa_pools = [pool_state lf st a name (fc_host_id f)] \<rparr>))"

definition build_local_record :: "config \<Rightarrow> local_files \<Rightarrow> datetime \<Rightarrow> peer_record res" where
  "build_local_record cfg lf now =
     (case cf_federation cfg of
        None \<Rightarrow> Inl (Bail ''peer-state requires a federation: block (federation.host_id)'')
      | Some f \<Rightarrow>
          bind_res (lf_instance_id lf) (\<lambda>instance_id.
          bind_res (lf_record_seq lf) (\<lambda>seq.
          bind_res (lf_state lf) (\<lambda>st.
          bind_res (lf_capacity lf) (\<lambda>cap.
          Inr \<lparr> pr_schema_version = peer_record_schema_version, pr_instance_id = instance_id,
            pr_host_id = fc_host_id f, pr_record_seq = seq, pr_observed_at = now,
            pr_accounts = bm_collect (map (local_account lf f st) (cf_accounts cfg)),
            pr_host_ceiling = Option.bind (hcd_last_evidence cap) (\<lambda>e.
              Option.bind (he_ceiling e) (\<lambda>w. map_option (\<lambda>t. \<lparr> ph_workers = w, ph_observed_at = t \<rparr>)
                (epoch (lf_timestamp lf) (he_observed_at e) now))),
            pr_reservations = bm_collect (List.map_filter (\<lambda>(pool, r).
              map_option (\<lambda>t. (pool, \<lparr> hr_count = cr_count r, hr_reserved_at = t \<rparr>))
                (epoch (lf_timestamp lf) (cr_at r) now)) (hcd_reservations cap)),
            pr_resource_reserve = map_option reserve_digest (host_resource_reserve cfg (fc_host_id f)),
            pr_workspace_origins = foldl (\<lambda>m e. bm_extend m (local_seed_origins (lf_git lf) (snd e) (fc_host_id f)
                (pool_demand_digest (lf_demand lf) (snd e) (fc_host_id f)))) [] (cf_accounts cfg) \<rparr>)))))"

end
