(* ===== verification/Config_Validate.thy ===== *)
theory Config_Validate
  imports Local_Record Ownership_Laws
begin

text \<open>
  \<open>src/config.rs\<close>, the checks a parsed configuration passes before it is used, in the order
  \<open>Config::validate\<close> makes them, with the message of each; and \<open>Config::load\<close> after parsing:
  path expansion, validation, prefix rewriting.
\<close>

section \<open>Messages\<close>

text \<open>The section sign of the messages in UTF-8.\<close>

definition plan_section :: "string \<Rightarrow> string" where
  "plan_section n = ''(plan '' @ [char_of (194::nat), char_of (167::nat)] @ n @ '')''"

text \<open>A check that applies only under a condition, and the checks of the items of a list.\<close>

definition only_if :: "bool \<Rightarrow> unit res \<Rightarrow> unit res" where
  "only_if c r = (if c then r else Inr ())"

definition each :: "('a \<Rightarrow> unit res) \<Rightarrow> 'a list \<Rightarrow> unit res" where
  "each f xs = all_ok (map f xs)"

definition on_some :: "'a option \<Rightarrow> ('a \<Rightarrow> unit res) \<Rightarrow> unit res" where
  "on_some x f = (case x of None \<Rightarrow> Inr () | Some v \<Rightarrow> f v)"

lemma only_if_ok [simp]: "only_if c r = Inr u \<longleftrightarrow> (c \<longrightarrow> r = Inr u)"
  by (cases u) (simp add: only_if_def)

lemma on_some_ok [simp]: "on_some x f = Inr u \<longleftrightarrow> (\<forall>v. x = Some v \<longrightarrow> f v = Inr u)"
  by (cases u) (auto simp: on_some_def split: option.splits)

lemma each_ok [simp]: "each f xs = Inr u \<longleftrightarrow> (\<forall>x \<in> set xs. f x = Inr u)"
  by (cases u) (simp add: each_def all_ok_iff)

lemma all_ok_Nil_iff [simp]: "all_ok [] = Inr u"
  by (cases u) simp

lemma all_ok_Cons_iff [simp]: "all_ok (r # rs) = Inr u \<longleftrightarrow> r = Inr u \<and> all_ok rs = Inr u"
  by (cases u; cases r) simp_all

declare all_ok.simps [simp del]

section \<open>Values\<close>

definition validate_duration :: "nat \<Rightarrow> string \<Rightarrow> unit res" where
  "validate_duration v ctx = all_ok
     [ensure (v \<noteq> 0) (ctx @ '' must be positive''),
      ensure (v \<le> i64_max) (ctx @ '' is too large'')]"

definition validate_argv :: "string list \<Rightarrow> string \<Rightarrow> bool \<Rightarrow> unit res" where
  "validate_argv argv ctx placeholder = all_ok
     [ensure (argv \<noteq> [] \<and> list_all (\<lambda>a. a \<noteq> []) argv) (ctx @ '': argv must contain non-empty arguments''),
      ensure (placeholder \<longrightarrow> list_ex (contains_str ''{desired_workers}'') argv)
        (ctx @ '': argv must contain {desired_workers}'')]"

definition is_name_char :: "char \<Rightarrow> bool" where
  "is_name_char c = (is_alnum c \<or> c = CHR ''.'' \<or> c = CHR ''_'' \<or> c = CHR ''-'')"

definition name_chars_text :: string where
  "name_chars_text = ''ASCII letters, digits, '' @ [CHR 39, CHR ''.'', CHR 39] @ '', ''
     @ [CHR 39, CHR ''_'', CHR 39] @ '' or '' @ [CHR 39, CHR ''-'', CHR 39]"

definition validate_needle_run :: "string \<Rightarrow> string \<Rightarrow> string \<Rightarrow> unit res" where
  "validate_needle_run repo adapter ctx = all_ok
     [ensure (repo \<noteq> []) (ctx @ '': repo must not be empty''),
      ensure (adapter \<noteq> [] \<and> list_all is_name_char adapter)
        (ctx @ '': adapter must contain only '' @ name_chars_text)]"

definition validate_needle_seeds :: "string option \<Rightarrow> string option \<Rightarrow> string \<Rightarrow> unit res" where
  "validate_needle_seeds demand heartbeats ctx =
     (case (demand, heartbeats) of
        (None, None) \<Rightarrow> Inr ()
      | (Some d, Some h) \<Rightarrow> each (\<lambda>p. ensure (p \<noteq> [])
            (ctx @ '': seed_demand_state and seed_heartbeats must not be empty'')) [d, h]
      | _ \<Rightarrow> Inl (Bail (ctx @ '': seed_demand_state and seed_heartbeats must be configured together'')))"

definition validate_needle_status :: "string \<Rightarrow> string \<Rightarrow> nat \<Rightarrow> string \<Rightarrow> unit res" where
  "validate_needle_status agent dir stale ctx = all_ok
     [ensure (agent \<noteq> [] \<and> list_all is_name_char agent) (ctx @ '': agent must contain only '' @ name_chars_text),
      ensure (dir \<noteq> []) (ctx @ '': heartbeat_dir must not be empty''),
      validate_duration stale (ctx @ '' stale_after_seconds'')]"

definition prefix_char :: "char \<Rightarrow> bool" where
  "prefix_char c = (is_lower c \<or> is_digit c \<or> c = CHR ''-'' \<or> c = CHR ''_'')"

definition validate_identifier_prefix :: "string option \<Rightarrow> string \<Rightarrow> unit res" where
  "validate_identifier_prefix prefix ctx = on_some prefix (\<lambda>p. all_ok
     [ensure (p \<noteq> [] \<and> length p \<le> 32) (ctx @ '': identifier_prefix must be 1-32 characters''),
      ensure (list_all prefix_char p) (ctx @ '': identifier_prefix may contain only a-z, 0-9, ''
        @ [CHR 39, CHR ''-'', CHR 39] @ '' and '' @ [CHR 39, CHR ''_'', CHR 39])])"

definition host_id_char :: "char \<Rightarrow> bool" where
  "host_id_char c = (is_lower c \<or> is_digit c \<or> c = CHR ''-'')"

definition validate_host_id :: "string \<Rightarrow> string \<Rightarrow> unit res" where
  "validate_host_id h ctx = all_ok
     [ensure (\<not> all_ws h \<and> \<not> has_ws h) (ctx @ '' must be non-empty and free of whitespace''),
      ensure (list_all host_id_char h) (ctx @ '' must contain only a-z, 0-9 and ''
        @ [CHR 39, CHR ''-'', CHR 39] @ '' for worker identity'')]"

definition validate_takeover_identity :: "string \<Rightarrow> string \<Rightarrow> unit res" where
  "validate_takeover_identity v ctx = ensure (v \<noteq> [] \<and> list_all is_name_char v \<and> is_alnum (hd v))
     (ctx @ '' must start with an ASCII letter or digit and contain only '' @ name_chars_text)"

section \<open>Utilization\<close>

definition validate_target :: "f64 option \<Rightarrow> f64 option \<Rightarrow> string \<Rightarrow> bool \<Rightarrow> unit res" where
  "validate_target target reserve ctx required = all_ok
     [ensure (target = None \<or> reserve = None) (ctx @ '': set target_utilization or reserve_fraction, not both''),
      ensure (required \<longrightarrow> target \<noteq> None \<or> reserve \<noteq> None)
        (ctx @ '': target_utilization or reserve_fraction is required''),
      on_some target (\<lambda>v. ensure (in_unit v \<and> \<not> feq v (Fin 0)) (ctx @ '': target_utilization must be in (0, 1]'')),
      on_some reserve (\<lambda>v. ensure (in_unit_open v) (ctx @ '': reserve_fraction must be in [0, 1)''))]"

definition validate_backpressure :: "backpressure_config \<Rightarrow> string \<Rightarrow> unit res" where
  "validate_backpressure p account = all_ok
     [each (\<lambda>(field, v). ensure (in_unit v)
         (''account '' @ account @ '': utilization.backpressure.'' @ field @ '' must be in [0, 1]''))
       [(''recover_below'', bc_recover_below p), (''hold_above'', bc_hold_above p),
        (''step_down_above'', bc_step_down_above p)],
      ensure (flt (bc_recover_below p) (bc_hold_above p) \<and> flt (bc_hold_above p) (bc_step_down_above p))
        (''account '' @ account @ '': utilization.backpressure thresholds must satisfy recover_below < hold_above < step_down_above''),
      ensure (bc_quiet_cycles p \<noteq> 0)
        (''account '' @ account @ '': utilization.backpressure.quiet_cycles must be >= 1''),
      validate_duration (bc_signal_loss_release_seconds p)
        (''account '' @ account @ '': utilization.backpressure.signal_loss_release_seconds'')]"

definition validate_zai_saturation :: "zai_saturation_config \<Rightarrow> string \<Rightarrow> unit res" where
  "validate_zai_saturation z name = all_ok
     [ensure (zs_step_workers z \<noteq> 0 \<and> zs_min_attempts z \<noteq> 0)
        (''account '' @ name @ '': utilization.zai_saturation step_workers and minimum_attempts must be positive''),
      each (\<lambda>(field, v). validate_duration v (''account '' @ name @ '': utilization.zai_saturation.'' @ field))
        [(''dwell_seconds'', zs_dwell_seconds z), (''minimum_window_seconds'', zs_min_window_seconds z),
         (''reprobe_seconds'', zs_reprobe_seconds z)],
      each (\<lambda>(field, v). ensure (in_unit_open v)
          (''account '' @ name @ '': utilization.zai_saturation.'' @ field @ '' must be in [0, 1)''))
        [(''plateau_fraction'', zs_plateau_fraction z), (''concurrency_fraction'', zs_concurrency_fraction z)]]"

definition validate_window :: "utilization_config \<Rightarrow> string \<Rightarrow> string \<times> window_policy \<Rightarrow> unit res" where
  "validate_window u name e = (case e of (window, p) \<Rightarrow> all_ok
     [ensure (\<not> is_some_and (\<lambda>s. s < ut_min_sample_seconds u \<or> i64_max < s) (wp_burn_window_seconds p))
        (''account '' @ name @ '' window '' @ window
          @ '': burn_rate_window_seconds must be >= minimum_sample_seconds and fit i64''),
      validate_target (wp_target p) (wp_reserve p) (''account '' @ name @ '' window '' @ window) False])"

definition validate_banked_resets :: "account_config \<Rightarrow> string \<Rightarrow> unit res" where
  "validate_banked_resets a name = all_ok
     [ensure (is_fin (br_min_pace (ac_banked a)) \<and> \<not> flt (br_min_pace (ac_banked a)) (Fin 1))
        (''account '' @ name @ '': banked_resets.minimum_pace_multiplier must be finite and >= 1''),
      ensure (in_unit (br_redeem_at (ac_banked a)) \<and> \<not> feq (br_redeem_at (ac_banked a)) (Fin 0))
        (''account '' @ name @ '': banked_resets.redeem_at_utilization must be in (0, 1]''),
      ensure (br_deadline_safety_seconds (ac_banked a) \<le> i64_max)
        (''account '' @ name @ '': banked_resets.deadline_safety_seconds is too large'')]"

section \<open>Sources and fleets\<close>

fun validate_source :: "source_config \<Rightarrow> string \<Rightarrow> unit res" where
  "validate_source (SourceCommand argv) account = validate_argv argv (''account '' @ account @ '' source command'') False"
| "validate_source (NormalizedHttp u t) account = validate_duration t (''account '' @ account @ '' source timeout_seconds'')"
| "validate_source (AnthropicOauth c u k t) account = validate_duration t (''account '' @ account @ '' source timeout_seconds'')"
| "validate_source (CodexAppServer e t) account = validate_duration t (''account '' @ account @ '' source timeout_seconds'')"
| "validate_source (NormalizedFile p) account = Inr ()"

fun check_observer :: "worker_observer_config \<Rightarrow> string \<Rightarrow> unit res" where
  "check_observer (ObsCommand argv) ctx = validate_argv argv (ctx @ '' observer command'') False"
| "check_observer (NeedleStatus agent dir stale prefix) ctx =
     validate_needle_status agent dir stale (ctx @ '' observer needle_status'')"
| "check_observer _ ctx = Inr ()"

fun check_actuator :: "actuator_config \<Rightarrow> string \<Rightarrow> unit res" where
  "check_actuator (ActCommand argv r) ctx = validate_argv argv (ctx @ '' actuator command'') True"
| "check_actuator (NeedleRun repo adapter prefix demand heartbeats) ctx = all_ok
     [validate_needle_run repo adapter (ctx @ '' actuator needle_run''),
      validate_needle_seeds demand heartbeats (ctx @ '' actuator needle_run'')]"
| "check_actuator _ ctx = Inr ()"

fun check_resource_source :: "resource_source_config \<Rightarrow> string \<Rightarrow> unit res" where
  "check_resource_source (ResourceCommand argv) ctx = validate_argv argv (ctx @ '' resource_source command'') False"
| "check_resource_source (ResourceHttp u t) ctx = validate_duration t (ctx @ '' resource_source timeout_seconds'')"
| "check_resource_source (ResourceFile p) ctx = Inr ()"

definition validate_host :: "string \<Rightarrow> nat \<Rightarrow> string \<times> host_config \<Rightarrow> unit res" where
  "validate_host account account_max e = (case e of (host_name, h) \<Rightarrow>
     let ctx = ''account '' @ account @ '' host '' @ host_name
     in all_ok
     [ensure (host_name \<noteq> []) (''account '' @ account @ '': host keys must be non-empty''),
      on_some (hc_max_workers h) (\<lambda>m. ensure (m \<le> account_max) (ctx @ '': max_workers ('' @ dec m
          @ '') must not exceed the account'' @ [CHR 39] @ ''s max_workers ('' @ dec account_max @ '')'')),
      ensure (hc_resource_source h \<noteq> None \<longrightarrow> hc_resource_reserve h \<noteq> None)
        (ctx @ '': resource_reserve is required when resource_source is set''),
      check_observer (hc_observer h) ctx,
      check_actuator (hc_actuator h) ctx,
      on_some (hc_resource_source h) (\<lambda>s. check_resource_source s ctx)])"

fun needle_run_prefix :: "actuator_config \<Rightarrow> string option option" where
  "needle_run_prefix (NeedleRun repo adapter prefix demand heartbeats) = Some prefix"
| "needle_run_prefix _ = None"

fun needle_status_prefix :: "worker_observer_config \<Rightarrow> string option option" where
  "needle_status_prefix (NeedleStatus agent dir stale prefix) = Some prefix"
| "needle_status_prefix _ = None"

definition validate_fleet :: "fleet_config \<Rightarrow> string \<Rightarrow> unit res" where
  "validate_fleet f account = (let ctx = ''account '' @ account in all_ok
     [ensure (fl_observer f \<noteq> None \<or> fl_hosts f \<noteq> None)
        (ctx @ '': fleet.observer is required when fleet.hosts is not configured''),
      ensure (fl_observer f = None \<or> fl_hosts f = None)
        (ctx @ '': fleet.observer and fleet.hosts are mutually exclusive''),
      ensure (fl_hosts f \<noteq> None \<longrightarrow> fl_actuator f = ActNone)
        (ctx @ '': fleet.actuator and fleet.hosts are mutually exclusive''),
      on_some (fl_observer f) (\<lambda>ob. check_observer ob ctx),
      check_actuator (fl_actuator f) ctx,
      on_some (needle_run_prefix (fl_actuator f)) (\<lambda>p. all_ok
        [validate_identifier_prefix p (ctx @ '' actuator needle_run''),
         on_some (Option.bind (fl_observer f) needle_status_prefix) (\<lambda>q. ensure (q = p)
           (ctx @ '': needle_status observer and needle_run actuator must use the same identifier_prefix''))]),
      on_some (Option.bind (fl_observer f) needle_status_prefix)
        (\<lambda>q. validate_identifier_prefix q (ctx @ '' observer needle_status'')),
      on_some (fl_hosts f) (\<lambda>hosts. all_ok
        [ensure (hosts \<noteq> []) (ctx @ '': fleet.hosts requires at least one host when present''),
         each (validate_host account (fl_max_workers f)) hosts])])"

section \<open>Takeover\<close>

text \<open>The listed workers, checked in order against the ones already listed.\<close>

fun validate_takeover_targets :: "string \<Rightarrow> string set \<Rightarrow> takeover_target list \<Rightarrow> unit res" where
  "validate_takeover_targets account listed [] = Inr ()"
| "validate_takeover_targets account listed (t # ts) = all_ok
     [validate_takeover_identity (tk_worker_id t) (''account '' @ account @ '' takeover worker_id''),
      validate_takeover_identity (tk_agent t) (''account '' @ account @ '' takeover agent''),
      on_some (tk_unit t) (\<lambda>unit. ensure (unit = ''needle-worker@'' @ tk_worker_id t @ ''.service'')
        (''account '' @ account @ '': takeover unit '' @ unit @ '' does not match worker '' @ tk_worker_id t)),
      ensure (tk_worker_id t \<notin> listed)
        (''account '' @ account @ '': takeover lists worker '' @ tk_worker_id t @ '' more than once''),
      validate_takeover_targets account (insert (tk_worker_id t) listed) ts]"

definition validate_takeover :: "fleet_config \<Rightarrow> string \<Rightarrow> unit res" where
  "validate_takeover f account = (let ctx = ''account '' @ account in
     if fl_takeover f = [] then
       ensure (fl_takeover_helper f = None) (ctx @ '': fleet.takeover_helper is meaningless without fleet.takeover'')
     else if fl_hosts f \<noteq> None then
       Inl (Bail (ctx @ '': fleet.takeover applies to the account'' @ [CHR 39] @ ''s single fleet, not per-host fleets''))
     else case needle_run_prefix (fl_actuator f) of
       Some (Some ap) \<Rightarrow>
         (case Option.bind (fl_observer f) needle_status_prefix of
           Some (Some op) \<Rightarrow> all_ok
             [ensure (op = ap)
                (ctx @ '': needle_status observer and needle_run actuator must use the same identifier_prefix''),
              case fl_takeover_helper f of
                None \<Rightarrow> Inl (Bail (ctx @ '': fleet.takeover requires fleet.takeover_helper to perform the idle-only retirement''))
              | Some helper \<Rightarrow> validate_argv helper (ctx @ '' takeover_helper'') False,
              validate_takeover_targets account {} (fl_takeover f)]
         | _ \<Rightarrow> Inl (Bail (ctx @ '': fleet.takeover requires a needle_status observer with an identifier_prefix, so listed workers leave the unowned floor ('' @ [char_of (194::nat), char_of (167::nat)] @ ''26.2: the floor shrinks to zero)'')))
     | _ \<Rightarrow> Inl (Bail (ctx @ '': fleet.takeover requires a needle_run actuator with an identifier_prefix, because a listed worker is retired only once a prefixed replacement in the same pool runs'')))"

text \<open>One worker, one pool: the workers listed so far, with the account that lists them.\<close>

fun claim_takeover ::
  "string \<Rightarrow> (string, string) bmap \<Rightarrow> takeover_target list \<Rightarrow> (string, string) bmap res" where
  "claim_takeover name claimed [] = Inr claimed"
| "claim_takeover name claimed (t # ts) =
     (case bm_get claimed (tk_worker_id t) of
        Some existing \<Rightarrow> Inl (Bail (''account '' @ name @ '': takeover worker '' @ tk_worker_id t
          @ '' is already listed by account '' @ existing @ '' ''
          @ plan_section ''26.3: every worker belongs to exactly one pool''))
      | None \<Rightarrow> claim_takeover name (bm_put (tk_worker_id t) name claimed) ts)"

section \<open>Accounts\<close>

definition validate_account_head :: "string \<Rightarrow> account_config \<Rightarrow> unit res" where
  "validate_account_head name a = (let f = ac_fleet a; u = ac_util a; ctx = ''account '' @ name in all_ok
     [ensure (fl_min_workers f \<le> fl_max_workers f) (ctx @ '': max_workers must be >= min_workers''),
      ensure (fl_bootstrap f \<le> fl_max_workers f) (ctx @ '': bootstrap_workers must be <= max_workers''),
      validate_duration (ut_stale_after u) (ctx @ '': utilization.stale_after_seconds''),
      validate_duration (ut_min_sample_seconds u) (ctx @ '': utilization.minimum_sample_seconds''),
      validate_target (ut_target u) (ut_reserve u) ctx True,
      on_some (ut_zai_saturation u) (\<lambda>z. validate_zai_saturation z name),
      on_some (ut_backpressure u) (\<lambda>b. validate_backpressure b name),
      each (validate_window u name) (ut_windows u),
      validate_source (ac_source a) name,
      validate_fleet f name,
      validate_takeover f name])"

fun validate_accounts :: "(string, string) bmap \<Rightarrow> (string, account_config) bmap \<Rightarrow> unit res" where
  "validate_accounts claimed [] = Inr ()"
| "validate_accounts claimed ((name, a) # rest) =
     bind_res (validate_account_head name a) (\<lambda>_.
     bind_res (claim_takeover name claimed (fl_takeover (ac_fleet a))) (\<lambda>claimed.
     bind_res (validate_banked_resets a name) (\<lambda>_.
     validate_accounts claimed rest)))"

section \<open>Federation\<close>

fun validate_peers :: "string \<Rightarrow> string set \<Rightarrow> peer_config list \<Rightarrow> unit res" where
  "validate_peers own seen [] = Inr ()"
| "validate_peers own seen (p # ps) = all_ok
     [validate_host_id (pc_host_id p) ''federation.peers[].host_id'',
      ensure (pc_host_id p \<noteq> own) (''federation.peers lists this instance'' @ [CHR 39] @ ''s own host ''
        @ pc_host_id p @ '': a peer is another subgov on a different host (plan.md ''
        @ [char_of (194::nat), char_of (167::nat)] @ ''28.2)''),
      ensure (pc_host_id p \<notin> seen) (''federation.peers lists host '' @ pc_host_id p @ '' more than once''),
      on_some (pc_argv p) (\<lambda>argv. validate_argv argv (''federation peer '' @ pc_host_id p @ '' pull command'') False),
      validate_peers own (insert (pc_host_id p) seen) ps]"

text \<open>The accounts' effective prefixes on this host, checked in order against the ones already claimed.\<close>

definition local_pair ::
  "string \<Rightarrow> account_config \<Rightarrow> (worker_observer_config option \<times> actuator_config) option" where
  "local_pair host a = (case fl_hosts (ac_fleet a) of
     Some hosts \<Rightarrow> map_option (\<lambda>h. (Some (hc_observer h), hc_actuator h)) (bm_get hosts host)
   | None \<Rightarrow> Some (fl_observer (ac_fleet a), fl_actuator (ac_fleet a)))"

fun validate_local_prefixes ::
  "federation_config \<Rightarrow> (string, string) bmap \<Rightarrow> string set \<Rightarrow> (string, account_config) bmap \<Rightarrow> unit res" where
  "validate_local_prefixes f prefix_map seen [] = Inr ()"
| "validate_local_prefixes f prefix_map seen ((name, a) # rest) =
     (case local_pair (fc_host_id f) a of
        None \<Rightarrow> Inl (Bail (''account '' @ name @ '': federation host '' @ fc_host_id f @ '' is missing from fleet.hosts''))
      | Some (ob, ac) \<Rightarrow>
          if Option.bind ob needle_status_prefix = Some None then
            Inl (Bail (''account '' @ name @ '': federated needle_status requires an identifier_prefix''))
          else if needle_run_prefix ac = Some None then
            Inl (Bail (''account '' @ name @ '': federated needle_run requires an identifier_prefix''))
          else case bm_get prefix_map name of
            None \<Rightarrow> validate_local_prefixes f prefix_map seen rest
          | Some prefix \<Rightarrow>
              let effective = effective_prefix prefix (fc_host_id f) (fc_primary f) in
              if effective \<in> seen then
                Inl (Bail (''account '' @ name @ '': worker prefix '' @ effective @ '' is already claimed by another local account''))
              else validate_local_prefixes f prefix_map (insert effective seen) rest)"

definition check_derived :: "string \<Rightarrow> string \<Rightarrow> string option \<Rightarrow> unit res" where
  "check_derived host account prefix = on_some prefix (\<lambda>p.
     validate_identifier_prefix (Some (effective_prefix p host False)) (''account '' @ account @ '' derived worker prefix''))"

definition validate_derived :: "federation_config \<Rightarrow> string \<times> account_config \<Rightarrow> unit res" where
  "validate_derived f e = (case e of (name, a) \<Rightarrow> on_some (local_pair (fc_host_id f) a) (\<lambda>(ob, ac). all_ok
     [on_some (Option.bind ob needle_status_prefix) (check_derived (fc_host_id f) name),
      on_some (needle_run_prefix ac) (check_derived (fc_host_id f) name)]))"

definition validate_federation :: "federation_config \<Rightarrow> config \<Rightarrow> unit res" where
  "validate_federation f cfg = all_ok
     [validate_host_id (fc_host_id f) ''federation.host_id'',
      each (\<lambda>(origin, owner). all_ok
        [ensure (\<not> all_ws origin \<and> \<not> all_ws owner)
           ''federation.repo_owners requires non-empty origin URLs and host ids'',
         ensure (owner = fc_host_id f \<or> owner \<in> pc_host_id ` set (fc_peers f))
           (''federation.repo_owners names unconfigured host '' @ owner)]) (fc_repo_owners f),
      each (\<lambda>account. ensure (bm_get (cf_accounts cfg) account \<noteq> None)
        (''federation.account_identities names account '' @ account @ '', which is not configured''))
        (bm_keys (fc_account_identities f)),
      each (\<lambda>(account, identifier). ensure (\<not> all_ws identifier)
        (''federation.account_identities.'' @ account @ '' must be non-empty'')) (fc_account_identities f),
      validate_peers (fc_host_id f) {} (fc_peers f),
      only_if (fc_peers f \<noteq> []) (validate_local_prefixes f (local_worker_prefixes cfg) {} (cf_accounts cfg)),
      ensure (fc_stale_after f \<noteq> 0) (''federation.peer_stale_after_seconds must be at least 1 second (plan.md ''
        @ [char_of (194::nat), char_of (167::nat)] @ ''28.7)''),
      ensure (fc_stale_after f < fc_expiry f) (''federation.peer_expiry_seconds ('' @ dec (fc_expiry f)
        @ '') must exceed peer_stale_after_seconds ('' @ dec (fc_stale_after f)
        @ ''): expiry is the recovery path out of a stale freeze (plan.md ''
        @ [char_of (194::nat), char_of (167::nat)] @ ''28.7)''),
      on_some (overshoot_violation cfg) (\<lambda>(account, summed, reserve). Inl (Bail (''account '' @ account
        @ '': federation summed max_step_up '' @ dec summed @ '' exceeds worker reserve '' @ dec reserve
        @ '' (plan.md '' @ [char_of (194::nat), char_of (167::nat)] @ ''28.8)''))),
      only_if (\<not> fc_primary f \<and> fc_peers f \<noteq> []) (each (validate_derived f) (cf_accounts cfg))]"

section \<open>The whole configuration\<close>

definition validate :: "config \<Rightarrow> unit res" where
  "validate cfg = all_ok
     [ensure (cf_version cfg = 1) (''unsupported config version '' @ dec (cf_version cfg) @ ''; expected 1''),
      ensure (cf_accounts cfg \<noteq> []) ''at least one account is required'',
      validate_duration (cf_poll_interval cfg) ''poll_interval_seconds'',
      validate_accounts [] (cf_accounts cfg),
      on_some (cf_federation cfg) (\<lambda>f. validate_federation f cfg)]"

text \<open>\<open>Config::load\<close> on the parsed file.\<close>

definition expand_config :: "string option \<Rightarrow> config \<Rightarrow> config" where
  "expand_config home cfg = cfg\<lparr>
     cf_state_path := map_option (expand_tilde home) (cf_state_path cfg),
     cf_accounts := bm_map (\<lambda>a. a\<lparr> ac_source := source_expand_paths home (ac_source a),
       ac_fleet := fleet_expand_paths home (ac_fleet a) \<rparr>) (cf_accounts cfg),
     cf_federation := map_option (\<lambda>f. f\<lparr>
       fc_instance_id_file := map_option (expand_tilde home) (fc_instance_id_file f),
       fc_record_seq_file := map_option (expand_tilde home) (fc_record_seq_file f),
       fc_host_capacity_state := map_option (expand_tilde home) (fc_host_capacity_state f),
       fc_pending_file := map_option (expand_tilde home) (fc_pending_file f) \<rparr>) (cf_federation cfg) \<rparr>"

definition load_config :: "string option \<Rightarrow> config \<Rightarrow> config res" where
  "load_config home cfg =
     bind_res (validate (expand_config home cfg)) (\<lambda>_. Inr (apply_federation_prefixes (expand_config home cfg)))"

end
