(* ===== verification/Config_Laws.thy ===== *)
theory Config_Laws
  imports Config_Validate Controller_Laws
begin

text \<open>
  What a validated configuration guarantees the components that run on it: ordered fleets, a target in
  the unit interval for every window, workers claimed by one account, a federation whose prefixes and
  step bounds fit; and that the configuration \<open>load\<close> hands out is itself valid.
\<close>

section \<open>Accounts\<close>

lemma validate_accounts_head:
  assumes "validate_accounts claimed accounts = Inr u" "(name, a) \<in> set accounts"
  shows "validate_account_head name a = Inr () \<and> validate_banked_resets a name = Inr ()"
  using assms
  by (induction claimed accounts rule: validate_accounts.induct) (auto simp: bind_res_Inr_iff)

lemma validate_account_facts:
  assumes "validate cfg = Inr u" "(name, a) \<in> set (cf_accounts cfg)"
  shows "validate_account_head name a = Inr ()" "validate_banked_resets a name = Inr ()"
  using assms validate_accounts_head [of "[]" "cf_accounts cfg" _ name a] by (auto simp: validate_def)

lemma validated_fleet:
  assumes "validate_account_head name a = Inr u"
  shows "fl_min_workers (ac_fleet a) \<le> fl_max_workers (ac_fleet a)"
    "fl_bootstrap (ac_fleet a) \<le> fl_max_workers (ac_fleet a)"
    "has_target (ac_util a)"
  using assms by (auto simp: validate_account_head_def Let_def validate_target_def has_target_def)

text \<open>A reserve below one leaves a target in the unit interval.\<close>

lemma one_fin: "f_lit 1 = Fin 1"
  using rq_int [of 1] by (simp add: f_lit_def rnd_nonneg)

lemma one_minus_unit:
  assumes "in_unit_open r"
  shows "in_unit (fsub (f_lit 1) r)"
proof -
  have r: "is_fin r" "0 \<le> fval r" "fval r < 1"
    using assms by (cases r; auto simp: in_unit_open_def)+
  have "rq 1 = 1" "rq 0 = 0" using rq_int [of 1] by simp_all
  then have b: "0 \<le> rq (1 - fval r)" "rq (1 - fval r) \<le> 1"
    using rq_mono [of 0 "1 - fval r"] rq_mono [of "1 - fval r" 1] r by auto
  have "\<bar>1 - fval r\<bar> \<le> 2 ^ 60" using r by (simp add: abs_le_iff)
  then have "is_fin (rnd (1 - fval r)) \<and> fval (rnd (1 - fval r)) = rq (1 - fval r)"
    by (rule rnd_fin)
  then have "is_fin (fsub (Fin 1) r) \<and> fval (fsub (Fin 1) r) = rq (1 - fval r)"
    using r by (cases r) (auto simp: fsub_def fadd_def)
  then show ?thesis
    using b unfolding one_fin by (cases "fsub (Fin 1) r") (auto simp: in_unit_def)
qed

definition target_ok :: "f64 option \<Rightarrow> f64 option \<Rightarrow> bool" where
  "target_ok target reserve = (is_none_or in_unit target \<and> is_none_or in_unit_open reserve)"

lemma validate_target_ok: "validate_target t r ctx req = Inr u \<Longrightarrow> target_ok t r"
  by (cases t; cases r) (auto simp: validate_target_def target_ok_def)

lemma policy_for_in_unit:
  assumes "target_ok (ut_target u) (ut_reserve u)"
    and "\<forall>(w, p) \<in> set (ut_windows u). target_ok (wp_target p) (wp_reserve p)"
    and "policy_for u wid = Inr (Some rp)"
  shows "in_unit (rp_target rp)"
proof (cases "bm_get (ut_windows u) wid")
  case None
  then show ?thesis using assms(1,3) one_minus_unit
    by (auto simp: policy_for_def target_ok_def or_opt_def is_none_or_def split: option.splits)
next
  case (Some p)
  then have p: "target_ok (wp_target p) (wp_reserve p)" using assms(2) bm_get_in by fastforce
  then show ?thesis using Some assms(1,3) one_minus_unit
    by (auto simp: policy_for_def target_ok_def or_opt_def is_none_or_def Let_def split: option.splits if_splits)
qed

lemma validated_policy:
  assumes "validate_account_head name a = Inr u" "policy_for (ac_util a) wid = Inr (Some rp)"
  shows "in_unit (rp_target rp)"
proof (rule policy_for_in_unit [OF _ _ assms(2)])
  show "target_ok (ut_target (ac_util a)) (ut_reserve (ac_util a))"
    using assms(1) validate_target_ok by (auto simp: validate_account_head_def Let_def)
  show "\<forall>(w, p) \<in> set (ut_windows (ac_util a)). target_ok (wp_target p) (wp_reserve p)"
    using assms(1) validate_target_ok
    by (force simp: validate_account_head_def Let_def validate_window_def)
qed

section \<open>Takeover\<close>

definition listed_takeovers :: "(string, account_config) bmap \<Rightarrow> string list" where
  "listed_takeovers accounts = concat (map (\<lambda>(n, a). map tk_worker_id (fl_takeover (ac_fleet a))) accounts)"

lemma claim_takeover_Inr:
  assumes "claim_takeover name claimed ts = Inr c"
  shows "distinct (map tk_worker_id ts) \<and> (\<forall>w \<in> set (map tk_worker_id ts). bm_get claimed w = None)
    \<and> {w. bm_get c w \<noteq> None} = {w. bm_get claimed w \<noteq> None} \<union> set (map tk_worker_id ts)"
  using assms
proof (induction name claimed ts rule: claim_takeover.induct)
  case (2 name claimed t ts)
  then have n: "bm_get claimed (tk_worker_id t) = None"
    and r: "claim_takeover name (bm_put (tk_worker_id t) name claimed) ts = Inr c"
    by (auto split: option.splits)
  from "2.IH" [OF n r] n show ?case by (auto simp: bm_get_put split: if_splits)
qed simp

lemma validate_accounts_takeover:
  assumes "validate_accounts claimed accounts = Inr u"
  shows "distinct (listed_takeovers accounts)
    \<and> (\<forall>w \<in> set (listed_takeovers accounts). bm_get claimed w = None)"
  using assms
proof (induction claimed accounts rule: validate_accounts.induct)
  case (2 claimed name a rest)
  then obtain c where c: "validate_account_head name a = Inr ()"
      "claim_takeover name claimed (fl_takeover (ac_fleet a)) = Inr c"
      "validate_banked_resets a name = Inr ()" "validate_accounts c rest = Inr u"
    by (auto simp: bind_res_Inr_iff)
  from "2.IH" [OF c(4)] have ih: "distinct (listed_takeovers rest)"
      "\<forall>w \<in> set (listed_takeovers rest). bm_get c w = None" by auto
  note ct = claim_takeover_Inr [OF c(2)]
  have l: "listed_takeovers ((name, a) # rest) = map tk_worker_id (fl_takeover (ac_fleet a)) @ listed_takeovers rest"
    by (simp add: listed_takeovers_def)
  have dom: "bm_get c w = None \<longleftrightarrow> bm_get claimed w = None \<and> w \<notin> set (map tk_worker_id (fl_takeover (ac_fleet a)))" for w
    using ct by blast
  show ?case using ct ih unfolding l distinct_append set_append ball_Un dom by blast
qed (simp add: listed_takeovers_def)

section \<open>Federation\<close>

lemma validate_peers_hosts:
  "validate_peers own seen ps = Inr u \<Longrightarrow>
     distinct (map pc_host_id ps) \<and> own \<notin> pc_host_id ` set ps \<and> seen \<inter> pc_host_id ` set ps = {}"
  by (induction own seen ps rule: validate_peers.induct) auto

definition effective_of :: "federation_config \<Rightarrow> string \<Rightarrow> string" where
  "effective_of f p = effective_prefix p (fc_host_id f) (fc_primary f)"

definition local_effective ::
  "federation_config \<Rightarrow> (string, string) bmap \<Rightarrow> (string, account_config) bmap \<Rightarrow> string list" where
  "local_effective f pm accounts =
     map (effective_of f) (List.map_filter (\<lambda>(name, a). bm_get pm name) accounts)"

lemma validate_local_prefixes_iff:
  "validate_local_prefixes f pm seen accounts = Inr () \<longleftrightarrow>
     (\<forall>(name, a) \<in> set accounts. \<exists>ob ac. local_pair (fc_host_id f) a = Some (ob, ac)
        \<and> Option.bind ob needle_status_prefix \<noteq> Some None \<and> needle_run_prefix ac \<noteq> Some None)
     \<and> distinct (local_effective f pm accounts) \<and> seen \<inter> set (local_effective f pm accounts) = {}"
proof (induction f pm seen accounts rule: validate_local_prefixes.induct)
  case (2 f pm seen name a rest)
  show ?case
  proof (cases "local_pair (fc_host_id f) a")
    case (Some oa)
    obtain ob ac where oa: "oa = (ob, ac)" by (cases oa)
    show ?thesis
    proof (cases "Option.bind ob needle_status_prefix = Some None \<or> needle_run_prefix ac = Some None")
      case False
      then show ?thesis using 2 [OF Some oa [symmetric]]
        by (cases "bm_get pm name")
           (auto simp: Some oa local_effective_def effective_of_def Let_def List.map_filter_simps)
    qed (use Some oa in auto)
  qed auto
qed (simp add: local_effective_def List.map_filter_simps)

section \<open>Prefix rewriting keeps a configuration valid\<close>

definition rewrite_account :: "string \<Rightarrow> account_config \<Rightarrow> account_config" where
  "rewrite_account h a = a\<lparr> ac_fleet := rewrite_fleet_prefixes h (ac_fleet a) \<rparr>"

lemma rewrite_account_sel [simp]:
  "ac_source (rewrite_account h a) = ac_source a" "ac_util (rewrite_account h a) = ac_util a"
  "ac_banked (rewrite_account h a) = ac_banked a"
  "ac_fleet (rewrite_account h a) = rewrite_fleet_prefixes h (ac_fleet a)"
  by (simp_all add: rewrite_account_def)

lemma rewrite_fleet_sel [simp]:
  "fl_min_workers (rewrite_fleet_prefixes h f) = fl_min_workers f"
  "fl_max_workers (rewrite_fleet_prefixes h f) = fl_max_workers f"
  "fl_bootstrap (rewrite_fleet_prefixes h f) = fl_bootstrap f"
  "fl_max_up (rewrite_fleet_prefixes h f) = fl_max_up f"
  "fl_takeover (rewrite_fleet_prefixes h f) = fl_takeover f"
  "fl_takeover_helper (rewrite_fleet_prefixes h f) = fl_takeover_helper f"
  "fl_hosts (rewrite_fleet_prefixes h f) = None \<longleftrightarrow> fl_hosts f = None"
  by (auto simp: rewrite_fleet_prefixes_def split: option.splits)

lemma rewrite_fleet_single:
  "fl_hosts f = None \<Longrightarrow> rewrite_fleet_prefixes h f =
     f\<lparr> fl_observer := map_option (rewrite_observer_prefix h) (fl_observer f),
        fl_actuator := rewrite_actuator_prefix h (fl_actuator f) \<rparr>"
  by (simp add: rewrite_fleet_prefixes_def)

lemma rewrite_fleet_hosts:
  "fl_hosts f = Some hosts \<Longrightarrow> rewrite_fleet_prefixes h f = f\<lparr> fl_hosts := Some (case bm_get hosts h of
     Some c \<Rightarrow> bm_put h (rewrite_host_prefixes h c) hosts | None \<Rightarrow> hosts) \<rparr>"
  by (auto simp: rewrite_fleet_prefixes_def split: option.splits)

lemma rewritten_prefix [simp]:
  "needle_run_prefix (rewrite_actuator_prefix h ac) =
     map_option (map_option (\<lambda>p. effective_prefix p h False)) (needle_run_prefix ac)"
  "needle_status_prefix (rewrite_observer_prefix h ob) =
     map_option (map_option (\<lambda>p. effective_prefix p h False)) (needle_status_prefix ob)"
  by (cases "(h, ac)" rule: rewrite_actuator_prefix.cases; simp)
     (cases "(h, ob)" rule: rewrite_observer_prefix.cases; simp)

lemma rewritten_checks [simp]:
  "check_actuator (rewrite_actuator_prefix h ac) ctx = check_actuator ac ctx"
  "check_observer (rewrite_observer_prefix h ob) ctx = check_observer ob ctx"
  "rewrite_actuator_prefix h ac = ActNone \<longleftrightarrow> ac = ActNone"
  by (cases "(h, ac)" rule: rewrite_actuator_prefix.cases; simp)
     ((cases "(h, ob)" rule: rewrite_observer_prefix.cases; simp),
      (cases "(h, ac)" rule: rewrite_actuator_prefix.cases; simp))

lemma rewritten_host [simp]:
  "validate_host acc m (n, rewrite_host_prefixes h c) = validate_host acc m (n, c)"
  "hc_max_up (rewrite_host_prefixes h c) = hc_max_up c"
  by (simp_all add: validate_host_def rewrite_host_prefixes_def Let_def)

lemma local_pair_rewrite:
  "local_pair h (rewrite_account h a) =
     map_option (\<lambda>(ob, ac). (map_option (rewrite_observer_prefix h) ob, rewrite_actuator_prefix h ac)) (local_pair h a)"
proof (cases "fl_hosts (ac_fleet a)")
  case None
  then show ?thesis by (simp add: local_pair_def rewrite_fleet_single)
next
  case (Some hosts)
  then show ?thesis
    by (cases "bm_get hosts h")
       (simp_all add: local_pair_def rewrite_fleet_hosts bm_get_put rewrite_host_prefixes_def)
qed

lemma identifier_prefix_pair:
  "identifier_prefix a h = Option.bind (local_pair h a) (\<lambda>(ob, ac).
     or_opt (Option.bind (needle_run_prefix ac) id) (Option.bind (Option.bind ob needle_status_prefix) id))"
proof -
  have "actuator_prefix ac = Option.bind (needle_run_prefix ac) id" for ac by (cases ac) simp_all
  moreover have "observer_prefix ob = Option.bind (needle_status_prefix ob) id" for ob by (cases ob) simp_all
  ultimately show ?thesis
    by (cases "fl_hosts (ac_fleet a)"; cases "fl_observer (ac_fleet a)")
       (auto simp: identifier_prefix_def host_actuator_def host_observer_def local_pair_def split: bind_splits option.splits)
qed

lemma identifier_prefix_rewrite:
  "identifier_prefix (rewrite_account h a) h = map_option (\<lambda>p. effective_prefix p h False) (identifier_prefix a h)"
proof (cases "local_pair h a")
  case (Some oa)
  obtain ob ac where oa: "oa = (ob, ac)" by (cases oa)
  show ?thesis
    by (cases ob; cases "needle_run_prefix ac")
       (auto simp: identifier_prefix_pair local_pair_rewrite Some oa or_opt_def split: option.splits bind_splits)
qed (simp add: identifier_prefix_pair local_pair_rewrite)

lemma validate_identifier_prefix_ok:
  "validate_identifier_prefix p ctx = Inr u \<longleftrightarrow>
     is_none_or (\<lambda>p. p \<noteq> [] \<and> length p \<le> 32 \<and> list_all prefix_char p) p"
  by (cases p) (auto simp: validate_identifier_prefix_def on_some_def)

lemma set_bm_put: "set (bm_put k v m) \<subseteq> insert (k, v) (set m)"
  by (induction m) (auto split: if_splits)

lemma bm_put_nonempty [simp]: "bm_put k v m \<noteq> []"
  by (cases m) (auto split: if_splits)

lemma validate_fleet_rewrite:
  assumes "validate_fleet (ac_fleet a) name = Inr u" "fc_host_id f = h" "validate_derived f (name', a) = Inr u'"
  shows "validate_fleet (rewrite_fleet_prefixes h (ac_fleet a)) name = Inr ()"
proof (cases "fl_hosts (ac_fleet a)")
  case None
  have d: "local_pair h a = Some (fl_observer (ac_fleet a), fl_actuator (ac_fleet a))"
    using None by (simp add: local_pair_def)
  have ap: "validate_identifier_prefix (map_option (\<lambda>p. effective_prefix p h False) p) ctx = Inr u"
    if "needle_run_prefix (fl_actuator (ac_fleet a)) = Some p" for p ctx u
    using assms(2,3) d that
    by (cases p) (auto simp: validate_derived_def check_derived_def on_some_def validate_identifier_prefix_ok)
  have ob: "validate_identifier_prefix (map_option (\<lambda>p. effective_prefix p h False) p) ctx = Inr u"
    if "fl_observer (ac_fleet a) = Some b" "needle_status_prefix b = Some p" for b p ctx u
    using assms(2,3) d that
    by (cases p) (auto simp: validate_derived_def check_derived_def on_some_def validate_identifier_prefix_ok)
  show ?thesis using assms(1) None ap ob
    by (auto simp: validate_fleet_def rewrite_fleet_single Let_def)
next
  case (Some hosts)
  have v: "fl_observer (ac_fleet a) = None" "fl_actuator (ac_fleet a) = ActNone" "hosts \<noteq> []"
      "\<forall>e \<in> set hosts. validate_host name (fl_max_workers (ac_fleet a)) e = Inr ()"
    using assms(1) Some by (auto simp: validate_fleet_def Let_def)
  have "validate_host name (fl_max_workers (ac_fleet a)) e = Inr ()"
    if "bm_get hosts h = Some c" "e \<in> set (bm_put h (rewrite_host_prefixes h c) hosts)" for c e
    using that v(4) set_bm_put [of h "rewrite_host_prefixes h c" hosts] bm_get_in [OF that(1)] by auto
  then show ?thesis using Some v
    by (auto simp: validate_fleet_def rewrite_fleet_hosts Let_def split: option.splits)
qed

lemma validate_takeover_rewrite:
  assumes "validate_takeover f name = Inr u"
  shows "validate_takeover (rewrite_fleet_prefixes h f) name = Inr ()"
proof (cases "fl_takeover f = []")
  case False
  with assms have n: "fl_hosts f = None" by (auto simp: validate_takeover_def Let_def split: if_splits)
  show ?thesis using assms False n
    by (auto simp: validate_takeover_def rewrite_fleet_single Let_def split: option.splits bind_splits)
qed (use assms in \<open>simp add: validate_takeover_def Let_def\<close>)

lemma validate_head_rewrite:
  assumes "validate_account_head name a = Inr u" "validate_derived f (name', a) = Inr u'"
  shows "validate_account_head name (rewrite_account (fc_host_id f) a) = Inr ()"
  using assms validate_fleet_rewrite [OF _ refl assms(2)] validate_takeover_rewrite
  by (auto simp: validate_account_head_def Let_def)

lemma validate_accounts_map:
  assumes "validate_accounts claimed accounts = Inr u"
    and "\<forall>(n, a) \<in> set accounts. validate_account_head n a = Inr () \<longrightarrow> validate_account_head n (g a) = Inr ()"
    and "\<forall>a. fl_takeover (ac_fleet (g a)) = fl_takeover (ac_fleet a) \<and> ac_banked (g a) = ac_banked a"
  shows "validate_accounts claimed (bm_map g accounts) = Inr ()"
  using assms(1,2)
proof (induction claimed accounts rule: validate_accounts.induct)
  case (2 claimed name a rest)
  then obtain c where c: "validate_account_head name a = Inr ()"
      "claim_takeover name claimed (fl_takeover (ac_fleet a)) = Inr c"
      "validate_banked_resets a name = Inr ()" "validate_accounts c rest = Inr u"
    by (auto simp: bind_res_Inr_iff)
  then have "validate_accounts c (bm_map g rest) = Inr ()" using "2.IH" [OF c(4)] "2.prems"(2) by simp
  moreover have "validate_banked_resets (g a) name = validate_banked_resets a name"
    by (simp add: validate_banked_resets_def assms(3))
  ultimately show ?case using c "2.prems"(2) assms(3) by (simp add: bm_map_def)
qed (simp add: bm_map_def)

lemma step_up_bound_rewrite:
  assumes "cf_federation cfg' = cf_federation cfg"
  shows "step_up_bound cfg' (rewrite_account h a) = step_up_bound cfg a"
proof (cases "fl_hosts (ac_fleet a)")
  case None
  then show ?thesis using assms by (simp add: step_up_bound_def rewrite_fleet_single)
next
  case (Some hosts)
  show ?thesis
  proof (cases "bm_get hosts h")
    case (Some c)
    have "h \<in> set (bm_keys hosts)" using Some by (simp add: bm.keys_look)
    then have k: "set (bm_keys (bm_put h (rewrite_host_prefixes h c) hosts)) = set (bm_keys hosts)"
      by (auto simp: bm.keys_put)
    have "host_step_up (rewrite_account h a) (bm_put h (rewrite_host_prefixes h c) hosts) = host_step_up a hosts"
      using Some by (auto simp: host_step_up_def bm_get_put fun_eq_iff)
    then show ?thesis using k Some assms \<open>fl_hosts (ac_fleet a) = Some hosts\<close>
      by (simp add: step_up_bound_def rewrite_fleet_hosts)
  next
    case None
    have "host_step_up (rewrite_account h a) hosts = host_step_up a hosts"
      by (simp add: host_step_up_def fun_eq_iff)
    then show ?thesis using None assms \<open>fl_hosts (ac_fleet a) = Some hosts\<close>
      by (simp add: step_up_bound_def rewrite_fleet_hosts)
  qed
qed

lemma first_violation_map:
  assumes "\<forall>a. step_up_bound cfg' (g a) = step_up_bound cfg a"
    and "\<forall>a. fl_max_workers (ac_fleet (g a)) = fl_max_workers (ac_fleet a)"
  shows "first_violation cfg' (bm_map g accounts) = first_violation cfg accounts"
  using assms by (induction cfg accounts rule: first_violation.induct) (simp_all add: bm_map_def)

lemma local_worker_prefixes_rewrite:
  assumes "cf_federation cfg = Some f" "cf_federation cfg' = Some f"
    and "cf_accounts cfg' = bm_map (rewrite_account (fc_host_id f)) (cf_accounts cfg)"
  shows "local_worker_prefixes cfg' =
    bm_collect (map (\<lambda>(n, p). (n, effective_prefix p (fc_host_id f) False))
      (List.map_filter (\<lambda>(n, a). map_option (\<lambda>p. (n, p)) (identifier_prefix a (fc_host_id f))) (cf_accounts cfg)))"
proof -
  have "List.map_filter (\<lambda>(n, a). map_option (\<lambda>p. (n, p)) (identifier_prefix a (fc_host_id f)))
      (bm_map (rewrite_account (fc_host_id f)) m) =
    map (\<lambda>(n, p). (n, effective_prefix p (fc_host_id f) False))
      (List.map_filter (\<lambda>(n, a). map_option (\<lambda>p. (n, p)) (identifier_prefix a (fc_host_id f))) m)" for m :: "(string, account_config) bmap"
    by (induction m) (auto simp: bm_map_def List.map_filter_simps identifier_prefix_rewrite split: option.splits)
  then show ?thesis using assms by (simp add: local_worker_prefixes_def)
qed

lemma map_of_map_val: "map_of (map (\<lambda>(k, v). (k, f v)) xs) k = map_option f (map_of xs k)"
  by (induction xs) auto

lemma local_worker_prefixes_get:
  assumes "cf_federation cfg = Some f" "cf_federation cfg' = Some f"
    and "cf_accounts cfg' = bm_map (rewrite_account (fc_host_id f)) (cf_accounts cfg)"
  shows "bm_get (local_worker_prefixes cfg') n =
    map_option (\<lambda>p. effective_prefix p (fc_host_id f) False) (bm_get (local_worker_prefixes cfg) n)"
  using assms(1) unfolding local_worker_prefixes_rewrite [OF assms] bm_get_collect rev_map map_of_map_val
  by (simp add: local_worker_prefixes_def bm_get_collect)

lemma check_derived_rewrite [simp]:
  "check_derived h n (map_option (\<lambda>p. effective_prefix p h False) q) = check_derived h n q"
  by (cases q) (simp_all add: check_derived_def on_some_def effective_prefix_idem)

lemma validate_derived_rewrite:
  "validate_derived f (n, rewrite_account (fc_host_id f) a) = validate_derived f (n, a)"
proof (cases "local_pair (fc_host_id f) a")
  case (Some oa)
  obtain ob ac where oa: "oa = (ob, ac)" by (cases oa)
  have "on_some (map_option (map_option (\<lambda>p. effective_prefix p h False)) x) (check_derived h n)
      = on_some x (check_derived h n)" for h x
    by (cases x) (simp_all add: on_some_def)
  moreover have "Option.bind (map_option (rewrite_observer_prefix h) ob) needle_status_prefix
      = map_option (map_option (\<lambda>p. effective_prefix p h False)) (Option.bind ob needle_status_prefix)" for h
    by (cases ob) simp_all
  ultimately show ?thesis
    unfolding validate_derived_def prod.case local_pair_rewrite Some oa
    by (simp only: option.map on_some_def option.case prod.case rewritten_prefix)
qed (simp add: validate_derived_def local_pair_rewrite)

lemma validate_federation_rewrite:
  assumes v: "validate_federation f cfg = Inr u"
    and f: "cf_federation cfg = Some f" "cf_federation cfg' = Some f"
    and a: "cf_accounts cfg' = bm_map (rewrite_account (fc_host_id f)) (cf_accounts cfg)"
    and np: "\<not> fc_primary f" "fc_peers f \<noteq> []"
  shows "validate_federation f cfg' = Inr ()"
proof -
  note g = local_worker_prefixes_get [OF f a]
  have eff: "effective_of f (effective_prefix p (fc_host_id f) False) = effective_of f p" for p
    using np(1) effective_prefix_idem [of p "fc_host_id f" False] by (simp add: effective_of_def)
  have le: "local_effective f (local_worker_prefixes cfg') (bm_map (rewrite_account (fc_host_id f)) m)
      = local_effective f (local_worker_prefixes cfg) m" for m :: "(string, account_config) bmap"
    by (induction m) (auto simp: local_effective_def bm_map_def List.map_filter_simps g eff split: option.splits)
  have pair: "Option.bind (map_option (rewrite_observer_prefix h) ob) needle_status_prefix = Some None
      \<longleftrightarrow> Option.bind ob needle_status_prefix = Some None" for h ob
    by (cases ob) auto
  have some: "\<exists>ob' ac'. local_pair h (rewrite_account h b) = Some (ob', ac')
        \<and> Option.bind ob' needle_status_prefix \<noteq> Some None \<and> needle_run_prefix ac' \<noteq> Some None"
    if "\<exists>ob ac. local_pair h b = Some (ob, ac)
        \<and> Option.bind ob needle_status_prefix \<noteq> Some None \<and> needle_run_prefix ac \<noteq> Some None" for h b
    using that pair by (auto simp: local_pair_rewrite)
  have L: "validate_local_prefixes f (local_worker_prefixes cfg') {} (cf_accounts cfg') = Inr ()"
    using v np unfolding validate_local_prefixes_iff a le
    using some by (fastforce simp: validate_federation_def validate_local_prefixes_iff bm_map_def)
  have O: "overshoot_violation cfg' = overshoot_violation cfg"
    using f by (simp add: overshoot_violation_def a)
      (metis (no_types, lifting) first_violation_map rewrite_account_sel(4) rewrite_fleet_sel(2) step_up_bound_rewrite)
  have D: "\<forall>e \<in> set (cf_accounts cfg'). validate_derived f e = Inr ()"
    using v np validate_derived_rewrite by (fastforce simp: a validate_federation_def bm_map_def)
  have K: "bm_get (cf_accounts cfg') n = None \<longleftrightarrow> bm_get (cf_accounts cfg) n = None" for n
    by (simp add: a)
  show ?thesis using v L D np by (simp add: validate_federation_def O K a)
qed

lemma apply_federation_prefixes_cases:
  obtains "apply_federation_prefixes cfg = cfg"
  | f where "cf_federation cfg = Some f" "\<not> fc_primary f" "fc_peers f \<noteq> []"
      "cf_federation (apply_federation_prefixes cfg) = Some f"
      "cf_accounts (apply_federation_prefixes cfg) = bm_map (rewrite_account (fc_host_id f)) (cf_accounts cfg)"
      "cf_version (apply_federation_prefixes cfg) = cf_version cfg"
      "cf_poll_interval (apply_federation_prefixes cfg) = cf_poll_interval cfg"
proof (cases "cf_federation cfg")
  case None
  with that(1) show ?thesis by (simp add: apply_federation_prefixes_def)
next
  case (Some f)
  with that show ?thesis
    by (cases "fc_primary f \<or> fc_peers f = []")
       (auto simp: apply_federation_prefixes_def rewrite_account_def [abs_def])
qed

lemma validate_rewritten:
  assumes "validate cfg = Inr u"
  shows "validate (apply_federation_prefixes cfg) = Inr ()"
proof (rule apply_federation_prefixes_cases [of cfg])
  fix f assume f: "cf_federation cfg = Some f" "\<not> fc_primary f" "fc_peers f \<noteq> []"
    "cf_federation (apply_federation_prefixes cfg) = Some f"
    "cf_accounts (apply_federation_prefixes cfg) = bm_map (rewrite_account (fc_host_id f)) (cf_accounts cfg)"
    "cf_version (apply_federation_prefixes cfg) = cf_version cfg"
    "cf_poll_interval (apply_federation_prefixes cfg) = cf_poll_interval cfg"
  have vf: "validate_federation f cfg = Inr ()" and va: "validate_accounts [] (cf_accounts cfg) = Inr ()"
    using assms f(1) by (auto simp: validate_def)
  have "\<forall>e \<in> set (cf_accounts cfg). validate_derived f e = Inr ()"
    using vf f(2,3) by (simp add: validate_federation_def)
  then have "validate_accounts [] (bm_map (rewrite_account (fc_host_id f)) (cf_accounts cfg)) = Inr ()"
    using validate_head_rewrite by (intro validate_accounts_map [OF va]) auto
  moreover have "bm_map (rewrite_account (fc_host_id f)) (cf_accounts cfg) \<noteq> []"
    using assms by (auto simp: validate_def bm_map_def)
  ultimately show ?thesis
    using assms f validate_federation_rewrite [OF vf f(1,4,5,2,3)] by (simp add: validate_def)
qed (use assms in \<open>cases u; simp\<close>)

section \<open>Local prefixes are apart\<close>

lemma map_filter_distinct:
  assumes "distinct (map f (List.map_filter g xs))" "x \<in> set xs" "y \<in> set xs" "x \<noteq> y"
    and "g x = Some a" "g y = Some b"
  shows "f a \<noteq> f b"
  using assms(1-3)
proof (induction xs)
  case (Cons z zs)
  have "distinct (map f (List.map_filter g zs))"
    using Cons.prems(1) by (simp add: List.map_filter_simps split: option.splits)
  moreover have "f c \<noteq> f e" if "g z = Some c" "w \<in> set zs" "g w = Some e" for c w e
    using Cons.prems(1) that by (force simp: List.map_filter_simps set_map_filter')
  ultimately show ?case using Cons assms(4-6) by (metis set_ConsD)
qed simp

lemma local_worker_prefixes_key:
  assumes "cf_federation cfg = Some f" "bm_get (local_worker_prefixes cfg) n = Some p"
  shows "\<exists>a. (n, a) \<in> set (cf_accounts cfg)"
  using assms by (auto simp: local_worker_prefixes_def bm_get_collect set_map_filter' dest!: map_of_SomeD)

lemma validated_prefixes_differ:
  assumes "validate cfg = Inr u" "cf_federation cfg = Some f" "fc_peers f \<noteq> []"
    and "bm_get (local_worker_prefixes cfg) n = Some p" "bm_get (local_worker_prefixes cfg) m = Some q" "n \<noteq> m"
  shows "effective_of f p \<noteq> effective_of f q"
proof -
  have "validate_local_prefixes f (local_worker_prefixes cfg) {} (cf_accounts cfg) = Inr ()"
    using assms(1-3) by (simp add: validate_def validate_federation_def)
  then have d: "distinct (local_effective f (local_worker_prefixes cfg) (cf_accounts cfg))"
    by (simp add: validate_local_prefixes_iff)
  obtain a b where "(n, a) \<in> set (cf_accounts cfg)" "(m, b) \<in> set (cf_accounts cfg)"
    using local_worker_prefixes_key [OF assms(2)] assms(4,5) by blast
  then show ?thesis
    using map_filter_distinct [OF d [unfolded local_effective_def], of "(n, a)" "(m, b)"] assms(4-6) by simp
qed

text \<open>The prefix an account works under on a host: the one it launches under, or, for an observer, the one
  it watches when the fleet has no hosts of its own or nothing is launched there.\<close>

definition launches_under :: "string \<Rightarrow> account_config \<Rightarrow> string \<Rightarrow> bool" where
  "launches_under h a p = (\<exists>repo adapter demand heartbeats.
     host_actuator a h = Some (NeedleRun repo adapter (Some p) demand heartbeats))"

definition observes_under :: "string \<Rightarrow> account_config \<Rightarrow> string \<Rightarrow> bool" where
  "observes_under h a p = (\<exists>agent dir stale. host_observer a h = Some (NeedleStatus agent dir stale (Some p)))"

definition works_under :: "string \<Rightarrow> account_config \<Rightarrow> string \<Rightarrow> bool" where
  "works_under h a p = (launches_under h a p \<or> observes_under h a p
     \<and> (fl_hosts (ac_fleet a) = None \<or> (\<forall>q. \<not> launches_under h a q)))"

lemma same_prefix_validated:
  assumes "validate_fleet f name = Inr u" "fl_actuator f = NeedleRun r ad p d hb"
    and "fl_observer f = Some (NeedleStatus ag dir st q)"
  shows "p = q"
  using assms by (auto simp: validate_fleet_def Let_def on_some_def ensure_def split: if_splits)

lemma works_under_identifier:
  assumes "works_under h a p" "validate_account_head name a = Inr u"
  shows "identifier_prefix a h = Some p"
proof -
  have v: "validate_fleet (ac_fleet a) name = Inr ()" using assms(2) by (simp add: validate_account_head_def Let_def)
  consider "launches_under h a p" | "\<forall>q. \<not> launches_under h a q" "observes_under h a p"
    | q where "launches_under h a q" "observes_under h a p" "fl_hosts (ac_fleet a) = None"
    using assms(1) by (auto simp: works_under_def)
  then show ?thesis
  proof cases
    case 1
    then show ?thesis by (auto simp: launches_under_def identifier_prefix_def or_opt_def)
  next
    case 2
    have "Option.bind (host_actuator a h) actuator_prefix = None"
    proof (cases "host_actuator a h")
      case (Some ac)
      then show ?thesis using 2(1) by (cases ac) (auto simp: launches_under_def)
    qed simp
    then show ?thesis using 2(2) by (auto simp: observes_under_def identifier_prefix_def or_opt_def)
  next
    case 3
    then show ?thesis using same_prefix_validated [OF v]
      by (fastforce simp: launches_under_def observes_under_def host_actuator_def host_observer_def
          identifier_prefix_def or_opt_def)
  qed
qed

lemma distinct_map_filter_keys:
  assumes "distinct (map fst xs)"
  shows "distinct (map fst (List.map_filter (\<lambda>(n, a). map_option (Pair n) (g a)) xs))"
  using assms
proof (induction xs)
  case (Cons e xs)
  obtain n a where e: "e = (n, a)" by (cases e)
  have "fst ` set (List.map_filter (\<lambda>(n, a). map_option (Pair n) (g a)) xs) \<subseteq> fst ` set xs"
    by (force simp: set_map_filter')
  then show ?case using Cons e by (auto simp: List.map_filter_simps split: option.splits)
qed (simp add: List.map_filter_simps)

lemma local_worker_prefix_of:
  assumes "bm_ok (cf_accounts cfg)" "cf_federation cfg = Some f"
    and "bm_get (cf_accounts cfg) n = Some a" "identifier_prefix a (fc_host_id f) = Some p"
  shows "bm_get (local_worker_prefixes cfg) n = Some p"
proof -
  let ?l = "List.map_filter (\<lambda>(n, a). map_option (Pair n) (identifier_prefix a (fc_host_id f))) (cf_accounts cfg)"
  have d: "distinct (map fst ?l)"
    using distinct_map_filter_keys map_keys_distinct [OF assms(1)] by (simp add: bm_keys_def)
  have "(n, p) \<in> set ?l" using bm_get_in [OF assms(3)] assms(4) by (force simp: set_map_filter')
  then have "map_of (rev ?l) n = Some p" using d by (simp add: map_of_rev_distinct)
  then show ?thesis using assms(2) by (simp add: local_worker_prefixes_def bm_get_collect)
qed

text \<open>A federated account that launches or observes sessions names a prefix for it.\<close>

lemma federated_prefix_named:
  assumes "validate cfg = Inr u" "cf_federation cfg = Some f" "fc_peers f \<noteq> []"
    and "bm_get (cf_accounts cfg) n = Some a"
    and "host_actuator a (fc_host_id f) = Some (NeedleRun repo adapter p demand heartbeats)"
  shows "p \<noteq> None"
proof -
  have "validate_local_prefixes f (local_worker_prefixes cfg) {} (cf_accounts cfg) = Inr ()"
    using assms(1-3) by (simp add: validate_def validate_federation_def)
  then obtain ob ac where "local_pair (fc_host_id f) a = Some (ob, ac)" "needle_run_prefix ac \<noteq> Some None"
    unfolding validate_local_prefixes_iff using bm_get_in [OF assms(4)] by fastforce
  moreover from this have "ac = NeedleRun repo adapter p demand heartbeats"
    using assms(5) by (auto simp: local_pair_def host_actuator_def split: option.splits)
  ultimately show ?thesis by simp
qed

lemma effective_prefix_dash: "ends_with ''-'' (effective_prefix c h False)"
proof -
  obtain r where "effective_prefix c h False = r @ ''-'' @ h @ ''-''"
    using effective_prefix_host [OF refl, of h c] unfolding ends_with_iff by blast
  then have "effective_prefix c h False = (r @ ''-'' @ h) @ ''-''" by simp
  then show ?thesis unfolding ends_with_iff by blast
qed

lemma matching_prefixes_equal:
  assumes "matches_worker_prefix p w" "matches_worker_prefix q w" "ends_with ''-'' p" "ends_with ''-'' q"
  shows "p = q"
proof -
  obtain m where m: "w = p @ m" "list_all is_digit m"
    using assms(1) unfolding matches_worker_prefix_iff by blast
  obtain n where n: "w = q @ n" "list_all is_digit n"
    using assms(2) unfolding matches_worker_prefix_iff by blast
  show ?thesis by (rule digits_suffix_unique [of p m q n]) (use m n assms(3,4) in auto)
qed

section \<open>Decisions on a validated account\<close>

lemma bind_total: "\<exists>x. r = Inr x \<Longrightarrow> (\<And>x. \<exists>y. f x = Inr y) \<Longrightarrow> \<exists>y. bind_res r f = Inr y"
  by auto

lemma banked_plan_total: "\<exists>plan. banked_plan ch cfg sn prior current now credits w d minutes burn = Inr plan"
proof -
  have "\<exists>r. banked_pace cfg current capacity required none burn = Inr r" for capacity required none
    by (auto simp: banked_pace_def clamp_u32_ok Let_def split: option.splits)
  then have "\<exists>r. banked_workers cfg sn w current now capacity manual missed required none burn = Inr r"
    for capacity manual missed required none by (simp add: banked_workers_def)
  then show ?thesis unfolding banked_plan_def Let_def
    by (rule bind_total) (auto split: prod.splits)
qed

lemma weekly_window_in: "weekly_window sn = Some w \<Longrightarrow> w \<in> set (qs_windows sn)"
  by (auto simp: weekly_window_def dest: max_by_in)

lemma banked_reset_total:
  assumes "br_enabled (ac_banked cfg) \<longrightarrow> (\<forall>w \<in> set (qs_windows sn).
     is_ok (estimate_aggregate_burn ch (bm_get (as_aggregate prior) (qw_id w)) w (qs_observed_at sn) current))"
  shows "\<exists>b. banked_reset_decision ch cfg sn ds prior current now = Inr b"
proof -
  have ok: "\<exists>b. r = Inr b" if "is_ok r" for r :: "aggregate_burn option res"
    using that by (cases r) auto
  have "\<exists>burn. estimate_aggregate_burn ch (bm_get (as_aggregate prior) (qw_id w)) w (qs_observed_at sn) current = Inr burn"
    if "br_enabled (ac_banked cfg)" "weekly_window sn = Some w" for w
    using assms that weekly_window_in ok by blast
  moreover have "\<exists>b. bind_res (banked_plan ch cfg sn prior current now credits w d minutes burn) (\<lambda>p. Inr (Some p)) = Inr b"
    for credits w d minutes burn
    using banked_plan_total by (metis bind_res_simps(2))
  ultimately show ?thesis
    by (fastforce simp: banked_reset_decision_def split: option.splits)
qed

lemma evaluate_outcomes:
  assumes "has_target (ac_util cfg)" "fl_min_workers (ac_fleet cfg) \<le> fl_max_workers (ac_fleet cfg)"
    and "br_enabled (ac_banked cfg) \<longrightarrow> (\<forall>w \<in> set (qs_windows sn).
     is_ok (estimate_aggregate_burn ch (bm_get (as_aggregate prior) (qw_id w)) w (qs_observed_at sn) current))"
  shows "if snapshot_stale ch cfg sn now
       \<or> (\<exists>w \<in> set (qs_windows sn). policy_for (ac_util cfg) (qw_id w) \<noteq> Inr None)
     then \<exists>d. evaluate ch name cfg sn prior current now = Inr d
     else evaluate ch name cfg sn prior current now =
       Inl (Bail (''account '' @ name @ '': no enabled quota windows were observed''))"
proof (cases "snapshot_stale ch cfg sn now")
  case True
  then show ?thesis using assms(2)
    by (simp add: evaluate_stale stale_decision_def Let_def apply_step_limits_ok)
next
  case False
  obtain ds where ds: "evaluate_windows ch cfg sn prior current now (banked_available cfg sn) (qs_windows sn) = Inr ds"
    and ids: "map wd_id ds = map qw_id (filter (\<lambda>w. policy_for (ac_util cfg) (qw_id w) \<noteq> Inr None) (qs_windows sn))"
    using evaluate_windows_total [OF assms(1,2)] by blast
  have e: "ds = [] \<longleftrightarrow> \<not> (\<exists>w \<in> set (qs_windows sn). policy_for (ac_util cfg) (qw_id w) \<noteq> Inr None)"
    using arg_cong [OF ids, of length] by (auto simp: filter_empty_conv)
  obtain b where "banked_reset_decision ch cfg sn ds prior current now = Inr b"
    using banked_reset_total [OF assms(3)] by blast
  then have "ds \<noteq> [] \<Longrightarrow> \<exists>d. evaluate ch name cfg sn prior current now = Inr d"
    using evaluate_from_parts [OF False ds _ _ assms(2)] by blast
  moreover have "ds = [] \<Longrightarrow> evaluate ch name cfg sn prior current now =
       Inl (Bail (''account '' @ name @ '': no enabled quota windows were observed''))"
    using False ds by (simp add: evaluate_def)
  ultimately show ?thesis using e False by simp
qed

end
