(* ===== verification/Config_Properties.thy ===== *)
theory Config_Properties
  imports Config_Laws Samples
begin

text \<open>
  What a configuration that passes \<open>Config::load\<close> guarantees the governor that runs on it.
\<close>

declare all_ok.simps [simp del]

section \<open>Sample configurations\<close>

text \<open>Host \<open>b\<close>, a secondary of host \<open>a\<close>, runs two accounts with worker prefixes of their own; the
  second account takes over a roster worker.\<close>

definition needle_fleet :: "string \<Rightarrow> takeover_target list \<Rightarrow> fleet_config" where
  "needle_fleet prefix takeover = fleet1\<lparr>
     fl_observer := Some (NeedleStatus ''agent'' ''hb'' 60 (Some prefix)),
     fl_actuator := NeedleRun ''repo'' ''agent'' (Some prefix) None None,
     fl_takeover := takeover,
     fl_takeover_helper := (if takeover = [] then None else Some [''helper'']) \<rparr>"

definition glm_account :: account_config where
  "glm_account = acct2\<lparr> ac_fleet := needle_fleet ''sg-glm-'' [] \<rparr>"

definition zai_account :: account_config where
  "zai_account = acct1\<lparr> ac_fleet := needle_fleet ''sg-zai-''
     [\<lparr> tk_worker_id = ''w1'', tk_agent = ''agent'', tk_unit = None \<rparr>] \<rparr>"

definition fed_b :: federation_config where
  "fed_b = \<lparr> fc_host_id = ''b'', fc_instance_id_file = None, fc_record_seq_file = None,
     fc_host_capacity_state = None, fc_account_identities = [],
     fc_peers = [\<lparr> pc_host_id = ''a'', pc_argv = None \<rparr>], fc_stale_after = 120, fc_expiry = 1800,
     fc_primary = False, fc_repo_owners = [], fc_pending_file = None \<rparr>"

definition config_b :: config where
  "config_b = \<lparr> cf_version = 1, cf_poll_interval = 300, cf_state_path = None,
     cf_accounts = [(''glm'', glm_account), (''zai'', zai_account)], cf_federation = Some fed_b \<rparr>"

lemma glm_sel: "ac_source glm_account = NormalizedFile ''quota.json''" "ac_util glm_account = util1"
    "ac_fleet glm_account = needle_fleet ''sg-glm-'' []"
    "ac_banked glm_account = banked_reset_default\<lparr> br_enabled := True, br_redeem_at := Fin (15/16) \<rparr>"
  and zai_sel: "ac_source zai_account = NormalizedFile ''quota.json''" "ac_util zai_account = util1"
    "ac_fleet zai_account = needle_fleet ''sg-zai-'' [\<lparr> tk_worker_id = ''w1'', tk_agent = ''agent'', tk_unit = None \<rparr>]"
    "ac_banked zai_account = banked_reset_default"
  by (simp_all add: glm_account_def zai_account_def acct1_def acct2_def)

lemma two_fin: "f_lit 2 = Fin 2"
  using rq_int [of 2] by (simp add: f_lit_def rnd_nonneg)

lemma literals: "in_unit_open (f_lit (5/100))" "in_unit_open (f_lit (10/100))"
  by code_simp+

lemma needle_fleet_sel [simp]:
  "fl_hosts (needle_fleet p t) = None" "fl_takeover (needle_fleet p t) = t"
  "fl_observer (needle_fleet p t) = Some (NeedleStatus ''agent'' ''hb'' 60 (Some p))"
  "fl_actuator (needle_fleet p t) = NeedleRun ''repo'' ''agent'' (Some p) None None"
  "fl_takeover_helper (needle_fleet p t) = (if t = [] then None else Some [''helper''])"
  "fl_max_workers (needle_fleet p t) = 10" "fl_min_workers (needle_fleet p t) = 1"
  "fl_bootstrap (needle_fleet p t) = 2" "fl_max_up (needle_fleet p t) = 2"
  by (simp_all add: needle_fleet_def fleet1_def)

lemmas char_classes = is_name_char_def prefix_char_def host_id_char_def is_alnum_def is_lower_def
  is_upper_def is_digit_def byte_def

lemma config_b_heads:
  "validate_account_head ''glm'' glm_account = Inr ()" "validate_account_head ''zai'' zai_account = Inr ()"
  by (simp_all add: validate_account_head_def glm_sel zai_sel util1_def validate_duration_def i64_max_def
      validate_target_def in_unit_def feq_def validate_zai_saturation_def zai_saturation_default_def literals [simplified]
      validate_fleet_def validate_needle_status_def validate_needle_run_def validate_needle_seeds_def
      validate_identifier_prefix_ok validate_takeover_def validate_argv_def validate_takeover_identity_def
      char_classes Let_def)

lemma config_b_rest:
  "validate_banked_resets glm_account n = Inr ()" "validate_banked_resets zai_account n = Inr ()"
  by (simp_all add: validate_banked_resets_def glm_sel zai_sel banked_reset_default_def one_fin two_fin
      in_unit_def feq_def i64_max_def)

lemma prefixes_b: "effective_prefix ''sg-glm-'' ''b'' False = ''sg-glm-b-''"
  "effective_prefix ''sg-zai-'' ''b'' False = ''sg-zai-b-''"
  by (simp_all add: effective_prefix_def ends_with_def pool_of_prefix_def strip_prefix_def strip_suffix_def
      starts_with_def)

lemma prefix_map_b: "local_worker_prefixes config_b = [(''glm'', ''sg-glm-''), (''zai'', ''sg-zai-'')]"
  by (simp add: local_worker_prefixes_def config_b_def fed_b_def identifier_prefix_def host_actuator_def
      host_observer_def glm_sel zai_sel List.map_filter_simps bm_collect_def)

lemma federation_b: "validate_federation fed_b config_b = Inr ()"
proof -
  have v: "overshoot_violation config_b = None"
    by (simp add: overshoot_violation_def config_b_def fed_b_def step_up_bound_def overshoot_bound_def
        glm_sel zai_sel sat_sum_eq u32_max_def)
  have l: "validate_local_prefixes fed_b (local_worker_prefixes config_b) {} (cf_accounts config_b) = Inr ()"
    unfolding prefix_map_b
    by (simp add: config_b_def fed_b_def local_pair_def glm_sel zai_sel bm_get_def prefixes_b Let_def)
  have d: "validate_derived fed_b (n, a) = Inr ()" if "(n, a) \<in> set (cf_accounts config_b)" for n a
    using that by (auto simp: config_b_def validate_derived_def fed_b_def local_pair_def glm_sel zai_sel
        check_derived_def prefixes_b validate_identifier_prefix_ok char_classes)
  show ?thesis using v l d
    by (auto simp: validate_federation_def fed_b_def validate_host_id_def all_ws.simps ws_len_def char_classes bm_keys_def)
qed

lemma config_b_valid: "validate config_b = Inr ()"
  using config_b_heads config_b_rest federation_b
  by (simp add: validate_def config_b_def validate_duration_def i64_max_def glm_sel zai_sel bm_get_def)

lemma expand_config_b: "expand_config None config_b = config_b"
  by (simp add: expand_config_def config_b_def fed_b_def bm_map_def glm_sel zai_sel expand_tilde_def
      strip_prefix_def starts_with_def fleet_expand_paths_def)

lemma load_config_b: "load_config None config_b = Inr (apply_federation_prefixes config_b)"
  by (simp add: load_config_def expand_config_b config_b_valid)

section \<open>Properties\<close>

text \<open>C16: On a validated configuration a cycle of an account decides: its lookup of a window policy never
  panics and yields a target in the unit interval, and evaluation returns a decision on every snapshot that
  is stale or has an enabled window, and otherwise the one error that no window was observed, provided the
  aggregate burn estimator returns on the windows of an account with banked resets.\<close>

theorem validated_account_decides:
  assumes "validate cfg = Inr ()" "(name, a) \<in> set (cf_accounts cfg)"
    and "br_enabled (ac_banked a) \<longrightarrow> (\<forall>w \<in> set (qs_windows sn).
      is_ok (estimate_aggregate_burn ch (bm_get (as_aggregate prior) (qw_id w)) w (qs_observed_at sn) current))"
  shows "(\<exists>p. policy_for (ac_util a) wid = Inr p \<and> is_none_or (\<lambda>p. in_unit (rp_target p)) p)
    \<and> (if snapshot_stale ch a sn now \<or> (\<exists>w \<in> set (qs_windows sn). policy_for (ac_util a) (qw_id w) \<noteq> Inr None)
       then \<exists>d. evaluate ch name a sn prior current now = Inr d
       else evaluate ch name a sn prior current now =
         Inl (Bail (''account '' @ name @ '': no enabled quota windows were observed'')))"
proof -
  note v = validate_account_facts(1) [OF assms(1,2)]
  obtain p where p: "policy_for (ac_util a) wid = Inr p"
    using policy_for_no_panic [OF validated_fleet(3) [OF v]] by blast
  have "is_none_or (\<lambda>p. in_unit (rp_target p)) p"
    using validated_policy [OF v] p by (cases p) auto
  then show ?thesis
    using p evaluate_outcomes [OF validated_fleet(3) [OF v] validated_fleet(1) [OF v] assms(3), of now name] by blast
qed

theorem validated_account_decides_witness:
  "\<exists>d. evaluate chrono_ref ''glm'' glm_account snap_redeem prior1 4 (secs 3660) = Inr d"
proof -
  have "(''glm'', glm_account) \<in> set (cf_accounts config_b)" by (simp add: config_b_def)
  moreover have "is_ok (estimate_aggregate_burn chrono_ref (bm_get (as_aggregate prior1) (qw_id w)) w
      (qs_observed_at snap_redeem) 4)" if "w \<in> set (qs_windows snap_redeem)" for w
    by (simp add: estimate_aggregate_burn_def aggregate_samples_def prior1_def account_state_default_def
        bm_get_def chrono_ref_def snap_redeem_def snap1_def secs_def hours24_def Let_def unwrap_or_def)
  moreover have "\<exists>w \<in> set (qs_windows snap_redeem). policy_for (ac_util glm_account) (qw_id w) \<noteq> Inr None"
    using acct1_policy by (auto simp: snap_redeem_def glm_sel acct1_def)
  ultimately show ?thesis
    using validated_account_decides [OF config_b_valid, of "''glm''" glm_account snap_redeem chrono_ref prior1 4
        _ "secs 3660"] by auto
qed

text \<open>The configuration the program runs on is itself valid: expanding the paths of a parsed file,
  validating it and then rewriting the worker prefixes of a secondary host leaves a configuration that
  validation accepts, with the same accounts, policies, fleet bounds and federation.\<close>

theorem loaded_config_is_valid:
  assumes "load_config home cfg = Inr c"
  shows "validate c = Inr () \<and> bm_keys (cf_accounts c) = bm_keys (cf_accounts cfg)
    \<and> map_option fc_host_id (cf_federation c) = map_option fc_host_id (cf_federation cfg)
    \<and> (\<forall>n. map_option ac_util (bm_get (cf_accounts c) n) = map_option ac_util (bm_get (cf_accounts cfg) n)
       \<and> map_option (\<lambda>a. (fl_min_workers (ac_fleet a), fl_max_workers (ac_fleet a), fl_max_up (ac_fleet a)))
           (bm_get (cf_accounts c) n)
         = map_option (\<lambda>a. (fl_min_workers (ac_fleet a), fl_max_workers (ac_fleet a), fl_max_up (ac_fleet a)))
           (bm_get (cf_accounts cfg) n))"
proof -
  let ?e = "expand_config home cfg"
  have v: "validate ?e = Inr ()" and c: "c = apply_federation_prefixes ?e"
    using assms by (auto simp: load_config_def bind_res_Inr_iff)
  have e: "bm_keys (cf_accounts ?e) = bm_keys (cf_accounts cfg)"
      "map_option fc_host_id (cf_federation ?e) = map_option fc_host_id (cf_federation cfg)"
      "map_option ac_util (bm_get (cf_accounts ?e) n) = map_option ac_util (bm_get (cf_accounts cfg) n)"
      "map_option (\<lambda>a. (fl_min_workers (ac_fleet a), fl_max_workers (ac_fleet a), fl_max_up (ac_fleet a)))
           (bm_get (cf_accounts ?e) n)
         = map_option (\<lambda>a. (fl_min_workers (ac_fleet a), fl_max_workers (ac_fleet a), fl_max_up (ac_fleet a)))
           (bm_get (cf_accounts cfg) n)" for n
    by (simp_all add: expand_config_def option.map_comp comp_def fleet_expand_paths_def)
  have r: "validate c = Inr ()" unfolding c by (rule validate_rewritten [OF v])
  show ?thesis
    by (rule apply_federation_prefixes_cases [of ?e]; use r e c in
        \<open>simp add: option.map_comp comp_def\<close>)
qed

theorem loaded_config_is_valid_witness:
  "validate (apply_federation_prefixes config_b) = Inr ()"
  using loaded_config_is_valid [OF load_config_b] by blast

text \<open>C17: On a loaded configuration of a secondary host with peers, two accounts never launch workers of one id:
  every session launcher of an account on this host has a prefix that ends in the host's name, and an id
  that matches the prefix of one account matches that of no other.  The same holds of the prefix an account
  observes where the fleet is configured without hosts (validation then makes the two equal) or where
  nothing is launched on this host.  With fleet.hosts an observer may be configured with a prefix other than
  its actuator's, which nothing checks; of such an observer the claim says nothing.\<close>

theorem loaded_prefixes_apart:
  assumes "load_config home cfg = Inr c" "cf_federation c = Some f" "\<not> fc_primary f" "fc_peers f \<noteq> []"
    and "bm_ok (cf_accounts c)" "bm_get (cf_accounts c) n = Some a" "bm_get (cf_accounts c) m = Some b" "n \<noteq> m"
    and "launches_under (fc_host_id f) a p \<or> observes_under (fc_host_id f) a p
      \<and> (fl_hosts (ac_fleet a) = None \<or> (\<forall>p'. \<not> launches_under (fc_host_id f) a p'))"
    and "launches_under (fc_host_id f) b q \<or> observes_under (fc_host_id f) b q
      \<and> (fl_hosts (ac_fleet b) = None \<or> (\<forall>q'. \<not> launches_under (fc_host_id f) b q'))"
  shows "ends_with (''-'' @ fc_host_id f @ ''-'') p \<and> \<not> (matches_worker_prefix p w \<and> matches_worker_prefix q w)
    \<and> (\<forall>repo adapter prefix demand heartbeats. host_actuator a (fc_host_id f) =
         Some (NeedleRun repo adapter prefix demand heartbeats) \<longrightarrow> prefix \<noteq> None)"
proof -
  let ?e = "expand_config home cfg"
  have v: "validate c = Inr ()" "c = apply_federation_prefixes ?e"
    using assms(1) validate_rewritten by (auto simp: load_config_def bind_res_Inr_iff)
  have fe: "cf_federation ?e = Some f" using assms(2) v(2)
    by (auto simp: apply_federation_prefixes_def split: option.splits if_splits)
  have "cf_accounts c = bm_map (rewrite_account (fc_host_id f)) (cf_accounts ?e)"
    using fe assms(3,4) v(2) by (simp add: apply_federation_prefixes_def rewrite_account_def [abs_def])
  note g = local_worker_prefixes_get [OF fe assms(2) this]
  have "identifier_prefix a (fc_host_id f) = Some p" "identifier_prefix b (fc_host_id f) = Some q"
    using works_under_identifier validate_account_facts(1) [OF v(1) bm_get_in] assms(6,7,9,10)
    unfolding works_under_def by blast+
  then have lp: "bm_get (local_worker_prefixes c) n = Some p" "bm_get (local_worker_prefixes c) m = Some q"
    using local_worker_prefix_of [OF assms(5,2)] assms(6,7) by blast+
  obtain p' q' where pq: "p = effective_prefix p' (fc_host_id f) False" "q = effective_prefix q' (fc_host_id f) False"
    using lp unfolding g by auto
  have "effective_of f p \<noteq> effective_of f q"
    by (rule validated_prefixes_differ [OF v(1) assms(2,4) lp assms(8)])
  then have "p \<noteq> q" by blast
  then have "ends_with (''-'' @ fc_host_id f @ ''-'') p \<and> \<not> (matches_worker_prefix p w \<and> matches_worker_prefix q w)"
    using matching_prefixes_equal [of p w q] effective_prefix_dash effective_prefix_host [OF refl] pq by metis
  then show ?thesis using federated_prefix_named [OF v(1) assms(2,4,6)] by blast
qed

theorem loaded_prefixes_apart_witness:
  "\<forall>w. \<not> (matches_worker_prefix ''sg-glm-b-'' w \<and> matches_worker_prefix ''sg-zai-b-'' w)"
proof -
  let ?c = "apply_federation_prefixes config_b"
  have f: "cf_federation ?c = Some fed_b" "\<not> fc_primary fed_b" "fc_peers fed_b \<noteq> []"
    "cf_accounts ?c = [(''glm'', rewrite_account ''b'' glm_account), (''zai'', rewrite_account ''b'' zai_account)]"
    by (simp_all add: config_b_def apply_federation_prefixes_def fed_b_def rewrite_account_def bm_map_def)
  have u: "launches_under (fc_host_id fed_b) (rewrite_account ''b'' glm_account) ''sg-glm-b-''"
    "launches_under (fc_host_id fed_b) (rewrite_account ''b'' zai_account) ''sg-zai-b-''"
    by (simp_all add: launches_under_def host_actuator_def glm_sel zai_sel rewrite_fleet_single fed_b_def prefixes_b)
  have ok: "bm_ok (cf_accounts ?c)" "bm_get (cf_accounts ?c) ''glm'' = Some (rewrite_account ''b'' glm_account)"
    "bm_get (cf_accounts ?c) ''zai'' = Some (rewrite_account ''b'' zai_account)"
    by (simp_all add: f(4) bm_ok_def bm_get_def)
  show ?thesis
    using loaded_prefixes_apart [OF load_config_b f(1-3) ok _ disjI1 [OF u(1)] disjI1 [OF u(2)]] by simp
qed

text \<open>Every worker belongs to exactly one pool: over all the accounts of a validated configuration no
  worker is listed for takeover twice, neither by one account nor by two.\<close>

theorem takeover_listed_once:
  assumes "validate cfg = Inr ()"
  shows "distinct (concat (map (\<lambda>(n, a). map tk_worker_id (fl_takeover (ac_fleet a))) (cf_accounts cfg)))"
  using assms validate_accounts_takeover [of "[]" "cf_accounts cfg"]
  by (auto simp: validate_def listed_takeovers_def)

theorem takeover_listed_once_witness:
  "distinct (concat (map (\<lambda>(n, a). map tk_worker_id (fl_takeover (ac_fleet a))) (cf_accounts config_b)))
     \<and> tk_worker_id ` set (fl_takeover (ac_fleet zai_account)) = {''w1''}"
  using takeover_listed_once [OF config_b_valid] by (simp add: zai_sel)

text \<open>In a validated federation the peers are other hosts, each listed once; a silent peer goes stale
  before it expires; and the step-ups of all the instances together fit the workers an account may run, so
  one round of launches by every host at once stays within its maximum.\<close>

theorem validated_federation_fits:
  assumes "validate cfg = Inr ()" "cf_federation cfg = Some f"
  shows "distinct (fc_host_id f # map pc_host_id (fc_peers f))
    \<and> 0 < fc_stale_after f \<and> fc_stale_after f < fc_expiry f
    \<and> (\<forall>(n, a) \<in> set (cf_accounts cfg). fc_peers f \<noteq> [] \<longrightarrow> step_up_bound cfg a \<le> fl_max_workers (ac_fleet a))"
proof -
  have v: "validate_federation f cfg = Inr ()" using assms by (simp add: validate_def)
  have "first_violation cfg m = None \<Longrightarrow> (n, a) \<in> set m \<Longrightarrow> step_up_bound cfg a \<le> fl_max_workers (ac_fleet a)"
    for n a m by (induction cfg m rule: first_violation.induct) (auto split: if_splits)
  moreover have "overshoot_violation cfg = None"
    using v by (cases "overshoot_violation cfg") (auto simp: validate_federation_def)
  ultimately have "fc_peers f \<noteq> [] \<Longrightarrow> (n, a) \<in> set (cf_accounts cfg)
      \<Longrightarrow> step_up_bound cfg a \<le> fl_max_workers (ac_fleet a)" for n a
    using assms(2) by (auto simp: overshoot_violation_def)
  moreover have "validate_peers (fc_host_id f) {} (fc_peers f) = Inr ()"
    and "0 < fc_stale_after f" "fc_stale_after f < fc_expiry f"
    using v by (simp_all add: validate_federation_def)
  ultimately show ?thesis using validate_peers_hosts [of "fc_host_id f" "{}" "fc_peers f"] by auto
qed

theorem validated_federation_fits_witness:
  "step_up_bound config_b zai_account \<le> 10 \<and> distinct [''b'', ''a'']"
proof -
  have "cf_federation config_b = Some fed_b" "(''zai'', zai_account) \<in> set (cf_accounts config_b)"
    by (simp_all add: config_b_def)
  then show ?thesis
    using validated_federation_fits [OF config_b_valid, of fed_b] by (auto simp: fed_b_def zai_sel)
qed

end
