(* ===== verification/Record_Text.thy ===== *)
theory Record_Text
  imports Local_Record
begin

text \<open>
  The text of numbers: decimal digits are digits, are read back as the number, and survive trimming.
\<close>

lemma byte_digit: "(n::nat) < 10 \<Longrightarrow> byte (char_of (48 + n)) = 48 + n"
  by (simp add: byte_def)

lemma is_digit_char [simp]: "(n::nat) < 10 \<Longrightarrow> is_digit (char_of (48 + n))"
  using byte_digit [of n] by (simp add: is_digit_def)

lemma dec_digits: "list_all is_digit (dec n) \<and> dec n \<noteq> []"
proof (induction n rule: dec.induct)
  case (1 n)
  then show ?case by (subst (1 2) dec.simps) (simp del: dec.simps)
qed

lemma digits_value_snoc: "digits_value (s @ [c]) = digits_value s * 10 + (byte c - 48)"
  by (simp add: digits_value_def)

lemma digits_value_dec: "digits_value (dec n) = n"
proof (induction n rule: dec.induct)
  case (1 n)
  show ?case
  proof (cases "n < 10")
    case True
    then show ?thesis by (subst dec.simps) (simp add: digits_value_def byte_digit)
  next
    case False
    then show ?thesis using 1 by (subst dec.simps) (simp add: digits_value_snoc byte_digit)
  qed
qed

lemma digit_not_ws: "is_digit c \<Longrightarrow> ws_len (c # s) = 0"
  by (auto simp: ws_len_def is_digit_def split: list.splits)

lemma digit_all_ws: "is_digit c \<Longrightarrow> \<not> all_ws (c # s)"
  by (subst all_ws.simps) (simp add: digit_not_ws)

lemma trim_digits:
  assumes "list_all is_digit d" "all_ws s"
  shows "trim_end (d @ s) = d"
  using assms by (induction d) (auto simp: digit_all_ws, cases s, auto)

lemma trim_seq_file: "trim (seq_file n) = dec n"
proof -
  obtain c r where c: "dec n = c # r" "is_digit c" using dec_digits [of n] by (cases "dec n") auto
  have "trim_start (seq_file n) = seq_file n"
    by (subst trim_start.simps) (simp add: seq_file_def c digit_not_ws)
  moreover have "all_ws [CHR 10]" by (simp add: all_ws.simps ws_len_def byte_def)
  ultimately show ?thesis using dec_digits by (simp add: trim_def seq_file_def trim_digits)
qed

lemma parse_seq_file: "parse_u64 (trim (seq_file n)) = (if n \<le> u64_max then Some n else None)"
proof -
  have "\<not> is_digit (CHR ''+'')" by (simp add: is_digit_def byte_def)
  then have "strip_prefix ''+'' (dec n) = None"
    using dec_digits [of n] by (cases "dec n") (auto simp: strip_prefix_def starts_with_def)
  then show ?thesis
    using dec_digits by (simp add: trim_seq_file parse_u64_def digits_value_dec)
qed

end
