(* ===== verification/Record_Properties.thy ===== *)
theory Record_Properties
  imports Config_Properties Record_Text
begin

text \<open>
  The record an instance publishes: its counter survives restarts and its content is accepted by the
  validation every peer applies.
\<close>

declare all_ok.simps [simp del]

section \<open>The record counter\<close>

text \<open>Record sequences only move forward, also across restarts: a sequence number is positive and fits
  64 bits, and the counter file it leaves makes the next publication return its successor, until the
  counter is exhausted, which is an error and not a wrap.\<close>

theorem sequence_moves_forward:
  assumes "next_record_seq stored writable = Inr n"
  shows "0 < n \<and> n \<le> u64_max \<and> next_record_seq (Some (seq_file n)) True =
    (if n = u64_max then Inl (Bail ''record sequence counter exhausted'') else Inr (n + 1))"
proof -
  have "0 < n \<and> n \<le> u64_max" using assms by (auto simp: next_record_seq_def bind_res_Inr_iff split: if_splits)
  then show ?thesis by (auto simp: next_record_seq_def parse_seq_file)
qed

theorem sequence_moves_forward_witness:
  "next_record_seq None True = Inr 1 \<and> next_record_seq (Some (seq_file 1)) True = Inr 2"
proof -
  have "next_record_seq None True = Inr 1" by (simp add: next_record_seq_def u64_max_def)
  then show ?thesis using sequence_moves_forward [of None True 1] by (simp add: u64_max_def)
qed

section \<open>The published record\<close>

definition is_hex :: "char \<Rightarrow> bool" where
  "is_hex c = (is_digit c \<or> (CHR ''a'' \<le> c \<and> c \<le> CHR ''f''))"

lemma hex_digit_ok:
  assumes "n < 16"
  shows "is_hex (hex_digit n)"
proof -
  have "n < 10 \<or> n = 10 \<or> n = 11 \<or> n = 12 \<or> n = 13 \<or> n = 14 \<or> n = 15" using assms by linarith
  then show ?thesis by (auto simp: is_hex_def hex_digit_def less_eq_char_def)
qed

lemma hex_byte_ok: "b < 256 \<Longrightarrow> list_all is_hex (hex_byte b)"
  using hex_digit_ok by (simp add: hex_byte_def)

lemma fingerprint_is_one:
  assumes "\<forall>b \<in> set (digest v). b < 256" "8 \<le> length (digest v)"
  shows "is_fingerprint (account_fingerprint digest v)"
proof -
  have h: "list_all is_hex (concat (map hex_byte bs)) \<and> length (concat (map hex_byte bs)) = 2 * length bs"
    if "\<forall>b \<in> set bs. b < 256" for bs
    using that by (induction bs) (simp_all add: hex_byte_ok, simp add: hex_byte_def)
  have "\<forall>b \<in> set (take 8 (digest v)). b < 256" using assms(1) set_take_subset by fast
  from h [OF this] show ?thesis using assms(2)
    by (simp add: is_fingerprint_def account_fingerprint_def fingerprint_hex_chars_def is_hex_def [abs_def])
qed

lemma set_bm_extend: "set (bm_extend m es) \<subseteq> set m \<union> set es"
proof (induction es arbitrary: m)
  case (Cons e es)
  then show ?case using set_bm_put [of "fst e" "snd e" m] by (fastforce simp: bm_extend_def)
qed (simp add: bm_extend_def)

lemma set_bm_collect: "set (bm_collect es) \<subseteq> set es"
  using set_bm_extend [of "[]" es] by (simp add: bm_collect_def bm_extend_def)

lemma seed_paths_nonblank: "p \<in> set (seed_paths d) \<Longrightarrow> \<not> all_ws p"
  by (auto simp: seed_paths_def)

lemma local_seed_origins_nonblank:
  assumes "\<And>p url. git p = Some url \<Longrightarrow> \<not> all_ws (sanitize_origin url)"
    and "\<And>r ad p d hb. host_actuator a h = Some (NeedleRun r ad p d hb) \<Longrightarrow> \<not> all_ws r"
    and "(p, orig) \<in> set (local_seed_origins git a h d)"
  shows "\<not> all_ws p \<and> \<not> all_ws orig"
proof -
  have s: "\<not> all_ws q \<and> \<not> all_ws u" if "(q, u) \<in> set (seed_origins git d)" for q u
  proof -
    have "(q, u) \<in> set (List.map_filter (\<lambda>p. map_option (\<lambda>url. (p, sanitize_origin url)) (git p)) (seed_paths d))"
      using that set_bm_collect unfolding seed_origins_def by blast
    then obtain x where x: "x \<in> set (seed_paths d)"
        "map_option (\<lambda>url. (x, sanitize_origin url)) (git x) = Some (q, u)"
      unfolding set_map_filter' by blast
    obtain url where "q \<in> set (seed_paths d)" "git q = Some url" "u = sanitize_origin url"
      using x by (cases "git x") auto
    then show ?thesis using seed_paths_nonblank assms(1) by blast
  qed
  have put: "(p, orig) \<in> set (seed_origins git d) \<or> (p, orig) = (r, sanitize_origin u)"
    if "(p, orig) \<in> set (bm_put r (sanitize_origin u) (seed_origins git d))" for r u
    using that set_bm_put by fast
  show ?thesis
    using assms(3) s put assms(1,2)
    by (fastforce simp: local_seed_origins_def Let_def split: if_splits option.splits actuator_config.splits)
qed

lemma freshest_window_ok:
  assumes "freshest_window st n = Some s"
  obtains a w r where "bm_get (gs_accounts st) n = Some a" "(w, r) \<in> set (as_windows a)"
    "pq_window s = w" "pq_used_fraction s = wsm_used_fraction r"
  using assms by (auto simp: freshest_window_def bind_eq_Some_conv dest!: max_by_in)

definition samples_ok :: "gov_state \<Rightarrow> bool" where
  "samples_ok st = (\<forall>n a. bm_get (gs_accounts st) n = Some a \<longrightarrow>
     (\<forall>(w, s) \<in> set (as_windows a). \<not> all_ws w \<and> in_unit (wsm_used_fraction s)))"

definition named_ok :: "string \<Rightarrow> string \<times> account_config \<Rightarrow> bool" where
  "named_ok host e = (case e of (name, a) \<Rightarrow> identifier_ok name \<and> identifier_ok (pool_key a name host)
     \<and> (\<forall>repo adapter prefix demand hb.
          host_actuator a host = Some (NeedleRun repo adapter prefix demand hb) \<longrightarrow> \<not> all_ws repo))"

lemma local_account_ok:
  assumes "named_ok (fc_host_id f) e" "samples_ok st"
    and "\<And>v. (\<forall>b \<in> set (lf_digest lf v). b < 256) \<and> 8 \<le> length (lf_digest lf v)"
  shows "account_entry_ok (local_account lf f st e)"
proof -
  obtain n a where e: "e = (n, a)" by (cases e)
  have "sample_ok s" if fw: "freshest_window st n = Some s" for s
  proof -
    obtain b w r where b: "bm_get (gs_accounts st) n = Some b" "(w, r) \<in> set (as_windows b)"
        "pq_window s = w" "pq_used_fraction s = wsm_used_fraction r"
      by (rule freshest_window_ok [OF fw])
    have "\<forall>(w, s) \<in> set (as_windows b). \<not> all_ws w \<and> in_unit (wsm_used_fraction s)"
      using assms(2) b(1) by (simp add: samples_ok_def)
    then show ?thesis using b(2-4) by (simp add: sample_ok_def) fast
  qed
  then have "is_none_or sample_ok (freshest_window st n)" by (cases "freshest_window st n") auto
  then show ?thesis using assms(1) fingerprint_is_one assms(3)
    by (simp add: account_entry_ok_def local_account_def e pool_entry_ok_def pool_state_def named_ok_def Let_def)
qed

text \<open>C18: Every peer accepts the record this instance publishes: if the instance id was loaded, the
  remembered quota samples are readings of a named window, the names and prefixes of the configured
  accounts are identifiers and the workspaces' remotes are not blank once cleaned, the record assembled from
  a validated configuration passes the validation a peer applies, under this host's id and with one entry
  for each configured account.\<close>

theorem published_record_accepted:
  assumes "validate cfg = Inr ()" "cf_federation cfg = Some f"
    and "build_local_record cfg lf now = Inr r"
    and "lf_instance_id lf = load_or_create_instance_id (Some content) fresh writable"
    and "lf_state lf = Inr st" "samples_ok st"
    and "\<forall>e \<in> set (cf_accounts cfg). named_ok (fc_host_id f) e"
    and "\<And>v. (\<forall>b \<in> set (lf_digest lf v). b < 256) \<and> 8 \<le> length (lf_digest lf v)"
    and "\<And>p url. lf_git lf p = Some url \<Longrightarrow> \<not> all_ws (sanitize_origin url)"
  shows "record_validate r = Inr () \<and> pr_host_id r = fc_host_id f \<and> pr_observed_at r = now
    \<and> set (bm_keys (pr_accounts r)) = set (bm_keys (cf_accounts cfg))"
proof -
  let ?acc = "map (local_account lf f st) (cf_accounts cfg)"
  obtain iid where r: "lf_instance_id lf = Inr iid" "pr_instance_id r = iid" "pr_host_id r = fc_host_id f"
      "pr_observed_at r = now" "pr_accounts r = bm_collect ?acc"
      "pr_workspace_origins r = foldl (\<lambda>m e. bm_extend m (local_seed_origins (lf_git lf) (snd e) (fc_host_id f)
                (pool_demand_digest (lf_demand lf) (snd e) (fc_host_id f)))) [] (cf_accounts cfg)"
    using assms(2,3,5) by (auto simp: build_local_record_def bind_res_Inr_iff)
  have iid: "identifier_ok iid" using r(1) assms(4)
    by (auto simp: load_or_create_instance_id_def validate_identifier_def split: if_splits)
  have host: "identifier_ok (fc_host_id f)" using assms(1,2)
    by (simp add: validate_def validate_federation_def validate_host_id_def identifier_ok_def)
  have acc: "\<forall>e \<in> set (pr_accounts r). account_entry_ok e"
    using set_bm_collect [of ?acc] local_account_ok [OF _ assms(6,8)] assms(7) unfolding r(5) by fastforce
  have orig: "\<forall>(p, u) \<in> set (foldl (\<lambda>m e. bm_extend m (local_seed_origins (lf_git lf) (snd e) (fc_host_id f)
                (pool_demand_digest (lf_demand lf) (snd e) (fc_host_id f)))) m es). \<not> all_ws p \<and> \<not> all_ws u"
    if "\<forall>(p, u) \<in> set m. \<not> all_ws p \<and> \<not> all_ws u" "set es \<subseteq> set (cf_accounts cfg)" for m es
    using that
  proof (induction es arbitrary: m)
    case (Cons e es)
    have "named_ok (fc_host_id f) (fst e, snd e)" using assms(7) Cons.prems(2) by simp
    then have repo: "\<not> all_ws x" if "host_actuator (snd e) (fc_host_id f) = Some (NeedleRun x ad p d hb)" for x ad p d hb
      using that unfolding named_ok_def prod.case by blast
    let ?o = "local_seed_origins (lf_git lf) (snd e) (fc_host_id f)
        (pool_demand_digest (lf_demand lf) (snd e) (fc_host_id f))"
    have "\<not> all_ws p \<and> \<not> all_ws u" if "(p, u) \<in> set ?o" for p u
      by (rule local_seed_origins_nonblank [OF assms(9) repo that])
    then have "\<forall>(p, u) \<in> set (bm_extend m ?o). \<not> all_ws p \<and> \<not> all_ws u"
      using set_bm_extend [of m ?o] Cons.prems(1) by blast
    from Cons.IH [OF this] Cons.prems(2) show ?case by simp
  qed simp
  have keys: "map fst ?acc = map fst (cf_accounts cfg)" by (auto simp: local_account_def)
  have "set (bm_keys (pr_accounts r)) = set (map fst ?acc)"
    unfolding r(5) bm.keys_look bm_get_collect by (force simp: map_of_eq_None_iff)
  then show ?thesis
    using r iid host acc orig [of "[]" "cf_accounts cfg"] keys
    by (simp add: record_validate_iff record_ok_def bm_keys_def)
qed

definition files_b :: local_files where
  "files_b = \<lparr> lf_instance_id = load_or_create_instance_id (Some ''id-b'') [] False,
     lf_record_seq = next_record_seq None True, lf_status = [], lf_state = Inr gov_state_default,
     lf_capacity = Inr \<lparr> hcd_last_evidence = None, hcd_reservations = [] \<rparr>, lf_excluded = [],
     lf_pending = [], lf_demand = (\<lambda>p. None), lf_git = (\<lambda>p. None), lf_timestamp = (\<lambda>s n. None),
     lf_digest = (\<lambda>v. replicate 32 7) \<rparr>"

theorem published_record_accepted_witness:
  "\<exists>r. build_local_record config_b files_b 0 = Inr r \<and> record_validate r = Inr ()"
proof -
  have i: "load_or_create_instance_id (Some ''id-b'') [] False = Inr ''id-b''"
    by (simp add: load_or_create_instance_id_def validate_identifier_def identifier_ok_def trim_def
        trim_start.simps all_ws.simps ws_len_def byte_def)
  obtain r where r: "build_local_record config_b files_b 0 = Inr r"
    by (simp add: build_local_record_def config_b_def files_b_def i next_record_seq_def u64_max_def)
  have n: "\<forall>e \<in> set (cf_accounts config_b). named_ok (fc_host_id fed_b) e"
    by (simp add: named_ok_def config_b_def pool_key_def identifier_prefix_def host_actuator_def
        host_observer_def glm_sel zai_sel identifier_ok_def all_ws.simps ws_len_def byte_def)
  have "cf_federation config_b = Some fed_b" "samples_ok gov_state_default"
    by (simp_all add: config_b_def samples_ok_def gov_state_default_def bm_get_def)
  from published_record_accepted [OF config_b_valid this(1) r, of "''id-b''" "[]" False gov_state_default] this(2) n
  show ?thesis using r by (simp add: files_b_def)
qed

end
