(* ===== verification/Json.thy ===== *)
theory Json
  imports F64 BMap Strs
begin

text \<open>
  \<open>serde_json::Value\<close> as the code reads it: the tree, the accessors the source calls on it, and the
  string conversions of the standard library around it.  Parsing text into a tree is a parameter of the
  definitions that do it.
\<close>

datatype json_number = PosInt nat | NegInt int | FloatNum f64

datatype json =
    JNull
  | JBool bool
  | JNum json_number
  | JStr string
  | JArr "json list"
  | JObj "(string \<times> json) list"

section \<open>Accessors\<close>

text \<open>\<open>value["key"]\<close> and \<open>get(key)\<close>: nothing on a tree that is not an object.\<close>

fun jget :: "string \<Rightarrow> json \<Rightarrow> json option" where
  "jget k (JObj m) = bm_get m k"
| "jget k _ = None"

fun jindex :: "string \<Rightarrow> json \<Rightarrow> json" where
  "jindex k (JObj m) = unwrap_or JNull (bm_get m k)"
| "jindex k _ = JNull"

text \<open>\<open>pointer("/a/b")\<close> over object keys.\<close>

fun jpath :: "string list \<Rightarrow> json \<Rightarrow> json option" where
  "jpath [] v = Some v"
| "jpath (k # ks) v = Option.bind (jget k v) (jpath ks)"

fun as_str :: "json \<Rightarrow> string option" where
  "as_str (JStr s) = Some s"
| "as_str _ = None"

fun as_bool :: "json \<Rightarrow> bool option" where
  "as_bool (JBool b) = Some b"
| "as_bool _ = None"

fun as_u64 :: "json \<Rightarrow> nat option" where
  "as_u64 (JNum (PosInt n)) = Some n"
| "as_u64 _ = None"

fun json_i64 :: "json \<Rightarrow> int option" where
  "json_i64 (JNum (PosInt n)) = (if n \<le> i64_max then Some (int n) else None)"
| "json_i64 (JNum (NegInt i)) = Some i"
| "json_i64 _ = None"

fun as_f64 :: "json \<Rightarrow> f64 option" where
  "as_f64 (JNum (PosInt n)) = Some (f_of_nat n)"
| "as_f64 (JNum (NegInt i)) = Some (f_of_int i)"
| "as_f64 (JNum (FloatNum x)) = Some x"
| "as_f64 _ = None"

fun as_array :: "json \<Rightarrow> json list option" where
  "as_array (JArr vs) = Some vs"
| "as_array _ = None"

fun as_object :: "json \<Rightarrow> (string \<times> json) list option" where
  "as_object (JObj m) = Some m"
| "as_object _ = None"

fun is_object :: "json \<Rightarrow> bool" where
  "is_object (JObj m) = True"
| "is_object _ = False"

end
