(* ===== verification/Fleet.thy ===== *)
theory Fleet
  imports Local_Record Placement Json
begin

text \<open>
  \<open>src/fleet.rs\<close>: how a fleet is observed and how a decision is applied to it.  What an observer reads and
  what an actuator or the takeover helper answers is a parameter (\<open>fleet_io\<close>); every definition that may
  invoke an actuator returns, beside its result, the invocations it made, in order.
\<close>

section \<open>Invocations\<close>

datatype invocation = Invoke actuator_config nat "string list" | RunHelper "string list"

type_synonym 'a acts = "invocation list \<times> 'a res"

definition acts_return :: "'a res \<Rightarrow> 'a acts" where
  "acts_return r = ([], r)"

definition acts_bind :: "'a acts \<Rightarrow> ('a \<Rightarrow> 'b acts) \<Rightarrow> 'b acts" where
  "acts_bind m f = (case m of
     (is, Inl e) \<Rightarrow> (is, Inl e)
   | (is, Inr x) \<Rightarrow> (case f x of (is', r) \<Rightarrow> (is @ is', r)))"

text \<open>
  The world: an observer's owned and unowned workers under a takeover list, before a decision is applied
  (\<open>io_observe\<close>) and after it (\<open>io_reobserve\<close>), an actuator's answer to a
  desired count under a set of excluded workspaces, the takeover helper's answer, and the seedable entries
  of a demand-state file.
\<close>

record fleet_io =
  io_observe :: "worker_observer_config \<Rightarrow> string list \<Rightarrow> (nat \<times> nat) res"
  io_reobserve :: "worker_observer_config \<Rightarrow> string list \<Rightarrow> (nat \<times> nat) res"
  io_actuate :: "actuator_config \<Rightarrow> nat \<Rightarrow> string list \<Rightarrow> unit res"
  io_helper :: "string list \<Rightarrow> unit res"
  io_seeds :: "string \<Rightarrow> string list res"

record actuation_outcome =
  ao_actuated :: bool
  ao_observed :: "nat option"

section \<open>Observation\<close>

text \<open>The text of a file or command observer; JSON parsing is a parameter.\<close>

definition parse_u32 :: "string \<Rightarrow> nat option" where
  "parse_u32 s = opt_filter (\<lambda>n. n \<le> u32_max) (parse_u64 s)"

definition parse_worker_count :: "(string \<Rightarrow> json option) \<Rightarrow> string \<Rightarrow> nat res" where
  "parse_worker_count decode text =
     (case parse_u32 (trim text) of
        Some n \<Rightarrow> Inr n
      | None \<Rightarrow> (case decode (trim text) of
          None \<Rightarrow> Inl (Bail (''worker observer must print an integer or {'' @ [CHR 34] @ ''current_workers''
            @ [CHR 34] @ '': N}''))
        | Some v \<Rightarrow> (case opt_filter (\<lambda>n. n \<le> u32_max) (Option.bind (jget ''current_workers'' v) as_u64) of
            None \<Rightarrow> Inl (Bail ''worker observer JSON omitted a valid current_workers'')
          | Some n \<Rightarrow> Inr n)))"

definition takeover_worker_ids :: "fleet_config \<Rightarrow> string list" where
  "takeover_worker_ids f = map tk_worker_id (fl_takeover f)"

definition reconcile_observed_range :: "nat \<Rightarrow> fleet_config \<Rightarrow> nat res" where
  "reconcile_observed_range observed f =
     (if fl_min_workers f \<le> observed \<and> observed \<le> fl_max_workers f then Inr observed
      else case fl_reconciliation f of
        Strict \<Rightarrow> Inl (Bail (''observed worker count '' @ dec observed @ '' is outside the configured fleet range [''
          @ dec (fl_min_workers f) @ '', '' @ dec (fl_max_workers f) @ '']''))
      | Clamp \<Rightarrow> clamp_u32 observed (fl_min_workers f) (fl_max_workers f))"

definition current_workers ::
  "(worker_observer_config \<Rightarrow> string list \<Rightarrow> (nat \<times> nat) res) \<Rightarrow> fleet_config \<Rightarrow> nat res" where
  "current_workers observe f = (case fl_observer f of
     None \<Rightarrow> Inl (Bail ''fleet.observer is required when fleet.hosts is not configured'')
   | Some ob \<Rightarrow> bind_res (observe ob (takeover_worker_ids f)) (\<lambda>(owned, unowned).
       reconcile_observed_range owned f))"

definition unowned_workers :: "fleet_io \<Rightarrow> fleet_config \<Rightarrow> nat res" where
  "unowned_workers io f = (case fl_observer f of
     None \<Rightarrow> Inr 0
   | Some ob \<Rightarrow> bind_res (io_observe io ob (takeover_worker_ids f)) (\<lambda>(owned, unowned). Inr unowned))"

definition configured_hosts :: "account_config \<Rightarrow> (string, host_config) bmap res" where
  "configured_hosts a = (case opt_filter (\<lambda>hs. hs \<noteq> []) (fl_hosts (ac_fleet a)) of
     Some hs \<Rightarrow> Inr hs | None \<Rightarrow> Inl (Bail ''fleet.hosts must contain at least one host''))"

fun collect_res :: "('a \<Rightarrow> 'b res) \<Rightarrow> 'a list \<Rightarrow> 'b list res" where
  "collect_res f [] = Inr []"
| "collect_res f (x # xs) = bind_res (f x) (\<lambda>y. bind_res (collect_res f xs) (\<lambda>ys. Inr (y # ys)))"

definition with_context :: "string \<Rightarrow> 'a res \<Rightarrow> 'a res" where
  "with_context msg r = (case r of Inl (Bail e) \<Rightarrow> Inl (Bail msg) | _ \<Rightarrow> r)"

definition current_host_workers :: "fleet_io \<Rightarrow> account_config \<Rightarrow> (string, nat) bmap res" where
  "current_host_workers io a = bind_res (configured_hosts a) (collect_res (\<lambda>(host_id, h).
     bind_res (with_context (''host '' @ host_id @ '' observer failed'') (io_observe io (hc_observer h) []))
       (\<lambda>(owned, unowned). Inr (host_id, owned))))"

fun checked_sum :: "nat \<Rightarrow> nat list \<Rightarrow> nat res" where
  "checked_sum t [] = Inr t"
| "checked_sum t (n # ns) = (if t + n \<le> u32_max then checked_sum (t + n) ns
     else Inl (Bail ''sum of per-host worker counts exceeds u32''))"

definition total_host_workers :: "fleet_config \<Rightarrow> (string, nat) bmap \<Rightarrow> nat res" where
  "total_host_workers f by_host = bind_res (checked_sum 0 (bm_vals by_host)) (\<lambda>t. reconcile_observed_range t f)"

section \<open>Actuation\<close>

fun reconcile_unchanged :: "actuator_config \<Rightarrow> bool" where
  "reconcile_unchanged (ActCommand argv r) = r"
| "reconcile_unchanged _ = False"

definition actuate_config_with_exclusions ::
  "fleet_io \<Rightarrow> actuator_config \<Rightarrow> nat \<Rightarrow> nat \<Rightarrow> string list \<Rightarrow> actuation_outcome acts" where
  "actuate_config_with_exclusions io ac observed desired excluded =
     (if desired = observed \<and> \<not> reconcile_unchanged ac
      then acts_return (Inr \<lparr> ao_actuated = False, ao_observed = None \<rparr>)
      else if ac = ActNone then acts_return (Inr \<lparr> ao_actuated = False, ao_observed = None \<rparr>)
      else ([Invoke ac desired excluded], bind_res (io_actuate io ac desired excluded)
        (\<lambda>_. Inr \<lparr> ao_actuated = True, ao_observed = None \<rparr>)))"

definition actuate_config :: "fleet_io \<Rightarrow> actuator_config \<Rightarrow> nat \<Rightarrow> nat \<Rightarrow> actuation_outcome acts" where
  "actuate_config io ac observed desired = actuate_config_with_exclusions io ac observed desired []"

definition retire_takeover :: "fleet_io \<Rightarrow> fleet_config \<Rightarrow> unit acts" where
  "retire_takeover io f =
     (if fl_takeover f = [] then acts_return (Inr ())
      else case fl_takeover_helper f of
        None \<Rightarrow> acts_return (Inl (Bail ''fleet.takeover is configured without fleet.takeover_helper''))
      | Some helper \<Rightarrow> ([RunHelper helper], io_helper io helper))"

definition actuate_with_exclusions ::
  "fleet_io \<Rightarrow> fleet_config \<Rightarrow> nat \<Rightarrow> nat \<Rightarrow> string list \<Rightarrow> actuation_outcome acts" where
  "actuate_with_exclusions io f observed desired excluded =
     acts_bind (actuate_config_with_exclusions io (fl_actuator f) observed desired excluded) (\<lambda>outcome.
     acts_bind (retire_takeover io f) (\<lambda>_.
     if reconcile_unchanged (fl_actuator f)
     then acts_return (bind_res (current_workers (io_reobserve io) f) (\<lambda>n. Inr (outcome\<lparr> ao_observed := Some n \<rparr>)))
     else acts_return (Inr outcome)))"

definition actuate :: "fleet_io \<Rightarrow> fleet_config \<Rightarrow> nat \<Rightarrow> nat \<Rightarrow> actuation_outcome acts" where
  "actuate io f observed desired = actuate_with_exclusions io f observed desired []"

definition launch_capacity :: "fleet_io \<Rightarrow> actuator_config \<Rightarrow> string list \<Rightarrow> nat res" where
  "launch_capacity io ac excluded = (case ac of
     NeedleRun repo adapter prefix (Some path) hb \<Rightarrow> bind_res (io_seeds io path) (\<lambda>ready.
       Inr (min (length (filter (\<lambda>p. p \<notin> set excluded) ready)) u32_max))
   | NeedleRun repo adapter prefix None hb \<Rightarrow> Inr (if repo \<in> set excluded then 0 else u32_max)
   | _ \<Rightarrow> Inr u32_max)"

section \<open>Per-host actuation\<close>

text \<open>The placements by host: every placement names a configured host, once, and every host has one.\<close>

fun index_placements ::
  "(string, host_config) bmap \<Rightarrow> (string, host_placement) bmap \<Rightarrow> host_placement list
     \<Rightarrow> (string, host_placement) bmap res" where
  "index_placements hosts m [] = Inr m"
| "index_placements hosts m (p # ps) =
     (if bm_get hosts (hp_host_id p) = None
      then Inl (Bail (''placement references unknown host '' @ hp_host_id p))
      else if bm_get m (hp_host_id p) \<noteq> None
      then Inl (Bail (''placement contains duplicate host '' @ hp_host_id p))
      else index_placements hosts (bm_put (hp_host_id p) p m) ps)"

definition missing_host :: "(string, host_config) bmap \<Rightarrow> (string, host_placement) bmap \<Rightarrow> string option" where
  "missing_host hosts m = find (\<lambda>h. bm_get m h = None) (bm_keys hosts)"

definition actuate_host ::
  "fleet_io \<Rightarrow> string option \<Rightarrow> string list \<Rightarrow> (string, host_placement) bmap \<Rightarrow> string \<times> host_config
     \<Rightarrow> (string \<times> actuation_outcome) acts" where
  "actuate_host io selected excluded m e = (case e of (host_id, h) \<Rightarrow>
     (case bm_get m host_id of
        None \<Rightarrow> acts_return (Inl (Panic ''no entry found for key''))
      | Some p \<Rightarrow>
          acts_bind (if is_some_and (\<lambda>s. s \<noteq> host_id) selected
              then acts_return (Inr \<lparr> ao_actuated = False, ao_observed = None \<rparr>)
              else map_prod id (with_context (''host '' @ host_id @ '' actuator failed''))
                (if selected = None then actuate_config io (hc_actuator h) (hp_current p) (hp_target p)
                 else actuate_config_with_exclusions io (hc_actuator h) (hp_current p) (hp_target p) excluded))
            (\<lambda>outcome.
              if is_none_or (\<lambda>s. s = host_id) selected \<and> reconcile_unchanged (hc_actuator h)
              then acts_return (bind_res
                (with_context (''host '' @ host_id @ '' post-actuation observer failed'') (io_reobserve io (hc_observer h) []))
                (\<lambda>(owned, unowned). Inr (host_id, outcome\<lparr> ao_observed := Some owned \<rparr>)))
              else acts_return (Inr (host_id, outcome)))))"

fun actuate_hosts ::
  "fleet_io \<Rightarrow> string option \<Rightarrow> string list \<Rightarrow> (string, host_placement) bmap \<Rightarrow> (string, host_config) bmap
     \<Rightarrow> (string, actuation_outcome) bmap acts" where
  "actuate_hosts io selected excluded m [] = acts_return (Inr [])"
| "actuate_hosts io selected excluded m (e # es) =
     acts_bind (actuate_host io selected excluded m e) (\<lambda>o1.
     acts_bind (actuate_hosts io selected excluded m es) (\<lambda>os. acts_return (Inr (o1 # os))))"

definition actuate_host_targets_selected ::
  "fleet_io \<Rightarrow> account_config \<Rightarrow> host_placement list \<Rightarrow> string option \<Rightarrow> string list
     \<Rightarrow> (string, actuation_outcome) bmap acts" where
  "actuate_host_targets_selected io a placements selected excluded =
     acts_bind (acts_return (configured_hosts a)) (\<lambda>hosts.
     acts_bind (acts_return (index_placements hosts [] placements)) (\<lambda>m.
     case missing_host hosts m of
       Some h \<Rightarrow> acts_return (Inl (Bail (''placement is missing configured host '' @ h)))
     | None \<Rightarrow> actuate_hosts io selected excluded m hosts))"

definition actuate_host_targets ::
  "fleet_io \<Rightarrow> account_config \<Rightarrow> host_placement list \<Rightarrow> (string, actuation_outcome) bmap acts" where
  "actuate_host_targets io a placements = actuate_host_targets_selected io a placements None []"

definition actuate_host_targets_local ::
  "fleet_io \<Rightarrow> account_config \<Rightarrow> host_placement list \<Rightarrow> string \<Rightarrow> string list
     \<Rightarrow> (string, actuation_outcome) bmap acts" where
  "actuate_host_targets_local io a placements local_host excluded =
     actuate_host_targets_selected io a placements (Some local_host) excluded"

end
