(* ===== verification/Needle.thy ===== *)
theory Needle
  imports Fleet
begin

text \<open>
  \<open>src/fleet/needle.rs\<close>: workers counted from heartbeat files and reconciled through tmux sessions.
  Directory entries, their decoded content and the output of the programs are arguments; running a
  \<open>needle\<close> command is a function of the position of the command in the batch and of its arguments, and a
  reconciliation returns the commands it issued, in order, beside its result.
\<close>

section \<open>Heartbeats\<close>

record needle_heartbeat =
  nh_qualified_id :: string
  nh_worker_id :: string
  nh_last :: datetime

record heartbeat_entry =
  hb_is_file :: "bool res"
  hb_file_name :: "string option"
  hb_content :: "needle_heartbeat res"

text \<open>A directory: missing, or its entries in the order the system lists them.\<close>

type_synonym 'e listing = "'e res list option res"

record heartbeat_counts =
  hn_owned :: nat
  hn_unowned :: nat
  hn_takeover :: nat

definition no_heartbeats :: heartbeat_counts where
  "no_heartbeats = \<lparr> hn_owned = 0, hn_unowned = 0, hn_takeover = 0 \<rparr>"

definition heartbeat_fresh :: "chrono \<Rightarrow> nat \<Rightarrow> datetime \<Rightarrow> datetime \<Rightarrow> bool" where
  "heartbeat_fresh ch stale now seen =
     (let age = now - seen; age_seconds = num_seconds ch age
      in age_seconds < 0 \<or> age_seconds < int stale \<or> (age_seconds = int stale \<and> age mod 1000000000 = 0))"

text \<open>The id a file name stands for, if it is one of the agent's.\<close>

definition agent_qualified_id :: "string \<Rightarrow> string option \<Rightarrow> string option" where
  "agent_qualified_id agent file_name = opt_filter
     (\<lambda>q. starts_with (agent @ ''-'') q \<and> length q \<noteq> length (agent @ ''-''))
     (Option.bind file_name (strip_suffix ''.json''))"

datatype bucket = Owned | Takeover | Unowned

definition heartbeat_bucket :: "string option \<Rightarrow> string list \<Rightarrow> string \<Rightarrow> bucket" where
  "heartbeat_bucket prefix takeover worker =
     (if is_none_or (\<lambda>p. matches_worker_prefix p worker) prefix then Owned
      else if worker \<in> set takeover then Takeover else Unowned)"

definition bump_bucket :: "bucket \<Rightarrow> heartbeat_counts \<Rightarrow> heartbeat_counts res" where
  "bump_bucket b c =
     (let n = (case b of Owned \<Rightarrow> hn_owned c | Takeover \<Rightarrow> hn_takeover c | Unowned \<Rightarrow> hn_unowned c)
      in if n + 1 \<le> u32_max then Inr (case b of
           Owned \<Rightarrow> c\<lparr> hn_owned := n + 1 \<rparr> | Takeover \<Rightarrow> c\<lparr> hn_takeover := n + 1 \<rparr> | Unowned \<Rightarrow> c\<lparr> hn_unowned := n + 1 \<rparr>)
         else Inl (Bail ''NEEDLE heartbeat count exceeds u32::MAX''))"

fun count_entries ::
  "chrono \<Rightarrow> string \<Rightarrow> string option \<Rightarrow> string list \<Rightarrow> nat \<Rightarrow> datetime \<Rightarrow> heartbeat_counts
     \<Rightarrow> heartbeat_entry res list \<Rightarrow> heartbeat_counts res" where
  "count_entries ch agent prefix takeover stale now c [] = Inr c"
| "count_entries ch agent prefix takeover stale now c (entry # rest) =
     bind_res entry (\<lambda>e. bind_res (hb_is_file e) (\<lambda>file.
       if \<not> file then count_entries ch agent prefix takeover stale now c rest
       else case agent_qualified_id agent (hb_file_name e) of
         None \<Rightarrow> count_entries ch agent prefix takeover stale now c rest
       | Some q \<Rightarrow> bind_res (hb_content e) (\<lambda>h.
           if nh_qualified_id h \<noteq> agent @ ''-'' @ nh_worker_id h \<or> nh_qualified_id h \<noteq> q
              \<or> \<not> heartbeat_fresh ch stale now (nh_last h)
           then count_entries ch agent prefix takeover stale now c rest
           else bind_res (bump_bucket (heartbeat_bucket prefix takeover (nh_worker_id h)) c)
             (\<lambda>c. count_entries ch agent prefix takeover stale now c rest))))"

definition count_needle_heartbeats ::
  "chrono \<Rightarrow> heartbeat_entry listing \<Rightarrow> string \<Rightarrow> string option \<Rightarrow> string list \<Rightarrow> nat \<Rightarrow> datetime
     \<Rightarrow> heartbeat_counts res" where
  "count_needle_heartbeats ch dir agent prefix takeover stale now =
     (if i64_max < stale then Inl (Bail ''needle_status stale_after_seconds exceeds the supported range'')
      else bind_res dir (\<lambda>entries. case entries of
        None \<Rightarrow> Inr no_heartbeats
      | Some es \<Rightarrow> count_entries ch agent prefix takeover stale now no_heartbeats es))"

text \<open>\<open>NeedleStatusObserver\<close>: the owned and the unowned workers it reports.\<close>

definition needle_observe ::
  "chrono \<Rightarrow> heartbeat_entry listing \<Rightarrow> string \<Rightarrow> string option \<Rightarrow> string list \<Rightarrow> nat \<Rightarrow> datetime \<Rightarrow> (nat \<times> nat) res" where
  "needle_observe ch dir agent prefix takeover stale now =
     bind_res (count_needle_heartbeats ch dir agent prefix takeover stale now) (\<lambda>c. Inr (hn_owned c, hn_unowned c))"

section \<open>Seeds\<close>

record seed_demand =
  sm_unavailable :: "string option"
  sm_ready :: "string list"

definition read_seed_demand :: "string \<Rightarrow> seed_demand res \<Rightarrow> string list res" where
  "read_seed_demand path doc = bind_res doc (\<lambda>d. case sm_unavailable d of
     Some reason \<Rightarrow> Inl (Bail (''seed demand state '' @ path @ '' is unavailable: '' @ reason))
   | None \<Rightarrow> Inr (sm_ready d))"

definition seedable_count :: "string list res \<Rightarrow> string list \<Rightarrow> nat res" where
  "seedable_count ready excluded =
     bind_res ready (\<lambda>r. Inr (min (length (filter (\<lambda>p. p \<notin> set excluded) r)) u32_max))"

record seed_heartbeat =
  se_workspace :: string
  se_last :: datetime

record occupancy_entry =
  oe_is_file :: "bool res"
  oe_extension :: "string option"
  oe_content :: "seed_heartbeat res"

definition seed_stale_after_seconds :: int where "seed_stale_after_seconds = 60"

fun occupancy_entries ::
  "chrono \<Rightarrow> datetime \<Rightarrow> (string, nat) bmap \<Rightarrow> occupancy_entry res list \<Rightarrow> (string, nat) bmap res" where
  "occupancy_entries ch now m [] = Inr m"
| "occupancy_entries ch now m (entry # rest) =
     bind_res entry (\<lambda>e. bind_res (oe_is_file e) (\<lambda>file.
       if \<not> file \<or> oe_extension e \<noteq> Some ''json'' then occupancy_entries ch now m rest
       else bind_res (oe_content e) (\<lambda>h.
         let age = num_seconds ch (now - se_last h)
         in occupancy_entries ch now (if 0 \<le> age \<and> age < seed_stale_after_seconds
              then bm_entry 0 (se_workspace h) Suc m else m) rest)))"

definition seed_occupancy :: "chrono \<Rightarrow> occupancy_entry listing \<Rightarrow> datetime \<Rightarrow> (string, nat) bmap res" where
  "seed_occupancy ch dir now = bind_res dir (\<lambda>entries. case entries of
     None \<Rightarrow> Inr [] | Some es \<Rightarrow> occupancy_entries ch now [] es)"

text \<open>The ready workspaces with what is left of each, and the running workers, picks included.\<close>

definition ready_counts :: "string list \<Rightarrow> (string, nat) bmap" where
  "ready_counts ready = foldl (\<lambda>m r. bm_entry 0 r Suc m) [] ready"

text \<open>Paths compare by components: the root, a leading \<open>.\<close>, \<open>..\<close>, then names; empty parts and inner
  \<open>.\<close> are no components. As keys of the maps two paths are equal here only as texts, so routes are
  taken to be written without redundant separators.\<close>

definition path_key :: "string \<Rightarrow> (nat \<times> string) list" where
  "path_key path = (let parts = split_on (CHR ''/'') path in
     (if starts_with ''/'' path then [(0, [])] else if hd parts = ''.'' then [(1, [])] else [])
     @ map (\<lambda>p. if p = ''..'' then (2, []) else (3, p)) (filter (\<lambda>p. p \<noteq> [] \<and> p \<noteq> ''.'') parts))"

definition next_seed :: "(string, nat) bmap \<Rightarrow> (string, nat) bmap \<Rightarrow> string option" where
  "next_seed remaining occupancy =
     min_by_key (\<lambda>r. (unwrap_or 0 (bm_get occupancy r), path_key r)) (map fst (filter (\<lambda>(r, left). 0 < left) remaining))"

fun seed_picks :: "nat \<Rightarrow> (string, nat) bmap \<Rightarrow> (string, nat) bmap \<Rightarrow> string list" where
  "seed_picks 0 remaining occupancy = []"
| "seed_picks (Suc n) remaining occupancy = (case next_seed remaining occupancy of
     None \<Rightarrow> []
   | Some r \<Rightarrow> r # seed_picks n (bm_put r (unwrap_or 0 (bm_get remaining r) - 1) remaining)
       (bm_entry 0 r Suc occupancy))"

definition seed_order :: "string list \<Rightarrow> (string, nat) bmap \<Rightarrow> string list" where
  "seed_order ready running = seed_picks (length ready) (ready_counts ready) running"

section \<open>Programs\<close>

record program_output =
  out_success :: bool
  out_status :: string
  out_stdout :: string
  out_stderr :: string

text \<open>\<open>str::lines\<close>: newline ends a line, with a carriage return before it.\<close>

definition strip_cr :: "string \<Rightarrow> string" where
  "strip_cr l = unwrap_or l (strip_suffix [CHR 13] l)"

fun split_lines :: "string \<Rightarrow> string \<Rightarrow> string list" where
  "split_lines acc [] = (if acc = [] then [] else [acc])"
| "split_lines acc (c # s) = (if c = CHR 10 then strip_cr acc # split_lines [] s else split_lines (acc @ [c]) s)"

definition text_lines :: "string \<Rightarrow> string list" where
  "text_lines s = split_lines [] s"

text \<open>The first token of \<open>split_whitespace\<close>.\<close>

fun token_end :: "string \<Rightarrow> string" where
  "token_end [] = []"
| "token_end (c # s) = (if 0 < ws_len (c # s) then [] else c # token_end s)"

definition first_token :: "string \<Rightarrow> string option" where
  "first_token s = opt_filter (\<lambda>t. t \<noteq> []) (Some (token_end (trim_start s)))"

definition parse_i32 :: "string \<Rightarrow> int option" where
  "parse_i32 s = (case strip_prefix ''-'' s of
     Some d \<Rightarrow> if d \<noteq> [] \<and> list_all is_digit d \<and> digits_value d \<le> 2147483648 then Some (- int (digits_value d)) else None
   | None \<Rightarrow> map_option int (opt_filter (\<lambda>n. n \<le> 2147483647) (parse_u64 s)))"

definition find_map :: "('a \<Rightarrow> 'b option) \<Rightarrow> 'a list \<Rightarrow> 'b option" where
  "find_map f xs = (case List.map_filter f xs of [] \<Rightarrow> None | y # ys \<Rightarrow> Some y)"

definition report_field :: "string \<Rightarrow> string \<Rightarrow> string option" where
  "report_field label text = find_map (\<lambda>l. map_option trim (strip_prefix label (trim l))) (text_lines text)"

fun dec_int :: "int \<Rightarrow> string" where
  "dec_int i = (if i < 0 then CHR ''-'' # dec (nat (- i)) else dec (nat i))"

definition check_needle_adapter :: "string \<Rightarrow> program_output res \<Rightarrow> unit res" where
  "check_needle_adapter adapter captured =
     bind_res (with_context (''failed to check NEEDLE adapter '' @ adapter) captured) (\<lambda>out.
       if \<not> out_success out then Inl (Bail (''NEEDLE adapter '' @ adapter @ '' check exited with '' @ out_status out
         @ (if trim (out_stderr out) = [] then [] else '': '' @ trim (out_stderr out))))
       else let status = report_field ''Status:'' (out_stdout out) in
         if status \<noteq> Some ''READY'' then Inl (Bail (''NEEDLE adapter '' @ adapter
           @ '' is not ready (test-agent status: '' @ unwrap_or ''missing'' status @ '')''))
         else case Option.bind (Option.bind (Option.bind (report_field ''Probe:'' (out_stdout out))
             (strip_prefix ''exit '')) first_token) parse_i32 of
           None \<Rightarrow> Inl (Bail (''NEEDLE adapter '' @ adapter @ '' did not report a probe exit code''))
         | Some code \<Rightarrow> if code = 0 then Inr ()
             else Inl (Bail (''NEEDLE adapter '' @ adapter @ '' probe exited with '' @ dec_int code)))"

section \<open>Sessions\<close>

record tmux_session =
  tx_name :: string
  tx_attached :: bool

definition session_prefix :: "string \<Rightarrow> string" where
  "session_prefix adapter = ''needle-'' @ map (\<lambda>c. if c = CHR ''.'' then CHR ''_'' else c) adapter @ ''-''"

text \<open>The messages of malformed rows quote the row with \<open>Debug\<close>; here the row stands as it is.\<close>

definition parse_session :: "string \<Rightarrow> tmux_session res" where
  "parse_session line = (case split_once [CHR 9] line of
     None \<Rightarrow> Inl (Bail (''malformed tmux session row '' @ line))
   | Some (name, attached) \<Rightarrow>
       bind_res (if attached = ''0'' then Inr False else if attached = ''1'' then Inr True
           else Inl (Bail (''invalid tmux attached flag '' @ attached @ '' for session '' @ name)))
         (\<lambda>flag. if name = [] then Inl (Bail ''tmux returned a session with an empty name'')
            else Inr \<lparr> tx_name = name, tx_attached = flag \<rparr>))"

definition parse_sessions :: "string \<Rightarrow> tmux_session list res" where
  "parse_sessions text = collect_res parse_session (text_lines text)"

definition list_sessions :: "program_output res \<Rightarrow> tmux_session list res" where
  "list_sessions captured =
     bind_res (with_context ''failed to list tmux sessions using tmux'' captured) (\<lambda>out.
       if \<not> out_success out then
         (let lower = to_ascii_lower (out_stderr out) in
          if contains_str ''no server running'' lower \<or> contains_str ''failed to connect to server'' lower
             \<or> contains_str ''error connecting to'' lower then Inr []
          else Inl (Bail (''tmux list-sessions exited with '' @ out_status out @ '': '' @ trim (out_stderr out))))
       else parse_sessions (out_stdout out))"

definition session_matches :: "string \<Rightarrow> string option \<Rightarrow> tmux_session \<Rightarrow> bool" where
  "session_matches adapter prefix s = (case prefix of
     Some p \<Rightarrow> is_some_and (matches_worker_prefix p) (strip_prefix (session_prefix adapter) (tx_name s))
   | None \<Rightarrow> starts_with (session_prefix adapter) (tx_name s))"

definition stop_ambiguous :: "tmux_session list \<Rightarrow> tmux_session \<Rightarrow> bool" where
  "stop_ambiguous sessions s = list_ex (\<lambda>other. tx_name other \<noteq> tx_name s
     \<and> starts_with ''needle-'' (tx_name other) \<and> contains_str (tx_name s) (tx_name other)) sessions"

definition stop_candidates :: "tmux_session list \<Rightarrow> tmux_session list \<Rightarrow> nat \<Rightarrow> tmux_session list res" where
  "stop_candidates matching sessions n =
     (let detached = filter (\<lambda>s. \<not> tx_attached s) matching in
      if length detached < n then Inl (Bail (''cannot stop '' @ dec n @ '' NEEDLE workers: only ''
        @ dec (length detached) @ '' matching sessions are detached''))
      else case find (stop_ambiguous sessions) (take n detached) of
        Some s \<Rightarrow> Inl (Bail (''cannot stop NEEDLE session '' @ tx_name s
          @ '' by identifier because another session contains its name''))
      | None \<Rightarrow> Inr (take n detached))"

section \<open>Reconciliation\<close>

definition needle_run_args :: "string \<Rightarrow> string \<Rightarrow> nat \<Rightarrow> string list" where
  "needle_run_args repo adapter n = [''run'', ''-w'', repo, ''-a'', adapter]
     @ (if 1 < n then [''-c'', dec n] else [])"

text \<open>The first free number from \<open>k\<close> on; among one more number than there are sessions one is free.\<close>

fun free_number :: "nat \<Rightarrow> (nat \<Rightarrow> string) \<Rightarrow> string set \<Rightarrow> nat \<Rightarrow> nat" where
  "free_number 0 session taken k = k"
| "free_number (Suc fuel) session taken k =
     (if session k \<in> taken then free_number fuel session taken (k + 1) else k)"

type_synonym run_command = "nat \<Rightarrow> string list \<Rightarrow> unit res"

text \<open>The commands of a batch are issued in order until one fails.\<close>

fun run_batch :: "run_command \<Rightarrow> nat \<Rightarrow> string list list \<Rightarrow> string list list \<times> unit res" where
  "run_batch run i [] = ([], Inr ())"
| "run_batch run i (c # cs) = (case run i c of
     Inl e \<Rightarrow> ([c], Inl e)
   | Inr _ \<Rightarrow> (case run_batch run (i + 1) cs of (issued, r) \<Rightarrow> (c # issued, r)))"

text \<open>The launch commands: one per worker, with an identifier of its own when the pool has a prefix.\<close>

fun launch_commands ::
  "string \<Rightarrow> string option \<Rightarrow> string list \<Rightarrow> nat \<Rightarrow> string list \<Rightarrow> string list list" where
  "launch_commands adapter prefix taken k [] = []"
| "launch_commands adapter prefix taken k (route # routes) =
     (case prefix of
        None \<Rightarrow> needle_run_args route adapter 1 # launch_commands adapter prefix taken k routes
      | Some p \<Rightarrow>
          let session = (\<lambda>n. session_prefix adapter @ p @ dec n);
              n = free_number (length taken) session (set taken) k
          in (needle_run_args route adapter 1 @ [''--identifier'', p @ dec n])
             # launch_commands adapter prefix (taken @ [session n]) (n + 1) routes)"

text \<open>The seed sources: the path and content of the demand state and the occupancy of the workspaces.\<close>

record seed_sources =
  so_path :: string
  so_demand :: "seed_demand res"
  so_occupancy :: "(string, nat) bmap res"

definition launch_routes :: "seed_sources option \<Rightarrow> string \<Rightarrow> string list \<Rightarrow> nat \<Rightarrow> string list res" where
  "launch_routes seeds repo excluded delta = (case seeds of
     None \<Rightarrow> Inr (replicate delta repo)
   | Some so \<Rightarrow> bind_res (read_seed_demand (so_path so) (so_demand so)) (\<lambda>ready.
       bind_res (so_occupancy so) (\<lambda>occupancy.
         Inr (take delta (seed_order (filter (\<lambda>p. p \<notin> set excluded) ready) occupancy)))))"

definition reconcile_commands ::
  "tmux_session list \<Rightarrow> string \<Rightarrow> string \<Rightarrow> string option \<Rightarrow> seed_sources option \<Rightarrow> nat \<Rightarrow> string list
     \<Rightarrow> string list list res" where
  "reconcile_commands sessions repo adapter prefix seeds desired excluded =
     (let matching = sort_key tx_name (filter (session_matches adapter prefix) sessions);
          running = wrap32 (length matching)
      in if desired = running then Inr []
         else if running < desired then
           (let delta = desired - running
            in if seeds = None \<and> repo \<in> set excluded then Inr []
               else if prefix = None \<and> seeds = None then Inr [needle_run_args repo adapter delta]
               else bind_res (launch_routes seeds repo excluded delta) (\<lambda>routes.
                 Inr (launch_commands adapter prefix (map tx_name sessions) 1 routes)))
         else bind_res (stop_candidates matching sessions (running - desired)) (\<lambda>selected.
           Inr (map (\<lambda>s. [''stop'', ''--identifier'', tx_name s]) selected)))"

definition reconcile_needle_workers ::
  "run_command \<Rightarrow> program_output res \<Rightarrow> program_output res \<Rightarrow> string \<Rightarrow> string \<Rightarrow> string option \<Rightarrow> seed_sources option
     \<Rightarrow> nat \<Rightarrow> string list \<Rightarrow> string list list \<times> unit res" where
  "reconcile_needle_workers run test_agent tmux repo adapter prefix seeds desired excluded =
     (case bind_res (check_needle_adapter adapter test_agent) (\<lambda>_.
           bind_res (list_sessions tmux) (\<lambda>sessions.
           reconcile_commands sessions repo adapter prefix seeds desired excluded)) of
        Inl e \<Rightarrow> ([], Inl e)
      | Inr commands \<Rightarrow> run_batch run 0 commands)"

end
