(* ===== verification/Fleet_Laws.thy ===== *)
theory Fleet_Laws
  imports Needle Record_Text
begin

text \<open>
  Laws of the fleet layer: seeds are a fair permutation of the ready work, launched workers have names of
  their own, stopped workers are detached and unambiguous, heartbeats fall into one bucket each, and an
  actuation invokes what it may and nothing else.
\<close>

section \<open>Seeds\<close>

definition left_of :: "(string, nat) bmap \<Rightarrow> string \<Rightarrow> nat" where
  "left_of m r = unwrap_or 0 (bm_get m r)"

lemma left_of_put: "left_of (bm_put r v m) q = (if q = r then v else left_of m q)"
  by (simp add: left_of_def bm_get_put)

lemma left_of_entry: "left_of (bm_entry 0 r Suc m) q = left_of m q + (if q = r then 1 else 0)"
  by (simp add: left_of_def bm_get_entry)

lemma ready_counts_get: "left_of (ready_counts ready) r = count_list ready r"
proof -
  have "left_of (foldl (\<lambda>m r. bm_entry 0 r Suc m) m ready) r = left_of m r + count_list ready r" for m
    by (induction ready arbitrary: m) (auto simp: left_of_entry)
  then show ?thesis by (simp add: ready_counts_def left_of_def bm_get_def)
qed

lemma ready_counts_ok: "bm_ok (ready_counts ready)"
proof -
  have "bm_ok m \<Longrightarrow> bm_ok (foldl (\<lambda>m r. bm_entry 0 r Suc m) m ready)" for m
    by (induction ready arbitrary: m) (auto simp: bm_ok_entry)
  then show ?thesis by (simp add: ready_counts_def bm_ok_def)
qed

lemma next_seed_None: "bm_ok m \<Longrightarrow> next_seed m oc = None \<longleftrightarrow> (\<forall>r. left_of m r = 0)"
  by (auto simp: next_seed_def filter_empty_conv left_of_def unwrap_or_def bm_get_Some_iff split: option.splits)

lemma next_seed_Some:
  assumes "bm_ok m" "next_seed m oc = Some r"
  shows "0 < left_of m r" "0 < left_of m q \<Longrightarrow> left_of oc r \<le> left_of oc q"
proof -
  let ?rs = "map fst (filter (\<lambda>(r, left). 0 < left) m)"
  have mem: "q \<in> set ?rs \<longleftrightarrow> 0 < left_of m q" for q
    using assms(1) bm_get_Some_iff [OF assms(1), of q]
    by (cases "bm_get m q") (force simp: left_of_def)+
  have min: "r \<in> set ?rs \<and> (\<forall>y \<in> set ?rs. (left_of oc r, path_key r) \<le> (left_of oc y, path_key y))"
    unfolding left_of_def by (rule min_by_key_Some [OF assms(2) [unfolded next_seed_def]])
  then show "0 < left_of m r" using mem by blast
  show "0 < left_of m q \<Longrightarrow> left_of oc r \<le> left_of oc q"
  proof -
    assume "0 < left_of m q"
    then have "(left_of oc r, path_key r) \<le> (left_of oc q, path_key q)" using min mem by blast
    then show ?thesis by auto
  qed
qed

declare seed_picks.simps(2) [simp del]

lemma seed_picks_props:
  assumes "bm_ok m" "finite S" "\<forall>r. r \<notin> S \<longrightarrow> left_of m r = 0" "(\<Sum>r\<in>S. left_of m r) = n"
  shows "length (seed_picks n m oc) = n \<and> (\<forall>r. count_list (seed_picks n m oc) r = left_of m r)
    \<and> (\<forall>k < n. \<forall>r. count_list (take k (seed_picks n m oc)) r < left_of m r \<longrightarrow>
        left_of oc (seed_picks n m oc ! k) + count_list (take k (seed_picks n m oc)) (seed_picks n m oc ! k)
          \<le> left_of oc r + count_list (take k (seed_picks n m oc)) r)"
  using assms
proof (induction n arbitrary: m oc)
  case 0
  then show ?case by auto
next
  case (Suc n)
  have "\<not> (\<forall>r. left_of m r = 0)"
  proof
    assume "\<forall>r. left_of m r = 0"
    then have "(\<Sum>r\<in>S. left_of m r) = 0" by simp
    then show False using Suc.prems(4) by simp
  qed
  then obtain q where q: "next_seed m oc = Some q"
    using next_seed_None [OF Suc.prems(1), of oc] by (cases "next_seed m oc") auto
  note best = next_seed_Some [OF Suc.prems(1) q]
  let ?m = "bm_put q (left_of m q - 1) m" and ?oc = "bm_entry 0 q Suc oc"
  have s: "seed_picks (Suc n) m oc = q # seed_picks n ?m ?oc"
    by (simp add: seed_picks.simps(2) q left_of_def)
  have qS: "q \<in> S" using Suc.prems(3) best(1) by force
  have "(\<Sum>r\<in>S. left_of ?m r) = (\<Sum>r\<in>S - {q}. left_of m r) + (left_of m q - 1)"
    using qS Suc.prems(2) by (subst sum.remove [OF _ qS]) (auto simp: left_of_put intro!: sum.cong)
  moreover have "(\<Sum>r\<in>S. left_of m r) = (\<Sum>r\<in>S - {q}. left_of m r) + left_of m q"
    using qS Suc.prems(2) by (subst sum.remove [OF _ qS]) auto
  ultimately have sum: "(\<Sum>r\<in>S. left_of ?m r) = n" using Suc.prems(4) best(1) by linarith
  have out: "\<forall>r. r \<notin> S \<longrightarrow> left_of ?m r = 0" using Suc.prems(3) qS by (auto simp: left_of_put)
  note IH = Suc.IH [OF bm_ok_put [OF Suc.prems(1)] Suc.prems(2) out sum, of ?oc]
  have fair: "left_of oc (seed_picks (Suc n) m oc ! k) + count_list (take k (seed_picks (Suc n) m oc)) (seed_picks (Suc n) m oc ! k)
          \<le> left_of oc r + count_list (take k (seed_picks (Suc n) m oc)) r"
    if k: "k < Suc n" and r: "count_list (take k (seed_picks (Suc n) m oc)) r < left_of m r" for k r
  proof (cases k)
    case 0
    then show ?thesis using r best(2) by (simp add: s)
  next
    case (Suc j)
    let ?s = "seed_picks n ?m ?oc"
    have "count_list (take j ?s) r < left_of ?m r"
      using r Suc by (auto simp: s left_of_put split: if_splits)
    then have "left_of ?oc (?s ! j) + count_list (take j ?s) (?s ! j) \<le> left_of ?oc r + count_list (take j ?s) r"
      using IH k Suc by simp
    then show ?thesis using Suc by (auto simp: s left_of_entry split: if_splits)
  qed
  have "count_list (seed_picks (Suc n) m oc) r = left_of m r" for r
    using IH best(1) by (auto simp: s left_of_put)
  then show ?case using IH fair by (simp add: s)
qed

lemma seed_order_props:
  shows "mset (seed_order ready running) = mset ready"
    "k < length ready \<Longrightarrow> count_list (take k (seed_order ready running)) r < count_list ready r \<Longrightarrow>
      left_of running (seed_order ready running ! k)
        + count_list (take k (seed_order ready running)) (seed_order ready running ! k)
        \<le> left_of running r + count_list (take k (seed_order ready running)) r"
proof -
  have out: "\<forall>r. r \<notin> set ready \<longrightarrow> left_of (ready_counts ready) r = 0"
    by (simp add: ready_counts_get count_list_0_iff)
  have sum: "(\<Sum>r\<in>set ready. left_of (ready_counts ready) r) = length ready"
    by (simp add: ready_counts_get sum_count_set)
  note p = seed_picks_props [OF ready_counts_ok finite_set out sum, of running, folded seed_order_def]
  show "mset (seed_order ready running) = mset ready"
    using p by (intro multiset_eqI) (simp add: count_mset ready_counts_get count_list_eq_length_filter [symmetric])
  show "k < length ready \<Longrightarrow> count_list (take k (seed_order ready running)) r < count_list ready r \<Longrightarrow>
      left_of running (seed_order ready running ! k)
        + count_list (take k (seed_order ready running)) (seed_order ready running ! k)
        \<le> left_of running r + count_list (take k (seed_order ready running)) r"
    using p by (simp add: ready_counts_get)
qed

section \<open>Launches\<close>

lemma dec_inj [simp]: "dec m = dec n \<longleftrightarrow> m = n"
  by (metis digits_value_dec)

lemma free_number_free:
  assumes "inj session" "finite T" "card (T \<inter> session ` {k..}) \<le> fuel"
  shows "session (free_number fuel session T k) \<notin> T \<and> k \<le> free_number fuel session T k"
  using assms(3)
proof (induction fuel arbitrary: k)
  case 0
  then have "T \<inter> session ` {k..} = {}" using assms(2) by simp
  then show ?case by auto
next
  case (Suc fuel)
  show ?case
  proof (cases "session k \<in> T")
    case True
    have "T \<inter> session ` {k + 1..} \<subseteq> T \<inter> session ` {k..} - {session k}"
      using assms(1) by (auto simp: inj_eq)
    then have "card (T \<inter> session ` {k + 1..}) \<le> card (T \<inter> session ` {k..} - {session k})"
      using assms(2) by (intro card_mono) auto
    moreover have "card (T \<inter> session ` {k..} - {session k}) = card (T \<inter> session ` {k..}) - 1"
      using assms(2) True by (intro card_Diff_singleton) auto
    ultimately have "card (T \<inter> session ` {k + 1..}) \<le> fuel" using Suc.prems by linarith
    then show ?thesis using Suc.IH [of "k + 1"] True by auto
  qed simp
qed

lemma free_number_names:
  assumes "inj session"
  shows "session (free_number (length taken) session (set taken) k) \<notin> set taken"
    "k \<le> free_number (length taken) session (set taken) k"
proof -
  have "card (set taken \<inter> session ` {k..}) \<le> length taken"
    by (meson card_length card_mono dual_order.trans finite_set inf_le1)
  then show "session (free_number (length taken) session (set taken) k) \<notin> set taken"
    "k \<le> free_number (length taken) session (set taken) k"
    using free_number_free [OF assms] by blast+
qed

definition launch_one :: "string \<Rightarrow> string \<Rightarrow> string \<Rightarrow> nat \<Rightarrow> string list" where
  "launch_one adapter p route n = needle_run_args route adapter 1 @ [''--identifier'', p @ dec n]"

lemma launch_commands_names:
  shows "\<exists>ns. length ns = length routes \<and> sorted_wrt (<) ns \<and> (\<forall>n \<in> set ns. k \<le> n)
    \<and> (\<forall>n \<in> set ns. session_prefix adapter @ p @ dec n \<notin> set taken)
    \<and> launch_commands adapter (Some p) taken k routes = map2 (launch_one adapter p) routes ns"
proof (induction routes arbitrary: taken k)
  case (Cons route routes)
  let ?session = "\<lambda>n. session_prefix adapter @ p @ dec n"
  let ?n = "free_number (length taken) ?session (set taken) k"
  have inj: "inj ?session" by (simp add: inj_def)
  obtain ns where ns: "length ns = length routes" "sorted_wrt (<) ns" "\<forall>n \<in> set ns. ?n + 1 \<le> n"
      "\<forall>n \<in> set ns. ?session n \<notin> set (taken @ [?session ?n])"
      "launch_commands adapter (Some p) (taken @ [?session ?n]) (?n + 1) routes = map2 (launch_one adapter p) routes ns"
    using Cons.IH [of "?n + 1" "taken @ [?session ?n]"] by blast
  have "launch_commands adapter (Some p) taken k (route # routes) = map2 (launch_one adapter p) (route # routes) (?n # ns)"
    using ns(5) by (simp add: launch_one_def Let_def)
  moreover have "\<forall>n \<in> set (?n # ns). k \<le> n" using free_number_names(2) [OF inj, of k taken] ns(3) by force
  moreover have "\<forall>n \<in> set (?n # ns). ?session n \<notin> set taken" using free_number_names(1) [OF inj] ns(4) by auto
  moreover have "sorted_wrt (<) (?n # ns)" using ns(2,3) by auto
  ultimately show ?case using ns(1) by (intro exI [of _ "?n # ns"]) simp
qed simp

lemma launch_routes_seeded:
  assumes "launch_routes (Some so) repo excluded delta = Inr routes" "so_demand so = Inr d"
  shows "length routes \<le> delta \<and> (\<forall>r. count_list routes r \<le> count_list (sm_ready d) r)
    \<and> set routes \<inter> set excluded = {}"
proof -
  obtain oc where r: "sm_unavailable d = None"
      "routes = take delta (seed_order (filter (\<lambda>p. p \<notin> set excluded) (sm_ready d)) oc)"
    using assms by (auto simp: launch_routes_def read_seed_demand_def bind_res_Inr_iff split: option.splits)
  let ?f = "filter (\<lambda>p. p \<notin> set excluded) (sm_ready d)"
  have m: "mset (seed_order ?f oc) = mset ?f" by (rule seed_order_props(1))
  have "count_list (take delta (seed_order ?f oc)) r \<le> count_list (seed_order ?f oc) r" for r
    by (metis append_take_drop_id count_list_append le_add1)
  moreover have "count_list (seed_order ?f oc) r = count_list ?f r" for r
    using m by (metis count_mset count_list_eq_length_filter)
  moreover have "count_list (filter q xs) r \<le> count_list xs r" for q :: "string \<Rightarrow> bool" and xs r
    by (induction xs) auto
  moreover have "set (seed_order ?f oc) = set ?f" using mset_eq_setD [OF m] .
  ultimately have "count_list routes r \<le> count_list (sm_ready d) r" and "set routes \<subseteq> set ?f" for r
    using r(2) set_take_subset [of delta "seed_order ?f oc"] le_trans by metis+
  then show ?thesis using r(2) by auto
qed

section \<open>Stops\<close>

lemma find_None_iff': "find p xs = None \<longleftrightarrow> (\<forall>x \<in> set xs. \<not> p x)"
  by (induction xs) auto

lemma stop_candidates_Inr:
  assumes "stop_candidates matching sessions n = Inr sel"
  shows "length sel = n \<and> set sel \<subseteq> {s \<in> set matching. \<not> tx_attached s}
    \<and> (\<forall>s \<in> set sel. \<not> stop_ambiguous sessions s)"
proof -
  have s: "sel = take n (filter (\<lambda>s. \<not> tx_attached s) matching)"
      "n \<le> length (filter (\<lambda>s. \<not> tx_attached s) matching)"
      "find (stop_ambiguous sessions) sel = None"
    using assms by (auto simp: stop_candidates_def Let_def split: if_splits option.splits)
  then show ?thesis using set_take_subset [of n "filter (\<lambda>s. \<not> tx_attached s) matching"]
    by (auto simp: find_None_iff')
qed

section \<open>Heartbeats\<close>

text \<open>The heartbeats that count: readable regular files of the agent whose content is consistent and fresh.\<close>

definition counted_worker ::
  "chrono \<Rightarrow> string \<Rightarrow> nat \<Rightarrow> datetime \<Rightarrow> heartbeat_entry res \<Rightarrow> string option" where
  "counted_worker ch agent stale now entry = (case entry of
     Inl e \<Rightarrow> None
   | Inr e \<Rightarrow> (case (hb_is_file e, agent_qualified_id agent (hb_file_name e), hb_content e) of
       (Inr True, Some q, Inr h) \<Rightarrow>
         if nh_qualified_id h = agent @ ''-'' @ nh_worker_id h \<and> nh_qualified_id h = q
            \<and> heartbeat_fresh ch stale now (nh_last h) then Some (nh_worker_id h) else None
     | _ \<Rightarrow> None))"

definition workers_in ::
  "chrono \<Rightarrow> string \<Rightarrow> nat \<Rightarrow> datetime \<Rightarrow> (bucket \<Rightarrow> bool) \<Rightarrow> string option \<Rightarrow> string list \<Rightarrow> heartbeat_entry res list \<Rightarrow> nat" where
  "workers_in ch agent stale now b prefix takeover es =
     length (filter (\<lambda>w. b (heartbeat_bucket prefix takeover w)) (List.map_filter (counted_worker ch agent stale now) es))"

lemma count_entries_Inr:
  assumes "count_entries ch agent prefix takeover stale now c es = Inr c'"
  shows "hn_owned c' = hn_owned c + workers_in ch agent stale now (\<lambda>b. b = Owned) prefix takeover es
    \<and> hn_takeover c' = hn_takeover c + workers_in ch agent stale now (\<lambda>b. b = Takeover) prefix takeover es
    \<and> hn_unowned c' = hn_unowned c + workers_in ch agent stale now (\<lambda>b. b = Unowned) prefix takeover es"
  using assms
proof (induction es arbitrary: c)
  case (Cons entry rest)
  obtain e reg where e: "entry = Inr e" "hb_is_file e = Inr reg"
    using Cons.prems by (auto simp: bind_res_Inr_iff)
  have skip: "workers_in ch agent stale now b prefix takeover (entry # rest) = workers_in ch agent stale now b prefix takeover rest"
    if "counted_worker ch agent stale now entry = None" for b
    using that by (simp add: workers_in_def List.map_filter_simps)
  show ?case
  proof (cases "reg \<and> agent_qualified_id agent (hb_file_name e) \<noteq> None")
    case False
    then have "counted_worker ch agent stale now entry = None"
      using e by (auto simp: counted_worker_def split: option.splits sum.splits bool.splits)
    then show ?thesis using Cons e False skip by (auto simp: bind_res_Inr_iff split: if_splits option.splits)
  next
    case True
    then obtain q where q: "reg" "agent_qualified_id agent (hb_file_name e) = Some q" by auto
    then obtain h where h: "hb_content e = Inr h" using Cons.prems e by (auto simp: bind_res_Inr_iff)
    show ?thesis
    proof (cases "counted_worker ch agent stale now entry")
      case None
      then show ?thesis using Cons e q h skip
        by (auto simp: counted_worker_def bind_res_Inr_iff split: if_splits)
    next
      case (Some w)
      then have w: "w = nh_worker_id h" "nh_qualified_id h = agent @ ''-'' @ nh_worker_id h"
          "nh_qualified_id h = q" "heartbeat_fresh ch stale now (nh_last h)"
        using e q h by (auto simp: counted_worker_def split: if_splits)
      obtain c1 where c1: "bump_bucket (heartbeat_bucket prefix takeover w) c = Inr c1"
          "count_entries ch agent prefix takeover stale now c1 rest = Inr c'"
        using Cons.prems e q h w by (auto simp: bind_res_Inr_iff)
      note IH = Cons.IH [OF c1(2)]
      have add: "workers_in ch agent stale now b prefix takeover (entry # rest) =
          (if b (heartbeat_bucket prefix takeover w) then 1 else 0) + workers_in ch agent stale now b prefix takeover rest" for b
        using Some by (simp add: workers_in_def List.map_filter_simps)
      show ?thesis using IH q(1) w c1(1) unfolding add
        by (cases "heartbeat_bucket prefix takeover w") (auto simp: bump_bucket_def Let_def split: if_splits)
    qed
  qed
qed (simp add: workers_in_def)

lemma count_entries_readable:
  assumes "count_entries ch agent prefix takeover stale now c es = Inr c'" "entry \<in> set es"
  shows "\<exists>e reg. entry = Inr e \<and> hb_is_file e = Inr reg
    \<and> (reg \<and> agent_qualified_id agent (hb_file_name e) \<noteq> None \<longrightarrow> (\<exists>h. hb_content e = Inr h))"
  using assms
proof (induction es arbitrary: c)
  case (Cons x rest)
  obtain e reg where e: "x = Inr e" "hb_is_file e = Inr reg"
    using Cons.prems(1) by (auto simp: bind_res_Inr_iff)
  have "(reg \<and> agent_qualified_id agent (hb_file_name e) \<noteq> None \<longrightarrow> (\<exists>h. hb_content e = Inr h))
      \<and> (\<exists>c1. count_entries ch agent prefix takeover stale now c1 rest = Inr c')"
    using Cons.prems(1) e by (auto simp: bind_res_Inr_iff split: if_splits option.splits)
  then show ?case using Cons.IH Cons.prems(2) e by auto
qed simp

section \<open>Actuation\<close>

lemma acts_simps [simp]:
  "acts_bind (acts_return (Inr x)) f = f x" "acts_bind (acts_return (Inl e)) f = acts_return (Inl e)"
  "fst (acts_return r) = []" "snd (acts_return r) = r"
  by (simp_all add: acts_bind_def acts_return_def split: prod.splits)

lemma acts_bind_fst: "fst (acts_bind m f) = fst m @ (case snd m of Inl e \<Rightarrow> [] | Inr x \<Rightarrow> fst (f x))"
  by (auto simp: acts_bind_def split: prod.splits sum.splits)

definition applies_nothing :: "actuator_config \<Rightarrow> nat \<Rightarrow> nat \<Rightarrow> bool" where
  "applies_nothing ac observed desired = (desired = observed \<and> \<not> reconcile_unchanged ac \<or> ac = ActNone)"

lemma actuate_config_acts:
  "fst (actuate_config_with_exclusions io ac observed desired excluded) =
     (if applies_nothing ac observed desired then [] else [Invoke ac desired excluded])"
  "applies_nothing ac observed desired \<Longrightarrow>
     snd (actuate_config_with_exclusions io ac observed desired excluded) = Inr \<lparr> ao_actuated = False, ao_observed = None \<rparr>"
  "\<not> applies_nothing ac observed desired \<Longrightarrow>
     snd (actuate_config_with_exclusions io ac observed desired excluded) =
       bind_res (io_actuate io ac desired excluded) (\<lambda>_. Inr \<lparr> ao_actuated = True, ao_observed = None \<rparr>)"
  by (auto simp: actuate_config_with_exclusions_def applies_nothing_def)

lemma index_placements_Inr:
  assumes "index_placements hosts m ps = Inr m'"
  shows "(\<forall>p \<in> set ps. bm_get hosts (hp_host_id p) \<noteq> None) \<and> distinct (map hp_host_id ps)
    \<and> (\<forall>p \<in> set ps. bm_get m (hp_host_id p) = None)
    \<and> (\<forall>h. bm_get m' h = (case map_of (map (\<lambda>p. (hp_host_id p, p)) ps) h of Some p \<Rightarrow> Some p | None \<Rightarrow> bm_get m h))"
  using assms
proof (induction hosts m ps rule: index_placements.induct)
  case (2 hosts m p ps)
  then have n: "bm_get hosts (hp_host_id p) \<noteq> None" "bm_get m (hp_host_id p) = None"
      "index_placements hosts (bm_put (hp_host_id p) p m) ps = Inr m'"
    by (auto split: if_splits)
  note IH = "2.IH" [OF _ _ n(3)]
  have ih: "\<forall>p \<in> set ps. bm_get hosts (hp_host_id p) \<noteq> None" "distinct (map hp_host_id ps)"
      "\<forall>q \<in> set ps. bm_get (bm_put (hp_host_id p) p m) (hp_host_id q) = None"
      "\<forall>h. bm_get m' h = (case map_of (map (\<lambda>p. (hp_host_id p, p)) ps) h of Some q \<Rightarrow> Some q
         | None \<Rightarrow> bm_get (bm_put (hp_host_id p) p m) h)"
    using IH n by auto
  have new: "hp_host_id q \<noteq> hp_host_id p \<and> bm_get m (hp_host_id q) = None" if "q \<in> set ps" for q
    using ih(3) that by (auto simp: bm_get_put split: if_splits)
  then have out: "hp_host_id p \<notin> hp_host_id ` set ps" by force
  then have "map_of (map (\<lambda>p. (hp_host_id p, p)) ps) (hp_host_id p) = None"
    by (force simp: map_of_eq_None_iff)
  then have "bm_get m' h = (case map_of (map (\<lambda>p. (hp_host_id p, p)) (p # ps)) h of Some q \<Rightarrow> Some q | None \<Rightarrow> bm_get m h)" for h
    using ih(4) by (auto simp: bm_get_put split: option.splits)
  then show ?case using n(1,2) ih(1,2) new out by auto
qed simp

lemma with_context_Inr [simp]: "with_context msg r = Inr x \<longleftrightarrow> r = Inr x"
  by (auto simp: with_context_def split: sum.splits err.splits)

lemma actuate_host_acts:
  "fst (actuate_host io selected excluded m (host_id, h)) =
     (case bm_get m host_id of None \<Rightarrow> []
      | Some p \<Rightarrow> if is_some_and (\<lambda>s. s \<noteq> host_id) selected \<or> applies_nothing (hc_actuator h) (hp_current p) (hp_target p)
          then [] else [Invoke (hc_actuator h) (hp_target p) (if selected = None then [] else excluded)])"
  by (auto simp: actuate_host_def acts_bind_fst actuate_config_def actuate_config_acts
      split: option.splits sum.splits)

lemma actuate_hosts_acts:
  "\<exists>k. fst (actuate_hosts io selected excluded m hosts) =
     concat (map (\<lambda>e. fst (actuate_host io selected excluded m e)) (take k hosts))"
proof (induction hosts)
  case (Cons e hosts)
  then obtain k where k: "fst (actuate_hosts io selected excluded m hosts) =
     concat (map (\<lambda>e. fst (actuate_host io selected excluded m e)) (take k hosts))" by blast
  show ?case
  proof (cases "snd (actuate_host io selected excluded m e)")
    case (Inl err)
    then show ?thesis by (intro exI [of _ 1]) (simp add: acts_bind_fst)
  next
    case (Inr o1)
    then show ?thesis using k
      by (intro exI [of _ "Suc k"]) (simp add: acts_bind_fst split: sum.splits)
  qed
qed simp

lemma actuate_host_targets_acts:
  assumes "fst (actuate_host_targets_selected io a ps selected excluded) \<noteq> []"
  obtains hosts m k where "fl_hosts (ac_fleet a) = Some hosts" "index_placements hosts [] ps = Inr m"
    "missing_host hosts m = None"
    "fst (actuate_host_targets_selected io a ps selected excluded) =
       concat (map (\<lambda>e. fst (actuate_host io selected excluded m e)) (take k hosts))"
proof -
  obtain hosts where h: "configured_hosts a = Inr hosts"
    using assms by (cases "configured_hosts a") (auto simp: actuate_host_targets_selected_def)
  obtain m where m: "index_placements hosts [] ps = Inr m"
    using assms h by (cases "index_placements hosts [] ps") (auto simp: actuate_host_targets_selected_def)
  have n: "missing_host hosts m = None"
    using assms h m by (cases "missing_host hosts m") (auto simp: actuate_host_targets_selected_def)
  have "fl_hosts (ac_fleet a) = Some hosts"
    using h by (auto simp: configured_hosts_def opt_filter_Some split: option.splits)
  then show ?thesis using that h m n actuate_hosts_acts [of io selected excluded m hosts]
    by (auto simp: actuate_host_targets_selected_def)
qed

end
