(* ===== verification/Fleet_Properties.thy ===== *)
theory Fleet_Properties
  imports Fleet_Laws
begin

text \<open>
  The fleet layer: which workers are counted, where new ones are seeded, what is launched and stopped, and
  what a decision invokes.
\<close>

section \<open>Counting\<close>

text \<open>A successful count puts every fresh, consistent heartbeat of the agent into exactly one bucket: the
  workers of the pool's prefix, else the listed takeovers, else the unowned floor; the count does not depend
  on the order of the directory, and it is refused when any heartbeat of the agent cannot be read.\<close>

theorem heartbeats_fall_in_one_bucket:
  assumes "count_needle_heartbeats ch (Inr (Some es)) agent prefix takeover stale now = Inr c"
  shows "(\<forall>entry \<in> set es. \<exists>e reg. entry = Inr e \<and> hb_is_file e = Inr reg
      \<and> (reg \<and> agent_qualified_id agent (hb_file_name e) \<noteq> None \<longrightarrow> (\<exists>h. hb_content e = Inr h)))
    \<and> (let workers = mset (List.map_filter (counted_worker ch agent stale now) es)
       in hn_owned c = size {#w \<in># workers. is_none_or (\<lambda>p. matches_worker_prefix p w) prefix#}
        \<and> hn_takeover c = size {#w \<in># workers. \<not> is_none_or (\<lambda>p. matches_worker_prefix p w) prefix \<and> w \<in> set takeover#}
        \<and> hn_unowned c = size {#w \<in># workers. \<not> is_none_or (\<lambda>p. matches_worker_prefix p w) prefix \<and> w \<notin> set takeover#}
        \<and> hn_owned c + hn_takeover c + hn_unowned c = size workers)"
proof -
  have c: "count_entries ch agent prefix takeover stale now no_heartbeats es = Inr c"
    using assms by (simp add: count_needle_heartbeats_def split: if_splits)
  let ?ws = "List.map_filter (counted_worker ch agent stale now) es"
  have part: "length (filter p xs) + length (filter (\<lambda>x. \<not> p x \<and> q x) xs) + length (filter (\<lambda>x. \<not> p x \<and> \<not> q x) xs)
      = length xs" for p q and xs :: "string list" by (induction xs) auto
  have "heartbeat_bucket prefix takeover w = Owned \<longleftrightarrow> is_none_or (\<lambda>p. matches_worker_prefix p w) prefix"
    "heartbeat_bucket prefix takeover w = Takeover \<longleftrightarrow> \<not> is_none_or (\<lambda>p. matches_worker_prefix p w) prefix \<and> w \<in> set takeover"
    "heartbeat_bucket prefix takeover w = Unowned \<longleftrightarrow> \<not> is_none_or (\<lambda>p. matches_worker_prefix p w) prefix \<and> w \<notin> set takeover"
    for w by (auto simp: heartbeat_bucket_def)
  then show ?thesis
    using count_entries_Inr [OF c] count_entries_readable [OF c]
      part [where p = "\<lambda>w. is_none_or (\<lambda>p. matches_worker_prefix p w) prefix" and q = "\<lambda>w. w \<in> set takeover" and xs = ?ws]
    by (simp add: workers_in_def no_heartbeats_def Let_def flip: mset_filter)
qed

definition sample_heartbeat :: "string \<Rightarrow> heartbeat_entry res" where
  "sample_heartbeat w = Inr \<lparr> hb_is_file = Inr True, hb_file_name = Some (''a-'' @ w @ ''.json''),
     hb_content = Inr \<lparr> nh_qualified_id = ''a-'' @ w, nh_worker_id = w, nh_last = 0 \<rparr> \<rparr>"

theorem heartbeats_fall_in_one_bucket_witness:
  "\<exists>c. count_needle_heartbeats chrono_ref (Inr (Some (map sample_heartbeat [''p1'', ''x'', ''y'']))) ''a'' (Some ''p'') [''x''] 60 0
      = Inr c \<and> hn_owned c + hn_takeover c + hn_unowned c = 3"
proof -
  have q: "agent_qualified_id ''a'' (Some (''a-'' @ w @ ''.json'')) = Some (''a-'' @ w)" if "w \<noteq> []" for w
  proof -
    have "strip_suffix ''.json'' ((''a-'' @ w) @ ''.json'') = Some (''a-'' @ w)" unfolding strip_suffix_Some by simp
    then show ?thesis using that by (simp add: agent_qualified_id_def starts_with_def)
  qed
  have fresh: "heartbeat_fresh chrono_ref 60 0 0" by (simp add: heartbeat_fresh_def chrono_ref_def trunc_div_def)
  have b: "heartbeat_bucket (Some ''p'') [''x''] ''p1'' = Owned" "heartbeat_bucket (Some ''p'') [''x''] ''x'' = Takeover"
    "heartbeat_bucket (Some ''p'') [''x''] ''y'' = Unowned"
    by (simp_all add: heartbeat_bucket_def matches_worker_prefix_def strip_prefix_def starts_with_def is_digit_def byte_def)
  have "\<exists>c. count_needle_heartbeats chrono_ref (Inr (Some (map sample_heartbeat [''p1'', ''x'', ''y'']))) ''a'' (Some ''p'') [''x''] 60 0
      = Inr c"
    using q [of "''p1''"] q [of "''x''"] q [of "''y''"] fresh b
    by (simp add: count_needle_heartbeats_def sample_heartbeat_def bump_bucket_def no_heartbeats_def u32_max_def i64_max_def)
  then obtain c where c: "count_needle_heartbeats chrono_ref (Inr (Some (map sample_heartbeat [''p1'', ''x'', ''y''])))
      ''a'' (Some ''p'') [''x''] 60 0 = Inr c" by blast
  moreover have "List.map_filter (counted_worker chrono_ref ''a'' 60 0) (map sample_heartbeat [''p1'', ''x'', ''y'']) = [''p1'', ''x'', ''y'']"
    using q [of "''p1''"] q [of "''x''"] q [of "''y''"] fresh
    by (simp add: List.map_filter_simps counted_worker_def sample_heartbeat_def)
  ultimately show ?thesis using heartbeats_fall_in_one_bucket [OF c] by (simp add: Let_def)
qed

section \<open>Seeding\<close>

text \<open>C19: The seeds of a batch are the ready entries, each used as often as it is ready, in an order that
  balances: every pick goes to a workspace that has, among those with ready work left, the fewest workers,
  the running ones and the earlier picks of the batch together.\<close>

theorem seeds_are_balanced:
  "mset (seed_order ready running) = mset ready
   \<and> (\<forall>k < length ready. \<forall>r. count_list (take k (seed_order ready running)) r < count_list ready r \<longrightarrow>
        unwrap_or 0 (bm_get running (seed_order ready running ! k))
          + count_list (take k (seed_order ready running)) (seed_order ready running ! k)
        \<le> unwrap_or 0 (bm_get running r) + count_list (take k (seed_order ready running)) r)"
  using seed_order_props unfolding left_of_def by blast

theorem seeds_are_balanced_witness:
  "mset (seed_order [''b'', ''a'', ''b''] [(''a'', 1)]) = mset [''a'', ''b'', ''b'']
     \<and> hd (seed_order [''b'', ''a'', ''b''] [(''a'', 1)]) = ''b''"
proof -
  have "hd (seed_order [''b'', ''a'', ''b''] [(''a'', 1)]) = ''b''"
    by (simp add: seed_order_def ready_counts_def bm_entry_def bm_get_def seed_picks.simps(2) next_seed_def path_key_def numeral_eq_Suc)
  then show ?thesis using seeds_are_balanced [of "[''b'', ''a'', ''b'']" "[(''a'', 1)]"] by simp
qed

section \<open>Launching and stopping\<close>

text \<open>C20: Scaling a prefixed pool up launches at most the missing workers, one command each, under fresh
  identifiers of the pool's prefix: no launch reuses a session of tmux or of the same batch, each will be
  counted as the pool's own, and none is seeded in an excluded workspace.\<close>

theorem launches_are_new_and_owned:
  assumes "reconcile_commands sessions repo adapter (Some p) seeds desired excluded = Inr commands"
    and "wrap32 (length (filter (session_matches adapter (Some p)) sessions)) < desired"
  shows "\<exists>routes ns. commands = map2 (launch_one adapter p) routes ns \<and> length ns = length routes
    \<and> length routes \<le> desired - wrap32 (length (filter (session_matches adapter (Some p)) sessions))
    \<and> distinct ns \<and> set routes \<inter> set excluded = {}
    \<and> (\<forall>n \<in> set ns. session_prefix adapter @ p @ dec n \<notin> tx_name ` set sessions
        \<and> session_matches adapter (Some p) \<lparr> tx_name = session_prefix adapter @ p @ dec n, tx_attached = False \<rparr>)"
proof (cases "seeds = None \<and> repo \<in> set excluded")
  case True
  then show ?thesis using assms by (intro exI [of _ "[]"]) (simp add: reconcile_commands_def Let_def)
next
  case False
  then obtain routes where r: "launch_routes seeds repo excluded
        (desired - wrap32 (length (filter (session_matches adapter (Some p)) sessions))) = Inr routes"
      and c: "commands = launch_commands adapter (Some p) (map tx_name sessions) 1 routes"
    using assms by (auto simp: reconcile_commands_def Let_def bind_res_Inr_iff)
  have routes: "length routes \<le> desired - wrap32 (length (filter (session_matches adapter (Some p)) sessions))
      \<and> set routes \<inter> set excluded = {}"
  proof (cases seeds)
    case None
    then show ?thesis using r False by (auto simp: launch_routes_def)
  next
    case (Some so)
    then obtain d where "so_demand so = Inr d"
      using r by (auto simp: launch_routes_def read_seed_demand_def bind_res_Inr_iff)
    then show ?thesis using launch_routes_seeded r Some by blast
  qed
  have owned: "matches_worker_prefix p (p @ dec n)" for n
    unfolding matches_worker_prefix_iff using dec_digits by blast
  obtain ns where "length ns = length routes" "sorted_wrt (<) ns"
      "\<forall>n \<in> set ns. session_prefix adapter @ p @ dec n \<notin> set (map tx_name sessions)"
      "commands = map2 (launch_one adapter p) routes ns"
    using launch_commands_names [of routes 1 adapter p "map tx_name sessions"] c by blast
  then show ?thesis using routes owned
    by (intro exI [of _ routes] exI [of _ ns]) (auto simp: session_matches_def strict_sorted_iff)
qed

definition session_of :: "string \<Rightarrow> bool \<Rightarrow> tmux_session" where
  "session_of n a = \<lparr> tx_name = n, tx_attached = a \<rparr>"

theorem launches_are_new_and_owned_witness:
  "\<exists>ns. length ns = 2 \<and> distinct ns \<and> 1 \<notin> set ns
     \<and> reconcile_commands [session_of ''needle-a-p1'' False] ''r'' ''a'' (Some ''p'') None 3 [] =
         Inr (map2 (launch_one ''a'' ''p'') [''r'', ''r''] ns)"
proof -
  have one: "dec 1 = ''1''" by (simp add: dec.simps char_of_def bit_Suc_0_iff)
  have sp: "session_prefix ''a'' = ''needle-a-''" by (simp add: session_prefix_def)
  have "session_matches ''a'' (Some ''p'') (session_of ''needle-a-p1'' False)"
    by (simp add: session_matches_def sp session_of_def matches_worker_prefix_def strip_prefix_def starts_with_def
        is_digit_def byte_def)
  then have w: "wrap32 (length (filter (session_matches ''a'' (Some ''p'')) [session_of ''needle-a-p1'' False])) = 1"
    and f: "filter (session_matches ''a'' (Some ''p'')) [session_of ''needle-a-p1'' False] = [session_of ''needle-a-p1'' False]"
    by (simp_all add: wrap32_def)
  let ?cs = "launch_commands ''a'' (Some ''p'') [''needle-a-p1''] 1 [''r'', ''r'']"
  have r: "reconcile_commands [session_of ''needle-a-p1'' False] ''r'' ''a'' (Some ''p'') None 3 [] = Inr ?cs"
    using w unfolding reconcile_commands_def f
    by (simp add: launch_routes_def session_of_def numeral_2_eq_2)
  obtain routes ns where l: "?cs = map2 (launch_one ''a'' ''p'') routes ns" "length ns = length routes"
      "distinct ns" "\<forall>n \<in> set ns. session_prefix ''a'' @ ''p'' @ dec n \<notin> tx_name ` set [session_of ''needle-a-p1'' False]"
    using launches_are_new_and_owned [OF r] w by auto
  have "length ?cs = 2" by (simp add: Let_def)
  then have len: "length ns = 2" using l(1,2) by simp
  have "1 \<notin> set ns" using l(4) one by (auto simp: sp session_of_def)
  moreover have "routes = [''r'', ''r'']"
  proof -
    have "map (\<lambda>c. c ! 2) ?cs = [''r'', ''r'']" by (simp add: Let_def needle_run_args_def)
    moreover have "map (\<lambda>c. c ! 2) (map2 (launch_one ''a'' ''p'') routes ns) = routes"
      using l(2) by (intro nth_equalityI) (simp_all add: launch_one_def needle_run_args_def)
    ultimately show ?thesis using l(1) by simp
  qed
  ultimately show ?thesis using len l(3) r [unfolded l(1)] by (intro exI [of _ ns]) simp
qed

text \<open>C21: Scaling a pool down stops exactly the surplus, and only detached sessions of the pool, each by a name
  that the substring selector of \<open>needle stop\<close> cannot match in another NEEDLE session; when that cannot be
  done, nothing is stopped.\<close>

theorem stops_are_exact:
  assumes "reconcile_commands sessions repo adapter prefix seeds desired excluded = r"
    and "desired < wrap32 (length (filter (session_matches adapter prefix) sessions))"
  shows "(\<exists>e. r = Inl e) \<or> (\<exists>stopped. r = Inr (map (\<lambda>s. [''stop'', ''--identifier'', tx_name s]) stopped)
    \<and> length stopped + desired = wrap32 (length (filter (session_matches adapter prefix) sessions))
    \<and> (\<forall>s \<in> set stopped. s \<in> set sessions \<and> session_matches adapter prefix s \<and> \<not> tx_attached s
        \<and> (\<forall>other \<in> set sessions. starts_with ''needle-'' (tx_name other)
             \<and> contains_str (tx_name s) (tx_name other) \<longrightarrow> tx_name other = tx_name s)))"
proof (cases "stop_candidates (sort_key tx_name (filter (session_matches adapter prefix) sessions)) sessions
    (wrap32 (length (filter (session_matches adapter prefix) sessions)) - desired)")
  case (Inl e)
  have "r = Inl e" unfolding assms(1) [symmetric] using Inl assms(2) by (simp add: reconcile_commands_def Let_def)
  then show ?thesis by blast
next
  case (Inr sel)
  have "r = Inr (map (\<lambda>s. [''stop'', ''--identifier'', tx_name s]) sel)"
    unfolding assms(1) [symmetric] using Inr assms(2) by (simp add: reconcile_commands_def Let_def)
  then show ?thesis using stop_candidates_Inr [OF Inr] assms(2)
    by (intro disjI2 exI [of _ sel]) (auto simp: stop_ambiguous_def list_ex_iff)
qed

theorem stops_are_exact_witness:
  "\<exists>s :: tmux_session. reconcile_commands [session_of ''needle-a-1'' True, session_of ''needle-a-2'' False] ''r'' ''a'' None None 1 []
     = Inr [[''stop'', ''--identifier'', tx_name s]] \<and> \<not> tx_attached s"
proof -
  define ss where "ss = [session_of ''needle-a-1'' True, session_of ''needle-a-2'' False]"
  have f: "filter (session_matches ''a'' None) ss = ss"
    by (simp add: ss_def session_matches_def session_prefix_def session_of_def starts_with_def)
  have w: "wrap32 (length (filter (session_matches ''a'' None) ss)) = 2" unfolding f by (simp add: ss_def wrap32_def)
  have no: "reconcile_commands ss ''r'' ''a'' None None 1 [] \<noteq> Inl e" for e
    unfolding reconcile_commands_def f
    by (simp add: ss_def wrap32_def session_of_def stop_candidates_def stop_ambiguous_def starts_with_def)
  have "1 < wrap32 (length (filter (session_matches ''a'' None) ss))" unfolding w by simp
  from stops_are_exact [OF refl this, of "''r''" None "[]", unfolded w] no
  obtain stopped :: "tmux_session list" where st: "reconcile_commands ss ''r'' ''a'' None None 1 []
        = Inr (map (\<lambda>s. [''stop'', ''--identifier'', tx_name s]) stopped)"
      "length stopped + 1 = 2" "\<forall>s \<in> set stopped. \<not> tx_attached s"
    by blast
  then obtain s where "stopped = [s]" by (cases stopped) auto
  then show ?thesis using st unfolding ss_def by auto
qed

section \<open>Applying a decision\<close>

text \<open>Applying a decision to a fleet invokes its actuator exactly once with the desired count, or not at
  all when the count is already there (unless the command reconciles every cycle) or the actuator is
  disabled; then, only if that did not fail, it hands one step to the takeover helper when workers are listed.\<close>

theorem actuation_invokes_once:
  "fst (actuate_with_exclusions io f observed desired excluded) =
     (if applies_nothing (fl_actuator f) observed desired then [] else [Invoke (fl_actuator f) desired excluded])
     @ (if (applies_nothing (fl_actuator f) observed desired \<or> io_actuate io (fl_actuator f) desired excluded = Inr ())
          \<and> fl_takeover f \<noteq> [] then map RunHelper (case fl_takeover_helper f of None \<Rightarrow> [] | Some h \<Rightarrow> [h]) else [])"
proof -
  have h: "fst (retire_takeover io f) =
      (if fl_takeover f = [] then [] else map RunHelper (case fl_takeover_helper f of None \<Rightarrow> [] | Some h \<Rightarrow> [h]))"
    by (auto simp: retire_takeover_def split: option.splits)
  have tail: "fst (if c then acts_return r1 else acts_return r2) = []" for c and r1 r2 :: "actuation_outcome res" by simp
  show ?thesis
  proof (cases "applies_nothing (fl_actuator f) observed desired")
    case True
    then show ?thesis
      by (simp add: actuate_with_exclusions_def acts_bind_fst actuate_config_acts h tail split: sum.splits)
  next
    case False
    then show ?thesis
      by (cases "io_actuate io (fl_actuator f) desired excluded")
        (simp_all add: actuate_with_exclusions_def acts_bind_fst actuate_config_acts h tail split: sum.splits)
  qed
qed

text \<open>A federated instance touches its own host only: whatever the placements, at most one actuator is
  invoked, the local host's, at the local placement's target and under the workspace exclusions, and none
  unless the placements name every configured host exactly once.\<close>

theorem only_local_host_is_actuated:
  assumes "fl_hosts (ac_fleet a) = Some hosts" "bm_ok hosts"
  shows "fst (actuate_host_targets_local io a ps local excluded) = [] \<or>
    (\<exists>h p. bm_get hosts local = Some h \<and> p \<in> set ps \<and> hp_host_id p = local
      \<and> fst (actuate_host_targets_local io a ps local excluded) = [Invoke (hc_actuator h) (hp_target p) excluded]
      \<and> distinct (map hp_host_id ps) \<and> set (map hp_host_id ps) = set (bm_keys hosts))"
proof (cases "fst (actuate_host_targets_local io a ps local excluded) = []")
  case False
  then obtain m k where m: "index_placements hosts [] ps = Inr m" "missing_host hosts m = None"
      "fst (actuate_host_targets_local io a ps local excluded) =
        concat (map (\<lambda>e. fst (actuate_host io (Some local) excluded m e)) (take k hosts))"
    unfolding actuate_host_targets_local_def using actuate_host_targets_acts assms(1) by (metis option.inject)
  note ip = index_placements_Inr [OF m(1)]
  have only: "fst (actuate_host io (Some local) excluded m e) = []" if "fst e \<noteq> local" for e
    using that by (cases e) (auto simp: actuate_host_acts split: option.splits)
  have one: "\<exists>x. concat (map (\<lambda>e. fst (actuate_host io (Some local) excluded m e)) es) =
      fst (actuate_host io (Some local) excluded m x) \<and> x \<in> set es"
    if "distinct (map fst es)" "concat (map (\<lambda>e. fst (actuate_host io (Some local) excluded m e)) es) \<noteq> []" for es
    using that
  proof (induction es)
    case (Cons e es)
    show ?case
    proof (cases "fst e = local")
      case True
      have "fst x \<noteq> local" if "x \<in> set es" for x
      proof -
        have "fst x \<in> set (map fst es)" using that by simp
        then show ?thesis using True Cons.prems(1) by (metis distinct.simps(2) list.simps(9))
      qed
      then have "concat (map (\<lambda>e. fst (actuate_host io (Some local) excluded m e)) es) = []" using only by simp
      then show ?thesis by (intro exI [of _ e]) simp
    next
      case False
      then show ?thesis using Cons only by auto
    qed
  qed simp
  have "distinct (map fst (take k hosts))"
    using assms(2) bm.keys_distinct [of hosts] by (simp add: bm_keys_def take_map [symmetric])
  then obtain x where x: "fst (actuate_host_targets_local io a ps local excluded) =
      fst (actuate_host io (Some local) excluded m x)" "x \<in> set hosts"
    using one m(3) False by (metis in_set_takeD)
  have "fst x = local" using only [of x] x(1) False by metis
  then obtain h where h: "x = (local, h)" by (cases x) simp
  obtain p where p: "bm_get m local = Some p" and act: "fst (actuate_host_targets_local io a ps local excluded) =
      [Invoke (hc_actuator h) (hp_target p) excluded]"
    using x(1) False unfolding h actuate_host_acts by (auto split: option.splits if_splits)
  have "p \<in> set ps \<and> hp_host_id p = local"
    using p ip by (auto simp: bm_get_def split: option.splits dest!: map_of_SomeD)
  moreover have "bm_get hosts local = Some h" using x(2) h assms(2) by (simp add: bm_get_Some_iff)
  moreover have "set (map hp_host_id ps) = set (bm_keys hosts)"
  proof
    show "set (map hp_host_id ps) \<subseteq> set (bm_keys hosts)" using ip by (auto simp: bm.keys_look)
    have "\<forall>h \<in> set (bm_keys hosts). bm_get m h \<noteq> None" using m(2) by (simp add: missing_host_def find_None_iff')
    then show "set (bm_keys hosts) \<subseteq> set (map hp_host_id ps)"
      using ip by (force simp: bm_get_def split: option.splits dest!: map_of_SomeD)
  qed
  ultimately show ?thesis using act ip by blast
qed simp

definition sample_host :: "nat \<Rightarrow> host_config" where
  "sample_host n = \<lparr> hc_max_workers = None, hc_max_up = None, hc_max_down = None, hc_resource_reserve = None,
     hc_resource_source = None, hc_observer = ObsStatic n, hc_actuator = TargetFile ''target'' \<rparr>"

definition sample_io :: fleet_io where
  "sample_io = \<lparr> io_observe = (\<lambda>ob t. Inr (1, 0)), io_reobserve = (\<lambda>ob t. Inr (2, 0)),
     io_actuate = (\<lambda>ac n x. Inr ()), io_helper = (\<lambda>h. Inr ()), io_seeds = (\<lambda>p. Inr []) \<rparr>"

definition sample_placement :: "string \<Rightarrow> nat \<Rightarrow> host_placement" where
  "sample_placement h n = \<lparr> hp_host_id = h, hp_current = 1, hp_target = n, hp_ceiling = 9, hp_headroom = Fin 1,
     hp_fresh = True, hp_eligible = True \<rparr>"

definition with_hosts :: "(string, host_config) bmap \<Rightarrow> account_config \<Rightarrow> account_config" where
  "with_hosts hs a = a\<lparr> ac_fleet := (ac_fleet a)\<lparr> fl_hosts := Some hs \<rparr> \<rparr>"

theorem only_local_host_is_actuated_witness:
  "\<forall>b. fst (actuate_host_targets_local sample_io
       (with_hosts [(''x'', sample_host 1), (''y'', sample_host 1)] b) [sample_placement ''x'' 2, sample_placement ''y'' 3] ''y'' [''w''])
       = [Invoke (TargetFile ''target'') 3 [''w'']]"
proof
  fix b :: account_config
  define a where "a = with_hosts [(''x'', sample_host 1), (''y'', sample_host 1)] b"
  have h: "fl_hosts (ac_fleet a) = Some [(''x'', sample_host 1), (''y'', sample_host 1)]"
    by (simp add: a_def with_hosts_def)
  let ?r = "fst (actuate_host_targets_local sample_io a [sample_placement ''x'' 2, sample_placement ''y'' 3] ''y'' [''w''])"
  let ?hosts = "[(''x'', sample_host 1), (''y'', sample_host 1)]"
  let ?m = "[(''x'', sample_placement ''x'' 2), (''y'', sample_placement ''y'' 3)]"
  have c: "configured_hosts a = Inr ?hosts" by (simp add: configured_hosts_def h)
  have i: "index_placements ?hosts [] [sample_placement ''x'' 2, sample_placement ''y'' 3] = Inr ?m"
    by (simp add: sample_placement_def bm_get_def)
  have n: "missing_host ?hosts ?m = None" by (simp add: missing_host_def bm_keys_def bm_get_def)
  have x: "snd (actuate_host sample_io (Some ''y'') [''w''] ?m (''x'', sample_host 1))
      = Inr (''x'', \<lparr> ao_actuated = False, ao_observed = None \<rparr>)"
    by (simp add: actuate_host_def bm_get_def)
  have y: "fst (actuate_host sample_io (Some ''y'') [''w''] ?m (''y'', sample_host 1)) \<noteq> []"
    unfolding actuate_host_acts by (simp add: bm_get_def applies_nothing_def sample_host_def sample_placement_def)
  have "?r = fst (actuate_hosts sample_io (Some ''y'') [''w''] ?m ?hosts)"
    unfolding actuate_host_targets_local_def actuate_host_targets_selected_def c i acts_simps n by simp
  then have ne: "?r \<noteq> []" using x y by (simp add: acts_bind_fst)
  have "bm_ok ?hosts" by (simp add: bm_ok_def)
  from only_local_host_is_actuated [OF h this, of sample_io "[sample_placement ''x'' 2, sample_placement ''y'' 3]" "''y''" "[''w'']"] ne
  obtain k p where k: "bm_get ?hosts ''y'' = Some k" "p \<in> set [sample_placement ''x'' 2, sample_placement ''y'' 3]"
      "hp_host_id p = ''y''" "?r = [Invoke (hc_actuator k) (hp_target p) [''w'']]" by blast
  have "k = sample_host 1" using k(1) by (simp add: bm_get_def)
  moreover have "p = sample_placement ''y'' 3" using k(2,3) by (auto simp: sample_placement_def)
  ultimately have "?r = [Invoke (TargetFile ''target'') 3 [''w'']]"
    using k(4) by (simp add: sample_host_def sample_placement_def)
  then show "fst (actuate_host_targets_local sample_io (with_hosts [(''x'', sample_host 1), (''y'', sample_host 1)] b)
      [sample_placement ''x'' 2, sample_placement ''y'' 3] ''y'' [''w'']) = [Invoke (TargetFile ''target'') 3 [''w'']]"
    by (simp only: a_def)
qed

end
