(* ===== verification/Source_Read.thy ===== *)
theory Source_Read
  imports Json
begin

text \<open>
  \<open>src/source.rs\<close>, reading under a bound: a reader is the bytes it will yield and whether it then fails or
  ends.  Whole bodies are read up to a limit; the Codex app-server's output is cut into frames at newlines,
  with an oversized frame drained in chunks.
\<close>

section \<open>Readers\<close>

record reader =
  rd_bytes :: string
  rd_broken :: bool

datatype read_error = ReadIo | TooLarge nat

text \<open>\<open>read_bounded\<close>: one byte more than the limit is asked for, so that an excess is noticed.\<close>

definition read_bounded :: "reader \<Rightarrow> nat \<Rightarrow> read_error + string" where
  "read_bounded r limit = (let got = take (limit + 1) (rd_bytes r) in
     if rd_broken r \<and> length (rd_bytes r) \<le> limit then Inl ReadIo
     else if limit < length got then Inl (TooLarge limit) else Inr got)"

text \<open>\<open>take(n).read_until(b'\n')\<close>: through the next newline, at most \<open>n\<close> bytes; what is left.\<close>

definition newline :: char where "newline = char_of (10 :: nat)"

fun read_until :: "nat \<Rightarrow> string \<Rightarrow> string \<times> string" where
  "read_until 0 bs = ([], bs)"
| "read_until n [] = ([], [])"
| "read_until (Suc n) (b # bs) =
     (if b = newline then ([b], bs) else (case read_until n bs of (got, rest) \<Rightarrow> (b # got, rest)))"

definition ends_line :: "string \<Rightarrow> bool" where
  "ends_line got = (got \<noteq> [] \<and> last got = newline)"

text \<open>A broken reader fails when it is asked beyond its bytes.\<close>

definition take_until :: "nat \<Rightarrow> reader \<Rightarrow> (string \<times> reader) option" where
  "take_until n r = (case read_until n (rd_bytes r) of (got, rest) \<Rightarrow>
     if rd_broken r \<and> rest = [] \<and> length got < n \<and> \<not> ends_line got then None
     else Some (got, r\<lparr> rd_bytes := rest \<rparr>))"

lemma read_until_parts: "fst (read_until n bs) @ snd (read_until n bs) = bs"
  by (induction n bs rule: read_until.induct) (auto split: prod.splits)

lemma take_until_shorter:
  assumes "take_until n r = Some (got, r')" "got \<noteq> []"
  shows "length (rd_bytes r') < length (rd_bytes r)"
proof -
  obtain g rest where g: "read_until n (rd_bytes r) = (g, rest)" by (cases "read_until n (rd_bytes r)")
  then have "g @ rest = rd_bytes r" using read_until_parts [of n "rd_bytes r"] by simp
  then have "length (rd_bytes r) = length g + length rest" by (metis length_append)
  then show ?thesis using assms g by (auto simp: take_until_def split: if_splits)
qed

section \<open>Frames\<close>

datatype codex_frame = Line string | Oversized

definition drain_chunk :: nat where "drain_chunk = 4096"

function drain_until_newline :: "reader \<Rightarrow> reader option" where
  "drain_until_newline r = (case take_until drain_chunk r of
     None \<Rightarrow> None
   | Some (got, r') \<Rightarrow> if got = [] \<or> ends_line got then Some r' else drain_until_newline r')"
  by pat_completeness auto

termination by (relation "measure (\<lambda>r. length (rd_bytes r))") (auto intro: take_until_shorter)

declare drain_until_newline.simps [simp del]

text \<open>
  \<open>String::from_utf8_lossy\<close>: a well-formed sequence is kept, a maximal broken part becomes U+FFFD.
  \<open>utf8_step\<close> is the length of the sequence at the front and whether it is well formed.
\<close>

definition cont :: "nat \<Rightarrow> bool" where "cont b = (128 \<le> b \<and> b \<le> 191)"

definition utf8_second :: "nat \<Rightarrow> nat \<Rightarrow> bool" where
  "utf8_second a b =
     (if a = 224 then 160 \<le> b \<and> b \<le> 191 else if a = 237 then 128 \<le> b \<and> b \<le> 159
      else if a = 240 then 144 \<le> b \<and> b \<le> 191 else if a = 244 then 128 \<le> b \<and> b \<le> 143 else cont b)"

definition utf8_step :: "nat \<Rightarrow> nat list \<Rightarrow> bool \<times> nat" where
  "utf8_step a bs = (let nb = (\<lambda>i. if i < length bs then bs ! i else 0) in
     if a < 128 then (True, 1)
     else if 194 \<le> a \<and> a \<le> 223 then (if cont (nb 0) then (True, 2) else (False, 1))
     else if 224 \<le> a \<and> a \<le> 239 then
       (if \<not> utf8_second a (nb 0) then (False, 1) else if \<not> cont (nb 1) then (False, 2) else (True, 3))
     else if 240 \<le> a \<and> a \<le> 244 then
       (if \<not> utf8_second a (nb 0) then (False, 1) else if \<not> cont (nb 1) then (False, 2)
        else if \<not> cont (nb 2) then (False, 3) else (True, 4))
     else (False, 1))"

lemma utf8_step_pos: "0 < snd (utf8_step a bs)"
  by (simp add: utf8_step_def Let_def)

definition replacement :: string where
  "replacement = map char_of [239, 191, 189 :: nat]"

lemma utf8_step_shorter: "(ok, n) = utf8_step a bs \<Longrightarrow> length (drop n (c # cs)) < length (c # cs)"
  using utf8_step_pos [of a bs] by (cases "utf8_step a bs") simp

function from_utf8_lossy :: "string \<Rightarrow> string" where
  "from_utf8_lossy [] = []"
| "from_utf8_lossy (c # cs) = (case utf8_step (byte c) (map byte cs) of (ok, n) \<Rightarrow>
     (if ok then take n (c # cs) else replacement) @ from_utf8_lossy (drop n (c # cs)))"
  by pat_completeness auto

termination
  by (relation "measure length") (simp, simp only: in_measure, rule utf8_step_shorter, simp)

text \<open>Text that \<open>String::from_utf8\<close> accepts: every sequence is well formed.\<close>

function utf8_valid :: "string \<Rightarrow> bool" where
  "utf8_valid [] = True"
| "utf8_valid (c # cs) = (case utf8_step (byte c) (map byte cs) of (ok, n) \<Rightarrow> ok \<and> utf8_valid (drop n (c # cs)))"
  by pat_completeness auto

termination
  by (relation "measure length") (simp, simp only: in_measure, rule utf8_step_shorter, simp)

text \<open>One frame; \<open>None\<close> is an I/O error, \<open>Some (None, _)\<close> the end of the stream.\<close>

definition read_bounded_codex_frame :: "nat \<Rightarrow> reader \<Rightarrow> (codex_frame option \<times> reader) option" where
  "read_bounded_codex_frame limit r = (case take_until limit r of
     None \<Rightarrow> None
   | Some (got, r') \<Rightarrow>
       if got = [] then Some (None, r')
       else if ends_line got then Some (Some (Line (from_utf8_lossy (butlast got))), r')
       else map_option (\<lambda>r. (Some Oversized, r)) (drain_until_newline r'))"

lemma drain_shorter: "drain_until_newline r = Some r' \<Longrightarrow> length (rd_bytes r') \<le> length (rd_bytes r)"
proof (induction r rule: drain_until_newline.induct)
  case (1 r)
  show ?case
  proof (cases "take_until drain_chunk r")
    case None
    then show ?thesis using "1.prems" by (simp add: drain_until_newline.simps)
  next
    case (Some p)
    then obtain got r1 where t: "take_until drain_chunk r = Some (got, r1)" by (cases p) simp
    then have "length (rd_bytes r1) \<le> length (rd_bytes r)"
      using take_until_shorter [OF t] read_until_parts [of drain_chunk "rd_bytes r"]
      by (cases "got = []") (auto simp: take_until_def split: prod.splits if_splits)
    then show ?thesis
      using 1 t by (auto simp: drain_until_newline.simps [of r] split: if_splits dest!: "1.IH")
  qed
qed

lemma frame_shorter:
  assumes "read_bounded_codex_frame limit r = Some (Some fr, r')"
  shows "length (rd_bytes r') < length (rd_bytes r)"
  using assms
  by (auto simp: read_bounded_codex_frame_def split: option.splits if_splits
      dest: take_until_shorter dest!: drain_shorter intro: le_less_trans [OF _ take_until_shorter])

text \<open>
  The reader thread of a session: what it sends, in order; \<open>parse\<close> is \<open>serde_json::from_str\<close>.  A line that is
  not JSON and an oversized frame are skipped; an error ends the thread.
\<close>

function codex_reader :: "(string \<Rightarrow> json option) \<Rightarrow> nat \<Rightarrow> reader \<Rightarrow> json list" where
  "codex_reader parse limit r = (case read_bounded_codex_frame limit r of
     Some (Some (Line l), r') \<Rightarrow>
       (case parse l of None \<Rightarrow> codex_reader parse limit r' | Some v \<Rightarrow> v # codex_reader parse limit r')
   | Some (Some Oversized, r') \<Rightarrow> codex_reader parse limit r'
   | Some (None, _) \<Rightarrow> []
   | None \<Rightarrow> [])"
  by pat_completeness auto

termination by (relation "measure (\<lambda>(_, _, r). length (rd_bytes r))") (auto intro: frame_shorter)

declare codex_reader.simps [simp del]

end
