(* ===== verification/Fleet_Io.thy ===== *)
theory Fleet_Io
  imports Needle Source_Read
begin

text \<open>
  The adapters of \<open>src/fleet.rs\<close> and the programs of \<open>src/fleet/needle.rs\<close> at work: worker counts read from files
  and from commands under a size and a time bound, target files, command actuators, and NEEDLE programs that
  are captured or waited for.  Time is in milliseconds since the child was spawned.  What a child does is a
  parameter (\<open>child\<close>); a definition gives \<open>None\<close> where the code never returns.
\<close>

section \<open>Children\<close>

text \<open>
  A pipe of a child: the bytes that come out of it, when a bounded read of it ends (at the end of the stream, at
  an error or beyond the bound), and when it ends once the process group has been killed.  The latter may
  never happen, as a descendant outside the group may hold the other end.
\<close>

record pipe =
  pp_bytes :: reader
  pp_ends :: "nat option"
  pp_killed :: "nat \<Rightarrow> nat option"

text \<open>
  A child: whether it can be spawned, when it exits by itself and how, and when \<open>wait\<close> returns after its group
  has been sent \<open>SIGKILL\<close>, which no process survives.
\<close>

record child =
  ch_spawns :: bool
  ch_stdout :: pipe
  ch_stderr :: pipe
  ch_exits :: "nat option"
  ch_success :: bool
  ch_status :: string
  ch_reaped :: "nat \<Rightarrow> nat"
  ch_poll_fails :: "nat \<Rightarrow> bool"
  ch_late :: "nat \<Rightarrow> nat"

definition child_timeout :: nat where "child_timeout = 15000"
definition child_poll_interval :: nat where "child_poll_interval = 20"
definition max_observer_bytes :: nat where "max_observer_bytes = 4096"
definition max_child_output_bytes :: nat where "max_child_output_bytes = 1024 * 1024"

definition exited :: "child \<Rightarrow> nat \<Rightarrow> bool" where
  "exited ch t = is_some_and (\<lambda>e. e \<le> t) (ch_exits ch)"

text \<open>When the reaping of a killed child is over.\<close>

definition kill_worker_tree :: "child \<Rightarrow> nat \<Rightarrow> nat" where
  "kill_worker_tree ch t = (if exited ch t then t else max t (ch_reaped ch t))"

text \<open>When the reader thread of a pipe is done, its group having been killed at \<open>t\<close>.\<close>

definition reader_done :: "pipe \<Rightarrow> nat \<Rightarrow> nat option" where
  "reader_done p t = (if is_some_and (\<lambda>e. e \<le> t) (pp_ends p) then pp_ends p else pp_killed p t)"

definition join_at :: "nat \<Rightarrow> nat option \<Rightarrow> nat option" where
  "join_at t done_at = map_option (max t) done_at"

text \<open>
  \<open>wait_with_timeout\<close>: the child is polled, first at \<open>t\<close>; a sleep may last longer than asked (\<open>ch_late\<close>).
\<close>

function wait_with_timeout :: "child \<Rightarrow> nat \<Rightarrow> nat \<Rightarrow> nat \<Rightarrow> nat \<times> (bool \<times> string) res" where
  "wait_with_timeout ch deadline i t =
     (if ch_poll_fails ch i then (t, Inl (Bail ''failed to poll child process status''))
      else if exited ch t then (t, Inr (ch_success ch, ch_status ch))
      else if deadline \<le> t then (kill_worker_tree ch t, Inl (Bail ''timed out waiting for the child to exit''))
      else wait_with_timeout ch deadline (i + 1) (t + child_poll_interval + ch_late ch i))"
  by pat_completeness auto

termination
  by (relation "measure (\<lambda>(ch, deadline, i, t). deadline - t)") (auto simp: child_poll_interval_def)

declare wait_with_timeout.simps [simp del]

section \<open>Observers\<close>

text \<open>\<open>String::from_utf8\<close>.\<close>

definition from_utf8 :: "string \<Rightarrow> string option" where
  "from_utf8 b = (if utf8_valid b then Some b else None)"

text \<open>\<open>read_bounded\<close> of \<open>fleet.rs\<close> and \<open>read_capped\<close> of \<open>needle.rs\<close>, which differ in their messages.\<close>

definition read_limited :: "string \<Rightarrow> string \<Rightarrow> reader \<Rightarrow> nat \<Rightarrow> string res" where
  "read_limited failed exceeds r limit =
     (if rd_broken r \<and> length (rd_bytes r) \<le> limit then Inl (Bail failed)
      else let buffer = take (limit + 1) (rd_bytes r)
           in if limit < length buffer then Inl (Bail exceeds) else Inr buffer)"

definition read_observer_output :: "reader \<Rightarrow> nat \<Rightarrow> string res" where
  "read_observer_output = read_limited ''failed to read observer output'' ''observer output exceeds the maximum''"

definition read_capped :: "reader \<Rightarrow> nat \<Rightarrow> string res" where
  "read_capped = read_limited ''failed to read command output'' ''command output exceeded the limit''"

definition counted_output :: "(string \<Rightarrow> json option) \<Rightarrow> string \<Rightarrow> string \<Rightarrow> nat res" where
  "counted_output decode not_utf8 bytes = (case from_utf8 bytes of
     None \<Rightarrow> Inl (Bail not_utf8) | Some text \<Rightarrow> parse_worker_count decode text)"

text \<open>A file as it is opened: an error, or what reading it yields.\<close>

definition file_observer :: "(string \<Rightarrow> json option) \<Rightarrow> string \<Rightarrow> reader res \<Rightarrow> nat res" where
  "file_observer decode path file =
     bind_res (with_context (''failed to read worker count '' @ path) file) (\<lambda>r.
     bind_res (with_context (''worker count '' @ path) (read_observer_output r max_observer_bytes)) (\<lambda>bytes.
     counted_output decode ''worker count file was not UTF-8'' bytes))"

text \<open>
  The command observer.  A report of the reader at the very end of the timeout counts as received.  After
  the report the child is waited for without a bound.
\<close>

definition command_observer_current_workers ::
  "(string \<Rightarrow> json option) \<Rightarrow> string list \<Rightarrow> nat \<Rightarrow> child \<Rightarrow> (nat \<times> nat res) option" where
  "command_observer_current_workers decode argv timeout ch = (case argv of
     [] \<Rightarrow> Some (0, Inl (Panic ''index out of bounds''))
   | program # args \<Rightarrow>
       if \<not> ch_spawns ch then Some (0, Inl (Bail (''failed to start worker observer '' @ program)))
       else case opt_filter (\<lambda>t. t \<le> timeout) (pp_ends (ch_stdout ch)) of
         None \<Rightarrow> map_option (\<lambda>t. (t, Inl (Bail (''worker observer '' @ program @ '' timed out''))))
           (join_at (kill_worker_tree ch timeout) (reader_done (ch_stdout ch) timeout))
       | Some t \<Rightarrow> (case read_observer_output (pp_bytes (ch_stdout ch)) max_observer_bytes of
           Inl e \<Rightarrow> Some (kill_worker_tree ch t, Inl (Bail (''worker observer '' @ program @ '' stdout'')))
         | Inr bytes \<Rightarrow> map_option (\<lambda>e. (max t e,
             if \<not> ch_success ch
             then Inl (Bail (''worker observer '' @ program @ '' exited with '' @ ch_status ch))
             else counted_output decode ''worker count was not UTF-8'' bytes)) (ch_exits ch)))"

section \<open>Target files\<close>

text \<open>A target with its temporary file; the answers of the file system, in the order they are asked for.\<close>

record target_slot =
  ts_target :: "string option"
  ts_temp :: "string option"

record target_io =
  ti_directory :: "unit res"
  ti_create :: "unit res"
  ti_write :: "unit res"
  ti_written :: nat
  ti_sync :: "unit res"
  ti_rename :: "unit res"
  ti_removes :: bool

definition target_content :: "nat \<Rightarrow> string" where
  "target_content desired = dec desired @ [CHR 10]"

definition replace_target :: "target_io \<Rightarrow> nat \<Rightarrow> target_slot \<Rightarrow> target_slot \<times> unit res" where
  "replace_target io desired s =
     (if ts_temp s \<noteq> None then (s, Inl (Bail ''File exists''))
      else case ti_create io of
        Inl e \<Rightarrow> (s, Inl e)
      | Inr _ \<Rightarrow> (case ti_write io of
          Inl e \<Rightarrow> (s\<lparr> ts_temp := Some (take (ti_written io) (target_content desired)) \<rparr>, Inl e)
        | Inr _ \<Rightarrow> (case bind_res (ti_sync io) (\<lambda>_. ti_rename io) of
            Inl e \<Rightarrow> (s\<lparr> ts_temp := Some (target_content desired) \<rparr>, Inl e)
          | Inr _ \<Rightarrow> (s\<lparr> ts_target := Some (target_content desired) \<rparr>, Inr ()))))"

definition write_target :: "target_io \<Rightarrow> string \<Rightarrow> nat \<Rightarrow> target_slot \<Rightarrow> target_slot \<times> unit res" where
  "write_target io path desired s = (case ti_directory io of
     Inl e \<Rightarrow> (s, Inl e)
   | Inr _ \<Rightarrow> (case replace_target io desired s of
       (s, Inr _) \<Rightarrow> (s, Inr ())
     | (s, Inl e) \<Rightarrow> (if ti_removes io then s\<lparr> ts_temp := None \<rparr> else s,
         with_context (''failed to update target '' @ path) (Inl e))))"

section \<open>Commands\<close>

text \<open>\<open>str::replace\<close> of a pattern that is not empty.\<close>

function replace_all :: "string \<Rightarrow> string \<Rightarrow> string \<Rightarrow> string" where
  "replace_all pat new [] = []"
| "replace_all pat new (c # s) =
     (if pat \<noteq> [] \<and> starts_with pat (c # s) then new @ replace_all pat new (drop (length pat) (c # s))
      else c # replace_all pat new s)"
  by pat_completeness auto

termination by (relation "measure (\<lambda>(_, _, s). length s)") (auto simp: neq_Nil_conv)

definition render_argv :: "string list \<Rightarrow> nat \<Rightarrow> string list" where
  "render_argv argv desired = map (replace_all ''{desired_workers}'' (dec desired)) argv"

text \<open>The child is a function of the rendered command and of its idempotency token.\<close>

definition command_actuator_actuate ::
  "(string list \<Rightarrow> nat \<Rightarrow> string) \<Rightarrow> (string list \<Rightarrow> string \<Rightarrow> child) \<Rightarrow> string list \<Rightarrow> nat \<Rightarrow> nat \<Rightarrow> nat \<times> unit res" where
  "command_actuator_actuate token spawn argv desired timeout = (case render_argv argv desired of
     [] \<Rightarrow> (0, Inl (Panic ''index out of bounds''))
   | program # args \<Rightarrow>
       let ch = spawn (program # args) (token (program # args) desired)
       in if \<not> ch_spawns ch then (0, Inl (Bail (''failed to execute fleet actuator '' @ program)))
          else case wait_with_timeout ch timeout 0 0 of
            (t, Inl e) \<Rightarrow> (t, with_context (''fleet actuator '' @ program) (Inl e))
          | (t, Inr (success, status)) \<Rightarrow> (t, if success then Inr ()
              else Inl (Bail (''fleet actuator '' @ program @ '' exited with '' @ status))))"

fun join_words :: "string list \<Rightarrow> string" where
  "join_words [] = []"
| "join_words [w] = w"
| "join_words (w # ws) = w @ '' '' @ join_words ws"

definition run_needle :: "string \<Rightarrow> string list \<Rightarrow> child \<Rightarrow> nat \<times> unit res" where
  "run_needle program args ch =
     (if \<not> ch_spawns ch then (0, Inl (Bail (''failed to execute '' @ program @ '' '' @ join_words args)))
      else case wait_with_timeout ch child_timeout 0 0 of
        (t, Inl e) \<Rightarrow> (t, with_context (''NEEDLE command '' @ join_words args) (Inl e))
      | (t, Inr (success, status)) \<Rightarrow> (t, if success then Inr ()
          else Inl (Bail (''NEEDLE command '' @ join_words args @ '' exited with '' @ status))))"

text \<open>
  \<open>capture_with_timeout\<close>: two readers report in the order they end (standard output first when they end
  together), both before one deadline; afterwards the child has as much time again to exit.
\<close>

definition ends_first :: "pipe \<Rightarrow> pipe \<Rightarrow> bool" where
  "ends_first p q = (case (pp_ends p, pp_ends q) of
     (None, _) \<Rightarrow> False | (Some a, None) \<Rightarrow> True | (Some a, Some b) \<Rightarrow> a \<le> b)"

definition reports :: "child \<Rightarrow> (bool \<times> pipe) list" where
  "reports ch = (if ends_first (ch_stdout ch) (ch_stderr ch) \<or> pp_ends (ch_stderr ch) = None
     then [(True, ch_stdout ch), (False, ch_stderr ch)] else [(False, ch_stderr ch), (True, ch_stdout ch)])"

definition abandon :: "child \<Rightarrow> nat \<Rightarrow> err \<Rightarrow> (nat \<times> 'a res) option" where
  "abandon ch t e = map_option (\<lambda>t. (t, Inl e))
     (Option.bind (join_at (kill_worker_tree ch t) (reader_done (ch_stdout ch) t))
       (\<lambda>t'. join_at t' (reader_done (ch_stderr ch) t)))"

fun receive_outputs ::
  "string \<Rightarrow> child \<Rightarrow> nat \<Rightarrow> nat \<Rightarrow> string option \<times> string option \<Rightarrow> (bool \<times> pipe) list
     \<Rightarrow> (nat \<times> (string option \<times> string option) res) option" where
  "receive_outputs program ch timeout now captured [] = Some (now, Inr captured)"
| "receive_outputs program ch timeout now captured ((is_stdout, p) # ps) =
     (case opt_filter (\<lambda>t. t \<le> timeout) (pp_ends p) of
        None \<Rightarrow> abandon ch timeout (Bail (''command '' @ program @ '' timed out''))
      | Some t \<Rightarrow> (case read_capped (pp_bytes p) max_child_output_bytes of
          Inl e \<Rightarrow> abandon ch t (Bail ''failed to read command output'')
        | Inr bytes \<Rightarrow> receive_outputs program ch timeout t
            (if is_stdout then (Some bytes, snd captured) else (fst captured, Some bytes)) ps))"

definition capture_with_timeout :: "string \<Rightarrow> nat \<Rightarrow> child \<Rightarrow> (nat \<times> program_output res) option" where
  "capture_with_timeout program timeout ch =
     (if \<not> ch_spawns ch then Some (0, Inl (Bail (''failed to execute '' @ program)))
      else case receive_outputs program ch timeout 0 (None, None) (reports ch) of
        None \<Rightarrow> None
      | Some (t, Inl e) \<Rightarrow> Some (t, Inl e)
      | Some (t, Inr (out, err)) \<Rightarrow> (case wait_with_timeout ch (t + timeout) 0 t of
          (t, Inl e) \<Rightarrow> Some (t, Inl e)
        | (t, Inr (success, status)) \<Rightarrow> Some (t,
            case out of None \<Rightarrow> Inl (Bail ''tmux stdout was not captured'')
            | Some o1 \<Rightarrow> (case err of None \<Rightarrow> Inl (Bail ''tmux stderr was not captured'')
              | Some e1 \<Rightarrow> Inr \<lparr> out_success = success, out_status = status, out_stdout = o1, out_stderr = e1 \<rparr>))))"

end
