(* ===== verification/Fleet_Adapters.thy ===== *)
theory Fleet_Adapters
  imports Fleet_Io Record_Text Fleet_Laws
begin

text \<open>
  \<open>observer_for\<close> and \<open>actuator_for\<close> of \<open>src/fleet.rs\<close>: the adapter each configuration names, over a world of
  files, children and heartbeat directories, and the laws of the single adapters.  A world and the target files
  answer both what the observers read and what the actuators write; the abstract answers of \<open>fleet_io\<close> are
  obtained from them.
\<close>

section \<open>The adapters\<close>

record adapter_world =
  aw_decode :: "string \<Rightarrow> json option"
  aw_open :: "string \<Rightarrow> unit res"
  aw_broken :: "string \<Rightarrow> bool"
  aw_target :: "string \<Rightarrow> target_io"
  aw_observer :: "string list \<Rightarrow> child"
  aw_token :: "string list \<Rightarrow> nat \<Rightarrow> string"
  aw_actuator :: "string list \<Rightarrow> string \<Rightarrow> child"
  aw_program :: "string \<Rightarrow> string list \<Rightarrow> child"
  aw_needle :: "nat \<Rightarrow> string list \<Rightarrow> child"
  aw_chrono :: chrono
  aw_now :: datetime
  aw_heartbeats :: "string \<Rightarrow> heartbeat_entry listing"
  aw_demand :: "string \<Rightarrow> seed_demand res"
  aw_seed_heartbeats :: "string \<Rightarrow> occupancy_entry listing"

type_synonym targets = "string \<Rightarrow> target_slot"

definition open_file :: "adapter_world \<Rightarrow> string \<Rightarrow> targets \<Rightarrow> reader res" where
  "open_file w path d = (case ts_target (d path) of
     None \<Rightarrow> Inl (Bail ''No such file or directory'')
   | Some bytes \<Rightarrow> bind_res (aw_open w path) (\<lambda>_. Inr \<lparr> rd_bytes = bytes, rd_broken = aw_broken w path \<rparr>))"

text \<open>The owned and the unowned workers an observer reports; only a NEEDLE observer has a notion of ownership.\<close>

definition observer_for ::
  "adapter_world \<Rightarrow> worker_observer_config \<Rightarrow> string list \<Rightarrow> targets \<Rightarrow> (nat \<times> nat) res option" where
  "observer_for w ob takeover d = (case ob of
     ObsStatic n \<Rightarrow> Some (Inr (n, 0))
   | ObsFile path \<Rightarrow> Some (bind_res (file_observer (aw_decode w) path (open_file w path d)) (\<lambda>n. Inr (n, 0)))
   | ObsCommand argv \<Rightarrow> map_option (\<lambda>(t, r). bind_res r (\<lambda>n. Inr (n, 0)))
       (command_observer_current_workers (aw_decode w) argv child_timeout (aw_observer w argv))
   | NeedleStatus agent dir stale prefix \<Rightarrow>
       Some (needle_observe (aw_chrono w) (aw_heartbeats w dir) agent prefix takeover stale (aw_now w)))"

text \<open>A captured program as the NEEDLE adapter reads it.\<close>

definition lossy_output :: "program_output \<Rightarrow> program_output" where
  "lossy_output out = out\<lparr> out_stdout := from_utf8_lossy (out_stdout out),
     out_stderr := from_utf8_lossy (out_stderr out) \<rparr>"

definition captured_program :: "adapter_world \<Rightarrow> string \<Rightarrow> string list \<Rightarrow> program_output res option" where
  "captured_program w program args = map_option (\<lambda>(t, r). bind_res r (\<lambda>out. Inr (lossy_output out)))
     (capture_with_timeout program child_timeout (aw_program w program args))"

definition tmux_args :: "string list" where
  "tmux_args = [''list-sessions'', ''-F'', ''#{session_name}'' @ [CHR 9] @ ''#{session_attached}'']"

definition seed_sources_of :: "adapter_world \<Rightarrow> string option \<Rightarrow> string option \<Rightarrow> seed_sources option" where
  "seed_sources_of w demand heartbeats = (case (demand, heartbeats) of
     (Some path, Some dir) \<Rightarrow> Some \<lparr> so_path = path, so_demand = aw_demand w path,
       so_occupancy = seed_occupancy (aw_chrono w) (aw_seed_heartbeats w dir) (aw_now w) \<rparr>
   | _ \<Rightarrow> None)"

text \<open>The sessions are listed once the adapter has passed its check.\<close>

definition needle_actuate ::
  "adapter_world \<Rightarrow> string \<Rightarrow> string \<Rightarrow> string option \<Rightarrow> seed_sources option \<Rightarrow> nat \<Rightarrow> string list
     \<Rightarrow> (string list list \<times> unit res) option" where
  "needle_actuate w repo adapter prefix seeds desired excluded =
     (case captured_program w ''needle'' [''test-agent'', adapter] of
        None \<Rightarrow> None
      | Some checked \<Rightarrow> (case check_needle_adapter adapter checked of
          Inl e \<Rightarrow> Some ([], Inl e)
        | Inr _ \<Rightarrow> map_option (\<lambda>sessions. reconcile_needle_workers
              (\<lambda>i args. snd (run_needle ''needle'' args (aw_needle w i args)))
              checked sessions repo adapter prefix seeds desired excluded)
            (captured_program w ''tmux'' tmux_args)))"

definition actuator_for ::
  "adapter_world \<Rightarrow> actuator_config \<Rightarrow> nat \<Rightarrow> string list \<Rightarrow> targets \<Rightarrow> (targets \<times> unit res) option" where
  "actuator_for w ac desired excluded d = (case ac of
     ActNone \<Rightarrow> Some (d, Inr ())
   | TargetFile path \<Rightarrow> (case write_target (aw_target w path) path desired (d path) of
       (slot, r) \<Rightarrow> Some (d(path := slot), r))
   | ActCommand argv _ \<Rightarrow> Some (d, snd (command_actuator_actuate (aw_token w) (aw_actuator w) argv desired child_timeout))
   | NeedleRun repo adapter prefix demand heartbeats \<Rightarrow> map_option (\<lambda>(commands, r). (d, r))
       (needle_actuate w repo adapter prefix (seed_sources_of w demand heartbeats) desired excluded))"

section \<open>Waiting\<close>

text \<open>A poll that comes after the exit reports it; the wait ends soon after the deadline at the latest.\<close>

lemma wait_reports:
  assumes "\<And>i. ch_late ch i \<le> L" "\<And>i. \<not> ch_poll_fails ch i" "ch_exits ch = Some e" "e < deadline" "t \<le> e + child_poll_interval + L"
  shows "\<exists>t'. wait_with_timeout ch deadline i t = (t', Inr (ch_success ch, ch_status ch)) \<and> t' \<le> max t (e + child_poll_interval + L)"
  using assms
proof (induction ch deadline i t rule: wait_with_timeout.induct)
  case (1 ch deadline i t)
  show ?case
  proof (cases "e \<le> t")
    case True
    then show ?thesis using 1 by (subst wait_with_timeout.simps) (simp add: exited_def)
  next
    case False
    let ?u = "t + child_poll_interval + ch_late ch i"
    have u: "?u \<le> e + child_poll_interval + L" using False "1.prems"(1) [of i] by simp
    have "\<exists>t'. wait_with_timeout ch deadline (i + 1) ?u = (t', Inr (ch_success ch, ch_status ch))
        \<and> t' \<le> max ?u (e + child_poll_interval + L)"
      by (rule "1.IH") (use False "1.prems" u in \<open>simp_all add: exited_def\<close>)
    then show ?thesis using False u "1.prems" by (subst wait_with_timeout.simps) (auto simp: exited_def)
  qed
qed

lemma wait_ends:
  assumes "\<And>i. ch_late ch i \<le> L" "\<And>t. ch_reaped ch t \<le> t + R" "t \<le> deadline + child_poll_interval + L"
  shows "fst (wait_with_timeout ch deadline i t) \<le> deadline + child_poll_interval + L + R"
  using assms
proof (induction ch deadline i t rule: wait_with_timeout.induct)
  case (1 ch deadline i t)
  show ?case
  proof (cases "ch_poll_fails ch i \<or> exited ch t \<or> deadline \<le> t")
    case True
    have "kill_worker_tree ch t \<le> t + R" using "1.prems"(2) [of t] by (simp add: kill_worker_tree_def)
    then show ?thesis using True "1.prems"(3) by (subst wait_with_timeout.simps) auto
  next
    case False
    have "t + child_poll_interval + ch_late ch i \<le> deadline + child_poll_interval + L"
      using False "1.prems"(1) [of i] by simp
    then show ?thesis using False "1.IH" "1.prems" by (subst wait_with_timeout.simps) simp
  qed
qed

text \<open>A status the wait returns is the child's own, and it had exited by then.\<close>

lemma wait_status:
  "wait_with_timeout ch deadline i t = (t', Inr s) \<Longrightarrow> s = (ch_success ch, ch_status ch) \<and> exited ch t'"
  by (induction ch deadline i t rule: wait_with_timeout.induct)
    (subst (asm) (2) wait_with_timeout.simps, simp split: if_splits)

section \<open>Target files\<close>

lemma utf8_ascii: "list_all (\<lambda>c. byte c < 128) s \<Longrightarrow> utf8_valid s"
proof (induction s)
  case (Cons c s)
  then have "utf8_step (byte c) (map byte s) = (True, 1)" by (simp add: utf8_step_def Let_def)
  then show ?case using Cons by simp
qed simp

lemma target_content_seq: "target_content n = seq_file n"
  by (simp add: target_content_def seq_file_def)

lemma target_content_ascii: "list_all (\<lambda>c. byte c < 128) (target_content n)"
proof -
  have "byte c < 128" if "is_digit c" for c using that by (simp add: is_digit_def)
  then show ?thesis
    using dec_digits [of n] by (auto simp: target_content_def list_all_iff byte_def)
qed

lemma dec_length: "n < 10 ^ k \<Longrightarrow> 0 < k \<Longrightarrow> length (dec n) \<le> k"
proof (induction n arbitrary: k rule: dec.induct)
  case (1 n)
  show ?case
  proof (cases "n < 10")
    case True
    then show ?thesis using 1 by (subst dec.simps) simp
  next
    case False
    then obtain j where k: "k = Suc j" "0 < j"
      using 1 by (metis One_nat_def gr0_implies_Suc not_gr_zero power_one_right)
    then have "n div 10 < 10 ^ j" using 1 by (simp add: less_mult_imp_div_less mult.commute)
    then have "length (dec (n div 10)) \<le> j" using 1 False k by blast
    then show ?thesis using False k by (subst dec.simps) simp
  qed
qed

lemma target_content_short: "n \<le> u32_max \<Longrightarrow> length (target_content n) \<le> max_observer_bytes"
  using dec_length [of n 10] by (simp add: target_content_def max_observer_bytes_def u32_max_def)

lemma target_file_counts:
  assumes "n \<le> u32_max"
  shows "file_observer decode path (Inr \<lparr> rd_bytes = target_content n, rd_broken = False \<rparr>) = Inr n"
proof -
  have "parse_u32 (trim (target_content n)) = Some n"
    using assms by (simp add: parse_u32_def target_content_seq parse_seq_file opt_filter_def u32_max_def u64_max_def)
  then show ?thesis
    using target_content_short [OF assms] target_content_ascii [of n]
    by (simp add: file_observer_def read_observer_output_def read_limited_def counted_output_def from_utf8_def
        utf8_ascii parse_worker_count_def with_context_def)
qed

lemma write_target_effect:
  assumes "write_target io path n s = (s', r)"
  shows "(r = Inr () \<longrightarrow> ts_target s' = Some (target_content n)) \<and> (r \<noteq> Inr () \<longrightarrow> ts_target s' = ts_target s)"
  using assms
  by (auto simp: write_target_def replace_target_def with_context_def split: sum.splits err.splits if_splits)

text \<open>Nothing is left beside the target when the temporary file can be removed.\<close>

lemma write_target_cleans:
  assumes "write_target io path n s = (s', r)" "ti_directory io = Inr ()" "ti_removes io"
  shows "ts_temp s' = None"
  using assms
  by (auto simp: write_target_def replace_target_def with_context_def split: sum.splits err.splits if_splits)

section \<open>Rendering\<close>

text \<open>An argument without a brace is passed as it is.\<close>

lemma replace_all_absent:
  assumes "c \<notin> set s"
  shows "replace_all (c # pat) new s = s"
  using assms
  by (induction "c # pat" new s rule: replace_all.induct) (auto simp: starts_with_def)

text \<open>What has been rendered depends on the count through its text only.\<close>

lemma render_argv_length [simp]: "length (render_argv argv n) = length argv"
  by (simp add: render_argv_def)

lemma render_argv_Nil [simp]: "render_argv argv n = [] \<longleftrightarrow> argv = []"
  by (simp add: render_argv_def)

section \<open>Captured programs\<close>

lemma kill_bound: "(\<And>t. ch_reaped ch t \<le> t + R) \<Longrightarrow> kill_worker_tree ch t \<le> t + R"
  by (simp add: kill_worker_tree_def)

definition group_closes :: "nat \<Rightarrow> pipe \<Rightarrow> bool" where
  "group_closes S p = (\<forall>t. \<exists>u. pp_killed p t = Some u \<and> u \<le> t + S)"

lemma reader_done_bound:
  assumes "group_closes S p"
  obtains u where "reader_done p t = Some u" "u \<le> t + S"
proof -
  obtain u where u: "pp_killed p t = Some u" "u \<le> t + S" using assms by (auto simp: group_closes_def)
  show thesis
  proof (cases "is_some_and (\<lambda>e. e \<le> t) (pp_ends p)")
    case True
    then obtain e where "pp_ends p = Some e" "e \<le> t" by (cases "pp_ends p") auto
    then show thesis using that [of e] by (simp add: reader_done_def)
  next
    case False
    then show thesis using that [of u] u by (simp add: reader_done_def)
  qed
qed

lemma abandon_bound:
  assumes "\<And>t. ch_reaped ch t \<le> t + R" "group_closes S (ch_stdout ch)" "group_closes S (ch_stderr ch)"
  obtains u where "abandon ch t e = Some (u, Inl e)" "u \<le> t + R + S"
proof -
  obtain a where a: "reader_done (ch_stdout ch) t = Some a" "a \<le> t + S" by (rule reader_done_bound [OF assms(2)])
  obtain b where b: "reader_done (ch_stderr ch) t = Some b" "b \<le> t + S" by (rule reader_done_bound [OF assms(3)])
  have "kill_worker_tree ch t \<le> t + R" by (rule kill_bound) (rule assms(1))
  then show thesis using that [of "max (max (kill_worker_tree ch t) a) b"] a b by (simp add: abandon_def join_at_def max.commute)
qed

lemma receive_outputs_bound:
  assumes "\<And>t. ch_reaped ch t \<le> t + R" "group_closes S (ch_stdout ch)" "group_closes S (ch_stderr ch)" "now \<le> timeout"
  shows "\<exists>t r. receive_outputs program ch timeout now captured ps = Some (t, r) \<and> t \<le> timeout + R + S
     \<and> ((\<exists>e. r = Inl e) \<or> t \<le> timeout)"
  using assms(4)
proof (induction ps arbitrary: now captured)
  case (Cons x ps)
  obtain is_stdout p where x: "x = (is_stdout, p)" by (cases x)
  show ?case
  proof (cases "opt_filter (\<lambda>t. t \<le> timeout) (pp_ends p)")
    case None
    obtain u where "abandon ch timeout (Bail (''command '' @ program @ '' timed out'')) =
        Some (u, Inl (Bail (''command '' @ program @ '' timed out'')) :: (string option \<times> string option) res)" "u \<le> timeout + R + S"
      by (rule abandon_bound [OF assms(1-3)])
    then show ?thesis using None by (auto simp: x)
  next
    case (Some t)
    then have t: "t \<le> timeout" by (auto simp: opt_filter_def split: option.splits if_splits)
    show ?thesis
    proof (cases "read_capped (pp_bytes p) max_child_output_bytes")
      case (Inl e)
      obtain u where "abandon ch t (Bail ''failed to read command output'') =
          Some (u, Inl (Bail ''failed to read command output'') :: (string option \<times> string option) res)" "u \<le> t + R + S"
        by (rule abandon_bound [OF assms(1-3)])
      then show ?thesis using Some Inl t by (auto simp: x)
    next
      case (Inr bytes)
      then show ?thesis using Some Cons.IH [OF t] by (simp add: x)
    qed
  qed
qed simp

text \<open>A captured program is answered for within twice its timeout, a poll and the time the dead take to go.\<close>

lemma capture_returns:
  assumes "\<And>i. ch_late ch i \<le> L" "\<And>t. ch_reaped ch t \<le> t + R" "group_closes S (ch_stdout ch)" "group_closes S (ch_stderr ch)"
  obtains t r where "capture_with_timeout program timeout ch = Some (t, r)"
    "t \<le> 2 * timeout + child_poll_interval + L + R + S"
proof -
  obtain t r where r: "receive_outputs program ch timeout 0 (None, None) (reports ch) = Some (t, r)"
      "t \<le> timeout + R + S" "(\<exists>e. r = Inl e) \<or> t \<le> timeout"
    using receive_outputs_bound [where ch = ch and now = 0 and timeout = timeout and R = R and S = S] assms by blast
  obtain t' r' where w: "wait_with_timeout ch (t + timeout) 0 t = (t', r')" by (cases "wait_with_timeout ch (t + timeout) 0 t")
  have "t' \<le> t + timeout + child_poll_interval + L + R"
    using wait_ends [of ch L R t "t + timeout" 0] assms(1,2) w by simp
  then have bound: "t' \<le> 2 * timeout + child_poll_interval + L + R + S" if "t \<le> timeout" using that by simp
  show thesis
  proof (cases "ch_spawns ch")
    case False
    then show thesis using that by (simp add: capture_with_timeout_def)
  next
    case spawns: True
    show thesis
    proof (cases r)
      case (Inl e)
      then show thesis using that [of t "Inl e"] r spawns by (simp add: capture_with_timeout_def)
    next
      case (Inr p)
      then have "t' \<le> 2 * timeout + child_poll_interval + L + R + S" using r(3) bound by simp
      then show thesis using that r(1) w spawns Inr
        by (cases p, cases r') (auto simp: capture_with_timeout_def)
    qed
  qed
qed

end
