(* ===== verification/Fleet_Io_Properties.thy ===== *)
theory Fleet_Io_Properties
  imports Fleet_Adapters
begin

text \<open>
  What is shown of the adapters: a target file is read back as it was written, a command actuator is never
  waited for beyond its timeout and its verdict is the child's, and a command observer returns as long as its
  child does not outlive its own output.
\<close>

section \<open>A world to look at\<close>

definition quiet_pipe :: "string \<Rightarrow> pipe" where
  "quiet_pipe out = \<lparr> pp_bytes = \<lparr> rd_bytes = out, rd_broken = False \<rparr>, pp_ends = Some 3, pp_killed = (\<lambda>t. Some (t + 1)) \<rparr>"

definition child1 :: "nat option \<Rightarrow> string \<Rightarrow> child" where
  "child1 exits out = \<lparr> ch_spawns = True, ch_stdout = quiet_pipe out, ch_stderr = quiet_pipe [], ch_exits = exits,
     ch_success = True, ch_status = ''exit status: 0'', ch_reaped = (\<lambda>t. t + 2), ch_poll_fails = (\<lambda>i. False),
     ch_late = (\<lambda>i. 1) \<rparr>"

definition disk_io :: "unit res \<Rightarrow> target_io" where
  "disk_io sync = \<lparr> ti_directory = Inr (), ti_create = Inr (), ti_write = Inr (), ti_written = 0, ti_sync = sync,
     ti_rename = Inr (), ti_removes = True \<rparr>"

definition world1 :: adapter_world where
  "world1 = \<lparr> aw_decode = (\<lambda>s. None), aw_open = (\<lambda>p. Inr ()), aw_broken = (\<lambda>p. False), aw_target = (\<lambda>p. disk_io (Inr ())),
     aw_observer = (\<lambda>argv. child1 (Some 5) ''7''), aw_token = (\<lambda>argv n. dec n), aw_actuator = (\<lambda>argv token. child1 (Some 5) []),
     aw_program = (\<lambda>p args. child1 (Some 5) []), aw_needle = (\<lambda>i args. child1 (Some 5) []), aw_chrono = chrono_ref,
     aw_now = 0, aw_heartbeats = (\<lambda>dir. Inr None), aw_demand = (\<lambda>p. Inl (Bail ''no demand'')),
     aw_seed_heartbeats = (\<lambda>dir. Inr None) \<rparr>"

lemma child1_simps [simp]:
  "ch_spawns (child1 x out)" "ch_stdout (child1 x out) = quiet_pipe out" "ch_exits (child1 x out) = x"
  "ch_success (child1 x out)" "ch_reaped (child1 x out) t = t + 2" "\<not> ch_poll_fails (child1 x out) i"
  "ch_late (child1 x out) i = 1"
  by (simp_all add: child1_def)

lemma quiet_pipe_simps [simp]:
  "pp_bytes (quiet_pipe out) = \<lparr> rd_bytes = out, rd_broken = False \<rparr>" "pp_ends (quiet_pipe out) = Some 3"
  "group_closes (Suc 0) (quiet_pipe out)"
  by (simp_all add: quiet_pipe_def group_closes_def)

lemma world1_simps [simp]: "aw_open world1 p = Inr ()" "\<not> aw_broken world1 p" "aw_target world1 p = disk_io (Inr ())"
  by (simp_all add: world1_def)

section \<open>Target files\<close>

text \<open>C36: A target file is read back as it was written.  When a target-file actuator succeeds, a file observer of
  the same path reports exactly the desired count, on whatever the file held before; when it fails, at any step, an
  observer reports what it reported before.  No other target changes, and as soon as the temporary file can be
  removed none is left, so that a file left by an earlier crash fails at most one actuation.\<close>

theorem target_file_reads_back:
  assumes "actuator_for w (TargetFile path) n excluded d = Some (d', r)" "n \<le> u32_max"
    and "aw_open w path = Inr ()" "\<not> aw_broken w path"
  shows "observer_for w (ObsFile path) takeover d'
         = (if r = Inr () then Some (Inr (n, 0)) else observer_for w (ObsFile path) takeover d)
     \<and> (\<forall>q. q \<noteq> path \<longrightarrow> d' q = d q)
     \<and> (ti_directory (aw_target w path) = Inr () \<and> ti_removes (aw_target w path) \<longrightarrow> ts_temp (d' path) = None)"
proof -
  obtain slot where slot: "write_target (aw_target w path) path n (d path) = (slot, r)" "d' = d(path := slot)"
    using assms(1) by (auto simp: actuator_for_def split: prod.splits)
  have "ts_target slot = (if r = Inr () then Some (target_content n) else ts_target (d path))"
    using write_target_effect [OF slot(1)] by simp
  then have "open_file w path d' = (if r = Inr () then Inr \<lparr> rd_bytes = target_content n, rd_broken = False \<rparr> else open_file w path d)"
    using assms(3,4) by (simp add: open_file_def slot(2))
  then show ?thesis
    using write_target_cleans [OF slot(1)] target_file_counts [OF assms(2)] by (simp add: observer_for_def slot(2))
qed

theorem target_file_reads_back_witness:
  "(case actuator_for world1 (TargetFile ''target'') 3 [] (\<lambda>p. \<lparr> ts_target = Some ''9'', ts_temp = None \<rparr>) of
      Some (d, Inr u) \<Rightarrow> observer_for world1 (ObsFile ''target'') [] d = Some (Inr (3, 0)) \<and> ts_temp (d ''target'') = None
    | _ \<Rightarrow> False)"
proof -
  let ?d = "\<lambda>p. \<lparr> ts_target = Some ''9'', ts_temp = None \<rparr>"
  obtain d r where d: "actuator_for world1 (TargetFile ''target'') 3 [] ?d = Some (d, r)" "r = Inr ()"
    by (simp add: actuator_for_def write_target_def replace_target_def disk_io_def)
  show ?thesis
    using target_file_reads_back [OF d(1), where takeover = "[]"] d by (simp add: disk_io_def u32_max_def)
qed

section \<open>Commands\<close>

text \<open>C37: A command actuator is never waited for beyond its timeout: whatever its child does, the call returns by
  the timeout, one poll, the lateness of the sleep and the time the killed group takes to be reaped.  A child that
  exits before the timeout is not killed and its own exit status decides, within a poll of its exit; and success is
  reported only for a child that was spawned, has exited and was successful.\<close>

theorem command_actuator_returns:
  assumes "command_actuator_actuate token spawn argv n timeout = (t, r)" "argv \<noteq> []"
    and ch: "ch = spawn (render_argv argv n) (token (render_argv argv n) n)"
    and "\<forall>i. ch_late ch i \<le> L" "\<forall>t. ch_reaped ch t \<le> t + R"
  shows "t \<le> timeout + child_poll_interval + L + R
     \<and> (r = Inr () \<longrightarrow> ch_spawns ch \<and> exited ch t \<and> ch_success ch)
     \<and> (\<forall>e. ch_spawns ch \<and> (\<forall>i. \<not> ch_poll_fails ch i) \<and> ch_exits ch = Some e \<and> e < timeout
          \<longrightarrow> (r = Inr ()) = ch_success ch \<and> t \<le> e + child_poll_interval + L)"
proof -
  obtain program args where argv: "render_argv argv n = program # args"
    using assms(2) by (cases "render_argv argv n") auto
  obtain u s where w: "wait_with_timeout ch timeout 0 0 = (u, s)" by (cases "wait_with_timeout ch timeout 0 0")
  have result: "(t, r) = (if \<not> ch_spawns ch then (0, Inl (Bail (''failed to execute fleet actuator '' @ program)))
      else (u, case s of Inl e \<Rightarrow> with_context (''fleet actuator '' @ program) (Inl e)
        | Inr (success, status) \<Rightarrow> if success then Inr () else Inl (Bail (''fleet actuator '' @ program @ '' exited with '' @ status))))"
    using assms(1) w unfolding command_actuator_actuate_def argv ch
    by (auto simp: Let_def split: sum.splits prod.splits if_splits)
  have late: "u \<le> timeout + child_poll_interval + L + R"
    using wait_ends [of ch L R 0 timeout 0] assms(4,5) w by simp
  have status: "v = (ch_success ch, ch_status ch) \<and> exited ch u" if "s = Inr v" for v
    using wait_status w that by blast
  have prompt: "s = Inr (ch_success ch, ch_status ch) \<and> u \<le> e + child_poll_interval + L"
    if "\<forall>i. \<not> ch_poll_fails ch i" "ch_exits ch = Some e" "e < timeout" for e
    using wait_reports [of ch L e timeout 0 0] assms(4) that w by simp
  have ok: "(r = Inr ()) = (ch_spawns ch \<and> s = Inr (ch_success ch, ch_status ch) \<and> ch_success ch)"
  proof (cases s)
    case (Inl e)
    then show ?thesis using result by (cases e) (simp_all add: with_context_def split: if_splits)
  next
    case (Inr v)
    then show ?thesis using result status [OF Inr] by (simp split: if_splits)
  qed
  have t: "t = (if ch_spawns ch then u else 0)" using result by (simp split: if_splits)
  have "t \<le> timeout + child_poll_interval + L + R" using late t by simp
  moreover have "r = Inr () \<longrightarrow> ch_spawns ch \<and> exited ch t \<and> ch_success ch" using ok t status by auto
  moreover have "(r = Inr ()) = ch_success ch \<and> t \<le> e + child_poll_interval + L"
    if "ch_spawns ch \<and> (\<forall>i. \<not> ch_poll_fails ch i) \<and> ch_exits ch = Some e \<and> e < timeout" for e
    using ok t prompt [of e] that by simp
  ultimately show ?thesis by blast
qed

theorem command_actuator_returns_witness:
  "(case command_actuator_actuate (\<lambda>argv n. dec n) (\<lambda>argv token. child1 None []) [''scale''] 3 100 of
      (t, r) \<Rightarrow> t \<le> 123 \<and> r \<noteq> Inr ())
   \<and> snd (command_actuator_actuate (\<lambda>argv n. dec n) (\<lambda>argv token. child1 (Some 30) []) [''scale''] 3 100) = Inr ()"
proof -
  let ?run = "\<lambda>exits. command_actuator_actuate (\<lambda>argv n. dec n) (\<lambda>argv token. child1 exits []) [''scale''] 3 100"
  obtain t r where h: "?run None = (t, r)" by (cases "?run None")
  obtain t' r' where f: "?run (Some 30) = (t', r')" by (cases "?run (Some 30)")
  have "t \<le> 123 \<and> r \<noteq> Inr ()"
    using command_actuator_returns [OF h, where ch = "child1 None []" and L = 1 and R = 2]
    by (simp add: child_poll_interval_def exited_def)
  moreover have "r' = Inr ()"
    using command_actuator_returns [OF f, where ch = "child1 (Some 30) []" and L = 1 and R = 2] by simp
  ultimately show ?thesis using h f by simp
qed

lemma command_observer_bound:
  assumes "\<forall>t. ch_reaped ch t \<le> t + R" "group_closes S (ch_stdout ch)"
    and "\<forall>e. pp_ends (ch_stdout ch) = Some e \<longrightarrow> (\<exists>x. ch_exits ch = Some x \<and> x \<le> e + G)"
  shows "\<exists>t r. command_observer_current_workers decode argv timeout ch = Some (t, r)
     \<and> t \<le> timeout + R + S + G
     \<and> (\<forall>n. r = Inr n \<longrightarrow> n \<le> u32_max \<and> ch_success ch \<and> exited ch t
          \<and> length (rd_bytes (pp_bytes (ch_stdout ch))) \<le> max_observer_bytes
          \<and> is_some_and (\<lambda>e. e \<le> timeout) (pp_ends (ch_stdout ch)))"
proof (cases "argv = [] \<or> \<not> ch_spawns ch")
  case True
  then show ?thesis by (auto simp: command_observer_current_workers_def split: list.splits)
next
  case False
  then obtain program args where argv: "argv = program # args" "ch_spawns ch" by (cases argv) auto
  have killed: "kill_worker_tree ch t \<le> t + R" for t by (rule kill_bound) (use assms(1) in simp)
  show ?thesis
  proof (cases "opt_filter (\<lambda>t. t \<le> timeout) (pp_ends (ch_stdout ch))")
    case None
    obtain u where "reader_done (ch_stdout ch) timeout = Some u" "u \<le> timeout + S"
      by (rule reader_done_bound [OF assms(2)])
    then show ?thesis using None argv killed [of timeout]
      by (auto simp: command_observer_current_workers_def join_at_def)
  next
    case (Some e)
    then have e: "pp_ends (ch_stdout ch) = Some e" "e \<le> timeout"
      by (auto simp: opt_filter_def split: option.splits if_splits)
    obtain x where x: "ch_exits ch = Some x" "x \<le> e + G" using assms(3) e(1) by blast
    have small: "n \<le> u32_max" if "counted_output decode m b = Inr n" for m b n
      using that by (auto simp: counted_output_def parse_worker_count_def parse_u32_def opt_filter_def
          split: option.splits if_splits)
    show ?thesis
    proof (cases "read_observer_output (pp_bytes (ch_stdout ch)) max_observer_bytes")
      case (Inl err)
      then show ?thesis using Some argv killed [of e] e by (auto simp: command_observer_current_workers_def)
    next
      case (Inr bytes)
      then have "length (rd_bytes (pp_bytes (ch_stdout ch))) \<le> max_observer_bytes"
        by (auto simp: read_observer_output_def read_limited_def Let_def split: if_splits)
      then show ?thesis using Some Inr argv e x small
        by (auto simp: command_observer_current_workers_def exited_def)
    qed
  qed
qed

text \<open>
  The proviso on the exit is needed: a child that closes its output in time and stays is waited for without end,
  whatever the timeout, and no process group is killed.
\<close>

lemma closed_output_hangs_observer:
  assumes "ch_spawns ch" "argv \<noteq> []" "pp_ends (ch_stdout ch) = Some e" "e \<le> timeout" "ch_exits ch = None"
    and "read_observer_output (pp_bytes (ch_stdout ch)) max_observer_bytes = Inr bytes"
  shows "command_observer_current_workers decode argv timeout ch = None"
  using assms by (cases argv) (simp_all add: command_observer_current_workers_def opt_filter_def)

text \<open>C38: A command observer returns, by its timeout and the time its child and its process group take to go,
  provided that no process outside the group keeps the pipe open and that a child which has closed its output exits
  within a while.  A count is then reported only for a child that has exited successfully after at most 4096 bytes,
  all of them received in time, and it fits in 32 bits.  The last proviso is needed, as the wait for the exit has no
  timeout: the observer never returns when the child closes its output in time and keeps running.\<close>

theorem command_observer_returns:
  assumes "argv \<noteq> []" "ch_spawns ch" "\<forall>t. ch_reaped ch t \<le> t + R" "group_closes S (ch_stdout ch)"
  shows "((\<forall>e. pp_ends (ch_stdout ch) = Some e \<longrightarrow> (\<exists>x. ch_exits ch = Some x \<and> x \<le> e + G)) \<longrightarrow>
       (\<exists>t r. command_observer_current_workers decode argv timeout ch = Some (t, r) \<and> t \<le> timeout + R + S + G
        \<and> (\<forall>n. r = Inr n \<longrightarrow> n \<le> u32_max \<and> ch_success ch \<and> exited ch t
             \<and> length (rd_bytes (pp_bytes (ch_stdout ch))) \<le> max_observer_bytes
             \<and> is_some_and (\<lambda>e. e \<le> timeout) (pp_ends (ch_stdout ch)))))
    \<and> (\<forall>e bytes. pp_ends (ch_stdout ch) = Some e \<and> e \<le> timeout \<and> ch_exits ch = None
         \<and> read_observer_output (pp_bytes (ch_stdout ch)) max_observer_bytes = Inr bytes
       \<longrightarrow> command_observer_current_workers decode argv timeout ch = None)"
  using command_observer_bound [OF assms(3,4)] closed_output_hangs_observer [OF assms(2,1)] by blast

theorem command_observer_returns_witness:
  "(\<exists>t r. command_observer_current_workers (\<lambda>s. None) [''count''] 100 (child1 (Some 5) ''7'') = Some (t, r) \<and> t \<le> 105)
   \<and> command_observer_current_workers (\<lambda>s. None) [''count''] 100 (child1 None ''7'') = None"
proof
  show "\<exists>t r. command_observer_current_workers (\<lambda>s. None) [''count''] 100 (child1 (Some 5) ''7'') = Some (t, r) \<and> t \<le> 105"
    using command_observer_returns [where ch = "child1 (Some 5) ''7''" and R = 2 and S = 1 and G = 2
        and decode = "\<lambda>s. None" and argv = "[''count'']" and timeout = 100] by auto
  show "command_observer_current_workers (\<lambda>s. None) [''count''] 100 (child1 None ''7'') = None"
    using command_observer_returns [where ch = "child1 None ''7''" and R = 2 and S = 1 and G = 2
        and decode = "\<lambda>s. None" and argv = "[''count'']" and timeout = 100]
    by (simp add: read_observer_output_def read_limited_def max_observer_bytes_def)
qed

end
