(* ===== verification/Cycle_World.thy ===== *)
theory Cycle_World
  imports Fleet Saturation Backpressure Shared_Total Peer_Table Ownership
begin

text \<open>
  \<open>src/main.rs\<close>, the ground of the control cycle: what a cycle may change (\<open>cycle_world\<close>), what it reads from
  outside (\<open>cycle_env\<close>), steps that may fail for one account, and the readiness and metrics a cycle reports.
  Printing is not modelled.
\<close>

section \<open>Failures\<close>

text \<open>\<open>AccountFailure\<close>; a panic is not caught by the cycle and ends the process.\<close>

datatype account_failure = Observation string | Actuation string | Crash string

fun failure_of :: "(string \<Rightarrow> account_failure) \<Rightarrow> err \<Rightarrow> account_failure" where
  "failure_of kind (Bail e) = kind e"
| "failure_of kind (Panic e) = Crash e"

definition as_failure :: "(string \<Rightarrow> account_failure) \<Rightarrow> 'a res \<Rightarrow> account_failure + 'a" where
  "as_failure kind r = (case r of Inl e \<Rightarrow> Inl (failure_of kind e) | Inr x \<Rightarrow> Inr x)"

section \<open>Readiness\<close>

datatype readiness_state = HealthyLearning | IntentionalHold | ProviderFailure | StaleDrain | ActuationFailure

record account_readiness =
  ar_state :: readiness_state
  ar_reason :: string
  ar_updated_at :: datetime
  ar_observed_at :: "datetime option"
  ar_current :: "nat option"
  ar_desired :: "nat option"

definition binding_of :: "decision \<Rightarrow> window_decision option" where
  "binding_of d = or_opt
     (Option.bind (dc_binding d) (\<lambda>i. find (\<lambda>w. wd_id w = i) (dc_windows d)))
     (find (\<lambda>w. wd_desired w = dc_desired d) (dc_windows d))"

definition intentional_hold :: "decision \<Rightarrow> bool" where
  "intentional_hold d = (list_ex (\<lambda>w. wd_reason w = ''target_reached'') (dc_windows d)
     \<or> is_some_and bd_manual (dc_banked d))"

definition readiness_for_decision :: "datetime \<Rightarrow> decision \<Rightarrow> account_readiness" where
  "readiness_for_decision t d =
     (let base = \<lparr> ar_state = HealthyLearning, ar_reason = '''', ar_updated_at = t,
            ar_observed_at = Some (dc_observed_at d), ar_current = Some (dc_current d), ar_desired = Some (dc_desired d) \<rparr>
      in if dc_stale d then base\<lparr> ar_state := StaleDrain, ar_reason := ''stale_data_holding'' \<rparr>
         else if intentional_hold d then base\<lparr> ar_state := IntentionalHold, ar_reason := ''target_reached'' \<rparr>
         else base\<lparr> ar_reason := unwrap_or ''healthy'' (map_option wd_reason (binding_of d)) \<rparr>)"

fun failure_state :: "account_failure \<Rightarrow> readiness_state \<times> string" where
  "failure_state (Actuation e) = (ActuationFailure, ''actuator_error'')"
| "failure_state _ = (ProviderFailure, ''source_or_observer_error'')"

definition readiness_for_failure :: "datetime \<Rightarrow> account_failure \<Rightarrow> account_readiness" where
  "readiness_for_failure t f = \<lparr> ar_state = fst (failure_state f), ar_reason = snd (failure_state f),
     ar_updated_at = t, ar_observed_at = None, ar_current = None, ar_desired = None \<rparr>"

section \<open>Metrics\<close>

record window_metrics =
  wm_id :: string
  wm_used_fraction :: f64
  wm_target :: f64
  wm_seconds_until_reset :: nat

record host_resource_utilization =
  hu_cpu :: f64
  hu_memory :: "f64 option"

record host_metrics =
  hm_host_id :: string
  hm_utilization :: "host_resource_utilization option"
  hm_placed :: nat

record host_decision_record =
  hd_host_id :: string
  hd_resource :: "resource_snapshot option"
  hd_current :: nat
  hd_headroom :: f64
  hd_fresh :: bool
  hd_eligible :: bool
  hd_target :: nat

record account_metrics =
  am_time :: datetime
  am_account :: string
  am_source_success :: bool
  am_sample_age :: "nat option"
  am_current :: "nat option"
  am_desired :: "nat option"
  am_reason :: "string option"
  am_binding :: "string option"
  am_windows :: "window_metrics list"
  am_hosts :: "host_metrics list option"
  am_attempted :: bool
  am_succeeded :: "bool option"

definition new_metrics :: "string \<Rightarrow> datetime \<Rightarrow> account_metrics" where
  "new_metrics account time = \<lparr> am_time = time, am_account = account, am_source_success = False, am_sample_age = None, am_current = None,
     am_desired = None, am_reason = None, am_binding = None, am_windows = [], am_hosts = None,
     am_attempted = False, am_succeeded = None \<rparr>"

definition apply_decision :: "chrono \<Rightarrow> decision \<Rightarrow> string \<Rightarrow> datetime \<Rightarrow> account_metrics \<Rightarrow> account_metrics" where
  "apply_decision ch d reason now m = m\<lparr> am_desired := Some (dc_desired d), am_reason := Some reason,
     am_binding := dc_binding d,
     am_windows := map (\<lambda>w. \<lparr> wm_id = wd_id w, wm_used_fraction = wd_used_fraction w, wm_target = wd_target w,
       wm_seconds_until_reset = max0_as_u64 (num_seconds ch (wd_resets_at w - now)) \<rparr>) (dc_windows d) \<rparr>"

definition resource_utilization :: "resource_snapshot \<Rightarrow> host_resource_utilization" where
  "resource_utilization s = \<lparr> hu_cpu = fsub (f_lit 1) (rs_cpu_available s),
     hu_memory = (if 0 < rs_mem_total_mb s
       then Some (fsub (f_lit 1) (fdiv (f_of_nat (rs_mem_available_mb s)) (f_of_nat (rs_mem_total_mb s)))) else None) \<rparr>"

definition apply_host_placements :: "host_decision_record list \<Rightarrow> account_metrics \<Rightarrow> account_metrics" where
  "apply_host_placements hosts m = m\<lparr> am_hosts := Some (map (\<lambda>h. \<lparr> hm_host_id = hd_host_id h,
     hm_utilization = map_option resource_utilization (hd_resource h), hm_placed = hd_target h \<rparr>) hosts) \<rparr>"

definition host_decision_records ::
  "host_placement list \<Rightarrow> (string, resource_snapshot) bmap \<Rightarrow> host_decision_record list" where
  "host_decision_records ps resources = map (\<lambda>p. \<lparr> hd_host_id = hp_host_id p,
     hd_resource = bm_get resources (hp_host_id p), hd_current = hp_current p, hd_headroom = hp_headroom p,
     hd_fresh = hp_fresh p, hd_eligible = hp_eligible p, hd_target = hp_target p \<rparr>) ps"

section \<open>The world of a cycle\<close>

text \<open>\<open>FederationRuntime\<close>.\<close>

record federation_runtime =
  fr_table :: peer_table
  fr_records :: "(string, peer_record) bmap"

text \<open>
  What a cycle changes: the state in memory, the federation runtime, the pending-launch and the exclusion file,
  the invocations made, and the metrics of the account at hand.
\<close>

record cycle_world =
  cw_state :: gov_state
  cw_runtime :: "federation_runtime option"
  cw_pending :: pending_map
  cw_exclusions :: "(string, string) bmap"
  cw_acts :: "invocation list"
  cw_metrics :: account_metrics

text \<open>
  What a cycle reads: per account the quota source, the fleet and the resource sources, the clocks at the points
  where the code reads them, the answers of the peers at the start of the cycle (\<open>None\<close>) and before an
  account's launch, the files of the local record and of the disk.
\<close>

record cycle_env =
  en_ch :: chrono
  en_source :: "string \<Rightarrow> source_config \<Rightarrow> quota_snapshot res"
  en_fleet :: "string \<Rightarrow> fleet_io"
  en_resource :: "string \<Rightarrow> string \<Rightarrow> resource_source_config \<Rightarrow> resource_snapshot res"
  en_began_at :: "string \<Rightarrow> datetime"
  en_now :: "string \<Rightarrow> datetime"
  en_reported_at :: "string \<Rightarrow> datetime"
  en_start :: datetime
  en_ingest_moment :: "string \<Rightarrow> peer_moment"
  en_moment :: "string \<Rightarrow> peer_moment"
  en_expiry_moment :: "string \<Rightarrow> peer_moment"
  en_received_at :: "string \<Rightarrow> datetime"
  en_pull :: "string option \<Rightarrow> peer_config \<Rightarrow> peer_record option"
  en_files :: local_files
  en_writable :: bool
  en_disk :: "pending_map \<Rightarrow> bool"
  en_shutdown :: "string \<Rightarrow> bool"

section \<open>Steps\<close>

type_synonym 'a step = "cycle_world \<Rightarrow> (account_failure + 'a) \<times> cycle_world"

definition step_return :: "'a \<Rightarrow> 'a step" where
  "step_return x = (\<lambda>w. (Inr x, w))"

definition step_bind :: "'a step \<Rightarrow> ('a \<Rightarrow> 'b step) \<Rightarrow> 'b step" where
  "step_bind m f = (\<lambda>w. case m w of (Inl e, w') \<Rightarrow> (Inl e, w') | (Inr x, w') \<Rightarrow> f x w')"

definition step_read :: "(cycle_world \<Rightarrow> 'a) \<Rightarrow> 'a step" where
  "step_read f = (\<lambda>w. (Inr (f w), w))"

definition step_update :: "(cycle_world \<Rightarrow> cycle_world) \<Rightarrow> unit step" where
  "step_update f = (\<lambda>w. (Inr (), f w))"

definition step_try :: "(string \<Rightarrow> account_failure) \<Rightarrow> 'a res \<Rightarrow> 'a step" where
  "step_try kind r = (\<lambda>w. (as_failure kind r, w))"

definition step_metrics :: "(account_metrics \<Rightarrow> account_metrics) \<Rightarrow> unit step" where
  "step_metrics f = step_update (\<lambda>w. w\<lparr> cw_metrics := f (cw_metrics w) \<rparr>)"

text \<open>An action of the fleet: its invocations are made whether or not it succeeds.\<close>

definition step_act :: "'a acts \<Rightarrow> 'a step" where
  "step_act m = (\<lambda>w. (as_failure Actuation (snd m), w\<lparr> cw_acts := cw_acts w @ fst m \<rparr>))"

text \<open>A relation between the world before and after holds of a step; it composes when it is a preorder.\<close>

definition keeps :: "(cycle_world \<Rightarrow> cycle_world \<Rightarrow> bool) \<Rightarrow> 'a step \<Rightarrow> bool" where
  "keeps R m = (\<forall>w. R w (snd (m w)))"

locale step_relation =
  fixes R :: "cycle_world \<Rightarrow> cycle_world \<Rightarrow> bool"
  assumes R_refl: "R w w"
    and R_trans: "R w w' \<Longrightarrow> R w' w'' \<Longrightarrow> R w w''"
begin

lemma return: "keeps R (step_return x)"
  by (simp add: keeps_def step_return_def R_refl)

lemma read: "keeps R (step_read f)"
  by (simp add: keeps_def step_read_def R_refl)

lemma attempt: "keeps R (step_try kind r)"
  by (simp add: keeps_def step_try_def R_refl)

lemma bind: "keeps R m \<Longrightarrow> (\<And>x. keeps R (f x)) \<Longrightarrow> keeps R (step_bind m f)"
  unfolding keeps_def step_bind_def
  by (clarsimp split: prod.split sum.split) (metis R_trans snd_conv)

lemma update: "(\<And>w. R w (f w)) \<Longrightarrow> keeps R (step_update f)"
  by (simp add: keeps_def step_update_def)

lemma cond: "(c \<Longrightarrow> keeps R m) \<Longrightarrow> (\<not> c \<Longrightarrow> keeps R n) \<Longrightarrow> keeps R (if c then m else n)"
  by simp

lemmas intros = return read attempt bind cond

text \<open>A bind either fails in its first step or goes on behind it; the relation reaches as far.\<close>

lemma bind_cases:
  assumes "step_bind m f w0 = (r, w')" "R w w0" "keeps R m"
  obtains (failed) e where "r = Inl e" "R w w'"
  | (went) x w1 where "m w0 = (Inr x, w1)" "R w w1" "f x w1 = (r, w')"
proof -
  have "R w (snd (m w0))" using assms(2,3) R_trans unfolding keeps_def by blast
  then show ?thesis using assms(1) that by (auto simp: step_bind_def split: prod.splits sum.splits)
qed

end

end
