(* ===== verification/Cycle_Federation.thy ===== *)
theory Cycle_Federation
  imports Cycle_World
begin

text \<open>
  \<open>src/main.rs\<close>, the federated part of a cycle: the runtime that keeps the accepted peer records, the shared
  decision of an account, the ownership view at the start of a cycle and the gate before a launch.
\<close>

definition federated :: "config \<Rightarrow> bool" where
  "federated cfg = is_some_and (\<lambda>f. fc_peers f \<noteq> []) (cf_federation cfg)"

section \<open>The runtime\<close>

definition new_runtime :: "federation_config \<Rightarrow> instant \<Rightarrow> federation_runtime" where
  "new_runtime f started = \<lparr> fr_table = new_table f started, fr_records = [] \<rparr>"

definition ingest_record ::
  "chrono \<Rightarrow> federation_config \<Rightarrow> (string \<Rightarrow> peer_moment) \<Rightarrow> federation_runtime \<Rightarrow> peer_record \<Rightarrow> federation_runtime" where
  "ingest_record ch f moment rt r =
     (case find (\<lambda>p. pc_host_id p = pr_host_id r) (fc_peers f) of
        None \<Rightarrow> rt
      | Some p \<Rightarrow> (case ingest ch (fr_table rt) p (Some r) (moment (pr_host_id r)) of
          (t, Inr _) \<Rightarrow> \<lparr> fr_table = t, fr_records = bm_put (pr_host_id r) r (fr_records rt) \<rparr>
        | (t, Inl _) \<Rightarrow> rt\<lparr> fr_table := t \<rparr>))"

definition drain_runtime :: "federation_runtime \<Rightarrow> federation_runtime" where
  "drain_runtime rt = rt\<lparr> fr_table := fst (drain_events (fr_table rt)) \<rparr>"

definition ingest_cycle ::
  "chrono \<Rightarrow> federation_config \<Rightarrow> (string \<Rightarrow> peer_moment) \<Rightarrow> ownership_cycle \<Rightarrow> federation_runtime \<Rightarrow> federation_runtime" where
  "ingest_cycle ch f moment oc rt = drain_runtime (foldl (ingest_record ch f moment) rt (oc_records oc))"

fun expired_peers :: "peer_table \<Rightarrow> peer_moment \<Rightarrow> peer_config list \<Rightarrow> peer_table \<times> string list" where
  "expired_peers t moment [] = (t, [])"
| "expired_peers t moment (p # ps) =
     (case freshness t (pc_host_id p) moment of (t, fr) \<Rightarrow>
        (case expired_peers t moment ps of (t, hs) \<Rightarrow>
           (t, if fr = Some Expired then pc_host_id p # hs else hs)))"

definition expired_hosts ::
  "federation_config \<Rightarrow> peer_moment \<Rightarrow> federation_runtime \<Rightarrow> federation_runtime \<times> string list" where
  "expired_hosts f moment rt = (case expired_peers (fr_table rt) moment (fc_peers f) of (t, hs) \<Rightarrow>
     (rt\<lparr> fr_table := t \<rparr>, hs))"

section \<open>The shared decision\<close>

definition configured_limit :: "account_config \<Rightarrow> string \<Rightarrow> nat option" where
  "configured_limit a host = Option.bind (Option.bind (fl_hosts (ac_fleet a)) (\<lambda>hs. bm_get hs host)) hc_max_workers"

definition host_limit :: "account_config \<Rightarrow> string \<Rightarrow> nat" where
  "host_limit a host = unwrap_or (fl_max_workers (ac_fleet a)) (configured_limit a host)"

definition local_host :: "federation_config \<Rightarrow> peer_record \<Rightarrow> account_config \<Rightarrow> peer_account \<Rightarrow> nat \<Rightarrow> federation_host" where
  "local_host f record a la workers = \<lparr> fh_host_id = fc_host_id f, fh_workers = workers,
     fh_ceiling = min (case pr_host_ceiling record of None \<Rightarrow> host_limit a (fc_host_id f) | Some c \<Rightarrow> ph_workers c)
       (host_limit a (fc_host_id f)),
     fh_ready_demand = sat_sum (map (\<lambda>p. worker_bound (pp_ready_demand p)) (bm_vals (pa_pools la))) \<rparr>"

definition recent_sample :: "chrono \<Rightarrow> account_config \<Rightarrow> datetime \<Rightarrow> datetime \<Rightarrow> bool" where
  "recent_sample ch a now observed = (num_seconds ch (now - observed) \<le> as_i64 (ut_stale_after (ac_util a)))"

definition local_samples :: "chrono \<Rightarrow> account_config \<Rightarrow> quota_snapshot \<Rightarrow> datetime \<Rightarrow> peer_quota_sample list" where
  "local_samples ch a sn now = (if qs_fresh sn \<and> recent_sample ch a now (qs_observed_at sn)
     then (case qs_windows sn of [] \<Rightarrow> []
       | w # _ \<Rightarrow> [\<lparr> pq_window = qw_id w, pq_used_fraction = qw_used_fraction w, pq_resets_at = qw_resets_at w,
           pq_observed_at = qs_observed_at sn \<rparr>])
     else [])"

definition peer_host :: "account_config \<Rightarrow> string \<Rightarrow> peer_record \<Rightarrow> account_view \<Rightarrow> federation_host" where
  "peer_host a host record v = \<lparr> fh_host_id = host, fh_workers = pas_workers v,
     fh_ceiling = min (case pr_host_ceiling record of None \<Rightarrow> fl_max_workers (ac_fleet a) | Some c \<Rightarrow> ph_workers c)
       (host_limit a host),
     fh_ready_demand = pas_ready_demand v \<rparr>"

text \<open>The peers that share the account, with their samples; the table answers a query and may queue an event.\<close>

fun peer_hosts ::
  "chrono \<Rightarrow> account_config \<Rightarrow> string \<Rightarrow> peer_account \<Rightarrow> (string, peer_record) bmap \<Rightarrow> peer_moment \<Rightarrow> datetime
     \<Rightarrow> peer_table \<Rightarrow> peer_config list \<Rightarrow> peer_table \<times> (federation_host list \<times> peer_quota_sample list) res" where
  "peer_hosts ch a name la records moment now t [] = (t, Inr ([], []))"
| "peer_hosts ch a name la records moment now t (p # ps) =
     (case Option.bind (bm_get records (pc_host_id p)) (\<lambda>r.
             map_option (Pair r) (opt_filter (\<lambda>pa. shares_account_total (classify_account la pa))
               (bm_get (pr_accounts r) name))) of
        None \<Rightarrow> peer_hosts ch a name la records moment now t ps
      | Some (r, pa) \<Rightarrow> (case peer_account_snapshot t (pc_host_id p) name moment of
          (t, None) \<Rightarrow> (t, Inl (Panic ''configured peer has a snapshot''))
        | (t, Some v) \<Rightarrow> (case peer_hosts ch a name la records moment now t ps of (t, rest) \<Rightarrow>
            (t, bind_res rest (\<lambda>(hosts, samples). Inr (peer_host a (pc_host_id p) r v # hosts,
               (case opt_filter (\<lambda>s. recent_sample ch a now (pq_observed_at s)) (pas_quota_sample v) of
                  None \<Rightarrow> samples | Some s \<Rightarrow> s # samples)))))))"

definition runtime_decision ::
  "chrono \<Rightarrow> federation_config \<Rightarrow> peer_record \<Rightarrow> string \<Rightarrow> account_config \<Rightarrow> quota_snapshot \<Rightarrow> account_state \<Rightarrow> nat
     \<Rightarrow> datetime \<Rightarrow> peer_moment \<Rightarrow> federation_runtime \<Rightarrow> federation_runtime \<times> (shared_decision \<times> bool) res" where
  "runtime_decision ch f record name a sn prior workers now moment rt =
     (case bm_get (pr_accounts record) name of
        None \<Rightarrow> (rt, Inl (Bail (''local peer record has no account '' @ name)))
      | Some la \<Rightarrow>
          (case peer_hosts ch a name la (fr_records rt) moment now (fr_table rt) (fc_peers f) of
             (t, Inl e) \<Rightarrow> (rt\<lparr> fr_table := t \<rparr>, Inl e)
           | (t, Inr (hosts, samples)) \<Rightarrow>
               (case any_peer_stale t moment of (t, stale) \<Rightarrow>
                  (drain_runtime (rt\<lparr> fr_table := t \<rparr>),
                   bind_res (shared_account_total ch name a prior (local_host f record a la workers # hosts)
                       (local_samples ch a sn now @ samples) now)
                     (\<lambda>d. Inr (d, stale))))))"

section \<open>Ownership\<close>

text \<open>A refresh with the local projections; it leaves the exclusion file.\<close>

definition refresh ::
  "cycle_env \<Rightarrow> config \<Rightarrow> string option \<Rightarrow> (string, string) bmap \<Rightarrow> ((string, string) bmap \<times> ownership_cycle) res" where
  "refresh env cfg occasion stored =
     refresh_ownership (en_writable env) cfg (en_pull env occasion) (local_worker_prefixes cfg)
       (local_workspace_origins (lf_git (en_files env)) (lf_demand (en_files env)) cfg) stored"

definition ownership_for_cycle ::
  "cycle_env \<Rightarrow> config \<Rightarrow> (string, string) bmap \<Rightarrow> (string, string) bmap \<times> ownership_cycle" where
  "ownership_for_cycle env cfg stored =
     (if \<not> federated cfg then (stored, ownership_default)
      else case refresh env cfg None stored of
        Inr (stored', oc) \<Rightarrow> (stored', oc)
      | Inl _ \<Rightarrow> (stored, \<lparr> oc_fresh = False, oc_excluded = bm_keys stored, oc_events = [], oc_records = [] \<rparr>))"

section \<open>The gate before a launch\<close>

text \<open>The pull the gate asks for: it leaves the exclusion file and answers the records, or refuses.\<close>

definition launch_pull ::
  "cycle_env \<Rightarrow> config \<Rightarrow> federation_config \<Rightarrow> string \<Rightarrow> actuator_config \<Rightarrow> nat \<Rightarrow> string list
     \<Rightarrow> (string, string) bmap \<Rightarrow> (string, string) bmap \<times> peer_record list res" where
  "launch_pull env cfg f name actuator proposed expired stored =
     (case refresh env cfg (Some name) stored of
        Inl e \<Rightarrow> (stored, Inl e)
      | Inr (stored', oc) \<Rightarrow> (stored',
          if list_ex (\<lambda>r. clock_skew_tolerance < num_seconds (en_ch env) (pr_observed_at r - en_received_at env name))
            (oc_records oc) then Inl (Bail ''a peer re-pull record exceeded clock skew tolerance'')
          else if list_ex (\<lambda>p. pc_host_id p \<notin> set expired \<and> \<not> list_ex (\<lambda>r. pr_host_id r = pc_host_id p) (oc_records oc))
            (fc_peers f) then Inl (Bail ''a non-expired peer did not answer the launch re-pull'')
          else bind_res (launch_capacity (en_fleet env name) actuator (oc_excluded oc)) (\<lambda>c.
            if c < proposed then Inl (Bail ''workspace ownership changed before launch'')
            else Inr (oc_records oc))))"

text \<open>The gate asks for the pull once its first reservation is on disk.\<close>

definition gate_publishes ::
  "(pending_map \<Rightarrow> bool) \<Rightarrow> nat \<Rightarrow> nat \<Rightarrow> nat \<Rightarrow> nat \<Rightarrow> string \<Rightarrow> pending_map \<Rightarrow> bool" where
  "gate_publishes disk want step own pending pool m =
     disk (bm_put pool (Reserved (sat_add pending (min want step)) (pending_baseline m pool own)) m)"

definition account_pool :: "config \<Rightarrow> string \<Rightarrow> string" where
  "account_pool cfg name = unwrap_or name (bm_get (local_worker_prefixes cfg) name)"

definition gate_federated_launch ::
  "cycle_env \<Rightarrow> config \<Rightarrow> string \<Rightarrow> account_config \<Rightarrow> nat \<Rightarrow> nat \<Rightarrow> nat \<Rightarrow> actuator_config \<Rightarrow> string list
     \<Rightarrow> pending_map \<times> (string, string) bmap \<Rightarrow> (pending_map \<times> (string, string) bmap) \<times> nat res" where
  "gate_federated_launch env cfg name a current desired tot actuator expired files =
     (case files of (m, stored) \<Rightarrow>
      if desired \<le> current then (files, Inr desired)
      else case cf_federation cfg of
        None \<Rightarrow> (files, Inl (Bail ''federation missing''))
      | Some f \<Rightarrow> (case launch_capacity (en_fleet env name) actuator (bm_keys stored) of
          Inl e \<Rightarrow> (files, Inl e)
        | Inr capacity \<Rightarrow>
            let wanted = min desired (sat_add current capacity)
            in if wanted \<le> current then (files, Inr current)
               else let step = local_step_limit cfg a;
                   pool = account_pool cfg name;
                   pulled = launch_pull env cfg f name actuator (min (wanted - current) step) expired stored
                 in case gate_launch (en_disk env) (wanted - current) step current (read_pending_launches m pool)
                     (account_fingerprint (lf_digest (en_files env))
                       (unwrap_or name (bm_get (fc_account_identities f) name)))
                     pool m tot (step_up_bound cfg a) (\<lambda>_. snd pulled) of
                   (m', d) \<Rightarrow> ((m', if gate_publishes (en_disk env) (wanted - current) step current
                        (read_pending_launches m pool) pool m then fst pulled else stored),
                      bind_res d (\<lambda>d. Inr (sat_add current (ld_permitted d))))))"

end
