(* ===== verification/Cycle.thy ===== *)
theory Cycle
  imports Cycle_Federation
begin

text \<open>
  \<open>src/main.rs\<close>, \<open>run_cycle\<close>: for each account the observation, the decision, the gate, the placement, the
  actuation and the recording, in this order, with the account's failure as a value.
\<close>

section \<open>Observation\<close>

record observation =
  ob_snapshot :: quota_snapshot
  ob_workers :: nat
  ob_hosts :: "(string, nat) bmap option"
  ob_pending :: nat
  ob_pending_pool :: "string option"
  ob_prior :: account_state
  ob_unowned :: nat

definition has_hosts :: "account_config \<Rightarrow> bool" where
  "has_hosts a = is_some_and (\<lambda>hs. hs \<noteq> []) (fl_hosts (ac_fleet a))"

definition observe_workers :: "fleet_io \<Rightarrow> account_config \<Rightarrow> (nat \<times> (string, nat) bmap option) res" where
  "observe_workers io a = (if has_hosts a
     then bind_res (current_host_workers io a) (\<lambda>current.
       bind_res (total_host_workers (ac_fleet a) current) (\<lambda>t. Inr (t, Some current)))
     else bind_res (current_workers (io_observe io) (ac_fleet a)) (\<lambda>n. Inr (n, None)))"

definition own_workers :: "federation_config \<Rightarrow> nat \<Rightarrow> (string, nat) bmap option \<Rightarrow> nat" where
  "own_workers f workers hosts = unwrap_or workers (Option.bind hosts (\<lambda>m. bm_get m (fc_host_id f)))"

definition cycle_pending ::
  "config \<Rightarrow> string \<Rightarrow> nat \<Rightarrow> (string, nat) bmap option \<Rightarrow> pending_map \<Rightarrow> nat \<times> string option" where
  "cycle_pending cfg name workers hosts m = (case opt_filter (\<lambda>f. fc_peers f \<noteq> []) (cf_federation cfg) of
     None \<Rightarrow> (0, None)
   | Some f \<Rightarrow> let pool = account_pool cfg name in
       (read_pending_launches m pool,
        if pending_observed m pool (own_workers f workers hosts) then Some pool else None))"

definition prior_state :: "string \<Rightarrow> cycle_world \<Rightarrow> account_state" where
  "prior_state name w = unwrap_or account_state_default (bm_get (gs_accounts (cw_state w)) name)"

definition observe_account :: "cycle_env \<Rightarrow> config \<Rightarrow> string \<Rightarrow> account_config \<Rightarrow> observation step" where
  "observe_account env cfg name a =
     step_bind (step_try Observation (en_source env name (ac_source a))) (\<lambda>sn.
     step_bind (step_metrics (\<lambda>m. m\<lparr> am_source_success := True \<rparr>)) (\<lambda>_.
     step_bind (step_try Observation (observe_workers (en_fleet env name) a)) (\<lambda>(workers, hosts).
     step_bind (step_metrics (\<lambda>m. m\<lparr> am_current := Some workers \<rparr>)) (\<lambda>_.
     step_bind (step_read (\<lambda>w. cycle_pending cfg name workers hosts (cw_pending w))) (\<lambda>(pending, pool).
     step_bind (step_read (prior_state name)) (\<lambda>prior.
     step_bind (step_try Observation (if hosts \<noteq> None then Inr 0
         else unowned_workers (en_fleet env name) (ac_fleet a))) (\<lambda>unowned.
     step_bind (step_metrics (\<lambda>m. m\<lparr> am_sample_age :=
         Some (max0_as_u64 (num_seconds (en_ch env) (en_now env name - qs_observed_at sn))) \<rparr>)) (\<lambda>_.
     step_return \<lparr> ob_snapshot = sn, ob_workers = workers, ob_hosts = hosts, ob_pending = pending,
       ob_pending_pool = pool, ob_prior = prior, ob_unowned = unowned \<rparr>))))))))"

section \<open>Decision\<close>

text \<open>What the federation says of the account: nothing without a runtime.\<close>

record federated_view =
  fv_total :: "nat option"
  fv_share :: "nat option"
  fv_stale :: bool
  fv_expired :: "string list"
  fv_unknown :: bool

definition no_view :: federated_view where
  "no_view = \<lparr> fv_total = None, fv_share = None, fv_stale = False, fv_expired = [], fv_unknown = False \<rparr>"

definition capacity_unknown :: "federation_config \<Rightarrow> account_config \<Rightarrow> string list \<Rightarrow> federation_runtime \<Rightarrow> bool" where
  "capacity_unknown f a expired rt = list_ex (\<lambda>p. pc_host_id p \<notin> set expired
     \<and> is_some_and (\<lambda>r. pr_host_ceiling r = None \<and> configured_limit a (pc_host_id p) = None)
         (bm_get (fr_records rt) (pc_host_id p))) (fc_peers f)"

definition set_runtime :: "federation_runtime \<Rightarrow> unit step" where
  "set_runtime rt = step_update (\<lambda>w. w\<lparr> cw_runtime := Some rt \<rparr>)"

definition federate_with ::
  "cycle_env \<Rightarrow> federation_config \<Rightarrow> peer_record \<Rightarrow> string \<Rightarrow> account_config \<Rightarrow> observation \<Rightarrow> federation_runtime
     \<Rightarrow> federated_view step" where
  "federate_with env f record name a ob rt =
     (case runtime_decision (en_ch env) f record name a (ob_snapshot ob) (ob_prior ob)
         (own_workers f (ob_workers ob) (ob_hosts ob)) (en_now env name) (en_moment env name) rt of
        (rt1, r) \<Rightarrow> step_bind (set_runtime rt1) (\<lambda>_.
          step_bind (step_try Observation r) (\<lambda>(shared, stale).
          (case expired_hosts f (en_expiry_moment env name) rt1 of
             (rt2, expired) \<Rightarrow> step_bind (set_runtime rt2) (\<lambda>_.
               step_return \<lparr> fv_total = Some (sh_total shared),
                 fv_share = Some (unwrap_or 0 (bm_get (sh_shares shared) (fc_host_id f))),
                 fv_stale = stale, fv_expired = expired, fv_unknown = capacity_unknown f a expired rt2 \<rparr>)))))"

definition federate_account ::
  "cycle_env \<Rightarrow> config \<Rightarrow> peer_record res option \<Rightarrow> string \<Rightarrow> account_config \<Rightarrow> observation \<Rightarrow> federated_view step" where
  "federate_account env cfg record name a ob = step_bind (step_read cw_runtime) (\<lambda>rt.
     case rt of None \<Rightarrow> step_return no_view
   | Some rt \<Rightarrow> (case cf_federation cfg of
         None \<Rightarrow> step_try Observation (Inl (Panic ''federated config''))
       | Some f \<Rightarrow> (case record of
           None \<Rightarrow> step_try Observation (Inl (Panic ''federated cycle has local record''))
         | Some r \<Rightarrow> step_bind (step_try Observation r) (\<lambda>r. federate_with env f r name a ob rt))))"

definition update_account :: "string \<Rightarrow> (account_state \<Rightarrow> account_state) \<Rightarrow> unit step" where
  "update_account name g = step_update (\<lambda>w. w\<lparr> cw_state := (cw_state w)\<lparr>
     gs_accounts := bm_entry account_state_default name g (gs_accounts (cw_state w)) \<rparr> \<rparr>)"

definition saturate :: "cycle_env \<Rightarrow> string \<Rightarrow> account_config \<Rightarrow> observation \<Rightarrow> decision \<Rightarrow> decision step" where
  "saturate env name a ob d = (case ut_zai_saturation (ac_util a) of
     None \<Rightarrow> step_return d
   | Some _ \<Rightarrow> step_bind (step_try Observation
         (apply_zai_saturation (en_ch env) d a (ob_snapshot ob) (ob_prior ob) (en_now env name))) (\<lambda>(d, next).
       step_bind (update_account name (\<lambda>s. s\<lparr> as_saturation := Some next \<rparr>)) (\<lambda>_. step_return d)))"

definition brake :: "cycle_env \<Rightarrow> string \<Rightarrow> account_config \<Rightarrow> observation \<Rightarrow> decision \<Rightarrow> decision step" where
  "brake env name a ob d = (case ut_backpressure (ac_util a) of
     None \<Rightarrow> step_return d
   | Some policy \<Rightarrow> (case apply_backpressure (en_ch env) d policy (as_backpressure (ob_prior ob)) (ob_snapshot ob)
         (fl_min_workers (ac_fleet a)) (en_now env name) of
       (d, next) \<Rightarrow> step_bind (update_account name (\<lambda>s. s\<lparr> as_backpressure := next \<rparr>)) (\<lambda>_. step_return d)))"

definition safety_hold :: "config \<Rightarrow> account_config \<Rightarrow> observation \<Rightarrow> federated_view \<Rightarrow> bool" where
  "safety_hold cfg a ob v = (federated cfg
     \<and> (br_enabled (ac_banked a) \<or> ut_zai_saturation (ac_util a) \<noteq> None \<or> ut_backpressure (ac_util a) \<noteq> None
        \<or> length (qs_windows (ob_snapshot ob)) \<noteq> 1 \<or> 0 < ob_unowned ob \<or> fv_unknown v))"

definition local_brake :: "decision \<Rightarrow> bool" where
  "local_brake d = (is_some_and bpd_brake_changed (dc_backpressure d) \<or> dc_saturation d \<noteq> None)"

definition shared_target :: "bool \<Rightarrow> observation \<Rightarrow> federated_view \<Rightarrow> nat \<Rightarrow> decision \<Rightarrow> nat" where
  "shared_target hold ob v share d =
     (let t = (if local_brake d then min share (dc_desired d) else share);
          t = (if fv_stale v then min t (ob_workers ob) else t)
      in if hold then ob_workers ob else t)"

definition local_decision :: "bool \<Rightarrow> observation \<Rightarrow> federated_view \<Rightarrow> decision \<Rightarrow> decision" where
  "local_decision hold ob v d = (case fv_share v of
     None \<Rightarrow> d | Some share \<Rightarrow> d\<lparr> dc_desired := shared_target hold ob v share d \<rparr>)"

definition decide_account ::
  "cycle_env \<Rightarrow> config \<Rightarrow> peer_record res option \<Rightarrow> string \<Rightarrow> account_config \<Rightarrow> observation
     \<Rightarrow> (decision \<times> federated_view) step" where
  "decide_account env cfg record name a ob =
     step_bind (step_try Observation (evaluate_pool (en_ch env) name a (ob_snapshot ob) (ob_prior ob) (ob_workers ob)
         (ob_unowned ob) (en_now env name))) (\<lambda>d.
     step_bind (federate_account env cfg record name a ob) (\<lambda>v.
     step_bind (saturate env name a ob d) (\<lambda>d.
     step_bind (brake env name a ob d) (\<lambda>d.
     step_return (local_decision (safety_hold cfg a ob v) ob v d, v)))))"

section \<open>The gate\<close>

definition launch_gate ::
  "cycle_env \<Rightarrow> config \<Rightarrow> string \<Rightarrow> account_config \<Rightarrow> nat \<Rightarrow> nat \<Rightarrow> nat \<Rightarrow> actuator_config \<Rightarrow> string list \<Rightarrow> nat step" where
  "launch_gate env cfg name a current desired tot actuator expired = (\<lambda>w.
     case gate_federated_launch env cfg name a current desired tot actuator expired (cw_pending w, cw_exclusions w) of
       ((m, stored), r) \<Rightarrow> (as_failure Actuation r, w\<lparr> cw_pending := m, cw_exclusions := stored \<rparr>))"

text \<open>A target above the current count passes the gate, or stays where it is behind a stale peer or a launch
  that is still pending.\<close>

definition gated_target ::
  "cycle_env \<Rightarrow> config \<Rightarrow> string \<Rightarrow> account_config \<Rightarrow> observation \<Rightarrow> federated_view \<Rightarrow> nat \<Rightarrow> nat \<Rightarrow> nat
     \<Rightarrow> actuator_config \<Rightarrow> nat step" where
  "gated_target env cfg name a ob v current desired tot actuator =
     (if \<not> fv_stale v \<and> ob_pending ob = 0
      then launch_gate env cfg name a current desired tot actuator (fv_expired v) else step_return current)"

definition gate_account ::
  "cycle_env \<Rightarrow> config \<Rightarrow> bool \<Rightarrow> string \<Rightarrow> account_config \<Rightarrow> observation \<Rightarrow> federated_view \<Rightarrow> decision \<Rightarrow> decision step" where
  "gate_account env cfg observe_only name a ob v d =
     (if federated cfg \<and> \<not> observe_only \<and> ob_hosts ob = None \<and> ob_workers ob < dc_desired d
      then step_bind (gated_target env cfg name a ob v (ob_workers ob) (dc_desired d)
          (unwrap_or (dc_desired d) (fv_total v)) (fl_actuator (ac_fleet a))) (\<lambda>n. step_return (d\<lparr> dc_desired := n \<rparr>))
      else step_return d)"

end
