(* ===== verification/Cycle_Run.thy ===== *)
theory Cycle_Run
  imports Cycle
begin

text \<open>
  \<open>src/main.rs\<close>, the second half of an account's cycle, placement, actuation and recording, and \<open>run_cycle\<close>
  over all accounts.
\<close>

section \<open>Placement\<close>

definition collect_host_resource ::
  "(resource_source_config \<Rightarrow> resource_snapshot res) \<Rightarrow> string \<Rightarrow> resource_source_config \<Rightarrow> resource_snapshot res" where
  "collect_host_resource collect host src = bind_res (collect src) (\<lambda>s.
     if rs_host_id s \<noteq> host then Inl (Bail (''resource snapshot host_id '' @ rs_host_id s
       @ '' does not match configured host '' @ host)) else Inr s)"

definition collect_host_resources ::
  "(string \<Rightarrow> resource_source_config \<Rightarrow> resource_snapshot res) \<Rightarrow> account_config \<Rightarrow> (string, resource_snapshot) bmap" where
  "collect_host_resources collect a = (case fl_hosts (ac_fleet a) of
     None \<Rightarrow> []
   | Some hosts \<Rightarrow> bm_collect (List.map_filter (\<lambda>(host, h). Option.bind (hc_resource_source h) (\<lambda>src.
       case collect_host_resource (collect host) host src of Inl e \<Rightarrow> None | Inr s \<Rightarrow> Some (host, s))) hosts))"

definition federated_target ::
  "string \<Rightarrow> bool \<Rightarrow> bool \<Rightarrow> nat \<Rightarrow> nat \<Rightarrow> host_placement \<Rightarrow> host_placement" where
  "federated_target local hold stale share desired p = p\<lparr> hp_target :=
     (if hp_host_id p = local
      then (let t = min (min share desired) (hp_target p)
            in if hold then hp_current p else if stale then min t (hp_current p) else t)
      else hp_current p) \<rparr>"

definition federated_placements ::
  "config \<Rightarrow> bool \<Rightarrow> federated_view \<Rightarrow> decision \<Rightarrow> host_placement list \<Rightarrow> host_placement list res" where
  "federated_placements cfg hold v d ps = (case fv_share v of
     None \<Rightarrow> Inr ps
   | Some share \<Rightarrow> (case cf_federation cfg of
       None \<Rightarrow> Inl (Panic ''federated config'')
     | Some f \<Rightarrow> Inr (map (federated_target (fc_host_id f) hold (fv_stale v) share (dc_desired d)) ps)))"

fun set_target :: "string \<Rightarrow> nat \<Rightarrow> host_placement list \<Rightarrow> host_placement list" where
  "set_target host n [] = []"
| "set_target host n (p # ps) = (if hp_host_id p = host then p\<lparr> hp_target := n \<rparr> # ps else p # set_target host n ps)"

definition host_actuator_of :: "account_config \<Rightarrow> string \<Rightarrow> actuator_config res" where
  "host_actuator_of a host = (case Option.bind (fl_hosts (ac_fleet a)) (\<lambda>hs. bm_get hs host) of
     None \<Rightarrow> Inl (Panic ''host fleet'') | Some h \<Rightarrow> Inr (hc_actuator h))"

definition gate_placements ::
  "cycle_env \<Rightarrow> config \<Rightarrow> bool \<Rightarrow> string \<Rightarrow> account_config \<Rightarrow> observation \<Rightarrow> federated_view \<Rightarrow> decision
     \<Rightarrow> host_placement list \<Rightarrow> host_placement list step" where
  "gate_placements env cfg observe_only name a ob v d ps =
     (case opt_filter (\<lambda>f. fc_peers f \<noteq> [] \<and> \<not> observe_only) (cf_federation cfg) of
        None \<Rightarrow> step_return ps
      | Some f \<Rightarrow> (case find (\<lambda>p. hp_host_id p = fc_host_id f) ps of
          None \<Rightarrow> step_return ps
        | Some p \<Rightarrow> if hp_target p \<le> hp_current p then step_return ps
            else step_bind (step_try Observation (host_actuator_of a (fc_host_id f))) (\<lambda>actuator.
              step_bind (gated_target env cfg name a ob v (hp_current p) (hp_target p)
                (unwrap_or (dc_desired d) (fv_total v)) actuator) (\<lambda>n.
              step_return (set_target (fc_host_id f) n ps)))))"

definition place_account ::
  "cycle_env \<Rightarrow> config \<Rightarrow> bool \<Rightarrow> string \<Rightarrow> account_config \<Rightarrow> observation \<Rightarrow> federated_view \<Rightarrow> decision
     \<Rightarrow> host_placement list option step" where
  "place_account env cfg observe_only name a ob v d = (case ob_hosts ob of
     None \<Rightarrow> step_return None
   | Some current \<Rightarrow>
       let resources = collect_host_resources (en_resource env name) a in
       step_bind (step_try Observation (bind_res
           (place (en_ch env) name (dc_desired d) a current resources (en_now env name))
           (federated_placements cfg (safety_hold cfg a ob v) v d))) (\<lambda>ps.
       step_bind (gate_placements env cfg observe_only name a ob v d ps) (\<lambda>ps.
       step_bind (step_metrics (apply_host_placements (host_decision_records ps resources))) (\<lambda>_.
       step_return (Some ps)))))"

section \<open>Actuation\<close>

record actuation_result =
  at_actuated :: bool
  at_observed :: "nat option"
  at_hosts :: "(string, actuation_outcome) bmap option"

definition settled_workers :: "actuation_outcome option \<Rightarrow> nat \<Rightarrow> nat \<Rightarrow> nat" where
  "settled_workers o1 target current = unwrap_or (if is_some_and ao_actuated o1 then target else current)
     (Option.bind o1 ao_observed)"

fun actual_total :: "(string, actuation_outcome) bmap \<Rightarrow> nat \<Rightarrow> host_placement list \<Rightarrow> nat res" where
  "actual_total outcomes t [] = Inr t"
| "actual_total outcomes t (p # ps) = (case bm_get outcomes (hp_host_id p) of
     None \<Rightarrow> Inl (Panic ''no entry found for key'')
   | Some o1 \<Rightarrow> let t' = t + settled_workers (Some o1) (hp_target p) (hp_current p)
       in if t' \<le> u32_max then actual_total outcomes t' ps
          else Inl (Bail ''post-actuation worker total exceeds u32''))"

definition hosts_result ::
  "host_placement list \<Rightarrow> (string, actuation_outcome) bmap \<Rightarrow> actuation_result res" where
  "hosts_result ps outcomes = bind_res
     (if list_ex (\<lambda>o1. ao_observed o1 \<noteq> None) (bm_vals outcomes)
      then bind_res (actual_total outcomes 0 ps) (\<lambda>t. Inr (Some t)) else Inr None)
     (\<lambda>observed. Inr \<lparr> at_actuated = list_ex ao_actuated (bm_vals outcomes), at_observed = observed,
        at_hosts = Some outcomes \<rparr>)"

definition succeeded :: "unit step" where
  "succeeded = step_metrics (\<lambda>m. m\<lparr> am_succeeded := Some True \<rparr>)"

definition actuate_placements ::
  "cycle_env \<Rightarrow> config \<Rightarrow> string \<Rightarrow> account_config \<Rightarrow> host_placement list \<Rightarrow> actuation_result step" where
  "actuate_placements env cfg name a ps = step_bind (step_read (\<lambda>w. bm_keys (cw_exclusions w))) (\<lambda>excluded.
     step_bind (step_act (case opt_filter (\<lambda>f. fc_peers f \<noteq> []) (cf_federation cfg) of
         Some f \<Rightarrow> actuate_host_targets_local (en_fleet env name) a ps (fc_host_id f) excluded
       | None \<Rightarrow> actuate_host_targets (en_fleet env name) a ps)) (\<lambda>outcomes.
     step_bind succeeded (\<lambda>_. step_try Observation (hosts_result ps outcomes))))"

definition actuate_fleet ::
  "cycle_env \<Rightarrow> config \<Rightarrow> ownership_cycle \<Rightarrow> string \<Rightarrow> account_config \<Rightarrow> observation \<Rightarrow> decision \<Rightarrow> actuation_result step" where
  "actuate_fleet env cfg oc name a ob d = step_bind (step_read (\<lambda>w.
       if federated cfg then bm_keys (cw_exclusions w) else oc_excluded oc)) (\<lambda>excluded.
     step_bind (step_act (actuate_with_exclusions (en_fleet env name) (ac_fleet a) (ob_workers ob) (dc_desired d) excluded))
       (\<lambda>o1. step_bind succeeded (\<lambda>_.
     step_return \<lparr> at_actuated = ao_actuated o1, at_observed = ao_observed o1, at_hosts = None \<rparr>)))"

definition actuate_account ::
  "cycle_env \<Rightarrow> config \<Rightarrow> bool \<Rightarrow> ownership_cycle \<Rightarrow> string \<Rightarrow> account_config \<Rightarrow> observation \<Rightarrow> federated_view
     \<Rightarrow> decision \<Rightarrow> host_placement list option \<Rightarrow> actuation_result step" where
  "actuate_account env cfg observe_only oc name a ob v d ps =
     (let idle = observe_only \<or> safety_hold cfg a ob v in
      step_bind (step_metrics (\<lambda>m. m\<lparr> am_attempted := \<not> idle \<rparr>)) (\<lambda>_.
      if idle then step_return \<lparr> at_actuated = False, at_observed = None, at_hosts = None \<rparr>
      else case ps of
        Some ps \<Rightarrow> actuate_placements env cfg name a ps
      | None \<Rightarrow> actuate_fleet env cfg oc name a ob d))"

section \<open>Recording\<close>

definition credit_levels :: "banked_decision \<Rightarrow> (string \<times> nat) list" where
  "credit_levels b = map (\<lambda>c. (cd_credit_id c, case cd_severity c of None \<Rightarrow> 0 | Some s \<Rightarrow> severity_rank s))
     (bd_credit_deadlines b)"

definition governing_reset :: "quota_snapshot \<Rightarrow> decision \<Rightarrow> banked_decision \<Rightarrow> datetime" where
  "governing_reset sn d b = unwrap_or (qs_observed_at sn)
     (map_option wd_resets_at (find (\<lambda>w. wd_id w = bd_governing_window b) (dc_windows d)))"

definition record_sample ::
  "chrono \<Rightarrow> observation \<Rightarrow> decision \<Rightarrow> actuation_result \<Rightarrow> account_state \<Rightarrow> account_state" where
  "record_sample ch ob d act s =
     (if dc_stale d then s\<lparr> as_last_target := Some (wrap32 (dc_desired d + ob_unowned ob)) \<rparr>
      else let workers = wrap32 (unwrap_or (if at_actuated act then dc_desired d else ob_workers ob) (at_observed act)
                 + ob_unowned ob);
               s = account_record ch s (ob_snapshot ob) workers (wrap32 (dc_desired d + ob_unowned ob))
           in case dc_banked d of
                Some b \<Rightarrow> record_credit_alerts s (governing_reset (ob_snapshot ob) d b) (credit_levels b)
              | None \<Rightarrow> s\<lparr> as_credit_alerts := [] \<rparr>)"

fun record_hosts ::
  "chrono \<Rightarrow> string \<Rightarrow> quota_snapshot \<Rightarrow> (string, nat) bmap \<Rightarrow> (string, actuation_outcome) bmap option
     \<Rightarrow> host_placement list \<Rightarrow> gov_state \<Rightarrow> gov_state res" where
  "record_hosts ch name sn current outcomes [] st = Inr st"
| "record_hosts ch name sn current outcomes (p # ps) st =
     (let o1 = Option.bind outcomes (\<lambda>os. bm_get os (hp_host_id p)) in
      bind_res (case Option.bind o1 ao_observed of
          Some n \<Rightarrow> Inr n
        | None \<Rightarrow> if is_some_and ao_actuated o1 then Inr (hp_target p)
            else (case bm_get current (hp_host_id p) of None \<Rightarrow> Inl (Panic ''no entry found for key'') | Some n \<Rightarrow> Inr n))
        (\<lambda>n. record_hosts ch name sn current outcomes ps (record_host ch st name (hp_host_id p) sn n)))"

definition record_placements :: "string \<Rightarrow> datetime \<Rightarrow> host_placement list \<Rightarrow> gov_state \<Rightarrow> gov_state" where
  "record_placements name now ps st =
     foldl (\<lambda>st p. record_host_placement st name (hp_host_id p) now (hp_target p)) st ps"

definition record_account ::
  "cycle_env \<Rightarrow> string \<Rightarrow> observation \<Rightarrow> decision \<Rightarrow> host_placement list option \<Rightarrow> actuation_result
     \<Rightarrow> gov_state \<Rightarrow> gov_state res" where
  "record_account env name ob d ps act st =
     (let st = st\<lparr> gs_accounts := bm_entry account_state_default name (record_sample (en_ch env) ob d act) (gs_accounts st) \<rparr>
      in bind_res (case (ob_hosts ob, ps) of
           (Some current, Some ps) \<Rightarrow> if dc_stale d then Inr st
             else record_hosts (en_ch env) name (ob_snapshot ob) current (at_hosts act) ps st
         | _ \<Rightarrow> Inr st) (\<lambda>st.
         Inr (case ps of None \<Rightarrow> st | Some ps \<Rightarrow> record_placements name (en_now env name) ps st)))"

definition record_step :: "(gov_state \<Rightarrow> gov_state res) \<Rightarrow> unit step" where
  "record_step g = (\<lambda>w. case g (cw_state w) of
     Inl e \<Rightarrow> (Inl (failure_of Observation e), w) | Inr st \<Rightarrow> (Inr (), w\<lparr> cw_state := st \<rparr>))"

section \<open>One account\<close>

definition account_cycle ::
  "cycle_env \<Rightarrow> config \<Rightarrow> bool \<Rightarrow> ownership_cycle \<Rightarrow> peer_record res option \<Rightarrow> string \<Rightarrow> account_config
     \<Rightarrow> (string option \<times> account_readiness) step" where
  "account_cycle env cfg observe_only oc record name a =
     step_bind (observe_account env cfg name a) (\<lambda>ob.
     step_bind (decide_account env cfg record name a ob) (\<lambda>(d, v).
     step_bind (gate_account env cfg observe_only name a ob v d) (\<lambda>d.
     let readiness = readiness_for_decision (en_reported_at env name) d in
     step_bind (step_metrics (apply_decision (en_ch env) d (ar_reason readiness) (en_now env name))) (\<lambda>_.
     step_bind (place_account env cfg observe_only name a ob v d) (\<lambda>ps.
     step_bind (actuate_account env cfg observe_only oc name a ob v d ps) (\<lambda>act.
     step_bind (record_step (record_account env name ob d ps act)) (\<lambda>_.
     step_return (ob_pending_pool ob, readiness))))))))"

section \<open>The cycle\<close>

record cycle_outcome =
  co_observation :: nat
  co_actuation :: nat
  co_statuses :: "(string, account_readiness) bmap"
  co_pending :: "string list"
  co_metrics :: "account_metrics list"

definition no_outcome :: cycle_outcome where
  "no_outcome = \<lparr> co_observation = 0, co_actuation = 0, co_statuses = [], co_pending = [], co_metrics = [] \<rparr>"

text \<open>A result of an account closes its metrics; pools are collected in the order of the accounts.\<close>

definition close_account ::
  "cycle_env \<Rightarrow> string \<Rightarrow> (account_failure + string option \<times> account_readiness) \<Rightarrow> account_metrics
     \<Rightarrow> cycle_outcome \<Rightarrow> cycle_outcome" where
  "close_account env name r m out = (case r of
     Inr (pool, readiness) \<Rightarrow> out\<lparr> co_statuses := bm_put name readiness (co_statuses out),
       co_pending := co_pending out @ (case pool of None \<Rightarrow> [] | Some p \<Rightarrow> if p \<in> set (co_pending out) then [] else [p]),
       co_metrics := co_metrics out @ [m] \<rparr>
   | Inl f \<Rightarrow> (let out = out\<lparr> co_statuses :=
           bm_put name (readiness_for_failure (en_reported_at env name) f) (co_statuses out) \<rparr>
       in case f of
         Actuation _ \<Rightarrow> out\<lparr> co_actuation := co_actuation out + 1,
           co_metrics := co_metrics out @ [m\<lparr> am_succeeded := Some False \<rparr>] \<rparr>
       | _ \<Rightarrow> out\<lparr> co_observation := co_observation out + 1, co_metrics := co_metrics out @ [m] \<rparr>))"

definition begin_account :: "cycle_env \<Rightarrow> string \<Rightarrow> cycle_world \<Rightarrow> cycle_world" where
  "begin_account env name w = w\<lparr> cw_metrics := new_metrics name (en_began_at env name) \<rparr>"

fun run_accounts ::
  "cycle_env \<Rightarrow> config \<Rightarrow> bool \<Rightarrow> ownership_cycle \<Rightarrow> peer_record res option \<Rightarrow> (string \<times> account_config) list
     \<Rightarrow> cycle_outcome \<Rightarrow> cycle_world \<Rightarrow> cycle_outcome res \<times> cycle_world" where
  "run_accounts env cfg observe_only oc record [] out w = (Inr out, w)"
| "run_accounts env cfg observe_only oc record ((name, a) # rest) out w =
     (if en_shutdown env name then (Inr out, w)
      else case account_cycle env cfg observe_only oc record name a (begin_account env name w) of
        (Inl (Crash e), w) \<Rightarrow> (Inl (Panic e), w)
      | (r, w) \<Rightarrow> run_accounts env cfg observe_only oc record rest (close_account env name r (cw_metrics w) out) w)"

definition cycle_record :: "cycle_env \<Rightarrow> config \<Rightarrow> cycle_world \<Rightarrow> peer_record res option" where
  "cycle_record env cfg w = (if federated cfg
     then Some (build_local_record cfg ((en_files env)\<lparr> lf_excluded := bm_keys (cw_exclusions w),
       lf_pending := cw_pending w \<rparr>) (en_start env))
     else None)"

definition open_cycle :: "cycle_env \<Rightarrow> config \<Rightarrow> cycle_world \<Rightarrow> cycle_world \<times> ownership_cycle" where
  "open_cycle env cfg w = (case ownership_for_cycle env cfg (cw_exclusions w) of
     (stored, oc) \<Rightarrow> (w\<lparr> cw_exclusions := stored,
        cw_runtime := (case (cw_runtime w, cf_federation cfg) of
          (Some rt, Some f) \<Rightarrow> Some (ingest_cycle (en_ch env) f (en_ingest_moment env) oc rt)
        | _ \<Rightarrow> cw_runtime w) \<rparr>, oc))"

definition run_cycle :: "cycle_env \<Rightarrow> config \<Rightarrow> bool \<Rightarrow> cycle_world \<Rightarrow> cycle_outcome res \<times> cycle_world" where
  "run_cycle env cfg observe_only w = (case open_cycle env cfg w of
     (w, oc) \<Rightarrow> run_accounts env cfg observe_only oc (cycle_record env cfg w) (cf_accounts cfg) no_outcome w)"

end
