(* ===== verification/Cycle_Laws.thy ===== *)
theory Cycle_Laws
  imports Cycle_Run
begin

text \<open>
  What a step of a cycle leaves as it is, as relations between the world before and after: each relation is an
  interpretation of \<open>step_relation\<close>, and the account's cycle keeps it because each of its steps does.
\<close>

lemma step_bind_Inr:
  "step_bind m f w = (Inr y, w2) \<longleftrightarrow> (\<exists>x w1. m w = (Inr x, w1) \<and> f x w1 = (Inr y, w2))"
  by (auto simp: step_bind_def split: prod.splits sum.splits)

lemma step_bind_Inl:
  "step_bind m f w = (Inl e, w2) \<longleftrightarrow> m w = (Inl e, w2) \<or> (\<exists>x w1. m w = (Inr x, w1) \<and> f x w1 = (Inl e, w2))"
  by (auto simp: step_bind_def split: prod.splits sum.splits)

lemma step_simps [simp]:
  "step_return x w = (Inr x, w)"
  "step_read g w = (Inr (g w), w)"
  "step_update h w = (Inr (), h w)"
  "step_try kind r w = (as_failure kind r, w)"
  by (simp_all add: step_return_def step_read_def step_update_def step_try_def)

lemma as_failure_iff [simp]:
  "as_failure kind r = Inr x \<longleftrightarrow> r = Inr x"
  "as_failure kind r = Inl f \<longleftrightarrow> (\<exists>e. r = Inl e \<and> f = failure_of kind e)"
  by (auto simp: as_failure_def split: sum.splits)

lemma keepsD: "keeps R m \<Longrightarrow> m w = (r, w') \<Longrightarrow> R w w'"
  unfolding keeps_def by (metis snd_conv)

section \<open>Steps before the actuation\<close>

text \<open>
  A relation that the updates of the runtime, of the files, of the metrics and of the two searches keep is kept
  by everything before the actuation.
\<close>

locale quiet_relation = step_relation +
  assumes runtime: "R w (w\<lparr> cw_runtime := rt \<rparr>)"
    and files: "R w (w\<lparr> cw_pending := m, cw_exclusions := stored \<rparr>)"
    and metrics: "R w (w\<lparr> cw_metrics := ms \<rparr>)"
begin

lemma quiet_metrics: "keeps R (step_metrics f)"
  unfolding step_metrics_def by (rule update) (rule metrics)

lemma quiet_runtime: "keeps R (set_runtime rt)"
  unfolding set_runtime_def by (rule update) (rule runtime)

lemma quiet_gate: "keeps R (launch_gate env cfg name a current desired tot actuator expired)"
  unfolding keeps_def launch_gate_def by (auto simp: files split: prod.split)

lemmas quiet = intros quiet_metrics quiet_runtime quiet_gate

lemma quiet_observe: "keeps R (observe_account env cfg name a)"
  unfolding observe_account_def by (intro quiet) (auto intro!: quiet split: prod.split)

lemma quiet_federate: "keeps R (federate_account env cfg record name a ob)"
  unfolding federate_account_def federate_with_def
  by (auto intro!: quiet split: prod.split option.split)

lemma quiet_gated: "keeps R (gated_target env cfg name a ob v current desired tot actuator)"
  unfolding gated_target_def by (intro quiet)

lemma quiet_gate_account: "keeps R (gate_account env cfg observe_only name a ob v d)"
  unfolding gate_account_def by (intro quiet quiet_gated)

lemma quiet_place: "keeps R (place_account env cfg observe_only name a ob v d)"
  unfolding place_account_def gate_placements_def Let_def
  by (auto intro!: quiet quiet_gated split: option.split)

end

locale account_relation = quiet_relation R for R +
  fixes name :: string
  assumes searches: "R w (w\<lparr> cw_state := (cw_state w)\<lparr> gs_accounts :=
      bm_entry account_state_default name (\<lambda>s. s\<lparr> as_saturation := x \<rparr>) (gs_accounts (cw_state w)) \<rparr> \<rparr>)"
      "R w (w\<lparr> cw_state := (cw_state w)\<lparr> gs_accounts :=
      bm_entry account_state_default name (\<lambda>s. s\<lparr> as_backpressure := y \<rparr>) (gs_accounts (cw_state w)) \<rparr> \<rparr>)"
begin

lemma quiet_decide: "keeps R (decide_account env cfg record name a ob)"
  unfolding decide_account_def saturate_def brake_def update_account_def
  by (auto intro!: quiet quiet_federate update searches split: prod.split option.split)

end

section \<open>The relations\<close>

definition same_acts :: "cycle_world \<Rightarrow> cycle_world \<Rightarrow> bool" where
  "same_acts w w' = (cw_acts w' = cw_acts w)"

interpretation acts: account_relation same_acts name for name
  by unfold_locales (auto simp: same_acts_def)

text \<open>Nothing changes in the state but the account's two searches.\<close>

definition recorded :: "gov_state \<Rightarrow> string \<Rightarrow> account_state" where
  "recorded st name = (unwrap_or account_state_default (bm_get (gs_accounts st) name))
     \<lparr> as_saturation := None, as_backpressure := bp_state_default \<rparr>"

definition unrecorded :: "string \<Rightarrow> cycle_world \<Rightarrow> cycle_world \<Rightarrow> bool" where
  "unrecorded name w w' = (gs_hosts (cw_state w') = gs_hosts (cw_state w) \<and>
     (bm_ok (gs_accounts (cw_state w)) \<longrightarrow> bm_ok (gs_accounts (cw_state w'))) \<and>
     gs_schema_version (cw_state w') = gs_schema_version (cw_state w) \<and>
     (bm_get (gs_accounts (cw_state w')))(name := None) = (bm_get (gs_accounts (cw_state w)))(name := None) \<and>
     recorded (cw_state w') name = recorded (cw_state w) name)"

lemma bm_get_entry_fun: "bm_get (bm_entry d k g m) = (bm_get m)(k \<mapsto> g (unwrap_or d (bm_get m k)))"
  by (rule ext) (simp add: bm_get_entry)

interpretation frame: account_relation "unrecorded name" name for name
  by unfold_locales (auto simp: unrecorded_def recorded_def bm_get_entry_fun bm_ok_entry unwrap_or_def)

text \<open>Only the account's own entries change.\<close>

definition isolated :: "string \<Rightarrow> cycle_world \<Rightarrow> cycle_world \<Rightarrow> bool" where
  "isolated name w w' = (
     gs_schema_version (cw_state w') = gs_schema_version (cw_state w) \<and>
     (bm_get (gs_accounts (cw_state w')))(name := None) = (bm_get (gs_accounts (cw_state w)))(name := None) \<and>
     (bm_get (gs_hosts (cw_state w')))(name := None) = (bm_get (gs_hosts (cw_state w)))(name := None))"

interpretation own: account_relation "isolated name" name for name
  by unfold_locales (auto simp: isolated_def bm_get_entry_fun)

text \<open>The state stays well formed.\<close>

definition sound :: "cycle_world \<Rightarrow> cycle_world \<Rightarrow> bool" where
  "sound w w' = (state_ok (cw_state w) \<longrightarrow> state_ok (cw_state w'))"

lemma account_default_ok: "account_ok account_state_default"
  by (simp add: account_ok_def account_state_default_def bm.inv_emp bm.look_emp)

lemma state_ok_entry:
  assumes "state_ok st" "\<And>s. account_ok s \<Longrightarrow> account_ok (g s)"
  shows "state_ok (st\<lparr> gs_accounts := bm_entry account_state_default name g (gs_accounts st) \<rparr>)"
  using assms account_default_ok
  by (cases "bm_get (gs_accounts st) name") (auto simp: state_ok_def bm_get_entry bm_ok_entry unwrap_or_def)

interpretation ok: account_relation sound name for name
  by unfold_locales (auto simp: sound_def account_ok_def intro!: state_ok_entry)


section \<open>The actuation\<close>

definition fleet_acts ::
  "cycle_env \<Rightarrow> config \<Rightarrow> ownership_cycle \<Rightarrow> string \<Rightarrow> account_config \<Rightarrow> observation \<Rightarrow> decision
     \<Rightarrow> host_placement list option \<Rightarrow> string list \<Rightarrow> invocation list" where
  "fleet_acts env cfg oc name a ob d ps excluded = (case ps of
     None \<Rightarrow> fst (actuate_with_exclusions (en_fleet env name) (ac_fleet a) (ob_workers ob) (dc_desired d)
       (if federated cfg then excluded else oc_excluded oc))
   | Some ps \<Rightarrow> fst (case opt_filter (\<lambda>f. fc_peers f \<noteq> []) (cf_federation cfg) of
         Some f \<Rightarrow> actuate_host_targets_local (en_fleet env name) a ps (fc_host_id f) excluded
       | None \<Rightarrow> actuate_host_targets (en_fleet env name) a ps))"

lemma step_act_simp [simp]: "step_act m w = (as_failure Actuation (snd m), w\<lparr> cw_acts := cw_acts w @ fst m \<rparr>)"
  by (simp add: step_act_def)

lemma step_metrics_simp [simp]: "step_metrics g w = (Inr (), w\<lparr> cw_metrics := g (cw_metrics w) \<rparr>)"
  by (simp add: step_metrics_def)

lemma step_bind_apply: "step_bind m f w = (case m w of (Inl e, w') \<Rightarrow> (Inl e, w') | (Inr x, w') \<Rightarrow> f x w')"
  by (simp add: step_bind_def)

lemma actuate_account_effect:
  fixes env cfg observe_only oc name a ob v d ps w
  defines "w' \<equiv> snd (actuate_account env cfg observe_only oc name a ob v d ps w)"
  shows "cw_acts w' = cw_acts w @ (if observe_only \<or> safety_hold cfg a ob v then []
      else fleet_acts env cfg oc name a ob d ps (bm_keys (cw_exclusions w)))"
    and "cw_state w' = cw_state w" "cw_pending w' = cw_pending w" "cw_exclusions w' = cw_exclusions w"
  unfolding w'_def actuate_account_def actuate_placements_def actuate_fleet_def succeeded_def fleet_acts_def Let_def
  by (auto simp: step_bind_apply split: option.split sum.split)

text \<open>Before the actuation nothing is invoked and nothing is recorded.\<close>

definition untouched :: "string \<Rightarrow> cycle_world \<Rightarrow> cycle_world \<Rightarrow> bool" where
  "untouched name w w' = (same_acts w w' \<and> unrecorded name w w')"

interpretation calm: account_relation "untouched name" name for name
  by unfold_locales (auto simp: untouched_def same_acts_def intro: frame.R_refl frame.R_trans frame.runtime
    frame.files frame.metrics frame.searches)

definition recording ::
  "cycle_env \<Rightarrow> string \<Rightarrow> observation \<Rightarrow> decision \<Rightarrow> host_placement list option \<Rightarrow> actuation_result
     \<Rightarrow> (string option \<times> account_readiness) step" where
  "recording env name ob d ps act = step_bind (record_step (record_account env name ob d ps act)) (\<lambda>_.
     step_return (ob_pending_pool ob, readiness_for_decision (en_reported_at env name) d))"

text \<open>An account's cycle fails untouched, or goes through its steps to the actuation.\<close>

definition reaches ::
  "cycle_env \<Rightarrow> config \<Rightarrow> bool \<Rightarrow> peer_record res option \<Rightarrow> string \<Rightarrow> account_config \<Rightarrow> cycle_world
     \<Rightarrow> observation \<Rightarrow> federated_view \<Rightarrow> decision \<Rightarrow> host_placement list option \<Rightarrow> cycle_world \<Rightarrow> bool" where
  "reaches env cfg observe_only record name a w ob v d ps w4 = (\<exists>w1 d0 w2 w3.
     observe_account env cfg name a w = (Inr ob, w1)
     \<and> decide_account env cfg record name a ob w1 = (Inr (d0, v), w2)
     \<and> gate_account env cfg observe_only name a ob v d0 w2 = (Inr d, w3)
     \<and> place_account env cfg observe_only name a ob v d
         (w3\<lparr> cw_metrics := apply_decision (en_ch env) d (ar_reason (readiness_for_decision (en_reported_at env name) d))
            (en_now env name) (cw_metrics w3) \<rparr>) = (Inr ps, w4)
     \<and> untouched name w w4)"

lemma account_cycle_cases:
  assumes "account_cycle env cfg observe_only oc record name a w = (r, w')"
  obtains (before) e where "r = Inl e" "untouched name w w'"
  | (acted) ob v d ps w4 where "reaches env cfg observe_only record name a w ob v d ps w4"
      "step_bind (actuate_account env cfg observe_only oc name a ob v d ps) (recording env name ob d ps) w4 = (r, w')"
  using assms unfolding account_cycle_def
proof (rule calm.bind_cases [OF _ calm.R_refl calm.quiet_observe])
  fix ob w1
  assume o1: "observe_account env cfg name a w = (Inr ob, w1)" "untouched name w w1"
  let ?m3 = "\<lambda>d. step_metrics (apply_decision (en_ch env) d (ar_reason (readiness_for_decision (en_reported_at env name) d))
    (en_now env name))"
  assume "step_bind (decide_account env cfg record name a ob) (\<lambda>(d, v).
    step_bind (gate_account env cfg observe_only name a ob v d) (\<lambda>d.
    let readiness = readiness_for_decision (en_reported_at env name) d in
    step_bind (step_metrics (apply_decision (en_ch env) d (ar_reason readiness) (en_now env name))) (\<lambda>_.
    step_bind (place_account env cfg observe_only name a ob v d) (\<lambda>ps.
    step_bind (actuate_account env cfg observe_only oc name a ob v d ps) (\<lambda>act.
    step_bind (record_step (record_account env name ob d ps act)) (\<lambda>_.
    step_return (ob_pending_pool ob, readiness))))))) w1 = (r, w')"
  then show thesis
  proof (rule calm.bind_cases [OF _ o1(2) calm.quiet_decide])
    fix dv w2
    assume o2: "decide_account env cfg record name a ob w1 = (Inr dv, w2)" "untouched name w w2"
    obtain d0 v where dv: "dv = (d0, v)" by (cases dv)
    assume "(case dv of (d, v) \<Rightarrow> step_bind (gate_account env cfg observe_only name a ob v d) (\<lambda>d.
      let readiness = readiness_for_decision (en_reported_at env name) d in
      step_bind (step_metrics (apply_decision (en_ch env) d (ar_reason readiness) (en_now env name))) (\<lambda>_.
      step_bind (place_account env cfg observe_only name a ob v d) (\<lambda>ps.
      step_bind (actuate_account env cfg observe_only oc name a ob v d ps) (\<lambda>act.
      step_bind (record_step (record_account env name ob d ps act)) (\<lambda>_.
      step_return (ob_pending_pool ob, readiness))))))) w2 = (r, w')"
    then show thesis unfolding dv prod.case
    proof (rule calm.bind_cases [OF _ o2(2) calm.quiet_gate_account])
      fix d w3
      assume o3: "gate_account env cfg observe_only name a ob v d0 w2 = (Inr d, w3)" "untouched name w w3"
      let ?w3 = "w3\<lparr> cw_metrics := apply_decision (en_ch env) d
        (ar_reason (readiness_for_decision (en_reported_at env name) d)) (en_now env name) (cw_metrics w3) \<rparr>"
      have u: "untouched name w ?w3" by (rule calm.R_trans [OF o3(2) calm.metrics])
      assume "(let readiness = readiness_for_decision (en_reported_at env name) d in
        step_bind (step_metrics (apply_decision (en_ch env) d (ar_reason readiness) (en_now env name))) (\<lambda>_.
        step_bind (place_account env cfg observe_only name a ob v d) (\<lambda>ps.
        step_bind (actuate_account env cfg observe_only oc name a ob v d ps) (\<lambda>act.
        step_bind (record_step (record_account env name ob d ps act)) (\<lambda>_.
        step_return (ob_pending_pool ob, readiness)))))) w3 = (r, w')"
      then have "step_bind (place_account env cfg observe_only name a ob v d) (\<lambda>ps.
        step_bind (actuate_account env cfg observe_only oc name a ob v d ps) (recording env name ob d ps)) ?w3 = (r, w')"
        unfolding recording_def Let_def by (simp add: step_bind_apply)
      then show thesis
      proof (rule calm.bind_cases [OF _ u calm.quiet_place])
        fix ps w4
        assume "place_account env cfg observe_only name a ob v d ?w3 = (Inr ps, w4)" "untouched name w w4"
          "step_bind (actuate_account env cfg observe_only oc name a ob v d ps) (recording env name ob d ps) w4 = (r, w')"
        then show thesis using acted o1(1) o2(1) o3(1) unfolding dv reaches_def by blast
      qed (rule before)
    qed (rule before)
  qed (rule before)
qed (rule before)


section \<open>The recording\<close>

definition apart :: "string \<Rightarrow> gov_state \<Rightarrow> gov_state \<Rightarrow> bool" where
  "apart name st st' = (gs_schema_version st' = gs_schema_version st \<and>
     (bm_get (gs_accounts st'))(name := None) = (bm_get (gs_accounts st))(name := None) \<and>
     (bm_get (gs_hosts st'))(name := None) = (bm_get (gs_hosts st))(name := None))"

lemma isolated_apart: "isolated name w w' \<longleftrightarrow> apart name (cw_state w) (cw_state w')"
  by (simp add: isolated_def apart_def)

definition fine :: "string \<Rightarrow> gov_state \<Rightarrow> gov_state \<Rightarrow> bool" where
  "fine name st st' = (apart name st st' \<and> (state_ok st \<longrightarrow> state_ok st'))"

lemma fine_trans: "fine name a b \<Longrightarrow> fine name b c \<Longrightarrow> fine name a c"
  by (simp add: fine_def apart_def)

lemma fine_refl: "fine name a a"
  by (simp add: fine_def apart_def)

lemma fine_host: "fine name st (record_host ch st name host sn n)"
  using record_host_ok [of st ch name host sn n] by (simp add: fine_def apart_def record_host_def bm_get_entry_fun)

lemma fine_placement: "fine name st (record_host_placement st name host now n)"
  using record_host_placement_ok [of st name host now n] by (simp add: fine_def apart_def record_host_placement_def bm_get_entry_fun)

lemma fine_hosts: "record_hosts ch name sn current outcomes ps st = Inr st' \<Longrightarrow> fine name st st'"
proof (induction ps arbitrary: st)
  case (Cons p ps)
  then obtain n where "record_hosts ch name sn current outcomes ps (record_host ch st name (hp_host_id p) sn n) = Inr st'"
    by (auto simp: bind_res_Inr_iff Let_def)
  from Cons.IH [OF this] fine_host show ?case using fine_trans by blast
qed (simp add: fine_refl)

lemma fine_placements: "fine name st (record_placements name now ps st)"
  unfolding record_placements_def
  by (induction ps arbitrary: st) (auto simp: fine_refl intro: fine_trans [OF fine_placement])

lemma record_sample_ok: "account_ok s \<Longrightarrow> account_ok (record_sample ch ob d act s)"
  using account_record_ok [of s ch "ob_snapshot ob"]
  by (auto simp: record_sample_def Let_def record_credit_alerts_def account_ok_def bm.inv_emp bm_ok_collect
      split: option.splits)

lemma fine_record_account:
  assumes "record_account env name ob d ps act st = Inr st'"
  shows "fine name st st'"
proof -
  let ?st = "st\<lparr> gs_accounts := bm_entry account_state_default name (record_sample (en_ch env) ob d act) (gs_accounts st) \<rparr>"
  have 1: "fine name st ?st"
    using state_ok_entry [OF _ record_sample_ok] by (simp add: fine_def apart_def bm_get_entry_fun)
  obtain st2 where 2: "(case (ob_hosts ob, ps) of
        (Some current, Some ps) \<Rightarrow> if dc_stale d then Inr ?st
          else record_hosts (en_ch env) name (ob_snapshot ob) current (at_hosts act) ps ?st
      | _ \<Rightarrow> Inr ?st) = Inr st2"
      "st' = (case ps of None \<Rightarrow> st2 | Some ps \<Rightarrow> record_placements name (en_now env name) ps st2)"
    using assms unfolding record_account_def Let_def bind_res_Inr_iff by blast
  have 3: "fine name ?st st2"
    using 2(1) by (cases "ob_hosts ob"; cases ps) (auto simp: fine_refl fine_hosts split: if_splits)
  have "fine name st2 st'" unfolding 2(2) using fine_placements fine_refl by (cases ps) simp_all
  then show ?thesis using 1 3 fine_trans by blast
qed

lemma record_step_effect:
  "record_step g w = (r, w') \<Longrightarrow> cw_acts w' = cw_acts w \<and> cw_pending w' = cw_pending w
    \<and> (case r of Inl f \<Rightarrow> w' = w | Inr u \<Rightarrow> g (cw_state w) = Inr (cw_state w'))"
  by (auto simp: record_step_def split: sum.splits)

lemma recording_effect:
  assumes "recording env name ob d ps act w = (r, w')"
  shows "cw_acts w' = cw_acts w \<and> cw_pending w' = cw_pending w \<and> (case r of Inl f \<Rightarrow> w' = w
    | Inr y \<Rightarrow> fine name (cw_state w) (cw_state w') \<and> record_account env name ob d ps act (cw_state w) = Inr (cw_state w')
       \<and> y = (ob_pending_pool ob, readiness_for_decision (en_reported_at env name) d))"
  using assms unfolding recording_def step_bind_apply
  by (auto dest!: record_step_effect simp: fine_record_account split: prod.splits sum.splits)

section \<open>The account's cycle\<close>

lemma unrecorded_fine:
  assumes "unrecorded name w w'"
  shows "fine name (cw_state w) (cw_state w')"
proof -
  let ?a = "\<lambda>w k. bm_get (gs_accounts (cw_state w)) k"
  have other: "?a w' k = ?a w k" if "k \<noteq> name" for k
    using assms that unfolding unrecorded_def by (metis fun_upd_other)
  have own: "recorded (cw_state w') name = recorded (cw_state w) name" using assms by (simp add: unrecorded_def)
  have rec: "account_ok (recorded st name) \<longleftrightarrow> account_ok (unwrap_or account_state_default (bm_get (gs_accounts st) name))"
    for st by (simp add: recorded_def account_ok_def)
  have "account_ok s" if ok: "state_ok (cw_state w)" and s: "?a w' k = Some s" for k s
  proof (cases "k = name")
    case True
    have "account_ok (unwrap_or account_state_default (?a w name))"
      using ok account_default_ok by (cases "?a w name") (auto simp: state_ok_def unwrap_or_def)
    then show ?thesis using rec own s True by (metis is_some_and_simps(8))
  next
    case False
    then show ?thesis using other s ok by (simp add: state_ok_def)
  qed
  then show ?thesis using assms by (auto simp: fine_def apart_def unrecorded_def state_ok_def)
qed

lemma reaches_untouched:
  "reaches env cfg observe_only record name a w ob v d ps w4 \<Longrightarrow> untouched name w w4"
  by (auto simp only: reaches_def)

lemma account_cycle_effect:
  assumes "account_cycle env cfg observe_only oc record name a w = (r, w')"
  shows "fine name (cw_state w) (cw_state w')"
    and "r = Inl f \<Longrightarrow> unrecorded name w w'"
proof -
  have "fine name (cw_state w) (cw_state w') \<and> (\<forall>f. r = Inl f \<longrightarrow> unrecorded name w w')"
    using assms
  proof (cases rule: account_cycle_cases)
    case (before e)
    then show ?thesis using unrecorded_fine by (auto simp: untouched_def)
  next
    case (acted ob v d ps w4)
    obtain ra w5 where w5: "actuate_account env cfg observe_only oc name a ob v d ps w4 = (ra, w5)"
      by (cases "actuate_account env cfg observe_only oc name a ob v d ps w4")
    have "cw_state w5 = cw_state w4"
      using actuate_account_effect(2) [of env cfg observe_only oc name a ob v d ps w4] by (simp add: w5)
    then have u: "unrecorded name w w5"
      using reaches_untouched [OF acted(1)] by (simp add: untouched_def unrecorded_def)
    show ?thesis
    proof (cases ra)
      case (Inl f)
      then show ?thesis using acted(2) u unrecorded_fine by (auto simp: step_bind_apply w5)
    next
      case (Inr act)
      then have "recording env name ob d ps act w5 = (r, w')" using acted(2) by (simp add: step_bind_apply w5)
      from recording_effect [OF this] u unrecorded_fine [OF u] show ?thesis
        by (cases r) (auto intro: fine_trans)
    qed
  qed
  then show "fine name (cw_state w) (cw_state w')" "r = Inl f \<Longrightarrow> unrecorded name w w'" by blast+
qed

lemma account_cycle_acts:
  assumes "account_cycle env cfg observe_only oc record name a w = (r, w')"
  obtains (nothing) "cw_acts w' = cw_acts w"
  | (acted) ob v d ps w4 where "reaches env cfg observe_only record name a w ob v d ps w4"
      "\<not> observe_only" "\<not> safety_hold cfg a ob v" "cw_pending w' = cw_pending w4"
      "cw_acts w' = cw_acts w @ fleet_acts env cfg oc name a ob d ps (bm_keys (cw_exclusions w4))"
  using assms
proof (cases rule: account_cycle_cases)
  case (before e)
  then have "cw_acts w' = cw_acts w" by (simp add: untouched_def same_acts_def)
  then show ?thesis by (rule that(1))
next
  case (acted ob v d ps w4)
  obtain ra w5 where w5: "actuate_account env cfg observe_only oc name a ob v d ps w4 = (ra, w5)"
    by (cases "actuate_account env cfg observe_only oc name a ob v d ps w4")
  note eff = actuate_account_effect [of env cfg observe_only oc name a ob v d ps w4, unfolded w5 snd_conv]
  have "cw_acts w' = cw_acts w5 \<and> cw_pending w' = cw_pending w5"
    using acted(2) recording_effect by (cases ra) (auto simp: step_bind_apply w5)
  moreover have "cw_acts w4 = cw_acts w" using reaches_untouched [OF acted(1)] by (simp add: untouched_def same_acts_def)
  ultimately show ?thesis
    using eff that(1) that(2) [OF acted(1)] by (cases "observe_only \<or> safety_hold cfg a ob v") simp_all
qed


section \<open>The whole cycle\<close>

context quiet_relation
begin

lemma quiet_open: "R w (fst (open_cycle env cfg w))"
proof -
  obtain stored oc where o1: "ownership_for_cycle env cfg (cw_exclusions w) = (stored, oc)"
    by (cases "ownership_for_cycle env cfg (cw_exclusions w)")
  define w1 where "w1 = w\<lparr> cw_pending := cw_pending w, cw_exclusions := stored \<rparr>"
  have 1: "R w w1" unfolding w1_def by (rule files)
  have 2: "R w1 (w1\<lparr> cw_runtime := Some rt \<rparr>)" for rt by (rule runtime)
  have "fst (open_cycle env cfg w) = w1 \<or> (\<exists>rt. fst (open_cycle env cfg w) = w1\<lparr> cw_runtime := Some rt \<rparr>)"
    by (auto simp: open_cycle_def o1 w1_def split: option.split)
  then show ?thesis using 1 2 R_trans by metis
qed

lemma accounts:
  assumes "\<And>name a. (name, a) \<in> set es \<Longrightarrow> keeps R (account_cycle env cfg observe_only oc record name a)"
  shows "R w (snd (run_accounts env cfg observe_only oc record es out w))"
  using assms
proof (induction es arbitrary: out w)
  case (Cons e es)
  obtain name a where e: "e = (name, a)" by (cases e)
  obtain r w1 where c: "account_cycle env cfg observe_only oc record name a (begin_account env name w) = (r, w1)"
    by (cases "account_cycle env cfg observe_only oc record name a (begin_account env name w)")
  have "R (begin_account env name w) w1" using Cons.prems [of name a] c by (auto simp: e intro: keepsD)
  then have w1: "R w w1" using metrics R_trans unfolding begin_account_def by blast
  have "R w1 (snd (run_accounts env cfg observe_only oc record es out' w1))" for out'
    using Cons.IH Cons.prems by simp
  then show ?case using w1 R_refl R_trans
    by (auto simp: e c split: sum.split account_failure.split)
qed (simp add: R_refl)

lemma cycle:
  assumes "\<And>oc record name a. (name, a) \<in> set (cf_accounts cfg) \<Longrightarrow>
    keeps R (account_cycle env cfg observe_only oc record name a)"
  shows "R w (snd (run_cycle env cfg observe_only w))"
proof -
  obtain w1 oc where o1: "open_cycle env cfg w = (w1, oc)" by (cases "open_cycle env cfg w")
  then have "R w w1" using quiet_open [of w env cfg] by simp
  moreover have "R w1 (snd (run_accounts env cfg observe_only oc (cycle_record env cfg w1) (cf_accounts cfg) no_outcome w1))"
    by (rule accounts) (rule assms)
  ultimately show ?thesis by (simp add: run_cycle_def o1 R_trans)
qed

end

lemma observe_only_account: "keeps same_acts (account_cycle env cfg True oc record name a)"
  unfolding keeps_def same_acts_def
proof
  fix w
  obtain r w' where c: "account_cycle env cfg True oc record name a w = (r, w')"
    by (cases "account_cycle env cfg True oc record name a w")
  then have "cw_acts w' = cw_acts w" by (cases rule: account_cycle_acts) simp_all
  then show "cw_acts (snd (account_cycle env cfg True oc record name a w)) = cw_acts w" by (simp add: c)
qed

lemma account_sound: "keeps sound (account_cycle env cfg observe_only oc record name a)"
  unfolding keeps_def sound_def
  using account_cycle_effect(1) [of env cfg observe_only oc "record" name a] by (metis fine_def prod.collapse)

text \<open>A readiness of a decision is never that of a failure.\<close>

lemma decision_readiness: "ar_state (readiness_for_decision t d) \<notin> {ProviderFailure, ActuationFailure}"
  by (simp add: readiness_for_decision_def Let_def)

lemma account_cycle_readiness:
  assumes "account_cycle env cfg observe_only oc record name a w = (Inr (pool, readiness), w')"
  shows "ar_state readiness \<notin> {ProviderFailure, ActuationFailure}"
  using assms
proof (cases rule: account_cycle_cases)
  case (acted ob v d ps w4)
  then obtain act w5 where "recording env name ob d ps act w5 = (Inr (pool, readiness), w')"
    by (auto simp: step_bind_apply split: prod.splits sum.splits)
  from recording_effect [OF this] show ?thesis using decision_readiness by auto
qed simp


section \<open>The report\<close>

definition in_state :: "readiness_state \<Rightarrow> (string, account_readiness) bmap \<Rightarrow> string set" where
  "in_state s m = {name. \<exists>x. bm_get m name = Some x \<and> ar_state x = s}"

definition counted :: "cycle_outcome \<Rightarrow> bool" where
  "counted out = (co_observation out = card (in_state ProviderFailure (co_statuses out))
     \<and> co_actuation out = card (in_state ActuationFailure (co_statuses out)) \<and> bm_ok (co_statuses out))"

lemma in_state_put: "bm_get m name = None \<Longrightarrow> in_state s (bm_put name x m) =
    (if ar_state x = s then insert name (in_state s m) else in_state s m)"
  by (auto simp: in_state_def bm_get_put)

lemma in_state_keys: "in_state s m \<subseteq> set (bm_keys m)"
  by (auto simp: in_state_def bm.keys_look)

lemma close_account_counted:
  assumes "counted out" "name \<notin> set (bm_keys (co_statuses out))" "\<And>e. r \<noteq> Inl (Crash e)"
    and "\<And>pool x. r = Inr (pool, x) \<Longrightarrow> ar_state x \<notin> {ProviderFailure, ActuationFailure}"
  shows "counted (close_account env name r m out)
    \<and> set (bm_keys (co_statuses (close_account env name r m out))) = insert name (set (bm_keys (co_statuses out)))
    \<and> length (co_metrics (close_account env name r m out)) = Suc (length (co_metrics out))"
proof -
  have new: "bm_get (co_statuses out) name = None" using assms(2) by (simp add: bm.keys_look)
  have fin: "finite (in_state s (co_statuses out))" "name \<notin> in_state s (co_statuses out)" for s
    using in_state_keys assms(2) finite_subset by (metis List.finite_set, blast)
  show ?thesis
  proof (cases r)
    case (Inl f)
    then show ?thesis
      using assms(1,3) fin by (cases f) (auto simp: close_account_def Let_def counted_def in_state_put [OF new]
          readiness_for_failure_def bm.keys_look bm_get_put bm_ok_put)
  next
    case (Inr x)
    then show ?thesis
      using assms(1,4) by (cases x) (auto simp: close_account_def counted_def in_state_put [OF new] bm.keys_look
          bm_get_put bm_ok_put)
  qed
qed

text \<open>The accounts a cycle gets to: those before the first at which a shutdown is seen.\<close>

definition visited :: "cycle_env \<Rightarrow> (string \<times> account_config) list \<Rightarrow> string list" where
  "visited env es = map fst (takeWhile (\<lambda>e. \<not> en_shutdown env (fst e)) es)"

lemma run_accounts_report:
  assumes "run_accounts env cfg observe_only oc record es out w = (Inr out', w')" "counted out"
    and "distinct (map fst es)" "set (map fst es) \<inter> set (bm_keys (co_statuses out)) = {}"
  shows "counted out' \<and> set (bm_keys (co_statuses out')) = set (bm_keys (co_statuses out)) \<union> set (visited env es)
    \<and> length (co_metrics out') = length (co_metrics out) + length (visited env es)"
  using assms
proof (induction es arbitrary: out w)
  case (Cons e es)
  obtain name a where e: "e = (name, a)" by (cases e)
  show ?case
  proof (cases "en_shutdown env name")
    case True
    then show ?thesis using Cons.prems(1,2) by (simp add: e visited_def)
  next
    case False
    obtain r w1 where c: "account_cycle env cfg observe_only oc record name a (begin_account env name w) = (r, w1)"
      by (cases "account_cycle env cfg observe_only oc record name a (begin_account env name w)")
    have nc: "r \<noteq> Inl (Crash x)" for x using Cons.prems(1) False by (auto simp: e c)
    define out1 where "out1 = close_account env name r (cw_metrics w1) out"
    have rest: "run_accounts env cfg observe_only oc record es out1 w1 = (Inr out', w')"
      using Cons.prems(1) False nc by (cases r) (auto simp: e c out1_def split: account_failure.splits)
    have "name \<notin> set (bm_keys (co_statuses out))" using Cons.prems(4) by (simp add: e)
    from close_account_counted [OF Cons.prems(2) this nc, of env "cw_metrics w1"] account_cycle_readiness c
    have o1: "counted out1" "set (bm_keys (co_statuses out1)) = insert name (set (bm_keys (co_statuses out)))"
        "length (co_metrics out1) = Suc (length (co_metrics out))"
      unfolding out1_def by blast+
    have "distinct (map fst es)" "set (map fst es) \<inter> set (bm_keys (co_statuses out1)) = {}"
      using Cons.prems(3,4) o1(2) by (auto simp: e)
    from Cons.IH [OF rest o1(1) this] show ?thesis using o1(2,3) False by (auto simp: e visited_def)
  qed
qed (simp add: visited_def)

lemma run_cycle_visits:
  assumes "run_cycle env cfg observe_only w = (Inr out, w')" "bm_ok (cf_accounts cfg)"
  shows "counted out" "set (bm_keys (co_statuses out)) = set (visited env (cf_accounts cfg))"
    "length (co_metrics out) = length (visited env (cf_accounts cfg))"
proof -
  obtain w1 oc where o1: "open_cycle env cfg w = (w1, oc)" by (cases "open_cycle env cfg w")
  have "counted no_outcome" by (simp add: counted_def no_outcome_def in_state_def bm_get_def bm_ok_def)
  moreover have "distinct (map fst (cf_accounts cfg))"
    using assms(2) bm.keys_distinct [of "cf_accounts cfg"] by (simp add: bm_keys_def)
  moreover have "run_accounts env cfg observe_only oc (cycle_record env cfg w1) (cf_accounts cfg) no_outcome w1 = (Inr out, w')"
    using assms(1) by (simp add: run_cycle_def o1)
  ultimately show "counted out" "set (bm_keys (co_statuses out)) = set (visited env (cf_accounts cfg))"
      "length (co_metrics out) = length (visited env (cf_accounts cfg))"
    using run_accounts_report [of env cfg observe_only oc _ "cf_accounts cfg" no_outcome w1 out w']
    by (simp_all add: no_outcome_def bm_keys_def)
qed

lemma run_cycle_report:
  assumes "run_cycle env cfg observe_only w = (Inr out, w')"
    and "bm_ok (cf_accounts cfg)" "\<And>name. \<not> en_shutdown env name"
  shows "counted out" "set (bm_keys (co_statuses out)) = set (bm_keys (cf_accounts cfg))"
    "length (co_metrics out) = length (cf_accounts cfg)"
proof -
  have "visited env (cf_accounts cfg) = bm_keys (cf_accounts cfg)"
    using assms(3) by (simp add: visited_def bm_keys_def takeWhile_eq_all_conv [THEN iffD2])
  then show "counted out" "set (bm_keys (co_statuses out)) = set (bm_keys (cf_accounts cfg))"
      "length (co_metrics out) = length (cf_accounts cfg)"
    using run_cycle_visits [OF assms(1,2)] by (simp_all add: bm_keys_def)
qed

end
