(* ===== verification/Launch_Laws.thy ===== *)
theory Launch_Laws
  imports Cycle_Laws Fleet_Laws
begin

text \<open>
  Launches of a federated instance: a granted launch is within the step, within the shared total and reserved
  on disk; a target above the current count of this host comes from the gate.
\<close>

section \<open>What the gate grants\<close>

lemma gate_launch_grants:
  assumes "gate_launch disk want limit own pend fp pool m tot bound r = (m', Inr ld)" "ld_permitted ld \<noteq> 0"
  shows "bm_get m' pool = Some (Reserved (sat_add pend (ld_permitted ld)) (pending_baseline m pool own))
    \<and> ld_permitted ld \<le> min want limit \<and> own + pend + ld_permitted ld \<le> tot"
  using assms
  by (auto simp: gate_launch_def gate_after_pull_def publish_pending_entry_def Let_def permitted_launch_def sat_sub_def
      bm_get_put split: if_splits sum.splits)

definition reserved :: "config \<Rightarrow> string \<Rightarrow> account_config \<Rightarrow> nat \<Rightarrow> nat \<Rightarrow> pending_map \<Rightarrow> bool" where
  "reserved cfg name a current n m = (\<exists>c b. bm_get m (account_pool cfg name) = Some (Reserved c b)
     \<and> n \<le> sat_add current c \<and> n \<le> current + local_step_limit cfg a)"

lemma gate_federated_grants:
  assumes "gate_federated_launch env cfg name a current desired tot actuator expired (m, stored) = ((m', stored'), Inr n)"
    and "current < n" "current < desired"
  shows "reserved cfg name a current n m' \<and> n \<le> tot"
proof -
  obtain f capacity where fc: "cf_federation cfg = Some f"
      "launch_capacity (en_fleet env name) actuator (bm_keys stored) = Inr capacity"
    using assms by (auto simp: gate_federated_launch_def split: option.splits sum.splits)
  define wanted where "wanted = min desired (sat_add current capacity)"
  define gate where "gate = gate_launch (en_disk env) (wanted - current) (local_step_limit cfg a) current
    (read_pending_launches m (account_pool cfg name)) (account_fingerprint (lf_digest (en_files env))
      (unwrap_or name (bm_get (fc_account_identities f) name))) (account_pool cfg name) m tot (step_up_bound cfg a)
    (\<lambda>_. snd (launch_pull env cfg f name actuator (min (wanted - current) (local_step_limit cfg a)) expired stored))"
  have eq: "\<exists>st. gate_federated_launch env cfg name a current desired tot actuator expired (m, stored) =
      (if wanted \<le> current then ((m, stored), Inr current)
       else ((fst gate, st), bind_res (snd gate) (\<lambda>d. Inr (sat_add current (ld_permitted d)))))"
  proof -
    have nl: "(desired \<le> current) = False" using assms(3) by simp
    show ?thesis
      by (cases gate) (simp only: gate_federated_launch_def prod.case nl fc option.case sum.case Let_def if_False
        wanted_def [symmetric] gate_def [symmetric] fst_conv snd_conv, auto)
  qed
  then obtain d where g: "snd gate = Inr d" "n = sat_add current (ld_permitted d)" "fst gate = m'"
    using assms(1,2) by (cases "snd gate") (auto split: if_splits)
  have gl: "gate = (m', Inr d)" using g by (metis prod.collapse)
  have "ld_permitted d \<noteq> 0" using assms(2) g(2) by (auto simp: sat_add_def split: if_splits)
  from gate_launch_grants [OF gl [unfolded gate_def] this] show ?thesis
    unfolding reserved_def g(2) using sat_add_mono [of current current "ld_permitted d" "sat_add pend (ld_permitted d)"]
      sat_add_le(2) [of current "ld_permitted d"] by (auto simp: sat_add_def)
qed

lemma gated_target_grants:
  assumes "gated_target env cfg name a ob v current desired tot actuator w = (Inr n, w')" "current < desired"
  shows "n \<le> current \<or> reserved cfg name a current n (cw_pending w') \<and> n \<le> tot"
  using assms gate_federated_grants
  by (auto simp: gated_target_def launch_gate_def not_le split: if_splits prod.splits)

section \<open>What is invoked\<close>

lemma fleet_invocation:
  assumes "Invoke ac n x \<in> set (fst (actuate_with_exclusions io f observed desired excluded))"
  shows "n = desired"
  using assms
  by (auto simp: actuate_with_exclusions_def acts_bind_fst actuate_config_acts retire_takeover_def acts_return_def
      split: if_splits sum.splits option.splits prod.splits)

lemma local_invocation:
  assumes "Invoke ac n x \<in> set (fst (actuate_host_targets_local io a ps local excluded))"
  shows "distinct (map hp_host_id ps) \<and> (\<exists>p \<in> set ps. hp_host_id p = local \<and> hp_target p = n)"
proof -
  have "fst (actuate_host_targets_selected io a ps (Some local) excluded) \<noteq> []"
    using assms by (auto simp: actuate_host_targets_local_def)
  then obtain hosts m k where m: "index_placements hosts [] ps = Inr m"
      "fst (actuate_host_targets_local io a ps local excluded) =
        concat (map (\<lambda>e. fst (actuate_host io (Some local) excluded m e)) (take k hosts))"
    unfolding actuate_host_targets_local_def by (rule actuate_host_targets_acts) blast
  then obtain e where "Invoke ac n x \<in> set (fst (actuate_host io (Some local) excluded m e))"
    using assms by auto
  then have "\<exists>p. bm_get m (fst e) = Some p \<and> fst e = local \<and> hp_target p = n"
    by (cases e; cases "bm_get m (fst e)") (simp_all add: actuate_host_acts split: if_splits)
  then obtain p where "bm_get m local = Some p" "hp_target p = n" by auto
  moreover from this have "(local, p) \<in> set (map (\<lambda>p. (hp_host_id p, p)) ps)"
    using index_placements_Inr [OF m(1)] by (intro map_of_SomeD) (auto simp: bm_get_def split: option.splits)
  ultimately show ?thesis using index_placements_Inr [OF m(1)] by auto
qed

section \<open>The local placement\<close>

lemma place_current:
  assumes "place ch name desired a current resources now = Inr ps" "p \<in> set ps"
  shows "hp_current p = unwrap_or 0 (bm_get current (hp_host_id p))
    \<and> (\<exists>hosts. fl_hosts (ac_fleet a) = Some hosts \<and> hp_host_id p \<in> set (bm_keys hosts))"
  using assms
  by (auto simp: place_def place_host_def view_host_def opt_filter_Some bm_keys_def Let_def image_iff
      split: option.splits) force

lemma collect_res_keys:
  assumes "collect_res g xs = Inr ys" "\<And>x y. g x = Inr y \<Longrightarrow> fst y = fst x"
  shows "map fst ys = map fst xs"
  using assms(1)
proof (induction xs arbitrary: ys)
  case (Cons x xs)
  then obtain y zs where "g x = Inr y" "collect_res g xs = Inr zs" "ys = y # zs" by (auto simp: bind_res_Inr_iff)
  then show ?case using Cons.IH assms(2) by simp
qed simp

lemma current_host_keys:
  assumes "current_host_workers io a = Inr current" "fl_hosts (ac_fleet a) = Some hosts"
  shows "bm_keys current = bm_keys hosts"
proof -
  have "collect_res (\<lambda>(host_id, h). bind_res (with_context (''host '' @ host_id @ '' observer failed'')
      (io_observe io (hc_observer h) [])) (\<lambda>(owned, unowned). Inr (host_id, owned))) hosts = Inr current"
    using assms by (auto simp: current_host_workers_def configured_hosts_def bind_res_Inr_iff opt_filter_Some
        split: option.splits if_splits)
  then show ?thesis
    unfolding bm_keys_def by (rule collect_res_keys) (auto simp: bind_res_Inr_iff)
qed

lemma map_set_target: "map hp_host_id (set_target h n ps) = map hp_host_id ps"
  by (induction ps) auto

lemma set_target_local:
  assumes "q \<in> set (set_target h n ps)" "hp_host_id q = h" "distinct (map hp_host_id ps)"
  shows "hp_target q = n"
  using assms
proof (induction ps)
  case (Cons p ps)
  show ?case
  proof (cases "hp_host_id p = h")
    case True
    have "hp_host_id p \<notin> hp_host_id ` set ps" using Cons.prems(3) by simp
    then have "q \<notin> set ps" using True Cons.prems(2) by (metis imageI)
    then show ?thesis using Cons.prems(1) True by auto
  next
    case False
    then have "q \<in> set (set_target h n ps)" using Cons.prems(1,2) by auto
    then show ?thesis using Cons.IH Cons.prems(2,3) by simp
  qed
qed simp

lemma find_local:
  assumes "find (\<lambda>p. hp_host_id p = h) ps = Some p" "distinct (map hp_host_id ps)" "q \<in> set ps" "hp_host_id q = h"
  shows "q = p"
proof -
  have "inj_on hp_host_id (set ps)" using assms(2) by (simp add: distinct_map)
  moreover have "p \<in> set ps" "hp_host_id p = h" using assms(1) by (auto simp: find_Some_iff)
  ultimately show ?thesis using assms(3,4) by (auto dest: inj_onD)
qed

text \<open>The local target of gated placements is at most the local count, or it is reserved.\<close>

lemma gate_placements_local:
  assumes "gate_placements env cfg observe_only name a ob v d ps w = (Inr qs, w')" "\<not> observe_only"
    and "cf_federation cfg = Some f" "fc_peers f \<noteq> []"
    and "distinct (map hp_host_id qs)" "q \<in> set qs" "hp_host_id q = fc_host_id f"
    and "\<And>p. p \<in> set ps \<Longrightarrow> hp_host_id p = fc_host_id f \<Longrightarrow> hp_current p = c"
  shows "hp_target q \<le> c \<or> reserved cfg name a c (hp_target q) (cw_pending w')"
proof (cases "find (\<lambda>p. hp_host_id p = fc_host_id f) ps")
  case None
  then have "qs = ps" using assms by (simp add: gate_placements_def)
  then show ?thesis using None assms(6,7) by (auto simp: find_None_iff)
next
  case (Some p)
  then have p: "p \<in> set ps" "hp_host_id p = fc_host_id f" by (auto simp: find_Some_iff)
  have dist: "distinct (map hp_host_id ps)" if "qs = set_target h n ps \<or> qs = ps" for h n
    using assms(5) that by (auto simp: map_set_target)
  show ?thesis
  proof (cases "hp_target p \<le> hp_current p")
    case True
    then have "qs = ps" using assms(1-4) Some by (simp add: gate_placements_def)
    then show ?thesis using find_local [OF Some _ _ assms(7)] dist assms(6) True assms(8) [OF p] by metis
  next
    case False
    then obtain actuator n w1 where g: "gated_target env cfg name a ob v (hp_current p) (hp_target p)
        (unwrap_or (dc_desired d) (fv_total v)) actuator w = (Inr n, w')" "qs = set_target (fc_host_id f) n ps"
      using assms(1-4) Some by (auto simp: gate_placements_def step_bind_Inr)
    have "hp_target q = n" using set_target_local [of q "fc_host_id f" n ps] assms(6,7) g(2) dist by blast
    then show ?thesis using gated_target_grants [OF g(1)] False assms(8) [OF p] by auto
  qed
qed


section \<open>An account's launches\<close>

lemma observe_account_Inr:
  assumes "observe_account env cfg name a w = (Inr ob, w1)"
  shows "observe_workers (en_fleet env name) a = Inr (ob_workers ob, ob_hosts ob)"
  using assms by (auto simp: observe_account_def step_bind_Inr case_prod_beta)

lemma observe_hosts_current:
  assumes "observe_workers io a = Inr (workers, Some current)" "fl_hosts (ac_fleet a) = Some hosts"
  shows "bm_keys current = bm_keys hosts"
  using assms current_host_keys by (auto simp: observe_workers_def bind_res_Inr_iff split: if_splits)

lemma gate_account_target:
  assumes "gate_account env cfg observe_only name a ob v d0 w = (Inr d, w')" "ob_hosts ob = None"
    and "federated cfg" "\<not> observe_only"
  shows "dc_desired d \<le> ob_workers ob \<or> reserved cfg name a (ob_workers ob) (dc_desired d) (cw_pending w')"
proof (cases "ob_workers ob < dc_desired d0")
  case True
  then obtain n where "gated_target env cfg name a ob v (ob_workers ob) (dc_desired d0) (unwrap_or (dc_desired d0) (fv_total v))
      (fl_actuator (ac_fleet a)) w = (Inr n, w')" "d = d0\<lparr> dc_desired := n \<rparr>"
    using assms by (auto simp: gate_account_def step_bind_Inr)
  then show ?thesis using gated_target_grants True by fastforce
next
  case False
  then show ?thesis using assms(1) by (simp add: gate_account_def)
qed

lemma place_account_local:
  assumes "place_account env cfg observe_only name a ob v d w = (Inr (Some qs), w')" "\<not> observe_only"
    and "cf_federation cfg = Some f" "fc_peers f \<noteq> []"
    and "observe_workers (en_fleet env name) a = Inr (ob_workers ob, ob_hosts ob)"
    and "distinct (map hp_host_id qs)" "q \<in> set qs" "hp_host_id q = fc_host_id f"
  defines "c \<equiv> own_workers f (ob_workers ob) (ob_hosts ob)"
  shows "hp_target q \<le> c \<or> reserved cfg name a c (hp_target q) (cw_pending w')"
proof -
  obtain current where cur: "ob_hosts ob = Some current"
    using assms(1) by (cases "ob_hosts ob") (auto simp: place_account_def)
  obtain resources ps0 ps w1 where pl: "place (en_ch env) name (dc_desired d) a current resources (en_now env name) = Inr ps0"
      "federated_placements cfg (safety_hold cfg a ob v) v d ps0 = Inr ps"
      "gate_placements env cfg observe_only name a ob v d ps w = (Inr qs, w1)" "cw_pending w' = cw_pending w1"
    using assms(1) cur by (auto simp: place_account_def Let_def step_bind_Inr bind_res_Inr_iff)
  have "hp_current p = c" if p: "p \<in> set ps" "hp_host_id p = fc_host_id f" for p
  proof -
    obtain p0 where p0: "p0 \<in> set ps0" "hp_host_id p0 = fc_host_id f" "hp_current p0 = hp_current p"
      using pl(2) p assms(3) by (auto simp: federated_placements_def federated_target_def split: option.splits)
    from place_current [OF pl(1) p0(1)] obtain hosts where h: "fl_hosts (ac_fleet a) = Some hosts"
        "fc_host_id f \<in> set (bm_keys hosts)" "hp_current p = unwrap_or 0 (bm_get current (fc_host_id f))"
      using p0 by auto
    have "fc_host_id f \<in> set (bm_keys current)"
      using observe_hosts_current [of "en_fleet env name" a "ob_workers ob" current hosts] assms(5) cur h(1,2) by simp
    then obtain k where "bm_get current (fc_host_id f) = Some k" by (auto simp: bm.keys_look)
    then show ?thesis using h(3) by (simp add: c_def own_workers_def cur)
  qed
  from gate_placements_local [OF pl(3) assms(2,3,4,6,7,8) this] show ?thesis unfolding pl(4) by simp
qed

text \<open>Every count above the own workers that an actuator is invoked with is reserved.\<close>

lemma fleet_acts_reserved:
  assumes "reaches env cfg observe_only record name a w ob v d ps w4" "\<not> observe_only"
    and "cf_federation cfg = Some f" "fc_peers f \<noteq> []"
    and "Invoke ac n x \<in> set (fleet_acts env cfg oc name a ob d ps excluded)"
  defines "c \<equiv> own_workers f (ob_workers ob) (ob_hosts ob)"
  shows "n \<le> c \<or> reserved cfg name a c n (cw_pending w4)"
proof -
  obtain w1 d0 w2 w3 where r0: "observe_account env cfg name a w = (Inr ob, w1)"
      "gate_account env cfg observe_only name a ob v d0 w2 = (Inr d, w3)"
      "place_account env cfg observe_only name a ob v d (w3\<lparr> cw_metrics := apply_decision (en_ch env) d
         (ar_reason (readiness_for_decision (en_reported_at env name) d)) (en_now env name) (cw_metrics w3) \<rparr>) = (Inr ps, w4)"
    using assms(1) unfolding reaches_def by blast
  define wm where "wm = w3\<lparr> cw_metrics := apply_decision (en_ch env) d
    (ar_reason (readiness_for_decision (en_reported_at env name) d)) (en_now env name) (cw_metrics w3) \<rparr>"
  have "cw_pending wm = cw_pending w3" by (simp add: wm_def)
  note r = r0(1,2) this r0(3) [folded wm_def]
  have fed: "federated cfg" using assms(3,4) by (simp add: federated_def)
  note ow = observe_account_Inr [OF r(1)]
  show ?thesis
  proof (cases ps)
    case None
    then have h: "ob_hosts ob = None" "w4 = wm" using r(4)
      by (auto simp: place_account_def Let_def step_bind_Inr split: option.splits)
    have "n = dc_desired d" using assms(5) fleet_invocation by (auto simp: fleet_acts_def None)
    then show ?thesis using gate_account_target [OF r(2) h(1) fed assms(2)] h r(3) by (simp add: c_def own_workers_def)
  next
    case (Some qs)
    then have "Invoke ac n x \<in> set (fst (actuate_host_targets_local (en_fleet env name) a qs (fc_host_id f) excluded))"
      using assms(3-5) by (simp add: fleet_acts_def)
    from local_invocation [OF this] obtain q where q: "distinct (map hp_host_id qs)" "q \<in> set qs"
        "hp_host_id q = fc_host_id f" "hp_target q = n" by blast
    from place_account_local [OF r(4) [unfolded Some] assms(2-4) ow q(1-3)] show ?thesis
      unfolding c_def q(4) .
  qed
qed

end
