(* ===== verification/Cycle_Samples.thy ===== *)
theory Cycle_Samples
  imports Samples Cycle_Laws
begin

text \<open>
  A federated configuration with one account on one host and one peer, and an environment in which a cycle
  finds two workers, decides on four and passes the gate: the theorems on cycles are applied to it.
\<close>

definition acct3 :: account_config where
  "acct3 = \<lparr> ac_source = NormalizedFile ''quota.json'',
     ac_fleet = fleet1\<lparr> fl_observer := Some (ObsStatic 2), fl_actuator := TargetFile ''target'' \<rparr>,
     ac_util = util1\<lparr> ut_zai_saturation := None, ut_strategy := CeilingOnly \<rparr>, ac_banked = banked_reset_default \<rparr>"

lemma acct3_simps [simp]:
  "ac_source acct3 = NormalizedFile ''quota.json''"
  "fl_min_workers (ac_fleet acct3) = 1" "fl_max_workers (ac_fleet acct3) = 10" "fl_max_up (ac_fleet acct3) = 2"
  "fl_max_down (ac_fleet acct3) = 1" "fl_observer (ac_fleet acct3) = Some (ObsStatic 2)"
  "fl_actuator (ac_fleet acct3) = TargetFile ''target''" "fl_hosts (ac_fleet acct3) = None"
  "fl_takeover (ac_fleet acct3) = []" "fl_reconciliation (ac_fleet acct3) = Strict"
  "ut_zai_saturation (ac_util acct3) = None" "ut_backpressure (ac_util acct3) = None"
  "ut_stale_after (ac_util acct3) = 600" "br_enabled (ac_banked acct3) = False"
  by (simp_all add: acct3_def fleet1_def util1_def banked_reset_default_def)

definition snap3 :: quota_snapshot where
  "snap3 = snap1\<lparr> qs_windows := [win5h] \<rparr>"

lemma snap3_simps [simp]: "qs_windows snap3 = [win5h]" "qs_observed_at snap3 = secs 3600" "qs_backlog snap3 = Some 8"
  "qs_fresh snap3"
  by (simp_all add: snap3_def snap1_def)

lemma acct3_policy: "policy_for (ac_util acct3) wid =
    Inr (Some \<lparr> rp_burn_window_seconds = None, rp_target = Fin (7/8), rp_strategy = CeilingOnly \<rparr>)"
  by (simp add: policy_for_def acct3_def util1_def bm_get_def)

text \<open>The account asks for its ceiling of ten and is limited to two workers more.\<close>

lemma acct3_decides:
  "\<exists>d. evaluate chrono_ref name acct3 snap3 prior 2 (secs 3660) = Inr d \<and> dc_desired d = 4 \<and> dc_stale d = False
     \<and> dc_saturation d = None \<and> dc_backpressure d = None"
proof -
  have st: "snapshot_stale chrono_ref acct3 snap3 (secs 3660) = False"
    by (simp add: snapshot_stale_def age_seconds_def chrono_ref_def trunc_div_def max0_as_u64_def secs_def)
  have ws: "\<exists>e. evaluate_windows chrono_ref acct3 snap3 prior 2 (secs 3660) False [win5h] = Inr [e] \<and> wd_desired e = 10"
    by (simp add: acct3_policy window_target_def decide_window_def win5h_def secs_def clamp_u32_def)
  then obtain e where e: "evaluate_windows chrono_ref acct3 snap3 prior 2 (secs 3660) False [win5h] = Inr [e]"
    "wd_desired e = 10" by blast
  have b: "bound_desired acct3 snap3 2 10 None = Inr 4"
    by (simp add: bound_desired_def apply_step_limits_def clamp_u32_def sat_add_def u32_max_def)
  show ?thesis
    by (simp add: evaluate_def st banked_available_def e banked_reset_decision_def arbitrate_def b del: evaluate_windows.simps)
qed

definition fed3 :: federation_config where
  "fed3 = \<lparr> fc_host_id = ''east'', fc_instance_id_file = None, fc_record_seq_file = None,
     fc_host_capacity_state = None, fc_account_identities = [], fc_peers = [\<lparr> pc_host_id = ''west'', pc_argv = None \<rparr>],
     fc_stale_after = 300, fc_expiry = 900, fc_primary = True, fc_repo_owners = [], fc_pending_file = None \<rparr>"

definition config3 :: config where
  "config3 = \<lparr> cf_version = 1, cf_poll_interval = 60, cf_state_path = None, cf_accounts = [(''zai'', acct3)],
     cf_federation = Some fed3 \<rparr>"

lemma config3_simps [simp]: "cf_accounts config3 = [(''zai'', acct3)]" "cf_federation config3 = Some fed3"
  "fc_peers fed3 = [\<lparr> pc_host_id = ''west'', pc_argv = None \<rparr>]" "fc_host_id fed3 = ''east''"
  "fc_repo_owners fed3 = []" "fc_account_identities fed3 = []"
  by (simp_all add: config3_def fed3_def)

text \<open>The peer answers with a record that holds nothing of the account.\<close>

definition west3 :: peer_record where
  "west3 = \<lparr> pr_schema_version = 1, pr_instance_id = ''w'', pr_host_id = ''west'', pr_record_seq = 1,
     pr_observed_at = secs 3600, pr_accounts = [], pr_host_ceiling = None, pr_reservations = [],
     pr_resource_reserve = None, pr_workspace_origins = [] \<rparr>"

definition files3 :: local_files where
  "files3 = \<lparr> lf_instance_id = Inr ''e'', lf_record_seq = Inr 1, lf_status = [], lf_state = Inr gov_state_default,
     lf_capacity = Inl (Bail ''absent''), lf_excluded = [], lf_pending = [], lf_demand = (\<lambda>p. None), lf_git = (\<lambda>p. None),
     lf_timestamp = (\<lambda>s n. None), lf_digest = (\<lambda>s. []) \<rparr>"

definition moment3 :: peer_moment where
  "moment3 = \<lparr> pm_monotonic = 0, pm_wall = secs 3660 \<rparr>"

definition fleet_io3 :: "unit res \<Rightarrow> fleet_io" where
  "fleet_io3 answer = \<lparr> io_observe = (\<lambda>ob t. Inr (2, 0)), io_reobserve = (\<lambda>ob t. Inr (2, 0)),
     io_actuate = (\<lambda>ac n x. answer), io_helper = (\<lambda>h. Inr ()), io_seeds = (\<lambda>p. Inr []) \<rparr>"

definition env3 :: "unit res \<Rightarrow> cycle_env" where
  "env3 answer = \<lparr> en_ch = chrono_ref, en_source = (\<lambda>a s. Inr snap3), en_fleet = (\<lambda>a. fleet_io3 answer),
     en_resource = (\<lambda>a h s. Inl (Bail ''none'')), en_began_at = (\<lambda>a. secs 3650), en_now = (\<lambda>a. secs 3660),
     en_reported_at = (\<lambda>a. secs 3661), en_start = secs 3640, en_ingest_moment = (\<lambda>h. moment3),
     en_moment = (\<lambda>a. moment3), en_expiry_moment = (\<lambda>a. moment3), en_received_at = (\<lambda>a. secs 3660),
     en_pull = (\<lambda>a p. Some west3), en_files = files3, en_writable = True, en_disk = (\<lambda>m. True),
     en_shutdown = (\<lambda>a. False) \<rparr>"

lemma env3_simps [simp]: "en_ch (env3 answer) = chrono_ref" "en_source (env3 answer) a s = Inr snap3" "en_fleet (env3 answer) a = (fleet_io3 answer)"
  "en_now (env3 answer) a = secs 3660" "en_received_at (env3 answer) a = secs 3660" "en_pull (env3 answer) b p = Some west3"
  "en_files (env3 answer) = files3" "en_writable (env3 answer)" "en_disk (env3 answer) m" "en_shutdown (env3 answer) a = False"
  by (simp_all add: env3_def)

definition world3 :: cycle_world where
  "world3 = \<lparr> cw_state = gov_state_default, cw_runtime = None, cw_pending = [], cw_exclusions = [], cw_acts = [],
     cw_metrics = new_metrics ''zai'' (secs 3650) \<rparr>"

lemma world3_simps [simp]: "cw_state world3 = gov_state_default" "cw_runtime world3 = None" "cw_pending world3 = []"
  "cw_exclusions world3 = []" "cw_acts world3 = []"
  by (simp_all add: world3_def)

lemma world3_ok: "state_ok (cw_state world3)"
  by (simp add: state_ok_def gov_state_default_def bm_get_def bm.inv_emp)


section \<open>The sample cycle\<close>

lemma prefixes3: "local_worker_prefixes config3 = []"
  by (simp add: local_worker_prefixes_def identifier_prefix_def host_actuator_def host_observer_def List.map_filter_def
      bm_collect_def)

lemma pool3: "account_pool config3 ''zai'' = ''zai''"
  by (simp add: account_pool_def prefixes3 bm_get_def)

lemma origins3: "local_workspace_origins (\<lambda>p. None) (\<lambda>p. None) config3 = []"
  by (simp add: local_workspace_origins_def bm_vals_def local_seed_origins_def pool_demand_digest_def
      seed_demand_state_def host_actuator_def seed_origins_def bm_extend_def seed_paths_def demand_default_def
      List.map_filter_def bm_collect_def)

lemma west3_simps [simp]: "pr_host_id west3 = ''west''" "pr_accounts west3 = []" "pr_observed_at west3 = secs 3600"
  by (simp_all add: west3_def)

lemma refresh3: "refresh (env3 answer) config3 b st = Inr ([], \<lparr> oc_fresh = True, oc_excluded = [], oc_events = [],
    oc_records = [west3] \<rparr>)"
proof -
  have r: "refuse_prefix_collisions [] [west3] = Inr ()"
    by (simp add: refuse_prefix_collisions_def claimed_prefixes_def bm_vals_def)
  have p: "pulled_records (\<lambda>p. Some west3) [\<lparr> pc_host_id = ''west'', pc_argv = None \<rparr>] = [west3]"
    "pulls_fresh (\<lambda>p. Some west3) [\<lparr> pc_host_id = ''west'', pc_argv = None \<rparr>]"
    by (simp_all add: pulled_records_def pulls_fresh_def List.map_filter_def)
  have g: "lf_git files3 = (\<lambda>p. None)" "lf_demand files3 = (\<lambda>p. None)" by (simp_all add: files3_def)
  have e: "en_pull (env3 answer) b = (\<lambda>p. Some west3)" by (rule ext) simp
  show ?thesis
    by (simp add: refresh_def refresh_ownership_def resolve_workspace_overlap_def prefixes3 origins3 r p g e
        List.map_filter_def bm_collect_def bm_keys_def)
qed

lemma gate3: "gate_federated_launch (env3 answer) config3 ''zai'' acct3 2 4 4 (TargetFile ''target'') [] ([], [])
    = (([(''zai'', Reserved 2 2)], []), Inr 4)"
proof -
  have pull: "launch_pull (env3 answer) config3 fed3 ''zai'' (TargetFile ''target'') 2 [] [] = ([], Inr [west3])"
    by (simp add: launch_pull_def refresh3 clock_skew_tolerance_def chrono_ref_def trunc_div_def secs_def
        launch_capacity_def u32_max_def)
  have step: "local_step_limit config3 acct3 = 2" by (simp add: local_step_limit_def)
  have committed: "peers_committed fp [west3] = 0" for fp
    by (simp add: peers_committed_def record_committed_def bm_vals_def sat_sum_def)
  have m: "read_pending_launches [] ''zai'' = 0" "pending_baseline [] ''zai'' 2 = 2" "bm_get [] ''zai'' = None"
    by (simp_all add: read_pending_launches_def pending_baseline_def bm_get_def)
  have g: "gate_launch (en_disk (env3 answer)) 2 2 2 0 fp ''zai'' [] 4 bound (\<lambda>_. Inr [west3]) =
      ([(''zai'', Reserved 2 2)], Inr \<lparr> ld_permitted = 2, ld_abandoned = False, ld_events = [] \<rparr>)" for fp bound
    by (simp add: gate_launch_def Let_def m sat_add_def u32_max_def publish_pending_entry_def gate_after_pull_def
        permitted_launch_def sat_sub_def committed)
  have "gate_publishes (en_disk (env3 answer)) 2 2 2 0 ''zai'' []" by (simp add: gate_publishes_def)
  then show ?thesis
    by (simp add: gate_federated_launch_def launch_capacity_def bm_keys_def pool3 step Let_def pull m g sat_add_def u32_max_def)
qed

lemma observe3: "\<exists>w. observe_account (env3 answer) config3 ''zai'' acct3 world3 =
    (Inr \<lparr> ob_snapshot = snap3, ob_workers = 2, ob_hosts = None, ob_pending = 0, ob_pending_pool = None,
       ob_prior = account_state_default, ob_unowned = 0 \<rparr>, w)
    \<and> cw_runtime w = None \<and> cw_pending w = [] \<and> cw_exclusions w = [] \<and> cw_acts w = []"
proof -
  have "observe_workers (fleet_io3 answer) acct3 = Inr (2, None)" "unowned_workers (fleet_io3 answer) (ac_fleet acct3) = Inr 0"
    by (simp_all add: observe_workers_def has_hosts_def current_workers_def unowned_workers_def fleet_io3_def
        reconcile_observed_range_def)
  moreover have "cycle_pending config3 ''zai'' 2 None [] = (0, None)"
    by (simp add: cycle_pending_def pool3 read_pending_launches_def pending_observed_def bm_get_def)
  moreover have "prior_state ''zai'' (world3\<lparr> cw_metrics := m \<rparr>) = account_state_default" for m
    by (simp add: prior_state_def gov_state_default_def bm_get_def)
  ultimately show ?thesis
    by (simp add: observe_account_def step_bind_apply as_failure_def)
qed

text \<open>The cycle invokes the actuator with four under a reservation of two, and fails with the actuator.\<close>

lemma account_cycle3:
  "\<exists>r w. account_cycle (env3 answer) config3 False oc rec ''zai'' acct3 world3 = (r, w)
     \<and> cw_acts w = [Invoke (TargetFile ''target'') 4 []] \<and> bm_get (cw_pending w) ''zai'' = Some (Reserved 2 2)
     \<and> (case answer of Inr u \<Rightarrow> \<exists>y. r = Inr y | Inl e \<Rightarrow> r = Inl (failure_of Actuation e))"
proof -
  let ?ob = "\<lparr> ob_snapshot = snap3, ob_workers = 2, ob_hosts = None, ob_pending = 0, ob_pending_pool = None,
    ob_prior = account_state_default, ob_unowned = 0 \<rparr>"
  obtain w1 where w1: "observe_account (env3 answer) config3 ''zai'' acct3 world3 = (Inr ?ob, w1)"
    "cw_runtime w1 = None" "cw_pending w1 = []" "cw_exclusions w1 = []" "cw_acts w1 = []"
    using observe3 by blast
  obtain d where d: "evaluate chrono_ref ''zai'' acct3 snap3 account_state_default 2 (secs 3660) = Inr d"
    "dc_desired d = 4" "dc_stale d = False" "dc_saturation d = None" "dc_backpressure d = None"
    using acct3_decides by blast
  have fed: "federated config3" by (simp add: federated_def)
  have dec: "decide_account (env3 answer) config3 rec ''zai'' acct3 ?ob w1 = (Inr (d, no_view), w1)"
    by (simp add: decide_account_def step_bind_apply evaluate_pool_def d(1) as_failure_def federate_account_def w1(2)
        saturate_def brake_def local_decision_def no_view_def)
  have gate: "gate_account (env3 answer) config3 False ''zai'' acct3 ?ob no_view d w1 =
      (Inr d, w1\<lparr> cw_pending := [(''zai'', Reserved 2 2)], cw_exclusions := [] \<rparr>)"
    using d(2) by (simp add: gate_account_def fed no_view_def gated_target_def launch_gate_def w1 gate3 step_bind_apply
        as_failure_def)
  have hold: "\<not> safety_hold config3 acct3 ?ob no_view" by (simp add: safety_hold_def no_view_def)
  have act: "fst (actuate_with_exclusions (fleet_io3 answer) (ac_fleet acct3) 2 4 []) = [Invoke (TargetFile ''target'') 4 []]"
    "case answer of Inr u \<Rightarrow> (\<exists>n. snd (actuate_with_exclusions (fleet_io3 answer) (ac_fleet acct3) 2 4 []) = Inr n)
      | Inl e \<Rightarrow> snd (actuate_with_exclusions (fleet_io3 answer) (ac_fleet acct3) 2 4 []) = Inl e"
    by (simp_all add: actuate_with_exclusions_def actuate_config_with_exclusions_def fleet_io3_def retire_takeover_def
        acts_bind_def acts_return_def split: sum.split)
  show ?thesis
  proof (cases answer)
    case (Inl e)
    then have n: "actuate_with_exclusions (fleet_io3 answer) (ac_fleet acct3) 2 4 [] =
      ([Invoke (TargetFile ''target'') 4 []], Inl e)" using act by (simp add: prod_eq_iff)
    show ?thesis
      unfolding account_cycle_def
      by (simp add: step_bind_apply w1 [unfolded Inl] dec [unfolded Inl] gate [unfolded Inl] place_account_def Let_def actuate_account_def hold actuate_fleet_def fed
          bm_keys_def d(2) n [unfolded Inl] as_failure_def bm_get_def Inl)
  next
    case (Inr u)
    then have unit: "answer = Inr ()" by simp
    from Inr obtain n where n: "actuate_with_exclusions (fleet_io3 answer) (ac_fleet acct3) 2 4 [] =
      ([Invoke (TargetFile ''target'') 4 []], Inr n)" using act by (auto simp: prod_eq_iff)
    show ?thesis
      unfolding account_cycle_def
      by (simp add: step_bind_apply w1 [unfolded unit] dec [unfolded unit] gate [unfolded unit] place_account_def Let_def actuate_account_def hold actuate_fleet_def fed
          bm_keys_def d(2) n [unfolded unit] as_failure_def succeeded_def record_step_def record_account_def bm_get_def unit)
  qed
qed


lemma run_cycle3:
  "\<exists>out w. run_cycle (env3 (Inl (Bail e))) config3 False world3 = (Inr out, w) \<and> co_actuation out = 1"
proof -
  have "ownership_for_cycle (env3 (Inl (Bail e))) config3 [] = ([], \<lparr> oc_fresh = True, oc_excluded = [], oc_events = [],
      oc_records = [west3] \<rparr>)"
    by (simp add: ownership_for_cycle_def federated_def refresh3)
  then obtain oc where o1: "open_cycle (env3 (Inl (Bail e))) config3 world3 = (world3, oc)"
    by (simp add: open_cycle_def world3_def)
  have b: "begin_account (env3 (Inl (Bail e))) ''zai'' world3 = world3"
    by (simp add: begin_account_def world3_def env3_def)
  obtain w where "account_cycle (env3 (Inl (Bail e))) config3 False oc (cycle_record (env3 (Inl (Bail e))) config3 world3)
      ''zai'' acct3 world3 = (Inl (Actuation e), w)" using account_cycle3 [of "Inl (Bail e)"] by auto
  then show ?thesis by (simp add: run_cycle_def o1 b close_account_def Let_def no_outcome_def)
qed

end
