(* ===== verification/Cycle_Properties.thy ===== *)
theory Cycle_Properties
  imports Launch_Laws Cycle_Samples
begin

text \<open>
  The control cycle as a whole: when nothing is invoked, what a failure leaves as it was, that a failure of one
  account stays with it, and that every launch of a federated instance is reserved before it happens.
\<close>

section \<open>Nothing is invoked\<close>

text \<open>C26: A cycle that only observes invokes no actuator and no takeover helper, whatever it reads and
  whatever it decides for any account.\<close>

theorem observe_only_invokes_nothing:
  "cw_acts (snd (run_cycle env cfg True w)) = cw_acts w"
  using acts.cycle [of cfg env True w] observe_only_account by (simp add: same_acts_def)

text \<open>A federated account with a policy the shared decision cannot carry, banked resets, a saturation
  search or a brake, keeps its workers: no actuator is invoked for it.\<close>

theorem held_account_invokes_nothing:
  assumes "federated cfg"
    and "br_enabled (ac_banked a) \<or> ut_zai_saturation (ac_util a) \<noteq> None \<or> ut_backpressure (ac_util a) \<noteq> None"
  shows "cw_acts (snd (account_cycle env cfg observe_only oc rec name a w)) = cw_acts w"
proof -
  obtain r w' where c: "account_cycle env cfg observe_only oc rec name a w = (r, w')"
    by (cases "account_cycle env cfg observe_only oc rec name a w")
  then have "cw_acts w' = cw_acts w"
    using assms by (cases rule: account_cycle_acts) (auto simp: safety_hold_def)
  then show ?thesis by (simp add: c)
qed

theorem held_account_invokes_nothing_witness:
  "cw_acts (snd (account_cycle (env3 (Inr ())) config3 False ownership_default None ''zai'' acct1 world3)) = []"
proof -
  have "federated config3" by (simp add: federated_def)
  moreover have "ut_zai_saturation (ac_util acct1) \<noteq> None" by (simp add: acct1_def util1_def)
  ultimately show ?thesis using held_account_invokes_nothing by simp
qed

section \<open>Failures\<close>

text \<open>C23: An account whose cycle fails, in its source, its observers, its decision, its gate or its actuator,
  records nothing: no host's history, no other account and of its own entry at most the states of the two
  searches differ from before.\<close>

theorem failed_account_records_nothing:
  assumes "account_cycle env cfg observe_only oc rec name a w = (Inl f, w')"
  shows "gs_hosts (cw_state w') = gs_hosts (cw_state w)
    \<and> (bm_get (gs_accounts (cw_state w')))(name := None) = (bm_get (gs_accounts (cw_state w)))(name := None)
    \<and> (\<exists>sat bp. unwrap_or account_state_default (bm_get (gs_accounts (cw_state w')) name)
         = (unwrap_or account_state_default (bm_get (gs_accounts (cw_state w)) name))
             \<lparr> as_saturation := sat, as_backpressure := bp \<rparr>)"
proof -
  have u: "unrecorded name w w'" by (rule account_cycle_effect(2) [OF assms refl])
  let ?s = "unwrap_or account_state_default (bm_get (gs_accounts (cw_state w)) name)"
  let ?s' = "unwrap_or account_state_default (bm_get (gs_accounts (cw_state w')) name)"
  have "?s' = ?s\<lparr> as_saturation := as_saturation ?s', as_backpressure := as_backpressure ?s' \<rparr>"
    using u by (cases ?s; cases ?s') (simp add: unrecorded_def recorded_def)
  then show ?thesis using u unfolding unrecorded_def by blast
qed

theorem failed_account_records_nothing_witness:
  "\<exists>w. account_cycle (env3 (Inl (Bail ''busy''))) config3 False ownership_default None ''zai'' acct3 world3
       = (Inl (Actuation ''busy''), w)
     \<and> gs_hosts (cw_state w) = []"
proof -
  obtain w where "account_cycle (env3 (Inl (Bail ''busy''))) config3 False ownership_default None ''zai'' acct3 world3
    = (Inl (Actuation ''busy''), w)" using account_cycle3 [of "Inl (Bail ''busy'')"] by auto
  from this failed_account_records_nothing [OF this] show ?thesis by (simp add: gov_state_default_def)
qed

text \<open>An account's cycle changes the state of that account only: every other account and the hosts of every
  other account are as before, however the cycle ends.\<close>

theorem account_changes_own_state:
  "(bm_get (gs_accounts (cw_state (snd (account_cycle env cfg observe_only oc rec name a w)))))(name := None)
     = (bm_get (gs_accounts (cw_state w)))(name := None)
   \<and> (bm_get (gs_hosts (cw_state (snd (account_cycle env cfg observe_only oc rec name a w)))))(name := None)
     = (bm_get (gs_hosts (cw_state w)))(name := None)"
proof -
  obtain r w' where c: "account_cycle env cfg observe_only oc rec name a w = (r, w')"
    by (cases "account_cycle env cfg observe_only oc rec name a w")
  then show ?thesis using account_cycle_effect(1) [OF c] by (simp add: fine_def apart_def)
qed

text \<open>C22: A cycle keeps the state well formed, in every outcome: its maps ordered, its histories within their
  bounds and their maxima above every sample.\<close>

theorem cycle_keeps_state_ok:
  assumes "state_ok (cw_state w)"
  shows "state_ok (cw_state (snd (run_cycle env cfg observe_only w)))"
  using ok.cycle [of cfg env observe_only w] account_sound assms by (simp add: sound_def)

theorem cycle_keeps_state_ok_witness:
  "state_ok (cw_state (snd (run_cycle (env3 (Inr ())) config3 False world3)))"
  by (rule cycle_keeps_state_ok [OF world3_ok])

text \<open>C24: A cycle that is not told to stop reports on every configured account, however many of them failed:
  one status and one metrics line each, and the two failure counts are the numbers of statuses that say so.\<close>

theorem every_account_is_reported:
  assumes "run_cycle env cfg observe_only w = (Inr out, w')"
    and "bm_ok (cf_accounts cfg)" "\<And>name. \<not> en_shutdown env name"
  shows "set (bm_keys (co_statuses out)) = set (bm_keys (cf_accounts cfg))
    \<and> length (co_metrics out) = length (cf_accounts cfg)
    \<and> co_observation out = card {n. \<exists>x. bm_get (co_statuses out) n = Some x \<and> ar_state x = ProviderFailure}
    \<and> co_actuation out = card {n. \<exists>x. bm_get (co_statuses out) n = Some x \<and> ar_state x = ActuationFailure}"
  using run_cycle_report [OF assms] by (simp add: counted_def in_state_def)

theorem every_account_is_reported_witness:
  "\<exists>out w. run_cycle (env3 (Inl (Bail ''busy''))) config3 False world3 = (Inr out, w)
     \<and> co_actuation out = 1 \<and> set (bm_keys (co_statuses out)) = {''zai''}"
proof -
  obtain out w where r: "run_cycle (env3 (Inl (Bail ''busy''))) config3 False world3 = (Inr out, w)" "co_actuation out = 1"
    using run_cycle3 by blast
  have "bm_ok (cf_accounts config3)" by (simp add: bm_ok_def)
  from every_account_is_reported [OF r(1) this] have "set (bm_keys (co_statuses out)) = {''zai''}" by (simp add: bm_keys_def)
  then show ?thesis using r by blast
qed

section \<open>Launches\<close>

text \<open>C25: A federated instance never invokes an actuator with more workers than it observed of its own unless
  the growth is reserved in the pending-launch file and is within the configured step: the gate granted it.\<close>

theorem launches_are_reserved:
  assumes "cf_federation cfg = Some f" "fc_peers f \<noteq> []"
    and "observe_workers (en_fleet env name) a = Inr (workers, hosts)"
    and "account_cycle env cfg observe_only oc rec name a w = (r, w')"
    and "cw_acts w' = cw_acts w @ acts" "Invoke ac n x \<in> set acts"
  shows "n \<le> own_workers f workers hosts
    \<or> (\<exists>c b. bm_get (cw_pending w') (account_pool cfg name) = Some (Reserved c b)
         \<and> n \<le> sat_add (own_workers f workers hosts) c
         \<and> n \<le> own_workers f workers hosts + local_step_limit cfg a)"
  using assms(4)
proof (cases rule: account_cycle_acts)
  case nothing
  then show ?thesis using assms(5,6) by simp
next
  case (acted ob v d ps w4)
  have "observe_workers (en_fleet env name) a = Inr (ob_workers ob, ob_hosts ob)"
    using acted(1) observe_account_Inr unfolding reaches_def by blast
  then have ob: "workers = ob_workers ob" "hosts = ob_hosts ob" using assms(3) by simp_all
  have "Invoke ac n x \<in> set (fleet_acts env cfg oc name a ob d ps (bm_keys (cw_exclusions w4)))"
    using acted(5) assms(5,6) by simp
  from fleet_acts_reserved [OF acted(1,2) assms(1,2) this] show ?thesis
    unfolding ob acted(4) reserved_def .
qed

theorem launches_are_reserved_witness:
  "\<exists>r w. account_cycle (env3 (Inr ())) config3 False ownership_default None ''zai'' acct3 world3 = (r, w)
     \<and> cw_acts w = [Invoke (TargetFile ''target'') 4 []]
     \<and> (\<exists>c b. bm_get (cw_pending w) ''zai'' = Some (Reserved c b) \<and> 4 \<le> sat_add 2 c)"
proof -
  obtain r w where w: "account_cycle (env3 (Inr ())) config3 False ownership_default None ''zai'' acct3 world3 = (r, w)"
      "cw_acts w = [Invoke (TargetFile ''target'') 4 []]"
    using account_cycle3 by blast
  have o1: "observe_workers (en_fleet (env3 (Inr ())) ''zai'') acct3 = Inr (2, None)"
    by (simp add: observe_workers_def has_hosts_def current_workers_def fleet_io3_def reconcile_observed_range_def)
  have "cf_federation config3 = Some fed3" "fc_peers fed3 \<noteq> []" by simp_all
  from launches_are_reserved [OF this o1 w(1), of "cw_acts w" "TargetFile ''target''" 4 "[]"] w(2)
  have "\<exists>c b. bm_get (cw_pending w) ''zai'' = Some (Reserved c b) \<and> 4 \<le> sat_add 2 c"
    by (auto simp: own_workers_def pool3)
  then show ?thesis using w by blast
qed

end
