(* ===== verification/Source_Parse.thy ===== *)
theory Source_Parse
  imports Local_Record Source_Read Model
begin

text \<open>
  \<open>src/source.rs\<close>, from a provider's answer to a quota snapshot: the errors of the sources, the parsers of the
  Anthropic and the Codex answers, and the check every snapshot passes.  The text of a time stamp and the
  epoch second are converted by the time library, a parameter.
\<close>

section \<open>Errors\<close>

record redirect_refused =
  rr_status :: nat
  rr_url :: string

datatype anthropic_error =
    InvalidTimeout
  | CredentialsUnopenable string
  | Locked string
  | CredentialsUnreadable string
  | MissingField string string
  | ConcurrentRefresh string
  | RefreshRequestFailed
  | RefreshRedirectRefused redirect_refused
  | RefreshResponseMissingField string
  | RefreshResponseMalformed
  | CredentialsWriteFailed string
  | UsageRequestFailed
  | UsageRedirectRefused redirect_refused
  | UsageResponseMalformed
  | UsageEmpty

datatype codex_error =
    SpawnFailed string
  | NoStdin
  | NoStdout
  | WriteFailed
  | InitializeTimedOut
  | InitializeRejected "int option"
  | RateLimitsTimedOut
  | ChannelClosed
  | RateLimitsRejected "int option"
  | ResultMissing
  | NoUsableWindows
  | RestartBackoff int

datatype generic_error =
    FileUnreadable string
  | FileReadFailed string read_error
  | CommandSpawnFailed string
  | CommandStdoutMissing string
  | CommandReadFailed string read_error
  | CommandWaitFailed string
  | CommandFailed string
  | CommandTimedOut string int
  | CommandReaderEnded string
  | GenericInvalidTimeout
  | HttpRequestFailed
  | HttpRedirectRefused redirect_refused
  | HttpReadFailed read_error
  | MalformedSnapshot
  | MalformedResourceSnapshot
  | UnsupportedResourceSourceType

datatype source_error =
    AnthropicError anthropic_error
  | CodexError codex_error
  | GenericError generic_error
  | OtherError err

type_synonym 'a src = "source_error + 'a"

definition bind_src :: "'a src \<Rightarrow> ('a \<Rightarrow> 'b src) \<Rightarrow> 'b src" where
  "bind_src r f = (case r of Inl e \<Rightarrow> Inl e | Inr x \<Rightarrow> f x)"

lemma bind_src_simps [simp]: "bind_src (Inl e) f = Inl e" "bind_src (Inr x) f = f x"
  by (simp_all add: bind_src_def)

lemma bind_src_Inr_iff: "bind_src r f = Inr y \<longleftrightarrow> (\<exists>x. r = Inr x \<and> f x = Inr y)"
  by (simp add: bind_src_def split: sum.splits)

definition require :: "source_error \<Rightarrow> 'a option \<Rightarrow> 'a src" where
  "require e x = (case x of None \<Rightarrow> Inl e | Some v \<Rightarrow> Inr v)"

lemma require_Inr [simp]: "require e x = Inr v \<longleftrightarrow> x = Some v"
  by (simp add: require_def split: option.splits)

definition other :: "'a res \<Rightarrow> 'a src" where
  "other r = (case r of Inl e \<Rightarrow> Inl (OtherError e) | Inr x \<Rightarrow> Inr x)"

lemma other_Inr [simp]: "other r = Inr v \<longleftrightarrow> r = Inr v"
  by (simp add: other_def split: sum.splits)

section \<open>Anthropic\<close>

record time_text =
  tt_rfc3339 :: "string \<Rightarrow> datetime option"
  tt_epoch :: "int \<Rightarrow> datetime option"

definition parse_timestamp :: "time_text \<Rightarrow> string \<Rightarrow> datetime option" where
  "parse_timestamp tt s = tt_rfc3339 tt s"

definition window_of :: "time_text \<Rightarrow> string \<Rightarrow> string \<Rightarrow> json \<Rightarrow> quota_window option" where
  "window_of tt wid field v =
     Option.bind (Option.bind (jget field v) as_f64) (\<lambda>pct.
     Option.bind (Option.bind (Option.bind (jget ''resets_at'' v) as_str) (parse_timestamp tt)) (\<lambda>t.
     let used = fdiv pct (f_lit 100) in
     Some \<lparr> qw_id = wid, qw_used_fraction = used, qw_resets_at = t, qw_duration_minutes = None,
       qw_reached = fle (f_lit 1) used \<rparr>))"

definition inactive :: "json \<Rightarrow> bool" where
  "inactive v = (Option.bind (jget ''is_active'' v) as_bool = Some False)"

definition parse_anthropic_window :: "time_text \<Rightarrow> string \<Rightarrow> json \<Rightarrow> quota_window option" where
  "parse_anthropic_window tt wid v =
     (if v = JNull \<or> inactive v then None else window_of tt wid ''utilization'' v)"

definition parse_anthropic_limit :: "time_text \<Rightarrow> string \<Rightarrow> json \<Rightarrow> quota_window option" where
  "parse_anthropic_limit tt wid v = (if inactive v then None else window_of tt wid ''percent'' v)"

type_synonym window_map = "(string, quota_window) bmap"

definition put_window :: "window_map \<Rightarrow> string \<Rightarrow> quota_window option \<Rightarrow> window_map" where
  "put_window m wid w = (case w of None \<Rightarrow> m | Some w \<Rightarrow> bm_put wid w m)"

definition named_windows :: "time_text \<Rightarrow> json \<Rightarrow> window_map" where
  "named_windows tt payload = foldl (\<lambda>m id.
     put_window m id (Option.bind (jget id payload) (parse_anthropic_window tt id)))
     [] [''five_hour'', ''seven_day'', ''weekly_scoped'']"

definition limit_windows :: "time_text \<Rightarrow> json \<Rightarrow> window_map \<Rightarrow> window_map" where
  "limit_windows tt payload m = (case Option.bind (jget ''limits'' payload) as_array of
     None \<Rightarrow> m
   | Some limits \<Rightarrow> foldl (\<lambda>m limit. case Option.bind (jget ''kind'' limit) as_str of
         None \<Rightarrow> m | Some wid \<Rightarrow> put_window m wid (parse_anthropic_limit tt wid limit)) m limits)"

definition snapshot_of :: "datetime \<Rightarrow> quota_window list \<Rightarrow> reset_credits_snapshot option \<Rightarrow> quota_snapshot" where
  "snapshot_of t ws credits = \<lparr> qs_observed_at = t, qs_fresh = True, qs_windows = ws, qs_backlog = None,
     qs_reset_credits = credits, qs_backpressure = None, qs_saturation = None \<rparr>"

definition parse_anthropic_usage :: "time_text \<Rightarrow> json \<Rightarrow> datetime \<Rightarrow> quota_snapshot src" where
  "parse_anthropic_usage tt payload observed_at =
     (let windows = limit_windows tt payload (named_windows tt payload) in
      if windows = [] then other (Inl (Bail ''Anthropic usage response contained no usable quota windows''))
      else Inr (snapshot_of observed_at (bm_vals windows) None))"

section \<open>Codex\<close>

definition codex_window :: "time_text \<Rightarrow> string \<Rightarrow> string \<Rightarrow> json \<Rightarrow> quota_window option" where
  "codex_window tt limit_id name v =
     Option.bind (Option.bind (jget ''usedPercent'' v) as_f64) (\<lambda>used_percent.
     Option.bind (Option.bind (Option.bind (jget ''resetsAt'' v) json_i64) (tt_epoch tt)) (\<lambda>t.
     Some \<lparr> qw_id = limit_id @ ''.'' @ name, qw_used_fraction = fdiv used_percent (f_lit 100), qw_resets_at = t,
       qw_duration_minutes = Option.bind (jget ''windowDurationMins'' v) as_u64,
       qw_reached = fle (f_lit 100) used_percent \<rparr>))"

definition parse_codex_bucket :: "time_text \<Rightarrow> string \<Rightarrow> json \<Rightarrow> quota_window list" where
  "parse_codex_bucket tt limit_id bucket = List.map_filter (\<lambda>name.
     Option.bind (opt_filter (\<lambda>v. v \<noteq> JNull) (jget name bucket)) (codex_window tt limit_id name))
     [''primary'', ''secondary'']"

definition parse_credit :: "time_text \<Rightarrow> json \<Rightarrow> reset_credit option" where
  "parse_credit tt row = Option.bind (map_option trim (Option.bind (jget ''id'' row) as_str)) (\<lambda>id.
     if id = [] then None
     else let str = (\<lambda>field. Option.bind (jget field row) as_str);
              timestamp = (\<lambda>field. Option.bind (Option.bind (jget field row) json_i64) (tt_epoch tt))
       in Some \<lparr> rc_id = id, rc_reset_type = str ''resetType'', rc_status = unwrap_or ''unknown'' (str ''status''),
            rc_granted_at = timestamp ''grantedAt'', rc_expires_at = timestamp ''expiresAt'',
            rc_title = str ''title'', rc_description = str ''description'' \<rparr>)"

fun credit_rows :: "json option \<Rightarrow> json list option" where
  "credit_rows (Some (JArr rows)) = Some rows"
| "credit_rows _ = None"

definition parse_reset_credits :: "time_text \<Rightarrow> json \<Rightarrow> reset_credits_snapshot option" where
  "parse_reset_credits tt result = Option.bind (opt_filter is_object (jget ''rateLimitResetCredits'' result)) (\<lambda>summary.
     Option.bind (Option.bind (jget ''availableCount'' summary) as_u64) (\<lambda>n.
     Some \<lparr> rcs_available_count = n,
       rcs_credits = map_option (List.map_filter (parse_credit tt)) (credit_rows (jget ''credits'' summary)) \<rparr>))"

definition codex_windows :: "time_text \<Rightarrow> json \<Rightarrow> quota_window list" where
  "codex_windows tt result = (case Option.bind (jget ''rateLimitsByLimitId'' result) as_object of
     Some by_id \<Rightarrow> concat (map (\<lambda>(limit_id, limit). parse_codex_bucket tt limit_id limit) by_id)
   | None \<Rightarrow> (case jget ''rateLimits'' result of
       None \<Rightarrow> []
     | Some limit \<Rightarrow>
         parse_codex_bucket tt (unwrap_or ''default'' (Option.bind (jget ''limitId'' limit) as_str)) limit))"

definition parse_codex_rate_limits :: "time_text \<Rightarrow> json \<Rightarrow> datetime \<Rightarrow> quota_snapshot src" where
  "parse_codex_rate_limits tt result observed_at =
     (if codex_windows tt result = [] then Inl (CodexError NoUsableWindows)
      else Inr (snapshot_of observed_at (codex_windows tt result) (parse_reset_credits tt result)))"

section \<open>The check of a snapshot\<close>

fun check_windows :: "nat \<Rightarrow> string set \<Rightarrow> quota_window list \<Rightarrow> unit res" where
  "check_windows i seen [] = Inr ()"
| "check_windows i seen (w # ws) =
     bind_res (ensure (qw_id w \<noteq> []) (''quota snapshot window '' @ dec i @ '' has an empty id'')) (\<lambda>_.
     bind_res (ensure (in_unit (qw_used_fraction w))
       (''quota snapshot window '' @ dec i @ '' used_fraction must be in [0, 1]'')) (\<lambda>_.
     bind_res (ensure (qw_id w \<notin> seen)
       (''quota snapshot window '' @ dec i @ '' has a duplicate id (already used by an earlier window)'')) (\<lambda>_.
     check_windows (i + 1) (insert (qw_id w) seen) ws)))"

definition snapshot_credits :: "quota_snapshot \<Rightarrow> reset_credit list" where
  "snapshot_credits sn = unwrap_or [] (Option.bind (qs_reset_credits sn) rcs_credits)"

definition validate_snapshot :: "quota_snapshot \<Rightarrow> quota_snapshot res" where
  "validate_snapshot sn =
     bind_res (ensure (qs_windows sn \<noteq> []) ''quota snapshot has no windows'') (\<lambda>_.
     bind_res (check_windows 0 {} (qs_windows sn)) (\<lambda>_.
     bind_res (ensure (\<not> list_ex (\<lambda>c. trim (rc_id c) = []) (snapshot_credits sn))
       ''quota snapshot has a reset credit with an empty id'') (\<lambda>_.
     bind_res (case qs_saturation sn of None \<Rightarrow> Inr () | Some s \<Rightarrow> saturation_validate s) (\<lambda>_.
     bind_res (case qs_backpressure sn of None \<Rightarrow> Inr () | Some b \<Rightarrow> backpressure_validate b) (\<lambda>_.
     Inr sn)))))"

lemma check_windows_iff:
  "check_windows i seen ws = Inr () \<longleftrightarrow>
     (\<forall>w \<in> set ws. qw_id w \<noteq> [] \<and> in_unit (qw_used_fraction w) \<and> qw_id w \<notin> seen) \<and> distinct (map qw_id ws)"
  by (induction ws arbitrary: i seen) (auto simp: bind_res_Inr_iff image_iff)

lemma validate_snapshot_Inr: "validate_snapshot sn = Inr sn' \<Longrightarrow> sn' = sn"
  by (auto simp: validate_snapshot_def bind_res_Inr_iff)

text \<open>What a snapshot in the program is, once it has passed the check.\<close>

definition fraction_of_one :: "f64 \<Rightarrow> bool" where
  "fraction_of_one f = (is_fin f \<and> 0 \<le> fval f \<and> fval f \<le> 1)"

lemma fraction_of_one_iff: "fraction_of_one f \<longleftrightarrow> is_fin f \<and> fle (Fin 0) f \<and> fle f (Fin 1)"
  by (cases f) (auto simp: fraction_of_one_def)

definition snapshot_typed :: "quota_snapshot \<Rightarrow> bool" where
  "snapshot_typed sn = (qs_windows sn \<noteq> [] \<and> distinct (map qw_id (qs_windows sn))
     \<and> (\<forall>w \<in> set (qs_windows sn). qw_id w \<noteq> [] \<and> fraction_of_one (qw_used_fraction w))
     \<and> (\<forall>c \<in> set (snapshot_credits sn). trim (rc_id c) \<noteq> [])
     \<and> (\<forall>s. qs_saturation sn = Some s \<longrightarrow> ss_completed_requests s \<le> ss_attempts s
          \<and> (\<forall>f. ss_concurrency_fraction s = Some f \<longrightarrow> fraction_of_one f))
     \<and> (\<forall>b f. qs_backpressure sn = Some b \<longrightarrow> bp_429_fraction b = Some f \<longrightarrow> fraction_of_one f))"

lemma saturation_validate_iff: "saturation_validate s = Inr () \<longleftrightarrow> ss_completed_requests s \<le> ss_attempts s
    \<and> (\<forall>f. ss_concurrency_fraction s = Some f \<longrightarrow> fraction_of_one f)"
  by (cases "ss_concurrency_fraction s") (auto simp: saturation_validate_def fraction_of_one_iff is_some_and_def)

lemma backpressure_validate_iff:
  "backpressure_validate b = Inr () \<longleftrightarrow> (\<forall>f. bp_429_fraction b = Some f \<longrightarrow> fraction_of_one f)"
  by (cases "bp_429_fraction b") (auto simp: backpressure_validate_def fraction_of_one_iff)

lemma validate_snapshot_iff: "validate_snapshot sn = Inr sn \<longleftrightarrow> snapshot_typed sn"
  by (auto simp: validate_snapshot_def snapshot_typed_def bind_res_Inr_iff check_windows_iff list_all_iff
      list_ex_iff saturation_validate_iff backpressure_validate_iff fraction_of_one_iff in_unit_def split: option.splits)

end
