(* ===== verification/Source_Token.thy ===== *)
theory Source_Token
  imports Source_Parse
begin

text \<open>
  \<open>src/source.rs\<close>, the Anthropic source: HTTP answers, the access token of the Claude Code credentials file
  and its refresh beside other writers of that file.  The contents of the file at each read, the clocks, the
  lock and the answers of the two endpoints are parameters; what is posted and what is written are results.
\<close>

section \<open>HTTP\<close>

record http_response =
  hr_status :: nat
  hr_url :: string
  hr_body :: reader

text \<open>An agent exists for a positive timeout; it follows no redirect, so a 3xx answer is refused here.\<close>

definition http_agent :: "nat \<Rightarrow> unit option" where
  "http_agent timeout = (if timeout = 0 then None else Some ())"

definition reject_redirect :: "http_response \<Rightarrow> redirect_refused + http_response" where
  "reject_redirect r = (if 300 \<le> hr_status r \<and> hr_status r < 400
     then Inl \<lparr> rr_status = hr_status r, rr_url = hr_url r \<rparr> else Inr r)"

definition refuse :: "(redirect_refused \<Rightarrow> source_error) \<Rightarrow> http_response \<Rightarrow> http_response src" where
  "refuse kind r = (case reject_redirect r of Inl e \<Rightarrow> Inl (kind e) | Inr r \<Rightarrow> Inr r)"

definition into_json :: "(string \<Rightarrow> json option) \<Rightarrow> http_response \<Rightarrow> json option" where
  "into_json parse r = (if rd_broken (hr_body r) then None else parse (rd_bytes (hr_body r)))"

section \<open>The lock\<close>

text \<open>One attempt and the instant read behind it; attempts end at the deadline.\<close>

datatype lock_attempt = LockGranted | LockBusy | LockError

fun lock_exclusive_bounded :: "int \<Rightarrow> (lock_attempt \<times> int) list \<Rightarrow> bool" where
  "lock_exclusive_bounded deadline [] = False"
| "lock_exclusive_bounded deadline ((LockGranted, _) # _) = True"
| "lock_exclusive_bounded deadline ((LockError, _) # _) = False"
| "lock_exclusive_bounded deadline ((LockBusy, now) # rest) =
     (if deadline \<le> now then False else lock_exclusive_bounded deadline rest)"

definition lock_deadline :: "int \<Rightarrow> nat \<Rightarrow> int" where
  "lock_deadline start timeout = start + int (max timeout 1) * 1000000000"

section \<open>The credentials\<close>

definition refresh_threshold_millis :: int where "refresh_threshold_millis = 300000"

definition text_field :: "string \<Rightarrow> (string, json) bmap \<Rightarrow> string option" where
  "text_field field m = opt_filter (\<lambda>s. s \<noteq> []) (Option.bind (bm_get m field) as_str)"

definition int_field :: "string \<Rightarrow> (string, json) bmap \<Rightarrow> int option" where
  "int_field field m = Option.bind (bm_get m field) json_i64"

definition missing :: "string \<Rightarrow> string \<Rightarrow> source_error" where
  "missing path field = AnthropicError (MissingField path field)"

definition oauth_of :: "string \<Rightarrow> json \<Rightarrow> (string, json) bmap src" where
  "oauth_of path credentials = require (missing path ''claudeAiOauth'')
     (Option.bind (jget ''claudeAiOauth'' credentials) as_object)"

definition fresh_access_token :: "string \<Rightarrow> int \<Rightarrow> (string, json) bmap \<Rightarrow> string option src" where
  "fresh_access_token path now oauth =
     bind_src (require (missing path ''expiresAt'') (int_field ''expiresAt'' oauth)) (\<lambda>expires_at.
     if expires_at \<le> now + refresh_threshold_millis then Inr None
     else bind_src (require (missing path ''accessToken'') (text_field ''accessToken'' oauth)) (\<lambda>token. Inr (Some token)))"

definition required_refresh_token :: "string \<Rightarrow> (string, json) bmap \<Rightarrow> string src" where
  "required_refresh_token path oauth = require (missing path ''refreshToken'') (text_field ''refreshToken'' oauth)"

section \<open>The refresh\<close>

record refreshed_token =
  rt_access :: string
  rt_refresh :: string
  rt_expiry :: int

definition refreshed_field :: "string \<Rightarrow> source_error" where
  "refreshed_field field = AnthropicError (RefreshResponseMissingField field)"

definition object_of :: "json \<Rightarrow> (string, json) bmap" where
  "object_of v = unwrap_or [] (as_object v)"

definition parse_refreshed :: "json \<Rightarrow> refreshed_token src" where
  "parse_refreshed refreshed =
     bind_src (require (refreshed_field ''accessToken'') (text_field ''accessToken'' (object_of refreshed))) (\<lambda>access.
     bind_src (require (refreshed_field ''refreshToken'') (text_field ''refreshToken'' (object_of refreshed))) (\<lambda>new_refresh.
     bind_src (require (refreshed_field ''expiresAt'') (int_field ''expiresAt'' (object_of refreshed))) (\<lambda>new_expiry.
     Inr \<lparr> rt_access = access, rt_refresh = new_refresh, rt_expiry = new_expiry \<rparr>)))"

text \<open>Another process has rotated the token: its access token serves if it is not near its expiry.\<close>

definition concurrent_token :: "string \<Rightarrow> int \<Rightarrow> (string, json) bmap \<Rightarrow> string src" where
  "concurrent_token path now oauth =
     (case (Option.bind (bm_get oauth ''accessToken'') as_str, int_field ''expiresAt'' oauth) of
        (Some access, Some expiry) \<Rightarrow> if access \<noteq> [] \<and> now + refresh_threshold_millis < expiry then Inr access
          else Inl (AnthropicError (ConcurrentRefresh path))
      | _ \<Rightarrow> Inl (AnthropicError (ConcurrentRefresh path)))"

definition json_int :: "int \<Rightarrow> json" where
  "json_int i = JNum (if 0 \<le> i then PosInt (nat i) else NegInt i)"

definition updated_credentials :: "refreshed_token \<Rightarrow> json \<Rightarrow> (string, json) bmap \<Rightarrow> json" where
  "updated_credentials t credentials oauth = JObj (bm_put ''claudeAiOauth''
     (JObj (bm_put ''expiresAt'' (json_int (rt_expiry t)) (bm_put ''refreshToken'' (JStr (rt_refresh t))
       (bm_put ''accessToken'' (JStr (rt_access t)) oauth)))) (object_of credentials))"

text \<open>The credentials left on disk by this call, if it writes any, and its result.\<close>

definition apply_refreshed_credentials ::
  "string \<Rightarrow> string \<Rightarrow> json \<Rightarrow> json option \<Rightarrow> int \<Rightarrow> bool \<Rightarrow> json option \<times> string src" where
  "apply_refreshed_credentials path expected refreshed current now writes =
     (case bind_src (parse_refreshed refreshed) (\<lambda>t.
           bind_src (require (AnthropicError (CredentialsUnreadable path)) current) (\<lambda>c.
           bind_src (oauth_of path c) (\<lambda>oauth. Inr (t, c, oauth)))) of
        Inl e \<Rightarrow> (None, Inl e)
      | Inr (t, c, oauth) \<Rightarrow>
          if Option.bind (bm_get oauth ''refreshToken'') as_str \<noteq> Some expected
          then (None, concurrent_token path now oauth)
          else if writes then (Some (updated_credentials t c oauth), Inr (rt_access t))
          else (None, Inl (AnthropicError (CredentialsWriteFailed path))))"

definition refresh_anthropic :: "(string \<Rightarrow> json option) \<Rightarrow> http_response option \<Rightarrow> nat \<Rightarrow> json src" where
  "refresh_anthropic parse answer timeout =
     bind_src (require (AnthropicError InvalidTimeout) (http_agent timeout)) (\<lambda>_.
     bind_src (require (AnthropicError RefreshRequestFailed) answer) (\<lambda>r.
     bind_src (refuse (\<lambda>e. AnthropicError (RefreshRedirectRefused e)) r) (\<lambda>r.
     require (AnthropicError RefreshResponseMalformed) (into_json parse r))))"

section \<open>The access token\<close>

record token_env =
  tn_opens :: bool
  tn_lock_start :: int
  tn_attempts :: "(lock_attempt \<times> int) list"
  tn_credentials :: "json option"
  tn_now :: int
  tn_answer :: "string \<Rightarrow> json \<Rightarrow> http_response option"
  tn_current :: "json option"
  tn_later :: int
  tn_writes :: bool

record token_run =
  tr_posted :: "string option"
  tr_written :: "json option"
  tr_result :: "string src"

definition refresh_request :: "string \<Rightarrow> json" where
  "refresh_request token = JObj [(''grantType'', JStr ''refresh_token''), (''refreshToken'', JStr token)]"

definition stored_token :: "token_env \<Rightarrow> string \<Rightarrow> nat \<Rightarrow> (string + string) src" where
  "stored_token env path timeout =
     bind_src (require (AnthropicError (CredentialsUnopenable path)) (if tn_opens env then Some () else None)) (\<lambda>_.
     bind_src (require (AnthropicError (Locked path))
       (if lock_exclusive_bounded (lock_deadline (tn_lock_start env) timeout) (tn_attempts env) then Some () else None)) (\<lambda>_.
     bind_src (require (AnthropicError (CredentialsUnreadable path)) (tn_credentials env)) (\<lambda>credentials.
     bind_src (oauth_of path credentials) (\<lambda>oauth.
     bind_src (fresh_access_token path (tn_now env) oauth) (\<lambda>fresh.
     case fresh of Some token \<Rightarrow> Inr (Inr token)
     | None \<Rightarrow> bind_src (required_refresh_token path oauth) (\<lambda>refresh. Inr (Inl refresh)))))))"

definition obtain_access_token ::
  "(string \<Rightarrow> json option) \<Rightarrow> token_env \<Rightarrow> string \<Rightarrow> string \<Rightarrow> nat \<Rightarrow> token_run" where
  "obtain_access_token parse env path token_url timeout = (case stored_token env path timeout of
     Inl e \<Rightarrow> \<lparr> tr_posted = None, tr_written = None, tr_result = Inl e \<rparr>
   | Inr (Inr token) \<Rightarrow> \<lparr> tr_posted = None, tr_written = None, tr_result = Inr token \<rparr>
   | Inr (Inl refresh) \<Rightarrow>
       (let posted = (if http_agent timeout = None then None else Some refresh) in
        case refresh_anthropic parse (tn_answer env token_url (refresh_request refresh)) timeout of
          Inl e \<Rightarrow> \<lparr> tr_posted = posted, tr_written = None, tr_result = Inl e \<rparr>
        | Inr refreshed \<Rightarrow>
            (case apply_refreshed_credentials path refresh refreshed (tn_current env) (tn_later env) (tn_writes env) of
               (written, r) \<Rightarrow> \<lparr> tr_posted = posted, tr_written = written, tr_result = r \<rparr>)))"

definition usage_headers :: "string \<Rightarrow> (string \<times> string) list" where
  "usage_headers token = [(''Authorization'', ''Bearer '' @ token), (''anthropic-beta'', ''oauth-2025-04-20''),
     (''User-Agent'', ''claude-code/2.1.114'')]"

text \<open>\<open>collect_anthropic\<close>: the token, then the usage with it.\<close>

definition collect_anthropic ::
  "(string \<Rightarrow> json option) \<Rightarrow> time_text \<Rightarrow> token_env \<Rightarrow> (string \<Rightarrow> (string \<times> string) list \<Rightarrow> http_response option)
     \<Rightarrow> datetime \<Rightarrow> string \<Rightarrow> string \<Rightarrow> string \<Rightarrow> nat \<Rightarrow> token_run \<times> quota_snapshot src" where
  "collect_anthropic parse tt env usage now path usage_url token_url timeout =
     (let run = obtain_access_token parse env path token_url timeout in
      (run, bind_src (tr_result run) (\<lambda>token.
        bind_src (require (AnthropicError InvalidTimeout) (http_agent timeout)) (\<lambda>_.
        bind_src (require (AnthropicError UsageRequestFailed) (usage usage_url (usage_headers token))) (\<lambda>r.
        bind_src (refuse (\<lambda>e. AnthropicError (UsageRedirectRefused e)) r) (\<lambda>r.
        bind_src (require (AnthropicError UsageResponseMalformed) (into_json parse r)) (\<lambda>payload.
        parse_anthropic_usage tt payload now)))))))"

end
