(* ===== verification/Source_Codex.thy ===== *)
theory Source_Codex
  imports Source_Parse
begin

text \<open>
  \<open>src/source.rs\<close>, the Codex app-server source: a supervised session that answers polls from pushed updates or
  by a full read, the handshake of a fresh one, and the restart backoff.  A session's channel is the queue of
  the messages its reader thread has sent; a poll's environment says which messages join it, how many are
  looked at before the deadline, whether writes to the child succeed, and the clocks.  Instants and durations
  are integer nanoseconds.
\<close>

section \<open>The session\<close>

record codex_session =
  cs_queue :: "json list"
  cs_next_id :: int
  cs_last_result :: "json option"
  cs_reconciled_at :: int
  cs_observed_at :: datetime

record codex_poll =
  po_waiting :: "json list"
  po_drained_at :: datetime
  po_now :: int
  po_writes :: bool
  po_incoming :: "json list"
  po_patience :: nat
  po_captured_at :: datetime
  po_read_at :: datetime
  po_read_now :: int

definition codex_reconcile_interval :: int where "codex_reconcile_interval = 900000000000"

text \<open>An \<open>i64\<close> that is incremented wraps at its end.\<close>

definition next_i64 :: "int \<Rightarrow> int" where
  "next_i64 i = (if i = int i64_max then - int i64_max - 1 else i + 1)"

definition codex_update :: "json \<Rightarrow> json option" where
  "codex_update v = (if jget ''id'' v \<noteq> None then None
     else if Option.bind (jget ''method'' v) as_str \<noteq> Some ''account/rateLimits/updated'' then None
     else jget ''params'' v)"

definition capture_codex_notification :: "datetime \<Rightarrow> json \<Rightarrow> codex_session \<Rightarrow> codex_session" where
  "capture_codex_notification now v s = (case codex_update v of
     None \<Rightarrow> s | Some params \<Rightarrow> s\<lparr> cs_last_result := Some params, cs_observed_at := now \<rparr>)"

definition deliver :: "json list \<Rightarrow> codex_session \<Rightarrow> codex_session" where
  "deliver ms s = s\<lparr> cs_queue := cs_queue s @ ms \<rparr>"

definition drain_pending_codex_notifications :: "datetime \<Rightarrow> codex_session \<Rightarrow> codex_session" where
  "drain_pending_codex_notifications now s =
     foldl (\<lambda>s v. capture_codex_notification now v s) (s\<lparr> cs_queue := [] \<rparr>) (cs_queue s)"

definition codex_cache_is_usable :: "json option \<Rightarrow> int \<Rightarrow> int \<Rightarrow> bool" where
  "codex_cache_is_usable last_result reconciled_at now =
     (last_result \<noteq> None \<and> max 0 (now - reconciled_at) < codex_reconcile_interval)"

text \<open>The response with the awaited id; updates in front of it are captured, everything else is dropped.\<close>

fun receive_codex_response :: "nat \<Rightarrow> int \<Rightarrow> datetime \<Rightarrow> codex_session \<Rightarrow> json option \<times> codex_session" where
  "receive_codex_response 0 want now s = (None, s)"
| "receive_codex_response (Suc n) want now s = (case cs_queue s of
     [] \<Rightarrow> (None, s)
   | v # vs \<Rightarrow> if Option.bind (jget ''id'' v) json_i64 = Some want then (Some v, s\<lparr> cs_queue := vs \<rparr>)
       else receive_codex_response n want now (capture_codex_notification now v (s\<lparr> cs_queue := vs \<rparr>)))"

definition error_code :: "json \<Rightarrow> int option" where
  "error_code e = Option.bind (jget ''code'' e) json_i64"

definition read_response :: "json \<Rightarrow> json src" where
  "read_response response = (case jget ''error'' response of
     Some e \<Rightarrow> Inl (CodexError (RateLimitsRejected (error_code e)))
   | None \<Rightarrow> require (CodexError ResultMissing) (jget ''result'' response))"

text \<open>A full read: the request takes the next id.\<close>

definition codex_full_read :: "codex_poll \<Rightarrow> codex_session \<Rightarrow> codex_session \<times> (json \<times> datetime) src" where
  "codex_full_read p s = (let want = cs_next_id s; s = s\<lparr> cs_next_id := next_i64 want \<rparr> in
     if \<not> po_writes p then (s, Inl (CodexError WriteFailed))
     else case receive_codex_response (po_patience p) want (po_captured_at p) (deliver (po_incoming p) s) of
       (None, s) \<Rightarrow> (s, Inl (CodexError RateLimitsTimedOut))
     | (Some response, s) \<Rightarrow> (case read_response response of
         Inl e \<Rightarrow> (s, Inl e)
       | Inr result \<Rightarrow> (s\<lparr> cs_last_result := Some result, cs_reconciled_at := po_read_now p,
             cs_observed_at := po_read_at p \<rparr>, Inr (result, po_read_at p))))"

definition codex_session_read_rate_limits ::
  "codex_poll \<Rightarrow> codex_session \<Rightarrow> codex_session \<times> (json \<times> datetime) src" where
  "codex_session_read_rate_limits p s =
     (let s = drain_pending_codex_notifications (po_drained_at p) (deliver (po_waiting p) s) in
      if codex_cache_is_usable (cs_last_result s) (cs_reconciled_at s) (po_now p)
      then (s, case cs_last_result s of
         None \<Rightarrow> other (Inl (Panic ''codex_cache_is_usable only returns true when last_result is Some''))
       | Some result \<Rightarrow> Inr (result, cs_observed_at s))
      else codex_full_read p s)"

section \<open>A fresh session\<close>

record codex_spawn =
  sp_spawns :: bool
  sp_stdin :: bool
  sp_stdout :: bool
  sp_now :: int
  sp_at :: datetime
  sp_writes_initialize :: bool
  sp_incoming :: "json list"
  sp_patience :: nat
  sp_captured_at :: datetime
  sp_writes_initialized :: bool

definition new_session :: "codex_spawn \<Rightarrow> codex_session" where
  "new_session sp = \<lparr> cs_queue = [], cs_next_id = 1, cs_last_result = None, cs_reconciled_at = sp_now sp,
     cs_observed_at = sp_at sp \<rparr>"

definition codex_initialize :: "codex_spawn \<Rightarrow> codex_session \<Rightarrow> codex_session src" where
  "codex_initialize sp s = (let want = cs_next_id s; s = s\<lparr> cs_next_id := next_i64 want \<rparr> in
     if \<not> sp_writes_initialize sp then Inl (CodexError WriteFailed)
     else case receive_codex_response (sp_patience sp) want (sp_captured_at sp) (deliver (sp_incoming sp) s) of
       (None, s) \<Rightarrow> Inl (CodexError InitializeTimedOut)
     | (Some initialized, s) \<Rightarrow> (case jget ''error'' initialized of
         Some e \<Rightarrow> Inl (CodexError (InitializeRejected (error_code e)))
       | None \<Rightarrow> if sp_writes_initialized sp then Inr s else Inl (CodexError WriteFailed)))"

definition spawn_and_handshake_codex :: "codex_spawn \<Rightarrow> string \<Rightarrow> codex_session src" where
  "spawn_and_handshake_codex sp executable =
     (if \<not> sp_spawns sp then Inl (CodexError (SpawnFailed executable))
      else if \<not> sp_stdin sp then Inl (CodexError NoStdin)
      else if \<not> sp_stdout sp then Inl (CodexError NoStdout)
      else codex_initialize sp (new_session sp))"

section \<open>The restart backoff\<close>

record codex_restart_backoff =
  cb_failures :: nat
  cb_not_before :: "int option"

definition no_backoff :: codex_restart_backoff where
  "no_backoff = \<lparr> cb_failures = 0, cb_not_before = None \<rparr>"

definition backoff_check :: "codex_restart_backoff \<Rightarrow> int \<Rightarrow> int + unit" where
  "backoff_check b now = (case cb_not_before b of
     Some not_before \<Rightarrow> if now < not_before then Inl (not_before - now) else Inr ()
   | None \<Rightarrow> Inr ())"

definition codex_restart_backoff_base :: nat where "codex_restart_backoff_base = 5000"
definition codex_restart_backoff_max :: nat where "codex_restart_backoff_max = 300000"

text \<open>In milliseconds; the multiplier is at most \<open>2 ^ 20\<close>, so nothing saturates.\<close>

definition codex_backoff_cap :: "nat \<Rightarrow> nat" where
  "codex_backoff_cap failures = min (codex_restart_backoff_base * 2 ^ min (sat_sub failures 1) 20) codex_restart_backoff_max"

text \<open>\<open>jitter cap\<close> is the random draw from \<open>0..=cap\<close>.\<close>

definition codex_restart_backoff_delay :: "(nat \<Rightarrow> nat) \<Rightarrow> nat \<Rightarrow> nat" where
  "codex_restart_backoff_delay jitter failures =
     (let cap = codex_backoff_cap failures in if cap = 0 then 0 else jitter cap)"

definition backoff_record :: "(nat \<Rightarrow> nat) \<Rightarrow> bool \<Rightarrow> int \<Rightarrow> codex_restart_backoff \<Rightarrow> codex_restart_backoff" where
  "backoff_record jitter succeeded now b = (if succeeded then no_backoff
     else let n = wrap32 (cb_failures b + 1) in
       \<lparr> cb_failures = n, cb_not_before = Some (now + int (codex_restart_backoff_delay jitter n) * 1000000) \<rparr>)"

section \<open>The supervisor\<close>

text \<open>The sessions and backoffs of the process by executable, and the executables it has tried to start.\<close>

record codex_world =
  cx_sessions :: "(string, codex_session) bmap"
  cx_backoff :: "(string, codex_restart_backoff) bmap"
  cx_starts :: "string list"

record codex_env =
  ce_live :: codex_poll
  ce_check_now :: int
  ce_spawn :: codex_spawn
  ce_fresh :: codex_poll
  ce_record_now :: int
  ce_jitter :: "nat \<Rightarrow> nat"

definition fresh_session :: "codex_env \<Rightarrow> string \<Rightarrow> (codex_session \<times> json \<times> datetime) src" where
  "fresh_session env executable = bind_src (spawn_and_handshake_codex (ce_spawn env) executable) (\<lambda>s.
     case codex_session_read_rate_limits (ce_fresh env) s of (s, r) \<Rightarrow> bind_src r (\<lambda>v. Inr (s, v)))"

definition backoff_of :: "codex_world \<Rightarrow> string \<Rightarrow> codex_restart_backoff" where
  "backoff_of w executable = unwrap_or no_backoff (bm_get (cx_backoff w) executable)"

definition restart_codex_session ::
  "codex_env \<Rightarrow> string \<Rightarrow> codex_world \<Rightarrow> codex_world \<times> (codex_session \<times> json \<times> datetime) src" where
  "restart_codex_session env executable w = (case backoff_check (backoff_of w executable) (ce_check_now env) of
     Inl retry_after \<Rightarrow> (w, Inl (CodexError (RestartBackoff retry_after)))
   | Inr _ \<Rightarrow> (let r = fresh_session env executable in
       (w\<lparr> cx_starts := cx_starts w @ [executable],
           cx_backoff := bm_entry no_backoff executable
             (backoff_record (ce_jitter env) (\<not> isl r) (ce_record_now env)) (cx_backoff w) \<rparr>, r)))"

definition replace_session :: "codex_env \<Rightarrow> string \<Rightarrow> codex_world \<Rightarrow> codex_world \<times> (json \<times> datetime) src" where
  "replace_session env executable w = (case restart_codex_session env executable w of
     (w, Inl e) \<Rightarrow> (w, Inl e)
   | (w, Inr (s, v)) \<Rightarrow> (w\<lparr> cx_sessions := bm_put executable s (cx_sessions w) \<rparr>, Inr v))"

definition with_codex_session :: "codex_env \<Rightarrow> string \<Rightarrow> codex_world \<Rightarrow> codex_world \<times> (json \<times> datetime) src" where
  "with_codex_session env executable w = (case bm_get (cx_sessions w) executable of
     None \<Rightarrow> replace_session env executable w
   | Some s \<Rightarrow> (case codex_session_read_rate_limits (ce_live env) s of
       (s', Inr v) \<Rightarrow> (w\<lparr> cx_sessions := bm_put executable s' (cx_sessions w) \<rparr>, Inr v)
     | (_, Inl _) \<Rightarrow> replace_session env executable (w\<lparr> cx_sessions := bm_del executable (cx_sessions w) \<rparr>)))"

definition shutdown_codex_sessions :: "codex_world \<Rightarrow> codex_world" where
  "shutdown_codex_sessions w = w\<lparr> cx_sessions := [], cx_backoff := [] \<rparr>"

definition collect_codex ::
  "time_text \<Rightarrow> codex_env \<Rightarrow> string \<Rightarrow> codex_world \<Rightarrow> codex_world \<times> quota_snapshot src" where
  "collect_codex tt env executable w = (case with_codex_session env executable w of
     (w, r) \<Rightarrow> (w, bind_src r (\<lambda>(result, observed_at). parse_codex_rate_limits tt result observed_at)))"

end
