(* ===== verification/Source_Collect.thy ===== *)
theory Source_Collect
  imports Source_Token Source_Codex
begin

text \<open>
  \<open>src/source.rs\<close>, the generic transports and \<open>collect\<close> over all kinds of source: a file, a command's output or
  an HTTP body read under one bound, and the check every snapshot passes before it is used.  Spawned processes,
  HTTP answers and the decoding of JSON are parameters; killed children, written credentials and the Codex
  sessions are the world a collection changes.
\<close>

section \<open>The environment\<close>

text \<open>How a spawned command went: its output until it ended, and its exit status when it could be awaited.\<close>

datatype command_run =
    NotSpawned
  | NotPiped
  | RunTimedOut
  | ReaderEnded
  | Ran reader "bool option"

record source_env =
  se_parse :: "string \<Rightarrow> json option"
  se_snapshot :: "string \<Rightarrow> quota_snapshot option"
  se_resource :: "string \<Rightarrow> resource_snapshot option"
  se_times :: time_text
  se_now :: datetime
  se_open :: "string \<Rightarrow> reader option"
  se_run :: "string list \<Rightarrow> command_run"
  se_get :: "string \<Rightarrow> nat \<Rightarrow> (string \<times> string) list \<Rightarrow> http_response option"
  se_token :: "string \<Rightarrow> token_env"
  se_codex :: "string \<Rightarrow> codex_env"

record source_world =
  sw_codex :: codex_world
  sw_written :: "(string \<times> json) list"
  sw_killed :: "string list list"

section \<open>Generic sources\<close>

definition max_generic_source_bytes :: nat where "max_generic_source_bytes = 1048576"
definition command_timeout :: int where "command_timeout = 15000000000"

definition bounded :: "(read_error \<Rightarrow> generic_error) \<Rightarrow> reader \<Rightarrow> string src" where
  "bounded kind r = (case read_bounded r max_generic_source_bytes of
     Inl e \<Rightarrow> Inl (GenericError (kind e)) | Inr bytes \<Rightarrow> Inr bytes)"

definition read_generic_file_bytes :: "source_env \<Rightarrow> string \<Rightarrow> string src" where
  "read_generic_file_bytes env path =
     bind_src (require (GenericError (FileUnreadable path)) (se_open env path)) (bounded (FileReadFailed path))"

definition kill_child_tree :: "string list \<Rightarrow> source_world \<Rightarrow> source_world" where
  "kill_child_tree argv w = w\<lparr> sw_killed := sw_killed w @ [argv] \<rparr>"

fun read_generic_command_bytes :: "source_env \<Rightarrow> string list \<Rightarrow> source_world \<Rightarrow> source_world \<times> string src" where
  "read_generic_command_bytes env [] w = (w, other (Inl (Panic ''index out of bounds'')))"
| "read_generic_command_bytes env (command # args) w = (case se_run env (command # args) of
     NotSpawned \<Rightarrow> (w, Inl (GenericError (CommandSpawnFailed command)))
   | NotPiped \<Rightarrow> (w, Inl (GenericError (CommandStdoutMissing command)))
   | RunTimedOut \<Rightarrow> (kill_child_tree (command # args) w, Inl (GenericError (CommandTimedOut command command_timeout)))
   | ReaderEnded \<Rightarrow> (w, Inl (GenericError (CommandReaderEnded command)))
   | Ran output status \<Rightarrow> (case bounded (CommandReadFailed command) output of
       Inl e \<Rightarrow> (kill_child_tree (command # args) w, Inl e)
     | Inr bytes \<Rightarrow> (w, (case status of
           None \<Rightarrow> Inl (GenericError (CommandWaitFailed command))
         | Some success \<Rightarrow> if success then Inr bytes else Inl (GenericError (CommandFailed command))))))"

definition read_generic_http_bytes :: "source_env \<Rightarrow> string \<Rightarrow> nat \<Rightarrow> string src" where
  "read_generic_http_bytes env url timeout =
     bind_src (require (GenericError GenericInvalidTimeout) (http_agent timeout)) (\<lambda>_.
     bind_src (require (GenericError HttpRequestFailed) (se_get env url timeout [])) (\<lambda>r.
     bind_src (refuse (\<lambda>e. GenericError (HttpRedirectRefused e)) r) (\<lambda>r.
     bounded HttpReadFailed (hr_body r))))"

definition decode_snapshot :: "source_env \<Rightarrow> string src \<Rightarrow> quota_snapshot src" where
  "decode_snapshot env r = bind_src r (\<lambda>bytes. require (GenericError MalformedSnapshot) (se_snapshot env bytes))"

section \<open>Collection\<close>

definition write_credentials :: "string \<Rightarrow> json option \<Rightarrow> source_world \<Rightarrow> source_world" where
  "write_credentials path written w = (case written of
     None \<Rightarrow> w | Some v \<Rightarrow> w\<lparr> sw_written := sw_written w @ [(path, v)] \<rparr>)"

fun collect_raw :: "source_env \<Rightarrow> source_config \<Rightarrow> source_world \<Rightarrow> source_world \<times> quota_snapshot src" where
  "collect_raw env (NormalizedFile path) w = (w, decode_snapshot env (read_generic_file_bytes env path))"
| "collect_raw env (NormalizedHttp url timeout) w = (w, decode_snapshot env (read_generic_http_bytes env url timeout))"
| "collect_raw env (SourceCommand argv) w = (case read_generic_command_bytes env argv w of
     (w, r) \<Rightarrow> (w, decode_snapshot env r))"
| "collect_raw env (AnthropicOauth path usage_url token_url timeout) w =
     (case collect_anthropic (se_parse env) (se_times env) (se_token env path) (\<lambda>url. se_get env url timeout) (se_now env)
         path usage_url token_url timeout of
        (run, r) \<Rightarrow> (write_credentials path (tr_written run) w, r))"
| "collect_raw env (CodexAppServer executable timeout) w =
     (case collect_codex (se_times env) (se_codex env executable) executable (sw_codex w) of
        (cx, r) \<Rightarrow> (w\<lparr> sw_codex := cx \<rparr>, r))"

definition collect :: "source_env \<Rightarrow> source_config \<Rightarrow> source_world \<Rightarrow> source_world \<times> quota_snapshot src" where
  "collect env source w = (case collect_raw env source w of
     (w, r) \<Rightarrow> (w, bind_src r (\<lambda>sn. other (validate_snapshot sn))))"

text \<open>A host's resource source is one of the generic three.\<close>

fun resource_source_as_source :: "resource_source_config \<Rightarrow> source_config" where
  "resource_source_as_source (ResourceFile path) = NormalizedFile path"
| "resource_source_as_source (ResourceHttp url timeout) = NormalizedHttp url timeout"
| "resource_source_as_source (ResourceCommand argv) = SourceCommand argv"

fun resource_bytes :: "source_env \<Rightarrow> source_config \<Rightarrow> source_world \<Rightarrow> source_world \<times> string src" where
  "resource_bytes env (NormalizedFile path) w = (w, read_generic_file_bytes env path)"
| "resource_bytes env (NormalizedHttp url timeout) w = (w, read_generic_http_bytes env url timeout)"
| "resource_bytes env (SourceCommand argv) w = read_generic_command_bytes env argv w"
| "resource_bytes env _ w = (w, Inl (GenericError UnsupportedResourceSourceType))"

definition collect_resource :: "source_env \<Rightarrow> source_config \<Rightarrow> source_world \<Rightarrow> source_world \<times> resource_snapshot src" where
  "collect_resource env source w = (case resource_bytes env source w of
     (w, r) \<Rightarrow> (w, bind_src r (\<lambda>bytes.
        bind_src (require (GenericError MalformedResourceSnapshot) (se_resource env bytes)) (\<lambda>sn.
        bind_src (other (resource_validate sn)) (\<lambda>_. Inr sn)))))"

end
