(* ===== verification/Source_Laws.thy ===== *)
theory Source_Laws
  imports Source_Collect
begin

text \<open>
  What the readers, the token refresh and the supervised session of \<open>source.rs\<close> do: frames are the lines of
  the stream whatever the chunks, a refresh writes only over the token it spent, an answer of a session is a
  captured update or the response to its own request, and a backoff ends within five minutes.
\<close>

section \<open>Frames are lines\<close>

lemma dropWhile_shorter: "dropWhile P bs = c # rest \<Longrightarrow> length rest < length bs"
  by (metis length_Cons length_dropWhile_le less_eq_Suc_le)

function terminated_lines :: "string \<Rightarrow> string list" where
  "terminated_lines bs = (case dropWhile (\<lambda>c. c \<noteq> newline) bs of
     [] \<Rightarrow> [] | _ # rest \<Rightarrow> takeWhile (\<lambda>c. c \<noteq> newline) bs # terminated_lines rest)"
  by pat_completeness auto

termination by (relation "measure length") (auto intro: dropWhile_shorter)

declare terminated_lines.simps [simp del]

lemma terminated_lines_none: "newline \<notin> set bs \<Longrightarrow> terminated_lines bs = []"
proof -
  assume "newline \<notin> set bs"
  then have "dropWhile (\<lambda>c. c \<noteq> newline) bs = []" by auto
  then show ?thesis by (subst terminated_lines.simps) (simp only: list.case)
qed

lemma terminated_lines_cons:
  "newline \<notin> set l \<Longrightarrow> terminated_lines (l @ newline # rest) = l # terminated_lines rest"
proof -
  assume "newline \<notin> set l"
  then have l: "\<forall>x \<in> set l. x \<noteq> newline" by blast
  have "dropWhile (\<lambda>c. c \<noteq> newline) (l @ newline # rest) = newline # rest"
       "takeWhile (\<lambda>c. c \<noteq> newline) (l @ newline # rest) = l"
    using l by (simp_all add: dropWhile_append2 takeWhile_append2)
  then show ?thesis by (subst terminated_lines.simps) (simp only: list.case)
qed

text \<open>Where a bounded read stops: behind the newline, or short of it.\<close>

lemma read_until_line: "newline \<notin> set l \<Longrightarrow> length l < n \<Longrightarrow>
    read_until n (l @ newline # rest) = (l @ [newline], rest)"
  by (induction n "l @ newline # rest" arbitrary: l rule: read_until.induct) (auto simp: Cons_eq_append_conv)

lemma read_until_no_line: "newline \<notin> set (take n bs) \<Longrightarrow> read_until n bs = (take n bs, drop n bs)"
  by (induction n bs rule: read_until.induct) auto

lemma line_split:
  obtains (line) l rest where "bs = l @ newline # rest" "newline \<notin> set l"
  | (rest) "newline \<notin> set bs"
  by (metis split_list_first)

text \<open>A drain ends behind the next newline however the chunks fall; without one it ends the stream.\<close>

lemma take_until_line: "newline \<notin> set l \<Longrightarrow> length l < n \<Longrightarrow> rd_bytes r = l @ newline # rest \<Longrightarrow>
    take_until n r = Some (l @ [newline], r\<lparr> rd_bytes := rest \<rparr>)"
  by (simp add: take_until_def read_until_line ends_line_def)

lemma take_until_no_line: "newline \<notin> set (take n (rd_bytes r)) \<Longrightarrow>
    take_until n r = (if rd_broken r \<and> length (rd_bytes r) < n then None
      else Some (take n (rd_bytes r), r\<lparr> rd_bytes := drop n (rd_bytes r) \<rparr>))"
proof -
  assume n: "newline \<notin> set (take n (rd_bytes r))"
  then have "\<not> ends_line (take n (rd_bytes r))" unfolding ends_line_def by (metis last_in_set)
  then show ?thesis using read_until_no_line [OF n] by (auto simp: take_until_def)
qed

lemma not_ends_line: "newline \<notin> set l \<Longrightarrow> \<not> ends_line (take n l)"
  unfolding ends_line_def by (metis in_set_takeD last_in_set)

lemma not_in_drop: "c \<notin> set l \<Longrightarrow> c \<notin> set (drop n l)"
  by (meson in_set_dropD)

lemma drain_chunk_pos [simp]: "0 < drain_chunk" "drain_chunk \<noteq> 0" by (simp_all add: drain_chunk_def)

lemma drain_line:
  assumes "rd_bytes r = l @ newline # rest" "newline \<notin> set l"
  shows "drain_until_newline r = Some (r\<lparr> rd_bytes := rest \<rparr>)"
  using assms
proof (induction r arbitrary: l rule: drain_until_newline.induct)
  case (1 r)
  show ?case
  proof (cases "length l < drain_chunk")
    case True
    then show ?thesis
      using take_until_line [OF "1.prems"(2) True "1.prems"(1)]
      by (subst drain_until_newline.simps) (simp add: ends_line_def)
  next
    case False
    let ?n = drain_chunk
    have t: "take ?n (rd_bytes r) = take ?n l" "drop ?n (rd_bytes r) = drop ?n l @ newline # rest"
      using False by (simp_all add: "1.prems"(1))
    have nn: "newline \<notin> set (take ?n (rd_bytes r))" using "1.prems"(2) t(1) by (auto dest: in_set_takeD)
    have "\<not> length (rd_bytes r) < ?n" using False by (simp add: "1.prems"(1))
    then have tu: "take_until ?n r = Some (take ?n l, r\<lparr> rd_bytes := drop ?n l @ newline # rest \<rparr>)"
      using take_until_no_line [OF nn] t by simp
    have ne: "take ?n l \<noteq> []" using False by (cases l) auto
    have el: "\<not> ends_line (take ?n l)"
      using "1.prems"(2) by (rule not_ends_line)
    have "drain_until_newline (r\<lparr> rd_bytes := drop ?n l @ newline # rest \<rparr>)
        = Some (r\<lparr> rd_bytes := drop ?n l @ newline # rest, rd_bytes := rest \<rparr>)"
      using "1.IH" [OF tu refl, of "drop ?n l"] ne el not_in_drop [OF "1.prems"(2)] by simp
    then show ?thesis using tu ne el by (subst drain_until_newline.simps) simp
  qed
qed

lemma drain_rest:
  assumes "newline \<notin> set (rd_bytes r)"
  shows "drain_until_newline r = (if rd_broken r then None else Some (r\<lparr> rd_bytes := [] \<rparr>))"
  using assms
proof (induction r rule: drain_until_newline.induct)
  case (1 r)
  let ?n = drain_chunk
  have nn: "newline \<notin> set (take ?n (rd_bytes r))" using "1.prems" by (auto dest: in_set_takeD)
  note tu = take_until_no_line [OF nn]
  show ?case
  proof (cases "rd_bytes r = [] \<or> rd_broken r \<and> length (rd_bytes r) < ?n")
    case True
    then show ?thesis using tu less_irrefl [of "0 :: nat"] drain_chunk_pos
      by (subst drain_until_newline.simps) (auto simp del: drain_chunk_pos)
  next
    case False
    then have t: "take_until ?n r = Some (take ?n (rd_bytes r), r\<lparr> rd_bytes := drop ?n (rd_bytes r) \<rparr>)"
      using tu by auto
    have ne: "take ?n (rd_bytes r) \<noteq> []" using False drain_chunk_pos by simp
    have el: "\<not> ends_line (take ?n (rd_bytes r))" using nn ne by (metis ends_line_def last_in_set)
    have "drain_until_newline (r\<lparr> rd_bytes := drop ?n (rd_bytes r) \<rparr>)
        = (if rd_broken r then None else Some (r\<lparr> rd_bytes := [] \<rparr>))"
      using "1.IH" [OF t refl] ne el not_in_drop [OF "1.prems"] by simp
    then show ?thesis using t ne el by (subst drain_until_newline.simps) simp
  qed
qed

text \<open>One frame of a stream that still has a line, and of one that has none.\<close>

lemma frame_line:
  assumes "rd_bytes r = l @ newline # rest" "newline \<notin> set l" "0 < limit"
  shows "read_bounded_codex_frame limit r =
    Some (Some (if length l < limit then Line (from_utf8_lossy l) else Oversized), r\<lparr> rd_bytes := rest \<rparr>)"
proof (cases "length l < limit")
  case True
  then show ?thesis
    using take_until_line [OF assms(2) True assms(1)] by (simp add: read_bounded_codex_frame_def ends_line_def)
next
  case False
  have nn: "newline \<notin> set (take limit (rd_bytes r))" using False assms by (auto dest: in_set_takeD)
  have "take_until limit r = Some (take limit l, r\<lparr> rd_bytes := drop limit l @ newline # rest \<rparr>)"
    using take_until_no_line [OF nn] False assms(1) by simp
  moreover have "take limit l \<noteq> []" using False assms(3) by (cases l) auto
  moreover have "\<not> ends_line (take limit l)"
    using assms(2) by (rule not_ends_line)
  moreover have "drain_until_newline (r\<lparr> rd_bytes := drop limit l @ newline # rest \<rparr>)
      = Some (r\<lparr> rd_bytes := drop limit l @ newline # rest, rd_bytes := rest \<rparr>)"
    by (rule drain_line [of _ "drop limit l"]) (simp_all add: assms(2) not_in_drop)
  ultimately show ?thesis using False by (simp add: read_bounded_codex_frame_def)
qed

lemma frame_rest:
  assumes "newline \<notin> set (rd_bytes r)"
  shows "read_bounded_codex_frame limit r \<in> {None, Some (None, r), Some (Some Oversized, r\<lparr> rd_bytes := [] \<rparr>)}"
proof -
  have nn: "newline \<notin> set (take limit (rd_bytes r))" using assms by (auto dest: in_set_takeD)
  then have el: "\<not> ends_line (take limit (rd_bytes r))" by (metis ends_line_def last_in_set)
  have "newline \<notin> set (rd_bytes (r\<lparr> rd_bytes := drop limit (rd_bytes r) \<rparr>))" using assms by (auto dest: in_set_dropD)
  from drain_rest [OF this] show ?thesis
    using take_until_no_line [OF nn] el
    by (auto simp: read_bounded_codex_frame_def split: if_splits)
qed

lemma codex_reader_line:
  assumes "rd_bytes r = l @ newline # rest" "newline \<notin> set l" "0 < limit"
  shows "codex_reader parse limit r =
    (case if length l < limit then parse (from_utf8_lossy l) else None of None \<Rightarrow> [] | Some v \<Rightarrow> [v])
      @ codex_reader parse limit (r\<lparr> rd_bytes := rest \<rparr>)"
  using frame_line [OF assms] by (subst codex_reader.simps) (simp split: option.split)

lemma codex_reader_rest: "newline \<notin> set (rd_bytes r) \<Longrightarrow> codex_reader parse limit r = []"
proof -
  assume nn: "newline \<notin> set (rd_bytes r)"
  have e: "codex_reader parse limit r' = []" if "rd_bytes r' = []" for r'
    using that by (subst codex_reader.simps)
      (cases limit; auto simp: read_bounded_codex_frame_def take_until_def split: option.splits)
  show ?thesis using frame_rest [OF nn, of limit] e by (subst codex_reader.simps) auto
qed

lemma codex_reader_lines:
  "0 < limit \<Longrightarrow> codex_reader parse limit r = List.map_filter (\<lambda>l. parse (from_utf8_lossy l))
     (filter (\<lambda>l. length l < limit) (terminated_lines (rd_bytes r)))"
proof (induction "length (rd_bytes r)" arbitrary: r rule: less_induct)
  case less
  show ?case
  proof (cases "rd_bytes r" rule: line_split)
    case (line l rest)
    have "codex_reader parse limit (r\<lparr> rd_bytes := rest \<rparr>) = List.map_filter (\<lambda>l. parse (from_utf8_lossy l))
        (filter (\<lambda>l. length l < limit) (terminated_lines rest))"
      using less.hyps [of "r\<lparr> rd_bytes := rest \<rparr>"] less.prems line(1) by simp
    then show ?thesis
      using codex_reader_line [OF line less.prems] line
      by (simp add: terminated_lines_cons map_filter_simps split: option.split)
  next
    case rest
    then show ?thesis by (simp add: codex_reader_rest terminated_lines_none map_filter_simps)
  qed
qed


section \<open>The token refresh\<close>

lemma text_field_Some: "text_field f m = Some s \<Longrightarrow> s \<noteq> [] \<and> bm_get m f = Some (JStr s)"
  by (auto simp: text_field_def opt_filter_Some bind_eq_Some_conv elim: as_str.elims)

text \<open>The three fields of a token endpoint's answer.\<close>

lemma parse_refreshed_fields:
  assumes "parse_refreshed v = Inr t"
  obtains answer where "v = JObj answer" "rt_access t \<noteq> []" "rt_refresh t \<noteq> []"
    "bm_get answer ''accessToken'' = Some (JStr (rt_access t))"
    "bm_get answer ''refreshToken'' = Some (JStr (rt_refresh t))"
    "Option.bind (bm_get answer ''expiresAt'') json_i64 = Some (rt_expiry t)"
proof -
  have f: "text_field ''accessToken'' (object_of v) = Some (rt_access t)"
      "text_field ''refreshToken'' (object_of v) = Some (rt_refresh t)"
      "int_field ''expiresAt'' (object_of v) = Some (rt_expiry t)"
    using assms by (auto simp: parse_refreshed_def bind_src_Inr_iff)
  have "bm_get (object_of v) ''accessToken'' \<noteq> None" using text_field_Some [OF f(1)] by simp
  then obtain answer where "v = JObj answer" by (cases v) (auto simp: object_of_def bm_get_def)
  then show thesis
    using that text_field_Some [OF f(1)] text_field_Some [OF f(2)] f(3) by (simp add: int_field_def object_of_def)
qed

lemma refresh_anthropic_answer:
  "refresh_anthropic parse answer timeout = Inr v \<Longrightarrow> \<exists>resp. answer = Some resp
     \<and> \<not> (300 \<le> hr_status resp \<and> hr_status resp < 400) \<and> \<not> rd_broken (hr_body resp)
     \<and> parse (rd_bytes (hr_body resp)) = Some v"
  by (auto simp: refresh_anthropic_def bind_src_Inr_iff refuse_def reject_redirect_def into_json_def
      split: sum.splits if_splits)

lemma oauth_of_Inr: "oauth_of path c = Inr oauth \<longleftrightarrow> jget ''claudeAiOauth'' c = Some (JObj oauth)"
  by (auto simp: oauth_of_def bind_eq_Some_conv elim: as_object.elims)

lemma jget_object: "jget k v = bm_get (object_of v) k"
  by (cases v) (simp_all add: object_of_def bm_get_def)

lemma apply_refreshed_writes:
  assumes "apply_refreshed_credentials path expected refreshed current now writes = (Some new, r)"
  obtains t c oauth where "parse_refreshed refreshed = Inr t" "current = Some c"
    "jget ''claudeAiOauth'' c = Some (JObj oauth)" "bm_get oauth ''refreshToken'' = Some (JStr expected)"
    "new = updated_credentials t c oauth" "r = Inr (rt_access t)"
  using assms
  by (auto simp: apply_refreshed_credentials_def bind_src_Inr_iff oauth_of_Inr bind_eq_Some_conv
      split: sum.splits prod.splits if_splits elim!: as_str.elims)

lemma obtain_writes:
  assumes "tr_written (obtain_access_token parse env path url timeout) = Some new"
  obtains refresh refreshed where "stored_token env path timeout = Inr (Inl refresh)"
    "tr_posted (obtain_access_token parse env path url timeout) = Some refresh"
    "refresh_anthropic parse (tn_answer env url (refresh_request refresh)) timeout = Inr refreshed"
    "apply_refreshed_credentials path refresh refreshed (tn_current env) (tn_later env) (tn_writes env)
       = (Some new, tr_result (obtain_access_token parse env path url timeout))"
proof -
  obtain refresh refreshed where r: "stored_token env path timeout = Inr (Inl refresh)"
      "refresh_anthropic parse (tn_answer env url (refresh_request refresh)) timeout = Inr refreshed"
    using assms by (auto simp: obtain_access_token_def Let_def split: sum.splits prod.splits)
  have "http_agent timeout \<noteq> None" using r(2) by (auto simp: refresh_anthropic_def bind_src_Inr_iff)
  moreover obtain w x where a: "apply_refreshed_credentials path refresh refreshed (tn_current env) (tn_later env)
      (tn_writes env) = (w, x)" by fastforce
  ultimately have "obtain_access_token parse env path url timeout
      = \<lparr> tr_posted = Some refresh, tr_written = w, tr_result = x \<rparr>"
    by (simp add: obtain_access_token_def r)
  then show thesis using that [OF r(1) _ r(2)] assms a by simp
qed

section \<open>The session\<close>

lemma capture_fields [simp]:
  "cs_next_id (capture_codex_notification now v s) = cs_next_id s"
  "cs_reconciled_at (capture_codex_notification now v s) = cs_reconciled_at s"
  "cs_queue (capture_codex_notification now v s) = cs_queue s"
  by (simp_all add: capture_codex_notification_def split: option.split)

definition updates :: "json list \<Rightarrow> json list" where
  "updates vs = List.map_filter codex_update vs"

lemma capture_all:
  "foldl (\<lambda>s v. capture_codex_notification now v s) s vs =
     (if updates vs = [] then s else s\<lparr> cs_last_result := Some (last (updates vs)), cs_observed_at := now \<rparr>)"
  by (induction vs arbitrary: s)
    (auto simp: updates_def map_filter_simps capture_codex_notification_def split: option.splits)

lemma drained:
  "drain_pending_codex_notifications now s = (let us = updates (cs_queue s) in
     if us = [] then s\<lparr> cs_queue := [] \<rparr>
     else s\<lparr> cs_queue := [], cs_last_result := Some (last us), cs_observed_at := now \<rparr>)"
  by (simp add: drain_pending_codex_notifications_def capture_all Let_def)

lemma receive_Some:
  assumes "receive_codex_response n want now s = (Some v, s')"
  shows "v \<in> set (cs_queue s) \<and> Option.bind (jget ''id'' v) json_i64 = Some want \<and> cs_next_id s' = cs_next_id s"
  using assms by (induction n want now s rule: receive_codex_response.induct) (auto split: list.splits if_splits)

lemma full_read_Inr:
  assumes "codex_full_read p s = (s', Inr (v, t))"
  obtains response where "response \<in> set (cs_queue s @ po_incoming p)"
    "Option.bind (jget ''id'' response) json_i64 = Some (cs_next_id s)" "jget ''error'' response = None"
    "jget ''result'' response = Some v" "t = po_read_at p" "cs_next_id s' = next_i64 (cs_next_id s)"
    "cs_reconciled_at s' = po_read_now p" "cs_last_result s' = Some v" "cs_observed_at s' = t"
  using assms
  by (auto simp: codex_full_read_def deliver_def read_response_def Let_def
      split: if_splits prod.splits option.splits sum.splits dest!: receive_Some)

section \<open>The backoff\<close>

lemma backoff_cap_le: "codex_backoff_cap n \<le> 300000"
  by (simp add: codex_backoff_cap_def codex_restart_backoff_max_def)

lemma backoff_cap_doubles: "codex_backoff_cap (Suc n) = min (5000 * 2 ^ n) 300000"
proof (cases "n \<le> 20")
  case False
  then have "(2 :: nat) ^ 20 \<le> 2 ^ n" by (intro power_increasing) simp_all
  then show ?thesis
    using False by (simp add: codex_backoff_cap_def codex_restart_backoff_base_def codex_restart_backoff_max_def sat_sub_def)
qed (simp add: codex_backoff_cap_def codex_restart_backoff_base_def codex_restart_backoff_max_def sat_sub_def)

lemma backoff_delay_le:
  assumes "\<And>c. jitter c \<le> c"
  shows "codex_restart_backoff_delay jitter n \<le> codex_backoff_cap n"
  using assms by (simp add: codex_restart_backoff_delay_def Let_def)

text \<open>A world the process can reach, and an instant no later than which its last poll ended.\<close>

inductive codex_reaches :: "codex_world \<Rightarrow> int \<Rightarrow> bool" where
  start: "codex_reaches \<lparr> cx_sessions = [], cx_backoff = [], cx_starts = [] \<rparr> t"
| poll: "codex_reaches w t \<Longrightarrow> t \<le> ce_check_now env \<Longrightarrow> ce_check_now env \<le> ce_record_now env \<Longrightarrow>
    (\<And>c. ce_jitter env c \<le> c) \<Longrightarrow> with_codex_session env e w = (w', r) \<Longrightarrow> codex_reaches w' (ce_record_now env)"
| wait: "codex_reaches w t \<Longrightarrow> t \<le> t' \<Longrightarrow> codex_reaches w t'"
| shutdown: "codex_reaches w t \<Longrightarrow> codex_reaches (shutdown_codex_sessions w) t"

definition backs_off_until :: "int \<Rightarrow> codex_world \<Rightarrow> bool" where
  "backs_off_until t w = (\<forall>e b n. bm_get (cx_backoff w) e = Some b \<longrightarrow> cb_not_before b = Some n \<longrightarrow> n \<le> t)"

lemma backs_off_mono: "backs_off_until t w \<Longrightarrow> t \<le> t' \<Longrightarrow> backs_off_until t' w"
  unfolding backs_off_until_def by (meson order_trans)

lemma restart_backoff:
  assumes "restart_codex_session env e w = (w', r)" "backs_off_until t w"
    "t \<le> ce_record_now env + 300000000000" "\<And>c. ce_jitter env c \<le> c"
  shows "backs_off_until (ce_record_now env + 300000000000) w'"
proof -
  let ?n = "\<lambda>b. wrap32 (cb_failures b + 1)"
  have d: "int (codex_restart_backoff_delay (ce_jitter env) n) * 1000000 \<le> 300000000000" for n
    using order_trans [OF backoff_delay_le [OF assms(4), of n] backoff_cap_le [of n]] by simp
  show ?thesis
  proof (cases "backoff_check (backoff_of w e) (ce_check_now env)")
    case Inl
    then show ?thesis using assms backs_off_mono by (auto simp: restart_codex_session_def)
  next
    case Inr
    then have "w' = w\<lparr> cx_starts := cx_starts w @ [e], cx_backoff := bm_entry no_backoff e
        (backoff_record (ce_jitter env) (\<not> isl r) (ce_record_now env)) (cx_backoff w) \<rparr>"
      using assms(1) by (auto simp: restart_codex_session_def Let_def)
    then show ?thesis
      using backs_off_mono [OF assms(2,3)] d
      by (auto simp: backs_off_until_def bm_get_entry backoff_record_def no_backoff_def Let_def split: if_splits)
  qed
qed

lemma session_backoff:
  assumes "with_codex_session env e w = (w', r)" "backs_off_until t w"
    "t \<le> ce_record_now env + 300000000000" "\<And>c. ce_jitter env c \<le> c"
  shows "backs_off_until (ce_record_now env + 300000000000) w'"
proof -
  have replaced: "backs_off_until (ce_record_now env + 300000000000) w2"
    if w: "replace_session env e w1 = (w2, r2)" and s: "backs_off_until t w1" for w1 w2 r2
  proof -
    obtain w3 r3 where r: "restart_codex_session env e w1 = (w3, r3)" by (cases "restart_codex_session env e w1")
    have "backs_off_until (ce_record_now env + 300000000000) w3" by (rule restart_backoff [OF r s assms(3,4)])
    then show ?thesis using w r by (auto simp: replace_session_def backs_off_until_def split: sum.splits)
  qed
  have "backs_off_until (ce_record_now env + 300000000000) w" by (rule backs_off_mono [OF assms(2,3)])
  then show ?thesis
    using assms(1,2) replaced [of "w\<lparr> cx_sessions := bm_del e (cx_sessions w) \<rparr>"] replaced [of w]
    by (auto simp: with_codex_session_def backs_off_until_def split: option.splits prod.splits sum.splits)
qed

lemma codex_reaches_backoff: "codex_reaches w t \<Longrightarrow> backs_off_until (t + 300000000000) w"
proof (induction rule: codex_reaches.induct)
  case (poll w t env e w' r)
  show ?case by (rule session_backoff [OF poll(5) poll.IH]) (use poll in simp_all)
next
  case (wait w t t')
  then show ?case by (auto intro: backs_off_mono)
qed (simp_all add: backs_off_until_def shutdown_codex_sessions_def bm_get_def)

lemma restart_starts:
  assumes "backs_off_until t w" "t \<le> ce_check_now env" "replace_session env e w = (w', r)"
  shows "cx_starts w' = cx_starts w @ [e]"
proof -
  have "backoff_check (backoff_of w e) (ce_check_now env) = Inr ()"
    using assms(1,2) unfolding backoff_check_def backoff_of_def backs_off_until_def
    by (cases "bm_get (cx_backoff w) e") (force simp: no_backoff_def split: option.splits)+
  then show ?thesis
    using assms(3) by (auto simp: replace_session_def restart_codex_session_def Let_def split: sum.splits)
qed

section \<open>The Anthropic windows\<close>

text \<open>The limits that parse, by kind; the last of a kind wins, over the window of that name.\<close>

definition parsed_limits :: "time_text \<Rightarrow> json \<Rightarrow> (string \<times> quota_window) list" where
  "parsed_limits tt payload = List.map_filter (\<lambda>limit.
     Option.bind (Option.bind (jget ''kind'' limit) as_str) (\<lambda>k. map_option (Pair k) (parse_anthropic_limit tt k limit)))
     (unwrap_or [] (Option.bind (jget ''limits'' payload) as_array))"

definition named_window :: "time_text \<Rightarrow> json \<Rightarrow> string \<Rightarrow> quota_window option" where
  "named_window tt payload wid = (if wid \<in> {''five_hour'', ''seven_day'', ''weekly_scoped''}
     then Option.bind (jget wid payload) (parse_anthropic_window tt wid) else None)"

lemma put_window_get: "bm_get (put_window m i w) j = (if i = j \<and> w \<noteq> None then w else bm_get m j)"
  by (auto simp: put_window_def bm.look_put split: option.split)

lemma put_window_ok: "bm_ok m \<Longrightarrow> bm_ok (put_window m i w)"
  by (simp add: put_window_def bm.inv_put split: option.split)

lemma limit_windows_fold:
  "limit_windows tt payload m = foldl (\<lambda>m e. bm_put (fst e) (snd e) m) m (parsed_limits tt payload)"
proof -
  have "foldl (\<lambda>m limit. case Option.bind (jget ''kind'' limit) as_str of
         None \<Rightarrow> m | Some wid \<Rightarrow> put_window m wid (parse_anthropic_limit tt wid limit)) m limits
      = foldl (\<lambda>m e. bm_put (fst e) (snd e) m) m (List.map_filter (\<lambda>limit.
         Option.bind (Option.bind (jget ''kind'' limit) as_str) (\<lambda>k. map_option (Pair k) (parse_anthropic_limit tt k limit)))
         limits)" for limits m
    by (induction limits arbitrary: m) (auto simp: map_filter_simps put_window_def split: option.splits Option.bind_splits)
  then show ?thesis
    by (simp add: limit_windows_def parsed_limits_def map_filter_simps split: option.split)
qed

lemma named_windows_ok: "bm_ok (named_windows tt payload)"
  by (simp add: named_windows_def put_window_ok bm_ok_def [of "[]"])

lemma named_windows_get: "bm_get (named_windows tt payload) i = named_window tt payload i"
  by (auto simp: named_windows_def named_window_def put_window_get bm_get_def [of "[]"])

end
