(* ===== verification/Source_Properties.thy ===== *)
theory Source_Properties
  imports Source_Laws
begin

text \<open>
  The quota sources: what reaches the controller is typed, the Codex reader sends the lines of the stream, a
  token refresh spares a concurrent one, an answer of a session is what it says it is, and a failing app-server
  is tried again.
\<close>

section \<open>Concrete sources\<close>

definition oauth1 :: "string \<Rightarrow> (string, json) bmap" where
  "oauth1 token = [(''accessToken'', JStr ''old''), (''expiresAt'', json_int 0), (''refreshToken'', JStr token)]"

definition token_env1 :: "string \<Rightarrow> token_env" where
  "token_env1 token = \<lparr> tn_opens = True, tn_lock_start = 0, tn_attempts = [(LockGranted, 0)],
     tn_credentials = Some (JObj [(''claudeAiOauth'', JObj (oauth1 ''r1''))]), tn_now = 0,
     tn_answer = \<lambda>_ _. Some \<lparr> hr_status = 200, hr_url = ''u'', hr_body = \<lparr> rd_bytes = ''b'', rd_broken = False \<rparr> \<rparr>,
     tn_current = Some (JObj [(''claudeAiOauth'', JObj (oauth1 token))]), tn_later = 0, tn_writes = True \<rparr>"

definition parse1 :: "string \<Rightarrow> json option" where
  "parse1 s = Some (JObj [(''accessToken'', JStr ''a2''), (''expiresAt'', json_int 9), (''refreshToken'', JStr ''r2'')])"

definition session1 :: codex_session where
  "session1 = \<lparr> cs_queue = [], cs_next_id = 2, cs_last_result = None, cs_reconciled_at = 0, cs_observed_at = 0 \<rparr>"

definition poll1 :: codex_poll where
  "poll1 = \<lparr> po_waiting = [], po_drained_at = 1, po_now = 1, po_writes = True,
     po_incoming = [JObj [(''id'', json_int 1), (''result'', JStr ''stale'')],
       JObj [(''id'', json_int 2), (''result'', JStr ''mine'')]],
     po_patience = Suc (Suc 0), po_captured_at = 2, po_read_at = 3, po_read_now = 3 \<rparr>"

definition spawn1 :: codex_spawn where
  "spawn1 = \<lparr> sp_spawns = False, sp_stdin = True, sp_stdout = True, sp_now = 0, sp_at = 0, sp_writes_initialize = True,
     sp_incoming = [], sp_patience = 0, sp_captured_at = 0, sp_writes_initialized = True \<rparr>"

definition codex_env1 :: "int \<Rightarrow> codex_env" where
  "codex_env1 now = \<lparr> ce_live = poll1, ce_check_now = now, ce_spawn = spawn1, ce_fresh = poll1, ce_record_now = now,
     ce_jitter = id \<rparr>"

definition sample_window :: quota_window where
  "sample_window = \<lparr> qw_id = ''day'', qw_used_fraction = Fin 0, qw_resets_at = 1, qw_duration_minutes = None,
     qw_reached = False \<rparr>"

definition source_env1 :: source_env where
  "source_env1 = \<lparr> se_parse = \<lambda>_. None, se_snapshot = \<lambda>_. Some (snapshot_of 0 [sample_window] None),
     se_resource = \<lambda>_. None, se_times = \<lparr> tt_rfc3339 = \<lambda>_. Some 5, tt_epoch = Some \<rparr>, se_now = 3,
     se_open = \<lambda>_. Some \<lparr> rd_bytes = ''{}'', rd_broken = False \<rparr>, se_run = \<lambda>_. NotSpawned, se_get = \<lambda>_ _ _. None,
     se_token = \<lambda>_. token_env1 ''r1'', se_codex = \<lambda>_. codex_env1 0 \<rparr>"

definition source_world1 :: source_world where
  "source_world1 = \<lparr> sw_codex = \<lparr> cx_sessions = [], cx_backoff = [], cx_starts = [] \<rparr>, sw_written = [], sw_killed = [] \<rparr>"

section \<open>Snapshots\<close>

text \<open>C27: Whatever a source answers, a snapshot that \<open>collect\<close> hands on is well typed: it has windows, their
  ids are nonempty and distinct, every used fraction is a finite number from 0 to 1, no reset credit has a
  blank id, no more requests are completed than attempted, and the concurrency and throttling fractions, where
  given, are finite numbers from 0 to 1; and a snapshot of a native source is marked fresh and carries neither
  a backlog nor those figures.\<close>

theorem collected_snapshot_is_typed:
  assumes "collect env source w = (w', Inr sn)"
  shows "qs_windows sn \<noteq> [] \<and> distinct (map qw_id (qs_windows sn))
    \<and> (\<forall>win \<in> set (qs_windows sn). qw_id win \<noteq> [] \<and> is_fin (qw_used_fraction win)
         \<and> 0 \<le> fval (qw_used_fraction win) \<and> fval (qw_used_fraction win) \<le> 1)
    \<and> (\<forall>c \<in> set (snapshot_credits sn). trim (rc_id c) \<noteq> [])
    \<and> (\<forall>s. qs_saturation sn = Some s \<longrightarrow> ss_completed_requests s \<le> ss_attempts s
         \<and> (\<forall>f. ss_concurrency_fraction s = Some f \<longrightarrow> is_fin f \<and> 0 \<le> fval f \<and> fval f \<le> 1))
    \<and> (\<forall>b f. qs_backpressure sn = Some b \<longrightarrow> bp_429_fraction b = Some f \<longrightarrow> is_fin f \<and> 0 \<le> fval f \<and> fval f \<le> 1)
    \<and> (case source of AnthropicOauth _ _ _ _ \<Rightarrow> qs_observed_at sn = se_now env \<and> sn = snapshot_of (se_now env) (qs_windows sn) None
       | CodexAppServer _ _ \<Rightarrow> sn = snapshot_of (qs_observed_at sn) (qs_windows sn) (qs_reset_credits sn)
       | _ \<Rightarrow> True)"
proof -
  obtain w1 r where r: "collect_raw env source w = (w1, r)" by (cases "collect_raw env source w")
  then have v: "r = Inr sn" "validate_snapshot sn = Inr sn"
    using assms validate_snapshot_Inr by (auto simp: collect_def bind_src_Inr_iff)
  have "case source of AnthropicOauth _ _ _ _ \<Rightarrow> qs_observed_at sn = se_now env \<and> sn = snapshot_of (se_now env) (qs_windows sn) None
       | CodexAppServer _ _ \<Rightarrow> sn = snapshot_of (qs_observed_at sn) (qs_windows sn) (qs_reset_credits sn)
       | _ \<Rightarrow> True"
    using r v(1)
    by (cases source)
      (auto simp: collect_anthropic_def collect_codex_def parse_anthropic_usage_def parse_codex_rate_limits_def
        bind_src_Inr_iff snapshot_of_def Let_def split: prod.splits if_splits)
  with iffD1 [OF validate_snapshot_iff v(2)] show ?thesis
    unfolding snapshot_typed_def fraction_of_one_def by blast
qed

theorem collected_snapshot_is_typed_witness:
  "\<exists>sn. collect source_env1 (NormalizedFile ''f'') source_world1 = (source_world1, Inr sn)
     \<and> distinct (map qw_id (qs_windows sn))"
proof -
  have "collect source_env1 (NormalizedFile ''f'') source_world1 = (source_world1, Inr (snapshot_of 0 [sample_window] None))"
    by (simp add: collect_def source_env1_def decode_snapshot_def read_generic_file_bytes_def require_def bounded_def
        read_bounded_def max_generic_source_bytes_def Let_def validate_snapshot_def snapshot_of_def sample_window_def
        in_unit_def ensure_def snapshot_credits_def other_def)
  from this collected_snapshot_is_typed [OF this] show ?thesis by blast
qed

text \<open>The windows of an Anthropic answer are the last parsed limit of each kind, or the parsed window of that
  name where no limit has the kind: one window per id, in the order of the ids.\<close>

theorem anthropic_windows_by_kind:
  assumes "parse_anthropic_usage tt payload now = Inr sn"
  shows "(\<exists>m :: window_map. bm_ok m \<and> qs_windows sn = bm_vals m
      \<and> (\<forall>i. bm_get m i = or_opt (map_of (rev (parsed_limits tt payload)) i) (named_window tt payload i)))"
proof -
  let ?m = "limit_windows tt payload (named_windows tt payload)"
  have "bm_get ?m i = or_opt (map_of (rev (parsed_limits tt payload)) i) (named_window tt payload i)" for i
    by (simp add: limit_windows_fold bm.look_foldl_put named_windows_get or_opt_def split: option.split)
  moreover have "bm_ok ?m" by (simp add: limit_windows_fold bm.inv_foldl_put named_windows_ok)
  moreover have "qs_windows sn = bm_vals ?m"
    using assms by (auto simp: parse_anthropic_usage_def Let_def other_def snapshot_of_def split: if_splits)
  ultimately show ?thesis by blast
qed

theorem anthropic_windows_by_kind_witness:
  "\<exists>sn. parse_anthropic_usage (se_times source_env1)
       (JObj [(''five_hour'', JObj [(''resets_at'', JStr ''t''), (''utilization'', JNum (FloatNum (Fin 50)))])]) 3 = Inr sn
     \<and> (\<exists>m :: window_map. bm_ok m \<and> qs_windows sn = bm_vals m)"
proof -
  have "\<exists>sn. parse_anthropic_usage (se_times source_env1)
      (JObj [(''five_hour'', JObj [(''resets_at'', JStr ''t''), (''utilization'', JNum (FloatNum (Fin 50)))])]) 3 = Inr sn"
    by (simp add: parse_anthropic_usage_def limit_windows_def named_windows_def put_window_def bm_get_def
        parse_anthropic_window_def inactive_def window_of_def source_env1_def parse_timestamp_def other_def Let_def)
  then obtain sn where sn: "parse_anthropic_usage (se_times source_env1)
      (JObj [(''five_hour'', JObj [(''resets_at'', JStr ''t''), (''utilization'', JNum (FloatNum (Fin 50)))])]) 3 = Inr sn" ..
  from anthropic_windows_by_kind [OF sn] sn show ?thesis by fast
qed

section \<open>Frames\<close>

text \<open>C31: The reader thread of a Codex session sends exactly the JSON values of the lines of the app-server's
  output that are shorter than the frame bound, in their order: an oversized line costs only itself, an
  unterminated rest and lines that are not JSON cost nothing, and neither the chunks in which an oversized
  frame is drained nor a read error behind the last line make a difference.\<close>

theorem reader_sends_the_lines:
  assumes "0 < limit"
  shows "codex_reader parse limit r = List.map_filter (\<lambda>l. parse (from_utf8_lossy l))
     (filter (\<lambda>l. length l < limit) (terminated_lines (rd_bytes r)))"
  by (rule codex_reader_lines [OF assms])

theorem reader_sends_the_lines_witness:
  "codex_reader (\<lambda>s. Some (JStr s)) 4 \<lparr> rd_bytes = ''ab'' @ newline # ''abcdefgh'' @ newline # ''c'' @ newline # ''rest'', rd_broken = True \<rparr>
     = [JStr ''ab'', JStr ''c'']"
proof -
  have n: "newline \<notin> set ''ab''" "newline \<notin> set ''abcdefgh''" "newline \<notin> set ''c''" "newline \<notin> set ''rest''"
    by (simp_all add: newline_def char_of_def)
  have l: "from_utf8_lossy ''ab'' = ''ab''" "from_utf8_lossy ''c'' = ''c''"
    by (simp_all add: utf8_step_def byte_def Let_def)
  show ?thesis
    using reader_sends_the_lines [of 4 "\<lambda>s. Some (JStr s)"
        "\<lparr> rd_bytes = ''ab'' @ newline # ''abcdefgh'' @ newline # ''c'' @ newline # ''rest'', rd_broken = True \<rparr>"]
    by (simp only: reader.simps terminated_lines_cons n terminated_lines_none not_False_eq_True)
      (simp add: map_filter_simps l del: from_utf8_lossy.simps)
qed

section \<open>The access token\<close>

text \<open>C29: A token refresh writes the credentials file only if the refresh token it has spent is still the one on
  disk, so a rotation by another process is never overwritten.  What it writes is that content with exactly
  three fields replaced: the access token, the refresh token, neither of them empty, and the expiry the
  token endpoint answered; and the access token it returns is the one it wrote.\<close>

theorem refresh_spares_concurrent_rotation:
  assumes "tr_written (obtain_access_token parse env path url timeout) = Some new"
  shows "\<exists>spent current oauth resp answer access refresh expiry written.
    tr_posted (obtain_access_token parse env path url timeout) = Some spent
    \<and> tn_current env = Some current \<and> jget ''claudeAiOauth'' current = Some (JObj oauth)
    \<and> bm_get oauth ''refreshToken'' = Some (JStr spent)
    \<and> tn_answer env url (JObj [(''grantType'', JStr ''refresh_token''), (''refreshToken'', JStr spent)]) = Some resp
    \<and> parse (rd_bytes (hr_body resp)) = Some (JObj answer)
    \<and> bm_get answer ''accessToken'' = Some (JStr access) \<and> access \<noteq> []
    \<and> bm_get answer ''refreshToken'' = Some (JStr refresh) \<and> refresh \<noteq> []
    \<and> Option.bind (bm_get answer ''expiresAt'') json_i64 = Some expiry
    \<and> tr_result (obtain_access_token parse env path url timeout) = Inr access
    \<and> jget ''claudeAiOauth'' new = Some (JObj written)
    \<and> (\<forall>k. bm_get written k = (if k = ''accessToken'' then Some (JStr access)
          else if k = ''refreshToken'' then Some (JStr refresh)
          else if k = ''expiresAt'' then Some (json_int expiry) else bm_get oauth k))
    \<and> (\<forall>k. k \<noteq> ''claudeAiOauth'' \<longrightarrow> jget k new = jget k current)"
proof -
  obtain spent refreshed where o: "tr_posted (obtain_access_token parse env path url timeout) = Some spent"
    "refresh_anthropic parse (tn_answer env url (refresh_request spent)) timeout = Inr refreshed"
    "apply_refreshed_credentials path spent refreshed (tn_current env) (tn_later env) (tn_writes env)
       = (Some new, tr_result (obtain_access_token parse env path url timeout))"
    by (rule obtain_writes [OF assms])
  obtain t current oauth where t: "parse_refreshed refreshed = Inr t" "tn_current env = Some current"
      "jget ''claudeAiOauth'' current = Some (JObj oauth)" "bm_get oauth ''refreshToken'' = Some (JStr spent)"
      "new = updated_credentials t current oauth"
      "tr_result (obtain_access_token parse env path url timeout) = Inr (rt_access t)"
    by (rule apply_refreshed_writes [OF o(3)])
  obtain answer where a: "refreshed = JObj answer" "rt_access t \<noteq> []" "rt_refresh t \<noteq> []"
      "bm_get answer ''accessToken'' = Some (JStr (rt_access t))"
      "bm_get answer ''refreshToken'' = Some (JStr (rt_refresh t))"
      "Option.bind (bm_get answer ''expiresAt'') json_i64 = Some (rt_expiry t)"
    by (rule parse_refreshed_fields [OF t(1)])
  obtain resp where resp: "tn_answer env url (refresh_request spent) = Some resp"
      "parse (rd_bytes (hr_body resp)) = Some refreshed"
    using refresh_anthropic_answer [OF o(2)] by blast
  define written where "written = bm_put ''expiresAt'' (json_int (rt_expiry t))
      (bm_put ''refreshToken'' (JStr (rt_refresh t)) (bm_put ''accessToken'' (JStr (rt_access t)) oauth))"
  have get: "jget k new = (if k = ''claudeAiOauth'' then Some (JObj written) else jget k current)" for k
    by (simp add: t(5) updated_credentials_def written_def bm.look_put jget_object [of k current] flip: object_of_def)
  have w: "bm_get written k = (if k = ''accessToken'' then Some (JStr (rt_access t))
        else if k = ''refreshToken'' then Some (JStr (rt_refresh t))
        else if k = ''expiresAt'' then Some (json_int (rt_expiry t)) else bm_get oauth k)" for k
    by (simp add: written_def bm.look_put)
  show ?thesis
    by (intro exI [of _ spent] exI [of _ current] exI [of _ oauth] exI [of _ resp] exI [of _ answer]
        exI [of _ "rt_access t"] exI [of _ "rt_refresh t"] exI [of _ "rt_expiry t"] exI [of _ written])
      (use o(1) t(2-4,6) a resp get w in \<open>simp add: refresh_request_def\<close>)
qed

lemmas token1_defs = token_env1_def parse1_def oauth1_def obtain_access_token_def stored_token_def require_def
  lock_deadline_def oauth_of_def bm_get_def fresh_access_token_def int_field_def text_field_def json_int_def
  refresh_threshold_millis_def required_refresh_token_def refresh_anthropic_def http_agent_def refuse_def
  i64_max_def reject_redirect_def into_json_def apply_refreshed_credentials_def parse_refreshed_def object_of_def

theorem refresh_spares_concurrent_rotation_witness:
  "\<exists>new. tr_written (obtain_access_token parse1 (token_env1 ''r1'') ''p'' ''u'' 5) = Some new
     \<and> jget ''claudeAiOauth'' new \<noteq> None"
proof -
  have "\<exists>new. tr_written (obtain_access_token parse1 (token_env1 ''r1'') ''p'' ''u'' 5) = Some new"
    by (simp add: token1_defs)
  then show ?thesis using refresh_spares_concurrent_rotation by blast
qed

text \<open>A rotation between the two reads is left alone.\<close>

lemma rotated_token_is_spared:
  "tr_written (obtain_access_token parse1 (token_env1 ''r9'') ''p'' ''u'' 5) = None"
  by (simp add: token1_defs)

section \<open>The session\<close>

text \<open>C30: An answer of a Codex session is one of two.  Either it is the latest rate-limit update the session has
  seen, pushed or read, with the time it was captured, no request is sent, and the last full read is less than
  the reconcile interval ago; or it is the result of a response to this poll's own request, whose id no earlier
  request of the session used, with the time of the read, which then starts the interval anew.\<close>

theorem codex_answer_is_authentic:
  assumes "codex_session_read_rate_limits p s = (s', Inr (v, t))"
  shows "(po_now p - cs_reconciled_at s < codex_reconcile_interval
      \<and> cs_next_id s' = cs_next_id s \<and> cs_reconciled_at s' = cs_reconciled_at s
      \<and> (let us = updates (cs_queue s @ po_waiting p) in
          if us = [] then cs_last_result s = Some v \<and> t = cs_observed_at s else v = last us \<and> t = po_drained_at p))
    \<or> (\<exists>response \<in> set (po_incoming p). Option.bind (jget ''id'' response) json_i64 = Some (cs_next_id s)
        \<and> jget ''error'' response = None \<and> jget ''result'' response = Some v \<and> t = po_read_at p
        \<and> cs_next_id s' = next_i64 (cs_next_id s) \<and> cs_reconciled_at s' = po_read_now p
        \<and> cs_last_result s' = Some v \<and> cs_observed_at s' = t)"
proof -
  let ?d = "drain_pending_codex_notifications (po_drained_at p) (deliver (po_waiting p) s)"
  have d: "cs_queue ?d = []" "cs_next_id ?d = cs_next_id s" "cs_reconciled_at ?d = cs_reconciled_at s"
      "(cs_last_result ?d, cs_observed_at ?d) = (let us = updates (cs_queue s @ po_waiting p) in
         if us = [] then (cs_last_result s, cs_observed_at s) else (Some (last us), po_drained_at p))"
    by (simp_all add: drained deliver_def Let_def)
  show ?thesis
  proof (cases "codex_cache_is_usable (cs_last_result ?d) (cs_reconciled_at ?d) (po_now p)")
    case True
    then have "s' = ?d" "cs_last_result ?d = Some v" "t = cs_observed_at ?d"
      using assms by (auto simp: codex_session_read_rate_limits_def Let_def other_def split: option.splits)
    then show ?thesis using True d by (auto simp: codex_cache_is_usable_def Let_def split: if_splits)
  next
    case False
    then have "codex_full_read p ?d = (s', Inr (v, t))"
      using assms by (simp add: codex_session_read_rate_limits_def Let_def)
    then show ?thesis by (rule full_read_Inr) (use d in auto)
  qed
qed

lemma poll1_answer: "\<exists>s. codex_session_read_rate_limits poll1 session1 = (s, Inr (JStr ''mine'', 3))"
  by (simp add: poll1_def session1_def codex_session_read_rate_limits_def drained deliver_def updates_def
      map_filter_simps codex_cache_is_usable_def codex_full_read_def codex_reconcile_interval_def json_int_def bm_get_def i64_max_def
      capture_codex_notification_def codex_update_def read_response_def require_def Let_def)

theorem codex_answer_is_authentic_witness:
  "\<exists>s. codex_session_read_rate_limits poll1 session1 = (s, Inr (JStr ''mine'', 3)) \<and> cs_next_id s \<in> {2, 3}"
proof -
  obtain s where s: "codex_session_read_rate_limits poll1 session1 = (s, Inr (JStr ''mine'', 3))"
    using poll1_answer by blast
  from codex_answer_is_authentic [OF this] have "cs_next_id s \<in> {2, 3}"
    by (auto simp: session1_def next_i64_def i64_max_def)
  then show ?thesis using s by blast
qed

text \<open>However often and in whatever way an app-server has failed, five minutes after the last poll a poll that
  finds no working session tries to start it: the random backoff is capped, and a poll that does not answer
  from a live session makes exactly one attempt.\<close>

theorem codex_restarts_within_five_minutes:
  assumes "codex_reaches w t" "t + 300000000000 \<le> ce_check_now env"
    and "with_codex_session env e w = (w', r)"
  shows "cx_starts w' = cx_starts w @ [e]
    \<or> (\<exists>s v. bm_get (cx_sessions w) e = Some s \<and> snd (codex_session_read_rate_limits (ce_live env) s) = Inr v
         \<and> r = Inr v \<and> cx_starts w' = cx_starts w)"
proof -
  have b: "backs_off_until (t + 300000000000) w" by (rule codex_reaches_backoff [OF assms(1)])
  then have b': "backs_off_until (t + 300000000000) (w\<lparr> cx_sessions := bm_del e (cx_sessions w) \<rparr>)"
    by (simp add: backs_off_until_def)
  show ?thesis
    using assms(3) restart_starts [OF b assms(2)] restart_starts [OF b' assms(2)]
    by (auto simp: with_codex_session_def split: option.splits prod.splits sum.splits)
qed

theorem codex_restarts_within_five_minutes_witness:
  "\<exists>w1 w2. with_codex_session (codex_env1 0) ''codex'' \<lparr> cx_sessions = [], cx_backoff = [], cx_starts = [] \<rparr>
       = (w1, Inl (CodexError (SpawnFailed ''codex'')))
     \<and> with_codex_session (codex_env1 1) ''codex'' w1 = (w1, Inl (CodexError (RestartBackoff 4999999999)))
     \<and> fst (with_codex_session (codex_env1 300000000000) ''codex'' w1) = w2
     \<and> cx_starts w2 = [''codex'', ''codex'']"
proof -
  let ?w0 = "\<lparr> cx_sessions = [], cx_backoff = [], cx_starts = [] \<rparr>"
  let ?b = "\<lparr> cb_failures = 1, cb_not_before = Some 5000000000 \<rparr>"
  let ?w1 = "\<lparr> cx_sessions = [], cx_backoff = [(''codex'', ?b)], cx_starts = [''codex''] \<rparr>"
  have s1: "with_codex_session (codex_env1 0) ''codex'' ?w0 = (?w1, Inl (CodexError (SpawnFailed ''codex'')))"
    by (simp add: with_codex_session_def bm_get_def replace_session_def restart_codex_session_def backoff_check_def
        backoff_of_def no_backoff_def fresh_session_def spawn_and_handshake_codex_def codex_env1_def spawn1_def Let_def
        bm_entry_def backoff_record_def codex_restart_backoff_delay_def codex_backoff_cap_def sat_sub_def
        codex_restart_backoff_base_def codex_restart_backoff_max_def wrap32_def)
  have s2: "with_codex_session (codex_env1 1) ''codex'' ?w1 = (?w1, Inl (CodexError (RestartBackoff 4999999999)))"
    by (simp add: with_codex_session_def bm_get_def replace_session_def restart_codex_session_def backoff_check_def
        backoff_of_def codex_env1_def)
  have "codex_reaches ?w1 (ce_record_now (codex_env1 0))"
    by (rule codex_reaches.poll [OF codex_reaches.start [of 0] _ _ _ s1]) (simp_all add: codex_env1_def)
  from codex_restarts_within_five_minutes [OF this, of "codex_env1 300000000000" "''codex''"]
  have "cx_starts (fst (with_codex_session (codex_env1 300000000000) ''codex'' ?w1)) = [''codex'', ''codex'']"
    by (cases "with_codex_session (codex_env1 300000000000) ''codex'' ?w1") (auto simp: codex_env1_def bm_get_def)
  then show ?thesis using s1 s2 by blast
qed

end
