(* ===== verification/Dashboard.thy ===== *)
theory Dashboard
  imports Source_Parse State
begin

text \<open>
  \<open>src/dashboard.rs\<close>, the projections of the cached state: text made safe for a terminal, the history a rate is
  measured on, the card of a quota window and of the request pressure.
\<close>

section \<open>Text for a terminal\<close>

text \<open>The characters of a UTF-8 string as code points.\<close>

definition code_point :: "nat list \<Rightarrow> nat" where
  "code_point bs = (case bs of
     [a] \<Rightarrow> a
   | [a, b] \<Rightarrow> (a - 192) * 64 + (b - 128)
   | [a, b, c] \<Rightarrow> (a - 224) * 4096 + (b - 128) * 64 + (c - 128)
   | [a, b, c, d] \<Rightarrow> (a - 240) * 262144 + (b - 128) * 4096 + (c - 128) * 64 + (d - 128)
   | _ \<Rightarrow> 0)"

function chars_of :: "string \<Rightarrow> nat list" where
  "chars_of [] = []"
| "chars_of (c # cs) = (case utf8_step (byte c) (map byte cs) of (_, n) \<Rightarrow>
     code_point (map byte (take n (c # cs))) # chars_of (drop n (c # cs)))"
  by pat_completeness auto

termination
  by (relation "measure length") (simp, simp only: in_measure, rule utf8_step_shorter, simp)

declare chars_of.simps [simp del]

definition is_control :: "nat \<Rightarrow> bool" where
  "is_control c = (c < 32 \<or> 127 \<le> c \<and> c < 160)"

text \<open>The rest behind a CSI sequence and behind an OSC sequence, whose escape may come with the end in sight.\<close>

fun skip_csi :: "nat list \<Rightarrow> nat list" where
  "skip_csi [] = []"
| "skip_csi (c # cs) = (if 64 \<le> c \<and> c \<le> 126 then cs else skip_csi cs)"

fun skip_osc :: "bool \<Rightarrow> nat list \<Rightarrow> nat list" where
  "skip_osc escape [] = []"
| "skip_osc escape (c # cs) = (if c = 7 \<or> escape \<and> c = 92 then cs else skip_osc (c = 27) cs)"

lemma skip_csi_shorter: "length (skip_csi cs) \<le> length cs"
  by (induction cs) auto

lemma skip_osc_shorter: "length (skip_osc e cs) \<le> length cs"
  by (induction e cs rule: skip_osc.induct) auto

function clean_chars :: "nat list \<Rightarrow> nat list" where
  "clean_chars [] = []"
| "clean_chars (c # cs) =
     (if c = 27 then (case cs of
          [] \<Rightarrow> []
        | d # ds \<Rightarrow> clean_chars (if d = 91 then skip_csi ds else if d = 93 then skip_osc False ds else ds))
      else if is_control c then clean_chars cs
      else (if c < 128 then c else 63) # clean_chars cs)"
  by pat_completeness auto

termination
  by (relation "measure length")
    (auto intro: le_imp_less_Suc le_SucI skip_csi_shorter skip_osc_shorter)

definition clean :: "string \<Rightarrow> string" where
  "clean value = map char_of (take 200 (clean_chars (chars_of value)))"

section \<open>Measured history\<close>

definition dash_age :: "chrono \<Rightarrow> datetime \<Rightarrow> datetime \<Rightarrow> int" where
  "dash_age ch now since = num_seconds ch (now - since)"

text \<open>\<open>x as u64\<close> on an \<open>i64\<close>.\<close>

definition i64_as_u64 :: "int \<Rightarrow> nat" where
  "i64_as_u64 i = nat (i mod 18446744073709551616)"

definition history_points :: "account_state \<Rightarrow> string \<Rightarrow> window_sample \<Rightarrow> aggregate_sample list" where
  "history_points st wid cur =
     unwrap_or [] (bm_get (as_aggregate st) wid)
     @ (case bm_get (as_history st) wid of None \<Rightarrow> []
        | Some h \<Rightarrow> map (\<lambda>s. \<lparr> ag_observed_at = hs_observed_at s, ag_used_fraction = hs_used_fraction s,
            ag_resets_at = wh_resets_at h, ag_workers = hs_workers s \<rparr>) (wh_samples h))
     @ [\<lparr> ag_observed_at = wsm_observed_at cur, ag_used_fraction = wsm_used_fraction cur,
         ag_resets_at = wsm_resets_at cur, ag_workers = wsm_workers cur \<rparr>]"

text \<open>\<open>dedup_by\<close>: an element goes when it repeats the one kept before it.\<close>

fun dedup_acc :: "('a \<Rightarrow> 'a \<Rightarrow> bool) \<Rightarrow> 'a \<Rightarrow> 'a list \<Rightarrow> 'a list" where
  "dedup_acc same prev [] = []"
| "dedup_acc same prev (x # xs) = (if same x prev then dedup_acc same prev xs else x # dedup_acc same x xs)"

fun dedup_by :: "('a \<Rightarrow> 'a \<Rightarrow> bool) \<Rightarrow> 'a list \<Rightarrow> 'a list" where
  "dedup_by same [] = []"
| "dedup_by same (x # xs) = x # dedup_acc same x xs"

definition same_point :: "chrono \<Rightarrow> aggregate_sample \<Rightarrow> aggregate_sample \<Rightarrow> bool" where
  "same_point ch a b = (ag_observed_at a = ag_observed_at b \<and> feq (ag_used_fraction a) (ag_used_fraction b)
     \<and> same_reset_generation ch (ag_resets_at a) (ag_resets_at b))"

definition point_excluded :: "chrono \<Rightarrow> window_sample \<Rightarrow> datetime \<Rightarrow> nat \<Rightarrow> aggregate_sample \<Rightarrow> bool" where
  "point_excluded ch cur now lookback s =
     (dash_age ch now (ag_observed_at s) < 0
      \<or> lookback < i64_as_u64 (dash_age ch (wsm_observed_at cur) (ag_observed_at s))
      \<or> \<not> in_unit (ag_used_fraction s)
      \<or> \<not> same_reset_generation ch (ag_resets_at s) (wsm_resets_at cur))"

definition point_breaks :: "chrono \<Rightarrow> nat \<Rightarrow> aggregate_sample \<Rightarrow> aggregate_sample \<Rightarrow> bool" where
  "point_breaks ch stale_after prev s = (let gap = dash_age ch (ag_observed_at s) (ag_observed_at prev) in
     gap \<le> 0 \<or> stale_after < i64_as_u64 gap \<or> flt (ag_used_fraction s) (ag_used_fraction prev))"

text \<open>The loop: a point in the future is passed over, an excluded one starts anew, a break drops what came
  before it. The previous point is the last of the run.\<close>

definition extend_run ::
  "chrono \<Rightarrow> window_sample \<Rightarrow> datetime \<Rightarrow> nat \<Rightarrow> nat \<Rightarrow> aggregate_sample list \<Rightarrow> aggregate_sample \<Rightarrow> aggregate_sample list" where
  "extend_run ch cur now lookback stale_after run s =
     (if wsm_observed_at cur < ag_observed_at s then run
      else if point_excluded ch cur now lookback s then []
      else if run \<noteq> [] \<and> point_breaks ch stale_after (last run) s then [s] else run @ [s])"

definition compatible_history ::
  "chrono \<Rightarrow> account_state \<Rightarrow> string \<Rightarrow> window_sample \<Rightarrow> datetime \<Rightarrow> nat \<Rightarrow> nat \<Rightarrow> aggregate_sample list" where
  "compatible_history ch st wid cur now lookback stale_after =
     foldl (extend_run ch cur now lookback stale_after) []
       (dedup_by (same_point ch) (sort_key ag_observed_at (history_points st wid cur)))"

definition measured_rate ::
  "chrono \<Rightarrow> account_state \<Rightarrow> string \<Rightarrow> window_sample \<Rightarrow> datetime \<Rightarrow> nat \<Rightarrow> nat \<Rightarrow> nat
     \<Rightarrow> f64 option \<times> int option \<times> string" where
  "measured_rate ch st wid cur now lookback stale_after minimum =
     (case compatible_history ch st wid cur now lookback stale_after of
        [] \<Rightarrow> (None, None, ''unknown: no compatible history'')
      | base # _ \<Rightarrow>
          let seconds = dash_age ch (wsm_observed_at cur) (ag_observed_at base) in
          if seconds \<le> 0 \<or> i64_as_u64 seconds < minimum then (None, None, ''unknown: insufficient baseline'')
          else let rate = fdiv (fmul (fmul (fsub (wsm_used_fraction cur) (ag_used_fraction base)) (f_lit 100)) (f_lit 3600))
                   (f_of_int seconds)
            in if \<not> is_fin rate \<or> flt rate (Fin 0) then (None, None, ''unknown: invalid history'')
               else (Some rate, Some seconds, if feq rate (Fin 0) then ''measured flat (quantized; burn unknown)''
                 else ''measured account consumption''))"

section \<open>Cards\<close>

record pressure_card =
  pq_observed :: "datetime option"
  pq_fresh :: bool
  pq_saturation :: "saturation_snapshot option"
  pq_backpressure :: "backpressure_snapshot option"
  pq_min_attempts :: nat
  pq_min_window_seconds :: nat
  pq_threshold :: f64

definition dash_fresh :: "chrono \<Rightarrow> account_config \<Rightarrow> datetime \<Rightarrow> datetime \<Rightarrow> bool" where
  "dash_fresh ch a now observed = (let age = dash_age ch now observed in
     0 \<le> age \<and> i64_as_u64 age \<le> ut_stale_after (ac_util a))"

definition pressure_fresh :: "chrono \<Rightarrow> quota_snapshot option \<Rightarrow> account_config \<Rightarrow> datetime \<Rightarrow> bool" where
  "pressure_fresh ch sn a now = is_some_and (\<lambda>s. qs_fresh s \<and> dash_fresh ch a now (qs_observed_at s)) sn"

definition card_saturation ::
  "bool \<Rightarrow> zai_saturation_config \<Rightarrow> quota_snapshot option \<Rightarrow> saturation_snapshot option" where
  "card_saturation fresh z sn = map_option
     (\<lambda>s. if \<not> fresh \<or> ss_attempts s < zs_min_attempts z \<or> ss_window_seconds s < zs_min_window_seconds z
       then s\<lparr> ss_concurrency_fraction := None \<rparr> else s)
     (opt_filter (\<lambda>s. is_ok (saturation_validate s) \<and> 0 < ss_window_seconds s) (Option.bind sn qs_saturation))"

definition card_backpressure ::
  "bool \<Rightarrow> zai_saturation_config \<Rightarrow> quota_snapshot option \<Rightarrow> backpressure_snapshot option" where
  "card_backpressure fresh z sn = map_option
     (\<lambda>s. if \<not> fresh \<or> bp_attempts s < zs_min_attempts z \<or> bp_window_seconds s < zs_min_window_seconds z
       then s\<lparr> bp_429_fraction := None \<rparr> else s)
     (opt_filter (\<lambda>s. is_ok (backpressure_validate s) \<and> 0 < bp_window_seconds s) (Option.bind sn qs_backpressure))"

definition dash_pressure_card ::
  "chrono \<Rightarrow> quota_snapshot option \<Rightarrow> account_config \<Rightarrow> datetime \<Rightarrow> zai_saturation_config \<Rightarrow> pressure_card" where
  "dash_pressure_card ch sn a now z = (let fresh = pressure_fresh ch sn a now in
     \<lparr> pq_observed = map_option qs_observed_at sn, pq_fresh = fresh, pq_saturation = card_saturation fresh z sn,
       pq_backpressure = card_backpressure fresh z sn, pq_min_attempts = zs_min_attempts z,
       pq_min_window_seconds = zs_min_window_seconds z, pq_threshold = zs_concurrency_fraction z \<rparr>)"

record history_point =
  hp_at :: datetime
  hp_used_percent :: f64

record window_card =
  wc_id :: string
  wc_observed_at :: datetime
  wc_fresh :: bool
  wc_used_percent :: f64
  wc_target_percent :: f64
  wc_configured_target_percent :: f64
  wc_headroom :: f64
  wc_reserve_percent :: f64
  wc_resets_at :: datetime
  wc_rate :: "f64 option"
  wc_rate_status :: string
  wc_baseline_seconds :: "int option"
  wc_lookback_seconds :: nat
  wc_remaining_at_reset :: "f64 option"
  wc_empty_at :: "datetime option"
  wc_assumption :: string
  wc_history :: "history_point list"

text \<open>A stored credit on a window of six days or more raises the target to the redemption threshold.\<close>

definition credit_on_window :: "quota_snapshot option \<Rightarrow> string \<Rightarrow> bool" where
  "credit_on_window sn wid = is_some_and (\<lambda>s. is_some_and (\<lambda>c. 0 < rcs_available_count c) (qs_reset_credits s)
     \<and> list_ex (\<lambda>w. qw_id w = wid \<and> is_some_and (\<lambda>m. 6 * 24 * 60 \<le> m) (qw_duration_minutes w)) (qs_windows s)) sn"

definition card_target :: "account_config \<Rightarrow> quota_snapshot option \<Rightarrow> string \<Rightarrow> resolved_policy \<Rightarrow> f64" where
  "card_target a sn wid p = (if br_enabled (ac_banked a) \<and> credit_on_window sn wid
     then fmax (rp_target p) (br_redeem_at (ac_banked a)) else rp_target p)"

definition linear_quota :: "account_config \<Rightarrow> string \<Rightarrow> bool" where
  "linear_quota a wid = (ut_zai_saturation (ac_util a) = None
     \<and> \<not> contains_str ''rolling'' (to_ascii_lower wid) \<and> \<not> contains_str ''request'' (to_ascii_lower wid))"

definition positive_rate :: "f64 option \<Rightarrow> f64 option" where
  "positive_rate rate = opt_filter (\<lambda>r. flt (Fin 0) r) rate"

text \<open>\<open>clamp(0.0, 100.0)\<close>; NaN stays NaN.\<close>

definition clamp_percent :: "f64 \<Rightarrow> f64" where
  "clamp_percent x = (if flt x (Fin 0) then Fin 0 else if flt (Fin 100) x then Fin 100 else x)"

definition remaining_at_reset :: "chrono \<Rightarrow> window_sample \<Rightarrow> f64 \<Rightarrow> f64" where
  "remaining_at_reset ch s r = clamp_percent (fsub (fsub (f_lit 100) (fmul (wsm_used_fraction s) (f_lit 100)))
     (fdiv (fmul r (f_of_int (dash_age ch (wsm_resets_at s) (wsm_observed_at s)))) (f_lit 3600)))"

definition i64_limit :: f64 where "i64_limit = f_lit 9223372036854775808"

definition empty_at :: "chrono \<Rightarrow> window_sample \<Rightarrow> f64 \<Rightarrow> datetime option" where
  "empty_at ch s r =
     (let seconds = fceil (fmul (fdiv (fmul (fsub (f_lit 1) (wsm_used_fraction s)) (f_lit 100)) r) (f_lit 3600)) in
      if \<not> is_fin seconds \<or> flt seconds (Fin 0) \<or> fle i64_limit seconds then None
      else Option.bind (try_seconds ch (f_to_i64 seconds)) (checked_add ch (wsm_observed_at s)))"

definition window_card_with ::
  "chrono \<Rightarrow> string \<Rightarrow> window_sample \<Rightarrow> account_state \<Rightarrow> account_config \<Rightarrow> datetime \<Rightarrow> bool \<Rightarrow> quota_snapshot option
     \<Rightarrow> resolved_policy \<Rightarrow> window_card" where
  "window_card_with ch wid s st a now source_fresh sn p =
     (let target = card_target a sn wid p;
          lookback = unwrap_or 3600 (rp_burn_window_seconds p);
          stale_after = ut_stale_after (ac_util a);
          fresh = (source_fresh \<and> dash_fresh ch a now (wsm_observed_at s) \<and> now < wsm_resets_at s);
          linear = linear_quota a wid
      in case (if fresh then measured_rate ch st wid s now lookback stale_after (ut_min_sample_seconds (ac_util a))
               else (None, None, ''unknown: stale or expired quota'')) of
        (rate, baseline, status) \<Rightarrow>
          \<lparr> wc_id = clean wid, wc_observed_at = wsm_observed_at s, wc_fresh = fresh,
            wc_used_percent = fmul (wsm_used_fraction s) (f_lit 100),
            wc_target_percent = fmul target (f_lit 100),
            wc_configured_target_percent = fmul (rp_target p) (f_lit 100),
            wc_headroom = fmul (fsub target (wsm_used_fraction s)) (f_lit 100),
            wc_reserve_percent = fmul (fsub (f_lit 1) target) (f_lit 100),
            wc_resets_at = wsm_resets_at s, wc_rate = rate, wc_rate_status = status, wc_baseline_seconds = baseline,
            wc_lookback_seconds = lookback,
            wc_remaining_at_reset = (if linear then map_option (remaining_at_reset ch s) (positive_rate rate) else None),
            wc_empty_at = (if linear then Option.bind (positive_rate rate) (empty_at ch s) else None),
            wc_assumption = (if linear then ''same account pace from sample to reset; includes interactive usage''
              else ''unknown: rolling/request quota; linear projection not valid''),
            wc_history = map (\<lambda>x. \<lparr> hp_at = ag_observed_at x, hp_used_percent = fmul (ag_used_fraction x) (f_lit 100) \<rparr>)
              (compatible_history ch st wid s now lookback stale_after) \<rparr>)"

definition dash_window_card ::
  "chrono \<Rightarrow> string \<Rightarrow> window_sample \<Rightarrow> account_state \<Rightarrow> account_config \<Rightarrow> datetime \<Rightarrow> bool \<Rightarrow> quota_snapshot option
     \<Rightarrow> window_card option res" where
  "dash_window_card ch wid s st a now source_fresh sn =
     (if \<not> in_unit (wsm_used_fraction s) then Inr None
      else bind_res (policy_for (ac_util a) wid) (\<lambda>p.
        Inr (map_option (window_card_with ch wid s st a now source_fresh sn) p)))"

end
