(* ===== verification/Dashboard_Collect.thy ===== *)
theory Dashboard_Collect
  imports Dashboard
begin

text \<open>
  \<open>src/dashboard.rs\<close>, the frame of account cards: the live workers found in heartbeats and processes, the windows
  of the state and of a snapshot file merged, the signals under a card with the values their lines show, and the
  keys of the interactive view.  Files, directories, process command lines and the home directory are parameters.
\<close>

section \<open>What the dashboard reads\<close>

record dash_entry =
  de_path :: string
  de_stem :: "string option"
  de_is_file :: bool

record dash_env =
  da_ch :: chrono
  da_home :: "string option"
  da_json :: "string \<Rightarrow> json option"
  da_time :: "string \<Rightarrow> datetime option"
  da_dir :: "string \<Rightarrow> dash_entry list option"
  da_cmdline :: "nat \<Rightarrow> string option"

text \<open>\<open>read_json\<close> of the dashboard: a damaged or oversized cache stays unknown.\<close>

definition dash_read_json :: "(string \<Rightarrow> json option) \<Rightarrow> reader option \<Rightarrow> json option" where
  "dash_read_json parse file = Option.bind file (\<lambda>r.
     case read_bounded r (16 * 1024 * 1024) of Inl _ \<Rightarrow> None | Inr bytes \<Rightarrow> parse bytes)"

definition dash_timestamp :: "dash_env \<Rightarrow> json option \<Rightarrow> datetime option" where
  "dash_timestamp env v = Option.bind (Option.bind v as_str) (da_time env)"

definition dash_expand :: "dash_env \<Rightarrow> string \<Rightarrow> string" where
  "dash_expand env path = (case (strip_prefix ''~/'' path, da_home env) of
     (Some p, Some home) \<Rightarrow> path_join home p | _ \<Rightarrow> path)"

definition option_path :: "dash_env \<Rightarrow> string list \<Rightarrow> string \<Rightarrow> string option" where
  "option_path env argv flag = map_option (\<lambda>p. dash_expand env (snd p)) (find (\<lambda>p. fst p = flag) (pairs argv))"

section \<open>Live workers\<close>

record live_workers =
  lw_live :: nat
  lw_executing :: nat
  lw_idle :: nat
  lw_other :: nat
  lw_stale :: nat

definition no_live_workers :: live_workers where
  "no_live_workers = \<lparr> lw_live = 0, lw_executing = 0, lw_idle = 0, lw_other = 0, lw_stale = 0 \<rparr>"

text \<open>Whose heartbeats count: named identities, or an agent and a prefix of the worker's id.\<close>

record live_scope =
  ls_identities :: "(string \<times> string) list"
  ls_prefix :: "(string \<times> string) option"
  ls_dir :: string
  ls_stale_after :: nat
  ls_notes :: "string list"
  ls_configured :: bool

definition observer_argv :: "account_config \<Rightarrow> string list option" where
  "observer_argv a = (case fl_observer (ac_fleet a) of
     Some (ObsCommand argv) \<Rightarrow> Some argv
   | _ \<Rightarrow> (case fl_actuator (ac_fleet a) of ActCommand argv _ \<Rightarrow> Some argv | _ \<Rightarrow> None))"

definition default_scope :: "dash_env \<Rightarrow> account_config \<Rightarrow> live_scope" where
  "default_scope env a =
     (let base = \<lparr> ls_identities = [], ls_prefix = None,
            ls_dir = path_join (unwrap_or [] (da_home env)) ''.needle/state/heartbeats'',
            ls_stale_after = 60, ls_notes = [], ls_configured = False \<rparr>
      in case fl_observer (ac_fleet a) of
        Some (NeedleStatus agent dir stale prefix) \<Rightarrow> base\<lparr> ls_prefix := Some (agent, unwrap_or [] prefix),
          ls_dir := dir, ls_stale_after := stale, ls_configured := True \<rparr>
      | _ \<Rightarrow> base)"

text \<open>The pairs of agent and worker id a list of workers names.\<close>

definition named_identities :: "json list \<Rightarrow> (string \<times> string) list" where
  "named_identities ws = List.map_filter (\<lambda>w.
     case (as_str (jindex ''agent'' w), as_str (jindex ''worker_id'' w)) of
       (Some a, Some i) \<Rightarrow> Some (a, i) | _ \<Rightarrow> None) ws"

definition settings_owner :: "json \<Rightarrow> live_scope \<Rightarrow> live_scope" where
  "settings_owner settings sc = (case (as_str (jindex ''agent'' settings), as_str (jindex ''prefix'' settings)) of
     (Some agent, Some p) \<Rightarrow> sc\<lparr> ls_prefix := Some (agent, p), ls_configured := True \<rparr> | _ \<Rightarrow> sc)"

definition settings_dir :: "dash_env \<Rightarrow> json \<Rightarrow> live_scope \<Rightarrow> live_scope" where
  "settings_dir env settings sc = (case as_str (jindex ''heartbeat_dir'' settings) of
     Some dir \<Rightarrow> sc\<lparr> ls_dir := dash_expand env dir \<rparr> | None \<Rightarrow> sc)"

definition add_identities :: "json option \<Rightarrow> live_scope \<Rightarrow> live_scope" where
  "add_identities ws sc = (case Option.bind ws as_array of
     None \<Rightarrow> sc | Some ws \<Rightarrow> sc\<lparr> ls_identities := ls_identities sc @ named_identities ws \<rparr>)"

definition add_note :: "string \<Rightarrow> live_scope \<Rightarrow> live_scope" where
  "add_note note sc = sc\<lparr> ls_notes := ls_notes sc @ [note] \<rparr>"

definition settings_holds :: "json \<Rightarrow> live_scope \<Rightarrow> live_scope" where
  "settings_holds settings sc = (case as_array (jindex ''work'' settings) of
     None \<Rightarrow> sc
   | Some work \<Rightarrow>
       let holds = filter (\<lambda>h. trim h \<noteq> []) (List.map_filter (\<lambda>e. as_str (jindex ''external_hold'' e)) work);
           native = length (filter (contains_str ''internal_artifact'') holds)
       in if holds = [] then sc
          else add_note (''Reviewed work holds: '' @ dec native @ '' native-policy, '' @ dec (length holds - native)
            @ '' external (cached)'') sc)"

definition linked_state :: "dash_env \<Rightarrow> json \<Rightarrow> string \<Rightarrow> json option" where
  "linked_state env settings field = Option.bind (as_str (jindex field settings)) (\<lambda>p. da_json env (dash_expand env p))"

definition retirees_note :: "json option \<Rightarrow> live_scope \<Rightarrow> live_scope" where
  "retirees_note state sc = (case Option.bind state (\<lambda>s. as_array (jindex ''pending_retirees'' s)) of
     None \<Rightarrow> sc | Some rs \<Rightarrow> add_note (''Pending retirements: '' @ dec (length rs) @ '' (cached)'') sc)"

definition backlog_note :: "json option \<Rightarrow> live_scope \<Rightarrow> live_scope" where
  "backlog_note state sc = (case Option.bind state (\<lambda>s. as_u64 (jindex ''eligible_backlog_capacity'' s)) of
     None \<Rightarrow> sc | Some n \<Rightarrow> add_note (''Eligible backlog: '' @ dec n @ '' workers (cached demand)'') sc)"

definition settings_scope :: "dash_env \<Rightarrow> json \<Rightarrow> live_scope \<Rightarrow> live_scope" where
  "settings_scope env settings sc =
     backlog_note (linked_state env settings ''demand_state'') (retirees_note (linked_state env settings ''actuator_state'')
       (settings_holds settings (add_identities (Some (jindex ''adopted_workers'' settings))
         (settings_dir env settings (settings_owner settings sc)))))"

definition roster_scope :: "dash_env \<Rightarrow> string list \<Rightarrow> json \<Rightarrow> live_scope \<Rightarrow> live_scope" where
  "roster_scope env argv roster sc =
     retirees_note (Option.bind (option_path env argv ''--state'') (da_json env))
       (case as_array (jindex ''workers'' roster) of
          None \<Rightarrow> sc | Some _ \<Rightarrow> add_identities (Some (jindex ''workers'' roster)) (sc\<lparr> ls_configured := True \<rparr>))"

definition on_json :: "('a \<Rightarrow> 'b \<Rightarrow> 'b) \<Rightarrow> 'a option \<Rightarrow> 'b \<Rightarrow> 'b" where
  "on_json f x s = (case x of None \<Rightarrow> s | Some v \<Rightarrow> f v s)"

definition account_scope :: "dash_env \<Rightarrow> account_config \<Rightarrow> live_scope" where
  "account_scope env a = (case observer_argv a of
     None \<Rightarrow> default_scope env a
   | Some argv \<Rightarrow>
       on_json (roster_scope env argv) (Option.bind (option_path env argv ''--roster'') (da_json env))
         (on_json (settings_scope env) (Option.bind (option_path env argv ''--settings'') (da_json env))
           (default_scope env a)))"

text \<open>\<open>Path::file_name\<close>, and the arguments of a command line that are UTF-8.\<close>

definition file_name :: "string \<Rightarrow> string option" where
  "file_name path = (case rev (filter (\<lambda>p. p \<noteq> [] \<and> p \<noteq> ''.'') (split_on (CHR ''/'') path)) of
     [] \<Rightarrow> None | p # _ \<Rightarrow> if p = ''..'' then None else Some p)"

definition process_args :: "string \<Rightarrow> string list" where
  "process_args bytes = filter (\<lambda>s. utf8_valid s \<and> s \<noteq> []) (split_on (char_of (0 :: nat)) bytes)"

definition process_runs :: "string \<Rightarrow> string \<Rightarrow> string \<Rightarrow> bool" where
  "process_runs agent worker bytes = (let args = process_args bytes in
     (case args of [] \<Rightarrow> False | p # _ \<Rightarrow> file_name p \<in> {Some ''needle'', Some ''needle-stable''})
     \<and> ''run'' \<in> set args \<and> (''--agent'', agent) \<in> set (pairs args) \<and> (''--identifier'', worker) \<in> set (pairs args))"

definition in_scope :: "live_scope \<Rightarrow> string \<Rightarrow> string \<Rightarrow> bool" where
  "in_scope sc agent worker = ((agent, worker) \<in> set (ls_identities sc)
     \<or> is_some_and (\<lambda>(a, p). a = agent \<and> starts_with p worker) (ls_prefix sc))"

definition heartbeat_live :: "dash_env \<Rightarrow> live_scope \<Rightarrow> datetime \<Rightarrow> dash_entry \<Rightarrow> json \<Rightarrow> string \<Rightarrow> string \<Rightarrow> string \<Rightarrow> bool" where
  "heartbeat_live env sc now e hb worker agent qualified =
     (let age = map_option (dash_age (da_ch env) now)
            (dash_timestamp env (or_opt (jget ''last_heartbeat'' hb) (jget ''timestamp'' hb)))
      in qualified = agent @ ''-'' @ worker \<and> de_stem e = Some qualified
         \<and> is_some_and (\<lambda>s. 0 \<le> s \<and> i64_as_u64 s < ls_stale_after sc) age
         \<and> is_some_and (process_runs agent worker) (Option.bind (as_u64 (jindex ''pid'' hb)) (da_cmdline env)))"

definition count_live :: "json \<Rightarrow> live_workers \<Rightarrow> live_workers" where
  "count_live hb c = (let c = c\<lparr> lw_live := wrap32 (lw_live c + 1) \<rparr> in
     if as_str (jindex ''state'' hb) = Some ''EXECUTING'' then c\<lparr> lw_executing := wrap32 (lw_executing c + 1) \<rparr>
     else if as_bool (jindex ''is_idle'' hb) = Some True \<and> jindex ''current_task'' hb = JNull \<and> jindex ''current_bead'' hb = JNull
     then c\<lparr> lw_idle := wrap32 (lw_idle c + 1) \<rparr>
     else c\<lparr> lw_other := wrap32 (lw_other c + 1) \<rparr>)"

definition count_heartbeat ::
  "dash_env \<Rightarrow> live_scope \<Rightarrow> datetime \<Rightarrow> live_workers \<Rightarrow> dash_entry \<Rightarrow> live_workers" where
  "count_heartbeat env sc now c e =
     (case (if de_is_file e then da_json env (de_path e) else None) of
        None \<Rightarrow> c
      | Some hb \<Rightarrow>
          (case (as_str (jindex ''worker_id'' hb), as_str (jindex ''model'' hb), as_str (jindex ''qualified_id'' hb)) of
             (Some worker, Some agent, Some qualified) \<Rightarrow>
               if \<not> in_scope sc agent worker then c
               else if \<not> heartbeat_live env sc now e hb worker agent qualified
               then c\<lparr> lw_stale := wrap32 (lw_stale c + 1) \<rparr>
               else count_live hb c
           | _ \<Rightarrow> c))"

definition find_live_workers :: "dash_env \<Rightarrow> account_config \<Rightarrow> datetime \<Rightarrow> live_workers option \<times> string list" where
  "find_live_workers env a now = (let sc = account_scope env a in
     (if \<not> ls_configured sc then None
      else map_option (foldl (count_heartbeat env sc now) no_live_workers) (da_dir env (ls_dir sc)), ls_notes sc))"

section \<open>Account cards\<close>

text \<open>A line under a card, with the values it shows.\<close>

datatype dash_signal =
    NoteSignal string
  | CreditsSignal bool nat "datetime option"
  | BankedSignal bool "nat option" bool
  | ThroughputSignal bool nat nat f64 nat
  | RejectedSignal bool "f64 option" nat nat
  | ConcurrencySignal bool "f64 option"
  | ControllerSignal bp_mode "nat option" "datetime option"
  | PolicySignal strategy nat nat nat nat

record account_card =
  cc_account :: string
  cc_cache_status :: string
  cc_readiness :: string
  cc_reason :: string
  cc_updated_at :: "datetime option"
  cc_observed_at :: "datetime option"
  cc_observed_workers :: "nat option"
  cc_target_workers :: "nat option"
  cc_windows :: "window_card list"
  cc_signals :: "dash_signal list"
  cc_live :: "live_workers option"
  cc_pressure :: "pressure_card option"

definition failed_card :: "nat \<Rightarrow> account_card" where
  "failed_card index = \<lparr> cc_account = ''config '' @ dec (index + 1),
     cc_cache_status = ''unknown: configuration unavailable or invalid'', cc_readiness = ''unknown'',
     cc_reason = ''configuration unavailable'', cc_updated_at = None, cc_observed_at = None,
     cc_observed_workers = None, cc_target_workers = None, cc_windows = [], cc_signals = [], cc_live = None,
     cc_pressure = None \<rparr>"

text \<open>The windows of the state, each replaced by the snapshot's unless the snapshot is older.\<close>

definition snapshot_window ::
  "quota_snapshot \<Rightarrow> (string, window_sample \<times> bool) bmap \<Rightarrow> quota_window \<Rightarrow> (string, window_sample \<times> bool) bmap" where
  "snapshot_window sn m w = (if is_none_or (\<lambda>(s, _). wsm_observed_at s \<le> qs_observed_at sn) (bm_get m (qw_id w))
     then bm_put (qw_id w) (window_sample_of sn 0 w, qs_fresh sn) m else m)"

definition merged_windows ::
  "account_state \<Rightarrow> quota_snapshot option \<Rightarrow> (string, window_sample \<times> bool) bmap" where
  "merged_windows st sn = (let m = bm_map (\<lambda>s. (s, True)) (as_windows st) in
     case sn of None \<Rightarrow> m | Some sn \<Rightarrow> foldl (snapshot_window sn) m (qs_windows sn))"

fun card_windows ::
  "chrono \<Rightarrow> account_state \<Rightarrow> account_config \<Rightarrow> datetime \<Rightarrow> quota_snapshot option
     \<Rightarrow> (string \<times> window_sample \<times> bool) list \<Rightarrow> window_card list res" where
  "card_windows ch st a now sn [] = Inr []"
| "card_windows ch st a now sn ((wid, s, fresh) # rest) =
     bind_res (dash_window_card ch wid s st a now fresh sn) (\<lambda>c.
     bind_res (card_windows ch st a now sn rest) (\<lambda>cs.
     Inr ((case c of None \<Rightarrow> [] | Some c \<Rightarrow> [c]) @ cs)))"

definition status_u32 :: "json option \<Rightarrow> string \<Rightarrow> nat option" where
  "status_u32 status field = opt_filter (\<lambda>n. n \<le> u32_max) (Option.bind (Option.bind status (jget field)) as_u64)"

definition status_text :: "json option \<Rightarrow> string \<Rightarrow> string \<Rightarrow> string" where
  "status_text status field absent = clean (unwrap_or absent (Option.bind (Option.bind status (jget field)) as_str))"

definition earliest_expiry :: "reset_credits_snapshot \<Rightarrow> datetime option" where
  "earliest_expiry c = (case List.map_filter rc_expires_at (unwrap_or [] (rcs_credits c)) of
     [] \<Rightarrow> None | ts \<Rightarrow> Some (Min (set ts)))"

definition redemption_hold :: "chrono \<Rightarrow> account_config \<Rightarrow> account_state \<Rightarrow> quota_snapshot \<Rightarrow> bool" where
  "redemption_hold ch a st sn = (let at1 = br_redeem_at (ac_banked a) in
     list_ex (\<lambda>w. in_unit (qw_used_fraction w) \<and> fle at1 (qw_used_fraction w)) (qs_windows sn)
     \<or> list_ex (\<lambda>h. fle at1 (wh_max_used h)
         \<and> list_ex (\<lambda>w. same_reset_generation ch (qw_resets_at w) (wh_resets_at h)) (qs_windows sn)) (bm_vals (as_history st)))"

definition snapshot_signals :: "chrono \<Rightarrow> account_config \<Rightarrow> account_state \<Rightarrow> datetime \<Rightarrow> quota_snapshot \<Rightarrow> dash_signal list" where
  "snapshot_signals ch a st now sn =
     (let cached = (qs_fresh sn \<and> dash_fresh ch a now (qs_observed_at sn)) in
      (case qs_reset_credits sn of None \<Rightarrow> []
       | Some c \<Rightarrow> CreditsSignal cached (rcs_available_count c) (earliest_expiry c)
           # (if br_enabled (ac_banked a)
              then [BankedSignal (br_full_speed (ac_banked a)) (qs_backlog sn) (redemption_hold ch a st sn)] else []))
      @ (case opt_filter (\<lambda>s. is_ok (saturation_validate s) \<and> 0 < ss_window_seconds s) (qs_saturation sn) of None \<Rightarrow> []
         | Some s \<Rightarrow> [ThroughputSignal cached (ss_completed_requests s) (ss_window_seconds s)
             (fdiv (f_of_nat (ss_completed_requests s)) (f_of_nat (ss_window_seconds s))) (ss_attempts s)])
      @ (case opt_filter (\<lambda>s. is_ok (backpressure_validate s) \<and> 0 < bp_window_seconds s) (qs_backpressure sn) of None \<Rightarrow> []
         | Some s \<Rightarrow> [RejectedSignal cached (map_option (\<lambda>v. fmul v (f_lit 100)) (opt_filter in_unit (bp_429_fraction s)))
             (bp_attempts s) (bp_window_seconds s)]))"

definition pressure_signals :: "account_state \<Rightarrow> pressure_card \<Rightarrow> dash_signal list" where
  "pressure_signals st p =
     [ConcurrencySignal (pq_fresh p) (map_option (\<lambda>r. fmul r (f_lit 100)) (Option.bind (pq_saturation p) ss_concurrency_fraction)),
      ControllerSignal (bps_mode (as_backpressure st)) (Option.bind (as_saturation st) st_observed_workers)
        (Option.bind (as_saturation st) st_last_sample_at)]"

definition policy_signal :: "account_config \<Rightarrow> dash_signal" where
  "policy_signal a = PolicySignal (ut_strategy (ac_util a)) (fl_min_workers (ac_fleet a)) (fl_max_workers (ac_fleet a))
     (fl_max_up (ac_fleet a)) (fl_max_down (ac_fleet a))"

definition collect_card ::
  "dash_env \<Rightarrow> string \<Rightarrow> account_config \<Rightarrow> datetime \<Rightarrow> account_state option \<Rightarrow> json option \<Rightarrow> quota_snapshot option
     \<Rightarrow> account_card res" where
  "collect_card env name a now state status sn =
     (let st = unwrap_or account_state_default state;
          latest = max_by (\<lambda>x y. wsm_observed_at y < wsm_observed_at x) (bm_vals (as_windows st));
          workers = status_u32 status ''current_workers'';
          updated = dash_timestamp env (Option.bind status (jget ''updated_at''));
          pressure = map_option (dash_pressure_card (da_ch env) sn a now) (ut_zai_saturation (ac_util a));
          live = find_live_workers env a now
      in bind_res (card_windows (da_ch env) st a now sn (merged_windows st sn)) (\<lambda>windows.
        Inr \<lparr> cc_account = clean name,
          cc_cache_status = (if state = None then ''state missing or malformed'' else ''cached state''),
          cc_readiness = status_text status ''state'' ''unknown'',
          cc_reason = status_text status ''reason'' ''no cached readiness'',
          cc_updated_at = updated,
          cc_observed_at = (if workers \<noteq> None then updated else map_option wsm_observed_at latest),
          cc_observed_workers = or_opt workers (map_option wsm_workers latest),
          cc_target_workers = or_opt (status_u32 status ''desired_workers'') (as_last_target st),
          cc_windows = windows,
          cc_signals = map NoteSignal (snd live)
            @ (case sn of None \<Rightarrow> [] | Some sn \<Rightarrow> snapshot_signals (da_ch env) a st now sn)
            @ (case pressure of None \<Rightarrow> [] | Some p \<Rightarrow> pressure_signals st p) @ [policy_signal a],
          cc_live = fst live, cc_pressure = pressure \<rparr>))"

text \<open>What the dashboard loads for one configuration file.\<close>

record dash_config =
  dg_config :: "config option"
  dg_state :: "string \<Rightarrow> account_state option"
  dg_status :: "string \<Rightarrow> json option"
  dg_snapshot :: "string \<Rightarrow> quota_snapshot option"

definition file_snapshot :: "dash_config \<Rightarrow> account_config \<Rightarrow> quota_snapshot option" where
  "file_snapshot g a = (case ac_source a of NormalizedFile path \<Rightarrow> dg_snapshot g path | _ \<Rightarrow> None)"

fun account_cards :: "dash_env \<Rightarrow> dash_config \<Rightarrow> datetime \<Rightarrow> (string \<times> account_config) list \<Rightarrow> account_card list res" where
  "account_cards env g now [] = Inr []"
| "account_cards env g now ((name, a) # rest) =
     bind_res (collect_card env name a now (dg_state g name) (dg_status g name) (file_snapshot g a)) (\<lambda>c.
     bind_res (account_cards env g now rest) (\<lambda>cs. Inr (c # cs)))"

fun dash_collect :: "dash_env \<Rightarrow> datetime \<Rightarrow> nat \<Rightarrow> dash_config list \<Rightarrow> account_card list res" where
  "dash_collect env now index [] = Inr []"
| "dash_collect env now index (g # gs) =
     bind_res (case dg_config g of None \<Rightarrow> Inr [failed_card index]
       | Some cfg \<Rightarrow> account_cards env g now (cf_accounts cfg)) (\<lambda>cs.
     bind_res (dash_collect env now (index + 1) gs) (\<lambda>rest. Inr (cs @ rest)))"

section \<open>Keys\<close>

record ui_state =
  us_selected :: nat
  us_details :: bool
  us_help :: bool
  us_paused :: bool
  us_scroll :: nat

datatype ui_key =
    KeyQuit
  | KeyNext
  | KeyPrevious
  | KeyDigit nat
  | KeyDetails
  | KeyEscape
  | KeyOverview
  | KeyHelp
  | KeyPause
  | KeyRefresh
  | KeyDown
  | KeyUp
  | KeyScrollDown
  | KeyScrollUp
  | KeyPageDown
  | KeyPageUp
  | KeyHome
  | KeyOther

text \<open>What a key leads to: the end of the view, or the state it leaves and whether the frame is collected anew
  at once; an unknown key changes nothing and does not redraw.\<close>

datatype ui_step = UiQuit | UiIgnored | UiRedraw ui_state bool

definition sat_add16 :: "nat \<Rightarrow> nat \<Rightarrow> nat" where
  "sat_add16 a b = min (a + b) 65535"

definition select_next :: "nat \<Rightarrow> ui_state \<Rightarrow> ui_state" where
  "select_next cnt s = (if 0 < cnt then s\<lparr> us_selected := (us_selected s + 1) mod cnt \<rparr> else s)"

definition select_previous :: "nat \<Rightarrow> ui_state \<Rightarrow> ui_state" where
  "select_previous cnt s = (if 0 < cnt then s\<lparr> us_selected := (us_selected s + cnt - 1) mod cnt \<rparr> else s)"

fun apply_key :: "nat \<Rightarrow> ui_key \<Rightarrow> ui_state \<Rightarrow> (ui_state \<times> bool) option" where
  "apply_key cnt KeyNext s = Some (select_next cnt s, False)"
| "apply_key cnt KeyPrevious s = Some (select_previous cnt s, False)"
| "apply_key cnt (KeyDigit d) s = Some (if d - 1 < cnt then s\<lparr> us_selected := d - 1 \<rparr> else s, False)"
| "apply_key cnt KeyDetails s = Some (s\<lparr> us_details := \<not> us_details s, us_scroll := 0 \<rparr>, False)"
| "apply_key cnt KeyEscape s = Some (s\<lparr> us_help := False, us_details := False, us_scroll := 0 \<rparr>, False)"
| "apply_key cnt KeyOverview s = Some (s\<lparr> us_details := False, us_scroll := 0 \<rparr>, False)"
| "apply_key cnt KeyHelp s = Some (s\<lparr> us_help := \<not> us_help s \<rparr>, False)"
| "apply_key cnt KeyPause s = Some (s\<lparr> us_paused := \<not> us_paused s \<rparr>, False)"
| "apply_key cnt KeyRefresh s = Some (s, True)"
| "apply_key cnt KeyDown s = Some (if \<not> us_details s then select_next cnt s
     else s\<lparr> us_scroll := sat_add16 (us_scroll s) 1 \<rparr>, False)"
| "apply_key cnt KeyUp s = Some (if \<not> us_details s then select_previous cnt s
     else s\<lparr> us_scroll := us_scroll s - 1 \<rparr>, False)"
| "apply_key cnt KeyScrollDown s = Some (s\<lparr> us_scroll := sat_add16 (us_scroll s) 1 \<rparr>, False)"
| "apply_key cnt KeyScrollUp s = Some (s\<lparr> us_scroll := us_scroll s - 1 \<rparr>, False)"
| "apply_key cnt KeyPageDown s = Some (s\<lparr> us_scroll := sat_add16 (us_scroll s) 10 \<rparr>, False)"
| "apply_key cnt KeyPageUp s = Some (s\<lparr> us_scroll := us_scroll s - 10 \<rparr>, False)"
| "apply_key cnt KeyHome s = Some (s\<lparr> us_scroll := 0 \<rparr>, False)"
| "apply_key cnt KeyOther s = None"
| "apply_key cnt KeyQuit s = None"

definition press :: "nat \<Rightarrow> ui_key \<Rightarrow> ui_state \<Rightarrow> ui_step" where
  "press cnt k s = (if k = KeyQuit then UiQuit else case apply_key cnt k s of
     None \<Rightarrow> UiIgnored
   | Some (t, refresh) \<Rightarrow> UiRedraw (if us_selected t \<noteq> us_selected s then t\<lparr> us_scroll := 0 \<rparr> else t) refresh)"

text \<open>\<open>draw\<close> first brings the selection back into the accounts there are.\<close>

definition draw_selection :: "nat \<Rightarrow> ui_state \<Rightarrow> ui_state" where
  "draw_selection cnt s = s\<lparr> us_selected := min (us_selected s) (cnt - 1) \<rparr>"

end
