(* ===== verification/Dashboard_Laws.thy ===== *)
theory Dashboard_Laws
  imports Dashboard_Collect F64_Laws
begin

text \<open>
  What the dashboard shows: text without controls, a measured history that is one run of the current generation,
  projections in their range and only on fresh windows, and a selection that stays on an account.
\<close>

section \<open>Text\<close>

lemma clean_chars_printable: "list_all (\<lambda>c. 32 \<le> c \<and> c \<le> 126) (clean_chars cs)"
  by (induction cs rule: clean_chars.induct) (auto simp: is_control_def split: list.splits)

lemma list_all_take: "list_all P xs \<Longrightarrow> list_all P (take n xs)"
  by (auto simp: list_all_iff dest: in_set_takeD)

lemma clean_safe: "length (clean v) \<le> 200 \<and> list_all (\<lambda>c. 32 \<le> byte c \<and> byte c \<le> 126) (clean v)"
proof -
  have "list_all (\<lambda>c. 32 \<le> c \<and> c \<le> 126) (take 200 (clean_chars (chars_of v)))"
    by (rule list_all_take [OF clean_chars_printable])
  then show ?thesis by (auto simp: clean_def list_all_iff byte_def)
qed

section \<open>The measured run\<close>

text \<open>What a point of a run and two neighbours of it promise, over whole seconds, and the instants a
  \<open>DateTime<Utc>\<close> can hold: between any two of them the seconds fit 64 bits.\<close>

definition utc_instant :: "datetime \<Rightarrow> bool" where
  "utc_instant t = (\<bar>t\<bar> \<le> 8334601228800000000000)"

definition run_point :: "chrono \<Rightarrow> window_sample \<Rightarrow> datetime \<Rightarrow> nat \<Rightarrow> aggregate_sample \<Rightarrow> bool" where
  "run_point ch cur now lookback s = (ag_observed_at s \<le> wsm_observed_at cur \<and> 0 \<le> num_seconds ch (now - ag_observed_at s)
     \<and> num_seconds ch (wsm_observed_at cur - ag_observed_at s) \<le> int lookback
     \<and> \<bar>num_seconds ch (ag_resets_at s - wsm_resets_at cur)\<bar> \<le> 60
     \<and> is_fin (ag_used_fraction s) \<and> 0 \<le> fval (ag_used_fraction s) \<and> fval (ag_used_fraction s) \<le> 1)"

definition run_pair :: "chrono \<Rightarrow> nat \<Rightarrow> aggregate_sample \<times> aggregate_sample \<Rightarrow> bool" where
  "run_pair ch stale_after p = (0 < num_seconds ch (ag_observed_at (snd p) - ag_observed_at (fst p))
     \<and> num_seconds ch (ag_observed_at (snd p) - ag_observed_at (fst p)) \<le> int stale_after
     \<and> fval (ag_used_fraction (fst p)) \<le> fval (ag_used_fraction (snd p)))"

lemma pairs_snoc: "pairs (xs @ [x]) = (if xs = [] then [] else pairs xs @ [(last xs, x)])"
  by (induction xs rule: pairs.induct) auto

context chrono_laws
begin

lemma u64_age:
  assumes "utc_instant t" "utc_instant u" "0 \<le> dash_age ch t u"
  shows "int (i64_as_u64 (dash_age ch t u)) = dash_age ch t u"
proof -
  have "t - u \<le> 16669202457600000000000" using assms(1,2) by (simp add: utc_instant_def)
  from seconds_mono [OF this] have "dash_age ch t u \<le> 16669202457600"
    by (simp add: dash_age_def seconds_whole trunc_div_def)
  then show ?thesis using assms(3) by (simp add: i64_as_u64_def mod_pos_pos_trivial)
qed

lemma extend_run_ok:
  assumes "list_all (run_point ch cur now lookback) run" "list_all (run_pair ch stale_after) (pairs run)"
    and "list_all (\<lambda>x. utc_instant (ag_observed_at x)) (s # run)" "utc_instant (wsm_observed_at cur)"
  shows "list_all (run_point ch cur now lookback) (extend_run ch cur now lookback stale_after run s)
    \<and> list_all (run_pair ch stale_after) (pairs (extend_run ch cur now lookback stale_after run s))"
proof -
  have point: "run_point ch cur now lookback s"
    if "\<not> wsm_observed_at cur < ag_observed_at s" "\<not> point_excluded ch cur now lookback s"
  proof -
    have "0 \<le> dash_age ch (wsm_observed_at cur) (ag_observed_at s)"
      using that(1) seconds_mono [of 0 "wsm_observed_at cur - ag_observed_at s"] by (simp add: dash_age_def)
    from u64_age [OF _ _ this] show ?thesis
      using that assms(3,4) in_unit_fin [of "ag_used_fraction s"]
      by (simp add: run_point_def point_excluded_def dash_age_def same_reset_generation_def generation_jitter_seconds_def not_less)
  qed
  have pair: "run_pair ch stale_after (last run, s)"
    if "run \<noteq> []" "\<not> point_breaks ch stale_after (last run) s" "run_point ch cur now lookback s"
  proof -
    have "last run \<in> set run" using that(1) by simp
    then have l: "utc_instant (ag_observed_at (last run))" "is_fin (ag_used_fraction (last run))"
      using assms(1,3) by (auto simp: list_all_iff run_point_def)
    from u64_age [OF _ l(1), of "ag_observed_at s"] show ?thesis
      using that(2,3) l(2) assms(3) flt_fin [OF _ l(2)]
      by (auto simp: run_pair_def run_point_def point_breaks_def Let_def dash_age_def not_less not_le)
  qed
  show ?thesis using assms(1,2) point pair by (auto simp: extend_run_def pairs_snoc run_pair_def)
qed

lemma extend_run_set: "set (extend_run ch cur now lookback stale_after run s) \<subseteq> insert s (set run)"
  by (auto simp: extend_run_def)

lemma run_ok:
  assumes "list_all (run_point ch cur now lookback) run" "list_all (run_pair ch stale_after) (pairs run)"
    and "set run \<subseteq> A" "set ss \<subseteq> A" "\<forall>x \<in> A. utc_instant (ag_observed_at x)" "utc_instant (wsm_observed_at cur)"
  defines "new \<equiv> foldl (extend_run ch cur now lookback stale_after) run ss"
  shows "list_all (run_point ch cur now lookback) new \<and> list_all (run_pair ch stale_after) (pairs new) \<and> set new \<subseteq> A"
  using assms(1-4) unfolding new_def
proof (induction ss arbitrary: run)
  case (Cons s ss)
  have "list_all (\<lambda>x. utc_instant (ag_observed_at x)) (s # run)" using Cons.prems(3,4) assms(5) by (auto simp: list_all_iff)
  from extend_run_ok [OF Cons.prems(1,2) this assms(6)] extend_run_set [of cur now lookback stale_after run s] show ?case
    using Cons.IH [of "extend_run ch cur now lookback stale_after run s"] Cons.prems(3,4) by fastforce
qed simp

lemma compatible_history_ok:
  assumes "\<forall>x \<in> set (history_points st wid cur). utc_instant (ag_observed_at x)"
  defines "run \<equiv> \<lambda>now lookback stale_after. compatible_history ch st wid cur now lookback stale_after"
  shows "list_all (run_point ch cur now lookback) (run now lookback stale_after)
   \<and> list_all (run_pair ch stale_after) (pairs (run now lookback stale_after))
   \<and> set (run now lookback stale_after) \<subseteq> set (history_points st wid cur)"
proof -
  have acc: "set (dedup_acc same p xs) \<subseteq> set xs" for same :: "aggregate_sample \<Rightarrow> aggregate_sample \<Rightarrow> bool" and p xs
    by (induction same p xs rule: dedup_acc.induct) auto
  have "set (dedup_by (same_point ch) xs) \<subseteq> set xs" for xs
    using acc by (cases xs) fastforce+
  then have "set (dedup_by (same_point ch) (sort_key ag_observed_at (history_points st wid cur))) \<subseteq> set (history_points st wid cur)"
    by (metis set_sort)
  moreover have "utc_instant (wsm_observed_at cur)" using assms(1) by (simp add: history_points_def)
  ultimately show ?thesis unfolding run_def compatible_history_def using run_ok [of cur now lookback "[]"] assms(1) by simp
qed

end

lemma measured_rate_Some:
  assumes "measured_rate ch st wid cur now lookback stale_after minimum = (Some r, baseline, status)"
  obtains base rest where "compatible_history ch st wid cur now lookback stale_after = base # rest"
    "baseline = Some (dash_age ch (wsm_observed_at cur) (ag_observed_at base))"
    "0 < dash_age ch (wsm_observed_at cur) (ag_observed_at base)"
    "minimum \<le> i64_as_u64 (dash_age ch (wsm_observed_at cur) (ag_observed_at base))"
    "is_fin r" "\<not> flt r (Fin 0)"
  using assms
  by (auto simp: measured_rate_def Let_def split: list.splits if_splits)

section \<open>Projections\<close>

lemma clamp_percent_range: "clamp_percent x = NaN \<or> fle (Fin 0) (clamp_percent x) \<and> fle (clamp_percent x) (Fin 100)"
proof (cases "x = NaN")
  case False
  then show ?thesis by (simp add: clamp_percent_def not_flt_iff fle_refl)
qed (simp add: clamp_percent_def)

lemma rnd_not_nan [simp]: "rnd q \<noteq> NaN"
  by (simp add: rnd_def Let_def)

lemma fsub_not_nan: "is_fin x \<Longrightarrow> y \<noteq> NaN \<Longrightarrow> fsub x y \<noteq> NaN"
  by (cases x; cases y) (auto simp: fsub_def fadd_def signed_zero_def)

lemma fmul_not_nan: "is_fin x \<Longrightarrow> is_fin y \<Longrightarrow> fmul x y \<noteq> NaN"
  by (cases x; cases y) (auto simp: fmul_def signed_zero_def)

lemma fdiv_not_nan: "x \<noteq> NaN \<Longrightarrow> is_fin y \<Longrightarrow> fval y \<noteq> 0 \<Longrightarrow> fdiv x y \<noteq> NaN"
  by (cases x; cases y) (auto simp: fdiv_def signed_zero_def)


lemma rnd_small:
  assumes "\<bar>q\<bar> \<le> of_int n" "0 \<le> n" "n \<le> 2 ^ 53"
  shows "is_fin (rnd q) \<and> \<bar>fval (rnd q)\<bar> \<le> of_int n"
proof -
  have "rq (of_int n) = of_int n" "rq (of_int (- n)) = of_int (- n)" by (rule rq_int; use assms in simp)+
  moreover have "rq q \<le> rq (of_int n)" "rq (of_int (- n)) \<le> rq q"
    by (rule rq_mono; use assms(1) in simp)+
  ultimately have r: "\<bar>rq q\<bar> \<le> of_int n" by simp
  have "(of_int n :: rat) \<le> of_int (2 ^ 53)" using assms(3) by (simp only: of_int_le_iff)
  also have "\<dots> < f64_huge" by (simp add: f64_huge_def)
  finally show ?thesis using r by (auto simp: rnd_def Let_def)
qed

lemma f_lit_100: "f_lit 100 = Fin 100" and f_lit_3600: "f_lit 3600 = Fin 3600"
  using rq_int [of 100] rq_int [of 3600] by (simp_all add: f_lit_def rnd_def Let_def f64_huge_def)

lemma unit_percent:
  assumes "in_unit u"
  shows "is_fin (fmul u (f_lit 100)) \<and> \<bar>fval (fmul u (f_lit 100))\<bar> \<le> 100"
proof -
  have f: "is_fin u" "0 \<le> fval u" "fval u \<le> 1" using in_unit_fin [OF assms] by simp_all
  then have "\<bar>fval u * 100\<bar> \<le> of_int 100" by simp
  then show ?thesis using f rnd_small [of "fval u * 100" 100]
    by (cases u) (auto simp: fmul_def f_lit_100 signed_zero_def)
qed

lemma fsub_percent_fin: "is_fin u \<Longrightarrow> \<bar>fval u\<bar> \<le> 100 \<Longrightarrow> is_fin (fsub (f_lit 100) u)"
proof -
  assume u: "is_fin u" "\<bar>fval u\<bar> \<le> 100"
  have "\<bar>100 - fval u\<bar> \<le> of_int 200" "\<bar>100 + fval u\<bar> \<le> of_int 200" using u(2) by simp_all
  then show ?thesis using u rnd_small [of "100 - fval u" 200] rnd_small [of 100 200]
    by (cases u) (auto simp: fsub_def fadd_def f_lit_100)
qed

lemma positive_fmul_not_nan: "flt (Fin 0) r \<Longrightarrow> y \<noteq> NaN \<Longrightarrow> is_fin r \<Longrightarrow> fmul r y \<noteq> NaN"
  by (cases r; cases y) (auto simp: fmul_def signed_zero_def)

lemma remaining_in_range:
  assumes "in_unit (wsm_used_fraction s)" "is_fin r" "flt (Fin 0) r"
  shows "fle (Fin 0) (remaining_at_reset ch s r) \<and> fle (remaining_at_reset ch s r) (Fin 100)"
proof -
  let ?z = "fdiv (fmul r (f_of_int (dash_age ch (wsm_resets_at s) (wsm_observed_at s)))) (f_lit 3600)"
  have u: "is_fin (fsub (f_lit 100) (fmul (wsm_used_fraction s) (f_lit 100)))"
    using unit_percent [OF assms(1)] fsub_percent_fin by blast
  have "?z \<noteq> NaN"
    by (rule fdiv_not_nan) (simp_all add: positive_fmul_not_nan assms f_lit_3600 f_of_int_def)
  from fsub_not_nan [OF u this]
  have "remaining_at_reset ch s r \<noteq> NaN" by (simp add: remaining_at_reset_def clamp_percent_def)
  then show ?thesis using clamp_percent_range unfolding remaining_at_reset_def by blast
qed

lemma empty_not_before:
  assumes "chrono_laws ch" "empty_at ch s r = Some t"
  shows "wsm_observed_at s \<le> t"
proof -
  obtain seconds d where s: "try_seconds ch (f_to_i64 seconds) = Some d" "checked_add ch (wsm_observed_at s) d = Some t"
      "is_fin seconds" "\<not> flt seconds (Fin 0)"
    using assms(2) by (auto simp: empty_at_def Let_def bind_eq_Some_conv split: if_splits)
  have "0 \<le> f_to_i64 seconds" using s(3,4) by (cases seconds) (auto simp: f_to_i64_def)
  moreover have "d = f_to_i64 seconds * 1000000000" by (rule chrono_laws.try_seconds_Some [OF assms(1) s(1)])
  moreover have "t = wsm_observed_at s + d" using chrono_laws.checked_add_Some [OF assms(1) s(2)] by simp
  ultimately show ?thesis by simp
qed

end
