(* ===== verification/Dashboard_Properties.thy ===== *)
theory Dashboard_Properties
  imports Dashboard_Laws Samples
begin

text \<open>
  The dashboard: what a window's card claims, the text it lets through to the terminal, and the selection.
\<close>

section \<open>Cards\<close>

text \<open>C40: A window's card makes no claim it has no evidence for.  Its history is one run of recorded samples:
  each not after the card's sample, of the current reset generation (reset times at most a minute apart), within
  the policy's lookback and with usage between 0 and 1; neighbours are in time order, no further apart than the
  staleness limit, and usage never falls between them.  A rate is shown only when the source is fresh, the sample
  is neither ahead of the clock nor older than the staleness limit, and the window has not been reset; it is a
  finite nonnegative number and rests on a baseline, from the first sample of the run to the card's, of at least
  the configured length.  Without a rate nothing is projected, nor for an account with saturation settings or a
  window whose name speaks of a rolling or request quota; what is projected to remain at the reset is a
  percentage, and the projected exhaustion is not before the sample.  All instants are ones a \<open>DateTime<Utc>\<close> can hold.\<close>

theorem window_card_claims:
  assumes "chrono_laws ch" "dash_window_card ch wid s st a now source_fresh sn = Inr (Some c)"
    and "utc_instant now" "\<forall>x \<in> set (history_points st wid s). utc_instant (ag_observed_at x)"
  shows "\<exists>run p. set run \<subseteq> set (history_points st wid s)
    \<and> wc_history c = map (\<lambda>x. \<lparr> hp_at = ag_observed_at x, hp_used_percent = fmul (ag_used_fraction x) (f_lit 100) \<rparr>) run
    \<and> policy_for (ac_util a) wid = Inr (Some p)
    \<and> list_all (run_point ch s now (unwrap_or 3600 (rp_burn_window_seconds p))) run
    \<and> list_all (run_pair ch (ut_stale_after (ac_util a))) (pairs run)
    \<and> (case wc_rate c of
         None \<Rightarrow> wc_remaining_at_reset c = None \<and> wc_empty_at c = None
       | Some r \<Rightarrow> source_fresh \<and> 0 \<le> num_seconds ch (now - wsm_observed_at s)
           \<and> num_seconds ch (now - wsm_observed_at s) \<le> int (ut_stale_after (ac_util a)) \<and> now < wsm_resets_at s
           \<and> is_fin r \<and> 0 \<le> fval r \<and> run \<noteq> []
           \<and> wc_baseline_seconds c = Some (num_seconds ch (wsm_observed_at s - ag_observed_at (hd run)))
           \<and> int (ut_min_sample_seconds (ac_util a)) \<le> num_seconds ch (wsm_observed_at s - ag_observed_at (hd run)))
    \<and> is_none_or (\<lambda>x. is_fin x \<and> 0 \<le> fval x \<and> fval x \<le> 100) (wc_remaining_at_reset c)
    \<and> is_none_or (\<lambda>t. wsm_observed_at s \<le> t) (wc_empty_at c)
    \<and> (ut_zai_saturation (ac_util a) \<noteq> None \<or> contains_str ''rolling'' (to_ascii_lower wid)
        \<or> contains_str ''request'' (to_ascii_lower wid) \<longrightarrow> wc_remaining_at_reset c = None \<and> wc_empty_at c = None)"
proof -
  obtain p where p: "in_unit (wsm_used_fraction s)" "policy_for (ac_util a) wid = Inr (Some p)"
      "c = window_card_with ch wid s st a now source_fresh sn p"
    using assms(2) by (auto simp: dash_window_card_def bind_res_Inr_iff split: if_splits)
  let ?lookback = "unwrap_or 3600 (rp_burn_window_seconds p)" and ?stale = "ut_stale_after (ac_util a)"
  let ?fresh = "source_fresh \<and> dash_fresh ch a now (wsm_observed_at s) \<and> now < wsm_resets_at s"
  let ?run = "compatible_history ch st wid s now ?lookback ?stale"
  let ?m = "if ?fresh then measured_rate ch st wid s now ?lookback ?stale (ut_min_sample_seconds (ac_util a))
    else (None, None, ''unknown: stale or expired quota'')"
  obtain rate baseline status where m: "?m = (rate, baseline, status)" by (cases ?m)
  have c: "wc_rate c = rate" "wc_baseline_seconds c = baseline"
      "wc_remaining_at_reset c = (if linear_quota a wid then map_option (remaining_at_reset ch s) (positive_rate rate) else None)"
      "wc_empty_at c = (if linear_quota a wid then Option.bind (positive_rate rate) (empty_at ch s) else None)"
      "wc_history c = map (\<lambda>x. \<lparr> hp_at = ag_observed_at x, hp_used_percent = fmul (ag_used_fraction x) (f_lit 100) \<rparr>) ?run"
    using m by (simp_all add: p(3) window_card_with_def Let_def split: prod.splits)
  have now: "utc_instant (wsm_observed_at s)" using assms(4) by (simp add: history_points_def)
  note run = chrono_laws.compatible_history_ok [OF assms(1,4), of now ?lookback ?stale]
  have r: "source_fresh \<and> 0 \<le> num_seconds ch (now - wsm_observed_at s)
      \<and> num_seconds ch (now - wsm_observed_at s) \<le> int ?stale \<and> now < wsm_resets_at s \<and> is_fin r \<and> \<not> flt r (Fin 0) \<and> ?run \<noteq> []
      \<and> baseline = Some (num_seconds ch (wsm_observed_at s - ag_observed_at (hd ?run)))
      \<and> int (ut_min_sample_seconds (ac_util a)) \<le> num_seconds ch (wsm_observed_at s - ag_observed_at (hd ?run))" if "rate = Some r" for r
  proof -
    have f: ?fresh using m that by (auto split: if_splits)
    then have q: "measured_rate ch st wid s now ?lookback ?stale (ut_min_sample_seconds (ac_util a)) = (Some r, baseline, status)"
      using m that by simp
    from f have "source_fresh" "0 \<le> num_seconds ch (now - wsm_observed_at s)" "now < wsm_resets_at s"
        "num_seconds ch (now - wsm_observed_at s) \<le> int ?stale"
      using chrono_laws.u64_age [OF assms(1,3) now] by (simp_all add: dash_fresh_def dash_age_def Let_def)
    moreover obtain base rest where b: "?run = base # rest" "baseline = Some (dash_age ch (wsm_observed_at s) (ag_observed_at base))"
        "0 < dash_age ch (wsm_observed_at s) (ag_observed_at base)"
        "ut_min_sample_seconds (ac_util a) \<le> i64_as_u64 (dash_age ch (wsm_observed_at s) (ag_observed_at base))"
        "is_fin r" "\<not> flt r (Fin 0)" using q by (rule measured_rate_Some)
    moreover have "utc_instant (ag_observed_at base)" using run assms(4) b(1) by auto
    then have "int (ut_min_sample_seconds (ac_util a)) \<le> dash_age ch (wsm_observed_at s) (ag_observed_at base)"
      using chrono_laws.u64_age [OF assms(1) now, of "ag_observed_at base"] b(3,4) by simp
    ultimately show ?thesis by (simp add: dash_age_def)
  qed
  have percent_fval: "is_fin x \<and> 0 \<le> fval x \<and> fval x \<le> 100" if "fle (Fin 0) x" "fle x (Fin 100)" for x
    using that by (cases x) auto
  have "is_none_or (\<lambda>x. is_fin x \<and> 0 \<le> fval x \<and> fval x \<le> 100) (wc_remaining_at_reset c)"
    using r remaining_in_range [OF p(1)] by (cases rate) (auto simp: c positive_rate_def percent_fval)
  moreover have "is_none_or (\<lambda>t. wsm_observed_at s \<le> t) (wc_empty_at c)"
    using empty_not_before [OF assms(1)] by (cases "wc_empty_at c") (auto simp: c bind_eq_Some_conv split: if_splits)
  moreover have "is_fin x \<Longrightarrow> \<not> flt x (Fin 0) \<Longrightarrow> 0 \<le> fval x" for x by (cases x) auto
  ultimately show ?thesis
    using run p(2) r by (intro exI [of _ ?run] exI [of _ p]) (auto simp: c positive_rate_def linear_quota_def split: option.splits)
qed

definition dash_sample :: window_sample where
  "dash_sample = \<lparr> wsm_observed_at = secs 3600, wsm_used_fraction = Fin (1/2), wsm_resets_at = secs 7200, wsm_workers = 4 \<rparr>"

theorem window_card_claims_witness:
  "\<exists>c. dash_window_card chrono_ref ''5h'' dash_sample prior1 acct1 (secs 3660) True (Some snap1) = Inr (Some c)
     \<and> wc_empty_at c = None"
proof -
  obtain p where "policy_for (ac_util acct1) ''5h'' = Inr (Some p)"
    by (simp add: policy_for_def acct1_def util1_def bm_get_def Let_def)
  then have c: "dash_window_card chrono_ref ''5h'' dash_sample prior1 acct1 (secs 3660) True (Some snap1)
      = Inr (Some (window_card_with chrono_ref ''5h'' dash_sample prior1 acct1 (secs 3660) True (Some snap1) p))"
    by (simp add: dash_window_card_def dash_sample_def in_unit_def)
  have "ut_zai_saturation (ac_util acct1) \<noteq> None" by (simp add: acct1_def util1_def)
  moreover have "utc_instant (secs 3660)" by (simp add: utc_instant_def secs_def)
  moreover have "\<forall>x \<in> set (history_points prior1 ''5h'' dash_sample). utc_instant (ag_observed_at x)"
    by (simp add: history_points_def prior1_def dash_sample_def account_state_default_def utc_instant_def secs_def bm_get_def)
  ultimately show ?thesis using c window_card_claims [OF chrono_ref_laws c] by blast
qed

section \<open>Text and keys\<close>

text \<open>Text from a cache that reaches the terminal has at most 200 characters, all printable ASCII: no
  escape sequence passes.\<close>

theorem cleaned_text_is_printable:
  "length (clean v) \<le> 200 \<and> list_all (\<lambda>c. 32 \<le> byte c \<and> byte c \<le> 126) (clean v)"
  by (rule clean_safe)

text \<open>The selection a frame is drawn with is one of its accounts, and a key keeps it there.\<close>

theorem selection_stays_on_an_account:
  assumes "0 < n" "us_selected s < n" "press n k s = UiRedraw t refresh"
  shows "us_selected t < n \<and> us_selected (draw_selection n s) = us_selected s"
  using assms
  by (cases k) (auto simp: press_def select_next_def select_previous_def draw_selection_def split: if_splits)

section \<open>Live workers\<close>

text \<open>Every heartbeat counts at most once, and a live one in exactly one of the three activities.\<close>

lemma count_heartbeat_classes:
  assumes "lw_live c = lw_executing c + lw_idle c + lw_other c" "lw_live c + lw_stale c < u32_max"
  shows "lw_live (count_heartbeat env sc now c e)
      = lw_executing (count_heartbeat env sc now c e) + lw_idle (count_heartbeat env sc now c e)
        + lw_other (count_heartbeat env sc now c e)
    \<and> lw_live (count_heartbeat env sc now c e) + lw_stale (count_heartbeat env sc now c e) \<le> lw_live c + lw_stale c + 1"
  using assms
  by (auto simp: count_heartbeat_def count_live_def Let_def split: option.splits)

theorem live_workers_are_classified:
  assumes "length es \<le> u32_max"
  shows "(let c = foldl (count_heartbeat env sc now) no_live_workers es in
    lw_live c = lw_executing c + lw_idle c + lw_other c \<and> lw_live c + lw_stale c \<le> length es)"
  using assms
proof (induction es rule: rev_induct)
  case (snoc e es)
  then show ?case
    using count_heartbeat_classes [of "foldl (count_heartbeat env sc now) no_live_workers es" env sc now e]
    by (auto simp: Let_def)
qed (simp add: no_live_workers_def)

end
