(* ===== verification/State_File.thy ===== *)
theory State_File
  imports State
begin

text \<open>
  The state file of \<open>src/state.rs\<close>: \<open>State::load\<close> with its quarantine, \<open>State::save\<close>, and the copy of an older
  file that is kept for a rollback.  A disk holds the state file, the rollback file and the files moved aside.
  What serde makes of bytes is \<open>state_codec\<close>; \<open>save_io\<close> and \<open>load_io\<close> are the answers of the file system, in the
  order the code asks for them.
\<close>

section \<open>The disk\<close>

text \<open>A directory entry: a regular file, or anything else with what reading through it gives.\<close>

datatype entry = Regular string | Irregular "string res"

fun contents :: "entry \<Rightarrow> string res" where
  "contents (Regular b) = Inr b"
| "contents (Irregular r) = r"

record state_disk =
  sd_state :: "entry option"
  sd_rollback :: "entry option"
  sd_quarantined :: "entry list"

text \<open>serde: the pretty encoding, the decoding of a \<open>State\<close>, and of the bare \<open>schema_version\<close> field.\<close>

record state_codec =
  sc_encode :: "gov_state \<Rightarrow> string res"
  sc_decode :: "string \<Rightarrow> string + gov_state"
  sc_version :: "string \<Rightarrow> string + nat option"

definition decoded :: "state_codec \<Rightarrow> string \<Rightarrow> string \<Rightarrow> gov_state res" where
  "decoded c what b = (case sc_decode c b of Inl e \<Rightarrow> Inl (Bail (what @ '': '' @ e)) | Inr s \<Rightarrow> Inr s)"

definition stored_version :: "state_codec \<Rightarrow> string \<Rightarrow> string \<Rightarrow> nat res" where
  "stored_version c what b =
     (case sc_version c b of Inl e \<Rightarrow> Inl (Bail (what @ '': '' @ e)) | Inr v \<Rightarrow> Inr (unwrap_or 0 v))"

section \<open>Loading\<close>

record load_io =
  li_read :: "unit res"
  li_quarantine :: "unit res"

definition load_file :: "state_codec \<Rightarrow> load_io \<Rightarrow> state_disk \<Rightarrow> state_disk \<times> (gov_state \<times> string option) res" where
  "load_file c io d = (case sd_state d of
     None \<Rightarrow> (d, load_state None)
   | Some f \<Rightarrow> (case bind_res (li_read io) (\<lambda>_. contents f) of
       Inl e \<Rightarrow> (d, Inl e)
     | Inr b \<Rightarrow> (case sc_decode c b of
         Inr s \<Rightarrow> (d, load_state (Some (Inr s)))
       | Inl e \<Rightarrow> (case li_quarantine io of
           Inl e' \<Rightarrow> (d, Inl e')
         | Inr _ \<Rightarrow> (d\<lparr> sd_state := None, sd_quarantined := sd_quarantined d @ [f] \<rparr>, load_state (Some (Inl e)))))))"

section \<open>The rollback file\<close>

text \<open>The hard link installs the copy, finds that another migration has installed one, or fails.\<close>

datatype link_answer = Linked | Exists entry | Refused err

record save_io =
  si_directory :: "unit res"
  si_write :: "unit res"
  si_read_old :: "unit res"
  si_inspect :: "unit res"
  si_read_rollback :: "unit res"
  si_write_copy :: "unit res"
  si_link :: link_answer
  si_sync_copy :: "unit res"
  si_install :: "unit res"
  si_sync :: "unit res"

definition check_rollback :: "state_codec \<Rightarrow> save_io \<Rightarrow> entry \<Rightarrow> unit res" where
  "check_rollback c io f = (case f of
     Irregular _ \<Rightarrow> Inl (Bail ''rollback state is not a regular file'')
   | Regular b \<Rightarrow> bind_res (si_read_rollback io) (\<lambda>_.
       bind_res (stored_version c ''invalid rollback state'' b) (\<lambda>v.
       bind_res (ensure (v < state_schema_version) ''rollback state is not an older schema; refusing to replace state'') (\<lambda>_.
       bind_res (decoded c ''invalid rollback state'' b) (\<lambda>_. Inr ())))))"

definition publish_rollback :: "save_io \<Rightarrow> string \<Rightarrow> state_disk \<Rightarrow> state_disk \<times> unit res" where
  "publish_rollback io b d = (case si_write_copy io of
     Inl e \<Rightarrow> (d, Inl e)
   | Inr _ \<Rightarrow> (case si_link io of
       Linked \<Rightarrow> (d\<lparr> sd_rollback := Some (Regular b) \<rparr>, si_sync_copy io)
     | Exists f \<Rightarrow> (d\<lparr> sd_rollback := Some f \<rparr>, Inr ())
     | Refused e \<Rightarrow> (d, Inl e)))"

definition preserve_old :: "state_codec \<Rightarrow> save_io \<Rightarrow> string \<Rightarrow> state_disk \<Rightarrow> state_disk \<times> unit res" where
  "preserve_old c io b d =
     (case bind_res (decoded c ''invalid existing state'' b) (\<lambda>_. si_inspect io) of
        Inl e \<Rightarrow> (d, Inl e)
      | Inr _ \<Rightarrow> (case sd_rollback d of
          Some f \<Rightarrow> (d, check_rollback c io f)
        | None \<Rightarrow> publish_rollback io b d))"

definition preserve_pre_migration_state :: "state_codec \<Rightarrow> save_io \<Rightarrow> state_disk \<Rightarrow> state_disk \<times> unit res" where
  "preserve_pre_migration_state c io d = (case sd_state d of
     None \<Rightarrow> (d, Inr ())
   | Some f \<Rightarrow> (case bind_res (si_read_old io) (\<lambda>_. contents f) of
       Inl e \<Rightarrow> (d, Inl e)
     | Inr b \<Rightarrow> (case stored_version c ''invalid existing state'' b of
         Inl e \<Rightarrow> (d, Inl e)
       | Inr v \<Rightarrow>
           if state_schema_version < v
           then (d, Inl (Bail ''state has a newer schema version than this binary supports; refusing to overwrite it''))
           else if v = state_schema_version then (d, Inr ())
           else preserve_old c io b d)))"

section \<open>Saving\<close>

text \<open>The payload, read back before anything is written.\<close>

definition state_payload :: "state_codec \<Rightarrow> gov_state \<Rightarrow> string res" where
  "state_payload c s = bind_res (sc_encode c s) (\<lambda>b.
     bind_res (decoded c ''serialized state does not round-trip; refusing to persist it over the last valid state'' b)
       (\<lambda>_. Inr (b @ [CHR 0x0A])))"

definition install_payload :: "state_codec \<Rightarrow> save_io \<Rightarrow> string \<Rightarrow> state_disk \<Rightarrow> state_disk \<times> unit res" where
  "install_payload c io b d = (case si_write io of
     Inl e \<Rightarrow> (d, Inl e)
   | Inr _ \<Rightarrow> (case preserve_pre_migration_state c io d of
       (d, Inl e) \<Rightarrow> (d, Inl e)
     | (d, Inr _) \<Rightarrow> (case si_install io of
         Inl e \<Rightarrow> (d, Inl e)
       | Inr _ \<Rightarrow> (d\<lparr> sd_state := Some (Regular b) \<rparr>, si_sync io))))"

definition save_state :: "state_codec \<Rightarrow> save_io \<Rightarrow> gov_state \<Rightarrow> state_disk \<Rightarrow> state_disk \<times> unit res" where
  "save_state c io s d =
     (if gs_schema_version s \<noteq> state_schema_version
      then (d, Inl (Bail ''refusing to save state with another schema version''))
      else case bind_res (si_directory io) (\<lambda>_. state_payload c s) of
        Inl e \<Rightarrow> (d, Inl e)
      | Inr b \<Rightarrow> install_payload c io b d)"

text \<open>
  What the code relies on of serde, and only of what serde has itself written: white space after a document that
  decodes is skipped, and the schema version, an unsigned integer, is read back as it was written.
\<close>

definition codec_laws :: "state_codec \<Rightarrow> bool" where
  "codec_laws c = (\<forall>s b t. sc_encode c s = Inr b \<longrightarrow> sc_decode c b = Inr t \<longrightarrow>
     sc_decode c (b @ [CHR 0x0A]) = Inr t \<and> gs_schema_version t = gs_schema_version s)"

section \<open>A state that is loaded as it was saved\<close>

lemma normalize_history_same:
  assumes "history_ok h"
  shows "normalize_history h = h"
proof -
  have absorb: "foldl (\<lambda>m s. fmax m (hs_used_fraction s)) m ss = m"
    if "m \<noteq> NaN" "\<forall>s \<in> set ss. hs_used_fraction s \<noteq> NaN \<longrightarrow> fle (hs_used_fraction s) m" for m ss
    using that
  proof (induction ss)
    case (Cons s ss)
    have "\<not> flt m (hs_used_fraction s)" if "hs_used_fraction s \<noteq> NaN"
      using Cons.prems that not_flt_iff by auto
    then have "fmax m (hs_used_fraction s) = m" using Cons.prems(1) by (auto simp: fmax_def)
    then show ?case using Cons by simp
  qed simp
  show ?thesis using assms absorb [of "wh_max_used h" "wh_samples h"] by (simp add: normalize_history_def history_ok_def)
qed

lemma bm_map_same: "bm_ok m \<Longrightarrow> (\<And>k v. bm_get m k = Some v \<Longrightarrow> f v = v) \<Longrightarrow> bm_map f m = m"
proof (induction m)
  case (Cons p m)
  obtain k v where p: "p = (k, v)" by (cases p)
  have m: "bm_ok m" "\<forall>x \<in> set (map fst m). k < x" using Cons.prems(1) by (auto simp: bm_ok_def p)
  have v: "f v = v" by (rule Cons.prems(2) [of k]) (simp add: p bm_get_def)
  have "f w = w" if "bm_get m j = Some w" for j w
  proof (rule Cons.prems(2) [of j])
    have "j \<in> set (map fst m)" using that by (force simp: bm_get_def dest: map_of_SomeD)
    then have "j \<noteq> k" using m(2) by auto
    then show "bm_get (p # m) j = Some w" using that by (simp add: p bm_get_def)
  qed
  then have "bm_map f m = m" by (rule Cons.IH [OF m(1)])
  then show ?case using v by (simp add: bm_map_def p)
qed (simp add: bm_map_def)

lemma load_state_same:
  assumes s: "state_ok s"
  shows "load_state (Some (Inr s)) = Inr (s, None)"
proof -
  have a: "normalize_account a = a" if "account_ok a" for a
    using that by (simp add: account_ok_def normalize_account_def bm_map_same normalize_history_same)
  have h: "normalize_host h = h" if "host_ok h" for h
    using that by (simp add: host_ok_def normalize_host_def)
  have "bm_map normalize_account (gs_accounts s) = gs_accounts s"
    by (rule bm_map_same) (use s a in \<open>auto simp: state_ok_def\<close>)
  moreover have "bm_map (bm_map normalize_host) (gs_hosts s) = gs_hosts s"
    by (rule bm_map_same) (use s h in \<open>auto simp: state_ok_def intro!: bm_map_same\<close>)
  ultimately show ?thesis using s by (simp add: load_state_def state_ok_def state_schema_version_def)
qed

end
