(* ===== verification/Governor_Run.thy ===== *)
theory Governor_Run
  imports Cycle_Run State_File
begin

text \<open>
  \<open>src/main.rs\<close>, the run loop: the exit codes, the status file, the schedule with its jitter, the sleep that a
  signal ends, and \<open>run\<close>, from the lock on the state file to the end of the process.  Instants and durations are
  integer nanoseconds.  A turn of the loop reads its clocks, its random draw, the shutdown flag and the answers
  of the file system from a record.
\<close>

section \<open>Errors of the process\<close>

datatype governor_error = CliError string | StateError string | SourceError string | ActuationError string | DoctorError string

fun exit_code :: "governor_error \<Rightarrow> nat" where
  "exit_code (CliError _) = 2"
| "exit_code (StateError _) = 3"
| "exit_code (SourceError _) = 4"
| "exit_code (ActuationError _) = 5"
| "exit_code (DoctorError _) = 6"

text \<open>How the process ends, if it does; a panic exits with 101.\<close>

datatype run_end = Running | Finished | Failed governor_error | Crashed string

fun process_exit :: "run_end \<Rightarrow> nat option" where
  "process_exit Running = None"
| "process_exit Finished = Some 0"
| "process_exit (Failed e) = Some (exit_code e)"
| "process_exit (Crashed _) = Some 101"

fun end_of :: "(string \<Rightarrow> governor_error) \<Rightarrow> err \<Rightarrow> run_end" where
  "end_of kind (Bail e) = Failed (kind e)"
| "end_of kind (Panic e) = Crashed e"

definition or_end :: "(string \<Rightarrow> governor_error) \<Rightarrow> 'a res \<Rightarrow> run_end + 'a" where
  "or_end kind r = (case r of Inl e \<Rightarrow> Inl (end_of kind e) | Inr x \<Rightarrow> Inr x)"

section \<open>Durations\<close>

definition as_secs_f64 :: "int \<Rightarrow> f64" where
  "as_secs_f64 d = fadd (f_of_int (d div 1000000000)) (fdiv (f_of_int (d mod 1000000000)) (f_lit 1000000000))"

definition duration_limit :: int where "duration_limit = 18446744073709551616 * 1000000000"

fun from_secs_f64 :: "f64 \<Rightarrow> int res" where
  "from_secs_f64 NZero = Inr 0"
| "from_secs_f64 (Fin q) =
     (if q < 0 then Inl (Panic ''cannot convert float seconds to Duration: value is negative'')
      else let n = round_even (q * 1000000000) in
        if n < duration_limit then Inr n
        else Inl (Panic ''cannot convert float seconds to Duration: value is either too big or NaN''))"
| "from_secs_f64 (Inf True) = Inl (Panic ''cannot convert float seconds to Duration: value is negative'')"
| "from_secs_f64 _ = Inl (Panic ''cannot convert float seconds to Duration: value is either too big or NaN'')"

definition instant_limit :: int where "instant_limit = 9223372036854775808 * 1000000000"

definition instant_add :: "int \<Rightarrow> int \<Rightarrow> int res" where
  "instant_add t d = (if t + d < instant_limit then Inr (t + d)
     else Inl (Panic ''overflow when adding duration to instant''))"

fun f_to_u64 :: "f64 \<Rightarrow> nat" where
  "f_to_u64 (Inf s) = (if s then 0 else u64_max)"
| "f_to_u64 (Fin q) = (if q < 0 then 0 else min (nat \<lfloor>q\<rfloor>) u64_max)"
| "f_to_u64 _ = 0"

section \<open>The schedule\<close>

definition max_bounded_jitter :: "int \<Rightarrow> int res" where
  "max_bounded_jitter interval =
     bind_res (from_secs_f64 (fmul (f_lit (1/10)) (as_secs_f64 interval))) (\<lambda>d. Inr (min d 30000000000))"

text \<open>\<open>draw\<close> is the random number from 0 to the given bound.\<close>

definition bounded_jitter :: "(nat \<Rightarrow> nat) \<Rightarrow> int \<Rightarrow> int res" where
  "bounded_jitter draw interval = bind_res (max_bounded_jitter interval) (\<lambda>m.
     Inr (if m = 0 then 0 else int (draw (nat (m div 1000000))) * 1000000))"

definition advance_schedule :: "int \<Rightarrow> int \<Rightarrow> int \<Rightarrow> (int \<times> int) res" where
  "advance_schedule anchor interval now = bind_res (instant_add anchor interval) (\<lambda>next_anchor.
     Inr (if now < next_anchor then (next_anchor, next_anchor - now) else (now, 0)))"

definition schedule_drift :: "int option \<Rightarrow> int \<Rightarrow> int \<Rightarrow> (bool \<times> nat) res" where
  "schedule_drift scheduled started interval =
     (if interval = 0 then Inr (False, 0)
      else case scheduled of
        None \<Rightarrow> Inr (False, 0)
      | Some t \<Rightarrow> (let drift = max 0 (started - t) in
          bind_res (max_bounded_jitter interval) (\<lambda>m.
            Inr (m < drift, f_to_u64 (ffloor (fdiv (as_secs_f64 drift) (as_secs_f64 interval)))))))"

text \<open>The time slept; \<open>polls k\<close> is the flag as the \<open>k\<close>-th slice finds it.\<close>

definition sleep_slice :: int where "sleep_slice = 200000000"

function sleep_from :: "(nat \<Rightarrow> bool) \<Rightarrow> nat \<Rightarrow> int \<Rightarrow> int" where
  "sleep_from polls k remaining =
     (if remaining \<le> 0 \<or> polls k then 0
      else min remaining sleep_slice + sleep_from polls (Suc k) (remaining - min remaining sleep_slice))"
  by pat_completeness auto
termination
  by (relation "measure (\<lambda>(polls, k, remaining). nat remaining)") (auto simp: sleep_slice_def)

declare sleep_from.simps [simp del]

definition interruptible_sleep :: "(nat \<Rightarrow> bool) \<Rightarrow> int \<Rightarrow> int" where
  "interruptible_sleep polls d = sleep_from polls 0 d"

section \<open>The status file\<close>

text \<open>A missing or unreadable file, \<open>None\<close>, counts as empty.\<close>

definition merge_status_report ::
  "(string, account_readiness) bmap option \<Rightarrow> (string, account_readiness) bmap \<Rightarrow> (string, account_readiness) bmap" where
  "merge_status_report stored updates =
     foldl (\<lambda>m (name, readiness). bm_put name readiness m) (unwrap_or [] stored) updates"

section \<open>The end of a cycle\<close>

record turn =
  tn_env :: cycle_env
  tn_started :: int
  tn_save :: save_io
  tn_status :: "unit res"
  tn_pending :: "pending_map \<Rightarrow> bool"
  tn_stopped :: bool
  tn_now :: int
  tn_draw :: "nat \<Rightarrow> nat"
  tn_polls :: "nat \<Rightarrow> bool"
  tn_woken :: bool

record cycle_report =
  cr_late :: bool
  cr_skipped :: nat
  cr_accounts :: nat
  cr_observation :: nat
  cr_actuation :: nat

record governor =
  gv_world :: cycle_world
  gv_disk :: state_disk
  gv_status :: "(string, account_readiness) bmap option"
  gv_reports :: "cycle_report list"

fun clear_pools :: "(pending_map \<Rightarrow> bool) \<Rightarrow> string list \<Rightarrow> pending_map \<Rightarrow> pending_map \<times> unit res" where
  "clear_pools disk [] m = (m, Inr ())"
| "clear_pools disk (pool # pools) m = (case clear_pending_launches_pool disk m pool of
     (m, Inl e) \<Rightarrow> (m, Inl e) | (m, Inr _) \<Rightarrow> clear_pools disk pools m)"

definition settle_pending :: "config \<Rightarrow> turn \<Rightarrow> cycle_outcome \<Rightarrow> governor \<Rightarrow> governor \<times> (run_end + unit)" where
  "settle_pending cfg tn out g = (if cf_federation cfg = None then (g, Inr ())
     else case clear_pools (tn_pending tn) (co_pending out) (cw_pending (gv_world g)) of
       (m, r) \<Rightarrow> (g\<lparr> gv_world := (gv_world g)\<lparr> cw_pending := m \<rparr> \<rparr>, or_end StateError r))"

definition finish_cycle ::
  "state_codec \<Rightarrow> config \<Rightarrow> turn \<Rightarrow> cycle_outcome \<Rightarrow> governor \<Rightarrow> governor \<times> (run_end + unit)" where
  "finish_cycle c cfg tn out g =
     (case save_state c (tn_save tn) (cw_state (gv_world g)) (gv_disk g) of
        (d, Inl e) \<Rightarrow> (g\<lparr> gv_disk := d \<rparr>, Inl (end_of StateError e))
      | (d, Inr _) \<Rightarrow> (let g = g\<lparr> gv_disk := d \<rparr> in
          case tn_status tn of
            Inl _ \<Rightarrow> (g, Inr ())
          | Inr _ \<Rightarrow> settle_pending cfg tn out
              (g\<lparr> gv_status := Some (merge_status_report (gv_status g) (co_statuses out)) \<rparr>)))"

section \<open>The loop\<close>

definition once_end :: "cycle_outcome \<Rightarrow> run_end" where
  "once_end out =
     (if 0 < co_actuation out then Failed (ActuationError (dec (co_actuation out) @ '' account(s) failed actuation''))
      else if 0 < co_observation out then Failed (SourceError (dec (co_observation out) @ '' account(s) failed''))
      else Finished)"

definition poll_interval :: "config \<Rightarrow> int" where
  "poll_interval cfg = seconds_ns (cf_poll_interval cfg)"

text \<open>The next anchor and the time slept before the next cycle.\<close>

definition pause :: "int \<Rightarrow> turn \<Rightarrow> int \<Rightarrow> (int \<times> int) res" where
  "pause interval tn anchor = bind_res (advance_schedule anchor interval (tn_now tn)) (\<lambda>(next_anchor, sleep_for).
     bind_res (bounded_jitter (tn_draw tn) interval) (\<lambda>jitter.
       Inr (next_anchor, interruptible_sleep (tn_polls tn) (sleep_for + jitter))))"

definition continue_loop :: "config \<Rightarrow> bool \<Rightarrow> turn \<Rightarrow> int \<Rightarrow> cycle_outcome \<Rightarrow> run_end + int" where
  "continue_loop cfg once tn anchor out =
     (if once then Inl (once_end out)
      else if tn_stopped tn then Inl Finished
      else case pause (poll_interval cfg) tn anchor of
        Inl e \<Rightarrow> Inl (end_of StateError e)
      | Inr (next_anchor, _) \<Rightarrow> if tn_woken tn then Inl Finished else Inr next_anchor)"

definition cycle_report_of :: "config \<Rightarrow> bool \<times> nat \<Rightarrow> cycle_outcome \<Rightarrow> cycle_report" where
  "cycle_report_of cfg drift out = \<lparr> cr_late = fst drift, cr_skipped = snd drift,
     cr_accounts = length (cf_accounts cfg), cr_observation = co_observation out, cr_actuation = co_actuation out \<rparr>"

definition run_turn ::
  "state_codec \<Rightarrow> config \<Rightarrow> bool \<Rightarrow> bool \<Rightarrow> turn \<Rightarrow> int \<Rightarrow> int option \<Rightarrow> governor \<Rightarrow> governor \<times> (run_end + int)" where
  "run_turn c cfg once observe_only tn anchor scheduled g =
     (case schedule_drift scheduled (tn_started tn) (poll_interval cfg) of
        Inl e \<Rightarrow> (g, Inl (end_of StateError e))
      | Inr drift \<Rightarrow> (case run_cycle (tn_env tn) cfg observe_only (gv_world g) of
          (Inl e, w) \<Rightarrow> (g\<lparr> gv_world := w \<rparr>, Inl (end_of StateError e))
        | (Inr out, w) \<Rightarrow>
            (case finish_cycle c cfg tn out (g\<lparr> gv_world := w,
                gv_reports := gv_reports g @ [cycle_report_of cfg drift out] \<rparr>) of
               (g, Inl e) \<Rightarrow> (g, Inl e)
             | (g, Inr _) \<Rightarrow> (g, continue_loop cfg once tn anchor out))))"

text \<open>The loop over the turns that are given; it is \<open>Running\<close> when they are used up.\<close>

fun run_loop ::
  "state_codec \<Rightarrow> config \<Rightarrow> bool \<Rightarrow> bool \<Rightarrow> turn list \<Rightarrow> int \<Rightarrow> int option \<Rightarrow> governor \<Rightarrow> governor \<times> run_end" where
  "run_loop c cfg once observe_only [] anchor scheduled g = (g, Running)"
| "run_loop c cfg once observe_only (tn # tns) anchor scheduled g =
     (case run_turn c cfg once observe_only tn anchor scheduled g of
        (g, Inl e) \<Rightarrow> (g, e)
      | (g, Inr next_anchor) \<Rightarrow> run_loop c cfg once observe_only tns next_anchor (Some next_anchor) g)"

section \<open>The start\<close>

text \<open>What is on the disk when the process starts, and the answers it gets before the loop.\<close>

record boot =
  bt_lock :: "unit res"
  bt_env :: cycle_env
  bt_load :: load_io
  bt_handler :: "unit res"
  bt_started :: instant
  bt_anchor :: int
  bt_disk :: state_disk
  bt_status :: "(string, account_readiness) bmap option"
  bt_pending :: pending_map
  bt_exclusions :: "(string, string) bmap"

definition boot_ownership :: "config \<Rightarrow> boot \<Rightarrow> (string, string) bmap res" where
  "boot_ownership cfg bt = (if federated cfg
     then bind_res (refresh (bt_env bt) cfg None (bt_exclusions bt)) (\<lambda>(stored, _). Inr stored)
     else Inr (bt_exclusions bt))"

definition boot_world :: "config \<Rightarrow> boot \<Rightarrow> (string, string) bmap \<Rightarrow> gov_state \<Rightarrow> cycle_world" where
  "boot_world cfg bt stored s = \<lparr> cw_state = s,
     cw_runtime = map_option (\<lambda>f. new_runtime f (bt_started bt)) (opt_filter (\<lambda>f. fc_peers f \<noteq> []) (cf_federation cfg)),
     cw_pending = bt_pending bt, cw_exclusions = stored, cw_acts = [], cw_metrics = new_metrics '''' 0 \<rparr>"

definition run_governor ::
  "state_codec \<Rightarrow> config \<Rightarrow> bool \<Rightarrow> bool \<Rightarrow> boot \<Rightarrow> turn list \<Rightarrow> state_disk \<times> governor option \<times> run_end" where
  "run_governor c cfg once observe_only bt tns =
     (case bind_res (bt_lock bt) (\<lambda>_. boot_ownership cfg bt) of
        Inl e \<Rightarrow> (bt_disk bt, None, end_of StateError e)
      | Inr stored \<Rightarrow> (case load_file c (bt_load bt) (bt_disk bt) of
          (d, Inl e) \<Rightarrow> (d, None, end_of StateError e)
        | (d, Inr (s, quarantined)) \<Rightarrow> (case bt_handler bt of
            Inl e \<Rightarrow> (d, None, end_of StateError e)
          | Inr _ \<Rightarrow> (case run_loop c cfg once observe_only tns (bt_anchor bt) None
                \<lparr> gv_world = boot_world cfg bt stored s, gv_disk = d, gv_status = bt_status bt, gv_reports = [] \<rparr> of
              (g, e) \<Rightarrow> (gv_disk g, Some g, e)))))"

end
