(* ===== verification/Run_Laws.thy ===== *)
theory Run_Laws
  imports Governor_Run Cycle_Laws
begin

text \<open>
  Lemmas on the state file and the run loop: what a save leaves on the disk, when a restart loads it cleanly, how
  the copy of an older file is kept, and what the status file says after a cycle.
\<close>

section \<open>Saving\<close>

definition older_state :: "state_codec \<Rightarrow> string \<Rightarrow> bool" where
  "older_state c b = (\<exists>v. sc_version c b = Inr v \<and> unwrap_or 0 v < state_schema_version \<and> is_ok (decoded c '''' b))"

lemma decoded_iff: "decoded c what b = Inr s \<longleftrightarrow> sc_decode c b = Inr s"
  by (simp add: decoded_def split: sum.split)

lemma older_state_iff: "older_state c b \<longleftrightarrow> (\<exists>v s. sc_version c b = Inr v \<and> unwrap_or 0 v < state_schema_version \<and> sc_decode c b = Inr s)"
  by (auto simp: older_state_def decoded_def split: sum.splits)

text \<open>The rollback file is only ever created.\<close>

definition rollback_kept :: "state_disk \<Rightarrow> state_disk \<Rightarrow> bool" where
  "rollback_kept d d' = (sd_rollback d = None \<or> sd_rollback d' = sd_rollback d)"

lemma check_rollback_ok: "check_rollback c io f = Inr () \<Longrightarrow> \<exists>b. f = Regular b \<and> older_state c b"
  by (cases f) (auto simp: check_rollback_def bind_res_Inr_iff decoded_iff older_state_iff stored_version_def
      split: sum.splits)

lemma publish_rollback_effect:
  assumes "publish_rollback io b d = (d', r)"
  shows "sd_state d' = sd_state d \<and> sd_quarantined d' = sd_quarantined d"
    and "r = Inr () \<Longrightarrow> sd_rollback d' = Some (Regular b) \<or> (\<exists>f. si_link io = Exists f \<and> sd_rollback d' = Some f)"
  using assms by (auto simp: publish_rollback_def split: sum.splits link_answer.splits)

text \<open>After a copy was asked for, a checked older file was there, or the copy was linked, or another process's file
  was found linked, which the code takes as it is.\<close>

lemma preserve_old_effect:
  assumes "preserve_old c io b d = (d', r)"
  shows "sd_state d' = sd_state d \<and> sd_quarantined d' = sd_quarantined d \<and> rollback_kept d d'"
    and "r = Inr () \<Longrightarrow> (\<exists>b'. sd_rollback d' = Some (Regular b') \<and> older_state c b') \<and> sd_rollback d' = sd_rollback d \<or>
      sd_rollback d = None \<and> (sd_rollback d' = Some (Regular b) \<or> (\<exists>f. si_link io = Exists f \<and> sd_rollback d' = Some f))"
proof -
  show "sd_state d' = sd_state d \<and> sd_quarantined d' = sd_quarantined d \<and> rollback_kept d d'"
    using assms publish_rollback_effect(1)
    by (fastforce simp: preserve_old_def rollback_kept_def split: sum.splits option.splits)
  assume r: "r = Inr ()"
  show "(\<exists>b'. sd_rollback d' = Some (Regular b') \<and> older_state c b') \<and> sd_rollback d' = sd_rollback d \<or>
      sd_rollback d = None \<and> (sd_rollback d' = Some (Regular b) \<or> (\<exists>f. si_link io = Exists f \<and> sd_rollback d' = Some f))"
  proof (cases "sd_rollback d")
    case None
    then have "publish_rollback io b d = (d', r)" using assms r by (auto simp: preserve_old_def split: sum.splits)
    then show ?thesis using r publish_rollback_effect(2) None by blast
  next
    case (Some f)
    then have "d' = d" "check_rollback c io f = Inr ()" using assms r by (auto simp: preserve_old_def split: sum.splits)
    then show ?thesis using check_rollback_ok Some by blast
  qed
qed

lemma preserve_effect:
  assumes "preserve_pre_migration_state c io d = (d', r)"
  shows "sd_state d' = sd_state d \<and> sd_quarantined d' = sd_quarantined d \<and> rollback_kept d d'"
    and "r = Inr () \<Longrightarrow> sd_state d = Some f \<Longrightarrow> contents f = Inr b \<Longrightarrow> older_state c b \<Longrightarrow> preserve_old c io b d = (d', r)"
proof -
  show "sd_state d' = sd_state d \<and> sd_quarantined d' = sd_quarantined d \<and> rollback_kept d d'"
    using assms preserve_old_effect(1)
    by (auto simp: preserve_pre_migration_state_def rollback_kept_def split: option.splits sum.splits if_splits)
  show "preserve_old c io b d = (d', r)"
    if "r = Inr ()" "sd_state d = Some f" "contents f = Inr b" "older_state c b"
    using assms that
    by (auto simp: preserve_pre_migration_state_def older_state_iff stored_version_def bind_res_def split: sum.splits if_splits)
qed

text \<open>A rollback file appears as the copy of the older file, or is another process's.\<close>

lemma preserve_rollback:
  assumes "preserve_pre_migration_state c io d = (d', r)"
  shows "sd_rollback d' = sd_rollback d \<or> sd_rollback d = None \<and> ((\<exists>f. si_link io = Exists f \<and> sd_rollback d' = Some f)
    \<or> (\<exists>f b. sd_state d = Some f \<and> contents f = Inr b \<and> sd_rollback d' = Some (Regular b)))"
  using assms
  by (auto simp: preserve_pre_migration_state_def preserve_old_def publish_rollback_def bind_res_Inr_iff
      split: option.splits sum.splits if_splits link_answer.splits)

lemma save_cases:
  assumes "save_state c io s d = (d', r)"
  obtains (kept) r1 where "d' = d \<or> preserve_pre_migration_state c io d = (d', r1)" "r \<noteq> Inr ()"
  | (saved) b t d1 where "gs_schema_version s = state_schema_version" "sc_encode c s = Inr b" "sc_decode c b = Inr t"
      "preserve_pre_migration_state c io d = (d1, Inr ())" "d' = d1\<lparr> sd_state := Some (Regular (b @ [CHR 0x0A])) \<rparr>"
      "r = si_sync io"
proof (cases "gs_schema_version s = state_schema_version")
  case False
  then have "d' = d" "r \<noteq> Inr ()" using assms by (auto simp: save_state_def)
  then show ?thesis using kept by blast
next
  case v: True
  show ?thesis
  proof (cases "bind_res (si_directory io) (\<lambda>_. state_payload c s)")
    case (Inl e)
    then have "d' = d" "r \<noteq> Inr ()" using assms v by (auto simp: save_state_def)
    then show ?thesis using kept by blast
  next
    case (Inr p)
    then obtain b t where b: "sc_encode c s = Inr b" "sc_decode c b = Inr t" "p = b @ [CHR 0x0A]"
      by (auto simp: state_payload_def bind_res_Inr_iff decoded_iff)
    have i: "install_payload c io p d = (d', r)" using assms v Inr by (simp add: save_state_def)
    show ?thesis
    proof (cases "si_write io")
      case (Inl e)
      then have "d' = d" "r \<noteq> Inr ()" using i by (auto simp: install_payload_def)
      then show ?thesis using kept by blast
    next
      case w: (Inr u)
      obtain d1 r1 where p: "preserve_pre_migration_state c io d = (d1, r1)" by fastforce
      show ?thesis
      proof (cases "r1 = Inr () \<and> si_install io = Inr ()")
        case True
        then show ?thesis using i saved [OF v b(1,2)] p by (simp add: install_payload_def w b(3))
      next
        case False
        then have "d' = d1 \<and> r \<noteq> Inr ()" using i by (auto simp: install_payload_def w p split: sum.splits)
        then show ?thesis using kept p by blast
      qed
    qed
  qed
qed

text \<open>
  The file \<open>b\<close> found at the start is there, or a checked older file is kept, \<open>b\<close> itself if there was no copy, or the
  rollback file is one of \<open>L\<close>, those that other processes have linked.
\<close>

definition kept_older :: "state_codec \<Rightarrow> string \<Rightarrow> state_disk \<Rightarrow> state_disk \<Rightarrow> bool" where
  "kept_older c b d0 d = (\<exists>b'. sd_rollback d = Some (Regular b') \<and> older_state c b' \<and> (sd_rollback d0 = None \<longrightarrow> b' = b))"

definition migrating :: "state_codec \<Rightarrow> string \<Rightarrow> state_disk \<Rightarrow> state_disk \<Rightarrow> bool" where
  "migrating c b d0 d = (sd_state d = sd_state d0 \<and>
     (sd_rollback d = sd_rollback d0 \<or> sd_rollback d0 = None \<and> sd_rollback d = Some (Regular b)))"

definition linked_by_other :: "entry set \<Rightarrow> state_disk \<Rightarrow> state_disk \<Rightarrow> bool" where
  "linked_by_other L d0 d = (sd_rollback d0 = None \<and> (\<exists>f \<in> L. sd_rollback d = Some f))"

definition older_safe :: "state_codec \<Rightarrow> string \<Rightarrow> entry set \<Rightarrow> state_disk \<Rightarrow> state_disk \<Rightarrow> bool" where
  "older_safe c b L d0 d = (migrating c b d0 d \<or> kept_older c b d0 d \<or> linked_by_other L d0 d)"

lemma save_keeps_rollback:
  assumes "save_state c io s d = (d', r)" "sd_rollback d \<noteq> None"
  shows "sd_rollback d' = sd_rollback d"
  using assms(1)
proof (cases rule: save_cases)
  case (kept r1)
  then have "d' = d \<or> rollback_kept d d'" using preserve_effect(1) by blast
  then show ?thesis using assms(2) by (auto simp: rollback_kept_def)
next
  case (saved b t d1)
  then show ?thesis using assms(2) preserve_effect(1) [OF saved(4)] by (auto simp: rollback_kept_def)
qed

lemma save_migrates:
  assumes f: "sd_state d0 = Some f" "contents f = Inr b" "older_state c b"
    and L: "\<And>f. si_link io = Exists f \<Longrightarrow> f \<in> L"
    and s: "save_state c io s d = (d', r)" and d: "older_safe c b L d0 d"
  shows "older_safe c b L d0 d'"
proof (cases "migrating c b d0 d")
  case False
  then have "sd_rollback d \<noteq> None" using d by (auto simp: older_safe_def kept_older_def linked_by_other_def)
  from save_keeps_rollback [OF s this] show ?thesis using False d
    by (simp add: older_safe_def kept_older_def linked_by_other_def)
next
  case m: True
  then have df: "sd_state d = Some f" using f by (simp add: migrating_def)
  have step: "migrating c b d0 d1 \<or> linked_by_other L d0 d1" if "preserve_pre_migration_state c io d = (d1, r1)" for d1 r1
    using preserve_rollback [OF that] preserve_effect(1) [OF that] m f(1,2) df L
    by (auto simp: migrating_def linked_by_other_def)
  show ?thesis
    using s
  proof (cases rule: save_cases)
    case (kept r1)
    then show ?thesis using step m by (auto simp: older_safe_def)
  next
    case (saved e t d1)
    from preserve_effect(2) [OF saved(4) refl df f(2,3)] have o1: "preserve_old c io b d = (d1, Inr ())" .
    have "kept_older c b d0 d1 \<or> linked_by_other L d0 d1"
      using preserve_old_effect(2) [OF o1 refl] m f(3) L
      by (auto simp: kept_older_def migrating_def linked_by_other_def)
    then show ?thesis using saved(5) by (simp add: older_safe_def kept_older_def linked_by_other_def)
  qed
qed

section \<open>A clean restart\<close>

definition readable :: load_io where
  "readable = \<lparr> li_read = Inr (), li_quarantine = Inr () \<rparr>"

text \<open>A restart that can read the file takes it: no refusal, nothing moved aside.\<close>

definition loads_cleanly :: "state_codec \<Rightarrow> state_disk \<Rightarrow> bool" where
  "loads_cleanly c d = (case load_file c readable d of (d', r) \<Rightarrow> d' = d \<and> (case r of Inr (s, None) \<Rightarrow> True | _ \<Rightarrow> False))"

lemma loads_cleanly_iff: "loads_cleanly c d \<longleftrightarrow> (case sd_state d of None \<Rightarrow> True
   | Some f \<Rightarrow> (\<exists>b s. contents f = Inr b \<and> sc_decode c b = Inr s \<and> gs_schema_version s \<le> state_schema_version))"
  by (auto simp: loads_cleanly_def load_file_def load_state_def readable_def split: option.splits sum.splits)

lemma load_file_clean:
  "load_file c io d = (d', Inr (s, q)) \<Longrightarrow> loads_cleanly c d'"
  unfolding loads_cleanly_iff
  by (auto simp: load_file_def load_state_def bind_res_Inr_iff split: option.splits sum.splits if_splits)

lemma codec_version: "codec_laws c \<Longrightarrow> sc_encode c s = Inr b \<Longrightarrow> sc_decode c b = Inr t \<Longrightarrow> gs_schema_version t = gs_schema_version s"
  unfolding codec_laws_def by blast

lemma save_clean:
  assumes "codec_laws c" "loads_cleanly c d" "save_state c io s d = (d', r)"
  shows "loads_cleanly c d'"
  using assms(3)
proof (cases rule: save_cases)
  case (kept r1)
  then have "sd_state d' = sd_state d" using preserve_effect(1) by blast
  then show ?thesis using assms(2) by (simp add: loads_cleanly_iff)
next
  case (saved b t d1)
  then have "gs_schema_version t = state_schema_version" using codec_version [OF assms(1)] by metis
  moreover have "sc_decode c (b @ [CHR 0x0A]) = Inr t" using assms(1) saved(2,3) unfolding codec_laws_def by blast
  ultimately show ?thesis using saved(5) by (auto simp: loads_cleanly_iff)
qed

lemma saved_loads_same:
  assumes "codec_laws c" "save_state c io s d = (d', Inr ())" "state_ok s"
    and "\<And>b. sc_encode c s = Inr b \<Longrightarrow> sc_decode c b = Inr s"
  shows "load_file c readable d' = (d', Inr (s, None))"
  using assms(2)
proof (cases rule: save_cases)
  case (saved b t d1)
  then have "sc_decode c (b @ [CHR 0x0A]) = Inr s" using assms(1) assms(4) [of b] unfolding codec_laws_def by blast
  then show ?thesis using load_state_same [OF assms(3)] saved(5) by (simp add: load_file_def readable_def)
qed simp

section \<open>The end of a cycle\<close>

lemma clear_pools_state: "settle_pending cfg tn out g = (g', r) \<Longrightarrow>
    gv_disk g' = gv_disk g \<and> gv_status g' = gv_status g \<and> gv_reports g' = gv_reports g
    \<and> cw_state (gv_world g') = cw_state (gv_world g)"
  by (auto simp: settle_pending_def split: if_splits prod.splits)

lemma finish_disk:
  assumes "finish_cycle c cfg tn out g = (g', r)"
  shows "\<exists>q. save_state c (tn_save tn) (cw_state (gv_world g)) (gv_disk g) = (gv_disk g', q) \<and> (q \<noteq> Inr () \<longrightarrow> r \<noteq> Inr ())"
    and "cw_state (gv_world g') = cw_state (gv_world g)"
  using assms
  by (auto simp: finish_cycle_def Let_def split: prod.splits sum.splits dest!: clear_pools_state)

lemma end_exit: "process_exit (end_of StateError e) \<in> {Some 3, Some 101}"
  by (cases e) simp_all

text \<open>The disk after a turn is the disk before it, or what the turn's one save leaves.\<close>

lemma run_turn_cases:
  assumes "run_turn c cfg once observe_only tn anchor scheduled g = (g', r)"
  obtains (early) e where "gv_disk g' = gv_disk g" "r = Inl e" "process_exit e \<in> {Some 3, Some 101}"
  | (ended) drift out w r' where "schedule_drift scheduled (tn_started tn) (poll_interval cfg) = Inr drift"
      "run_cycle (tn_env tn) cfg observe_only (gv_world g) = (Inr out, w)"
      "finish_cycle c cfg tn out (g\<lparr> gv_world := w, gv_reports := gv_reports g @ [cycle_report_of cfg drift out] \<rparr>) = (g', r')"
      "r = (case r' of Inl e \<Rightarrow> Inl e | Inr _ \<Rightarrow> continue_loop cfg once tn anchor out)"
proof -
  note e = end_exit
  show ?thesis
  proof (cases "schedule_drift scheduled (tn_started tn) (poll_interval cfg)")
    case (Inl x)
    then have "gv_disk g' = gv_disk g" "r = Inl (end_of StateError x)" using assms by (auto simp: run_turn_def)
    then show ?thesis using early e by blast
  next
    case d: (Inr drift)
    obtain o1 w where o1: "run_cycle (tn_env tn) cfg observe_only (gv_world g) = (o1, w)" by fastforce
    show ?thesis
    proof (cases o1)
      case (Inl x)
      then have "gv_disk g' = gv_disk g" "r = Inl (end_of StateError x)" using assms by (auto simp: run_turn_def d o1)
      then show ?thesis using early e by blast
    next
      case (Inr out)
      let ?g = "g\<lparr> gv_world := w, gv_reports := gv_reports g @ [cycle_report_of cfg drift out] \<rparr>"
      obtain g1 r' where f: "finish_cycle c cfg tn out ?g = (g1, r')" by fastforce
      then have "g' = g1 \<and> r = (case r' of Inl e \<Rightarrow> Inl e | Inr _ \<Rightarrow> continue_loop cfg once tn anchor out)"
        using assms by (auto simp: run_turn_def d o1 Inr split: sum.splits)
      then show ?thesis using ended [OF d] o1 f Inr by blast
    qed
  qed
qed

text \<open>A relation of disks that every save keeps holds over the loop.\<close>

lemma run_loop_disk:
  assumes "\<And>io s d d' r. io \<in> tn_save ` set tns \<Longrightarrow> save_state c io s d = (d', r) \<Longrightarrow> P d \<Longrightarrow> P d'"
    and "P (gv_disk g)"
  shows "P (gv_disk (fst (run_loop c cfg once observe_only tns anchor scheduled g)))"
  using assms
proof (induction tns arbitrary: anchor scheduled g)
  case (Cons tn tns)
  obtain g1 r where t: "run_turn c cfg once observe_only tn anchor scheduled g = (g1, r)" by fastforce
  have "P (gv_disk g1)"
    using t
  proof (cases rule: run_turn_cases)
    case early
    then show ?thesis using Cons.prems(2) by simp
  next
    case (ended drift out w r')
    obtain s q where "save_state c (tn_save tn) s (gv_disk g) = (gv_disk g1, q)"
      using finish_disk(1) [OF ended(3)] by auto
    then show ?thesis using Cons.prems(1) [of "tn_save tn" s "gv_disk g" "gv_disk g1" q] Cons.prems(2) by simp
  qed
  moreover have "P d'" if "io \<in> tn_save ` set tns" "save_state c io s d = (d', r)" "P d" for io s d d' r
    using Cons.prems(1) [OF _ that(2,3)] that(1) by auto
  ultimately have "P (gv_disk (fst (run_loop c cfg once observe_only tns a (Some a) g1)))" for a
    using Cons.IH by blast
  then show ?case using \<open>P (gv_disk g1)\<close> by (simp add: t split: sum.split)
qed simp

text \<open>A process that reaches the loop has loaded the file first.\<close>

lemma run_governor_loop:
  assumes "run_governor c cfg once observe_only bt tns = (d, Some g, e)"
  obtains d0 s q stored where "load_file c (bt_load bt) (bt_disk bt) = (d0, Inr (s, q))" "d = gv_disk g"
    "run_loop c cfg once observe_only tns (bt_anchor bt) None
       \<lparr> gv_world = boot_world cfg bt stored s, gv_disk = d0, gv_status = bt_status bt, gv_reports = [] \<rparr> = (g, e)"
  using assms that unfolding run_governor_def by (fastforce split: sum.splits prod.splits)

lemma load_file_disk: "load_file c io d = (d', r) \<Longrightarrow> d' = d \<or> (\<exists>f. sd_state d = Some f
    \<and> d' = d\<lparr> sd_state := None, sd_quarantined := sd_quarantined d @ [f] \<rparr>)"
  by (auto simp: load_file_def split: option.splits sum.splits)

lemma run_governor_refused:
  assumes "run_governor c cfg once observe_only bt tns = (d, None, e)"
  shows "process_exit e \<in> {Some 3, Some 101} \<and> (d = bt_disk bt \<or> (\<exists>f. sd_state (bt_disk bt) = Some f
    \<and> d = (bt_disk bt)\<lparr> sd_state := None, sd_quarantined := sd_quarantined (bt_disk bt) @ [f] \<rparr>))"
  using assms end_exit load_file_disk [of c "bt_load bt" "bt_disk bt"]
  unfolding run_governor_def by (fastforce split: sum.splits prod.splits)

lemma run_governor_disk:
  assumes "run_governor c cfg once observe_only bt tns = (d, Some g, e)"
    and "\<And>io s d d' r. io \<in> tn_save ` set tns \<Longrightarrow> save_state c io s d = (d', r) \<Longrightarrow> P d \<Longrightarrow> P d'"
    and "\<And>d0 s q. load_file c (bt_load bt) (bt_disk bt) = (d0, Inr (s, q)) \<Longrightarrow> P d0"
  shows "P d"
  using assms(1)
proof (rule run_governor_loop)
  fix d0 s q stored
  let ?g = "\<lparr> gv_world = boot_world cfg bt stored s, gv_disk = d0, gv_status = bt_status bt, gv_reports = [] \<rparr>"
  assume l: "load_file c (bt_load bt) (bt_disk bt) = (d0, Inr (s, q))" "d = gv_disk g"
    "run_loop c cfg once observe_only tns (bt_anchor bt) None ?g = (g, e)"
  have "P (gv_disk ?g)" using assms(3) [OF l(1)] by simp
  with assms(2) have "P (gv_disk (fst (run_loop c cfg once observe_only tns (bt_anchor bt) None ?g)))"
    by (rule run_loop_disk)
  then show ?thesis by (simp add: l(2,3))
qed

section \<open>The status file\<close>

lemma or_end_exit: "or_end StateError r = Inl e \<Longrightarrow> process_exit e \<in> {Some 3, Some 101}"
  using end_exit by (cases r) (auto simp: or_end_def)

lemma finish_effect:
  assumes "finish_cycle c cfg tn out g = (g', r)"
  shows "r = Inl e \<Longrightarrow> process_exit e \<in> {Some 3, Some 101}"
    and "r = Inr () \<Longrightarrow> tn_status tn = Inr () \<Longrightarrow> gv_status g' = Some (merge_status_report (gv_status g) (co_statuses out))"
proof -
  note s = end_exit
  have p: "process_exit e \<in> {Some 3, Some 101}" if "settle_pending cfg tn out g1 = (g', Inl e)" for g1 e
    using that or_end_exit by (fastforce simp: settle_pending_def split: if_splits prod.splits)
  show "process_exit e \<in> {Some 3, Some 101}" if "r = Inl e"
    using assms that s p unfolding finish_cycle_def Let_def by (fastforce split: prod.splits sum.splits)
  show "gv_status g' = Some (merge_status_report (gv_status g) (co_statuses out))" if "r = Inr ()" "tn_status tn = Inr ()"
    using assms that by (auto simp: finish_cycle_def Let_def split: prod.splits sum.splits dest!: clear_pools_state)
qed

text \<open>How one cycle of \<open>run --once\<close> ends.\<close>

lemma finish_outcomes:
  assumes "finish_cycle c cfg tn out g = (g', r)"
  shows "r = Inr () \<Longrightarrow> gv_status g' =
      (if tn_status tn = Inr () then Some (merge_status_report (gv_status g) (co_statuses out)) else gv_status g)"
    and "r = Inl e \<Longrightarrow> \<exists>x. snd (save_state c (tn_save tn) (cw_state (gv_world g)) (gv_disk g)) = Inl x
      \<or> snd (clear_pools (tn_pending tn) (co_pending out) (cw_pending (gv_world g))) = Inl x"
proof -
  show "gv_status g' = (if tn_status tn = Inr () then Some (merge_status_report (gv_status g) (co_statuses out)) else gv_status g)"
    if "r = Inr ()"
    using assms that by (auto simp: finish_cycle_def Let_def split: prod.splits sum.splits dest!: clear_pools_state)
  show "\<exists>x. snd (save_state c (tn_save tn) (cw_state (gv_world g)) (gv_disk g)) = Inl x
      \<or> snd (clear_pools (tn_pending tn) (co_pending out) (cw_pending (gv_world g))) = Inl x" if "r = Inl e"
    using assms that
    by (auto simp: finish_cycle_def settle_pending_def or_end_def Let_def split: prod.splits sum.splits if_splits)
qed

lemma run_turn_once:
  assumes "run_turn c cfg True observe_only tn anchor scheduled g = (g', Inl e)"
  obtains (failed) x where "process_exit e \<in> {Some 3, Some 101}"
      "schedule_drift scheduled (tn_started tn) (poll_interval cfg) = Inl x
      \<or> fst (run_cycle (tn_env tn) cfg observe_only (gv_world g)) = Inl x
      \<or> (\<exists>out w. run_cycle (tn_env tn) cfg observe_only (gv_world g) = (Inr out, w)
           \<and> (snd (save_state c (tn_save tn) (cw_state w) (gv_disk g)) = Inl x
              \<or> snd (clear_pools (tn_pending tn) (co_pending out) (cw_pending w)) = Inl x))"
  | (ended) out w where "run_cycle (tn_env tn) cfg observe_only (gv_world g) = (Inr out, w)" "e = once_end out"
      "gv_status g' = (if tn_status tn = Inr () then Some (merge_status_report (gv_status g) (co_statuses out))
         else gv_status g)"
proof (cases "schedule_drift scheduled (tn_started tn) (poll_interval cfg)")
  case (Inl x)
  then have "e = end_of StateError x" using assms by (simp add: run_turn_def)
  then show ?thesis using failed [of x] Inl end_exit by blast
next
  case d: (Inr drift)
  obtain o1 w where o1: "run_cycle (tn_env tn) cfg observe_only (gv_world g) = (o1, w)" by fastforce
  show ?thesis
  proof (cases o1)
    case (Inl x)
    then have "e = end_of StateError x" using assms by (simp add: run_turn_def d o1)
    then show ?thesis using failed [of x] Inl end_exit o1 by simp
  next
    case (Inr out)
    let ?g = "g\<lparr> gv_world := w, gv_reports := gv_reports g @ [cycle_report_of cfg drift out] \<rparr>"
    obtain g1 r where f: "finish_cycle c cfg tn out ?g = (g1, r)" by fastforce
    show ?thesis
    proof (cases r)
      case (Inl x)
      then have "e = x" using assms by (simp add: run_turn_def d o1 Inr f)
      then have "process_exit e \<in> {Some 3, Some 101}" using finish_effect(1) [OF f] Inl by simp
      moreover obtain y where "snd (save_state c (tn_save tn) (cw_state w) (gv_disk g)) = Inl y
          \<or> snd (clear_pools (tn_pending tn) (co_pending out) (cw_pending w)) = Inl y"
        using finish_outcomes(2) [OF f Inl] by auto
      ultimately show ?thesis using failed [of y] o1 Inr by blast
    next
      case u: (Inr u)
      then have "e = once_end out" "g' = g1" using assms by (simp_all add: run_turn_def d o1 Inr f continue_loop_def)
      moreover have "gv_status g1 = (if tn_status tn = Inr () then Some (merge_status_report (gv_status g) (co_statuses out))
          else gv_status g)"
        using finish_outcomes(1) [OF f] u by simp
      ultimately show ?thesis using ended o1 Inr by simp
    qed
  qed
qed

lemma merge_get:
  assumes "bm_ok updates"
  shows "bm_get (merge_status_report stored updates) n =
    (case bm_get updates n of Some r \<Rightarrow> Some r | None \<Rightarrow> bm_get (unwrap_or [] stored) n)"
proof -
  have "distinct (map fst updates)" using assms bm.keys_distinct [of updates] by (simp add: bm_keys_def)
  then have "map_of (rev updates) = map_of updates" by (metis map_of_inject_set rev_map set_rev distinct_rev)
  then show ?thesis
    using bm.look_foldl_put [of "unwrap_or [] stored" updates n]
    by (simp add: merge_status_report_def case_prod_beta' bm_get_def)
qed

end
