(* ===== verification/Schedule_Laws.thy ===== *)
theory Schedule_Laws
  imports Governor_Run F64_Laws
begin

text \<open>
  The schedule's arithmetic in binary64: a duration in seconds, the jitter's bound, and that an ordinary jittered
  wake is neither late nor a skipped cycle.
\<close>

section \<open>Loose rounding\<close>

definition slack :: rat where "slack = 1 / 1000000000000"

lemma rq_loose:
  assumes "0 \<le> q"
  shows "0 \<le> rq q" "rq q \<le> q * (101/100) + slack"
proof -
  have "tiny \<le> 2 powi (- 40)" unfolding tiny_def by (rule powi_mono) (simp add: emin_def)
  also have "\<dots> \<le> slack" by (simp add: slack_def)
  finally have t: "tiny \<le> slack" .
  have "q * eps \<le> q * (1/100)" using assms by (intro mult_left_mono) (simp_all add: eps_eq)
  then show "rq q \<le> q * (101/100) + slack" using rq_abs_error [of q] t assms by (simp add: abs_le_iff)
  show "0 \<le> rq q" using assms by (rule rq_nonneg)
qed

lemma rnd_plain:
  assumes "0 \<le> q" "q \<le> 2 ^ 80"
  shows "rnd q = Fin (rq q)"
proof -
  have "rq q < 2 ^ 90" using rq_loose [OF assms(1)] assms(2) by (simp add: slack_def)
  moreover have "(2::rat) ^ 90 \<le> f64_huge" unfolding f64_huge_def by (rule power_increasing) simp_all
  ultimately show ?thesis using assms rq_loose(1) [OF assms(1)] by (simp add: rnd_def Let_def)
qed

section \<open>Seconds\<close>

lemma billion: "f_lit 1000000000 = Fin 1000000000"
  using rq_int [of 1000000000] rnd_plain [of 1000000000] by (simp add: f_lit_def)

lemma as_secs_value:
  assumes "0 \<le> d" "d div 1000000000 \<le> int i64_max"
  shows "as_secs_f64 d = Fin (rq (rq (of_int (d div 1000000000)) + rq (of_int (d mod 1000000000) / 1000000000)))"
proof -
  let ?k = "d div 1000000000" and ?m = "d mod 1000000000"
  have m: "0 \<le> ?m" "?m < 1000000000" by simp_all
  then have fm: "f_of_int ?m = Fin (of_int ?m)"
    using rq_int [of ?m] rnd_plain [of "of_int ?m"] by (simp add: f_of_int_def)
  have frac: "0 \<le> (of_int ?m :: rat) / 1000000000" "(of_int ?m :: rat) / 1000000000 \<le> 1"
    using m by (simp_all add: field_simps less_imp_le)
  have "fdiv (Fin (of_int ?m)) (Fin 1000000000) = Fin (rq (of_int ?m / 1000000000))"
    using rnd_plain [of "of_int ?m / 1000000000"] frac m by (simp add: fdiv_def signed_zero_def)
  moreover have k: "0 \<le> (of_int ?k :: rat)" "(of_int ?k :: rat) \<le> 9223372036854775807"
    using assms by (simp_all add: i64_max_def pos_imp_zdiv_nonneg_iff)
  then have "f_of_int ?k = Fin (rq (of_int ?k))" using rnd_plain [of "of_int ?k"] by (simp add: f_of_int_def)
  moreover have "rnd (rq (of_int ?k) + rq (of_int ?m / 1000000000)) = Fin (rq (rq (of_int ?k) + rq (of_int ?m / 1000000000)))"
    using rq_loose [OF k(1)] rq_loose [OF frac(1)] k(2) frac(2) by (intro rnd_plain) (simp_all add: slack_def)
  ultimately show ?thesis by (simp add: as_secs_f64_def billion fm fadd_def)
qed

lemma as_secs_upper:
  assumes "0 \<le> d" "d div 1000000000 \<le> int i64_max"
  shows "0 \<le> fval (as_secs_f64 d)" "fval (as_secs_f64 d) \<le> of_int d / 1000000000 * (103/100) + 4 * slack"
proof -
  let ?k = "d div 1000000000" and ?m = "d mod 1000000000"
  have d: "of_int d = (of_int ?k :: rat) * 1000000000 + of_int ?m"
    using arg_cong [OF div_mult_mod_eq [of d 1000000000], of "of_int :: int \<Rightarrow> rat"] unfolding of_int_add of_int_mult
    by (simp only: of_int_numeral)
  have k: "0 \<le> (of_int ?k :: rat)" using assms by (simp add: pos_imp_zdiv_nonneg_iff)
  have m: "0 \<le> (of_int ?m :: rat) / 1000000000" by simp
  note a = rq_loose [OF k] and b = rq_loose [OF m]
  then have s: "0 \<le> rq (of_int ?k) + rq (of_int ?m / 1000000000)" by simp
  note c = rq_loose [OF s]
  then show "0 \<le> fval (as_secs_f64 d)" by (simp add: as_secs_value [OF assms])
  let ?Z = "of_int ?k * (101/100) + of_int ?m / 1000000000 * (101/100) + 2 * slack"
  have "rq (of_int ?k) + rq (of_int ?m / 1000000000) \<le> ?Z" using a(2) b(2) by linarith
  then have "(rq (of_int ?k) + rq (of_int ?m / 1000000000)) * (101/100) \<le> ?Z * (101/100)"
    by (rule mult_right_mono) simp
  then have "rq (rq (of_int ?k) + rq (of_int ?m / 1000000000))
      \<le> (of_int ?k * (101/100) + of_int ?m / 1000000000 * (101/100) + 2 * slack) * (101/100) + slack"
    using c(2) by linarith
  also have "\<dots> \<le> of_int d / 1000000000 * (103/100) + 4 * slack"
    using k m by (simp add: d slack_def field_simps)
  finally show "fval (as_secs_f64 d) \<le> of_int d / 1000000000 * (103/100) + 4 * slack"
    by (simp add: as_secs_value [OF assms])
qed

lemma as_secs_whole:
  assumes "0 < n" "n \<le> i64_max"
  shows "as_secs_f64 (seconds_ns n) = Fin (rq (of_nat n))" "1 \<le> rq (of_nat n)" "rq (of_nat n) \<le> 9315605757223323566 + 1"
proof -
  have n: "seconds_ns n div 1000000000 = int n" "seconds_ns n mod 1000000000 = 0" by (simp_all add: seconds_ns_def)
  have "rq (rq (of_nat n)) = rq (of_nat n)" by (rule rq_idem)
  then show "as_secs_f64 (seconds_ns n) = Fin (rq (of_nat n))"
    using as_secs_value [of "seconds_ns n"] assms n by (simp add: seconds_ns_def)
  have "rq 1 \<le> rq (of_nat n)" using assms by (intro rq_mono) simp
  then show "1 \<le> rq (of_nat n)" using rq_int [of 1] by simp
  have "(of_nat n :: rat) \<le> of_nat i64_max" using assms(2) by (simp only: of_nat_le_iff)
  then show "rq (of_nat n) \<le> 9315605757223323566 + 1"
    using rq_loose(2) [of "of_nat n"] by (simp add: i64_max_def slack_def)
qed

section \<open>The jitter\<close>

lemma max_jitter_bounds:
  assumes "0 < n" "n \<le> i64_max"
  obtains m where "max_bounded_jitter (seconds_ns n) = Inr m" "0 \<le> m" "m \<le> 30000000000"
    "of_int m / 1000000000 \<le> rq (of_nat n) * (11/100) + 1 / 1000000000"
proof -
  let ?S = "rq (of_nat n)"
  note S = as_secs_whole [OF assms]
  have tenth: "f_lit (1/10) = Fin (rq (1/10))" using rnd_plain [of "1/10"] by (simp add: f_lit_def)
  have t: "0 \<le> rq (1/10)" "rq (1/10) \<le> 10101/100000" using rq_loose [of "1/10"] by (simp_all add: slack_def)
  let ?p = "rq (1/10) * ?S"
  have p: "0 \<le> ?p" "?p \<le> ?S * (10101/100000)"
    using t S(2) mult_right_mono [OF t(2), of ?S] by (simp_all add: mult.commute)
  then have "?p \<le> 2 ^ 80" using S(3) by simp
  then have f: "fmul (Fin (rq (1/10))) (Fin ?S) = Fin (rq ?p)"
    using rnd_plain [OF p(1)] t(1) S(2) by (simp add: fmul_def signed_zero_def)
  have J: "0 \<le> rq ?p" "rq ?p \<le> ?S * (11/100)"
    using rq_loose [OF p(1), unfolded slack_def] p(2) S(2) by linarith+
  define r where "r = round_even (rq ?p * 1000000000)"
  have "0 \<le> r" using J(1) round_even_mono [of 0 "rq ?p * 1000000000"] round_even_of_int [of 0] by (simp add: r_def)
  moreover have r: "of_int r \<le> rq ?p * 1000000000 + 1/2"
    using round_even_error [of "rq ?p * 1000000000"] unfolding r_def abs_le_iff by linarith
  have "(of_int r :: rat) < of_int duration_limit" using r J(2) S(3) by (simp add: duration_limit_def)
  then have "r < duration_limit" by (simp only: of_int_less_iff)
  then have "max_bounded_jitter (seconds_ns n) = Inr (min r 30000000000)"
    using J(1) by (simp add: max_bounded_jitter_def S(1) tenth f r_def [symmetric] Let_def)
  moreover have "of_int (min r 30000000000) / 1000000000 \<le> ?S * (11/100) + (1 / 1000000000 :: rat)"
  proof -
    have "(of_int (min r 30000000000) :: rat) \<le> of_int r" by (simp only: of_int_le_iff min.cobounded1)
    then show ?thesis using r J(2) by (simp add: field_simps)
  qed
  ultimately show ?thesis by (intro that [of "min r 30000000000"]) auto
qed

lemma jitter_bounds:
  assumes "0 < n" "n \<le> i64_max" "\<And>k. draw k \<le> k"
  obtains m j where "max_bounded_jitter (seconds_ns n) = Inr m" "bounded_jitter draw (seconds_ns n) = Inr j"
    "0 \<le> j" "j \<le> m" "m \<le> 30000000000"
proof -
  obtain m where m: "max_bounded_jitter (seconds_ns n) = Inr m" "0 \<le> m" "m \<le> 30000000000"
    using max_jitter_bounds [OF assms(1,2)] by metis
  have "int (draw (nat (m div 1000000))) \<le> m div 1000000"
    using assms(3) [of "nat (m div 1000000)"] m(2) by (simp add: pos_imp_zdiv_nonneg_iff)
  then have "int (draw (nat (m div 1000000))) * 1000000 \<le> m"
    using div_mult_mod_eq [of m 1000000] m(2) by (smt (verit) pos_mod_sign)
  then show ?thesis using m that [of m] by (simp add: bounded_jitter_def)
qed

section \<open>Drift\<close>

lemma small_drift:
  assumes "0 < n" "n \<le> i64_max" "max_bounded_jitter (seconds_ns n) = Inr m" "0 \<le> d" "d \<le> m"
  shows "f_to_u64 (ffloor (fdiv (as_secs_f64 d) (as_secs_f64 (seconds_ns n)))) = 0"
proof -
  let ?S = "rq (of_nat n)"
  note S = as_secs_whole [OF assms(1,2)]
  obtain m' where m: "max_bounded_jitter (seconds_ns n) = Inr m'" "m' \<le> 30000000000"
      "of_int m' / 1000000000 \<le> ?S * (11/100) + 1 / 1000000000"
    using max_jitter_bounds [OF assms(1,2)] by metis
  have mm: "m' = m" using m(1) assms(3) by simp
  have "d div 1000000000 \<le> 30" using assms(5) m(2) mm by linarith
  then have i: "d div 1000000000 \<le> int i64_max" by (simp add: i64_max_def)
  obtain D where D: "as_secs_f64 d = Fin D" using as_secs_value [OF assms(4) i] by blast
  have "(of_int d :: rat) \<le> of_int m" using assms(5) by (simp only: of_int_le_iff)
  then have "D \<le> ?S * (1/2)"
    using as_secs_upper(2) [OF assms(4) i] m(3) S(2) by (simp add: D mm slack_def field_simps)
  moreover have D0: "0 \<le> D" using as_secs_upper(1) [OF assms(4) i] by (simp add: D)
  ultimately have q: "0 \<le> D / ?S" "D / ?S \<le> 1/2" using S(2) by (simp_all add: field_simps)
  have "rq (1/2) = 1/2" using rq_powi [of "- 1"] by (simp add: emin_def)
  then have "rq (D / ?S) \<le> 1/2" using rq_mono [OF q(2)] by simp
  moreover have "0 \<le> rq (D / ?S)" using rq_loose(1) [OF q(1)] .
  moreover have "fdiv (Fin D) (Fin ?S) = Fin (rq (D / ?S))"
    using rnd_plain [OF q(1)] q(2) D0 S(2) by (simp add: fdiv_def signed_zero_def)
  ultimately show ?thesis by (simp add: D S(1) floor_eq_iff)
qed

text \<open>Sleeping ends with the flag, or with the time.\<close>

lemma sleep_bounds: "0 \<le> d \<Longrightarrow> 0 \<le> sleep_from polls k d \<and> sleep_from polls k d \<le> d"
proof (induction polls k d rule: sleep_from.induct)
  case (1 polls k d)
  then show ?case by (subst (1 2) sleep_from.simps) (auto simp: sleep_slice_def min_def)
qed

lemma sleep_stops: "polls j \<Longrightarrow> k \<le> j \<Longrightarrow> sleep_from polls k d \<le> sleep_slice * int (j - k)"
proof (induction polls k d rule: sleep_from.induct)
  case (1 polls k d)
  show ?case
  proof (cases "d \<le> 0 \<or> polls k")
    case True
    then show ?thesis by (simp add: sleep_from.simps sleep_slice_def)
  next
    case False
    then have "k < j" using "1.prems" by (metis le_neq_implies_less)
    then have "sleep_from polls (Suc k) (d - min d sleep_slice) \<le> sleep_slice * int (j - Suc k)"
      using 1 False by simp
    moreover have "sleep_slice * int (j - k) = sleep_slice + sleep_slice * int (j - Suc k)"
      using \<open>k < j\<close> by (simp add: algebra_simps of_nat_diff)
    ultimately show ?thesis using False by (simp add: sleep_from.simps [of polls k])
  qed
qed

end
