(* ===== verification/Preflight.thy ===== *)
theory Preflight
  imports Local_Record
begin

text \<open>
  \<open>src/preflight.rs\<close>: an inventory of controllers, its validation, and the search for two controllers that act on
  the same account or fleet.  The parsed inventory is the argument.
\<close>

section \<open>The inventory\<close>

datatype controller_mode = Actuating | ObserveOnly | Disabled | Planned | Absent | Unknown

record controller_entry =
  ct_name :: string
  ct_host :: string
  ct_account_id :: string
  ct_fleet_id :: string
  ct_mode :: controller_mode
  ct_config_path :: "string option"
  ct_state_path :: "string option"
  ct_actuator :: "string option"
  ct_evidence :: string

record inventory =
  iv_version :: nat
  iv_observed_at :: string
  iv_controllers :: "controller_entry list"

record preflight_conflict =
  cf_left_record :: nat
  cf_right_record :: nat
  cf_shared_account :: bool
  cf_shared_fleet :: bool

record preflight_report =
  pf_controllers :: nat
  pf_actuating :: nat
  pf_conflicts :: "preflight_conflict list"

section \<open>Validation\<close>

definition entry_name :: "nat \<Rightarrow> string" where
  "entry_name n = ''controller record '' @ dec n"

definition check_filled :: "nat \<Rightarrow> controller_entry \<Rightarrow> unit res" where
  "check_filled n c = all_ok (map (\<lambda>(field, v). ensure (trim v \<noteq> []) (entry_name n @ '' has an empty '' @ field))
     [(''name'', ct_name c), (''host'', ct_host c), (''account_id'', ct_account_id c), (''fleet_id'', ct_fleet_id c),
      (''evidence'', ct_evidence c)])"

definition check_canonical :: "nat \<Rightarrow> controller_entry \<Rightarrow> unit res" where
  "check_canonical n c = all_ok (map (\<lambda>(field, v). ensure (trim v = v \<and> \<not> has_ws v)
       (entry_name n @ '' has a non-canonical '' @ field @ ''; identifiers must not contain whitespace''))
     [(''name'', ct_name c), (''host'', ct_host c), (''account_id'', ct_account_id c), (''fleet_id'', ct_fleet_id c)])"

definition check_authority :: "nat \<Rightarrow> controller_entry \<Rightarrow> unit res" where
  "check_authority n c = all_ok [
     ensure (ct_mode c \<noteq> Unknown) (entry_name n @ '' has unknown ownership; resolve it before preflight''),
     ensure (\<not> (ct_mode c = Actuating \<and> (case ct_actuator c of None \<Rightarrow> True | Some a \<Rightarrow> trim a = [])))
       (''actuating '' @ entry_name n @ '' must identify its actuator destination'')]"

fun validate_controllers :: "nat \<Rightarrow> string list \<Rightarrow> controller_entry list \<Rightarrow> unit res" where
  "validate_controllers n names [] = Inr ()"
| "validate_controllers n names (c # cs) = all_ok [check_filled n c, check_canonical n c,
     ensure (to_ascii_lower (ct_name c) \<notin> set names) ''controller names must be unique'',
     check_authority n c,
     validate_controllers (Suc n) (to_ascii_lower (ct_name c) # names) cs]"

definition validate_inventory :: "inventory \<Rightarrow> unit res" where
  "validate_inventory v = all_ok [
     ensure (iv_version v = 1) (''unsupported inventory version '' @ dec (iv_version v) @ ''; expected 1''),
     ensure (trim (iv_observed_at v) \<noteq> []) ''inventory observed_at must not be empty'',
     ensure (iv_controllers v \<noteq> []) ''inventory must include at least one controller record'',
     validate_controllers 1 [] (iv_controllers v)]"

definition load_inventory :: "inventory res \<Rightarrow> inventory res" where
  "load_inventory parsed = bind_res parsed (\<lambda>v. bind_res (validate_inventory v) (\<lambda>_. Inr v))"

section \<open>Conflicts\<close>

definition eq_ignore_case :: "string \<Rightarrow> string \<Rightarrow> bool" where
  "eq_ignore_case a b = (to_ascii_lower a = to_ascii_lower b)"

definition conflict_of :: "nat \<times> controller_entry \<Rightarrow> nat \<times> controller_entry \<Rightarrow> preflight_conflict option" where
  "conflict_of l r =
     (let account = eq_ignore_case (ct_account_id (snd l)) (ct_account_id (snd r));
          fleet = eq_ignore_case (ct_fleet_id (snd l)) (ct_fleet_id (snd r))
      in if account \<or> fleet then Some \<lparr> cf_left_record = fst l + 1, cf_right_record = fst r + 1,
           cf_shared_account = account, cf_shared_fleet = fleet \<rparr> else None)"

fun conflicts_among :: "(nat \<times> controller_entry) list \<Rightarrow> preflight_conflict list" where
  "conflicts_among [] = []"
| "conflicts_among (l # rs) = List.map_filter (conflict_of l) rs @ conflicts_among rs"

definition actuating_entries :: "inventory \<Rightarrow> (nat \<times> controller_entry) list" where
  "actuating_entries v = filter (\<lambda>e. ct_mode (snd e) = Actuating) (enumerate 0 (iv_controllers v))"

definition check_inventory :: "inventory \<Rightarrow> preflight_report" where
  "check_inventory v = \<lparr> pf_controllers = length (iv_controllers v), pf_actuating = length (actuating_entries v),
     pf_conflicts = conflicts_among (actuating_entries v) \<rparr>"

definition preflight_run :: "inventory res \<Rightarrow> preflight_report res" where
  "preflight_run parsed = bind_res (load_inventory parsed) (\<lambda>v. let report = check_inventory v in
     if pf_conflicts report = [] then Inr report
     else Inl (Bail (''controller ownership preflight found '' @ dec (length (pf_conflicts report)) @ '' conflict(s)'')))"

section \<open>What a pass means\<close>

lemma conflict_of_None: "conflict_of l r = None \<longleftrightarrow>
    to_ascii_lower (ct_account_id (snd l)) \<noteq> to_ascii_lower (ct_account_id (snd r))
    \<and> to_ascii_lower (ct_fleet_id (snd l)) \<noteq> to_ascii_lower (ct_fleet_id (snd r))"
  by (simp add: conflict_of_def eq_ignore_case_def Let_def)

lemma map_filter_empty: "List.map_filter f xs = [] \<longleftrightarrow> (\<forall>x \<in> set xs. f x = None)"
  by (induction xs) (auto simp: List.map_filter_def)

lemma conflicts_among_empty: "conflicts_among es = [] \<longleftrightarrow> sorted_wrt (\<lambda>l r. conflict_of l r = None) es"
  by (induction es) (auto simp: map_filter_empty)

lemma sorted_wrt_distinct_map: "sorted_wrt (\<lambda>l r. f l \<noteq> f r) es \<longleftrightarrow> distinct (map f es)"
  by (induction es) auto

lemma conflict_free: "conflicts_among es = [] \<longleftrightarrow>
    distinct (map (\<lambda>e. to_ascii_lower (ct_account_id (snd e))) es)
    \<and> distinct (map (\<lambda>e. to_ascii_lower (ct_fleet_id (snd e))) es)"
  unfolding conflicts_among_empty conflict_of_None sorted_wrt_distinct_map [symmetric]
  by (induction es) auto

lemma actuating_of: "map (\<lambda>e. f (snd e)) (actuating_entries v) = map f (filter (\<lambda>c. ct_mode c = Actuating) (iv_controllers v))"
proof -
  have "map (\<lambda>e. f (snd e)) (filter (\<lambda>e. ct_mode (snd e) = Actuating) (enumerate n cs)) = map f (filter (\<lambda>c. ct_mode c = Actuating) cs)"
    for n and cs :: "controller_entry list"
    by (induction cs arbitrary: n) auto
  then show ?thesis by (simp add: actuating_entries_def)
qed

lemma validated_controllers:
  "validate_controllers n names cs = Inr () \<Longrightarrow>
     distinct (map (\<lambda>c. to_ascii_lower (ct_name c)) cs) \<and> set (map (\<lambda>c. to_ascii_lower (ct_name c)) cs) \<inter> set names = {}
     \<and> list_all (\<lambda>c. ct_mode c \<noteq> Unknown \<and> \<not> has_ws (ct_account_id c) \<and> \<not> has_ws (ct_fleet_id c)
          \<and> ct_account_id c \<noteq> [] \<and> ct_fleet_id c \<noteq> []) cs"
proof (induction cs arbitrary: n names)
  case (Cons c cs)
  have fill: "check_filled n c = Inr ()" and canon: "check_canonical n c = Inr ()" and auth: "check_authority n c = Inr ()"
    and new: "to_ascii_lower (ct_name c) \<notin> set names"
    and rest: "validate_controllers (Suc n) (to_ascii_lower (ct_name c) # names) cs = Inr ()"
    using Cons.prems by (auto simp: bind_res_Inr_iff)
  have "\<not> has_ws (ct_account_id c) \<and> \<not> has_ws (ct_fleet_id c) \<and> trim (ct_account_id c) = ct_account_id c \<and> trim (ct_fleet_id c) = ct_fleet_id c"
    using canon by (simp add: check_canonical_def bind_res_Inr_iff)
  moreover have "trim (ct_account_id c) \<noteq> [] \<and> trim (ct_fleet_id c) \<noteq> []" using fill by (simp add: check_filled_def bind_res_Inr_iff)
  moreover have "ct_mode c \<noteq> Unknown" using auth by (simp add: check_authority_def bind_res_Inr_iff)
  ultimately show ?case using Cons.IH [OF rest] new by auto
qed simp

section \<open>Properties\<close>

text \<open>The preflight passes exactly when the inventory is valid and no account and no fleet, compared without
  regard to case, has two controllers that may write to it; then every controller's authority is known and no
  identifier is empty or holds white space.\<close>

theorem preflight_passes_iff:
  "preflight_run (Inr v) = Inr (check_inventory v) \<longleftrightarrow> validate_inventory v = Inr ()
     \<and> distinct (map (\<lambda>c. to_ascii_lower (ct_account_id c)) (filter (\<lambda>c. ct_mode c = Actuating) (iv_controllers v)))
     \<and> distinct (map (\<lambda>c. to_ascii_lower (ct_fleet_id c)) (filter (\<lambda>c. ct_mode c = Actuating) (iv_controllers v)))
     \<and> distinct (map (\<lambda>c. to_ascii_lower (ct_name c)) (iv_controllers v))
     \<and> list_all (\<lambda>c. ct_mode c \<noteq> Unknown \<and> \<not> has_ws (ct_account_id c) \<and> \<not> has_ws (ct_fleet_id c)
          \<and> ct_account_id c \<noteq> [] \<and> ct_fleet_id c \<noteq> []) (iv_controllers v)"
proof -
  have run: "preflight_run (Inr v) = Inr (check_inventory v) \<longleftrightarrow> validate_inventory v = Inr () \<and> conflicts_among (actuating_entries v) = []"
    by (auto simp: preflight_run_def load_inventory_def Let_def check_inventory_def bind_res_Inr_iff)
  have "validate_controllers 1 [] (iv_controllers v) = Inr ()" if "validate_inventory v = Inr ()"
    using that by (simp add: validate_inventory_def bind_res_Inr_iff)
  then show ?thesis
    unfolding run conflict_free actuating_of [of "\<lambda>c. to_ascii_lower (ct_account_id c)"]
      actuating_of [of "\<lambda>c. to_ascii_lower (ct_fleet_id c)"]
    using validated_controllers [of 1 "[]" "iv_controllers v"] by blast
qed

end
