(* ===== verification/Commands.thy ===== *)
theory Commands
  imports Governor_Run Preflight Needle
begin

text \<open>
  \<open>src/main.rs\<close>, the commands beside \<open>run\<close>: the overlap report of the peers, the readiness of the NEEDLE adapters,
  one snapshot, the recorded statuses, this instance's record, and the dispatch of the command line to an exit
  code.  Their answers are values; printing them is not modelled.
\<close>

section \<open>Overlaps of workspaces and prefixes\<close>

record workspace_overlap =
  wo_origin :: string
  wo_paths :: "(string, string list) bmap"
  wo_owner :: string
  wo_excluded :: "string list"

record prefix_overlap =
  px_prefix :: string
  px_hosts :: "string list"

text \<open>The part of an origin before a query or fragment, split into its scheme, its authority and its path.\<close>

definition origin_base :: "string \<Rightarrow> string" where
  "origin_base orig = takeWhile (\<lambda>c. c \<noteq> CHR ''?'' \<and> c \<noteq> CHR ''#'') orig"

definition origin_parts :: "string \<Rightarrow> string \<times> string \<times> string" where
  "origin_parts base = (let (scheme, rest) = (case split_once ''://'' base of
       Some (scheme, rest) \<Rightarrow> (scheme @ ''://'', rest) | None \<Rightarrow> ('''', base));
     n = unwrap_or (length rest) (find_char (CHR ''/'') rest)
   in (scheme, take n rest, drop n rest))"

definition report_origin :: "string \<Rightarrow> string" where
  "report_origin orig = (case origin_parts (origin_base orig) of (scheme, authority, path) \<Rightarrow>
     scheme @ (case rsplit_once ''@'' authority of None \<Rightarrow> authority | Some (_, host) \<Rightarrow> host) @ path)"

type_synonym origin_map = "(string, (string, string list) bmap) bmap"
type_synonym prefix_map = "(string, string list) bmap"

definition add_origin :: "string \<Rightarrow> origin_map \<Rightarrow> string \<times> string \<Rightarrow> origin_map" where
  "add_origin host m e = bm_entry [] (report_origin (snd e)) (bm_entry [] host (\<lambda>paths. paths @ [fst e])) m"

text \<open>The hosts of a prefix are a set, kept sorted.\<close>

definition add_prefix :: "string \<Rightarrow> prefix_map \<Rightarrow> string \<Rightarrow> prefix_map" where
  "add_prefix host m prefix = bm_entry [] prefix (\<lambda>hosts. insort_insert host hosts) m"

definition record_origins :: "origin_map \<Rightarrow> peer_record \<Rightarrow> origin_map" where
  "record_origins m r = foldl (add_origin (pr_host_id r)) m (pr_workspace_origins r)"

definition record_prefixes :: "prefix_map \<Rightarrow> peer_record \<Rightarrow> prefix_map" where
  "record_prefixes m r = foldl (add_prefix (pr_host_id r)) m (sorted_list_of_set (claimed_prefixes r))"

definition workspace_overlap_of ::
  "(string, string) bmap \<Rightarrow> string \<times> (string, string list) bmap \<Rightarrow> workspace_overlap option" where
  "workspace_overlap_of repo_owners e = (case e of (orig, paths) \<Rightarrow>
     if length paths < 2 then None
     else let owner = workspace_owner orig repo_owners (bm_keys paths) in
       Some \<lparr> wo_origin = orig, wo_paths = paths, wo_owner = owner,
         wo_excluded = filter (\<lambda>h. h \<noteq> owner) (bm_keys paths) \<rparr>)"

definition prefix_overlap_of :: "string \<times> string list \<Rightarrow> prefix_overlap option" where
  "prefix_overlap_of e = (if 1 < length (snd e) then Some \<lparr> px_prefix = fst e, px_hosts = snd e \<rparr> else None)"

definition all_origins :: "string \<Rightarrow> (string, string) bmap \<Rightarrow> peer_record list \<Rightarrow> origin_map" where
  "all_origins here local_origins records =
     foldl record_origins (foldl (add_origin here) [] local_origins) records"

definition all_prefixes :: "string \<Rightarrow> (string, string) bmap \<Rightarrow> peer_record list \<Rightarrow> prefix_map" where
  "all_prefixes here local_prefixes records =
     foldl record_prefixes (foldl (add_prefix here) [] (bm_vals local_prefixes)) records"

definition peer_overlaps ::
  "string \<Rightarrow> (string, string) bmap \<Rightarrow> (string, string) bmap \<Rightarrow> peer_record list \<Rightarrow> (string, string) bmap
     \<Rightarrow> workspace_overlap list \<times> prefix_overlap list" where
  "peer_overlaps here local_origins local_prefixes records repo_owners =
     (List.map_filter (workspace_overlap_of repo_owners) (all_origins here local_origins records),
      List.map_filter prefix_overlap_of (all_prefixes here local_prefixes records))"

section \<open>The report on peers\<close>

datatype pull_failure = TransportFailed | InvalidPeerRecord

record peer_status =
  pst_host :: string
  pst_staleness :: string
  pst_record_age :: "int option"
  pst_observed_at :: "datetime option"
  pst_error :: "string option"

type_synonym account_workers = "(string, nat option) bmap"

record peer_report =
  pw_host_id :: string
  pw_generated_at :: datetime
  pw_stale_after :: nat
  pw_expiry :: nat
  pw_peers :: "peer_status list"
  pw_workers :: "(string, account_workers) bmap"
  pw_overlap_complete :: bool
  pw_workspaces :: "workspace_overlap list"
  pw_prefixes :: "prefix_overlap list"

fun staleness_name :: "peer_freshness option \<Rightarrow> string" where
  "staleness_name (Some Fresh) = ''fresh''"
| "staleness_name (Some Stale) = ''stale''"
| "staleness_name (Some Expired) = ''expired''"
| "staleness_name None = ''unknown''"

fun rejection_reason :: "pull_failure + peer_record \<Rightarrow> peer_rejection \<Rightarrow> string" where
  "rejection_reason fetched (ClockSkew _ _) = ''clock_skew''"
| "rejection_reason fetched (HostMismatch _ _) = ''host_mismatch''"
| "rejection_reason fetched (Unconfigured _) = ''unconfigured_peer''"
| "rejection_reason (Inl InvalidPeerRecord) FetchFailed = ''invalid_record''"
| "rejection_reason _ FetchFailed = ''transport_failed''"

definition record_workers :: "config \<Rightarrow> peer_record \<Rightarrow> account_workers" where
  "record_workers cfg r = foldl (\<lambda>m (account, details).
       bm_put account (Some (sat_sum (map pp_governed (bm_vals (pa_pools details))))) m)
     (bm_collect (map (\<lambda>account. (account, Some 0)) (bm_keys (cf_accounts cfg)))) (pr_accounts r)"

definition unknown_workers :: "config \<Rightarrow> account_workers" where
  "unknown_workers cfg = bm_collect (map (\<lambda>account. (account, None)) (bm_keys (cf_accounts cfg)))"

text \<open>One peer: the table, the workers per host, the accepted records and the statuses.\<close>

type_synonym poll_state = "peer_table \<times> (string, account_workers) bmap \<times> peer_record list \<times> peer_status list"

definition fetched_record :: "pull_failure + peer_record \<Rightarrow> peer_record option" where
  "fetched_record f = (case f of Inl _ \<Rightarrow> None | Inr r \<Rightarrow> Some r)"

definition accepted_status :: "chrono \<Rightarrow> string \<Rightarrow> peer_freshness option \<Rightarrow> peer_moment \<Rightarrow> peer_record \<Rightarrow> peer_status" where
  "accepted_status ch host fresh now r = \<lparr> pst_host = host, pst_staleness = staleness_name fresh,
     pst_record_age = Some (num_seconds ch (pm_wall now - pr_observed_at r)), pst_observed_at = Some (pr_observed_at r),
     pst_error = None \<rparr>"

definition rejected_status :: "string \<Rightarrow> string \<Rightarrow> peer_status" where
  "rejected_status host reason = \<lparr> pst_host = host, pst_staleness = ''stale'', pst_record_age = None, pst_observed_at = None,
     pst_error = Some reason \<rparr>"

definition poll_peer ::
  "chrono \<Rightarrow> config \<Rightarrow> (peer_config \<Rightarrow> pull_failure + peer_record) \<Rightarrow> (peer_config \<Rightarrow> peer_moment) \<Rightarrow> peer_config
     \<Rightarrow> poll_state \<Rightarrow> poll_state res" where
  "poll_peer ch cfg pull moment peer st = (case st of (t, workers, records, statuses) \<Rightarrow>
     (let fetched = pull peer; now = moment peer; host = pc_host_id peer in
      case ingest ch t peer (fetched_record fetched) now of
        (t, Inl e) \<Rightarrow> Inr (t, bm_put host (unknown_workers cfg) workers, records,
          statuses @ [rejected_status host (rejection_reason fetched e)])
      | (t, Inr _) \<Rightarrow> (case fetched_record fetched of
          None \<Rightarrow> Inl (Panic ''accepted pull has a record'')
        | Some r \<Rightarrow> (case freshness t host now of (t, f) \<Rightarrow>
            Inr (t, bm_put host (record_workers cfg r) workers, records @ [r],
              statuses @ [accepted_status ch host f now r])))))"

fun poll_peers ::
  "chrono \<Rightarrow> config \<Rightarrow> (peer_config \<Rightarrow> pull_failure + peer_record) \<Rightarrow> (peer_config \<Rightarrow> peer_moment) \<Rightarrow> peer_config list
     \<Rightarrow> poll_state \<Rightarrow> poll_state res" where
  "poll_peers ch cfg pull moment [] st = Inr st"
| "poll_peers ch cfg pull moment (p # ps) st =
     bind_res (poll_peer ch cfg pull moment p st) (poll_peers ch cfg pull moment ps)"

text \<open>What the command reads: the current workers of the status file, the clock, and the answers of the peers.\<close>

record peers_env =
  qe_chrono :: chrono
  qe_files :: local_files
  qe_status :: "(string, nat option) bmap"
  qe_started :: instant
  qe_pull :: "peer_config \<Rightarrow> pull_failure + peer_record"
  qe_moment :: "peer_config \<Rightarrow> peer_moment"
  qe_generated_at :: datetime

definition local_workers :: "config \<Rightarrow> (string, nat option) bmap \<Rightarrow> account_workers" where
  "local_workers cfg status = bm_collect (map (\<lambda>account. (account, Option.bind (bm_get status account) (\<lambda>n. n)))
     (bm_keys (cf_accounts cfg)))"

definition peers_report :: "peers_env \<Rightarrow> config \<Rightarrow> run_end + peer_report" where
  "peers_report env cfg = (case cf_federation cfg of
     None \<Rightarrow> Inl (Failed (CliError ''peers requires a federation: block (federation.host_id)''))
   | Some f \<Rightarrow>
       (let origins = local_workspace_origins (lf_git (qe_files env)) (lf_demand (qe_files env)) cfg;
            workers = [(fc_host_id f, local_workers cfg (qe_status env))]
        in or_end StateError (bind_res (poll_peers (qe_chrono env) cfg (qe_pull env) (qe_moment env) (fc_peers f)
             (new_table f (qe_started env), workers, [], [])) (\<lambda>(t, workers, records, statuses).
           let (workspaces, prefixes) = peer_overlaps (fc_host_id f) origins (local_worker_prefixes cfg) records (fc_repo_owners f)
           in Inr \<lparr> pw_host_id = fc_host_id f, pw_generated_at = qe_generated_at env, pw_stale_after = fc_stale_after f,
                pw_expiry = fc_expiry f, pw_peers = statuses, pw_workers = workers,
                pw_overlap_complete = (length records = length (fc_peers f)), pw_workspaces = workspaces,
                pw_prefixes = prefixes \<rparr>))))"

section \<open>Doctor\<close>

definition host_needle :: "string \<Rightarrow> string \<times> host_config \<Rightarrow> (string \<times> string option \<times> string) option" where
  "host_needle account e = (case hc_actuator (snd e) of
     NeedleRun repo adapter p d s \<Rightarrow> Some (account, Some (fst e), adapter) | _ \<Rightarrow> None)"

definition doctor_targets :: "config \<Rightarrow> (string \<times> string option \<times> string) list" where
  "doctor_targets cfg = concat (map (\<lambda>(account, a). case fl_hosts (ac_fleet a) of
       Some hosts \<Rightarrow> List.map_filter (host_needle account) hosts
     | None \<Rightarrow> (case fl_actuator (ac_fleet a) of NeedleRun repo adapter p d s \<Rightarrow> [(account, None, adapter)] | _ \<Rightarrow> []))
     (cf_accounts cfg))"

definition doctor ::
  "(string \<Rightarrow> program_output res) \<Rightarrow> config \<Rightarrow> (string \<times> string option \<times> string \<times> unit res) list \<times> run_end" where
  "doctor probe cfg =
     (let checks = map (\<lambda>(account, host, adapter). (account, host, adapter, check_needle_adapter adapter (probe adapter)))
            (doctor_targets cfg);
          failures = length (filter (\<lambda>(_, _, _, r). r \<noteq> Inr ()) checks)
      in (checks, if 0 < failures
          then Failed (DoctorError (dec failures @ '' configured NEEDLE adapter(s) failed readiness checks'')) else Finished))"

section \<open>Snapshot, status and record\<close>

datatype snapshot_answer = QuotaAnswer quota_snapshot | ResourceAnswer resource_snapshot

definition configured_host_resource_source :: "account_config \<Rightarrow> string \<Rightarrow> string \<Rightarrow> resource_source_config res" where
  "configured_host_resource_source a account host =
     (case opt_filter (\<lambda>hosts. hosts \<noteq> []) (fl_hosts (ac_fleet a)) of
        None \<Rightarrow> Inl (Bail (''account '' @ account @ '' does not configure fleet.hosts''))
      | Some hosts \<Rightarrow> (case bm_get hosts host of
          None \<Rightarrow> Inl (Bail (''account '' @ account @ '' has no configured host '' @ host))
        | Some h \<Rightarrow> (case hc_resource_source h of
            None \<Rightarrow> Inl (Bail (''account '' @ account @ '' host '' @ host @ '' has no resource_source configured''))
          | Some src \<Rightarrow> Inr src)))"

definition bind_end :: "run_end + 'a \<Rightarrow> ('a \<Rightarrow> run_end + 'b) \<Rightarrow> run_end + 'b" where
  "bind_end r f = (case r of Inl e \<Rightarrow> Inl e | Inr x \<Rightarrow> f x)"

definition snapshot_command ::
  "(source_config \<Rightarrow> quota_snapshot res) \<Rightarrow> (resource_source_config \<Rightarrow> resource_snapshot res) \<Rightarrow> config \<Rightarrow> string
     \<Rightarrow> string option \<Rightarrow> run_end + snapshot_answer" where
  "snapshot_command quota resource cfg account host = (case bm_get (cf_accounts cfg) account of
     None \<Rightarrow> Inl (Failed (CliError (''unknown account '' @ account)))
   | Some a \<Rightarrow> (case host of
       Some h \<Rightarrow> bind_end (or_end CliError (configured_host_resource_source a account h)) (\<lambda>src.
         or_end SourceError (bind_res (collect_host_resource resource h src) (\<lambda>s. Inr (ResourceAnswer s))))
     | None \<Rightarrow> or_end SourceError (bind_res (quota (ac_source a)) (\<lambda>s. Inr (QuotaAnswer s)))))"

text \<open>The status file as it is read: an error, no file, or its parsed content.\<close>

definition status_command ::
  "(string, account_readiness) bmap res option res \<Rightarrow> config \<Rightarrow> run_end + (string \<times> account_readiness option) list" where
  "status_command file cfg = or_end StateError (bind_res file (\<lambda>f.
     bind_res (case f of None \<Rightarrow> Inr [] | Some parsed \<Rightarrow> parsed) (\<lambda>recorded.
       Inr (map (\<lambda>name. (name, bm_get recorded name)) (bm_keys (cf_accounts cfg))))))"

section \<open>The command line\<close>

datatype command = CheckCmd | SnapshotCmd string "string option" | RunCmd bool bool | StatusCmd | PeerStateCmd | PeersCmd
  | DoctorCmd | PreflightCmd | DashboardCmd

text \<open>What the commands read.\<close>

record cli_env =
  ce_config :: "config res"
  ce_inventory :: "inventory res"
  ce_dashboard :: "unit res"
  ce_quota :: "source_config \<Rightarrow> quota_snapshot res"
  ce_resource :: "resource_source_config \<Rightarrow> resource_snapshot res"
  ce_status :: "(string, account_readiness) bmap res option res"
  ce_files :: local_files
  ce_now :: datetime
  ce_peers :: peers_env
  ce_probe :: "string \<Rightarrow> program_output res"
  ce_codec :: state_codec
  ce_boot :: boot
  ce_turns :: "turn list"

definition end_result :: "run_end + 'a \<Rightarrow> run_end" where
  "end_result r = (case r of Inl e \<Rightarrow> e | Inr _ \<Rightarrow> Finished)"

fun dispatch_command :: "cli_env \<Rightarrow> config \<Rightarrow> command \<Rightarrow> run_end" where
  "dispatch_command env cfg CheckCmd = Finished"
| "dispatch_command env cfg (SnapshotCmd account host) =
     end_result (snapshot_command (ce_quota env) (ce_resource env) cfg account host)"
| "dispatch_command env cfg (RunCmd once observe_only) =
     snd (snd (run_governor (ce_codec env) cfg once observe_only (ce_boot env) (ce_turns env)))"
| "dispatch_command env cfg StatusCmd = end_result (status_command (ce_status env) cfg)"
| "dispatch_command env cfg PeerStateCmd = end_result (or_end StateError (build_local_record cfg (ce_files env) (ce_now env)))"
| "dispatch_command env cfg PeersCmd = end_result (peers_report (ce_peers env) cfg)"
| "dispatch_command env cfg DoctorCmd = snd (doctor (ce_probe env) cfg)"
| "dispatch_command env cfg _ = Crashed ''handled before config loading''"

definition run_cli :: "cli_env \<Rightarrow> command \<Rightarrow> run_end" where
  "run_cli env cmd = (case cmd of
     PreflightCmd \<Rightarrow> end_result (or_end CliError (preflight_run (ce_inventory env)))
   | DashboardCmd \<Rightarrow> end_result (or_end StateError (ce_dashboard env))
   | _ \<Rightarrow> end_result (bind_end (or_end CliError (ce_config env)) (\<lambda>cfg.
       case dispatch_command env cfg cmd of Finished \<Rightarrow> Inr () | e \<Rightarrow> Inl e)))"

end
