(* ===== verification/Command_Laws.thy ===== *)
theory Command_Laws
  imports Commands
begin

text \<open>
  Lemmas on the overlap report: what a reported origin still carries, and which hosts claim an origin in the
  nested maps of the report.
\<close>

section \<open>Reported origins\<close>

lemma rsplit_at: "rsplit_once [c] s = None \<Longrightarrow> c \<notin> set s" "rsplit_once [c] s = Some (a, b) \<Longrightarrow> c \<notin> set b"
proof -
  have "(rsplit_once [c] s = None \<longrightarrow> c \<notin> set s) \<and> (\<forall>a b. rsplit_once [c] s = Some (a, b) \<longrightarrow> c \<notin> set b)"
    by (induction s) (auto simp: starts_with_def split: option.splits if_splits)
  then show "rsplit_once [c] s = None \<Longrightarrow> c \<notin> set s" "rsplit_once [c] s = Some (a, b) \<Longrightarrow> c \<notin> set b" by blast+
qed

lemma rsplit_none: "c \<notin> set s \<Longrightarrow> rsplit_once [c] s = None"
  by (induction s) (auto simp: starts_with_def)

lemma rsplit_suffix: "rsplit_once [c] s = Some (a, b) \<Longrightarrow> s = a @ c # b"
  by (induction s arbitrary: a) (auto simp: starts_with_def split: option.splits if_splits)

lemma starts_with_local: "length p \<le> length t \<Longrightarrow> starts_with p (t @ x) = starts_with p (t @ y)"
  by (simp add: starts_with_def)

lemma split_once_first:
  assumes "p \<noteq> []" "split_once p s = Some (a, b)"
  shows "split_once p (a @ p @ x) = Some (a, x)"
  using assms(2)
proof (induction s arbitrary: a)
  case (Cons c s)
  show ?case
  proof (cases "starts_with p (c # s)")
    case True
    then have "a = []" using Cons.prems by simp
    then show ?thesis using assms(1) by (cases p) (auto simp: starts_with_def)
  next
    case False
    then obtain a' where a: "split_once p s = Some (a', b)" "a = c # a'" using Cons.prems by auto
    have "s = a' @ p @ b" using split_once_Some [OF a(1)] .
    then have "\<not> starts_with p (c # a' @ p @ x)"
      using False starts_with_local [of p "c # a' @ p" b x] by simp
    then show ?thesis using Cons.IH [OF a(1)] a(2) by simp
  qed
qed (use assms(1) in simp)

lemma split_once_suffix: "split_once p (t @ s) = None \<Longrightarrow> split_once p s = None"
  by (induction t) (auto split: if_splits)

lemma find_char_take: "n = unwrap_or (length s) (find_char c s) \<Longrightarrow> c \<notin> set (take n s) \<and> (drop n s = [] \<or> hd (drop n s) = c)"
proof (induction s arbitrary: n)
  case (Cons d s)
  then show ?case by (cases "find_char c s") (auto split: if_splits)
qed simp

lemma find_char_split: "c \<notin> set h \<Longrightarrow> p = [] \<or> hd p = c \<Longrightarrow> unwrap_or (length (h @ p)) (find_char c (h @ p)) = length h"
proof (induction h)
  case Nil
  then show ?case by (cases p) auto
next
  case (Cons d h)
  then show ?case by (cases "find_char c (h @ p)") auto
qed

lemma report_parts:
  assumes "origin_parts (origin_base orig) = (scheme, authority, path)"
  obtains host where "report_origin orig = scheme @ host @ path" "CHR ''@'' \<notin> set host"
    "origin_parts (report_origin orig) = (scheme, host, path)" "\<exists>t. authority = t @ host"
proof -
  define base where "base = origin_base orig"
  obtain s rest where sr: "(case split_once ''://'' base of Some (s, rest) \<Rightarrow> (s @ ''://'', rest) | None \<Rightarrow> ('''', base)) = (s, rest)"
    by fastforce
  define n where "n = unwrap_or (length rest) (find_char (CHR ''/'') rest)"
  have p: "scheme = s" "authority = take n rest" "path = drop n rest"
    using assms sr by (simp_all add: origin_parts_def base_def [symmetric] n_def Let_def)
  define host where "host = (case rsplit_once ''@'' authority of None \<Rightarrow> authority | Some (_, h) \<Rightarrow> h)"
  obtain t where t: "authority = t @ host"
  proof (cases "rsplit_once ''@'' authority")
    case None
    then show ?thesis using that [of "[]"] by (simp add: host_def)
  next
    case (Some q)
    then obtain a b where q: "rsplit_once ''@'' authority = Some (a, b)" by (cases q) simp
    then show ?thesis using that [of "a @ ''@''"] rsplit_suffix [OF q] by (simp add: host_def)
  qed
  have at: "CHR ''@'' \<notin> set host" using rsplit_at unfolding host_def by (cases "rsplit_once ''@'' authority") auto
  have r: "report_origin orig = scheme @ host @ path" by (simp add: report_origin_def assms host_def)
  have "CHR ''/'' \<notin> set authority" "path = [] \<or> hd path = CHR ''/''" using find_char_take [OF n_def] p by auto
  then have cut: "unwrap_or (length (host @ path)) (find_char (CHR ''/'') (host @ path)) = length host"
    using t by (intro find_char_split) auto
  have "origin_parts (report_origin orig) = (scheme, host, path)"
  proof (cases "split_once ''://'' base")
    case None
    then have s: "s = []" "rest = base" using sr by simp_all
    have "base = authority @ path" using p(2,3) s append_take_drop_id [of n rest] by simp
    then have "base = t @ host @ path" using t by simp
    then have "split_once ''://'' (host @ path) = None" using None split_once_suffix [of "''://''" t "host @ path"] by simp
    then show ?thesis using cut s p(1) by (simp add: r origin_parts_def)
  next
    case (Some q)
    then obtain a b where q: "split_once ''://'' base = Some (a, b)" by (cases q) simp
    then have s: "s = a @ ''://''" using sr by simp
    have "split_once ''://'' (a @ ''://'' @ host @ path) = Some (a, host @ path)" using split_once_first [OF _ q] by simp
    then show ?thesis using cut s p(1) by (simp add: r origin_parts_def)
  qed
  then show ?thesis using r at t that by blast
qed

lemma origin_base_chars: "CHR ''?'' \<notin> set (origin_base orig)" "CHR ''#'' \<notin> set (origin_base orig)"
  unfolding origin_base_def by (auto dest: set_takeWhileD)

lemma origin_base_same: "CHR ''?'' \<notin> set orig \<Longrightarrow> CHR ''#'' \<notin> set orig \<Longrightarrow> origin_base orig = orig"
  unfolding origin_base_def by (rule takeWhile_eq_all_conv [THEN iffD2]) auto

lemma origin_parts_append: "origin_parts base = (scheme, authority, path) \<Longrightarrow> base = scheme @ authority @ path"
  by (auto simp: origin_parts_def Let_def split: option.splits prod.splits dest!: split_once_Some)

lemma report_origin_chars: "CHR ''?'' \<notin> set (report_origin orig)" "CHR ''#'' \<notin> set (report_origin orig)"
proof -
  obtain s a p where parts: "origin_parts (origin_base orig) = (s, a, p)" by (cases "origin_parts (origin_base orig)")
  from report_parts [OF this] obtain h where "report_origin orig = s @ h @ p" "\<exists>t. a = t @ h" by metis
  then have "set (report_origin orig) \<subseteq> set (origin_base orig)" using origin_parts_append [OF parts] by auto
  then show "CHR ''?'' \<notin> set (report_origin orig)" "CHR ''#'' \<notin> set (report_origin orig)"
    using origin_base_chars by blast+
qed

lemma report_origin_idem: "report_origin (report_origin orig) = report_origin orig"
proof -
  obtain s a p where parts: "origin_parts (origin_base orig) = (s, a, p)" by (cases "origin_parts (origin_base orig)")
  from report_parts [OF this] obtain h where h: "report_origin orig = s @ h @ p" "CHR ''@'' \<notin> set h"
    "origin_parts (report_origin orig) = (s, h, p)" by metis
  have "origin_base (report_origin orig) = report_origin orig" by (intro origin_base_same report_origin_chars)
  then have "origin_parts (origin_base (report_origin orig)) = (s, h, p)" using h(3) by simp
  then show ?thesis using h(1,2) by (subst report_origin_def) (simp add: rsplit_none)
qed

section \<open>Claimants\<close>

definition claims :: "origin_map \<Rightarrow> (string \<times> string) set" where
  "claims m = {(orig, host). \<exists>paths. bm_get m orig = Some paths \<and> bm_get paths host \<noteq> None}"

definition origins_ok :: "origin_map \<Rightarrow> bool" where
  "origins_ok m = (bm_ok m \<and> (\<forall>orig paths. bm_get m orig = Some paths \<longrightarrow> bm_ok paths \<and> paths \<noteq> []))"

lemma claims_put_nonempty [simp]: "bm_put k v m \<noteq> []"
  by (cases "(k, v, m)" rule: bm_put.cases) auto

lemma add_origin_claims:
  assumes "origins_ok m"
  shows "origins_ok (add_origin host m e)" "claims (add_origin host m e) = insert (report_origin (snd e), host) (claims m)"
proof -
  let ?o = "report_origin (snd e)"
  have inner: "bm_ok (unwrap_or [] (bm_get m ?o))"
    using assms by (cases "bm_get m ?o") (auto simp: origins_ok_def bm.inv_emp)
  show "origins_ok (add_origin host m e)"
    using assms inner by (auto simp: origins_ok_def add_origin_def bm_get_entry bm_ok_entry) (simp add: bm_entry_def)
  show "claims (add_origin host m e) = insert (?o, host) (claims m)"
    by (cases "bm_get m ?o") (auto simp: claims_def add_origin_def bm_get_entry bm.look_emp split: if_splits)
qed

lemma foldl_origin_claims:
  assumes "origins_ok m"
  shows "origins_ok (foldl (add_origin host) m es)
    \<and> claims (foldl (add_origin host) m es) = claims m \<union> (\<lambda>e. (report_origin (snd e), host)) ` set es"
  using assms by (induction es arbitrary: m) (auto simp: add_origin_claims)

lemma foldl_record_claims:
  assumes "origins_ok m"
  shows "origins_ok (foldl record_origins m records)
    \<and> claims (foldl record_origins m records) = claims m
      \<union> (\<Union>r \<in> set records. (\<lambda>e. (report_origin (snd e), pr_host_id r)) ` set (pr_workspace_origins r))"
  using assms
proof (induction records arbitrary: m)
  case (Cons r records)
  have "origins_ok (record_origins m r)" "claims (record_origins m r)
      = claims m \<union> (\<lambda>e. (report_origin (snd e), pr_host_id r)) ` set (pr_workspace_origins r)"
    using foldl_origin_claims [OF Cons.prems] by (simp_all add: record_origins_def)
  then show ?case using Cons.IH [of "record_origins m r"] by auto
qed simp

lemma all_origins_claims:
  "origins_ok (all_origins here local_origins records)"
  "claims (all_origins here local_origins records) = (\<lambda>e. (report_origin (snd e), here)) ` set local_origins
     \<union> (\<Union>r \<in> set records. (\<lambda>e. (report_origin (snd e), pr_host_id r)) ` set (pr_workspace_origins r))"
proof -
  have e: "origins_ok []" "claims [] = {}" by (simp_all add: origins_ok_def claims_def bm.inv_emp bm.look_emp)
  show "origins_ok (all_origins here local_origins records)"
    "claims (all_origins here local_origins records) = (\<lambda>e. (report_origin (snd e), here)) ` set local_origins
     \<union> (\<Union>r \<in> set records. (\<lambda>e. (report_origin (snd e), pr_host_id r)) ` set (pr_workspace_origins r))"
    using foldl_origin_claims [OF e(1), of here local_origins] foldl_record_claims
    by (auto simp: all_origins_def e(2))
qed

lemma min_of_set:
  assumes "set xs = set ys"
  shows "min_by_key (\<lambda>c. c) xs = min_by_key (\<lambda>c. c) (ys :: string list)"
proof (cases "min_by_key (\<lambda>c. c) xs")
  case None
  then show ?thesis using assms by simp
next
  case (Some x)
  then have "ys \<noteq> []" using assms by auto
  then obtain y where y: "min_by_key (\<lambda>c. c) ys = Some y" by fastforce
  then show ?thesis using min_by_key_Some [OF Some] min_by_key_Some [OF y] Some assms by (auto intro: antisym)
qed

lemma workspace_owner_set: "set xs = set ys \<Longrightarrow> workspace_owner orig owners xs = workspace_owner orig owners ys"
  unfolding workspace_owner_def by (subst min_of_set [of xs ys]) simp_all

text \<open>The overlap reported for an origin, from the hosts that claim it.\<close>

lemma overlap_reported:
  assumes "origins_ok m"
  shows "(\<exists>w \<in> set (List.map_filter (workspace_overlap_of owners) m). wo_origin w = orig \<and> host \<in> set (wo_excluded w))
    \<longleftrightarrow> (\<exists>hosts. set hosts = {h. (orig, h) \<in> claims m} \<and> distinct hosts \<and> 2 \<le> length hosts \<and> host \<in> set hosts
          \<and> workspace_owner orig owners hosts \<noteq> host)" (is "?L \<longleftrightarrow> ?R")
proof -
  have keys: "set (bm_keys paths) = {h. (orig, h) \<in> claims m} \<and> distinct (bm_keys paths)" if "bm_get m orig = Some paths" for paths
    using that assms bm.keys_look [of paths] bm.keys_distinct [of paths] by (auto simp: claims_def origins_ok_def)
  have "?L \<longleftrightarrow> (\<exists>paths. (orig, paths) \<in> set m \<and> \<not> length paths < 2 \<and> host \<in> set (bm_keys paths)
      \<and> workspace_owner orig owners (bm_keys paths) \<noteq> host)"
  proof
    assume ?L
    then obtain o1 paths w where w: "(o1, paths) \<in> set m" "workspace_overlap_of owners (o1, paths) = Some w" "wo_origin w = orig"
      "host \<in> set (wo_excluded w)"
      by (auto simp: List.map_filter_def)
    have "o1 = orig \<and> \<not> length paths < 2 \<and> host \<in> set (bm_keys paths) \<and> workspace_owner orig owners (bm_keys paths) \<noteq> host"
      using w(2-4) by (auto simp: workspace_overlap_of_def Let_def split: if_splits)
    then show "\<exists>paths. (orig, paths) \<in> set m \<and> \<not> length paths < 2 \<and> host \<in> set (bm_keys paths)
      \<and> workspace_owner orig owners (bm_keys paths) \<noteq> host"
      using w(1) by blast
  next
    assume "\<exists>paths. (orig, paths) \<in> set m \<and> \<not> length paths < 2 \<and> host \<in> set (bm_keys paths)
      \<and> workspace_owner orig owners (bm_keys paths) \<noteq> host"
    then obtain paths where p: "(orig, paths) \<in> set m" "\<not> length paths < 2" "host \<in> set (bm_keys paths)"
      "workspace_owner orig owners (bm_keys paths) \<noteq> host" by blast
    let ?w = "\<lparr> wo_origin = orig, wo_paths = paths, wo_owner = workspace_owner orig owners (bm_keys paths),
      wo_excluded = filter (\<lambda>h. h \<noteq> workspace_owner orig owners (bm_keys paths)) (bm_keys paths) \<rparr>"
    have "workspace_overlap_of owners (orig, paths) = Some ?w" using p(2) by (simp add: workspace_overlap_of_def Let_def)
    then have "?w \<in> set (List.map_filter (workspace_overlap_of owners) m)"
      using p(1) by (force simp: List.map_filter_def)
    then show ?L using p(3,4) by (intro bexI [of _ ?w]) auto
  qed
  also have "\<dots> \<longleftrightarrow> (\<exists>paths. bm_get m orig = Some paths \<and> \<not> length paths < 2 \<and> host \<in> set (bm_keys paths)
      \<and> workspace_owner orig owners (bm_keys paths) \<noteq> host)"
    using assms bm_get_Some_iff [of m orig] by (auto simp: origins_ok_def)
  also have "\<dots> \<longleftrightarrow> ?R"
  proof
    assume "\<exists>paths. bm_get m orig = Some paths \<and> \<not> length paths < 2 \<and> host \<in> set (bm_keys paths)
      \<and> workspace_owner orig owners (bm_keys paths) \<noteq> host"
    then obtain paths where "bm_get m orig = Some paths" "\<not> length paths < 2" "host \<in> set (bm_keys paths)"
      "workspace_owner orig owners (bm_keys paths) \<noteq> host" by blast
    then show ?R using keys by (intro exI [of _ "bm_keys paths"]) (auto simp: bm_keys_def)
  next
    assume ?R
    then obtain hosts where h: "set hosts = {h. (orig, h) \<in> claims m}" "distinct hosts" "2 \<le> length hosts" "host \<in> set hosts"
      "workspace_owner orig owners hosts \<noteq> host" by blast
    then obtain paths where p: "bm_get m orig = Some paths" by (auto simp: claims_def)
    then have same: "set (bm_keys paths) = set hosts" using keys h(1) by simp
    then have "length (bm_keys paths) = length hosts" using keys [OF p] h(2) by (metis distinct_card)
    then show "\<exists>paths. bm_get m orig = Some paths \<and> \<not> length paths < 2 \<and> host \<in> set (bm_keys paths)
      \<and> workspace_owner orig owners (bm_keys paths) \<noteq> host"
      using p h same workspace_owner_set [OF same, of orig owners] by (auto simp: bm_keys_def)
  qed
  finally show ?thesis .
qed

lemma excluded_iff:
  assumes "bm_ok local_origins" "(path, orig) \<in> set local_origins"
  shows "bm_get (vd_excluded (resolve_workspace_overlap here local_origins records owners)) path = Some orig \<longleftrightarrow>
    peers_with_origin records orig \<noteq> [] \<and> workspace_owner orig owners (here # peers_with_origin records orig) \<noteq> here"
proof -
  let ?evs = "List.map_filter (overlap_entry here records owners) local_origins"
  have d: "distinct (map fst local_origins)" using assms(1) bm.keys_distinct [of local_origins] by (simp add: bm_keys_def)
  have ev: "map (\<lambda>e. (ov_workspace e, ov_origin e)) ?evs = filter (\<lambda>e. overlap_entry here records owners e \<noteq> None) local_origins"
    by (induction local_origins) (auto simp: List.map_filter_def overlap_entry_def Let_def split: if_splits)
  let ?es = "filter (\<lambda>e. overlap_entry here records owners e \<noteq> None) local_origins"
  have "distinct (map fst ?es)" using d by (induction local_origins) auto
  then have "map_of (rev ?es) path = Some orig \<longleftrightarrow> (path, orig) \<in> set ?es"
    by (subst map_of_eq_Some_iff) (simp_all add: rev_map [symmetric])
  moreover have "bm_get (bm_collect ?es) path = map_of (rev ?es) path"
    by (simp add: bm_collect_def bm.look_foldl_put bm.look_emp split: option.split)
  ultimately have "bm_get (bm_collect ?es) path = Some orig \<longleftrightarrow> overlap_entry here records owners (path, orig) \<noteq> None"
    using assms(2) by auto
  then show ?thesis by (simp add: resolve_workspace_overlap_def Let_def ev overlap_entry_def)
qed

section \<open>Doctor\<close>

lemma doctor_passes_iff: "snd (doctor probe cfg) = Finished \<longleftrightarrow>
    list_all (\<lambda>(account, host, adapter). check_needle_adapter adapter (probe adapter) = Inr ()) (doctor_targets cfg)"
  by (auto simp: doctor_def Let_def list_all_iff filter_empty_conv case_prod_beta)

end
