(* ===== verification/Command_Properties.thy ===== *)
theory Command_Properties
  imports Command_Laws Cycle_Samples
begin

text \<open>
  Properties of the commands beside \<open>run\<close>: the overlap report agrees with the exclusions the cycle acts on and
  gives away no credentials, a rejected peer contributes nothing, and what a command's exit code means.
\<close>

section \<open>The overlap report\<close>

text \<open>C39: The report of the peers and the exclusions of the cycle agree: for origins in their sanitised form, a local
  workspace is excluded by the cycle exactly when the report names its origin with this host among the
  excluded ones.\<close>

theorem report_matches_exclusions:
  assumes "bm_ok local_origins" "(path, orig) \<in> set local_origins" "here \<notin> pr_host_id ` set records"
    and "list_all (\<lambda>e. report_origin (snd e) = snd e) local_origins"
    and "list_all (\<lambda>r. list_all (\<lambda>e. report_origin (snd e) = snd e) (pr_workspace_origins r)) records"
  shows "(\<exists>w \<in> set (fst (peer_overlaps here local_origins prefixes records owners)).
        wo_origin w = orig \<and> here \<in> set (wo_excluded w))
    \<longleftrightarrow> bm_get (vd_excluded (resolve_workspace_overlap here local_origins records owners)) path = Some orig"
proof -
  let ?m = "all_origins here local_origins records" and ?peers = "peers_with_origin records orig"
  have "(\<lambda>e. (report_origin (snd e), here)) ` set local_origins = (\<lambda>e. (snd e, here)) ` set local_origins"
    by (rule image_cong) (use assms(4) in \<open>auto simp: list_all_iff\<close>)
  moreover have "(\<lambda>e. (report_origin (snd e), pr_host_id r)) ` set (pr_workspace_origins r)
      = (\<lambda>e. (snd e, pr_host_id r)) ` set (pr_workspace_origins r)" if "r \<in> set records" for r
    by (rule image_cong) (use assms(5) that in \<open>auto simp: list_all_iff\<close>)
  ultimately have c: "claims ?m = (\<lambda>e. (snd e, here)) ` set local_origins
      \<union> (\<Union>r \<in> set records. (\<lambda>e. (snd e, pr_host_id r)) ` set (pr_workspace_origins r))"
    by (simp add: all_origins_claims(2))
  have "(orig, h) \<in> claims ?m \<longleftrightarrow> h = here \<or> h \<in> set ?peers" for h
    unfolding c using assms(2) by (auto simp: peers_with_origin_def bm_vals_def intro: rev_image_eqI)
  then have claim: "{h. (orig, h) \<in> claims ?m} = insert here (set ?peers)" by auto
  have new: "here \<notin> set ?peers" using assms(3) by (auto simp: peers_with_origin_def)
  have "(\<exists>hosts. set hosts = insert here (set ?peers) \<and> distinct hosts \<and> 2 \<le> length hosts \<and> here \<in> set hosts
      \<and> workspace_owner orig owners hosts \<noteq> here)
    \<longleftrightarrow> ?peers \<noteq> [] \<and> workspace_owner orig owners (here # ?peers) \<noteq> here"
  proof
    assume "\<exists>hosts. set hosts = insert here (set ?peers) \<and> distinct hosts \<and> 2 \<le> length hosts \<and> here \<in> set hosts
      \<and> workspace_owner orig owners hosts \<noteq> here"
    then obtain hosts where h: "set hosts = insert here (set ?peers)" "distinct hosts" "2 \<le> length hosts"
      "workspace_owner orig owners hosts \<noteq> here" by blast
    have "?peers \<noteq> []"
    proof
      assume "?peers = []"
      then have "card (set hosts) = 1" by (simp add: h(1))
      then show False using h(2,3) by (simp add: distinct_card)
    qed
    then show "?peers \<noteq> [] \<and> workspace_owner orig owners (here # ?peers) \<noteq> here"
      using h(1,4) workspace_owner_set [of hosts "here # ?peers" orig owners] by simp
  next
    assume p: "?peers \<noteq> [] \<and> workspace_owner orig owners (here # ?peers) \<noteq> here"
    let ?h = "remdups (here # ?peers)"
    have "remdups ?peers \<noteq> []" using p by simp
    then have two: "2 \<le> length ?h" using new by (cases "remdups ?peers") auto
    have own: "workspace_owner orig owners ?h = workspace_owner orig owners (here # ?peers)"
      by (rule workspace_owner_set) (simp only: set_remdups)
    have "set ?h = insert here (set ?peers)" "here \<in> set ?h" unfolding set_remdups by simp_all
    then show "\<exists>hosts. set hosts = insert here (set ?peers) \<and> distinct hosts \<and> 2 \<le> length hosts \<and> here \<in> set hosts
      \<and> workspace_owner orig owners hosts \<noteq> here"
      using p own two distinct_remdups by metis
  qed
  then show ?thesis
    using overlap_reported [OF all_origins_claims(1), of owners here local_origins records orig here]
      excluded_iff [OF assms(1,2), of here records owners]
    by (simp add: peer_overlaps_def claim)
qed

definition north3 :: peer_record where
  "north3 = west3\<lparr> pr_workspace_origins := [(''/w'', ''git:repo'')] \<rparr>"

theorem report_matches_exclusions_witness:
  "\<exists>w \<in> set (fst (peer_overlaps ''east'' [(''/e'', ''git:repo'')] [] [north3] [(''git:repo'', ''west'')])).
     wo_origin w = ''git:repo'' \<and> ''east'' \<in> set (wo_excluded w)"
proof -
  have n: "report_origin ''git:repo'' = ''git:repo''"
    by (simp add: report_origin_def origin_base_def origin_parts_def starts_with_def)
  have "bm_get (vd_excluded (resolve_workspace_overlap ''east'' [(''/e'', ''git:repo'')] [north3] [(''git:repo'', ''west'')])) ''/e''
      = Some ''git:repo''"
    by (simp add: resolve_workspace_overlap_def overlap_entry_def peers_with_origin_def north3_def bm_vals_def workspace_owner_def
        bm_get_def List.map_filter_def bm_collect_def)
  moreover have "pr_host_id north3 \<noteq> ''east''" by (simp add: north3_def)
  ultimately show ?thesis
    using report_matches_exclusions [of "[(''/e'', ''git:repo'')]" "''/e''" "''git:repo''" "''east''" "[north3]" "[]" "[(''git:repo'', ''west'')]"]
    by (simp add: n bm_ok_def north3_def)
qed

text \<open>Whatever a peer publishes as an origin, the report prints no query and no fragment, and nothing before an at
  sign in the authority, where a credential can stand; sanitising what is printed changes nothing.\<close>

theorem report_hides_credentials:
  "list_all (\<lambda>w. CHR ''?'' \<notin> set (wo_origin w) \<and> CHR ''#'' \<notin> set (wo_origin w)
      \<and> CHR ''@'' \<notin> set (fst (snd (origin_parts (wo_origin w)))) \<and> report_origin (wo_origin w) = wo_origin w)
    (fst (peer_overlaps here local_origins prefixes records owners))"
proof -
  have "\<exists>o1. wo_origin w = report_origin o1" if w: "w \<in> set (fst (peer_overlaps here local_origins prefixes records owners))" for w
  proof -
    from w obtain paths where "(wo_origin w, paths) \<in> set (all_origins here local_origins records)"
      by (auto simp: peer_overlaps_def List.map_filter_def workspace_overlap_of_def Let_def split: if_splits)
    then have p: "bm_get (all_origins here local_origins records) (wo_origin w) = Some paths" "bm_ok paths" "paths \<noteq> []"
      using all_origins_claims(1) [of here local_origins records]
        bm_get_Some_iff [of "all_origins here local_origins records" "wo_origin w" paths]
      unfolding origins_ok_def by blast+
    obtain host where "host \<in> set (bm_keys paths)" using p(3) by (cases paths) (auto simp: bm_keys_def)
    then have "bm_get paths host \<noteq> None" using bm.keys_look [of paths] by blast
    then have "(wo_origin w, host) \<in> claims (all_origins here local_origins records)" using p(1) by (auto simp: claims_def)
    then show ?thesis by (auto simp: all_origins_claims(2))
  qed
  moreover have "CHR ''@'' \<notin> set (fst (snd (origin_parts (report_origin o1))))" for o1
  proof -
    obtain s a q where "origin_parts (origin_base o1) = (s, a, q)" by (cases "origin_parts (origin_base o1)")
    from report_parts [OF this] show ?thesis by (metis fst_conv snd_conv)
  qed
  ultimately show ?thesis
    using report_origin_chars report_origin_idem unfolding list_all_iff by metis
qed

section \<open>Peers and exit codes\<close>

text \<open>A pull that fails or is rejected adds no record, so no workers and no overlap claim, and is named in the report.\<close>

theorem rejected_peer_contributes_nothing:
  assumes "poll_peer ch cfg pull moment peer (t, workers, records, statuses) = Inr (t', workers', records', statuses')"
  shows "records' = records \<and> bm_get workers' (pc_host_id peer) = Some (unknown_workers cfg)
      \<and> pst_error (last statuses') \<noteq> None
    \<or> (\<exists>r. pull peer = Inr r \<and> pr_host_id r = pc_host_id peer \<and> records' = records @ [r]
        \<and> bm_get workers' (pc_host_id peer) = Some (record_workers cfg r) \<and> pst_error (last statuses') = None)"
  using assms
  by (auto simp: poll_peer_def Let_def ingest_def fetched_record_def rejected_status_def accepted_status_def bm_get_put
      split: prod.splits sum.splits option.splits if_splits)

text \<open>Only the run loop actuates: every other command ends, and a configuration that does not load exits with 2.\<close>

theorem broken_config_exits_2:
  assumes "ce_config env = Inl (Bail e)" "cmd \<noteq> PreflightCmd" "cmd \<noteq> DashboardCmd"
  shows "process_exit (run_cli env cmd) = Some 2"
  using assms by (cases cmd) (simp_all add: run_cli_def or_end_def bind_end_def end_result_def)

end
