(* ===== verification/Dashboard_Ui.thy ===== *)
theory Dashboard_Ui
  imports Dashboard_Laws Fleet_Io Record_Text
begin

text \<open>
  \<open>src/dashboard/ui.rs\<close>, what the interactive view says of an account before it is laid out: the window it puts
  first, the window it warns of, the health of the account, the texts of durations, ages and estimates, when a
  pressure fraction may be shown and why not, and the curve of a projection.  A number that is printed with a fixed
  number of digits is the number; layout, styles and widgets are left out.
\<close>

section \<open>Views\<close>

datatype view = TooSmall | Waiting | Details | Overview | Compact

definition draw_view :: "nat \<Rightarrow> nat \<Rightarrow> nat \<Rightarrow> ui_state \<Rightarrow> view" where
  "draw_view width height accounts s =
     (let content_width = (if 90 \<le> width then width - 2 else width)
      in if width < 50 \<or> height < 14 then TooSmall
         else if accounts = 0 then Waiting
         else if us_details s then Details
         else if 108 \<le> content_width \<and> 36 \<le> height \<and> accounts \<le> 3 then Overview
         else Compact)"

section \<open>Windows\<close>

text \<open>\<open>min_by\<close> of \<open>total_cmp\<close>: the first of the least.\<close>

fun min_by_total :: "('a \<Rightarrow> f64) \<Rightarrow> 'a list \<Rightarrow> 'a option" where
  "min_by_total f [] = None"
| "min_by_total f (x # xs) = (case min_by_total f xs of
     None \<Rightarrow> Some x | Some y \<Rightarrow> if ftotal_lt (f y) (f x) then Some y else Some x)"

definition primary_window :: "account_card \<Rightarrow> window_card option" where
  "primary_window a = min_by_total wc_headroom (cc_windows a)"

definition depletes :: "window_card \<Rightarrow> bool" where
  "depletes w = (wc_fresh w \<and> wc_empty_at w \<noteq> None)"

definition empties_late :: "window_card \<Rightarrow> bool" where
  "empties_late w = is_some_and (\<lambda>t. wc_resets_at w < t) (wc_empty_at w)"

definition depletion_window :: "account_card \<Rightarrow> window_card option" where
  "depletion_window a = or_opt
     (min_by_key (\<lambda>w. (empties_late w, unwrap_or 0 (wc_empty_at w))) (filter depletes (cc_windows a)))
     (primary_window a)"

section \<open>Texts\<close>

definition show_number :: "nat option \<Rightarrow> string" where
  "show_number v = (case v of None \<Rightarrow> ''?'' | Some n \<Rightarrow> dec n)"

definition dec2 :: "nat \<Rightarrow> string" where
  "dec2 n = (if n < 10 then ''0'' @ dec n else dec n)"

definition show_duration :: "int \<Rightarrow> string" where
  "show_duration seconds =
     (if seconds < 0 then ''expired''
      else let s = nat seconds in
        if 86400 \<le> s then dec (s div 86400) @ ''d '' @ dec2 (s mod 86400 div 3600) @ ''h''
        else if 3600 \<le> s then dec (s div 3600) @ ''h '' @ dec2 (s mod 3600 div 60) @ ''m''
        else if 60 \<le> s then dec (s div 60) @ ''m '' @ dec2 (s mod 60) @ ''s''
        else dec s @ ''s'')"

definition show_age :: "chrono \<Rightarrow> datetime \<Rightarrow> datetime option \<Rightarrow> string" where
  "show_age ch now observed = (case observed of
     None \<Rightarrow> ''unknown age''
   | Some t \<Rightarrow> if now < t then ''future timestamp'' else show_duration (num_seconds ch (now - t)) @ '' ago'')"

datatype health = HealthUnknown | HealthStale | HealthHold | HealthFresh

definition hold_words :: "string list" where
  "hold_words = [''hold'', ''block'', ''pause'', ''degrad'', ''exhaust'', ''error'']"

definition health_of :: "account_card \<Rightarrow> health" where
  "health_of a =
     (if cc_windows a = [] then HealthUnknown
      else if list_ex (\<lambda>w. \<not> wc_fresh w) (cc_windows a) then HealthStale
      else let state = to_ascii_lower (cc_readiness a); reason = to_ascii_lower (cc_reason a)
        in if list_ex (\<lambda>s. contains_str s state \<or> contains_str s reason) hold_words then HealthHold
           else if state = ''unknown'' then HealthUnknown else HealthFresh)"

definition human :: "string \<Rightarrow> string" where
  "human v = replace_all ''::'' '' / '' (replace_all ''_'' '' '' v)"

definition provider_name :: "string \<Rightarrow> string" where
  "provider_name account = (if account = ''claude-anthropic'' then ''Anthropic''
     else if account = ''claude-zai'' then ''Z.ai'' else if account = ''codex'' then ''Codex'' else account)"

text \<open>The rate and the forecast that are printed; \<open>None\<close> is \<open>unknown\<close>.\<close>

definition shown_rate :: "window_card \<Rightarrow> f64 option" where
  "shown_rate w = (if wc_fresh w then wc_rate w else None)"

definition shown_forecast :: "window_card \<Rightarrow> f64 option" where
  "shown_forecast w = (if wc_fresh w then wc_remaining_at_reset w else None)"

definition middle_dot :: string where
  "middle_dot = map char_of [194, 183 :: nat]"

definition empty_estimate :: "chrono \<Rightarrow> window_card \<Rightarrow> datetime \<Rightarrow> string" where
  "empty_estimate ch w now = (if \<not> wc_fresh w then ''unknown'' else case wc_empty_at w of
     None \<Rightarrow> ''unknown''
   | Some t \<Rightarrow>
       let until = num_seconds ch (t - now);
           estimate = (if until \<le> 0 then ''due at measured pace'' else ''~'' @ show_duration until)
       in if wc_resets_at w < t then estimate @ '' '' @ middle_dot @ '' reset first'' else estimate)"

section \<open>Pressure\<close>

definition eligible_pressure :: "pressure_card \<Rightarrow> nat \<Rightarrow> nat \<Rightarrow> bool" where
  "eligible_pressure p attempts seconds = (pq_fresh p \<and> pq_observed p \<noteq> None \<and> 0 < seconds
     \<and> pq_min_attempts p \<le> attempts \<and> pq_min_window_seconds p \<le> seconds)"

definition pressure_fraction :: "pressure_card \<Rightarrow> bool \<Rightarrow> f64 option" where
  "pressure_fraction p concurrency = opt_filter (\<lambda>v. is_fin v \<and> in_unit v)
     (if concurrency
      then Option.bind (pq_saturation p) (\<lambda>s. opt_filter (\<lambda>v. eligible_pressure p (ss_attempts s) (ss_window_seconds s)) (ss_concurrency_fraction s))
      else Option.bind (pq_backpressure p) (\<lambda>s. opt_filter (\<lambda>v. eligible_pressure p (bp_attempts s) (bp_window_seconds s)) (bp_429_fraction s)))"

definition pressure_throughput :: "pressure_card \<Rightarrow> f64 option" where
  "pressure_throughput p = map_option (\<lambda>s. fdiv (f_of_nat (ss_completed_requests s)) (f_of_nat (ss_window_seconds s)))
     (opt_filter (\<lambda>s. pq_fresh p \<and> pq_observed p \<noteq> None \<and> 0 < ss_window_seconds s \<and> ss_completed_requests s \<le> ss_attempts s)
       (pq_saturation p))"

definition shown_percentage :: "f64 option \<Rightarrow> f64 option" where
  "shown_percentage v = map_option (\<lambda>n. fmul n (f_lit 100)) v"

definition pressure_status :: "pressure_card \<Rightarrow> health" where
  "pressure_status p = (if pq_observed p = None then HealthUnknown else if \<not> pq_fresh p then HealthStale else HealthFresh)"

text \<open>The attempts and the seconds of the sample behind a fraction.\<close>

definition pressure_counts :: "pressure_card \<Rightarrow> bool \<Rightarrow> (nat \<times> nat) option" where
  "pressure_counts p concurrency =
     (if concurrency then map_option (\<lambda>s. (ss_attempts s, ss_window_seconds s)) (pq_saturation p)
      else map_option (\<lambda>s. (bp_attempts s, bp_window_seconds s)) (pq_backpressure p))"

definition pressure_sample :: "pressure_card \<Rightarrow> bool \<Rightarrow> string" where
  "pressure_sample p concurrency = (case pressure_counts p concurrency of
     None \<Rightarrow> ''unknown'' | Some (n, seconds) \<Rightarrow> dec n @ ''/'' @ dec seconds @ ''s'')"

definition pressure_unknown_reason :: "pressure_card \<Rightarrow> bool \<Rightarrow> string" where
  "pressure_unknown_reason p concurrency =
     (if pq_observed p = None then ''source age unknown''
      else if \<not> pq_fresh p then (if pq_observed p \<noteq> None then ''stale source'' else ''source age unknown'')
      else case pressure_counts p concurrency of
        None \<Rightarrow> ''no cached sample''
      | Some (attempts, seconds) \<Rightarrow>
          if attempts < pq_min_attempts p then dec attempts @ ''/'' @ dec (pq_min_attempts p) @ '' minimum attempts''
          else if seconds < pq_min_window_seconds p \<or> seconds = 0
          then dec seconds @ ''/'' @ dec (pq_min_window_seconds p) @ ''s minimum interval''
          else ''fraction not reported'')"

section \<open>Projections\<close>

definition hours_since :: "chrono \<Rightarrow> datetime \<Rightarrow> datetime \<Rightarrow> f64" where
  "hours_since ch origin t = fdiv (f_of_int (num_seconds ch (t - origin))) (f_lit 3600)"

definition projection :: "chrono \<Rightarrow> window_card \<Rightarrow> datetime \<Rightarrow> (f64 \<times> f64) list" where
  "projection ch w origin = (case opt_filter (\<lambda>r. is_fin r \<and> flt (Fin 0) r) (wc_rate w) of
     None \<Rightarrow> []
   | Some rate \<Rightarrow>
       if \<not> wc_fresh w \<or> wc_remaining_at_reset w = None then []
       else let start = hours_since ch origin (wc_observed_at w); fin = hours_since ch origin (wc_resets_at w)
         in if fle fin start then []
            else let used = clamp_percent (wc_used_percent w);
                     exhaustion = fadd start (fdiv (fsub (f_lit 100) used) rate)
              in if flt exhaustion fin then [(start, used), (exhaustion, f_lit 100), (fin, f_lit 100)]
                 else [(start, used), (fin, fmin (fadd used (fmul rate (fsub fin start))) (f_lit 100))])"

section \<open>What the view says\<close>

text \<open>The window with the least headroom comes first.\<close>

lemma f64_values: "x = NaN \<or> x = Inf True \<or> x = Inf False \<or> x = NZero \<or> (\<exists>q. x = Fin q)"
  by (metis (full_types) f64.exhaust)

lemma ftotal_lt_trans: "\<not> ftotal_lt y x \<Longrightarrow> \<not> ftotal_lt z y \<Longrightarrow> \<not> ftotal_lt z x"
  using f64_values [of x] f64_values [of y] f64_values [of z] by (elim disjE exE) simp_all

lemma ftotal_lt_antisym: "ftotal_lt x y \<Longrightarrow> \<not> ftotal_lt y x"
  using f64_values [of x] f64_values [of y] by (elim disjE exE) simp_all

lemma ftotal_lt_irrefl: "\<not> ftotal_lt x x"
  using ftotal_lt_antisym by blast

lemma min_by_total_None [simp]: "min_by_total f xs = None \<longleftrightarrow> xs = []"
  by (cases xs) (auto split: option.splits)

lemma min_by_total_Some:
  "min_by_total f xs = Some x \<Longrightarrow> x \<in> set xs \<and> (\<forall>y \<in> set xs. \<not> ftotal_lt (f y) (f x))"
proof (induction xs arbitrary: x)
  case (Cons z xs)
  show ?case
  proof (cases "min_by_total f xs")
    case None
    then show ?thesis using Cons.prems by (simp add: ftotal_lt_irrefl)
  next
    case (Some y)
    then show ?thesis using Cons.IH [OF Some] Cons.prems
      by (auto simp: ftotal_lt_irrefl ftotal_lt_antisym split: if_splits dest: ftotal_lt_trans)
  qed
qed simp

text \<open>
  The window the view warns of: a depletion before its reset wins over one after it, and the earliest over the
  later ones; without any depletion it is the window with the least headroom.
\<close>

lemma depletion_window_cases:
  assumes "depletion_window a = Some w"
  shows "w \<in> set (cc_windows a)
     \<and> (if \<exists>v \<in> set (cc_windows a). depletes v
        then depletes w
          \<and> (\<forall>v \<in> set (cc_windows a). depletes v \<and> \<not> empties_late v \<longrightarrow>
               \<not> empties_late w \<and> unwrap_or 0 (wc_empty_at w) \<le> unwrap_or 0 (wc_empty_at v))
        else \<forall>v \<in> set (cc_windows a). \<not> ftotal_lt (wc_headroom v) (wc_headroom w))"
proof (cases "min_by_key (\<lambda>w. (empties_late w, unwrap_or 0 (wc_empty_at w))) (filter depletes (cc_windows a))")
  case None
  then have "filter depletes (cc_windows a) = []" by simp
  then have "\<not> (\<exists>v \<in> set (cc_windows a). depletes v)" by (simp add: filter_empty_conv)
  then show ?thesis using assms None min_by_total_Some [of wc_headroom "cc_windows a" w]
    by (simp add: depletion_window_def primary_window_def)
next
  case (Some x)
  then have "x = w" using assms by (simp add: depletion_window_def)
  then have w: "w \<in> set (filter depletes (cc_windows a))"
      "\<forall>v \<in> set (filter depletes (cc_windows a)). (empties_late w, unwrap_or 0 (wc_empty_at w)) \<le> (empties_late v, unwrap_or 0 (wc_empty_at v))"
    using min_by_key_Some [OF Some] by auto
  then show ?thesis by (auto simp: less_eq_prod_def)
qed

text \<open>A fraction that may be shown lies between 0 and 1; where a sample qualifies, the reason for showing none is
  that none was reported, and where it does not, another reason is given.\<close>

lemma pressure_fraction_unit: "pressure_fraction p concurrency = Some v \<Longrightarrow> in_unit v"
  by (auto simp: pressure_fraction_def opt_filter_def split: option.splits if_splits)

lemma dec_not_fraction: "dec n @ ''/'' @ s \<noteq> ''fraction not reported''"
proof -
  obtain c r where "dec n = c # r" "is_digit c" using dec_digits [of n] by (cases "dec n") auto
  then show ?thesis by (auto simp: is_digit_def byte_def)
qed

lemma unknown_reason_iff:
  assumes "pressure_counts p concurrency = Some (attempts, seconds)"
  shows "pressure_unknown_reason p concurrency = ''fraction not reported'' \<longleftrightarrow> eligible_pressure p attempts seconds"
  using assms dec_not_fraction by (auto simp: pressure_unknown_reason_def eligible_pressure_def)

text \<open>A projection is drawn for a fresh window only, ends at the reset and never exceeds 100 percent.\<close>

lemma hours_not_nan: "hours_since ch origin t \<noteq> NaN"
  unfolding hours_since_def f_of_int_def by (rule fdiv_not_nan) (simp_all add: f_lit_3600)

lemma fmin_le_right: "b \<noteq> NaN \<Longrightarrow> fle (fmin a b) b"
  by (auto simp: fmin_def fle_refl not_flt_iff)

lemma projection_stays_inside:
  assumes "projection ch w origin \<noteq> []" "wc_used_percent w \<noteq> NaN"
  shows "wc_fresh w \<and> fst (last (projection ch w origin)) = hours_since ch origin (wc_resets_at w)
     \<and> list_all (\<lambda>(x, y). fle x (hours_since ch origin (wc_resets_at w)) \<and> fle y (Fin 100)) (projection ch w origin)"
proof -
  let ?start = "hours_since ch origin (wc_observed_at w)" and ?fin = "hours_since ch origin (wc_resets_at w)"
  obtain rate where rate: "opt_filter (\<lambda>r. is_fin r \<and> flt (Fin 0) r) (wc_rate w) = Some rate"
    using assms(1) by (auto simp: projection_def split: option.splits)
  have guards: "wc_fresh w" "wc_remaining_at_reset w \<noteq> None" "\<not> fle ?fin ?start"
    using assms(1) rate by (auto simp: projection_def Let_def split: if_splits)
  then obtain left where left: "wc_remaining_at_reset w = Some left" by blast
  have start: "fle ?start ?fin"
    using guards(3) not_flt_iff [of ?fin ?start] hours_not_nan flt_imp_fle by blast
  have used: "fle (clamp_percent (wc_used_percent w)) (Fin 100)"
    using clamp_percent_range [of "wc_used_percent w"] assms(2) by (auto simp: clamp_percent_def split: if_splits)
  show ?thesis
    using rate guards(1,3) left start used hours_not_nan fmin_le_right [of "Fin 100"]
    by (simp add: projection_def Let_def f_lit_100 fle_refl flt_imp_fle)
qed

end
