(* ===== verification/Atomic_File.thy ===== *)
theory Atomic_File
  imports Local_Record "HOL-Library.Word"
begin

unbundle bit_operations_syntax

text \<open>
  Files that are replaced through a temporary file and a rename: the credentials (\<open>write_json_atomic\<close> of
  \<open>src/source.rs\<close>), the status report (\<open>src/main.rs\<close>) and the private files of a record (\<open>src/federation.rs\<close>).  A
  writer is a list of steps with the file system's answer to each; running it gives every state the disk passes
  through, so that a crash between two steps is one of them.  The bytes serde writes are a parameter.
\<close>

section \<open>Files and steps\<close>

record disk_file =
  df_content :: string
  df_mode :: "32 word"
  df_owner :: "nat \<times> nat"

record file_slot =
  sl_file :: "disk_file option"
  sl_temp :: "disk_file option"

text \<open>A step: the answer, what it changes when it succeeds and when it fails.\<close>

type_synonym file_step = "unit res \<times> (file_slot \<Rightarrow> file_slot) \<times> (file_slot \<Rightarrow> file_slot)"

fun run_steps :: "file_step list \<Rightarrow> file_slot \<Rightarrow> file_slot list \<times> unit res" where
  "run_steps [] s = ([s], Inr ())"
| "run_steps ((Inl e, good, bad) # ps) s = ([s, bad s], Inl e)"
| "run_steps ((Inr u, good, bad) # ps) s = (case run_steps ps (good s) of (visited, r) \<Rightarrow> (s # visited, r))"

definition on_temp :: "(disk_file \<Rightarrow> disk_file) \<Rightarrow> file_slot \<Rightarrow> file_slot" where
  "on_temp f s = s\<lparr> sl_temp := map_option f (sl_temp s) \<rparr>"

definition install_temp :: "file_slot \<Rightarrow> file_slot" where
  "install_temp s = s\<lparr> sl_file := sl_temp s, sl_temp := None \<rparr>"

definition checked_step :: "unit res \<Rightarrow> file_step" where
  "checked_step r = (r, id, id)"

text \<open>A failed write leaves a part of the content behind.\<close>

definition write_step :: "unit res \<Rightarrow> nat \<Rightarrow> string \<Rightarrow> file_step" where
  "write_step r written content =
     (r, on_temp (\<lambda>f. f\<lparr> df_content := content \<rparr>), on_temp (\<lambda>f. f\<lparr> df_content := take written content \<rparr>))"

record file_io =
  fi_directory :: "unit res"
  fi_create :: "unit res"
  fi_write :: "unit res"
  fi_written :: nat
  fi_mode :: "unit res"
  fi_sync :: "unit res"
  fi_owner :: "unit res"
  fi_rename :: "unit res"
  fi_open_directory :: "unit res"
  fi_sync_directory :: "unit res"
  fi_removes :: bool
  fi_umask :: "32 word"
  fi_process :: "nat \<times> nat"

text \<open>A new file: the mode asked for without the bits of the process's mask, and the process's owner.\<close>

definition new_file :: "file_io \<Rightarrow> 32 word \<Rightarrow> disk_file" where
  "new_file io mode = \<lparr> df_content = [], df_mode = mode AND NOT (fi_umask io), df_owner = fi_process io \<rparr>"

definition put_temp :: "disk_file \<Rightarrow> file_slot \<Rightarrow> file_slot" where
  "put_temp f s = s\<lparr> sl_temp := Some f \<rparr>"

definition create_new_step :: "file_io \<Rightarrow> 32 word \<Rightarrow> file_slot \<Rightarrow> file_step" where
  "create_new_step io mode s =
     (if sl_temp s \<noteq> None then Inl (Bail ''File exists'') else fi_create io, put_temp (new_file io mode), id)"

text \<open>A failed writer removes its temporary file.\<close>

definition remove_on_error :: "file_io \<Rightarrow> file_slot list \<times> unit res \<Rightarrow> file_slot list \<times> unit res" where
  "remove_on_error io m = (case m of
     (visited, Inl e) \<Rightarrow> (visited @ (if fi_removes io then [(last visited)\<lparr> sl_temp := None \<rparr>] else []), Inl e)
   | (visited, Inr u) \<Rightarrow> (visited, Inr u))"

section \<open>The writers\<close>

text \<open>The old file's metadata are read with \<open>.ok()\<close>: metadata that cannot be read are those of a missing file,
  \<open>sl_file = None\<close>, for the mode and the owner.\<close>

definition credentials_mode :: "file_slot \<Rightarrow> 32 word" where
  "credentials_mode s = (case sl_file s of None \<Rightarrow> 0x180 | Some f \<Rightarrow> df_mode f AND 0x1FF)"

definition write_json_atomic :: "file_io \<Rightarrow> string \<Rightarrow> file_slot \<Rightarrow> file_slot list \<times> unit res" where
  "write_json_atomic io json s = remove_on_error io (run_steps
     ([create_new_step io (credentials_mode s) s,
       write_step (fi_write io) (fi_written io) (json @ [CHR 10]),
       checked_step (fi_sync io)]
      @ (case sl_file s of None \<Rightarrow> []
         | Some f \<Rightarrow> [(fi_owner io, on_temp (\<lambda>t. t\<lparr> df_owner := df_owner f \<rparr>), id)])
      @ [(fi_rename io, install_temp, id),
         checked_step (fi_open_directory io),
         checked_step (fi_sync_directory io)]) s)"

definition write_status_report :: "file_io \<Rightarrow> string \<Rightarrow> file_slot \<Rightarrow> file_slot list \<times> unit res" where
  "write_status_report io json s = (case fi_directory io of
     Inl e \<Rightarrow> ([s], Inl e)
   | Inr _ \<Rightarrow> remove_on_error io (run_steps
       [create_new_step io 0x1B6 s,
        write_step (fi_write io) (fi_written io) (json @ [CHR 10]),
        checked_step (fi_sync io),
        (fi_rename io, install_temp, id)] s))"

text \<open>\<open>File::create\<close> empties a file that is there and keeps its mode and owner; nothing is synced or removed.\<close>

definition create_step :: "file_io \<Rightarrow> file_step" where
  "create_step io = (fi_create io,
     (\<lambda>s. put_temp (case sl_temp s of None \<Rightarrow> new_file io 0x1B6 | Some f \<Rightarrow> f\<lparr> df_content := [] \<rparr>) s), id)"

definition write_private_file :: "file_io \<Rightarrow> string \<Rightarrow> file_slot \<Rightarrow> file_slot list \<times> unit res" where
  "write_private_file io bytes s = run_steps
     [checked_step (fi_directory io),
      create_step io,
      (fi_mode io, on_temp (\<lambda>f. f\<lparr> df_mode := 0x180 \<rparr>), id),
      write_step (fi_write io) (fi_written io) bytes,
      (fi_rename io, install_temp, id)] s"

section \<open>Laws\<close>

lemma on_temp_simps [simp]:
  "sl_file (on_temp f s) = sl_file s" "sl_temp (on_temp f s) = map_option f (sl_temp s)"
  by (simp_all add: on_temp_def)

lemma install_temp_simps [simp]: "sl_file (install_temp s) = sl_temp s" "sl_temp (install_temp s) = None"
  by (simp_all add: install_temp_def)

lemma put_temp_simps [simp]: "sl_file (put_temp f s) = sl_file s" "sl_temp (put_temp f s) = Some f"
  by (simp_all add: put_temp_def)

lemma run_steps_visits [simp]: "fst (run_steps ps s) \<noteq> []"
  by (induction ps s rule: run_steps.induct) (auto split: prod.splits)

text \<open>The removal keeps the file in every state, and the result.\<close>

lemma remove_on_error_files:
  assumes "visited \<noteq> []" "\<forall>t \<in> set visited. P (sl_file t)"
  shows "\<forall>t \<in> set (fst (remove_on_error io (visited, r))). P (sl_file t)"
proof -
  have "last visited \<in> set visited" using assms(1) by simp
  then show ?thesis using assms(2) by (cases r) (auto simp: remove_on_error_def)
qed

lemma remove_on_error_simps [simp]:
  "snd (remove_on_error io m) = snd m"
  "snd m = Inr u \<Longrightarrow> remove_on_error io m = m"
  "fst m \<noteq> [] \<Longrightarrow> sl_file (last (fst (remove_on_error io m))) = sl_file (last (fst m))"
  by (cases m; cases "snd m"; auto simp: remove_on_error_def)+

end
