(* ===== verification/Atomic_Properties.thy ===== *)
theory Atomic_Properties
  imports Atomic_File
begin

text \<open>
  What is shown of the files that are replaced: at no moment is one seen half written, whatever the file system
  answers and wherever the process dies.
\<close>

section \<open>Replacement\<close>

text \<open>In every state the disk passes through the file is the old one or the new one, and success installs the new.\<close>

definition replaces :: "file_slot \<Rightarrow> disk_file \<Rightarrow> file_slot list \<times> unit res \<Rightarrow> bool" where
  "replaces s new m = (list_all (\<lambda>t. sl_file t = sl_file s \<or> sl_file t = Some new) (fst m)
     \<and> (snd m = Inr () \<longrightarrow> sl_file (last (fst m)) = Some new \<and> sl_temp (last (fst m)) = None))"

definition old_owner :: "file_io \<Rightarrow> disk_file option \<Rightarrow> nat \<times> nat" where
  "old_owner io f = (case f of None \<Rightarrow> fi_process io | Some f \<Rightarrow> df_owner f)"

lemma replaces_removed:
  assumes "replaces s new m" "fst m \<noteq> []"
  shows "replaces s new (remove_on_error io m)"
proof -
  obtain visited r where m: "m = (visited, r)" by (cases m)
  then have "\<forall>t \<in> set (fst (remove_on_error io (visited, r))). sl_file t = sl_file s \<or> sl_file t = Some new"
    using assms remove_on_error_files [of visited "\<lambda>f. f = sl_file s \<or> f = Some new" io r]
    by (simp add: replaces_def list_all_iff)
  then show ?thesis using assms m by (cases r) (auto simp: replaces_def list_all_iff remove_on_error_def)
qed

lemma replaces_simps:
  "replaces s new ([t], Inl e) = (sl_file t = sl_file s \<or> sl_file t = Some new)"
  "replaces s new ([t, u], Inl e) =
     ((sl_file t = sl_file s \<or> sl_file t = Some new) \<and> (sl_file u = sl_file s \<or> sl_file u = Some new))"
  "replaces s new ([t], Inr ()) = (sl_file t = Some new \<and> sl_temp t = None)"
  "vs \<noteq> [] \<Longrightarrow> replaces s new (t # vs, r) = ((sl_file t = sl_file s \<or> sl_file t = Some new) \<and> replaces s new (vs, r))"
  by (auto simp: replaces_def)

text \<open>The steps one by one: what is still to do runs in the state the step leaves.\<close>

lemma replaces_step:
  "replaces s new (run_steps ((r, good, bad) # ps) t) =
     ((sl_file t = sl_file s \<or> sl_file t = Some new)
      \<and> (case r of Inl e \<Rightarrow> sl_file (bad t) = sl_file s \<or> sl_file (bad t) = Some new
         | Inr u \<Rightarrow> replaces s new (run_steps ps (good t))))"
proof (cases r)
  case (Inr u)
  obtain vs q where vs: "run_steps ps (good t) = (vs, q)" by (cases "run_steps ps (good t)")
  then have "vs \<noteq> []" using run_steps_visits [of ps "good t"] by simp
  then show ?thesis using vs Inr by (simp add: replaces_simps)
qed (simp add: replaces_simps)

lemma credentials_replaced:
  "replaces s \<lparr> df_content = json @ [CHR 10], df_mode = credentials_mode s AND NOT (fi_umask io),
     df_owner = old_owner io (sl_file s) \<rparr> (write_json_atomic io json s)"
  unfolding write_json_atomic_def
  by (rule replaces_removed)
    (auto simp: replaces_step replaces_simps create_new_step_def write_step_def checked_step_def new_file_def old_owner_def
      split: sum.splits option.splits)

lemma status_replaced:
  "replaces s \<lparr> df_content = json @ [CHR 10], df_mode = 0x1B6 AND NOT (fi_umask io), df_owner = fi_process io \<rparr>
     (write_status_report io json s)"
proof (cases "fi_directory io")
  case (Inr u)
  have "replaces s \<lparr> df_content = json @ [CHR 10], df_mode = 0x1B6 AND NOT (fi_umask io), df_owner = fi_process io \<rparr>
      (remove_on_error io (run_steps [create_new_step io 0x1B6 s, write_step (fi_write io) (fi_written io) (json @ [CHR 10]),
        checked_step (fi_sync io), (fi_rename io, install_temp, id)] s))"
    by (rule replaces_removed)
      (auto simp: replaces_step replaces_simps create_new_step_def write_step_def checked_step_def new_file_def
        split: sum.splits)
  then show ?thesis using Inr by (simp add: write_status_report_def)
qed (simp add: write_status_report_def replaces_simps)

lemma private_replaced:
  "replaces s \<lparr> df_content = bytes, df_mode = 0x180, df_owner = old_owner io (sl_temp s) \<rparr> (write_private_file io bytes s)"
  by (auto simp: write_private_file_def replaces_step replaces_simps create_step_def write_step_def checked_step_def
      new_file_def old_owner_def split: sum.splits option.splits)

text \<open>C28: The files the governor rewrites are replaced whole.  Whatever the file system answers, and in every state the
  disk passes through, so also when the process dies between two steps, the credentials, the status report and a
  private file are either what they were or completely what they become: the credentials with the owner they had
  and the permission bits they had, less the mask of the process, a private file readable and writable by its owner
  only.  A writer that reports success has installed the new file and left no temporary one.\<close>

theorem files_are_replaced_whole:
  "replaces s \<lparr> df_content = json @ [CHR 10], df_mode = credentials_mode s AND NOT (fi_umask io),
       df_owner = old_owner io (sl_file s) \<rparr> (write_json_atomic io json s)
   \<and> replaces s \<lparr> df_content = json @ [CHR 10], df_mode = 0x1B6 AND NOT (fi_umask io), df_owner = fi_process io \<rparr>
       (write_status_report io json s)
   \<and> replaces s \<lparr> df_content = bytes, df_mode = 0x180, df_owner = old_owner io (sl_temp s) \<rparr>
       (write_private_file io bytes s)"
  using credentials_replaced status_replaced private_replaced by blast

text \<open>The mask applies to the temporary file too and no later step sets the mode: group access is lost on a refresh.\<close>

definition masked_io :: file_io where
  "masked_io = \<lparr> fi_directory = Inr (), fi_create = Inr (), fi_write = Inr (), fi_written = 0, fi_mode = Inr (),
     fi_sync = Inr (), fi_owner = Inr (), fi_rename = Inr (), fi_open_directory = Inr (), fi_sync_directory = Inr (),
     fi_removes = True, fi_umask = 0x3F, fi_process = (0, 0) \<rparr>"

lemma refresh_narrows_mode:
  "map_option df_mode (sl_file (last (fst (write_json_atomic masked_io ''{}''
     \<lparr> sl_file = Some \<lparr> df_content = ''{}'', df_mode = 0x1B0, df_owner = (7, 7) \<rparr>, sl_temp = None \<rparr>)))) = Some 0x180"
  by (simp add: write_json_atomic_def masked_io_def create_new_step_def write_step_def checked_step_def new_file_def
      credentials_mode_def remove_on_error_def put_temp_def on_temp_def install_temp_def)

end
