(* ===== verification/Peer_Pull.thy ===== *)
theory Peer_Pull
  imports Commands Source_Collect Fleet_Io
begin

text \<open>
  \<open>src/federation.rs\<close>, the transport of a peer record: the command a peer is asked with, the bounded pull and
  what becomes of a failed one, and the origin \<open>git\<close> reports for a workspace.  The programs' answers and the two
  decodings of a record by serde are parameters.
\<close>

section \<open>Pulling\<close>

datatype peer_pull_error = PullTransport string source_error | PullRecord string peer_record_error

definition peer_connect_timeout :: nat where "peer_connect_timeout = 5"

definition default_peer_argv :: "string \<Rightarrow> nat \<Rightarrow> string list" where
  "default_peer_argv host seconds = [''ssh'', ''-o'', ''ConnectTimeout='' @ dec (max seconds 1), host,
     ''subgov'', ''peer-state'', ''--json'']"

record record_codec =
  rk_probe :: "string \<Rightarrow> nat option"
  rk_decode :: "string \<Rightarrow> peer_record option"

definition pull_peer_record_bounded ::
  "source_env \<Rightarrow> record_codec \<Rightarrow> string list \<Rightarrow> source_world \<Rightarrow> source_world \<times> (peer_pull_error + peer_record)" where
  "pull_peer_record_bounded env c argv w = (case read_generic_command_bytes env argv w of
     (w, Inl e) \<Rightarrow> (w, Inl (PullTransport (join_words argv) e))
   | (w, Inr bytes) \<Rightarrow> (w, case record_parse (rk_probe c) (rk_decode c) bytes of
       Inl e \<Rightarrow> Inl (PullRecord (join_words argv) e)
     | Inr r \<Rightarrow> Inr r))"

definition pull_peer_record ::
  "source_env \<Rightarrow> record_codec \<Rightarrow> peer_config \<Rightarrow> source_world \<Rightarrow> source_world \<times> (peer_pull_error + peer_record)" where
  "pull_peer_record env c peer w = pull_peer_record_bounded env c
     (unwrap_or (default_peer_argv (pc_host_id peer) peer_connect_timeout) (pc_argv peer)) w"

text \<open>The two failures as the commands and the table see them.\<close>

fun pull_failure_of :: "peer_pull_error \<Rightarrow> pull_failure" where
  "pull_failure_of (PullTransport _ _) = TransportFailed"
| "pull_failure_of (PullRecord _ _) = InvalidPeerRecord"

definition pull_answer :: "peer_pull_error + peer_record \<Rightarrow> pull_failure + peer_record" where
  "pull_answer r = map_sum pull_failure_of id r"

section \<open>Origins\<close>

definition git_origin :: "program_output option \<Rightarrow> string option" where
  "git_origin answer = Option.bind answer (\<lambda>out. if \<not> out_success out then None
     else Option.bind (from_utf8 (out_stdout out)) (\<lambda>s. let url = trim s in if url = [] then None else Some url))"

section \<open>Laws\<close>

text \<open>
  A pulled record is the whole output of a command that succeeded, within the bound, of the supported version and
  valid; nothing is killed on the way.
\<close>

lemma pulled_record_is_whole:
  assumes "pull_peer_record_bounded env c argv w = (w', Inr r)"
  shows "w' = w \<and> record_ok r \<and> (\<exists>out. se_run env argv = Ran out (Some True)
     \<and> length (rd_bytes out) \<le> max_generic_source_bytes
     \<and> rk_probe c (rd_bytes out) = Some peer_record_schema_version \<and> rk_decode c (rd_bytes out) = Some r)"
proof (cases argv)
  case Nil
  then show ?thesis using assms by (simp add: pull_peer_record_bounded_def other_def)
next
  case (Cons command args)
  obtain out bytes where run: "se_run env argv = Ran out (Some True)" "w' = w"
      "bounded (CommandReadFailed command) out = Inr bytes" "record_parse (rk_probe c) (rk_decode c) bytes = Inr r"
    using assms Cons by (auto simp: pull_peer_record_bounded_def split: command_run.splits sum.splits option.splits if_splits)
  have "bytes = rd_bytes out" "length (rd_bytes out) \<le> max_generic_source_bytes"
    using run(3) by (auto simp: bounded_def read_bounded_def Let_def split: sum.splits if_splits)
  then show ?thesis using run by (auto simp: record_parse_Inr)
qed

text \<open>A pull that fails, whichever way, leaves the table as it is and is announced as a failed fetch.\<close>

lemma failed_pull_changes_nothing:
  assumes "snd (pull_peer_record env c peer w) = Inl e"
  shows "ingest ch t peer (fetched_record (pull_answer (snd (pull_peer_record env c peer w)))) now = (t, Inl FetchFailed)"
  using assms by (simp add: pull_answer_def fetched_record_def ingest_def)

text \<open>The origin \<open>git\<close> reports is never blank.\<close>

lemma git_origin_nonempty: "git_origin answer = Some url \<Longrightarrow> url \<noteq> []"
  by (auto simp: git_origin_def Let_def split: bind_splits if_splits)

end
