(* ===== verification/Spec2Isabelle.thy ===== *)
theory Spec2Isabelle
  imports Quota_Properties Control_Properties Brake_Properties Placement_Properties
    Federation_Properties State_Properties Config_Properties Record_Properties
    Fleet_Properties Fleet_Io_Properties Cycle_Properties Source_Properties Dashboard_Properties
    Run_Properties Command_Properties Dashboard_Ui
    Atomic_Properties Peer_Pull
begin

text \<open>
  A model of the subscription quota governor, the Rust program under \<open>src/src\<close>.  The governor watches the
  quota windows of subscription accounts and chooses how many workers each account runs, on one host, over
  several hosts of one instance, or over federated instances that share an account.

  \<^bold>\<open>Parts and theories.\<close>

  \<^item> \<open>Prelude\<close>, \<open>BMap\<close>, \<open>Strs\<close>, \<open>F64\<close>, \<open>F64_Laws\<close>, \<open>Chrono\<close>: results with errors and panics as values,
    saturating and wrapping integers, \<open>BTreeMap\<close> as a sorted association list (a locale of ordered maps,
    interpreted on it), UTF-8 byte strings, binary64 arithmetic with round-to-even, and the time types.
    The arithmetic of \<open>F64\<close> is that of IEEE 754; NaN payloads are not distinguished.  Instants and durations
    are integers of nanoseconds; the range of the time library is a record of parameters.
  \<^item> \<open>Model\<close> (\<open>model.rs\<close>): quota snapshots, their validation, the reset-generation test.
  \<^item> \<open>Config\<close>, \<open>Config_Validate\<close>, \<open>Config_Laws\<close> (\<open>config.rs\<close>): the configuration, the lookup of a window's
    policy, path expansion and prefix rewriting; every check of \<open>Config::validate\<close> in its order with its
    message; \<open>Config::load\<close> after parsing.
  \<^item> \<open>Burn\<close>, \<open>Controller\<close> and their laws (\<open>controller.rs\<close>): the burn estimators, the windows' decisions,
    banked resets, step limits, \<open>evaluate\<close> and \<open>evaluate_pool\<close>.
  \<^item> \<open>Backpressure\<close> (\<open>controller.rs\<close>) and \<open>Saturation\<close> (\<open>saturation.rs\<close>): the two state machines that follow
    a decision.
  \<^item> \<open>Placement\<close> (\<open>placement.rs\<close>): the split of a decision over the hosts of an instance.
  \<^item> \<open>State\<close> and \<open>Steps\<close> (\<open>state.rs\<close>): the state file's content, what each operation records, and its
    normalisation when it is loaded.
  \<^item> \<open>Identity\<close>, \<open>Ownership\<close> (\<open>ownership.rs\<close>): worker prefixes, workspace ownership, the launch gate.
  \<^item> \<open>Peer_Record\<close>, \<open>Peer_Table\<close>, \<open>Shared_Total\<close>, \<open>Local_Record\<close> (\<open>federation.rs\<close>): the published record and
    its validation, the table of pulled records, the split of a shared account, and the assembly of this
    instance's own record.
  \<^item> \<open>Json\<close>, \<open>Fleet\<close> (\<open>fleet.rs\<close>), \<open>Needle\<close> (\<open>fleet/needle.rs\<close>): observing a fleet and applying a
    decision to it, as a result together with the list of actuator invocations; the NEEDLE adapter's
    heartbeats, seeds, sessions and the commands it issues.
  \<^item> \<open>Fleet_Io\<close>, \<open>Fleet_Adapters\<close> (\<open>fleet.rs\<close>, \<open>fleet/needle.rs\<close>): the adapters behind an observer and an
    actuator: files and commands read under a bound of bytes and time, target files, children that are polled
    and killed, captured programs.  They give the answers that \<open>fleet_io\<close> of \<open>Fleet\<close> takes as parameters.
  \<^item> \<open>Source_Read\<close>, \<open>Source_Parse\<close>, \<open>Source_Token\<close>, \<open>Source_Codex\<close>, \<open>Source_Collect\<close> (\<open>source.rs\<close>): reading
    under a bound, the providers' answers, the access token and its refresh, the supervised Codex session,
    and \<open>collect\<close> over all kinds of source.
  \<^item> \<open>Cycle_World\<close>, \<open>Cycle_Federation\<close>, \<open>Cycle\<close>, \<open>Cycle_Run\<close> (\<open>main.rs\<close>): the control cycle that composes
    all parts.  An account is observed, decided, gated, placed, actuated and recorded, as a step that changes
    a world (the state, the federation runtime, the pending and exclusion files, the invocations, the
    metrics) and may fail; \<open>run_cycle\<close> runs the accounts in order and counts the failures.

  \<^item> \<open>State_File\<close> (\<open>state.rs\<close>), \<open>Governor_Run\<close> (\<open>main.rs\<close>): the state file on a disk, its quarantine and the copy
    kept of an older file; the run loop around the cycle, from the lock to the exit code, with the schedule,
    the jitter, the sleep and the status file.
  \<^item> \<open>Atomic_File\<close> (\<open>source.rs\<close>, \<open>main.rs\<close>, \<open>federation.rs\<close>): the files replaced through a temporary file,
    each writer as a list of steps; \<open>Peer_Pull\<close> (\<open>federation.rs\<close>): the transport of a peer record.
  \<^item> \<open>Preflight\<close> (\<open>preflight.rs\<close>), \<open>Commands\<close> (\<open>main.rs\<close>): the check of an inventory for two controllers of one
    account or fleet; the commands beside \<open>run\<close> (the overlap report of the peers, doctor, snapshot, status,
    peer-state) and the dispatch of the command line to an exit code.
  \<^item> \<open>Dashboard\<close>, \<open>Dashboard_Collect\<close> (\<open>dashboard.rs\<close>): terminal-safe text, the measured quota history, the
    window and pressure cards, the live workers, the accounts' cards and the keys.
  \<^item> \<open>Dashboard_Ui\<close> (\<open>dashboard/ui.rs\<close>): what the interactive view says of an account before it is laid out:
    the windows it puts first, health, texts, pressure, projections, with the laws of these.

  A structure of the source is a \<open>record\<close> with the source's fields, an enumeration a \<open>datatype\<close>; a \<open>u32\<close> or
  \<open>u64\<close> is a natural number with the saturation or the wrap of each operation written out; \<open>Result\<close> is a
  sum whose left side is an error the code returns or a panic.  Each definition is named after the function
  it translates; a part of a long function that has its own definition is mapped to its lines.

  \<^bold>\<open>What is shown.\<close>

  \<^item> \<open>Quota_Properties\<close>, \<open>Control_Properties\<close>: decisions stay in the configured range and step, stale data
    never scales up, the binding window is the least, a due redemption drains the fleet, unowned workers are
    accounted for, the limiter brings any count into the range with one step and then to the request, advisories
    escalate.
  \<^item> \<open>Brake_Properties\<close>: the brake only lowers, a decision below the minimum included, its state machine moves and
    recovers as specified; experiments stay inside the quota result, unless every window only learns or stays below
    its ceiling, and run one at a time.
  \<^item> \<open>Placement_Properties\<close>: the split is exact, host limits hold, growth stays in the target, a host
    whose resources are unknown, stale or exhausted is frozen.
  \<^item> \<open>Config_Properties\<close>: a validated configuration makes the controller total with targets in the unit
    interval; the loaded configuration is valid; the prefixes the accounts of a
    secondary host launch and observe under are apart, but for observers of \<open>fleet.hosts\<close>; step bounds fit.
  \<^item> \<open>Federation_Properties\<close>, \<open>Record_Properties\<close>: shares stay inside the total; the decision depends on no order, of
    hosts or of samples, that differ in more than the reset time; a
    silent peer freezes growth; which records are accepted; one host keeps a workspace; the launch gates of
    all instances never overshoot, as a refinement of an abstract reservation protocol (\<open>Ownership_Laws\<close>) in every
    outcome of a run, failing writes and pulls included, where the pull answers what it is asked after the intent is
    on disk;
    the published record is accepted by every peer and its sequence only moves forward.
  \<^item> \<open>Fleet_Properties\<close> (over \<open>Fleet_Laws\<close>): heartbeats fall in one bucket, seeds are balanced (ties go by
    the components of their paths), launches are new and owned, stops are exact, an actuator is invoked at most once and only for the local host.
  \<^item> \<open>Fleet_Io_Properties\<close> (over \<open>Fleet_Adapters\<close>): a target file is read back as it was written, a command
    actuator returns by its timeout with its child's verdict, a command observer returns unless its child
    outlives its own output.
  \<^item> \<open>Atomic_Properties\<close>: the credentials, the status report and private files are replaced whole in every state
    the disk passes through; \<open>Peer_Pull\<close>: a pulled record is the whole output of a command that succeeded.
  \<^item> \<open>Cycle_Properties\<close> (over \<open>Cycle_Laws\<close>, a locale of relations that every step of a cycle keeps, and
    \<open>Launch_Laws\<close>): an observing cycle and a held account invoke nothing, a failed account records nothing,
    an account changes its own state only, a cycle keeps the state well formed, every account is reported,
    and every launch of a federated instance is reserved first.
  \<^item> \<open>Source_Properties\<close> (over \<open>Source_Laws\<close>): a collected snapshot has every figure in its range, the Codex
    reader sends the lines of the stream, a refresh spares a concurrent rotation and replaces just its three fields, a session's answer is a captured update or the
    response to its own request, and a failed app-server is tried again within five minutes.
  \<^item> \<open>Run_Properties\<close> (over \<open>Run_Laws\<close> and \<open>Schedule_Laws\<close>): whatever the file system answers a process that
    reached its loop leaves a state file that can be loaded again, an older file is kept before it is replaced, but
    for a rollback file linked by another process meanwhile, a restart resumes the state, the exit code agrees with
    the status file or tells a failure of the run itself, a jittered wake is on time, a signal ends the sleep.
  \<^item> \<open>Preflight\<close>, \<open>Command_Properties\<close> (over \<open>Command_Laws\<close>): the preflight passes exactly when no account and no
    fleet has two controllers; the overlap report agrees with the exclusions the cycle acts on and carries no
    credentials; a rejected peer contributes nothing.
  \<^item> \<open>Dashboard_Properties\<close> (over \<open>Dashboard_Laws\<close>): a window's card shows a rate only for a fresh sample of
    the present window over one run of recorded samples, and a projection only for a linear quota; no
    control character reaches the terminal, the selection stays on an account.
  \<^item> \<open>State_Properties\<close>: recording keeps the state well formed, oscillation is alternation of distinct
    targets, loading restores every bound.

  \<^bold>\<open>Bounds.\<close>  Every function is total without fuel except \<open>fill\<close> of \<open>Placement\<close>, whose fuel is the number of
  workers still to place: each pass places one; and \<open>free_number\<close> of \<open>Needle\<close>, whose fuel is the number
  of sessions: among one more number than there are sessions one is free (\<open>Fleet_Laws\<close>).  A poll of a child ends
  by its deadline, which is the measure of its recursion; where the code can wait for ever, for a reader or for a
  child that is not polled, the definitions of \<open>Fleet_Io\<close> give \<open>None\<close>.  Histories are bounded by the constants of
  \<open>state.rs\<close>.

  \<^bold>\<open>Not modelled.\<close>  The file system, processes, HTTP, clocks, random numbers, locks and serde are not code of the
  repository: their answers (decoded content, whether a write succeeds, when a child exits) are arguments of the
  definitions that use them.  Of serde the theorems on the state file assume only what it writes itself
  (\<open>codec_laws\<close> of \<open>State_File\<close>): an encoding that decodes keeps its version
  and decodes alike with a newline after it.  A cycle reads its sources, clocks and peers from a record of such
  parameters.  The printing of events and reports, the parsing of arguments, and the layout, styles and widgets of the dashboard are
  left out: they render values that are modelled and keep no state of their own.
\<close>

end
